(* ===== verification/Prelude.thy ===== *)
theory Prelude
  imports Main "HOL-Library.Word"
begin

text \<open>
  Shared vocabulary of the development: results of Python code that may raise
  (\<open>'a res\<close>), the sequencing operator \<open>rbind\<close>, loops over lists that stop at the
  first exception, and the generic loop that decodes items from a buffer until an end
  offset is reached.  The collections \<open>res_simps\<close> (results) and \<open>buf_simps\<close>
  (buffers) carry most of the component proofs.
\<close>

named_theorems res_simps
named_theorems buf_simps

subsection \<open>Exceptions as values\<close>

text \<open>
  The exceptions the modelled code can raise.  Subclasses of \<open>ValueError\<close> that the code
  never tells apart (\<open>AddressValueError\<close>, \<open>UnicodeDecodeError\<close>,
  \<open>UnicodeEncodeError\<close>) are \<open>ValueError\<close>.  \<open>OutOfFuel\<close> is no exception of
  the code: it marks a model loop whose fuel ran out, and the development proves that the
  entry points never return it.
\<close>

datatype py_error =
    ValueError
  | StructError
  | IndexError
  | AttributeError
  | TypeError
  | KeyError
  | OutOfFuel

type_synonym 'a res = "py_error + 'a"

definition rbind :: "'e + 'a \<Rightarrow> ('a \<Rightarrow> 'e + 'b) \<Rightarrow> 'e + 'b" where
  "rbind m f = (case m of Inl e \<Rightarrow> Inl e | Inr x \<Rightarrow> f x)"

lemma rbind_Inl [simp]: "rbind (Inl e) f = Inl e"
  by (simp add: rbind_def)

lemma rbind_Inr [simp]: "rbind (Inr x) f = f x"
  by (simp add: rbind_def)

lemma rbind_eq_Inr [res_simps]:
  "rbind m f = Inr y \<longleftrightarrow> (\<exists>x. m = Inr x \<and> f x = Inr y)"
  by (cases m) simp_all

lemma rbind_eq_Inl [res_simps]:
  "rbind m f = Inl e \<longleftrightarrow> m = Inl e \<or> (\<exists>x. m = Inr x \<and> f x = Inl e)"
  by (cases m) auto

lemma rbind_InrE:
  assumes "rbind m f = Inr y"
  obtains x where "m = Inr x" and "f x = Inr y"
  using assms by (auto simp: res_simps)

lemma rbind_cong [fundef_cong]:
  assumes "m = m'" and "\<And>x. m' = Inr x \<Longrightarrow> f x = f' x"
  shows "rbind m f = rbind m' f'"
  using assms by (cases m') simp_all

lemma rbind_assoc: "rbind (rbind m f) g = rbind m (\<lambda>x. rbind (f x) g)"
  by (cases m) simp_all

definition guard :: "bool \<Rightarrow> 'e \<Rightarrow> 'e + unit" where
  "guard b e = (if b then Inr () else Inl e)"

lemma guard_simps [simp]: "guard True e = Inr ()" "guard False e = Inl e"
  by (simp_all add: guard_def)

lemma guard_eq_Inr [res_simps]: "guard b e = Inr u \<longleftrightarrow> b"
  by (simp add: guard_def)

lemma guard_eq_Inl [res_simps]: "guard b e = Inl e' \<longleftrightarrow> \<not> b \<and> e' = e"
  by (auto simp: guard_def)

text \<open>\<open>for x in xs: ...\<close> with a body that may raise and returns nothing.\<close>

fun for_all :: "('a \<Rightarrow> 'e + unit) \<Rightarrow> 'a list \<Rightarrow> 'e + unit" where
  "for_all f [] = Inr ()"
| "for_all f (x # xs) = rbind (f x) (\<lambda>_. for_all f xs)"

lemma for_all_eq_Inr [res_simps]:
  "for_all f xs = Inr u \<longleftrightarrow> (\<forall>x \<in> set xs. f x = Inr ())"
  by (induction xs) (auto simp: res_simps)

lemma for_all_InlD: "for_all f xs = Inl e \<Longrightarrow> \<exists>x \<in> set xs. f x = Inl e"
  by (induction xs) (auto simp: res_simps)

lemma for_all_cong [fundef_cong]:
  assumes "xs = ys" and "\<And>x. x \<in> set ys \<Longrightarrow> f x = g x"
  shows "for_all f xs = for_all g ys"
  using assms(2) unfolding assms(1) by (induction ys) (auto intro!: rbind_cong)

text \<open>\<open>buffer.extend(...)\<close> in a loop: encode every element and concatenate.\<close>

fun concat_res :: "('a \<Rightarrow> 'e + 'b list) \<Rightarrow> 'a list \<Rightarrow> 'e + 'b list" where
  "concat_res f [] = Inr []"
| "concat_res f (x # xs) =
     rbind (f x) (\<lambda>b. rbind (concat_res f xs) (\<lambda>bs. Inr (b @ bs)))"

lemma concat_res_cong [fundef_cong]:
  assumes "xs = ys" and "\<And>x. x \<in> set ys \<Longrightarrow> f x = g x"
  shows "concat_res f xs = concat_res g ys"
  using assms(2) unfolding assms(1) by (induction ys) (auto intro!: rbind_cong)

text \<open>A handler chain: thread a state through a list of steps, stopping at an error.\<close>

fun run_steps :: "('h \<Rightarrow> 's \<Rightarrow> 'e + 's) \<Rightarrow> 'h list \<Rightarrow> 's \<Rightarrow> 'e + 's" where
  "run_steps step [] s = Inr s"
| "run_steps step (h # hs) s = rbind (step h s) (\<lambda>s'. run_steps step hs s')"

lemma run_steps_append:
  "run_steps step (xs @ ys) s = rbind (run_steps step xs s) (\<lambda>s'. run_steps step ys s')"
  by (induction xs arbitrary: s) (auto simp: rbind_def split: sum.splits)

subsection \<open>Removing the first occurrence\<close>

lemma set_remove1_filter:
  "\<not> P x \<Longrightarrow> filter P (remove1 x xs) = filter P xs"
  by (induction xs) auto

end
