(* ===== verification/Bytes.thy ===== *)
theory Bytes
  imports Prelude
begin

text \<open>
  Python's byte strings and the \<open>struct\<close> module as the code uses it.  A buffer is a
  list of 8-bit words; integers read from it are unbounded Python integers (\<open>int\<close>), and
  packing an integer that does not fit its field raises \<open>struct.error\<close>.
\<close>

type_synonym byte = "8 word"
type_synonym bytes = "byte list"

subsection \<open>Big-endian numbers\<close>

fun be_nat :: "bytes \<Rightarrow> nat" where
  "be_nat [] = 0"
| "be_nat (b # bs) = unat b * 256 ^ length bs + be_nat bs"

fun be_bytes :: "nat \<Rightarrow> nat \<Rightarrow> bytes" where
  "be_bytes 0 v = []"
| "be_bytes (Suc n) v = of_nat (v div 256 ^ n) # be_bytes n (v mod 256 ^ n)"

lemma length_be_bytes [simp]: "length (be_bytes n v) = n"
  by (induction n arbitrary: v) simp_all

lemma be_bytes_eq_Nil [simp]: "be_bytes n v = [] \<longleftrightarrow> n = 0"
  by (cases n) simp_all

lemma be_nat_less: "be_nat bs < 256 ^ length bs"
proof (induction bs)
  case (Cons b bs)
  have "unat b \<le> 255"
    using unsigned_less [of b, where 'a = nat] by simp
  then have le: "unat b * 256 ^ length bs \<le> 255 * 256 ^ length bs"
    by (rule mult_right_mono) simp
  from Cons.IH le show ?case
    unfolding be_nat.simps list.size power_Suc add_0_right add_Suc_right by linarith
qed simp

lemma be_nat_be_bytes: "v < 256 ^ n \<Longrightarrow> be_nat (be_bytes n v) = v"
proof (induction n arbitrary: v)
  case (Suc n)
  have "v div 256 ^ n < 256"
    using Suc.prems by (simp add: less_mult_imp_div_less)
  then have "unat (of_nat (v div 256 ^ n) :: byte) = v div 256 ^ n"
    by (simp add: unat_of_nat)
  then show ?case
    using Suc.IH [of "v mod 256 ^ n"] by (simp add: be_bytes.simps div_mult_mod_eq)
qed simp

lemma be_bytes_be_nat: "be_bytes (length bs) (be_nat bs) = bs"
proof (induction bs)
  case (Cons b bs)
  have "(unat b * 256 ^ length bs + be_nat bs) div 256 ^ length bs = unat b"
    using be_nat_less [of bs] by simp
  moreover have "(unat b * 256 ^ length bs + be_nat bs) mod 256 ^ length bs = be_nat bs"
    using be_nat_less [of bs] by simp
  ultimately show ?case
    using Cons by simp
qed simp

declare be_bytes.simps(2) [simp del]

lemma be_bytes_one: "be_bytes (Suc 0) v = [of_nat v]"
  by (simp add: be_bytes.simps)

text \<open>Evaluation of a concrete number.\<close>

lemma be_bytes_numeral:
  "be_bytes (numeral k) v =
     of_nat (v div 256 ^ pred_numeral k) # be_bytes (pred_numeral k) (v mod 256 ^ pred_numeral k)"
  by (simp add: numeral_eq_Suc be_bytes.simps)

text \<open>The leading octets of a number are the number without its trailing ones.\<close>

lemma be_bytes_zero: "be_bytes n 0 = replicate n 0"
  by (induction n) (simp_all add: be_bytes.simps)

lemma be_bytes_append:
  "v < 256 ^ (k + m) \<Longrightarrow> be_bytes (k + m) v = be_bytes k (v div 256 ^ m) @ be_bytes m (v mod 256 ^ m)"
proof (induction k arbitrary: v)
  case (Suc k)
  have "v mod 256 ^ (k + m) < 256 ^ (k + m)" by simp
  from Suc.IH [OF this] have
    "be_bytes (k + m) (v mod 256 ^ (k + m)) =
     be_bytes k (v div 256 ^ m mod 256 ^ k) @ be_bytes m (v mod 256 ^ m)"
    by (simp add: power_add mod_mult2_eq mult.commute [of "256 ^ k"] mod_mod_cancel)
  moreover have "v div 256 ^ (k + m) = v div 256 ^ m div 256 ^ k"
    by (simp add: power_add div_mult2_eq mult.commute [of "256 ^ k"])
  ultimately show ?case by (simp add: be_bytes.simps)
qed simp

text \<open>Lengths of the code are integers; these rules turn them back into \<open>nat\<close>.\<close>

lemma nat_int_plus_numeral [buf_simps]: "nat (int n + numeral k) = n + numeral k"
  by (simp add: nat_add_distrib)

lemma nat_int_times_numeral [buf_simps]: "nat (int n * numeral k) = n * numeral k"
  by (simp add: nat_mult_distrib)

subsection \<open>struct.pack\<close>

text \<open>
  \<open>pack_fields [(2, t), (4, v)]\<close> is \<open>pack('!HI', t, v)\<close>: every field is a width in
  octets and a value; \<open>struct.error\<close> if a value does not fit.
\<close>

fun pack_fields :: "(nat \<times> int) list \<Rightarrow> bytes res" where
  "pack_fields [] = Inr []"
| "pack_fields ((w, v) # fs) =
     (if 0 \<le> v \<and> v < 256 ^ w
      then rbind (pack_fields fs) (\<lambda>bs. Inr (be_bytes w (nat v) @ bs))
      else Inl StructError)"

definition fields_fit :: "(nat \<times> int) list \<Rightarrow> bool" where
  "fields_fit fs \<longleftrightarrow> (\<forall>(w, v) \<in> set fs. 0 \<le> v \<and> v < 256 ^ w)"

definition field_bytes :: "(nat \<times> int) list \<Rightarrow> bytes" where
  "field_bytes fs = concat (map (\<lambda>(w, v). be_bytes w (nat v)) fs)"

lemma fields_fit_simps [simp]:
  "fields_fit []"
  "fields_fit ((w, v) # fs) \<longleftrightarrow> 0 \<le> v \<and> v < 256 ^ w \<and> fields_fit fs"
  by (auto simp: fields_fit_def)

lemma field_bytes_simps [simp]:
  "field_bytes [] = []"
  "field_bytes ((w, v) # fs) = be_bytes w (nat v) @ field_bytes fs"
  by (simp_all add: field_bytes_def)

lemma pack_fields_eq_Inr [res_simps]:
  "pack_fields fs = Inr bs \<longleftrightarrow> fields_fit fs \<and> bs = field_bytes fs"
  by (induction fs arbitrary: bs rule: pack_fields.induct) (auto simp: res_simps)

lemma pack_fields_eq_Inl [res_simps]:
  "pack_fields fs = Inl e \<longleftrightarrow> \<not> fields_fit fs \<and> e = StructError"
  by (induction fs rule: pack_fields.induct) (auto simp: res_simps)

declare pack_fields.simps [simp del]

lemma pack_fields_fit [simp]: "fields_fit fs \<Longrightarrow> pack_fields fs = Inr (field_bytes fs)"
  by (simp add: pack_fields_eq_Inr)

text \<open>\<open>bytearray.append\<close>: \<open>ValueError\<close> unless the value is a byte.\<close>

definition append_byte :: "int \<Rightarrow> bytes res" where
  "append_byte v = (if 0 \<le> v \<and> v < 256 then Inr (be_bytes 1 (nat v)) else Inl ValueError)"

lemma append_byte_eq_Inr [res_simps]:
  "append_byte v = Inr bs \<longleftrightarrow> 0 \<le> v \<and> v < 256 \<and> bs = be_bytes 1 (nat v)"
  by (auto simp: append_byte_def)

subsection \<open>Reading from a buffer\<close>

text \<open>\<open>buffer[i:i + n]\<close>: slices never fail, they are cut off at the end of the buffer.\<close>

definition slice :: "bytes \<Rightarrow> nat \<Rightarrow> nat \<Rightarrow> bytes" where
  "slice buf i n = take n (drop i buf)"

text \<open>\<open>unpack_from\<close> with one field of \<open>w\<close> octets: \<open>struct.error\<close> at the end of the buffer.\<close>

definition unpack1 :: "nat \<Rightarrow> bytes \<Rightarrow> nat \<Rightarrow> int res" where
  "unpack1 w buf off =
     (if off + w \<le> length buf then Inr (int (be_nat (slice buf off w))) else Inl StructError)"

text \<open>\<open>unpack_from\<close> with two fields: both must be in the buffer.\<close>

definition unpack2 :: "nat \<Rightarrow> nat \<Rightarrow> bytes \<Rightarrow> nat \<Rightarrow> (int \<times> int) res" where
  "unpack2 v w buf off =
     (if off + v + w \<le> length buf
      then Inr (int (be_nat (slice buf off v)), int (be_nat (slice buf (off + v) w)))
      else Inl StructError)"

text \<open>\<open>unpack_from('!{}H'.format(n))\<close>.\<close>

definition unpack_shorts :: "nat \<Rightarrow> bytes \<Rightarrow> nat \<Rightarrow> int list res" where
  "unpack_shorts n buf off =
     (if off + 2 * n \<le> length buf
      then Inr (map (\<lambda>k. int (be_nat (slice buf (off + 2 * k) 2))) [0..<n])
      else Inl StructError)"

text \<open>\<open>unpack\<close>: the fields must be exactly the octets given.\<close>

fun unpack_fields :: "nat list \<Rightarrow> bytes \<Rightarrow> int list res" where
  "unpack_fields [] bs = (if bs = [] then Inr [] else Inl StructError)"
| "unpack_fields (w # ws) bs =
     (if w \<le> length bs
      then rbind (unpack_fields ws (drop w bs)) (\<lambda>vs. Inr (int (be_nat (take w bs)) # vs))
      else Inl StructError)"

lemma unpack_field_bytes [simp]:
  "fields_fit fs \<Longrightarrow> unpack_fields (map fst fs) (field_bytes fs) = Inr (map snd fs)"
  by (induction fs) (auto simp: be_nat_be_bytes nat_less_iff)

lemma unpack_fields_not_fuel [simp]: "unpack_fields ws bs \<noteq> Inl OutOfFuel"
  by (induction ws arbitrary: bs) (auto simp: res_simps)

text \<open>\<open>buffer[i]\<close>: \<open>IndexError\<close> at the end of the buffer.\<close>

definition byte_at :: "bytes \<Rightarrow> nat \<Rightarrow> int res" where
  "byte_at buf off = (if off < length buf then Inr (uint (buf ! off)) else Inl IndexError)"

text \<open>
  \<open>length or (len(buffer) - offset)\<close>: Python's \<open>or\<close> also replaces a length of zero.
  Where the buffer ends before \<open>offset\<close> the code has read past its end before it gets here,
  or compares the negative number with zero, as the truncated subtraction does.
\<close>

definition length_or :: "nat option \<Rightarrow> bytes \<Rightarrow> nat \<Rightarrow> nat" where
  "length_or len buf off =
     (case len of None \<Rightarrow> length buf - off | Some n \<Rightarrow> if n = 0 then length buf - off else n)"

lemma length_or_simps [simp]:
  "length_or None buf off = length buf - off"
  "length_or (Some 0) buf off = length buf - off"
  "0 < n \<Longrightarrow> length_or (Some n) buf off = n"
  by (simp_all add: length_or_def)

subsection \<open>Reading behind a known prefix\<close>

text \<open>
  The rules the round-trip proofs run on: a read behind a prefix is the read of the rest at
  the smaller offset, and a read at offset zero returns what was packed there.
\<close>

lemma slice_skip [buf_simps]:
  "length a \<le> off \<Longrightarrow> slice (a @ b) off n = slice b (off - length a) n"
  by (simp add: slice_def)

lemma slice_here [buf_simps]: "length a = n \<Longrightarrow> slice (a @ b) 0 n = a"
  by (simp add: slice_def)

lemma slice_all [buf_simps]: "length a = n \<Longrightarrow> slice a 0 n = a"
  by (simp add: slice_def)

lemma slice_none [buf_simps]: "slice a off 0 = []"
  by (simp add: slice_def)

lemma length_slice_le: "length (slice buf off n) \<le> n"
  by (simp add: slice_def)

lemma unpack1_skip [buf_simps]:
  "length a \<le> off \<Longrightarrow> unpack1 w (a @ b) off = unpack1 w b (off - length a)"
  by (auto simp: unpack1_def slice_skip)

lemma unpack2_skip [buf_simps]:
  "length a \<le> off \<Longrightarrow> unpack2 v w (a @ b) off = unpack2 v w b (off - length a)"
  by (auto simp: unpack2_def slice_skip)

lemma byte_at_skip [buf_simps]:
  "length a \<le> off \<Longrightarrow> byte_at (a @ b) off = byte_at b (off - length a)"
  by (auto simp: byte_at_def nth_append)

lemma unpack_shorts_skip [buf_simps]:
  "length a \<le> off \<Longrightarrow> unpack_shorts n (a @ b) off = unpack_shorts n b (off - length a)"
  by (auto simp: unpack_shorts_def slice_skip)

lemma unpack1_here [buf_simps]:
  "v < 256 ^ w \<Longrightarrow> unpack1 w (be_bytes w v @ b) 0 = Inr (int v)"
  by (simp add: unpack1_def slice_here be_nat_be_bytes)

lemma unpack2_here [buf_simps]:
  "x < 256 ^ v \<Longrightarrow> y < 256 ^ w \<Longrightarrow>
   unpack2 v w (be_bytes v x @ be_bytes w y @ b) 0 = Inr (int x, int y)"
  by (simp add: unpack2_def slice_here slice_skip be_nat_be_bytes)

lemma byte_at_here [buf_simps]:
  "v < 256 \<Longrightarrow> byte_at (be_bytes (Suc 0) v @ b) 0 = Inr (int v)"
  by (simp add: byte_at_def be_bytes_one unsigned_of_nat take_bit_eq_mod)

lemma unpack1_end [buf_simps]:
  "v < 256 ^ w \<Longrightarrow> unpack1 w (be_bytes w v) 0 = Inr (int v)"
  using unpack1_here [of v w "[]"] by simp

lemma byte_at_end [buf_simps]:
  "v < 256 \<Longrightarrow> byte_at (be_bytes (Suc 0) v) 0 = Inr (int v)"
  using byte_at_here [of v "[]"] by simp

lemma unpack_shorts_here [buf_simps]:
  assumes "fields_fit (map (Pair 2) vs)" and "n = length vs"
  shows "unpack_shorts n (field_bytes (map (Pair 2) vs) @ b) 0 = Inr vs"
  using assms
proof (induction vs arbitrary: n)
  case (Cons v vs)
  let ?f = "field_bytes (map (Pair 2) vs) @ b"
  from Cons have IH: "unpack_shorts (length vs) ?f 0 = Inr vs" by simp
  then have len: "2 * length vs \<le> length ?f"
    and vs: "map (\<lambda>k. int (be_nat (slice ?f (2 * k) 2))) [0..<length vs] = vs"
    by (auto simp: unpack_shorts_def split: if_splits)
  have head: "int (be_nat (slice (be_bytes 2 (nat v) @ ?f) 0 2)) = v"
    using Cons.prems by (simp add: slice_here be_nat_be_bytes nat_less_iff)
  have "map (\<lambda>k. int (be_nat (slice (be_bytes 2 (nat v) @ ?f) (2 * k) 2))) [0..<Suc (length vs)]
        = v # map (\<lambda>k. int (be_nat (slice ?f (2 * k) 2))) [0..<length vs]"
    using head by (simp add: upt_conv_Cons map_Suc_upt [symmetric] slice_skip del: upt_Suc)
  then show ?case
    using Cons.prems len vs by (simp add: unpack_shorts_def del: upt_Suc)
qed (simp add: unpack_shorts_def)

lemma length_field_bytes: "length (field_bytes fs) = (\<Sum>(w, v) \<leftarrow> fs. w)"
  by (induction fs) auto

lemma length_field_bytes_shorts [simp]: "length (field_bytes (map (Pair 2) vs)) = 2 * length vs"
  by (induction vs) simp_all

subsection \<open>Bounds of successful reads\<close>

lemma unpack1_InrD: "unpack1 w buf off = Inr v \<Longrightarrow> off + w \<le> length buf \<and> 0 \<le> v \<and> v < 256 ^ w"
proof -
  assume "unpack1 w buf off = Inr v"
  then have len: "off + w \<le> length buf" and v: "v = int (be_nat (slice buf off w))"
    by (auto simp: unpack1_def split: if_splits)
  have "length (slice buf off w) = w"
    using len by (simp add: slice_def)
  then have "int (be_nat (slice buf off w)) < int (256 ^ w)"
    using be_nat_less [of "slice buf off w"] by (simp only: of_nat_less_iff)
  with len v show ?thesis by simp
qed

lemma unpack2_InrD: "unpack2 v w buf off = Inr (x, y) \<Longrightarrow>
    off + v + w \<le> length buf \<and> unpack1 v buf off = Inr x \<and> unpack1 w buf (off + v) = Inr y"
  by (auto simp: unpack2_def unpack1_def split: if_splits)

lemma byte_at_InrD: "byte_at buf off = Inr v \<Longrightarrow> off < length buf \<and> 0 \<le> v \<and> v < 256"
  using unsigned_less [of "buf ! off", where 'a = int] by (auto simp: byte_at_def split: if_splits)

lemma reads_not_fuel [simp]:
  "unpack1 w buf off \<noteq> Inl OutOfFuel"
  "unpack2 v w buf off \<noteq> Inl OutOfFuel"
  "byte_at buf off \<noteq> Inl OutOfFuel"
  "unpack_shorts n buf off \<noteq> Inl OutOfFuel"
  by (simp_all add: unpack1_def unpack2_def byte_at_def unpack_shorts_def)

end
