(* ===== verification/Elements.thy ===== *)
theory Elements
  imports Prelude "HOL-Library.AList"
begin

text \<open>
  dhcpkit/protocol_element.py: the classes of protocol elements, and the containment rules
  (\<open>_may_contain\<close>) that say which class may hold which elements and how often.  The rules
  are class-level state that \<open>add_may_contain\<close> updates while the modules are imported; here
  they are a value of type \<open>containment\<close> that the operations take.
\<close>

subsection \<open>The class hierarchy\<close>

datatype option_class =
    C_UnknownOption | C_ClientIdOption | C_ServerIdOption | C_IANAOption | C_IATAOption
  | C_IAAddressOption | C_OptionRequestOption | C_PreferenceOption | C_ElapsedTimeOption
  | C_RelayMessageOption | C_AuthenticationOption | C_ServerUnicastOption | C_StatusCodeOption
  | C_RapidCommitOption | C_UserClassOption | C_VendorClassOption
  | C_VendorSpecificInformationOption | C_InterfaceIdOption | C_ReconfigureMessageOption
  | C_ReconfigureAcceptOption | C_IAPDOption | C_IAPrefixOption
  | C_RecursiveNameServersOption | C_SNTPServersOption | C_SIPServersAddressListOption
  | C_SolMaxRTOption | C_InfMaxRTOption | C_SubscriberIdOption | C_RemoteIdOption
  | C_LinkLayerIdOption | C_EchoRequestOption | C_PDExcludeOption | C_TZDBTimezoneOption
  | C_RelayIdOption | C_CLTTimeOption | C_LQClientLink | C_LQQueryOption | C_ClientDataOption
  | C_LQRelayDataOption | C_S46RuleOption | C_S46BROption | C_S46DMROption
  | C_S46V4V6BindingOption | C_S46PortParametersOption | C_S46MapEContainerOption
  | C_S46MapTContainerOption | C_S46LWContainerOption

datatype client_server_class =
    SolicitMessage | AdvertiseMessage | RequestMessage | ConfirmMessage | RenewMessage
  | RebindMessage | ReplyMessage | ReleaseMessage | DeclineMessage | ReconfigureMessage
  | InformationRequestMessage | LeasequeryMessage | LeasequeryReplyMessage
  | LeasequeryDoneMessage | LeasequeryDataMessage

datatype relay_class = RelayForwardMessage | RelayReplyMessage

datatype message_class =
    C_UnknownMessage | ClientServer client_server_class | RelayServer relay_class

datatype klass =
    ProtocolElement_class
  | Option_class
  | Message_class
  | ClientServerMessage_class
  | RelayServerMessage_class
  | S46ContainerOption_class
  | OptionClass option_class
  | MessageClass message_class

text \<open>
  The base class of an option class: \<open>S46ContainerOption\<close> of the three containers of
  dhcpkit/ipv6/extensions/map.py, \<open>Option\<close> of all others.
\<close>

definition option_base :: "option_class \<Rightarrow> klass" where
  "option_base c =
     (if c \<in> {C_S46MapEContainerOption, C_S46MapTContainerOption, C_S46LWContainerOption}
      then S46ContainerOption_class else Option_class)"

lemma option_base_simps [simp]:
  "option_base C_UnknownOption = Option_class"
  "option_base C_ClientIdOption = Option_class"
  "option_base C_ServerIdOption = Option_class"
  "option_base C_IANAOption = Option_class"
  "option_base C_IATAOption = Option_class"
  "option_base C_IAPDOption = Option_class"
  "option_base C_IAAddressOption = Option_class"
  "option_base C_IAPrefixOption = Option_class"
  "option_base C_StatusCodeOption = Option_class"
  "option_base C_RapidCommitOption = Option_class"
  "option_base C_ElapsedTimeOption = Option_class"
  "option_base C_OptionRequestOption = Option_class"
  "option_base C_RelayMessageOption = Option_class"
  "option_base C_InterfaceIdOption = Option_class"
  "option_base C_EchoRequestOption = Option_class"
  "option_base C_LQQueryOption = Option_class"
  "option_base C_ClientDataOption = Option_class"
  "option_base C_RelayIdOption = Option_class"
  "option_base C_RemoteIdOption = Option_class"
  by (simp_all add: option_base_def)

text \<open>The superclasses of a class, itself first (every class has one base).\<close>

fun mro :: "klass \<Rightarrow> klass list" where
  "mro ProtocolElement_class = [ProtocolElement_class]"
| "mro Option_class = [Option_class, ProtocolElement_class]"
| "mro Message_class = [Message_class, ProtocolElement_class]"
| "mro ClientServerMessage_class = [ClientServerMessage_class, Message_class, ProtocolElement_class]"
| "mro RelayServerMessage_class = [RelayServerMessage_class, Message_class, ProtocolElement_class]"
| "mro S46ContainerOption_class = [S46ContainerOption_class, Option_class, ProtocolElement_class]"
| "mro (OptionClass c) =
     OptionClass c # (if option_base c = Option_class then [] else [S46ContainerOption_class])
     @ [Option_class, ProtocolElement_class]"
| "mro (MessageClass C_UnknownMessage) =
     [MessageClass C_UnknownMessage, Message_class, ProtocolElement_class]"
| "mro (MessageClass (ClientServer c)) =
     [MessageClass (ClientServer c), ClientServerMessage_class, Message_class, ProtocolElement_class]"
| "mro (MessageClass (RelayServer c)) =
     [MessageClass (RelayServer c), RelayServerMessage_class, Message_class, ProtocolElement_class]"

definition issubclass :: "klass \<Rightarrow> klass \<Rightarrow> bool" where
  "issubclass c d \<longleftrightarrow> d \<in> set (mro c)"

subsection \<open>Containment rules\<close>

type_synonym limits = "int \<times> int"
type_synonym containment = "(klass \<times> (klass \<times> limits) list) list"

definition infinite_occurrence :: int where
  "infinite_occurrence = 2 ^ 31 - 1"

text \<open>The dictionary of one class, and a dictionary assignment that keeps insertion order.\<close>

definition own_may_contain :: "containment \<Rightarrow> klass \<Rightarrow> (klass \<times> limits) list" where
  "own_may_contain T c = (case map_of T c of None \<Rightarrow> [] | Some d \<Rightarrow> d)"

definition add_may_contain :: "klass \<Rightarrow> klass \<Rightarrow> int \<Rightarrow> int \<Rightarrow> containment \<Rightarrow> containment" where
  "add_may_contain cls klass min_occurrence max_occurrence T =
     AList.update cls
       (AList.update klass (min_occurrence, max_occurrence) (own_may_contain T cls)) T"

text \<open>
  \<open>_may_contain\<close> is a \<open>ChainMap\<close> of the dictionaries of the class and its superclasses:
  looking a key up tries the class first; iterating lists the keys of the superclasses first.
\<close>

definition may_contain_keys :: "containment \<Rightarrow> klass \<Rightarrow> klass list" where
  "may_contain_keys T c =
     foldl (\<lambda>ks k. if k \<in> set ks then ks else ks @ [k]) []
       (concat (map (\<lambda>m. map fst (own_may_contain T m)) (rev (mro c))))"

definition may_contain_limits :: "containment \<Rightarrow> klass \<Rightarrow> klass \<Rightarrow> limits option" where
  "may_contain_limits T c k =
     map_of (concat (map (own_may_contain T) (mro c))) k"

text \<open>One round of the loop of \<open>get_element_class\<close>.\<close>

definition classify_step :: "klass \<Rightarrow> klass option \<Rightarrow> klass \<Rightarrow> klass option" where
  "classify_step element found_klass klass =
     (if issubclass element klass then
        (case found_klass of
           Some f \<Rightarrow> if issubclass f klass then found_klass else Some klass
         | None \<Rightarrow> Some klass)
      else found_klass)"

definition get_element_class :: "containment \<Rightarrow> klass \<Rightarrow> klass \<Rightarrow> klass option" where
  "get_element_class T cls element =
     (case foldl (classify_step element) None (may_contain_keys T cls) of
        None \<Rightarrow> None
      | Some found_klass \<Rightarrow>
          (case may_contain_limits T cls found_klass of
             Some (min_occurrence, max_occurrence) \<Rightarrow>
               if max_occurrence < 1 then None else Some found_klass
           | None \<Rightarrow> None))"

definition may_contain :: "containment \<Rightarrow> klass \<Rightarrow> klass \<Rightarrow> bool" where
  "may_contain T cls element \<longleftrightarrow> get_element_class T cls element \<noteq> None"

definition check_occurrence :: "containment \<Rightarrow> klass \<Rightarrow> klass option list \<Rightarrow> klass \<Rightarrow> unit res" where
  "check_occurrence T cls counted element_class =
     (case may_contain_limits T cls element_class of
        Some (min_occurrence, max_occurrence) \<Rightarrow>
          (let count = int (count_list counted (Some element_class)) in
           if count > max_occurrence then Inl ValueError
           else if count < min_occurrence then Inl ValueError
           else Inr ())
      | None \<Rightarrow> Inr ())"

definition validate_contains :: "containment \<Rightarrow> klass \<Rightarrow> klass list \<Rightarrow> unit res" where
  "validate_contains T cls elements =
     (let counted = map (get_element_class T cls) elements in
      rbind (for_all (\<lambda>c. guard (c \<noteq> None) ValueError) counted) (\<lambda>_.
      for_all (check_occurrence T cls counted) (may_contain_keys T cls)))"

subsection \<open>Classification is the nearest listed superclass\<close>

lemma set_dict_keys:
  "set (foldl (\<lambda>ks k. if k \<in> set ks then ks else ks @ [k]) ks0 ks) = set ks0 \<union> set ks"
  by (induction ks arbitrary: ks0) auto

lemma set_may_contain_keys:
  "set (may_contain_keys T c) = fst ` set (concat (map (own_may_contain T) (mro c)))"
  by (auto simp: may_contain_keys_def set_dict_keys)

lemma may_contain_limits_keys:
  "k \<in> set (may_contain_keys T c) \<longleftrightarrow> may_contain_limits T c k \<noteq> None"
  unfolding set_may_contain_keys may_contain_limits_def
  by (metis map_of_eq_None_iff)

text \<open>
  The order in which the loop meets the keys does not matter: it finds the first superclass
  of the element, nearest first, that is listed.
\<close>

lemma classify_loop:
  "foldl (classify_step e) None ks = find (\<lambda>k. k \<in> set ks) (mro e)"
proof (induction ks rule: rev_induct)
  case Nil
  show ?case by (cases e rule: mro.cases) simp_all
next
  case (snoc k ks)
  show ?case
    unfolding foldl_append foldl.simps snoc.IH
    by (cases e rule: mro.cases) (auto simp: classify_step_def issubclass_def)
qed

lemma find_SomeD: "find P xs = Some x \<Longrightarrow> P x \<and> x \<in> set xs"
  by (induction xs) (auto split: if_splits)

lemma get_element_class_nearest:
  "get_element_class T c e =
     (case find (\<lambda>k. may_contain_limits T c k \<noteq> None) (mro e) of
        None \<Rightarrow> None
      | Some k \<Rightarrow> if snd (the (may_contain_limits T c k)) < 1 then None else Some k)"
proof (cases "find (\<lambda>k. may_contain_limits T c k \<noteq> None) (mro e)")
  case None
  then show ?thesis
    by (simp add: get_element_class_def classify_loop may_contain_limits_keys)
next
  case (Some k)
  then have "may_contain_limits T c k \<noteq> None" by (rule find_SomeD [THEN conjunct1])
  with Some show ?thesis
    by (auto simp: get_element_class_def classify_loop may_contain_limits_keys)
qed

lemma get_element_class_Some:
  "get_element_class T c e = Some k \<Longrightarrow> issubclass e k \<and> k \<in> set (may_contain_keys T c)"
  unfolding get_element_class_nearest may_contain_limits_keys issubclass_def
  by (auto split: option.splits if_splits dest: find_SomeD)

lemma validate_contains_iff:
  "validate_contains T c es = Inr () \<longleftrightarrow>
     (\<forall>e \<in> set es. may_contain T c e)
     \<and> (\<forall>k mn mx. may_contain_limits T c k = Some (mn, mx) \<longrightarrow>
           mn \<le> int (count_list (map (get_element_class T c) es) (Some k))
           \<and> int (count_list (map (get_element_class T c) es) (Some k)) \<le> mx)"
proof -
  have "(\<forall>k \<in> set (may_contain_keys T c). check_occurrence T c cs k = Inr ()) \<longleftrightarrow>
      (\<forall>k mn mx. may_contain_limits T c k = Some (mn, mx) \<longrightarrow>
         mn \<le> int (count_list cs (Some k)) \<and> int (count_list cs (Some k)) \<le> mx)" for cs
    unfolding Ball_def may_contain_limits_keys
    by (fastforce simp: check_occurrence_def Let_def split: if_splits)
  then show ?thesis
    by (simp add: validate_contains_def Let_def res_simps may_contain_def)
qed

lemma check_occurrence_not_fuel: "check_occurrence T c cs k \<noteq> Inl e \<or> e = ValueError"
  by (auto simp: check_occurrence_def Let_def split: option.splits if_splits)

text \<open>\<open>add_may_contain\<close> sets the limits of its class and element, and nothing else.\<close>

lemma own_add_may_contain:
  "map_of (own_may_contain (add_may_contain c k mn mx T) d) l =
     (if d = c \<and> l = k then Some (mn, mx) else map_of (own_may_contain T d) l)"
  by (simp add: own_may_contain_def add_may_contain_def update_conv)

subsection \<open>Class attributes of the messages\<close>

text \<open>The attribute \<open>message_type\<close> of the message classes (messages.py and the leasequery extensions).\<close>

fun client_server_type :: "client_server_class \<Rightarrow> int" where
  "client_server_type SolicitMessage = 1"
| "client_server_type AdvertiseMessage = 2"
| "client_server_type RequestMessage = 3"
| "client_server_type ConfirmMessage = 4"
| "client_server_type RenewMessage = 5"
| "client_server_type RebindMessage = 6"
| "client_server_type ReplyMessage = 7"
| "client_server_type ReleaseMessage = 8"
| "client_server_type DeclineMessage = 9"
| "client_server_type ReconfigureMessage = 10"
| "client_server_type InformationRequestMessage = 11"
| "client_server_type LeasequeryMessage = 14"
| "client_server_type LeasequeryReplyMessage = 15"
| "client_server_type LeasequeryDoneMessage = 16"
| "client_server_type LeasequeryDataMessage = 17"

fun from_client_to_server :: "client_server_class \<Rightarrow> bool" where
  "from_client_to_server SolicitMessage = True"
| "from_client_to_server RequestMessage = True"
| "from_client_to_server ConfirmMessage = True"
| "from_client_to_server RenewMessage = True"
| "from_client_to_server RebindMessage = True"
| "from_client_to_server ReleaseMessage = True"
| "from_client_to_server DeclineMessage = True"
| "from_client_to_server InformationRequestMessage = True"
| "from_client_to_server LeasequeryMessage = True"
| "from_client_to_server _ = False"

fun from_server_to_client :: "client_server_class \<Rightarrow> bool" where
  "from_server_to_client AdvertiseMessage = True"
| "from_server_to_client ReplyMessage = True"
| "from_server_to_client ReconfigureMessage = True"
| "from_server_to_client LeasequeryReplyMessage = True"
| "from_server_to_client LeasequeryDoneMessage = True"
| "from_server_to_client LeasequeryDataMessage = True"
| "from_server_to_client _ = False"

fun relay_type :: "relay_class \<Rightarrow> int" where
  "relay_type RelayForwardMessage = 12"
| "relay_type RelayReplyMessage = 13"

text \<open>dhcpkit/ipv6/message_registry.py, filled from the entry points of setup.py.\<close>

definition message_registry :: "int \<Rightarrow> message_class option" where
  "message_registry t =
     map_of
       [(1, ClientServer SolicitMessage), (2, ClientServer AdvertiseMessage),
        (3, ClientServer RequestMessage), (4, ClientServer ConfirmMessage),
        (5, ClientServer RenewMessage), (6, ClientServer RebindMessage),
        (7, ClientServer ReplyMessage), (8, ClientServer ReleaseMessage),
        (9, ClientServer DeclineMessage), (10, ClientServer ReconfigureMessage),
        (11, ClientServer InformationRequestMessage),
        (12, RelayServer RelayForwardMessage), (13, RelayServer RelayReplyMessage),
        (14, ClientServer LeasequeryMessage), (15, ClientServer LeasequeryReplyMessage),
        (16, ClientServer LeasequeryDoneMessage), (17, ClientServer LeasequeryDataMessage)] t"

lemma message_registry_client_server [simp]:
  "message_registry (client_server_type c) = Some (ClientServer c)"
  by (cases c) (simp_all add: message_registry_def)

lemma message_registry_relay [simp]:
  "message_registry (relay_type c) = Some (RelayServer c)"
  by (cases c) (simp_all add: message_registry_def)

lemma client_server_type_byte [simp]: "0 \<le> client_server_type c \<and> client_server_type c < 256"
  by (cases c) simp_all

lemma relay_type_byte [simp]: "0 \<le> relay_type c \<and> relay_type c < 256"
  by (cases c) simp_all

text \<open>Every registered class is registered under its own message type.\<close>

lemma message_registry_own_type:
  "message_registry t = Some m \<Longrightarrow>
     (\<forall>c. m = ClientServer c \<longrightarrow> client_server_type c = t) \<and>
     (\<forall>c. m = RelayServer c \<longrightarrow> relay_type c = t) \<and> m \<noteq> C_UnknownMessage"
  by (auto simp: message_registry_def split: if_splits)

end
