(* ===== verification/OptionHeader.thy ===== *)
theory OptionHeader
  imports Bytes Elements
begin

text \<open>
  The numbers of the option classes and the header that every option starts with
  (\<open>Option.parse_option_header\<close> in dhcpkit/ipv6/options.py).
\<close>

text \<open>The option numbers of the classes (the constants \<open>OPTION_*\<close>; 0 in \<open>Option\<close> itself).\<close>

fun class_option_type :: "option_class \<Rightarrow> int" where
  "class_option_type C_UnknownOption = 0"
| "class_option_type C_ClientIdOption = 1"
| "class_option_type C_ServerIdOption = 2"
| "class_option_type C_IANAOption = 3"
| "class_option_type C_IATAOption = 4"
| "class_option_type C_IAAddressOption = 5"
| "class_option_type C_OptionRequestOption = 6"
| "class_option_type C_PreferenceOption = 7"
| "class_option_type C_ElapsedTimeOption = 8"
| "class_option_type C_RelayMessageOption = 9"
| "class_option_type C_AuthenticationOption = 11"
| "class_option_type C_ServerUnicastOption = 12"
| "class_option_type C_StatusCodeOption = 13"
| "class_option_type C_RapidCommitOption = 14"
| "class_option_type C_UserClassOption = 15"
| "class_option_type C_VendorClassOption = 16"
| "class_option_type C_VendorSpecificInformationOption = 17"
| "class_option_type C_InterfaceIdOption = 18"
| "class_option_type C_ReconfigureMessageOption = 19"
| "class_option_type C_ReconfigureAcceptOption = 20"
| "class_option_type C_IAPDOption = 25"
| "class_option_type C_IAPrefixOption = 26"
| "class_option_type C_RecursiveNameServersOption = 23"
| "class_option_type C_SNTPServersOption = 31"
| "class_option_type C_SIPServersAddressListOption = 22"
| "class_option_type C_SolMaxRTOption = 82"
| "class_option_type C_InfMaxRTOption = 83"
| "class_option_type C_SubscriberIdOption = 38"
| "class_option_type C_RemoteIdOption = 37"
| "class_option_type C_LinkLayerIdOption = 79"
| "class_option_type C_EchoRequestOption = 43"
| "class_option_type C_PDExcludeOption = 67"
| "class_option_type C_TZDBTimezoneOption = 42"
| "class_option_type C_RelayIdOption = 53"
| "class_option_type C_CLTTimeOption = 46"
| "class_option_type C_LQClientLink = 48"
| "class_option_type C_LQQueryOption = 44"
| "class_option_type C_ClientDataOption = 45"
| "class_option_type C_LQRelayDataOption = 47"
| "class_option_type C_S46RuleOption = 89"
| "class_option_type C_S46BROption = 90"
| "class_option_type C_S46DMROption = 91"
| "class_option_type C_S46V4V6BindingOption = 92"
| "class_option_type C_S46PortParametersOption = 93"
| "class_option_type C_S46MapEContainerOption = 94"
| "class_option_type C_S46MapTContainerOption = 95"
| "class_option_type C_S46LWContainerOption = 96"

subsection \<open>The option header\<close>

definition parse_option_header ::
  "int \<Rightarrow> nat \<Rightarrow> nat \<Rightarrow> bytes \<Rightarrow> nat \<Rightarrow> nat option \<Rightarrow> (nat \<times> nat) res" where
  "parse_option_header self_type min_length max_length buf off len =
     rbind (unpack2 2 2 buf off) (\<lambda>(option_type, option_len).
     let my_offset = 4 in
     if option_type \<noteq> self_type then Inl ValueError
     else if min_length = max_length \<and> int min_length \<noteq> option_len then Inl ValueError
     else if option_len < int min_length then Inl ValueError
     else if option_len > int max_length then Inl ValueError
     else
       (let max_length = length_or len buf off in
        if my_offset + nat option_len > max_length then Inl ValueError
        else Inr (my_offset, nat option_len)))"

definition max_option_length :: nat where
  "max_option_length = 2 ^ 16 - 1"

lemma parse_option_header_InrD:
  assumes "parse_option_header t mn mx buf off len = Inr (m, n)"
  shows "m = 4 \<and> mn \<le> n \<and> n \<le> mx \<and> 4 + n \<le> length_or len buf off \<and> off + 4 \<le> length buf"
  using assms
  by (auto simp: parse_option_header_def res_simps Let_def unpack2_def split: if_splits)

lemma parse_option_header_not_fuel [simp]:
  "parse_option_header t mn mx buf off len \<noteq> Inl OutOfFuel"
  by (auto simp: parse_option_header_def res_simps Let_def split: if_splits)

lemma parse_option_header_here:
  assumes "0 \<le> t" "t < 65536" "n < 65536" "mn \<le> n" "n \<le> mx" and "n \<le> length b"
    and "k = int n"
  shows "parse_option_header t mn mx (pre @ be_bytes 2 (nat t) @ be_bytes 2 (nat k) @ b)
           (length pre) None = Inr (4, n)"
  using assms
  by (auto simp: parse_option_header_def Let_def buf_simps nat_less_iff)

lemmas load_simps = parse_option_header_def max_option_length_def Let_def buf_simps nat_less_iff

end
