(* ===== verification/Duids.thy ===== *)
theory Duids
  imports Bytes
begin

text \<open>
  dhcpkit/ipv6/duids.py: the DHCP unique identifiers, their wire format and their registry
  (dhcpkit/ipv6/duid_registry.py, filled from the entry points of setup.py).  A class becomes
  a constructor of \<open>duid\<close>; \<open>load_from\<close> of a class becomes a function from the buffer, the
  offset and the length to the number of octets used and the loaded object.
\<close>

subsection \<open>Objects and classes\<close>

datatype duid_class = C_UnknownDUID | C_LinkLayerTimeDUID | C_EnterpriseDUID | C_LinkLayerDUID

datatype duid =
    UnknownDUID int bytes
  | LinkLayerTimeDUID int int bytes
  | EnterpriseDUID int bytes
  | LinkLayerDUID int bytes

definition duid_registry :: "int \<Rightarrow> duid_class option" where
  "duid_registry t =
     (if t = 1 then Some C_LinkLayerTimeDUID
      else if t = 2 then Some C_EnterpriseDUID
      else if t = 3 then Some C_LinkLayerDUID
      else None)"

text \<open>The attribute \<open>duid_type\<close>: a class attribute but for \<open>UnknownDUID\<close>.\<close>

fun duid_type :: "duid \<Rightarrow> int" where
  "duid_type (UnknownDUID t _) = t"
| "duid_type (LinkLayerTimeDUID _ _ _) = 1"
| "duid_type (EnterpriseDUID _ _) = 2"
| "duid_type (LinkLayerDUID _ _) = 3"

subsection \<open>Parsing\<close>

definition DUID_determine_class :: "bytes \<Rightarrow> nat \<Rightarrow> duid_class res" where
  "DUID_determine_class buf off =
     rbind (unpack1 2 buf off) (\<lambda>duid_type.
     Inr (case duid_registry duid_type of Some c \<Rightarrow> c | None \<Rightarrow> C_UnknownDUID))"

text \<open>
  The header check returns the explicit length too: past it, \<open>length\<close> is a positive number.
\<close>

definition parse_duid_header :: "int \<Rightarrow> bytes \<Rightarrow> nat \<Rightarrow> nat option \<Rightarrow> (nat \<times> int) res" where
  "parse_duid_header self_type buf off len =
     (case len of
        None \<Rightarrow> Inl ValueError
      | Some n \<Rightarrow>
          if n = 0 then Inl ValueError
          else
            rbind (unpack1 2 buf off) (\<lambda>duid_type.
            if duid_type \<noteq> self_type then Inl ValueError else Inr (2, int n)))"

text \<open>
  \<open>buffer[i:i + n]\<close> with a possibly negative \<open>n\<close> and \<open>0 \<le> i + n\<close>: the slice is empty.
  The remaining length of a DUID is \<open>length - my_offset\<close>, which is negative when the length
  is smaller than the fixed fields.
\<close>

definition slice_rest :: "bytes \<Rightarrow> nat \<Rightarrow> int \<Rightarrow> bytes" where
  "slice_rest buf i n = slice buf i (nat n)"

definition UnknownDUID_load_from :: "bytes \<Rightarrow> nat \<Rightarrow> nat option \<Rightarrow> (nat \<times> duid) res" where
  "UnknownDUID_load_from buf off len =
     rbind (unpack1 2 buf off) (\<lambda>t.
     rbind (parse_duid_header t buf off len) (\<lambda>(my_offset, length).
     let duid_len = length - int my_offset;
         duid_data = slice_rest buf (off + my_offset) duid_len
     in Inr (nat (int my_offset + duid_len), UnknownDUID t duid_data)))"

definition LinkLayerTimeDUID_load_from :: "bytes \<Rightarrow> nat \<Rightarrow> nat option \<Rightarrow> (nat \<times> duid) res" where
  "LinkLayerTimeDUID_load_from buf off len =
     rbind (parse_duid_header 1 buf off len) (\<lambda>(my_offset, length).
     rbind (unpack2 2 4 buf (off + my_offset)) (\<lambda>(hardware_type, time).
     let my_offset = my_offset + 6;
         ll_len = length - int my_offset;
         link_layer_address = slice_rest buf (off + my_offset) ll_len
     in Inr (nat (int my_offset + ll_len), LinkLayerTimeDUID hardware_type time link_layer_address)))"

definition EnterpriseDUID_load_from :: "bytes \<Rightarrow> nat \<Rightarrow> nat option \<Rightarrow> (nat \<times> duid) res" where
  "EnterpriseDUID_load_from buf off len =
     rbind (parse_duid_header 2 buf off len) (\<lambda>(my_offset, length).
     rbind (unpack1 4 buf (off + my_offset)) (\<lambda>enterprise_number.
     let my_offset = my_offset + 4;
         identifier_len = length - int my_offset;
         identifier = slice_rest buf (off + my_offset) identifier_len
     in Inr (nat (int my_offset + identifier_len), EnterpriseDUID enterprise_number identifier)))"

definition LinkLayerDUID_load_from :: "bytes \<Rightarrow> nat \<Rightarrow> nat option \<Rightarrow> (nat \<times> duid) res" where
  "LinkLayerDUID_load_from buf off len =
     rbind (parse_duid_header 3 buf off len) (\<lambda>(my_offset, length).
     rbind (unpack1 2 buf (off + my_offset)) (\<lambda>hardware_type.
     let my_offset = my_offset + 2;
         ll_len = length - int my_offset;
         link_layer_address = slice_rest buf (off + my_offset) ll_len
     in Inr (nat (int my_offset + ll_len), LinkLayerDUID hardware_type link_layer_address)))"

definition DUID_parse :: "bytes \<Rightarrow> nat \<Rightarrow> nat option \<Rightarrow> (nat \<times> duid) res" where
  "DUID_parse buf off len =
     rbind (DUID_determine_class buf off) (\<lambda>element_class.
     case element_class of
       C_UnknownDUID \<Rightarrow> UnknownDUID_load_from buf off len
     | C_LinkLayerTimeDUID \<Rightarrow> LinkLayerTimeDUID_load_from buf off len
     | C_EnterpriseDUID \<Rightarrow> EnterpriseDUID_load_from buf off len
     | C_LinkLayerDUID \<Rightarrow> LinkLayerDUID_load_from buf off len)"

subsection \<open>Saving and validating\<close>

definition UnknownDUID_save :: "int \<Rightarrow> bytes \<Rightarrow> bytes res" where
  [simp]: "UnknownDUID_save t duid_data = rbind (pack_fields [(2, t)]) (\<lambda>h. Inr (h @ duid_data))"

definition LinkLayerTimeDUID_save :: "int \<Rightarrow> int \<Rightarrow> bytes \<Rightarrow> bytes res" where
  [simp]: "LinkLayerTimeDUID_save hardware_type time link_layer_address =
     rbind (pack_fields [(2, 1), (2, hardware_type), (4, time)]) (\<lambda>h. Inr (h @ link_layer_address))"

definition EnterpriseDUID_save :: "int \<Rightarrow> bytes \<Rightarrow> bytes res" where
  [simp]: "EnterpriseDUID_save enterprise_number identifier =
     rbind (pack_fields [(2, 2), (4, enterprise_number)]) (\<lambda>h. Inr (h @ identifier))"

definition LinkLayerDUID_save :: "int \<Rightarrow> bytes \<Rightarrow> bytes res" where
  [simp]: "LinkLayerDUID_save hardware_type link_layer_address =
     rbind (pack_fields [(2, 3), (2, hardware_type)]) (\<lambda>h. Inr (h @ link_layer_address))"

fun DUID_save :: "duid \<Rightarrow> bytes res" where
  "DUID_save (UnknownDUID t duid_data) = UnknownDUID_save t duid_data"
| "DUID_save (LinkLayerTimeDUID hardware_type time link_layer_address) =
     LinkLayerTimeDUID_save hardware_type time link_layer_address"
| "DUID_save (EnterpriseDUID enterprise_number identifier) =
     EnterpriseDUID_save enterprise_number identifier"
| "DUID_save (LinkLayerDUID hardware_type link_layer_address) =
     LinkLayerDUID_save hardware_type link_layer_address"

text \<open>The type tests of \<open>validate\<close> hold by typing; what is left are the ranges.\<close>

definition LinkLayerTimeDUID_validate :: "int \<Rightarrow> int \<Rightarrow> bytes \<Rightarrow> unit res" where
  [simp]: "LinkLayerTimeDUID_validate hardware_type time link_layer_address =
     (if \<not> (0 \<le> hardware_type \<and> hardware_type < 2 ^ 16) then Inl ValueError
      else if \<not> (0 \<le> time \<and> time < 2 ^ 32) then Inl ValueError
      else if length link_layer_address > 120 then Inl ValueError
      else Inr ())"

definition EnterpriseDUID_validate :: "int \<Rightarrow> bytes \<Rightarrow> unit res" where
  [simp]: "EnterpriseDUID_validate enterprise_number identifier =
     (if \<not> (0 \<le> enterprise_number \<and> enterprise_number < 2 ^ 32) then Inl ValueError
      else if length identifier > 122 then Inl ValueError
      else Inr ())"

definition LinkLayerDUID_validate :: "int \<Rightarrow> bytes \<Rightarrow> unit res" where
  [simp]: "LinkLayerDUID_validate hardware_type link_layer_address =
     (if \<not> (0 \<le> hardware_type \<and> hardware_type < 2 ^ 16) then Inl ValueError
      else if length link_layer_address > 124 then Inl ValueError
      else Inr ())"

fun DUID_validate :: "duid \<Rightarrow> unit res" where
  "DUID_validate (UnknownDUID t duid_data) = Inr ()"
| "DUID_validate (LinkLayerTimeDUID hardware_type time link_layer_address) =
     LinkLayerTimeDUID_validate hardware_type time link_layer_address"
| "DUID_validate (EnterpriseDUID enterprise_number identifier) =
     EnterpriseDUID_validate enterprise_number identifier"
| "DUID_validate (LinkLayerDUID hardware_type link_layer_address) =
     LinkLayerDUID_validate hardware_type link_layer_address"

subsection \<open>Correctness\<close>

lemmas duid_load_defs =
  UnknownDUID_load_from_def LinkLayerTimeDUID_load_from_def EnterpriseDUID_load_from_def
  LinkLayerDUID_load_from_def parse_duid_header_def Let_def

text \<open>An unknown DUID reads back only if its type number is not one of a registered class.\<close>

fun duid_representable :: "duid \<Rightarrow> bool" where
  "duid_representable (UnknownDUID t _) \<longleftrightarrow> duid_registry t = None"
| "duid_representable _ \<longleftrightarrow> True"

lemma DUID_save_eq_Inr:
  "DUID_save (UnknownDUID t data) = Inr bs \<longleftrightarrow>
     0 \<le> t \<and> t < 65536 \<and> bs = be_bytes 2 (nat t) @ data"
  "DUID_save (LinkLayerTimeDUID h tm a) = Inr bs \<longleftrightarrow>
     0 \<le> h \<and> h < 65536 \<and> 0 \<le> tm \<and> tm < 4294967296
     \<and> bs = be_bytes 2 1 @ be_bytes 2 (nat h) @ be_bytes 4 (nat tm) @ a"
  "DUID_save (EnterpriseDUID n i) = Inr bs \<longleftrightarrow>
     0 \<le> n \<and> n < 4294967296 \<and> bs = be_bytes 2 2 @ be_bytes 4 (nat n) @ i"
  "DUID_save (LinkLayerDUID h a) = Inr bs \<longleftrightarrow>
     0 \<le> h \<and> h < 65536 \<and> bs = be_bytes 2 3 @ be_bytes 2 (nat h) @ a"
  by (auto simp: res_simps)

lemma DUID_save_ge_2: "DUID_save d = Inr bs \<Longrightarrow> 2 \<le> length bs"
  by (cases d) (auto simp: DUID_save_eq_Inr simp del: DUID_save.simps)

lemma DUID_parse_save:
  assumes "DUID_save d = Inr bs" and "duid_representable d"
  shows "DUID_parse (pre @ bs @ post) (length pre) (Some (length bs)) = Inr (length bs, d)"
  using assms
  by (cases d)
    (auto simp: DUID_parse_def DUID_determine_class_def duid_load_defs DUID_save_eq_Inr buf_simps
      slice_rest_def nat_less_iff duid_registry_def nat_add_distrib simp del: DUID_save.simps
      split: if_splits)

text \<open>A successful parse reports exactly the length it was given.\<close>

lemma DUID_parse_length:
  assumes "DUID_parse buf off len = Inr (n, d)"
  shows "len = Some n \<and> 0 < n"
proof -
  from assms obtain c where "(case c of
       C_UnknownDUID \<Rightarrow> UnknownDUID_load_from buf off len
     | C_LinkLayerTimeDUID \<Rightarrow> LinkLayerTimeDUID_load_from buf off len
     | C_EnterpriseDUID \<Rightarrow> EnterpriseDUID_load_from buf off len
     | C_LinkLayerDUID \<Rightarrow> LinkLayerDUID_load_from buf off len) = Inr (n, d)"
    by (auto simp: DUID_parse_def res_simps)
  then show ?thesis
    by (cases c) (auto simp: duid_load_defs res_simps split: option.splits if_splits)
qed

lemma DUID_parse_not_fuel [simp]: "DUID_parse buf off len \<noteq> Inl OutOfFuel"
proof -
  have "(case c of
       C_UnknownDUID \<Rightarrow> UnknownDUID_load_from buf off len
     | C_LinkLayerTimeDUID \<Rightarrow> LinkLayerTimeDUID_load_from buf off len
     | C_EnterpriseDUID \<Rightarrow> EnterpriseDUID_load_from buf off len
     | C_LinkLayerDUID \<Rightarrow> LinkLayerDUID_load_from buf off len) \<noteq> Inl OutOfFuel" for c
    by (cases c) (auto simp: duid_load_defs res_simps split: option.splits)
  then show ?thesis by (auto simp: DUID_parse_def DUID_determine_class_def res_simps)
qed

lemma DUID_save_validated:
  "DUID_validate d = Inr () \<Longrightarrow> (\<And>t bs. d \<noteq> UnknownDUID t bs) \<Longrightarrow>
   \<exists>bs. DUID_save d = Inr bs \<and> length bs \<le> 128"
  by (cases d) (auto split: if_splits)

end
