(* ===== verification/Addresses.thy ===== *)
theory Addresses
  imports Bytes
begin

text \<open>
  The standard library's \<open>IPv6Address\<close> and \<open>IPv6Network\<close> as the code uses them, and the
  address helpers of dhcpkit/ipv6/utils.py.  An address is a 128-bit word; a network is its
  network address and its prefix length, and \<open>make_network\<close> is the (strict) constructor.
\<close>

unbundle bit_operations_syntax

type_synonym ipv6 = "128 word"

datatype ipv6_network = IPv6Network (network_address: ipv6) (prefixlen: nat)

instantiation ipv6_network :: linorder
begin

text \<open>Networks sort by network address, then by netmask, as \<open>IPv6Network.__lt__\<close> does.\<close>

definition less_eq_ipv6_network :: "ipv6_network \<Rightarrow> ipv6_network \<Rightarrow> bool" where
  "less_eq_ipv6_network m n \<longleftrightarrow>
     network_address m < network_address n
     \<or> network_address m = network_address n \<and> prefixlen m \<le> prefixlen n"

definition less_ipv6_network :: "ipv6_network \<Rightarrow> ipv6_network \<Rightarrow> bool" where
  "less_ipv6_network m n \<longleftrightarrow> m \<le> n \<and> \<not> n \<le> m"

instance
  by standard (auto simp: less_eq_ipv6_network_def less_ipv6_network_def intro: ipv6_network.expand)

end

definition hostmask :: "nat \<Rightarrow> ipv6" where
  "hostmask plen = mask (128 - plen)"

definition broadcast_address :: "ipv6_network \<Rightarrow> ipv6" where
  "broadcast_address n = network_address n OR hostmask (prefixlen n)"

definition network_ok :: "ipv6_network \<Rightarrow> bool" where
  "network_ok n \<longleftrightarrow> prefixlen n \<le> 128 \<and> network_address n AND hostmask (prefixlen n) = 0"

text \<open>\<open>IPv6Network('{!s}/{:d}'.format(address, prefix_length))\<close>.\<close>

definition make_network :: "ipv6 \<Rightarrow> nat \<Rightarrow> ipv6_network res" where
  "make_network addr plen =
     (if network_ok (IPv6Network addr plen) then Inr (IPv6Network addr plen) else Inl ValueError)"

definition in_network :: "ipv6 \<Rightarrow> ipv6_network \<Rightarrow> bool" where
  "in_network a n \<longleftrightarrow> network_address n \<le> a \<and> a \<le> broadcast_address n"

definition overlaps :: "ipv6_network \<Rightarrow> ipv6_network \<Rightarrow> bool" where
  "overlaps m n \<longleftrightarrow>
     in_network (network_address n) m \<or> in_network (broadcast_address n) m
     \<or> in_network (network_address m) n \<or> in_network (broadcast_address m) n"

definition is_multicast :: "ipv6 \<Rightarrow> bool" where
  "is_multicast a = in_network a (IPv6Network 0xFF000000000000000000000000000000 8)"

definition is_link_local :: "ipv6 \<Rightarrow> bool" where
  "is_link_local a = in_network a (IPv6Network 0xFE800000000000000000000000000000 10)"

definition is_loopback :: "ipv6 \<Rightarrow> bool" where
  "is_loopback a \<longleftrightarrow> a = 1"

definition is_unspecified :: "ipv6 \<Rightarrow> bool" where
  "is_unspecified a \<longleftrightarrow> a = 0"

text \<open>The same tests of a network hold of both its ends.\<close>

definition network_all :: "(ipv6 \<Rightarrow> bool) \<Rightarrow> ipv6_network \<Rightarrow> bool" where
  "network_all p n \<longleftrightarrow> p (network_address n) \<and> p (broadcast_address n)"

subsection \<open>Packed form\<close>

definition packed :: "ipv6 \<Rightarrow> bytes" where
  "packed a = be_bytes 16 (unat a)"

text \<open>\<open>IPv6Address(bytes)\<close>: \<open>AddressValueError\<close> unless there are 16 octets.\<close>

definition ipv6_from_bytes :: "bytes \<Rightarrow> ipv6 res" where
  "ipv6_from_bytes bs = (if length bs = 16 then Inr (of_nat (be_nat bs)) else Inl ValueError)"

lemma length_packed [simp]: "length (packed a) = 16"
  by (simp add: packed_def)

lemma ipv6_from_packed [simp]: "ipv6_from_bytes (packed a) = Inr a"
proof -
  have "unat a < 256 ^ 16"
    using unsigned_less [of a, where 'a = nat] by simp
  then show ?thesis
    by (simp add: ipv6_from_bytes_def packed_def be_nat_be_bytes)
qed

lemma ipv6_from_bytes_not_fuel [simp]: "ipv6_from_bytes bs \<noteq> Inl OutOfFuel"
  by (simp add: ipv6_from_bytes_def)

lemma make_network_not_fuel [simp]: "make_network a n \<noteq> Inl OutOfFuel"
  by (simp add: make_network_def)

lemma make_network_eq_Inr [res_simps]:
  "make_network a p = Inr n \<longleftrightarrow> n = IPv6Network a p \<and> network_ok n"
  by (auto simp: make_network_def)

subsection \<open>Networks read from the leading octets of an address\<close>

text \<open>
  \<open>IPv6Network(..., strict=False)\<close> clears the host bits; the prefix lengths that reach it
  have been checked.  \<open>ljust(16, b'\x00')\<close> fills up the octets that were left out.
\<close>

definition make_network_lax :: "ipv6 \<Rightarrow> nat \<Rightarrow> ipv6_network" where
  "make_network_lax addr plen = IPv6Network (addr AND NOT (hostmask plen)) plen"

definition included_octets :: "nat \<Rightarrow> nat" where
  "included_octets plen = (plen + 7) div 8"

definition prefix_bytes :: "ipv6_network \<Rightarrow> bytes" where
  "prefix_bytes n = take (included_octets (prefixlen n)) (packed (network_address n))"

definition ljust :: "bytes \<Rightarrow> nat \<Rightarrow> bytes" where
  "ljust bs n = bs @ replicate (n - length bs) 0"

lemma included_octets_le: "p \<le> 128 \<Longrightarrow> included_octets p \<le> 16"
  by (simp add: included_octets_def)

lemma length_prefix_bytes:
  "prefixlen n \<le> 128 \<Longrightarrow> length (prefix_bytes n) = included_octets (prefixlen n)"
  using included_octets_le [of "prefixlen n"] by (simp add: prefix_bytes_def)

lemma make_network_lax_ok: "network_ok n \<Longrightarrow> make_network_lax (network_address n) (prefixlen n) = n"
proof -
  assume "network_ok n"
  then have "network_address n AND hostmask (prefixlen n) = 0" by (simp add: network_ok_def)
  then have "network_address n AND NOT (hostmask (prefixlen n)) = network_address n"
    by (auto simp: bit_eq_iff bit_simps)
  then show ?thesis by (simp add: make_network_lax_def)
qed

text \<open>
  The host bits and whatever fills the last octet read are cleared: the network is proper.
\<close>

lemma make_network_lax_network_ok: "p \<le> 128 \<Longrightarrow> network_ok (make_network_lax a p)"
  by (auto simp: make_network_lax_def network_ok_def bit_eq_iff bit_simps)

subsection \<open>IPv4\<close>

type_synonym ipv4 = "32 word"

datatype ipv4_network = IPv4Network (network_address4: ipv4) (prefixlen4: nat)

definition ipv4_hostmask :: "nat \<Rightarrow> ipv4" where
  "ipv4_hostmask plen = mask (32 - plen)"

definition ipv4_network_ok :: "ipv4_network \<Rightarrow> bool" where
  "ipv4_network_ok n \<longleftrightarrow>
     prefixlen4 n \<le> 32 \<and> network_address4 n AND ipv4_hostmask (prefixlen4 n) = 0"

definition make_ipv4_network_lax :: "ipv4 \<Rightarrow> nat \<Rightarrow> ipv4_network" where
  "make_ipv4_network_lax addr plen = IPv4Network (addr AND NOT (ipv4_hostmask plen)) plen"

definition packed4 :: "ipv4 \<Rightarrow> bytes" where
  "packed4 a = be_bytes 4 (unat a)"

definition ipv4_from_bytes :: "bytes \<Rightarrow> ipv4 res" where
  "ipv4_from_bytes bs = (if length bs = 4 then Inr (of_nat (be_nat bs)) else Inl ValueError)"

lemma length_packed4 [simp]: "length (packed4 a) = 4"
  by (simp add: packed4_def)

lemma ipv4_from_packed [simp]: "ipv4_from_bytes (packed4 a) = Inr a"
proof -
  have "unat a < 256 ^ 4"
    using unsigned_less [of a, where 'a = nat] by simp
  then show ?thesis
    by (simp add: ipv4_from_bytes_def packed4_def be_nat_be_bytes)
qed

lemma ipv4_from_bytes_not_fuel [simp]: "ipv4_from_bytes bs \<noteq> Inl OutOfFuel"
  by (simp add: ipv4_from_bytes_def)

lemma make_ipv4_network_lax_ok:
  "ipv4_network_ok n \<Longrightarrow> make_ipv4_network_lax (network_address4 n) (prefixlen4 n) = n"
proof -
  assume "ipv4_network_ok n"
  then have "network_address4 n AND ipv4_hostmask (prefixlen4 n) = 0"
    by (simp add: ipv4_network_ok_def)
  then have "network_address4 n AND NOT (ipv4_hostmask (prefixlen4 n)) = network_address4 n"
    by (auto simp: bit_eq_iff bit_simps)
  then show ?thesis by (simp add: make_ipv4_network_lax_def)
qed

subsection \<open>dhcpkit/ipv6/utils.py\<close>

definition address_in_prefixes :: "ipv6 \<Rightarrow> ipv6_network list \<Rightarrow> bool" where
  "address_in_prefixes address prefixes = list_ex (in_network address) prefixes"

definition prefix_overlaps_prefixes :: "ipv6_network \<Rightarrow> ipv6_network list \<Rightarrow> bool" where
  "prefix_overlaps_prefixes prefix prefixes = list_ex (overlaps prefix) prefixes"

definition is_global_unicast :: "ipv6 \<Rightarrow> bool" where
  "is_global_unicast address \<longleftrightarrow>
     \<not> (address = 0 \<or> address = 1
        \<or> in_network address (IPv6Network 0xFF000000000000000000000000000000 8)
        \<or> in_network address (IPv6Network 0xFE800000000000000000000000000000 10))"

subsection \<open>Membership and overlap are comparisons of leading bits\<close>

lemma unat_hostmask: "unat (hostmask p) = 2 ^ (128 - p) - 1"
proof -
  have "unat (mask (128 - p) :: ipv6) = unat (take_bit (128 - p) (- 1 :: ipv6))"
    by (simp add: take_bit_minus_one_eq_mask)
  also have "\<dots> = take_bit (128 - p) (mask 128 :: nat)"
    by (simp only: unsigned_take_bit_eq unsigned_minus_1_eq_mask) simp
  also have "\<dots> = 2 ^ (128 - p) - 1"
    by (simp only: take_bit_of_mask) (simp add: mask_eq_exp_minus_1 min_def)
  finally show ?thesis by (simp add: hostmask_def)
qed

lemma network_end:
  assumes "network_ok n"
  shows "unat (broadcast_address n) = unat (network_address n) + (2 ^ (128 - prefixlen n) - 1)"
proof -
  let ?a = "network_address n" and ?m = "hostmask (prefixlen n)"
  have disj: "?a AND ?m = 0" using assms by (simp add: network_ok_def)
  have "unat (?a OR ?m) = unat ?a OR unat ?m" by (simp add: unsigned_or_eq)
  also have "\<dots> = unat ?a + unat ?m"
    by (rule disjunctive_add_eq_or [symmetric])
      (metis disj unsigned_0 unsigned_and_eq)
  finally show ?thesis by (simp add: broadcast_address_def unat_hostmask)
qed

lemma network_start:
  assumes "network_ok n"
  shows "unat (network_address n) mod 2 ^ (128 - prefixlen n) = 0"
proof -
  have "network_address n AND mask (128 - prefixlen n) = 0"
    using assms by (simp add: network_ok_def hostmask_def)
  then have "take_bit (128 - prefixlen n) (network_address n) = 0"
    by (simp add: take_bit_eq_mask)
  then have "unat (take_bit (128 - prefixlen n) (network_address n)) = unat (0 :: ipv6)"
    by (rule arg_cong)
  then have "take_bit (128 - prefixlen n) (unat (network_address n)) = 0"
    by (simp only: unsigned_take_bit_eq unsigned_0)
  then show ?thesis by (simp add: take_bit_eq_mod)
qed

text \<open>The octets that \<open>prefix_bytes\<close> leaves out of a proper network are zero.\<close>

lemma prefix_bytes_ljust:
  assumes "network_ok n"
  shows "ljust (prefix_bytes n) 16 = packed (network_address n)"
proof -
  define k where "k = included_octets (prefixlen n)"
  define v where "v = unat (network_address n)"
  have p: "prefixlen n \<le> 128" using assms by (simp add: network_ok_def)
  then have k: "k \<le> 16" "8 * (16 - k) \<le> 128 - prefixlen n"
    by (auto simp: k_def included_octets_def)
  have "(256 :: nat) ^ (16 - k) = 2 ^ (8 * (16 - k))" by (simp add: power_mult)
  moreover have "(2 :: nat) ^ (8 * (16 - k)) dvd 2 ^ (128 - prefixlen n)"
    using k(2) by (rule le_imp_power_dvd)
  moreover have "2 ^ (128 - prefixlen n) dvd v"
    using network_start [OF assms] unfolding v_def by (rule mod_0_imp_dvd)
  ultimately have "256 ^ (16 - k) dvd v" by (metis dvd_trans)
  then have m: "v mod 256 ^ (16 - k) = 0" by simp
  have "v < 256 ^ (k + (16 - k))"
    using k(1) unsigned_less [of "network_address n", where 'a = nat] by (simp add: v_def)
  from be_bytes_append [OF this] k(1) m
  have "packed (network_address n) = be_bytes k (v div 256 ^ (16 - k)) @ replicate (16 - k) 0"
    by (simp add: packed_def v_def be_bytes_zero)
  with k(1) show ?thesis
    by (simp add: ljust_def prefix_bytes_def k_def)
qed

text \<open>The leading bits of an address, as a number.\<close>

definition leading :: "nat \<Rightarrow> ipv6 \<Rightarrow> nat" where
  "leading p a = unat a div 2 ^ (128 - p)"

lemma aligned_interval:
  fixes s x k :: nat
  assumes "s mod k = 0" and "0 < k"
  shows "s \<le> x \<and> x \<le> s + (k - 1) \<longleftrightarrow> x div k = s div k"
proof -
  obtain q where s: "s = q * k" using assms(1) by (metis mod_0_imp_dvd dvd_div_mult_self)
  have x: "x = x div k * k + x mod k" by simp
  have r: "x mod k < k" using assms(2) by simp
  have "q * k \<le> x \<and> x \<le> q * k + (k - 1) \<longleftrightarrow> x div k = q"
  proof
    assume "q * k \<le> x \<and> x \<le> q * k + (k - 1)"
    then have "k * q \<le> x" and "x < k * Suc q" using assms(2) by (auto simp: mult.commute [of q])
    then show "x div k = q" by (rule div_nat_eqI)
  next
    assume "x div k = q"
    with x have "x = q * k + x mod k" by simp
    with r show "q * k \<le> x \<and> x \<le> q * k + (k - 1)" by linarith
  qed
  then show ?thesis using s assms(2) by simp
qed

lemma in_network_leading:
  assumes "network_ok n"
  shows "in_network a n \<longleftrightarrow> leading (prefixlen n) a = leading (prefixlen n) (network_address n)"
  unfolding in_network_def word_le_nat_alt network_end [OF assms] leading_def
  by (rule aligned_interval [OF network_start [OF assms]]) simp

lemma leading_shorter: "p \<le> q \<Longrightarrow> q \<le> 128 \<Longrightarrow> leading p a = leading q a div 2 ^ (q - p)"
  by (simp add: leading_def div_mult2_eq [symmetric] power_add [symmetric])

lemma overlaps_sym: "overlaps m n = overlaps n m"
  by (auto simp: overlaps_def)

lemma broadcast_in_network: "network_ok n \<Longrightarrow> in_network (broadcast_address n) n"
proof -
  have "(1 :: nat) \<le> 2 ^ (128 - prefixlen n)" by simp
  moreover assume "network_ok n"
  ultimately show ?thesis
    unfolding in_network_def word_le_nat_alt by (simp only: network_end) linarith
qed

lemma overlaps_leading_le:
  assumes "network_ok m" and "network_ok n" and le: "prefixlen m \<le> prefixlen n"
  shows "overlaps m n \<longleftrightarrow>
    leading (prefixlen m) (network_address m) = leading (prefixlen m) (network_address n)"
proof -
  have q: "prefixlen n \<le> 128" using assms(2) by (simp add: network_ok_def)
  have end_n: "leading (prefixlen m) (broadcast_address n) = leading (prefixlen m) (network_address n)"
    using broadcast_in_network [OF assms(2)]
    by (simp add: in_network_leading [OF assms(2)] leading_shorter [OF le q])
  have end_m: "leading (prefixlen m) (broadcast_address m) = leading (prefixlen m) (network_address m)"
    using broadcast_in_network [OF assms(1)] by (simp add: in_network_leading [OF assms(1)])
  have "in_network a n \<Longrightarrow> leading (prefixlen m) a = leading (prefixlen m) (network_address n)" for a
    by (simp add: in_network_leading [OF assms(2)] leading_shorter [OF le q])
  then show ?thesis
    using end_n end_m by (auto simp: overlaps_def in_network_leading [OF assms(1)])
qed

end
