(* ===== verification/Text.thy ===== *)
theory Text
  imports Bytes
begin

text \<open>
  Python's \<open>str\<close> as the code uses it: a list of code points, with \<open>str.encode('utf-8')\<close>
  and \<open>bytes.decode('utf-8')\<close> of the standard library (strict error handling).  Status
  messages travel in this encoding (\<open>StatusCodeOption\<close> in dhcpkit/ipv6/options.py).
\<close>

type_synonym pystr = "nat list"

text \<open>String literals of the code.\<close>

definition lit :: "string \<Rightarrow> pystr" where
  "lit s = map of_char s"

lemma length_lit [simp]: "length (lit s) = length s"
  by (simp add: lit_def)

definition surrogate :: "nat \<Rightarrow> bool" where
  "surrogate c \<longleftrightarrow> 0xD800 \<le> c \<and> c \<le> 0xDFFF"

definition code_point :: "nat \<Rightarrow> bool" where
  "code_point c \<longleftrightarrow> c < 0x110000 \<and> \<not> surrogate c"

fun utf8_char :: "nat \<Rightarrow> nat list res" where
  "utf8_char c =
     (if c < 0x80 then Inr [c]
      else if c < 0x800 then Inr [0xC0 + c div 64, 0x80 + c mod 64]
      else if \<not> code_point c then Inl ValueError
      else if c < 0x10000 then
        Inr [0xE0 + c div 4096, 0x80 + c div 64 mod 64, 0x80 + c mod 64]
      else
        Inr [0xF0 + c div 262144, 0x80 + c div 4096 mod 64,
             0x80 + c div 64 mod 64, 0x80 + c mod 64])"

definition utf8_encode :: "pystr \<Rightarrow> bytes res" where
  "utf8_encode s = rbind (concat_res utf8_char s) (\<lambda>ns. Inr (map of_nat ns))"

definition continuation :: "nat \<Rightarrow> bool" where
  "continuation b \<longleftrightarrow> 0x80 \<le> b \<and> b < 0xC0"

text \<open>
  The strict decoder, one character at a time: overlong forms, surrogates, values beyond the
  last code point and truncated sequences are decoding errors.
\<close>

definition utf8_step :: "nat list \<Rightarrow> (nat \<times> nat list) res" where
  "utf8_step ns =
     (case ns of
        [] \<Rightarrow> Inl ValueError
      | a # r \<Rightarrow>
          if a < 0x80 then Inr (a, r)
          else if 0xC0 \<le> a \<and> a < 0xE0 then
            (case r of
               b # r' \<Rightarrow>
                 (let v = (a - 0xC0) * 64 + (b - 0x80) in
                  if continuation b \<and> 0x80 \<le> v then Inr (v, r') else Inl ValueError)
             | _ \<Rightarrow> Inl ValueError)
          else if 0xE0 \<le> a \<and> a < 0xF0 then
            (case r of
               b # c # r' \<Rightarrow>
                 (let v = (a - 0xE0) * 4096 + (b - 0x80) * 64 + (c - 0x80) in
                  if continuation b \<and> continuation c \<and> 0x800 \<le> v \<and> code_point v
                  then Inr (v, r') else Inl ValueError)
             | _ \<Rightarrow> Inl ValueError)
          else if 0xF0 \<le> a \<and> a < 0xF8 then
            (case r of
               b # c # d # r' \<Rightarrow>
                 (let v = (a - 0xF0) * 262144 + (b - 0x80) * 4096 + (c - 0x80) * 64 + (d - 0x80) in
                  if continuation b \<and> continuation c \<and> continuation d
                     \<and> 0x10000 \<le> v \<and> code_point v
                  then Inr (v, r') else Inl ValueError)
             | _ \<Rightarrow> Inl ValueError)
          else Inl ValueError)"

lemma utf8_step_shorter: "utf8_step ns = Inr (v, r) \<Longrightarrow> length r < length ns"
  by (auto simp: utf8_step_def Let_def split: list.splits if_splits)

lemma utf8_step_code_point: "utf8_step ns = Inr (v, r) \<Longrightarrow> code_point v"
  by (auto simp: utf8_step_def Let_def code_point_def surrogate_def continuation_def
      split: list.splits if_splits)

lemma utf8_step_not_fuel: "utf8_step ns \<noteq> Inl OutOfFuel"
  by (auto simp: utf8_step_def Let_def split: list.splits)

function utf8_values :: "nat list \<Rightarrow> pystr res" where
  "utf8_values ns =
     (if ns = [] then Inr []
      else rbind (utf8_step ns) (\<lambda>(v, r). rbind (utf8_values r) (\<lambda>s. Inr (v # s))))"
  by pat_completeness auto
termination
  by (relation "measure length") (auto simp: utf8_step_shorter)

declare utf8_values.simps [simp del]

lemma utf8_values_Nil [simp]: "utf8_values [] = Inr []"
  by (simp add: utf8_values.simps)

definition utf8_decode :: "bytes \<Rightarrow> pystr res" where
  "utf8_decode bs = utf8_values (map unat bs)"

lemmas utf8_defs = continuation_def code_point_def surrogate_def Let_def

lemma utf8_step_char:
  assumes "utf8_char c = Inr ns"
  shows "utf8_step (ns @ r) = Inr (c, r)"
proof -
  have two: "c div 64 * 64 + c mod 64 = c" by (rule div_mult_mod_eq)
  have q: "c div 4096 = c div 64 div 64" "c div 262144 = c div 64 div 64 div 64"
    by (simp_all add: div_mult2_eq [symmetric])
  have three: "c div 4096 * 4096 + c div 64 mod 64 * 64 + c mod 64 = c"
    unfolding q using two div_mult_mod_eq [of "c div 64" 64] by linarith
  have four: "c div 262144 * 262144 + c div 4096 mod 64 * 4096 + c div 64 mod 64 * 64 + c mod 64 = c"
    unfolding q using two div_mult_mod_eq [of "c div 64" 64] div_mult_mod_eq [of "c div 64 div 64" 64]
    by linarith
  consider "c < 0x80" | "0x80 \<le> c" "c < 0x800" | "0x800 \<le> c" "c < 0x10000" | "0x10000 \<le> c"
    by linarith
  then show ?thesis
  proof cases
    case 1
    with assms show ?thesis by (auto simp: utf8_step_def)
  next
    case 2
    then have "c div 64 < 32" by simp
    with 2 assms two show ?thesis by (auto simp: utf8_step_def utf8_defs)
  next
    case 3
    then have "c div 4096 < 16" and "code_point c" using assms by (auto split: if_splits)
    with 3 assms three show ?thesis by (auto simp: utf8_step_def continuation_def Let_def)
  next
    case 4
    then have "code_point c" using assms by (auto split: if_splits)
    then have "c < 8 * 262144" by (simp add: code_point_def)
    then have "c div 262144 < 8" by (rule less_mult_imp_div_less)
    with 4 assms four \<open>code_point c\<close> show ?thesis
      by (auto simp: utf8_step_def continuation_def Let_def)
  qed
qed

lemma utf8_values_char:
  assumes "utf8_char c = Inr ns"
  shows "utf8_values (ns @ r) = rbind (utf8_values r) (\<lambda>s. Inr (c # s))"
proof -
  have "ns \<noteq> []" using assms by (auto split: if_splits)
  then show ?thesis
    using utf8_step_char [OF assms] by (subst utf8_values.simps) simp
qed

lemma utf8_char_bytes: "utf8_char c = Inr ns \<Longrightarrow> \<forall>n \<in> set ns. n < 256"
  by (auto simp: code_point_def split: if_splits)

lemma utf8_values_concat:
  "concat_res utf8_char s = Inr ns \<Longrightarrow> utf8_values ns = Inr s"
proof (induction s arbitrary: ns)
  case (Cons c s)
  then obtain a b where a: "utf8_char c = Inr a" and b: "concat_res utf8_char s = Inr b"
    and ns: "ns = a @ b"
    by (auto simp: res_simps simp del: utf8_char.simps)
  show ?case
    unfolding ns utf8_values_char [OF a] Cons.IH [OF b] by simp
qed simp

lemma utf8_concat_bytes: "concat_res utf8_char s = Inr ns \<Longrightarrow> \<forall>n \<in> set ns. n < 256"
proof (induction s arbitrary: ns)
  case (Cons c s)
  then obtain a b where "utf8_char c = Inr a" and "concat_res utf8_char s = Inr b"
    and "ns = a @ b"
    by (auto simp: res_simps simp del: utf8_char.simps)
  with Cons.IH utf8_char_bytes show ?case by (auto simp del: utf8_char.simps)
qed simp

lemma unat_of_byte_values: "\<forall>n \<in> set ns. n < 256 \<Longrightarrow> map (\<lambda>n. unat (of_nat n :: byte)) ns = ns"
  by (induction ns) (simp_all add: unsigned_of_nat take_bit_eq_mod)

lemma utf8_decode_encode: "utf8_encode s = Inr bs \<Longrightarrow> utf8_decode bs = Inr s"
  using utf8_concat_bytes utf8_values_concat
  by (auto simp: utf8_encode_def utf8_decode_def res_simps o_def unat_of_byte_values)

lemma utf8_values_not_fuel: "utf8_values ns \<noteq> Inl OutOfFuel"
proof (induction ns rule: utf8_values.induct)
  case (1 ns)
  then show ?case
    using utf8_step_not_fuel [of ns] by (subst utf8_values.simps) (auto simp: res_simps)
qed

lemma utf8_decode_not_fuel [simp]: "utf8_decode bs \<noteq> Inl OutOfFuel"
  by (simp add: utf8_decode_def utf8_values_not_fuel)

text \<open>Every decoded string holds code points only, so encoding it again succeeds.\<close>

lemma utf8_values_code_points: "utf8_values ns = Inr s \<Longrightarrow> \<forall>c \<in> set s. code_point c"
proof (induction ns arbitrary: s rule: utf8_values.induct)
  case (1 ns)
  show ?case
  proof (cases "ns = []")
    case False
    with "1.prems" obtain v r t where step: "utf8_step ns = Inr (v, r)"
      and t: "utf8_values r = Inr t" and s: "s = v # t"
      by (subst (asm) utf8_values.simps) (auto simp: res_simps)
    from "1.IH" [OF False step refl t] utf8_step_code_point [OF step] s show ?thesis by simp
  qed (use "1.prems" in simp)
qed

lemma utf8_encode_code_points:
  "\<forall>c \<in> set s. code_point c \<Longrightarrow> \<exists>bs. utf8_encode s = Inr bs"
proof -
  assume "\<forall>c \<in> set s. code_point c"
  then have "\<exists>ns. concat_res utf8_char s = Inr ns"
    by (induction s) auto
  then show ?thesis by (auto simp: utf8_encode_def)
qed

subsection \<open>ASCII\<close>

text \<open>\<open>str.encode('ascii')\<close> and \<open>bytes.decode('ascii')\<close>.\<close>

definition ascii_encode :: "pystr \<Rightarrow> bytes res" where
  "ascii_encode s = (if list_all (\<lambda>c. c < 128) s then Inr (map of_nat s) else Inl ValueError)"

definition ascii_decode :: "bytes \<Rightarrow> pystr res" where
  "ascii_decode bs = (if list_all (\<lambda>b. unat b < 128) bs then Inr (map unat bs) else Inl ValueError)"

lemma ascii_decode_encode: "ascii_encode s = Inr bs \<Longrightarrow> ascii_decode bs = Inr s"
proof -
  assume "ascii_encode s = Inr bs"
  then have s: "\<forall>c \<in> set s. c < 128" and bs: "bs = map of_nat s"
    by (auto simp: ascii_encode_def list_all_iff split: if_splits)
  then have "\<forall>c \<in> set s. unat (of_nat c :: byte) = c" by (auto simp: unat_of_nat)
  with s show ?thesis by (auto simp: ascii_decode_def bs list_all_iff o_def intro!: map_idI)
qed

lemma ascii_encode_decode: "ascii_decode bs = Inr s \<Longrightarrow> ascii_encode s = Inr bs"
  by (auto simp: ascii_encode_def ascii_decode_def list_all_iff o_def split: if_splits)

lemma ascii_decode_not_fuel [simp]: "ascii_decode bs \<noteq> Inl OutOfFuel"
  by (simp add: ascii_decode_def)

subsection \<open>Numbers and octets as text\<close>

text \<open>\<open>str\<close> of a number and the hexadecimal digits of octets (\<open>codecs.encode(data, 'hex')\<close>).\<close>

fun decimal_digits :: "nat \<Rightarrow> pystr" where
  "decimal_digits n = (if n < 10 then [48 + n] else decimal_digits (n div 10) @ [48 + n mod 10])"

declare decimal_digits.simps [simp del]

definition decimal :: "int \<Rightarrow> pystr" where
  "decimal i = (if i < 0 then 45 # decimal_digits (nat (- i)) else decimal_digits (nat i))"

definition hex_digit :: "nat \<Rightarrow> nat" where
  "hex_digit n = (if n < 10 then 48 + n else 87 + n)"

definition hex_encode :: "bytes \<Rightarrow> pystr" where
  "hex_encode bs = concat (map (\<lambda>b. [hex_digit (unat b div 16), hex_digit (unat b mod 16)]) bs)"

definition number_of_digits :: "pystr \<Rightarrow> nat" where
  "number_of_digits s = foldl (\<lambda>n c. 10 * n + (c - 48)) 0 s"

lemma number_of_decimal_digits [simp]: "number_of_digits (decimal_digits n) = n"
proof (induction n rule: decimal_digits.induct)
  case (1 n)
  then show ?case
    by (subst decimal_digits.simps) (auto simp: number_of_digits_def)
qed

lemma decimal_digits_range: "c \<in> set (decimal_digits n) \<Longrightarrow> 48 \<le> c \<and> c \<le> 57"
proof (induction n rule: decimal_digits.induct)
  case (1 n)
  from "1.prems" show ?case
    by (subst (asm) decimal_digits.simps) (auto split: if_splits dest: "1.IH")
qed

lemma decimal_digits_not_Nil [simp]: "decimal_digits n \<noteq> []"
  by (subst decimal_digits.simps) simp

lemma decimal_inj [simp]: "decimal i = decimal j \<longleftrightarrow> i = j"
proof
  assume eq: "decimal i = decimal j"
  have minus: "45 # xs \<noteq> decimal_digits n" for xs n
    using decimal_digits_range [of 45 n] by (force dest: arg_cong [of _ _ set])
  have digits: "decimal_digits m = decimal_digits n \<longleftrightarrow> m = n" for m n
    by (metis number_of_decimal_digits)
  show "i = j"
    using eq minus minus [symmetric] by (auto simp: decimal_def digits split: if_splits)
qed simp

lemma decimal_chars: "c \<in> set (decimal i) \<Longrightarrow> c = 45 \<or> 48 \<le> c \<and> c \<le> 57"
  by (auto simp: decimal_def dest: decimal_digits_range split: if_splits)

lemma hex_digit_inj: "m < 16 \<Longrightarrow> n < 16 \<Longrightarrow> hex_digit m = hex_digit n \<longleftrightarrow> m = n"
  by (auto simp: hex_digit_def split: if_splits)

lemma hex_encode_inj [simp]: "hex_encode a = hex_encode b \<longleftrightarrow> a = b"
proof (induction a arbitrary: b)
  case Nil
  show ?case by (cases b) (simp_all add: hex_encode_def)
next
  case (Cons x a)
  show ?case
  proof (cases b)
    case (Cons y b')
    have "unat x < 256" "unat y < 256" using unsigned_less [of x] unsigned_less [of y] by simp_all
    then have "unat x div 16 < 16" "unat y div 16 < 16" by simp_all
    then have "hex_digit (unat x div 16) = hex_digit (unat y div 16)
        \<and> hex_digit (unat x mod 16) = hex_digit (unat y mod 16) \<longleftrightarrow> unat x = unat y"
      by (auto simp: hex_digit_inj) (metis div_mult_mod_eq)
    with Cons.IH [of b'] show ?thesis
      by (auto simp: Cons hex_encode_def word_unat_eq_iff)
  qed (simp add: hex_encode_def)
qed

text \<open>\<open>bytes.fromhex\<close>: pairs of digits, with white space between them.\<close>

definition ascii_space :: "nat \<Rightarrow> bool" where
  "ascii_space c \<longleftrightarrow> 9 \<le> c \<and> c \<le> 13 \<or> c = 32"

definition hex_value :: "nat \<Rightarrow> nat option" where
  "hex_value c =
     (if 48 \<le> c \<and> c \<le> 57 then Some (c - 48)
      else if 97 \<le> c \<and> c \<le> 102 then Some (c - 87)
      else if 65 \<le> c \<and> c \<le> 70 then Some (c - 55)
      else None)"

fun from_hex :: "pystr \<Rightarrow> bytes res" where
  "from_hex [] = Inr []"
| "from_hex [c] = (if ascii_space c then Inr [] else Inl ValueError)"
| "from_hex (c # d # s) =
     (if ascii_space c then from_hex (d # s)
      else
        (case (hex_value c, hex_value d) of
           (Some x, Some y) \<Rightarrow> rbind (from_hex s) (\<lambda>bs. Inr (of_nat (16 * x + y) # bs))
         | _ \<Rightarrow> Inl ValueError))"

lemma hex_value_digit [simp]: "n < 16 \<Longrightarrow> hex_value (hex_digit n) = Some n"
  by (auto simp: hex_value_def hex_digit_def)

lemma hex_digit_no_space [simp]: "n < 16 \<Longrightarrow> \<not> ascii_space (hex_digit n)"
  by (auto simp: ascii_space_def hex_digit_def)

lemma from_hex_encode [simp]: "from_hex (hex_encode bs) = Inr bs"
proof (induction bs)
  case (Cons b bs)
  have "unat b < 256" using unsigned_less [of b] by simp
  then have "unat b div 16 < 16" by simp
  moreover have "16 * (unat b div 16) + unat b mod 16 = unat b" by simp
  ultimately show ?case using Cons by (simp add: hex_encode_def)
qed (simp add: hex_encode_def)

end
