(* ===== verification/Items.thy ===== *)
theory Items
  imports Bytes
begin

text \<open>
  The loop that the options and messages run over a buffer: while the end offset is not
  reached, decode one item at the current offset and move on by the octets it used.  The
  code repeats it in every class that carries a list; here it is one function over the item
  decoder.  The fuel bounds the number of rounds: every round of the code uses at least one
  octet, so the octets to read plus one are enough (\<open>items_loop_not_fuel\<close>).
\<close>

fun items_loop ::
  "nat \<Rightarrow> (nat \<Rightarrow> (nat \<times> 'a) res) \<Rightarrow> nat \<Rightarrow> nat \<Rightarrow> nat \<Rightarrow> (nat \<times> 'a list) res" where
  "items_loop 0 dec offset my_offset max_offset = Inl OutOfFuel"
| "items_loop (Suc fuel) dec offset my_offset max_offset =
     (if max_offset > my_offset then
        rbind (dec (offset + my_offset)) (\<lambda>(used_buffer, item).
        rbind (items_loop fuel dec offset (my_offset + used_buffer) max_offset) (\<lambda>(end_offset, items).
        Inr (end_offset, item # items)))
      else Inr (my_offset, []))"

lemma items_loop_not_fuel:
  assumes "\<And>k. offset + my_offset \<le> k \<Longrightarrow> dec k \<noteq> Inl OutOfFuel"
    and "\<And>k n x. dec k = Inr (n, x) \<Longrightarrow> 0 < n"
    and "max_offset - my_offset < fuel"
  shows "items_loop fuel dec offset my_offset max_offset \<noteq> Inl OutOfFuel"
  using assms(1,3)
proof (induction fuel arbitrary: my_offset)
  case (Suc fuel)
  have "items_loop fuel dec offset (my_offset + n) max_offset \<noteq> Inl OutOfFuel"
    if "dec (offset + my_offset) = Inr (n, x)" and "my_offset < max_offset" for n x
  proof (rule Suc.IH)
    show "max_offset - (my_offset + n) < fuel"
      using assms(2) [OF that(1)] that(2) Suc.prems(2) by linarith
  qed (use Suc.prems(1) in auto)
  then show ?case
    using Suc.prems(1) [of "offset + my_offset"] by (auto simp: res_simps)
qed simp

lemma items_loop_mono_offset:
  "items_loop fuel dec offset my_offset max_offset = Inr (e, xs) \<Longrightarrow> my_offset \<le> e"
proof (induction fuel arbitrary: my_offset xs)
  case (Suc fuel)
  then show ?case by (fastforce simp: res_simps split: if_splits)
qed simp

lemma items_loop_end:
  "items_loop fuel dec offset my_offset max_offset = Inr (e, xs) \<Longrightarrow> max_offset \<le> e"
proof (induction fuel arbitrary: my_offset xs)
  case (Suc fuel)
  then show ?case by (fastforce simp: res_simps split: if_splits)
qed simp

text \<open>
  The interface between the loop and an item format: decoding what was encoded returns the
  item and its length, whatever stands before and behind it, and no encoding is empty.
\<close>

locale item_codec =
  fixes enc :: "'a \<Rightarrow> bytes res"
    and dec :: "bytes \<Rightarrow> nat \<Rightarrow> (nat \<times> 'a) res"
    and wf :: "'a \<Rightarrow> bool"
  assumes dec_enc: "wf x \<Longrightarrow> enc x = Inr bs \<Longrightarrow>
      dec (pre @ bs @ post) (length pre) = Inr (length bs, x)"
    and enc_nonempty: "enc x = Inr bs \<Longrightarrow> bs \<noteq> []"
begin

lemma concat_length: "concat_res enc xs = Inr bs \<Longrightarrow> length xs \<le> length bs"
proof (induction xs arbitrary: bs)
  case (Cons x xs)
  then obtain a b where a: "enc x = Inr a" and b: "concat_res enc xs = Inr b" and bs: "bs = a @ b"
    by (auto simp: res_simps)
  have "0 < length a" using enc_nonempty [OF a] by simp
  with Cons.IH [OF b] have "length (x # xs) \<le> length a + length b" unfolding list.size by linarith
  with bs show ?case by simp
qed simp

lemma items_roundtrip:
  assumes "\<forall>x \<in> set xs. wf x" and "concat_res enc xs = Inr bs"
    and "offset + my_offset = length pre" and "length xs < fuel"
  shows "items_loop fuel (dec (pre @ bs @ post)) offset my_offset (my_offset + length bs)
         = Inr (my_offset + length bs, xs)"
  using assms
proof (induction xs arbitrary: fuel bs pre my_offset)
  case Nil
  then obtain f where "fuel = Suc f" by (cases fuel) auto
  with Nil show ?case by simp
next
  case (Cons x xs)
  from Cons.prems(4) obtain f where fuel: "fuel = Suc f" and f: "length xs < f"
    by (cases fuel) auto
  from Cons.prems(2) obtain a b where a: "enc x = Inr a" and b: "concat_res enc xs = Inr b"
    and bs: "bs = a @ b"
    by (auto simp: res_simps)
  have "dec (pre @ a @ b @ post) (length pre) = Inr (length a, x)"
    using Cons.prems(1) a by (intro dec_enc) auto
  moreover have "items_loop f (dec ((pre @ a) @ b @ post)) offset (my_offset + length a)
      (my_offset + length a + length b) = Inr (my_offset + length a + length b, xs)"
    by (rule Cons.IH) (use Cons.prems b f in auto)
  moreover have "0 < length a" using enc_nonempty [OF a] by simp
  ultimately show ?case
    using Cons.prems(3) by (simp add: fuel bs add.assoc)
qed

corollary items_roundtrip_octets:
  assumes "\<forall>x \<in> set xs. wf x" and "concat_res enc xs = Inr bs"
    and "offset + my_offset = length pre" and "length bs < fuel"
  shows "items_loop fuel (dec (pre @ bs @ post)) offset my_offset (my_offset + length bs)
         = Inr (my_offset + length bs, xs)"
  using assms concat_length [OF assms(2)] by (intro items_roundtrip) auto

end

subsection \<open>Length-prefixed items\<close>

text \<open>
  The items of \<open>UserClassOption\<close> and \<open>VendorClassOption\<close> (a two-octet length and that many
  octets) and of \<open>VendorSpecificInformationOption\<close> (a two-octet code before the length).
\<close>

definition class_data_enc :: "bytes \<Rightarrow> bytes res" where
  "class_data_enc class_data =
     rbind (pack_fields [(2, int (length class_data))]) (\<lambda>h. Inr (h @ class_data))"

definition class_data_dec :: "bytes \<Rightarrow> nat \<Rightarrow> (nat \<times> bytes) res" where
  "class_data_dec buf off =
     rbind (unpack1 2 buf off) (\<lambda>class_length.
     Inr (2 + nat class_length, slice buf (off + 2) (nat class_length)))"

definition vendor_option_enc :: "int \<times> bytes \<Rightarrow> bytes res" where
  "vendor_option_enc = (\<lambda>(vendor_option_code, vendor_option).
     rbind (pack_fields [(2, vendor_option_code), (2, int (length vendor_option))])
       (\<lambda>h. Inr (h @ vendor_option)))"

definition vendor_option_dec :: "bytes \<Rightarrow> nat \<Rightarrow> (nat \<times> int \<times> bytes) res" where
  "vendor_option_dec buf off =
     rbind (unpack2 2 2 buf off) (\<lambda>(vendor_option_code, vendor_option_length).
     Inr (4 + nat vendor_option_length,
          vendor_option_code, slice buf (off + 4) (nat vendor_option_length)))"

interpretation class_data: item_codec class_data_enc class_data_dec "\<lambda>_. True"
proof
  show "class_data_dec (pre @ bs @ post) (length pre) = Inr (length bs, x)"
    if "class_data_enc x = Inr bs" for x bs pre post
    using that by (auto simp: class_data_enc_def class_data_dec_def res_simps buf_simps)
  show "bs \<noteq> []" if "class_data_enc x = Inr bs" for x bs
    using that by (auto simp: class_data_enc_def res_simps)
qed

interpretation vendor_option: item_codec vendor_option_enc vendor_option_dec "\<lambda>_. True"
proof
  show "vendor_option_dec (pre @ bs @ post) (length pre) = Inr (length bs, x)"
    if "vendor_option_enc x = Inr bs" for x bs pre post
    using that
    by (auto simp: vendor_option_enc_def vendor_option_dec_def res_simps buf_simps nat_less_iff
        split: prod.splits)
  show "bs \<noteq> []" if "vendor_option_enc x = Inr bs" for x bs
    using that by (auto simp: vendor_option_enc_def res_simps split: prod.splits)
qed

lemma class_data_dec_progress: "class_data_dec buf off = Inr (n, x) \<Longrightarrow> 0 < n"
  by (auto simp: class_data_dec_def res_simps)

lemma vendor_option_dec_progress: "vendor_option_dec buf off = Inr (n, x) \<Longrightarrow> 0 < n"
  by (auto simp: vendor_option_dec_def res_simps)

lemma class_data_dec_not_fuel [simp]: "class_data_dec buf off \<noteq> Inl OutOfFuel"
  by (auto simp: class_data_dec_def res_simps)

lemma vendor_option_dec_not_fuel [simp]: "vendor_option_dec buf off \<noteq> Inl OutOfFuel"
  by (auto simp: vendor_option_dec_def res_simps)

end
