(* ===== verification/ExtensionOptions.thy ===== *)
theory ExtensionOptions
  imports OptionHeader Duids Addresses Text Items
begin

text \<open>
  The options of dhcpkit/ipv6/extensions that contain no other options and no domain names:
  for every class its \<open>validate\<close>, \<open>load_from\<close> and \<open>save\<close>, in the order of the option numbers'
  modules.  Theory PlainOptions makes them options like those of options.py; the options with
  suboptions (map.py, leasequery.py) are in theory Messages, those with domain names in theory
  DomainOptions.
\<close>

datatype extension_option =
    RecursiveNameServersOption "ipv6 list"
  | SNTPServersOption "ipv6 list"
  | SIPServersAddressListOption "ipv6 list"
  | SolMaxRTOption int
  | InfMaxRTOption int
  | SubscriberIdOption bytes
  | RemoteIdOption int bytes
  | LinkLayerIdOption int bytes
  | EchoRequestOption "int list"
  | PDExcludeOption int "bytes option"
  | TZDBTimezoneOption "pystr option"
  | RelayIdOption "duid option"
  | CLTTimeOption int
  | LQClientLink "ipv6 list"
  | S46BROption "ipv6 option"
  | S46DMROption "ipv6_network option"
  | S46PortParametersOption int int int

type_synonym extension_loader = "bytes \<Rightarrow> nat \<Rightarrow> nat option \<Rightarrow> (nat \<times> extension_option) res"

fun extension_class :: "extension_option \<Rightarrow> option_class" where
  "extension_class (RecursiveNameServersOption _) = C_RecursiveNameServersOption"
| "extension_class (SNTPServersOption _) = C_SNTPServersOption"
| "extension_class (SIPServersAddressListOption _) = C_SIPServersAddressListOption"
| "extension_class (SolMaxRTOption _) = C_SolMaxRTOption"
| "extension_class (InfMaxRTOption _) = C_InfMaxRTOption"
| "extension_class (SubscriberIdOption _) = C_SubscriberIdOption"
| "extension_class (RemoteIdOption _ _) = C_RemoteIdOption"
| "extension_class (LinkLayerIdOption _ _) = C_LinkLayerIdOption"
| "extension_class (EchoRequestOption _) = C_EchoRequestOption"
| "extension_class (PDExcludeOption _ _) = C_PDExcludeOption"
| "extension_class (TZDBTimezoneOption _) = C_TZDBTimezoneOption"
| "extension_class (RelayIdOption _) = C_RelayIdOption"
| "extension_class (CLTTimeOption _) = C_CLTTimeOption"
| "extension_class (LQClientLink _) = C_LQClientLink"
| "extension_class (S46BROption _) = C_S46BROption"
| "extension_class (S46DMROption _) = C_S46DMROption"
| "extension_class (S46PortParametersOption _ _ _) = C_S46PortParametersOption"

subsection \<open>Lists of addresses\<close>

text \<open>
  The loop of the options that hold a list of addresses, and what their \<open>save\<close> appends to
  the header.
\<close>

definition address_enc :: "ipv6 \<Rightarrow> bytes res" where
  "address_enc address = Inr (packed address)"

definition address_dec :: "bytes \<Rightarrow> nat \<Rightarrow> (nat \<times> ipv6) res" where
  "address_dec buf off =
     rbind (ipv6_from_bytes (slice buf off 16)) (\<lambda>address. Inr (16, address))"

definition address_list_save :: "int \<Rightarrow> ipv6 list \<Rightarrow> bytes res" where
  "address_list_save option_type addresses =
     rbind (pack_fields [(2, option_type), (2, int (length addresses) * 16)]) (\<lambda>h.
     rbind (concat_res address_enc addresses) (\<lambda>b. Inr (h @ b)))"

definition address_list_load_from ::
  "int \<Rightarrow> (ipv6 list \<Rightarrow> extension_option) \<Rightarrow> extension_loader" where
  "address_list_load_from option_type make buf off len =
     rbind (parse_option_header option_type 0 max_option_length buf off len)
       (\<lambda>(my_offset, option_len).
     if option_len mod 16 \<noteq> 0 then Inl ValueError
     else
       rbind (items_loop (Suc option_len) (address_dec buf) off my_offset (option_len + my_offset))
         (\<lambda>(my_offset, addresses). Inr (my_offset, make addresses)))"

definition routable :: "ipv6 \<Rightarrow> bool" where
  "routable a \<longleftrightarrow> \<not> (is_link_local a \<or> is_loopback a \<or> is_multicast a \<or> is_unspecified a)"

definition RecursiveNameServersOption_validate :: "ipv6 list \<Rightarrow> unit res" where
  [simp]: "RecursiveNameServersOption_validate dns_servers = Inr ()"

definition RecursiveNameServersOption_load_from :: extension_loader where
  [simp]: "RecursiveNameServersOption_load_from = address_list_load_from 23 RecursiveNameServersOption"

definition RecursiveNameServersOption_save :: "ipv6 list \<Rightarrow> bytes res" where
  [simp]: "RecursiveNameServersOption_save dns_servers = address_list_save 23 dns_servers"

definition SNTPServersOption_validate :: "ipv6 list \<Rightarrow> unit res" where
  "SNTPServersOption_validate sntp_servers =
     for_all (\<lambda>address. guard (routable address) ValueError) sntp_servers"

definition SNTPServersOption_load_from :: extension_loader where
  [simp]: "SNTPServersOption_load_from = address_list_load_from 31 SNTPServersOption"

definition SNTPServersOption_save :: "ipv6 list \<Rightarrow> bytes res" where
  [simp]: "SNTPServersOption_save sntp_servers = address_list_save 31 sntp_servers"

definition SIPServersAddressListOption_validate :: "ipv6 list \<Rightarrow> unit res" where
  "SIPServersAddressListOption_validate sip_servers =
     for_all (\<lambda>address. guard (routable address) ValueError) sip_servers"

definition SIPServersAddressListOption_load_from :: extension_loader where
  [simp]: "SIPServersAddressListOption_load_from =
     address_list_load_from 22 SIPServersAddressListOption"

definition SIPServersAddressListOption_save :: "ipv6 list \<Rightarrow> bytes res" where
  [simp]: "SIPServersAddressListOption_save sip_servers = address_list_save 22 sip_servers"

text \<open>\<open>LQClientLink\<close> stops when less than an address is left, and then checks the length.\<close>

function link_address_loop :: "bytes \<Rightarrow> nat \<Rightarrow> nat \<Rightarrow> nat \<Rightarrow> (nat \<times> ipv6 list) res" where
  "link_address_loop buf off my_offset max_offset =
     (if max_offset \<ge> my_offset + 16 then
        rbind (ipv6_from_bytes (slice buf (off + my_offset) 16)) (\<lambda>link_address.
        rbind (link_address_loop buf off (my_offset + 16) max_offset) (\<lambda>(end_offset, link_addresses).
        Inr (end_offset, link_address # link_addresses)))
      else Inr (my_offset, []))"
  by auto

termination
  by (relation "measure (\<lambda>(buf, off, my_offset, max_offset). max_offset - my_offset)") auto

declare link_address_loop.simps [simp del]

definition LQClientLink_validate :: "ipv6 list \<Rightarrow> unit res" where
  "LQClientLink_validate link_addresses =
     guard (\<not> list_ex (\<lambda>a. is_loopback a \<or> is_multicast a \<or> is_unspecified a) link_addresses)
       ValueError"

definition LQClientLink_load_from :: extension_loader where
  "LQClientLink_load_from buf off len =
     rbind (parse_option_header 48 0 max_option_length buf off len) (\<lambda>(my_offset, option_len).
     let max_offset = option_len + my_offset in
     rbind (link_address_loop buf off my_offset max_offset) (\<lambda>(my_offset, link_addresses).
     if my_offset \<noteq> max_offset then Inl ValueError
     else Inr (my_offset, LQClientLink link_addresses)))"

definition LQClientLink_save :: "ipv6 list \<Rightarrow> bytes res" where
  [simp]: "LQClientLink_save link_addresses = address_list_save 48 link_addresses"

subsection \<open>Timers\<close>

definition u32_load_from :: "int \<Rightarrow> (int \<Rightarrow> extension_option) \<Rightarrow> extension_loader" where
  "u32_load_from option_type make buf off len =
     rbind (parse_option_header option_type 0 max_option_length buf off len)
       (\<lambda>(my_offset, option_len).
     if option_len \<noteq> 4 then Inl ValueError
     else rbind (unpack1 4 buf (off + my_offset)) (\<lambda>v. Inr (my_offset + 4, make v)))"

definition SolMaxRTOption_validate :: "int \<Rightarrow> unit res" where
  "SolMaxRTOption_validate sol_max_rt = guard (0 \<le> sol_max_rt \<and> sol_max_rt < 2 ^ 32) ValueError"

definition SolMaxRTOption_load_from :: extension_loader where
  [simp]: "SolMaxRTOption_load_from = u32_load_from 82 SolMaxRTOption"

definition SolMaxRTOption_save :: "int \<Rightarrow> bytes res" where
  "SolMaxRTOption_save sol_max_rt = pack_fields [(2, 82), (2, 4), (4, sol_max_rt)]"

definition InfMaxRTOption_validate :: "int \<Rightarrow> unit res" where
  "InfMaxRTOption_validate inf_max_rt = guard (0 \<le> inf_max_rt \<and> inf_max_rt < 2 ^ 32) ValueError"

definition InfMaxRTOption_load_from :: extension_loader where
  [simp]: "InfMaxRTOption_load_from = u32_load_from 83 InfMaxRTOption"

definition InfMaxRTOption_save :: "int \<Rightarrow> bytes res" where
  "InfMaxRTOption_save inf_max_rt = pack_fields [(2, 83), (2, 4), (4, inf_max_rt)]"

definition CLTTimeOption_validate :: "int \<Rightarrow> unit res" where
  "CLTTimeOption_validate clt_time = guard (0 \<le> clt_time \<and> clt_time < 2 ^ 32) ValueError"

definition CLTTimeOption_load_from :: extension_loader where
  "CLTTimeOption_load_from buf off len =
     rbind (parse_option_header 46 4 4 buf off len) (\<lambda>(my_offset, option_len).
     rbind (unpack1 4 buf (off + my_offset)) (\<lambda>clt_time.
     Inr (my_offset + 4, CLTTimeOption clt_time)))"

definition CLTTimeOption_save :: "int \<Rightarrow> bytes res" where
  "CLTTimeOption_save clt_time = pack_fields [(2, 46), (2, 4), (4, clt_time)]"

subsection \<open>Identifiers that relays add\<close>

definition SubscriberIdOption_validate :: "bytes \<Rightarrow> unit res" where
  "SubscriberIdOption_validate subscriber_id =
     guard (\<not> length subscriber_id > 2 ^ 16 - 1) ValueError"

definition SubscriberIdOption_load_from :: extension_loader where
  "SubscriberIdOption_load_from buf off len =
     rbind (parse_option_header 38 0 max_option_length buf off len) (\<lambda>(my_offset, option_len).
     Inr (my_offset + option_len, SubscriberIdOption (slice buf (off + my_offset) option_len)))"

definition SubscriberIdOption_save :: "bytes \<Rightarrow> bytes res" where
  "SubscriberIdOption_save subscriber_id =
     rbind (pack_fields [(2, 38), (2, int (length subscriber_id))]) (\<lambda>h. Inr (h @ subscriber_id))"

text \<open>
  \<open>RemoteIdOption\<close> accepts every length: with less than four octets the enterprise number is
  read from behind the option, \<open>remote_id_length\<close> is negative, the slice empty, and the
  offset returned is again the end of the option.
\<close>

definition RemoteIdOption_validate :: "int \<Rightarrow> bytes \<Rightarrow> unit res" where
  "RemoteIdOption_validate enterprise_number remote_id =
     (if \<not> (0 \<le> enterprise_number \<and> enterprise_number < 2 ^ 32) then Inl ValueError
      else guard (\<not> length remote_id \<ge> 2 ^ 16) ValueError)"

definition RemoteIdOption_load_from :: extension_loader where
  "RemoteIdOption_load_from buf off len =
     rbind (parse_option_header 37 0 max_option_length buf off len) (\<lambda>(my_offset, option_len).
     rbind (unpack1 4 buf (off + my_offset)) (\<lambda>enterprise_number.
     let my_offset = my_offset + 4;
         remote_id_length = int option_len - 4;
         remote_id = slice buf (off + my_offset) (nat remote_id_length)
     in Inr (nat (int my_offset + remote_id_length), RemoteIdOption enterprise_number remote_id)))"

definition RemoteIdOption_save :: "int \<Rightarrow> bytes \<Rightarrow> bytes res" where
  "RemoteIdOption_save enterprise_number remote_id =
     rbind (pack_fields [(2, 37), (2, int (length remote_id) + 4), (4, enterprise_number)]) (\<lambda>h.
     Inr (h @ remote_id))"

definition LinkLayerIdOption_validate :: "int \<Rightarrow> bytes \<Rightarrow> unit res" where
  "LinkLayerIdOption_validate link_layer_type link_layer_address =
     (if \<not> (0 \<le> link_layer_type \<and> link_layer_type < 2 ^ 16) then Inl ValueError
      else guard (\<not> length link_layer_address > 2 ^ 16 - 3) ValueError)"

definition LinkLayerIdOption_load_from :: extension_loader where
  "LinkLayerIdOption_load_from buf off len =
     rbind (parse_option_header 79 2 max_option_length buf off len) (\<lambda>(my_offset, option_len).
     rbind (unpack1 2 buf (off + my_offset)) (\<lambda>link_layer_type.
     let my_offset = my_offset + 2; ll_len = option_len - 2
     in Inr (my_offset + ll_len,
             LinkLayerIdOption link_layer_type (slice buf (off + my_offset) ll_len))))"

definition LinkLayerIdOption_save :: "int \<Rightarrow> bytes \<Rightarrow> bytes res" where
  "LinkLayerIdOption_save link_layer_type link_layer_address =
     rbind (pack_fields [(2, 79), (2, int (length link_layer_address) + 2), (2, link_layer_type)])
       (\<lambda>h. Inr (h @ link_layer_address))"

definition EchoRequestOption_validate :: "int list \<Rightarrow> unit res" where
  "EchoRequestOption_validate requested_options =
     for_all (\<lambda>option_code. guard (0 \<le> option_code \<and> option_code < 2 ^ 16) ValueError)
       requested_options"

definition EchoRequestOption_load_from :: extension_loader where
  "EchoRequestOption_load_from buf off len =
     rbind (parse_option_header 43 0 max_option_length buf off len) (\<lambda>(my_offset, option_len).
     if option_len mod 2 \<noteq> 0 then Inl ValueError
     else
       rbind (unpack_shorts (option_len div 2) buf (off + my_offset)) (\<lambda>requested_options.
       Inr (my_offset + option_len, EchoRequestOption requested_options)))"

definition EchoRequestOption_save :: "int list \<Rightarrow> bytes res" where
  "EchoRequestOption_save requested_options =
     rbind (pack_fields [(2, 43), (2, int (length requested_options) * 2)]) (\<lambda>h.
     rbind (pack_fields (map (Pair 2) requested_options)) (\<lambda>b. Inr (h @ b)))"

definition RelayIdOption_validate :: "duid option \<Rightarrow> unit res" where
  "RelayIdOption_validate duid =
     (case duid of None \<Rightarrow> Inl ValueError | Some d \<Rightarrow> DUID_validate d)"

definition RelayIdOption_load_from :: extension_loader where
  "RelayIdOption_load_from buf off len =
     rbind (parse_option_header 53 2 max_option_length buf off len) (\<lambda>(my_offset, option_len).
     rbind (DUID_parse buf (off + my_offset) (Some option_len)) (\<lambda>(duid_len, duid).
     Inr (my_offset + duid_len, RelayIdOption (Some duid))))"

definition RelayIdOption_save :: "duid option \<Rightarrow> bytes res" where
  "RelayIdOption_save duid =
     (case duid of
        None \<Rightarrow> Inl AttributeError
      | Some d \<Rightarrow>
          rbind (DUID_save d) (\<lambda>duid_buffer.
          rbind (pack_fields [(2, 53), (2, int (length duid_buffer))]) (\<lambda>h.
          Inr (h @ duid_buffer))))"

subsection \<open>Excluded prefixes and timezones\<close>

definition PDExcludeOption_validate :: "int \<Rightarrow> bytes option \<Rightarrow> unit res" where
  "PDExcludeOption_validate prefix_length subnet_id =
     (if \<not> (1 \<le> prefix_length \<and> prefix_length \<le> 128) then Inl ValueError
      else
        (case subnet_id of
           None \<Rightarrow> Inl ValueError
         | Some s \<Rightarrow> guard (1 \<le> length s \<and> length s \<le> 16) ValueError))"

definition PDExcludeOption_load_from :: extension_loader where
  "PDExcludeOption_load_from buf off len =
     rbind (parse_option_header 67 2 17 buf off len) (\<lambda>(my_offset, option_len).
     rbind (byte_at buf (off + my_offset)) (\<lambda>prefix_length.
     let my_offset = my_offset + 1; subnet_id_length = option_len - 1
     in Inr (my_offset + subnet_id_length,
             PDExcludeOption prefix_length (Some (slice buf (off + my_offset) subnet_id_length)))))"

definition PDExcludeOption_save :: "int \<Rightarrow> bytes option \<Rightarrow> bytes res" where
  "PDExcludeOption_save prefix_length subnet_id =
     (case subnet_id of
        None \<Rightarrow> Inl TypeError
      | Some s \<Rightarrow>
          rbind (pack_fields [(2, 67), (2, 1 + int (length s)), (1, prefix_length)]) (\<lambda>h.
          Inr (h @ s)))"

text \<open>\<open>string.printable\<close>: the visible ASCII characters, the space and the five ASCII controls that are white space.\<close>

definition printable :: "nat \<Rightarrow> bool" where
  "printable c \<longleftrightarrow> 32 \<le> c \<and> c < 127 \<or> 9 \<le> c \<and> c \<le> 13"

definition TZDBTimezoneOption_validate :: "pystr option \<Rightarrow> unit res" where
  "TZDBTimezoneOption_validate timezone =
     (case timezone of
        None \<Rightarrow> Inl ValueError
      | Some tz \<Rightarrow>
          if length tz > 65535 then Inl ValueError else guard (list_all printable tz) ValueError)"

definition TZDBTimezoneOption_load_from :: extension_loader where
  "TZDBTimezoneOption_load_from buf off len =
     rbind (parse_option_header 42 0 max_option_length buf off len) (\<lambda>(my_offset, option_len).
     rbind (ascii_decode (slice buf (off + my_offset) option_len)) (\<lambda>timezone.
     Inr (my_offset + option_len, TZDBTimezoneOption (Some timezone))))"

definition TZDBTimezoneOption_save :: "pystr option \<Rightarrow> bytes res" where
  "TZDBTimezoneOption_save timezone =
     (case timezone of
        None \<Rightarrow> Inl TypeError
      | Some tz \<Rightarrow>
          rbind (pack_fields [(2, 42), (2, int (length tz))]) (\<lambda>h.
          rbind (ascii_encode tz) (\<lambda>b. Inr (h @ b))))"

subsection \<open>Softwires: addresses, prefixes and port sets\<close>

definition S46BROption_validate :: "ipv6 option \<Rightarrow> unit res" where
  "S46BROption_validate br_address = guard (br_address \<noteq> None) ValueError"

definition S46BROption_load_from :: extension_loader where
  "S46BROption_load_from buf off len =
     rbind (parse_option_header 90 16 16 buf off len) (\<lambda>(my_offset, option_len).
     rbind (ipv6_from_bytes (slice buf (off + my_offset) 16)) (\<lambda>br_address.
     Inr (my_offset + 16, S46BROption (Some br_address))))"

definition S46BROption_save :: "ipv6 option \<Rightarrow> bytes res" where
  "S46BROption_save br_address =
     rbind (pack_fields [(2, 90), (2, 16)]) (\<lambda>h.
     case br_address of None \<Rightarrow> Inl AttributeError | Some a \<Rightarrow> Inr (h @ packed a))"

text \<open>A prefix length and as many octets of the prefix as it needs, as map.py reads them.\<close>

definition load_lax_prefix :: "bytes \<Rightarrow> nat \<Rightarrow> (nat \<times> ipv6_network) res" where
  "load_lax_prefix buf off =
     rbind (byte_at buf off) (\<lambda>ipv6_prefix_length.
     if \<not> (0 \<le> ipv6_prefix_length \<and> ipv6_prefix_length \<le> 128) then Inl ValueError
     else
       (let plen = nat ipv6_prefix_length; included = included_octets plen in
        rbind (ipv6_from_bytes (ljust (slice buf (off + 1) included) 16)) (\<lambda>ipv6_address.
        Inr (1 + included, make_network_lax ipv6_address plen))))"

definition S46DMROption_validate :: "ipv6_network option \<Rightarrow> unit res" where
  "S46DMROption_validate dmr_prefix = guard (dmr_prefix \<noteq> None) ValueError"

definition S46DMROption_load_from :: extension_loader where
  "S46DMROption_load_from buf off len =
     rbind (parse_option_header 91 1 17 buf off len) (\<lambda>(my_offset, option_len).
     let header_offset = my_offset in
     rbind (load_lax_prefix buf (off + my_offset)) (\<lambda>(prefix_len, dmr_prefix).
     let my_offset = my_offset + prefix_len; max_offset = option_len + header_offset in
     if my_offset \<noteq> max_offset then Inl ValueError
     else Inr (my_offset, S46DMROption (Some dmr_prefix))))"

definition S46DMROption_save :: "ipv6_network option \<Rightarrow> bytes res" where
  "S46DMROption_save dmr_prefix =
     (case dmr_prefix of
        None \<Rightarrow> Inl AttributeError
      | Some n \<Rightarrow>
          rbind (pack_fields [(2, 91), (2, 1 + int (included_octets (prefixlen n))),
                              (1, int (prefixlen n))]) (\<lambda>h.
          Inr (h @ prefix_bytes n)))"

text \<open>Shifting by a negative count is a \<open>ValueError\<close>.\<close>

definition S46PortParametersOption_validate :: "int \<Rightarrow> int \<Rightarrow> int \<Rightarrow> unit res" where
  "S46PortParametersOption_validate offset psid_len psid =
     (if \<not> (0 \<le> offset \<and> offset \<le> 15) then Inl ValueError
      else if \<not> (0 \<le> psid_len \<and> psid_len \<le> 16) then Inl ValueError
      else if offset + psid_len > 16 then Inl ValueError
      else guard (0 \<le> psid \<and> psid < 2 ^ nat psid_len) ValueError)"

definition S46PortParametersOption_load_from :: extension_loader where
  "S46PortParametersOption_load_from buf off len =
     rbind (parse_option_header 93 4 4 buf off len) (\<lambda>(my_offset, option_len).
     rbind (unpack_fields [1, 1, 2] (slice buf (off + my_offset) 4)) (\<lambda>fields.
     let offset = fields ! 0; psid_len = fields ! 1; raw_psid = fields ! 2;
         my_offset = my_offset + 4
     in
     if psid_len > 16 then Inl ValueError
     else
       Inr (my_offset,
            S46PortParametersOption offset psid_len (raw_psid div 2 ^ nat (16 - psid_len)))))"

definition S46PortParametersOption_save :: "int \<Rightarrow> int \<Rightarrow> int \<Rightarrow> bytes res" where
  "S46PortParametersOption_save offset psid_len psid =
     (if psid_len > 16 then Inl ValueError
      else
        (let raw_psid = psid * 2 ^ nat (16 - psid_len) in
         pack_fields [(2, 93), (2, 4), (1, offset), (1, psid_len), (2, raw_psid)]))"

subsection \<open>By class\<close>

fun extension_validate :: "extension_option \<Rightarrow> unit res" where
  "extension_validate (RecursiveNameServersOption d) = RecursiveNameServersOption_validate d"
| "extension_validate (SNTPServersOption s) = SNTPServersOption_validate s"
| "extension_validate (SIPServersAddressListOption s) = SIPServersAddressListOption_validate s"
| "extension_validate (SolMaxRTOption t) = SolMaxRTOption_validate t"
| "extension_validate (InfMaxRTOption t) = InfMaxRTOption_validate t"
| "extension_validate (SubscriberIdOption i) = SubscriberIdOption_validate i"
| "extension_validate (RemoteIdOption n i) = RemoteIdOption_validate n i"
| "extension_validate (LinkLayerIdOption t a) = LinkLayerIdOption_validate t a"
| "extension_validate (EchoRequestOption r) = EchoRequestOption_validate r"
| "extension_validate (PDExcludeOption p s) = PDExcludeOption_validate p s"
| "extension_validate (TZDBTimezoneOption t) = TZDBTimezoneOption_validate t"
| "extension_validate (RelayIdOption d) = RelayIdOption_validate d"
| "extension_validate (CLTTimeOption t) = CLTTimeOption_validate t"
| "extension_validate (LQClientLink l) = LQClientLink_validate l"
| "extension_validate (S46BROption a) = S46BROption_validate a"
| "extension_validate (S46DMROption p) = S46DMROption_validate p"
| "extension_validate (S46PortParametersOption f n p) = S46PortParametersOption_validate f n p"

fun extension_save :: "extension_option \<Rightarrow> bytes res" where
  "extension_save (RecursiveNameServersOption d) = RecursiveNameServersOption_save d"
| "extension_save (SNTPServersOption s) = SNTPServersOption_save s"
| "extension_save (SIPServersAddressListOption s) = SIPServersAddressListOption_save s"
| "extension_save (SolMaxRTOption t) = SolMaxRTOption_save t"
| "extension_save (InfMaxRTOption t) = InfMaxRTOption_save t"
| "extension_save (SubscriberIdOption i) = SubscriberIdOption_save i"
| "extension_save (RemoteIdOption n i) = RemoteIdOption_save n i"
| "extension_save (LinkLayerIdOption t a) = LinkLayerIdOption_save t a"
| "extension_save (EchoRequestOption r) = EchoRequestOption_save r"
| "extension_save (PDExcludeOption p s) = PDExcludeOption_save p s"
| "extension_save (TZDBTimezoneOption t) = TZDBTimezoneOption_save t"
| "extension_save (RelayIdOption d) = RelayIdOption_save d"
| "extension_save (CLTTimeOption t) = CLTTimeOption_save t"
| "extension_save (LQClientLink l) = LQClientLink_save l"
| "extension_save (S46BROption a) = S46BROption_save a"
| "extension_save (S46DMROption p) = S46DMROption_save p"
| "extension_save (S46PortParametersOption f n p) = S46PortParametersOption_save f n p"

definition extension_loader :: "option_class \<Rightarrow> extension_loader option" where
  "extension_loader c =
     map_of
       [(C_RecursiveNameServersOption, RecursiveNameServersOption_load_from),
        (C_SNTPServersOption, SNTPServersOption_load_from),
        (C_SIPServersAddressListOption, SIPServersAddressListOption_load_from),
        (C_SolMaxRTOption, SolMaxRTOption_load_from),
        (C_InfMaxRTOption, InfMaxRTOption_load_from),
        (C_SubscriberIdOption, SubscriberIdOption_load_from),
        (C_RemoteIdOption, RemoteIdOption_load_from),
        (C_LinkLayerIdOption, LinkLayerIdOption_load_from),
        (C_EchoRequestOption, EchoRequestOption_load_from),
        (C_PDExcludeOption, PDExcludeOption_load_from),
        (C_TZDBTimezoneOption, TZDBTimezoneOption_load_from),
        (C_RelayIdOption, RelayIdOption_load_from),
        (C_CLTTimeOption, CLTTimeOption_load_from),
        (C_LQClientLink, LQClientLink_load_from),
        (C_S46BROption, S46BROption_load_from),
        (C_S46DMROption, S46DMROption_load_from),
        (C_S46PortParametersOption, S46PortParametersOption_load_from)] c"

lemma extension_loader_nested [simp]:
  "extension_loader C_IANAOption = None"
  "extension_loader C_IATAOption = None"
  "extension_loader C_IAAddressOption = None"
  "extension_loader C_RelayMessageOption = None"
  "extension_loader C_IAPDOption = None"
  "extension_loader C_IAPrefixOption = None"
  "extension_loader C_LQQueryOption = None"
  "extension_loader C_ClientDataOption = None"
  "extension_loader C_LQRelayDataOption = None"
  "extension_loader C_S46RuleOption = None"
  "extension_loader C_S46V4V6BindingOption = None"
  "extension_loader C_S46MapEContainerOption = None"
  "extension_loader C_S46MapTContainerOption = None"
  "extension_loader C_S46LWContainerOption = None"
  by (simp_all add: extension_loader_def)

lemmas extension_load_defs =
  address_list_load_from_def u32_load_from_def LQClientLink_load_from_def
  SubscriberIdOption_load_from_def
  RemoteIdOption_load_from_def
  LinkLayerIdOption_load_from_def
  EchoRequestOption_load_from_def
  PDExcludeOption_load_from_def
  TZDBTimezoneOption_load_from_def
  RelayIdOption_load_from_def
  CLTTimeOption_load_from_def
  S46BROption_load_from_def
  S46DMROption_load_from_def
  S46PortParametersOption_load_from_def

lemmas extension_save_defs =
  address_list_save_def
  SolMaxRTOption_save_def
  InfMaxRTOption_save_def
  SubscriberIdOption_save_def
  RemoteIdOption_save_def
  LinkLayerIdOption_save_def
  EchoRequestOption_save_def
  PDExcludeOption_save_def
  TZDBTimezoneOption_save_def
  RelayIdOption_save_def
  CLTTimeOption_save_def
  S46BROption_save_def
  S46DMROption_save_def
  S46PortParametersOption_save_def

lemmas extension_validate_defs =
  SNTPServersOption_validate_def
  SIPServersAddressListOption_validate_def
  SolMaxRTOption_validate_def
  InfMaxRTOption_validate_def
  SubscriberIdOption_validate_def
  RemoteIdOption_validate_def
  LinkLayerIdOption_validate_def
  EchoRequestOption_validate_def
  PDExcludeOption_validate_def
  TZDBTimezoneOption_validate_def
  RelayIdOption_validate_def
  CLTTimeOption_validate_def
  LQClientLink_validate_def
  S46BROption_validate_def
  S46DMROption_validate_def
  S46PortParametersOption_validate_def

end
