(* ===== verification/PlainOptions.thy ===== *)
theory PlainOptions
  imports ExtensionOptions
begin

text \<open>
  The options of dhcpkit/ipv6/options.py that contain no other options: for every class its
  \<open>validate\<close>, \<open>load_from\<close> and \<open>save\<close>; those of the extensions are one constructor here.  An object that the constructor leaves without a
  value (\<open>None\<close>) is an \<open>option\<close> value here.  Options that contain options or messages are
  in theory Messages.
\<close>

datatype plain_option =
    UnknownOption int bytes
  | ClientIdOption "duid option"
  | ServerIdOption "duid option"
  | OptionRequestOption "int list"
  | PreferenceOption int
  | ElapsedTimeOption int
  | AuthenticationOption int int int bytes bytes
  | ServerUnicastOption "ipv6 option"
  | StatusCodeOption int pystr
  | RapidCommitOption
  | UserClassOption "bytes list"
  | VendorClassOption int "bytes list"
  | VendorSpecificInformationOption int "(int \<times> bytes) list"
  | InterfaceIdOption bytes
  | ReconfigureMessageOption int
  | ReconfigureAcceptOption
  | ExtensionOption extension_option

fun plain_class :: "plain_option \<Rightarrow> option_class" where
  "plain_class (UnknownOption _ _) = C_UnknownOption"
| "plain_class (ClientIdOption _) = C_ClientIdOption"
| "plain_class (ServerIdOption _) = C_ServerIdOption"
| "plain_class (OptionRequestOption _) = C_OptionRequestOption"
| "plain_class (PreferenceOption _) = C_PreferenceOption"
| "plain_class (ElapsedTimeOption _) = C_ElapsedTimeOption"
| "plain_class (AuthenticationOption _ _ _ _ _) = C_AuthenticationOption"
| "plain_class (ServerUnicastOption _) = C_ServerUnicastOption"
| "plain_class (StatusCodeOption _ _) = C_StatusCodeOption"
| "plain_class RapidCommitOption = C_RapidCommitOption"
| "plain_class (UserClassOption _) = C_UserClassOption"
| "plain_class (VendorClassOption _ _) = C_VendorClassOption"
| "plain_class (VendorSpecificInformationOption _ _) = C_VendorSpecificInformationOption"
| "plain_class (InterfaceIdOption _) = C_InterfaceIdOption"
| "plain_class (ReconfigureMessageOption _) = C_ReconfigureMessageOption"
| "plain_class ReconfigureAcceptOption = C_ReconfigureAcceptOption"
| "plain_class (ExtensionOption x) = extension_class x"

subsection \<open>UnknownOption\<close>

definition UnknownOption_validate :: "int \<Rightarrow> bytes \<Rightarrow> unit res" where
  "UnknownOption_validate option_type option_data =
     (if \<not> (0 \<le> option_type \<and> option_type < 2 ^ 16) then Inl ValueError
      else if length option_data \<ge> 2 ^ 16 then Inl ValueError
      else Inr ())"

definition UnknownOption_load_from :: "bytes \<Rightarrow> nat \<Rightarrow> nat option \<Rightarrow> (nat \<times> plain_option) res" where
  "UnknownOption_load_from buf off len =
     rbind (unpack2 2 2 buf off) (\<lambda>(option_type, option_len).
     let my_offset = 4; max_length = length_or len buf off in
     if my_offset + nat option_len > max_length then Inl ValueError
     else Inr (my_offset + nat option_len,
               UnknownOption option_type (slice buf (off + my_offset) (nat option_len))))"

definition UnknownOption_save :: "int \<Rightarrow> bytes \<Rightarrow> bytes res" where
  "UnknownOption_save option_type option_data =
     rbind (pack_fields [(2, option_type), (2, int (length option_data))]) (\<lambda>h.
     Inr (h @ option_data))"

subsection \<open>ClientIdOption and ServerIdOption\<close>

definition ClientIdOption_validate :: "duid option \<Rightarrow> unit res" where
  "ClientIdOption_validate duid =
     (case duid of None \<Rightarrow> Inl ValueError | Some d \<Rightarrow> DUID_validate d)"

definition ClientIdOption_load_from :: "bytes \<Rightarrow> nat \<Rightarrow> nat option \<Rightarrow> (nat \<times> plain_option) res" where
  "ClientIdOption_load_from buf off len =
     rbind (parse_option_header 1 2 max_option_length buf off len) (\<lambda>(my_offset, option_len).
     rbind (DUID_parse buf (off + my_offset) (Some option_len)) (\<lambda>(duid_len, duid).
     Inr (my_offset + duid_len, ClientIdOption (Some duid))))"

definition ClientIdOption_save :: "duid option \<Rightarrow> bytes res" where
  "ClientIdOption_save duid =
     (case duid of
        None \<Rightarrow> Inl AttributeError
      | Some d \<Rightarrow>
          rbind (DUID_save d) (\<lambda>duid_buffer.
          rbind (pack_fields [(2, 1), (2, int (length duid_buffer))]) (\<lambda>h.
          Inr (h @ duid_buffer))))"

definition ServerIdOption_validate :: "duid option \<Rightarrow> unit res" where
  "ServerIdOption_validate duid =
     (case duid of None \<Rightarrow> Inl ValueError | Some d \<Rightarrow> DUID_validate d)"

definition ServerIdOption_load_from :: "bytes \<Rightarrow> nat \<Rightarrow> nat option \<Rightarrow> (nat \<times> plain_option) res" where
  "ServerIdOption_load_from buf off len =
     rbind (parse_option_header 2 2 max_option_length buf off len) (\<lambda>(my_offset, option_len).
     rbind (DUID_parse buf (off + my_offset) (Some option_len)) (\<lambda>(duid_len, duid).
     Inr (my_offset + duid_len, ServerIdOption (Some duid))))"

definition ServerIdOption_save :: "duid option \<Rightarrow> bytes res" where
  "ServerIdOption_save duid =
     (case duid of
        None \<Rightarrow> Inl AttributeError
      | Some d \<Rightarrow>
          rbind (DUID_save d) (\<lambda>duid_buffer.
          rbind (pack_fields [(2, 2), (2, int (length duid_buffer))]) (\<lambda>h.
          Inr (h @ duid_buffer))))"

subsection \<open>OptionRequestOption\<close>

definition OptionRequestOption_validate :: "int list \<Rightarrow> unit res" where
  "OptionRequestOption_validate requested_options =
     for_all (\<lambda>option_code. guard (0 \<le> option_code \<and> option_code < 2 ^ 16) ValueError)
       requested_options"

definition OptionRequestOption_load_from ::
  "bytes \<Rightarrow> nat \<Rightarrow> nat option \<Rightarrow> (nat \<times> plain_option) res" where
  "OptionRequestOption_load_from buf off len =
     rbind (parse_option_header 6 0 max_option_length buf off len) (\<lambda>(my_offset, option_len).
     if option_len mod 2 \<noteq> 0 then Inl ValueError
     else
       rbind (unpack_shorts (option_len div 2) buf (off + my_offset)) (\<lambda>requested_options.
       Inr (my_offset + option_len, OptionRequestOption requested_options)))"

definition OptionRequestOption_save :: "int list \<Rightarrow> bytes res" where
  "OptionRequestOption_save requested_options =
     rbind (pack_fields [(2, 6), (2, int (length requested_options) * 2)]) (\<lambda>h.
     rbind (pack_fields (map (Pair 2) requested_options)) (\<lambda>b. Inr (h @ b)))"

subsection \<open>PreferenceOption and ElapsedTimeOption\<close>

definition PreferenceOption_validate :: "int \<Rightarrow> unit res" where
  "PreferenceOption_validate preference = guard (0 \<le> preference \<and> preference < 2 ^ 8) ValueError"

definition PreferenceOption_load_from ::
  "bytes \<Rightarrow> nat \<Rightarrow> nat option \<Rightarrow> (nat \<times> plain_option) res" where
  "PreferenceOption_load_from buf off len =
     rbind (parse_option_header 7 1 1 buf off len) (\<lambda>(my_offset, option_len).
     rbind (byte_at buf (off + my_offset)) (\<lambda>preference.
     Inr (my_offset + 1, PreferenceOption preference)))"

definition PreferenceOption_save :: "int \<Rightarrow> bytes res" where
  "PreferenceOption_save preference = pack_fields [(2, 7), (2, 1), (1, preference)]"

definition ElapsedTimeOption_validate :: "int \<Rightarrow> unit res" where
  "ElapsedTimeOption_validate elapsed_time =
     guard (0 \<le> elapsed_time \<and> elapsed_time < 2 ^ 16) ValueError"

definition ElapsedTimeOption_load_from ::
  "bytes \<Rightarrow> nat \<Rightarrow> nat option \<Rightarrow> (nat \<times> plain_option) res" where
  "ElapsedTimeOption_load_from buf off len =
     rbind (parse_option_header 8 2 2 buf off len) (\<lambda>(my_offset, option_len).
     rbind (unpack1 2 buf (off + my_offset)) (\<lambda>elapsed_time.
     Inr (my_offset + 2, ElapsedTimeOption elapsed_time)))"

definition ElapsedTimeOption_save :: "int \<Rightarrow> bytes res" where
  "ElapsedTimeOption_save elapsed_time = pack_fields [(2, 8), (2, 2), (2, elapsed_time)]"

subsection \<open>AuthenticationOption\<close>

definition AuthenticationOption_validate ::
  "int \<Rightarrow> int \<Rightarrow> int \<Rightarrow> bytes \<Rightarrow> bytes \<Rightarrow> unit res" where
  "AuthenticationOption_validate protocol algorithm rdm replay_detection auth_info =
     (if \<not> (0 \<le> protocol \<and> protocol < 2 ^ 8) then Inl ValueError
      else if \<not> (0 \<le> algorithm \<and> algorithm < 2 ^ 8) then Inl ValueError
      else if \<not> (0 \<le> rdm \<and> rdm < 2 ^ 8) then Inl ValueError
      else if length replay_detection \<noteq> 8 then Inl ValueError
      else Inr ())"

definition AuthenticationOption_load_from ::
  "bytes \<Rightarrow> nat \<Rightarrow> nat option \<Rightarrow> (nat \<times> plain_option) res" where
  "AuthenticationOption_load_from buf off len =
     rbind (parse_option_header 11 11 max_option_length buf off len) (\<lambda>(my_offset, option_len).
     rbind (byte_at buf (off + my_offset)) (\<lambda>protocol.
     rbind (byte_at buf (off + my_offset + 1)) (\<lambda>algorithm.
     rbind (byte_at buf (off + my_offset + 2)) (\<lambda>rdm.
     let my_offset = my_offset + 3;
         replay_detection = slice buf (off + my_offset) 8;
         my_offset = my_offset + 8;
         auth_data_length = option_len - 11;
         auth_info = slice buf (off + my_offset) auth_data_length
     in Inr (my_offset + auth_data_length,
             AuthenticationOption protocol algorithm rdm replay_detection auth_info)))))"

definition AuthenticationOption_save ::
  "int \<Rightarrow> int \<Rightarrow> int \<Rightarrow> bytes \<Rightarrow> bytes \<Rightarrow> bytes res" where
  "AuthenticationOption_save protocol algorithm rdm replay_detection auth_info =
     rbind (pack_fields [(2, 11), (2, int (length auth_info) + 11),
                         (1, protocol), (1, algorithm), (1, rdm)]) (\<lambda>h.
     Inr (h @ replay_detection @ auth_info))"

subsection \<open>ServerUnicastOption\<close>

definition ServerUnicastOption_validate :: "ipv6 option \<Rightarrow> unit res" where
  "ServerUnicastOption_validate server_address =
     (case server_address of
        None \<Rightarrow> Inl ValueError
      | Some a \<Rightarrow> guard (\<not> (is_loopback a \<or> is_multicast a \<or> is_unspecified a)) ValueError)"

definition ServerUnicastOption_load_from ::
  "bytes \<Rightarrow> nat \<Rightarrow> nat option \<Rightarrow> (nat \<times> plain_option) res" where
  "ServerUnicastOption_load_from buf off len =
     rbind (parse_option_header 12 16 16 buf off len) (\<lambda>(my_offset, option_len).
     rbind (ipv6_from_bytes (slice buf (off + my_offset) 16)) (\<lambda>server_address.
     Inr (my_offset + 16, ServerUnicastOption (Some server_address))))"

definition ServerUnicastOption_save :: "ipv6 option \<Rightarrow> bytes res" where
  "ServerUnicastOption_save server_address =
     rbind (pack_fields [(2, 12), (2, 16)]) (\<lambda>h.
     case server_address of
       None \<Rightarrow> Inl AttributeError
     | Some a \<Rightarrow> Inr (h @ packed a))"

subsection \<open>StatusCodeOption\<close>

definition StatusCodeOption_validate :: "int \<Rightarrow> pystr \<Rightarrow> unit res" where
  "StatusCodeOption_validate status_code status_message =
     guard (0 \<le> status_code \<and> status_code < 2 ^ 16) ValueError"

definition StatusCodeOption_load_from ::
  "bytes \<Rightarrow> nat \<Rightarrow> nat option \<Rightarrow> (nat \<times> plain_option) res" where
  "StatusCodeOption_load_from buf off len =
     rbind (parse_option_header 13 2 max_option_length buf off len) (\<lambda>(my_offset, option_len).
     rbind (unpack1 2 buf (off + my_offset)) (\<lambda>status_code.
     let my_offset = my_offset + 2; message_length = option_len - 2 in
     rbind (utf8_decode (slice buf (off + my_offset) message_length)) (\<lambda>status_message.
     Inr (my_offset + message_length, StatusCodeOption status_code status_message))))"

definition StatusCodeOption_save :: "int \<Rightarrow> pystr \<Rightarrow> bytes res" where
  "StatusCodeOption_save status_code status_message =
     rbind (utf8_encode status_message) (\<lambda>message_bytes.
     rbind (pack_fields [(2, 13), (2, int (length message_bytes) + 2), (2, status_code)]) (\<lambda>h.
     Inr (h @ message_bytes)))"

subsection \<open>RapidCommitOption\<close>

definition RapidCommitOption_load_from ::
  "bytes \<Rightarrow> nat \<Rightarrow> nat option \<Rightarrow> (nat \<times> plain_option) res" where
  "RapidCommitOption_load_from buf off len =
     rbind (parse_option_header 14 0 0 buf off len) (\<lambda>(my_offset, option_len).
     Inr (my_offset, RapidCommitOption))"

definition RapidCommitOption_save :: "bytes res" where
  "RapidCommitOption_save = pack_fields [(2, 14), (2, 0)]"

subsection \<open>UserClassOption and VendorClassOption\<close>

definition UserClassOption_validate :: "bytes list \<Rightarrow> unit res" where
  "UserClassOption_validate user_classes =
     for_all (\<lambda>user_class. guard (\<not> length user_class \<ge> 2 ^ 16) ValueError) user_classes"

definition UserClassOption_load_from ::
  "bytes \<Rightarrow> nat \<Rightarrow> nat option \<Rightarrow> (nat \<times> plain_option) res" where
  "UserClassOption_load_from buf off len =
     rbind (parse_option_header 15 0 max_option_length buf off len) (\<lambda>(my_offset, option_len).
     let max_offset = option_len + my_offset in
     rbind (items_loop (Suc option_len) (class_data_dec buf) off my_offset max_offset)
       (\<lambda>(my_offset, user_classes).
     if my_offset \<noteq> max_offset then Inl ValueError
     else Inr (my_offset, UserClassOption user_classes)))"

definition UserClassOption_save :: "bytes list \<Rightarrow> bytes res" where
  "UserClassOption_save user_classes =
     rbind (concat_res class_data_enc user_classes) (\<lambda>user_classes_bytes.
     rbind (pack_fields [(2, 15), (2, int (length user_classes_bytes))]) (\<lambda>h.
     Inr (h @ user_classes_bytes)))"

definition VendorClassOption_validate :: "int \<Rightarrow> bytes list \<Rightarrow> unit res" where
  "VendorClassOption_validate enterprise_number vendor_classes =
     (if \<not> (0 \<le> enterprise_number \<and> enterprise_number < 2 ^ 32) then Inl ValueError
      else for_all (\<lambda>vendor_class. guard (\<not> length vendor_class \<ge> 2 ^ 16) ValueError) vendor_classes)"

definition VendorClassOption_load_from ::
  "bytes \<Rightarrow> nat \<Rightarrow> nat option \<Rightarrow> (nat \<times> plain_option) res" where
  "VendorClassOption_load_from buf off len =
     rbind (parse_option_header 16 4 max_option_length buf off len) (\<lambda>(my_offset, option_len).
     let max_offset = option_len + my_offset in
     rbind (unpack1 4 buf (off + my_offset)) (\<lambda>enterprise_number.
     let my_offset = my_offset + 4 in
     rbind (items_loop (Suc option_len) (class_data_dec buf) off my_offset max_offset)
       (\<lambda>(my_offset, vendor_classes).
     if my_offset \<noteq> max_offset then Inl ValueError
     else Inr (my_offset, VendorClassOption enterprise_number vendor_classes))))"

definition VendorClassOption_save :: "int \<Rightarrow> bytes list \<Rightarrow> bytes res" where
  "VendorClassOption_save enterprise_number vendor_classes =
     rbind (concat_res class_data_enc vendor_classes) (\<lambda>vendor_classes_bytes.
     rbind (pack_fields [(2, 16), (2, int (length vendor_classes_bytes) + 4),
                         (4, enterprise_number)]) (\<lambda>h.
     Inr (h @ vendor_classes_bytes)))"

subsection \<open>VendorSpecificInformationOption\<close>

definition VendorSpecificInformationOption_validate :: "int \<Rightarrow> (int \<times> bytes) list \<Rightarrow> unit res" where
  "VendorSpecificInformationOption_validate enterprise_number vendor_options =
     (if \<not> (0 \<le> enterprise_number \<and> enterprise_number < 2 ^ 32) then Inl ValueError
      else for_all (\<lambda>vendor_option.
             guard (\<not> (\<not> (0 \<le> fst vendor_option \<and> fst vendor_option < 2 ^ 16)
                       \<or> length (snd vendor_option) \<ge> 2 ^ 16)) ValueError) vendor_options)"

definition VendorSpecificInformationOption_load_from ::
  "bytes \<Rightarrow> nat \<Rightarrow> nat option \<Rightarrow> (nat \<times> plain_option) res" where
  "VendorSpecificInformationOption_load_from buf off len =
     rbind (parse_option_header 17 4 max_option_length buf off len) (\<lambda>(my_offset, option_len).
     let max_offset = option_len + my_offset in
     rbind (unpack1 4 buf (off + my_offset)) (\<lambda>enterprise_number.
     let my_offset = my_offset + 4 in
     rbind (items_loop (Suc option_len) (vendor_option_dec buf) off my_offset max_offset)
       (\<lambda>(my_offset, vendor_options).
     if my_offset \<noteq> max_offset then Inl ValueError
     else Inr (my_offset, VendorSpecificInformationOption enterprise_number vendor_options))))"

definition VendorSpecificInformationOption_save :: "int \<Rightarrow> (int \<times> bytes) list \<Rightarrow> bytes res" where
  "VendorSpecificInformationOption_save enterprise_number vendor_options =
     rbind (concat_res vendor_option_enc vendor_options) (\<lambda>vendor_options_bytes.
     rbind (pack_fields [(2, 17), (2, int (length vendor_options_bytes) + 4),
                         (4, enterprise_number)]) (\<lambda>h.
     Inr (h @ vendor_options_bytes)))"

subsection \<open>InterfaceIdOption\<close>

definition InterfaceIdOption_validate :: "bytes \<Rightarrow> unit res" where
  "InterfaceIdOption_validate interface_id = guard (\<not> length interface_id \<ge> 2 ^ 16) ValueError"

definition InterfaceIdOption_load_from ::
  "bytes \<Rightarrow> nat \<Rightarrow> nat option \<Rightarrow> (nat \<times> plain_option) res" where
  "InterfaceIdOption_load_from buf off len =
     rbind (parse_option_header 18 0 max_option_length buf off len) (\<lambda>(my_offset, option_len).
     Inr (my_offset + option_len, InterfaceIdOption (slice buf (off + my_offset) option_len)))"

definition InterfaceIdOption_save :: "bytes \<Rightarrow> bytes res" where
  "InterfaceIdOption_save interface_id =
     rbind (pack_fields [(2, 18), (2, int (length interface_id))]) (\<lambda>h. Inr (h @ interface_id))"

subsection \<open>ReconfigureMessageOption and ReconfigureAcceptOption\<close>

definition ReconfigureMessageOption_validate :: "int \<Rightarrow> unit res" where
  "ReconfigureMessageOption_validate message_type =
     guard (message_type = 5 \<or> message_type = 11) ValueError"

definition ReconfigureMessageOption_load_from ::
  "bytes \<Rightarrow> nat \<Rightarrow> nat option \<Rightarrow> (nat \<times> plain_option) res" where
  "ReconfigureMessageOption_load_from buf off len =
     rbind (parse_option_header 19 1 1 buf off len) (\<lambda>(my_offset, option_len).
     rbind (byte_at buf (off + my_offset)) (\<lambda>message_type.
     Inr (my_offset + 1, ReconfigureMessageOption message_type)))"

definition ReconfigureMessageOption_save :: "int \<Rightarrow> bytes res" where
  "ReconfigureMessageOption_save message_type = pack_fields [(2, 19), (2, 1), (1, message_type)]"

definition ReconfigureAcceptOption_load_from ::
  "bytes \<Rightarrow> nat \<Rightarrow> nat option \<Rightarrow> (nat \<times> plain_option) res" where
  "ReconfigureAcceptOption_load_from buf off len =
     rbind (parse_option_header 20 0 0 buf off len) (\<lambda>(my_offset, option_len).
     Inr (my_offset, ReconfigureAcceptOption))"

definition ReconfigureAcceptOption_save :: "bytes res" where
  "ReconfigureAcceptOption_save = pack_fields [(2, 20), (2, 0)]"

subsection \<open>Dispatch on the class\<close>

fun plain_validate :: "plain_option \<Rightarrow> unit res" where
  "plain_validate (UnknownOption t d) = UnknownOption_validate t d"
| "plain_validate (ClientIdOption d) = ClientIdOption_validate d"
| "plain_validate (ServerIdOption d) = ServerIdOption_validate d"
| "plain_validate (OptionRequestOption r) = OptionRequestOption_validate r"
| "plain_validate (PreferenceOption p) = PreferenceOption_validate p"
| "plain_validate (ElapsedTimeOption e) = ElapsedTimeOption_validate e"
| "plain_validate (AuthenticationOption p a r d i) = AuthenticationOption_validate p a r d i"
| "plain_validate (ServerUnicastOption a) = ServerUnicastOption_validate a"
| "plain_validate (StatusCodeOption c m) = StatusCodeOption_validate c m"
| "plain_validate RapidCommitOption = Inr ()"
| "plain_validate (UserClassOption u) = UserClassOption_validate u"
| "plain_validate (VendorClassOption n v) = VendorClassOption_validate n v"
| "plain_validate (VendorSpecificInformationOption n v) =
     VendorSpecificInformationOption_validate n v"
| "plain_validate (InterfaceIdOption i) = InterfaceIdOption_validate i"
| "plain_validate (ReconfigureMessageOption t) = ReconfigureMessageOption_validate t"
| "plain_validate ReconfigureAcceptOption = Inr ()"
| "plain_validate (ExtensionOption x) = extension_validate x"

fun plain_save :: "plain_option \<Rightarrow> bytes res" where
  "plain_save (UnknownOption t d) = UnknownOption_save t d"
| "plain_save (ClientIdOption d) = ClientIdOption_save d"
| "plain_save (ServerIdOption d) = ServerIdOption_save d"
| "plain_save (OptionRequestOption r) = OptionRequestOption_save r"
| "plain_save (PreferenceOption p) = PreferenceOption_save p"
| "plain_save (ElapsedTimeOption e) = ElapsedTimeOption_save e"
| "plain_save (AuthenticationOption p a r d i) = AuthenticationOption_save p a r d i"
| "plain_save (ServerUnicastOption a) = ServerUnicastOption_save a"
| "plain_save (StatusCodeOption c m) = StatusCodeOption_save c m"
| "plain_save RapidCommitOption = RapidCommitOption_save"
| "plain_save (UserClassOption u) = UserClassOption_save u"
| "plain_save (VendorClassOption n v) = VendorClassOption_save n v"
| "plain_save (VendorSpecificInformationOption n v) = VendorSpecificInformationOption_save n v"
| "plain_save (InterfaceIdOption i) = InterfaceIdOption_save i"
| "plain_save (ReconfigureMessageOption t) = ReconfigureMessageOption_save t"
| "plain_save ReconfigureAcceptOption = ReconfigureAcceptOption_save"
| "plain_save (ExtensionOption x) = extension_save x"

text \<open>The loader of a class without suboptions; the other classes have none here.\<close>

definition load_extension :: "extension_loader \<Rightarrow> bytes \<Rightarrow> nat \<Rightarrow> nat option \<Rightarrow> (nat \<times> plain_option) res" where
  "load_extension load buf off len = rbind (load buf off len) (\<lambda>(n, x). Inr (n, ExtensionOption x))"

fun plain_loader ::
  "option_class \<Rightarrow> (bytes \<Rightarrow> nat \<Rightarrow> nat option \<Rightarrow> (nat \<times> plain_option) res) option" where
  "plain_loader C_UnknownOption = Some UnknownOption_load_from"
| "plain_loader C_ClientIdOption = Some ClientIdOption_load_from"
| "plain_loader C_ServerIdOption = Some ServerIdOption_load_from"
| "plain_loader C_OptionRequestOption = Some OptionRequestOption_load_from"
| "plain_loader C_PreferenceOption = Some PreferenceOption_load_from"
| "plain_loader C_ElapsedTimeOption = Some ElapsedTimeOption_load_from"
| "plain_loader C_AuthenticationOption = Some AuthenticationOption_load_from"
| "plain_loader C_ServerUnicastOption = Some ServerUnicastOption_load_from"
| "plain_loader C_StatusCodeOption = Some StatusCodeOption_load_from"
| "plain_loader C_RapidCommitOption = Some RapidCommitOption_load_from"
| "plain_loader C_UserClassOption = Some UserClassOption_load_from"
| "plain_loader C_VendorClassOption = Some VendorClassOption_load_from"
| "plain_loader C_VendorSpecificInformationOption =
     Some VendorSpecificInformationOption_load_from"
| "plain_loader C_InterfaceIdOption = Some InterfaceIdOption_load_from"
| "plain_loader C_ReconfigureMessageOption = Some ReconfigureMessageOption_load_from"
| "plain_loader C_ReconfigureAcceptOption = Some ReconfigureAcceptOption_load_from"
| "plain_loader c = map_option load_extension (extension_loader c)"

lemmas plain_load_defs =
  UnknownOption_load_from_def ClientIdOption_load_from_def ServerIdOption_load_from_def
  OptionRequestOption_load_from_def PreferenceOption_load_from_def ElapsedTimeOption_load_from_def
  AuthenticationOption_load_from_def ServerUnicastOption_load_from_def
  StatusCodeOption_load_from_def RapidCommitOption_load_from_def UserClassOption_load_from_def
  VendorClassOption_load_from_def VendorSpecificInformationOption_load_from_def
  InterfaceIdOption_load_from_def ReconfigureMessageOption_load_from_def
  ReconfigureAcceptOption_load_from_def

lemmas plain_save_defs =
  UnknownOption_save_def ClientIdOption_save_def ServerIdOption_save_def
  OptionRequestOption_save_def PreferenceOption_save_def ElapsedTimeOption_save_def
  AuthenticationOption_save_def ServerUnicastOption_save_def StatusCodeOption_save_def
  RapidCommitOption_save_def UserClassOption_save_def VendorClassOption_save_def
  VendorSpecificInformationOption_save_def InterfaceIdOption_save_def
  ReconfigureMessageOption_save_def ReconfigureAcceptOption_save_def

lemmas plain_validate_defs =
  UnknownOption_validate_def ClientIdOption_validate_def ServerIdOption_validate_def
  OptionRequestOption_validate_def PreferenceOption_validate_def ElapsedTimeOption_validate_def
  AuthenticationOption_validate_def ServerUnicastOption_validate_def
  StatusCodeOption_validate_def UserClassOption_validate_def VendorClassOption_validate_def
  VendorSpecificInformationOption_validate_def InterfaceIdOption_validate_def
  ReconfigureMessageOption_validate_def

end
