(* ===== verification/ExtensionCodec.thy ===== *)
theory ExtensionCodec
  imports ExtensionOptions
begin

text \<open>
  What the extension options without suboptions guarantee: what \<open>validate\<close> accepts and
  \<open>save\<close> can write is read back by \<open>load_from\<close> of the class, every loader uses at least the
  header and ends inside the buffer, and no loader runs out of fuel.
\<close>

fun extension_representable :: "extension_option \<Rightarrow> bool" where
  "extension_representable (RelayIdOption (Some d)) \<longleftrightarrow> duid_representable d"
| "extension_representable (S46DMROption (Some n)) \<longleftrightarrow> network_ok n"
| "extension_representable _ \<longleftrightarrow> True"

interpretation addresses: item_codec address_enc address_dec "\<lambda>_. True"
proof
  show "address_dec (pre @ bs @ post) (length pre) = Inr (length bs, x)"
    if "address_enc x = Inr bs" for x bs pre post
    using that by (auto simp: address_enc_def address_dec_def buf_simps)
  show "bs \<noteq> []" if "address_enc x = Inr bs" for x bs
    using that by (auto simp: address_enc_def packed_def)
qed

lemma DUID_parse_behind:
  assumes "DUID_save d = Inr bs" and "duid_representable d"
  shows "DUID_parse (pre @ be_bytes 2 t @ be_bytes 2 l @ bs @ post) (length pre + 4) (Some (length bs))
         = Inr (length bs, d)"
  using DUID_parse_save [OF assms, of "pre @ be_bytes 2 t @ be_bytes 2 l" post] by simp

lemma addresses_length: "concat_res address_enc xs = Inr bs \<Longrightarrow> length bs = length xs * 16"
  by (induction xs arbitrary: bs) (auto simp: address_enc_def res_simps)

lemma addresses_behind:
  assumes "concat_res address_enc xs = Inr bs" and "length h = m" and "length bs < fuel"
  shows "items_loop fuel (address_dec (pre @ h @ bs @ post)) (length pre) m (length bs + m)
         = Inr (length bs + m, xs)"
  using addresses.items_roundtrip_octets
    [of xs bs "length pre" m "pre @ h" fuel post] assms by (simp add: add.commute)

lemma address_list_roundtrip:
  assumes "address_list_save t xs = Inr bs" and "0 \<le> t" and "t < 65536"
  shows "address_list_load_from t make (pre @ bs @ post) (length pre) None = Inr (length bs, make xs)"
proof -
  from assms obtain ab where ab: "concat_res address_enc xs = Inr ab"
    and fit: "length ab < 65536"
    and bs: "bs = be_bytes 2 (nat t) @ be_bytes 2 (length ab) @ ab"
    by (auto simp: address_list_save_def pack_fields_eq_Inr addresses_length nat_less_iff buf_simps
      elim!: rbind_InrE)
  have "length ab mod 16 = 0" using addresses_length [OF ab] by simp
  then show ?thesis
    using assms(2,3) fit
      addresses_behind [OF ab, of "be_bytes 2 (nat t) @ be_bytes 2 (length ab)" 4 "Suc (length ab)" pre post]
    by (simp add: address_list_load_from_def bs load_simps del: items_loop.simps)
qed

text \<open>The other address loop does the same where its length is a whole number of addresses.\<close>

lemma link_address_loop_behind:
  assumes "concat_res address_enc xs = Inr bs" and "off + m = length pre"
  shows "link_address_loop (pre @ bs @ post) off m (m + length bs) = Inr (m + length bs, xs)"
  using assms
proof (induction xs arbitrary: bs pre m)
  case (Cons x xs)
  then obtain ab where ab: "concat_res address_enc xs = Inr ab" and bs: "bs = packed x @ ab"
    by (auto simp: address_enc_def [of x] elim!: rbind_InrE)
  have "link_address_loop ((pre @ packed x) @ ab @ post) off (m + 16) (m + 16 + length ab)
        = Inr (m + 16 + length ab, xs)"
    by (rule Cons.IH [OF ab]) (use Cons.prems in simp)
  with Cons.prems(2) show ?case
    by (subst link_address_loop.simps) (simp add: bs buf_simps add.assoc)
qed (simp add: link_address_loop.simps)

lemma LQClientLink_roundtrip:
  assumes "address_list_save 48 xs = Inr bs"
  shows "LQClientLink_load_from (pre @ bs @ post) (length pre) None = Inr (length bs, LQClientLink xs)"
proof -
  from assms obtain ab where ab: "concat_res address_enc xs = Inr ab"
    and fit: "length ab < 65536" and bs: "bs = be_bytes 2 48 @ be_bytes 2 (length ab) @ ab"
    by (auto simp: address_list_save_def pack_fields_eq_Inr addresses_length nat_less_iff buf_simps
      elim!: rbind_InrE)
  show ?thesis
    using fit link_address_loop_behind
      [OF ab, of "length pre" 4 "pre @ be_bytes 2 48 @ be_bytes 2 (length ab)" post]
    by (simp add: LQClientLink_load_from_def bs load_simps add.commute)
qed

lemma RelayIdOption_roundtrip:
  assumes "RelayIdOption_save d = Inr bs" and "extension_representable (RelayIdOption d)"
  shows "RelayIdOption_load_from (pre @ bs @ post) (length pre) None = Inr (length bs, RelayIdOption d)"
proof -
  from assms obtain e db where d: "d = Some e" and db: "DUID_save e = Inr db"
    and fit: "length db < 65536" and bs: "bs = be_bytes 2 53 @ be_bytes 2 (length db) @ db"
    by (auto simp: RelayIdOption_save_def pack_fields_eq_Inr elim!: rbind_InrE split: option.splits)
  show ?thesis
    using assms(2) fit DUID_save_ge_2 [OF db]
    by (simp add: RelayIdOption_load_from_def bs d load_simps DUID_parse_behind [OF db])
qed

text \<open>Reading the octets of a prefix that \<open>save\<close> wrote.\<close>

lemma load_lax_prefix_behind:
  assumes "network_ok n" and "off = length pre"
  shows "load_lax_prefix (pre @ be_bytes (Suc 0) (prefixlen n) @ prefix_bytes n @ post) off
         = Inr (1 + included_octets (prefixlen n), n)"
proof -
  have p: "prefixlen n \<le> 128" using assms(1) by (simp add: network_ok_def)
  then show ?thesis
    using assms by (simp add: load_lax_prefix_def Let_def buf_simps length_prefix_bytes
      prefix_bytes_ljust make_network_lax_ok)
qed

lemma S46DMROption_roundtrip:
  assumes "S46DMROption_save (Some n) = Inr bs" and "network_ok n"
  shows "S46DMROption_load_from (pre @ bs @ post) (length pre) None
         = Inr (length bs, S46DMROption (Some n))"
proof -
  let ?o = "included_octets (prefixlen n)"
  have p: "prefixlen n \<le> 128" using assms(2) by (simp add: network_ok_def)
  from assms(1) have bs:
    "bs = be_bytes 2 91 @ be_bytes 2 (1 + ?o) @ be_bytes 1 (prefixlen n) @ prefix_bytes n"
    by (auto simp: S46DMROption_save_def pack_fields_eq_Inr nat_add_distrib elim!: rbind_InrE)
  have len: "length (prefix_bytes n) = ?o" and o: "?o \<le> 16"
    using p by (rule length_prefix_bytes, rule included_octets_le)
  have "parse_option_header 91 1 17 (pre @ bs @ post) (length pre) None = Inr (4, 1 + ?o)"
    using parse_option_header_here [of 91 "1 + ?o" 1 17 "be_bytes 1 (prefixlen n) @ prefix_bytes n @ post"
      "int (1 + ?o)" pre] len o by (simp add: bs nat_add_distrib)
  moreover have "load_lax_prefix (pre @ bs @ post) (length pre + 4) = Inr (1 + ?o, n)"
    using load_lax_prefix_behind [OF assms(2), of "length pre + 4"
      "pre @ be_bytes 2 91 @ be_bytes 2 (1 + ?o)" post] by (simp add: bs)
  ultimately show ?thesis
    using len by (simp add: S46DMROption_load_from_def bs)
qed

text \<open>The port set identifier travels left-aligned.\<close>

lemma S46PortParametersOption_roundtrip:
  assumes "S46PortParametersOption_save a k psid = Inr bs"
    and "S46PortParametersOption_validate a k psid = Inr ()"
  shows "S46PortParametersOption_load_from (pre @ bs @ post) (length pre) None
         = Inr (length bs, S46PortParametersOption a k psid)"
proof -
  let ?raw = "psid * 2 ^ nat (16 - k)"
  let ?fs = "[(1, a), (1, k), (2, ?raw)]"
  from assms(1) have fit: "fields_fit ?fs" and k: "k \<le> 16"
    and bs: "bs = be_bytes 2 93 @ be_bytes 2 4 @ field_bytes ?fs"
    by (auto simp: S46PortParametersOption_save_def Let_def pack_fields_eq_Inr split: if_splits)
  have len: "length (field_bytes ?fs) = 4" by simp
  have "parse_option_header 93 4 4 (pre @ bs @ post) (length pre) None = Inr (4, 4)"
    using parse_option_header_here [of 93 4 4 4 "field_bytes ?fs @ post" 4 pre] len
    by (simp add: bs del: field_bytes_simps)
  moreover have "slice (pre @ bs @ post) (length pre + 4) 4 = field_bytes ?fs"
    using len by (simp add: bs buf_simps del: field_bytes_simps)
  moreover from fit have "unpack_fields [1, 1, 2] (field_bytes ?fs) = Inr [a, k, ?raw]"
    using unpack_field_bytes [of ?fs] by (simp del: field_bytes_simps fields_fit_simps unpack_fields.simps)
  ultimately show ?thesis
    using k len
    by (simp add: S46PortParametersOption_load_from_def bs del: field_bytes_simps unpack_fields.simps)
qed

lemma u32_roundtrip:
  assumes "bs = be_bytes 2 (nat t) @ be_bytes 2 4 @ be_bytes 4 (nat v)"
    and "0 \<le> t" "t < 65536" "0 \<le> v" "v < 4294967296"
  shows "u32_load_from t make (pre @ bs @ post) (length pre) None = Inr (length bs, make v)"
  using assms by (simp add: u32_load_from_def load_simps)

lemma length_ascii_encode: "ascii_encode s = Inr bs \<Longrightarrow> length s = length bs"
  by (auto simp: ascii_encode_def split: if_splits)

lemmas codec_simps =
  extension_save_defs extension_load_defs extension_validate_defs load_simps pack_fields_eq_Inr

lemma extension_roundtrip:
  assumes save: "extension_save x = Inr bs" and valid: "extension_validate x = Inr ()"
    and repr: "extension_representable x" and load: "extension_loader (extension_class x) = Some load"
  shows "load (pre @ bs @ post) (length pre) None = Inr (length bs, x)"
proof (cases x)
  case (RecursiveNameServersOption xs)
  then show ?thesis using save load
    by (auto simp: extension_loader_def intro!: address_list_roundtrip)
next
  case (SNTPServersOption xs)
  then show ?thesis using save load
    by (auto simp: extension_loader_def intro!: address_list_roundtrip)
next
  case (SIPServersAddressListOption xs)
  then show ?thesis using save load
    by (auto simp: extension_loader_def intro!: address_list_roundtrip)
next
  case (SolMaxRTOption v)
  then show ?thesis using save load u32_roundtrip [of bs 82 v SolMaxRTOption pre post]
    by (auto simp: extension_loader_def SolMaxRTOption_save_def pack_fields_eq_Inr)
next
  case (InfMaxRTOption v)
  then show ?thesis using save load u32_roundtrip [of bs 83 v InfMaxRTOption pre post]
    by (auto simp: extension_loader_def InfMaxRTOption_save_def pack_fields_eq_Inr)
next
  case (SubscriberIdOption s)
  then show ?thesis using save load valid
    by (auto elim!: rbind_InrE simp: extension_loader_def codec_simps)
next
  case (RemoteIdOption n r)
  then show ?thesis using save load valid
    by (auto elim!: rbind_InrE simp: extension_loader_def codec_simps)
next
  case (LinkLayerIdOption t a)
  then show ?thesis using save load valid
    by (auto elim!: rbind_InrE simp: extension_loader_def codec_simps)
next
  case (EchoRequestOption r)
  then show ?thesis using save load valid
    by (auto elim!: rbind_InrE simp: extension_loader_def codec_simps)
next
  case (PDExcludeOption p s)
  then show ?thesis using save load valid
    by (auto elim!: rbind_InrE simp: extension_loader_def codec_simps guard_eq_Inr
      split: option.splits if_splits)
next
  case (TZDBTimezoneOption t)
  then show ?thesis using save load valid
    by (auto elim!: rbind_InrE simp: extension_loader_def codec_simps ascii_decode_encode
      length_ascii_encode split: option.splits)
next
  case (RelayIdOption d)
  then show ?thesis using save load repr
    by (auto simp: extension_loader_def intro!: RelayIdOption_roundtrip)
next
  case (CLTTimeOption v)
  then show ?thesis using save load valid
    by (auto elim!: rbind_InrE simp: extension_loader_def codec_simps)
next
  case (LQClientLink xs)
  then show ?thesis using save load
    by (auto simp: extension_loader_def intro!: LQClientLink_roundtrip)
next
  case (S46BROption a)
  then show ?thesis using save load valid
    by (auto elim!: rbind_InrE simp: extension_loader_def codec_simps split: option.splits)
next
  case (S46DMROption n)
  with save obtain m where "n = Some m" by (cases n) (auto simp: S46DMROption_save_def)
  with S46DMROption show ?thesis using save load repr
    by (auto simp: extension_loader_def intro!: S46DMROption_roundtrip)
next
  case (S46PortParametersOption a k p)
  then show ?thesis using save load valid
    by (auto simp: extension_loader_def intro!: S46PortParametersOption_roundtrip)
qed

subsection \<open>Where a loader ends\<close>

lemma load_lax_prefix_bound:
  "load_lax_prefix buf off = Inr (n, p) \<Longrightarrow> 1 \<le> n \<and> off < length buf"
  by (auto simp: load_lax_prefix_def Let_def byte_at_def elim!: rbind_InrE split: if_splits)

lemma address_dec_bound: "address_dec buf k = Inr (n, x) \<Longrightarrow> n = 16 \<and> k + n \<le> length buf"
  by (auto simp: address_dec_def ipv6_from_bytes_def slice_def elim!: rbind_InrE split: if_splits)

lemma address_loop_end:
  assumes "items_loop fuel (address_dec buf) off m (m + 16 * k) = Inr (e, xs)"
  shows "e = m + 16 * k"
  using assms
proof (induction fuel arbitrary: m k xs)
  case (Suc fuel)
  show ?case
  proof (cases k)
    case (Suc j)
    with Suc.prems obtain ys where
      "items_loop fuel (address_dec buf) off (m + 16) (m + 16 + 16 * j) = Inr (e, ys)"
      by (auto elim!: rbind_InrE dest!: address_dec_bound simp: add.assoc)
    from Suc.IH [OF this] Suc show ?thesis by simp
  qed (use Suc.prems in simp)
qed simp

lemma address_list_load_from_bound:
  assumes "address_list_load_from t make buf off len = Inr (n, x)"
  shows "4 \<le> n \<and> n \<le> length_or len buf off \<and> off + 4 \<le> length buf"
proof -
  from assms obtain m l xs where h: "parse_option_header t 0 max_option_length buf off len = Inr (m, l)"
    and d: "l mod 16 = 0" and e: "items_loop (Suc l) (address_dec buf) off m (l + m) = Inr (n, xs)"
    unfolding address_list_load_from_def
    by (auto elim!: rbind_InrE simp del: items_loop.simps split: if_splits)
  have "l + m = m + 16 * (l div 16)" using d mult_div_mod_eq [of 16 l] by linarith
  with address_loop_end [of "Suc l" buf off m "l div 16" n xs] e have "n = l + m" by (simp only:)
  with parse_option_header_InrD [OF h] show ?thesis by simp
qed

lemma extension_loader_cases:
  assumes "extension_loader c = Some load"
  obtains t make where "load = address_list_load_from t make"
  | t make where "load = u32_load_from t make"
  | "load = SubscriberIdOption_load_from" | "load = RemoteIdOption_load_from"
  | "load = LinkLayerIdOption_load_from" | "load = EchoRequestOption_load_from"
  | "load = PDExcludeOption_load_from" | "load = TZDBTimezoneOption_load_from"
  | "load = RelayIdOption_load_from" | "load = CLTTimeOption_load_from"
  | "load = LQClientLink_load_from" | "load = S46BROption_load_from"
  | "load = S46DMROption_load_from" | "load = S46PortParametersOption_load_from"
  using assms by (auto simp: extension_loader_def split: if_splits)

lemma extension_loader_end:
  assumes "extension_loader c = Some load" and "load buf off len = Inr (n, x)"
  shows "4 \<le> n \<and> n \<le> length_or len buf off \<and> off + 4 \<le> length buf"
  using assms(1)
proof (cases rule: extension_loader_cases)
  case (1 t make)
  with assms(2) show ?thesis by (auto dest: address_list_load_from_bound)
next
  case 9
  with assms(2) show ?thesis
    by (auto simp: RelayIdOption_load_from_def elim!: rbind_InrE dest!: parse_option_header_InrD
      dest: DUID_parse_length)
qed (use assms(2) in \<open>auto simp: extension_load_defs Let_def elim!: rbind_InrE
  dest!: parse_option_header_InrD split: if_splits\<close>)

lemma extension_loader_class:
  assumes "extension_loader c = Some load" and "load buf off len = Inr (n, x)"
  shows "extension_class x = c"
  using assms
  by (auto simp: extension_loader_def extension_load_defs Let_def elim!: rbind_InrE split: if_splits)

lemma link_address_loop_not_fuel [simp]: "link_address_loop buf off m e \<noteq> Inl OutOfFuel"
proof (induction buf off m e rule: link_address_loop.induct)
  case (1 buf off m e)
  then show ?case by (subst link_address_loop.simps) (auto simp: res_simps)
qed

lemma load_lax_prefix_not_fuel [simp]: "load_lax_prefix buf off \<noteq> Inl OutOfFuel"
  by (auto simp: load_lax_prefix_def Let_def res_simps split: if_splits)

lemma address_list_load_from_not_fuel [simp]:
  "address_list_load_from t make buf off len \<noteq> Inl OutOfFuel"
proof -
  have "items_loop (Suc n) (address_dec buf) off m (n + m) \<noteq> Inl OutOfFuel" for n m
    by (rule items_loop_not_fuel) (auto simp: address_dec_def res_simps)
  then show ?thesis
    by (auto simp: address_list_load_from_def rbind_eq_Inl simp del: items_loop.simps
      split: if_splits prod.splits)
qed

lemma extension_loader_not_fuel:
  assumes "extension_loader c = Some load"
  shows "load buf off len \<noteq> Inl OutOfFuel"
  using assms
  by (cases rule: extension_loader_cases)
    (auto simp: u32_load_from_def LQClientLink_load_from_def SubscriberIdOption_load_from_def
      RemoteIdOption_load_from_def LinkLayerIdOption_load_from_def EchoRequestOption_load_from_def
      PDExcludeOption_load_from_def TZDBTimezoneOption_load_from_def RelayIdOption_load_from_def
      CLTTimeOption_load_from_def S46BROption_load_from_def S46DMROption_load_from_def
      S46PortParametersOption_load_from_def rbind_eq_Inl Let_def
      simp del: unpack_fields.simps split: if_splits prod.splits)

lemma extension_save_header:
  assumes "extension_save x = Inr bs"
  shows "\<exists>bs'. bs = be_bytes 2 (nat (class_option_type (extension_class x))) @ bs' \<and> 2 \<le> length bs'"
  using assms
  by (cases x) (auto elim!: rbind_InrE simp: extension_save_defs Let_def pack_fields_eq_Inr
    split: option.splits if_splits)

end
