(* ===== verification/PlainCodec.thy ===== *)
theory PlainCodec
  imports PlainOptions ExtensionCodec
begin

text \<open>
  What the options without suboptions guarantee: an object that \<open>validate\<close> accepts and
  \<open>save\<close> can write is read back by \<open>load_from\<close> of its class, with the length of the
  written octets; every loader uses at least the four octets of the option header; and no
  loader runs out of fuel.
\<close>

fun plain_representable :: "plain_option \<Rightarrow> bool" where
  "plain_representable (ClientIdOption (Some d)) \<longleftrightarrow> duid_representable d"
| "plain_representable (ServerIdOption (Some d)) \<longleftrightarrow> duid_representable d"
| "plain_representable (ExtensionOption x) \<longleftrightarrow> extension_representable x"
| "plain_representable _ \<longleftrightarrow> True"


text \<open>Reading what stands behind an option header of four octets.\<close>

lemma class_data_behind:
  assumes "concat_res class_data_enc xs = Inr bs" and "length h = m" and "length bs < fuel"
  shows "items_loop fuel (class_data_dec (pre @ h @ bs @ post)) (length pre) m (length bs + m)
         = Inr (length bs + m, xs)"
  using class_data.items_roundtrip_octets
    [of xs bs "length pre" m "pre @ h" fuel post] assms by (simp add: add.commute)

lemma vendor_option_behind:
  assumes "concat_res vendor_option_enc xs = Inr bs" and "length h = m" and "length bs < fuel"
  shows "items_loop fuel (vendor_option_dec (pre @ h @ bs @ post)) (length pre) m (length bs + m)
         = Inr (length bs + m, xs)"
  using vendor_option.items_roundtrip_octets
    [of xs bs "length pre" m "pre @ h" fuel post] assms by (simp add: add.commute)

lemma ClientIdOption_roundtrip:
  assumes "ClientIdOption_save d = Inr bs" and "plain_representable (ClientIdOption d)"
  shows "ClientIdOption_load_from (pre @ bs @ post) (length pre) None = Inr (length bs, ClientIdOption d)"
proof -
  from assms obtain e db where d: "d = Some e" and db: "DUID_save e = Inr db"
    and fit: "length db < 65536" and bs: "bs = be_bytes 2 1 @ be_bytes 2 (length db) @ db"
    by (auto simp: ClientIdOption_save_def pack_fields_eq_Inr elim!: rbind_InrE split: option.splits)
  show ?thesis
    using assms(2) fit DUID_save_ge_2 [OF db]
    by (simp add: ClientIdOption_load_from_def bs d load_simps DUID_parse_behind [OF db])
qed

lemma ServerIdOption_roundtrip:
  assumes "ServerIdOption_save d = Inr bs" and "plain_representable (ServerIdOption d)"
  shows "ServerIdOption_load_from (pre @ bs @ post) (length pre) None = Inr (length bs, ServerIdOption d)"
proof -
  from assms obtain e db where d: "d = Some e" and db: "DUID_save e = Inr db"
    and fit: "length db < 65536" and bs: "bs = be_bytes 2 2 @ be_bytes 2 (length db) @ db"
    by (auto simp: ServerIdOption_save_def pack_fields_eq_Inr elim!: rbind_InrE split: option.splits)
  show ?thesis
    using assms(2) fit DUID_save_ge_2 [OF db]
    by (simp add: ServerIdOption_load_from_def bs d load_simps DUID_parse_behind [OF db])
qed

lemma UserClassOption_roundtrip:
  assumes "UserClassOption_save u = Inr bs"
  shows "UserClassOption_load_from (pre @ bs @ post) (length pre) None = Inr (length bs, UserClassOption u)"
proof -
  from assms obtain cb where cb: "concat_res class_data_enc u = Inr cb"
    and fit: "length cb < 65536" and bs: "bs = be_bytes 2 15 @ be_bytes 2 (length cb) @ cb"
    by (auto simp: UserClassOption_save_def pack_fields_eq_Inr elim!: rbind_InrE)
  show ?thesis
    using fit class_data_behind [OF cb, of "be_bytes 2 15 @ be_bytes 2 (length cb)" 4 "Suc (length cb)" pre post]
    by (simp add: UserClassOption_load_from_def bs load_simps del: items_loop.simps)
qed

lemma VendorClassOption_roundtrip:
  assumes "VendorClassOption_save n u = Inr bs"
  shows "VendorClassOption_load_from (pre @ bs @ post) (length pre) None = Inr (length bs, VendorClassOption n u)"
proof -
  from assms obtain cb where cb: "concat_res class_data_enc u = Inr cb"
    and fit: "length cb + 4 < 65536" "0 \<le> n" "n < 4294967296"
    and bs: "bs = be_bytes 2 16 @ be_bytes 2 (length cb + 4) @ be_bytes 4 (nat n) @ cb"
    by (auto simp: VendorClassOption_save_def pack_fields_eq_Inr load_simps elim!: rbind_InrE)
  show ?thesis
    using fit class_data_behind [OF cb, of "be_bytes 2 16 @ be_bytes 2 (length cb + 4) @ be_bytes 4 (nat n)"
      8 "Suc (length cb + 4)" pre post]
    by (simp add: VendorClassOption_load_from_def bs load_simps add.commute del: items_loop.simps)
qed

lemma VendorSpecificInformationOption_roundtrip:
  assumes "VendorSpecificInformationOption_save n u = Inr bs"
  shows "VendorSpecificInformationOption_load_from (pre @ bs @ post) (length pre) None
         = Inr (length bs, VendorSpecificInformationOption n u)"
proof -
  from assms obtain cb where cb: "concat_res vendor_option_enc u = Inr cb"
    and fit: "length cb + 4 < 65536" "0 \<le> n" "n < 4294967296"
    and bs: "bs = be_bytes 2 17 @ be_bytes 2 (length cb + 4) @ be_bytes 4 (nat n) @ cb"
    by (auto simp: VendorSpecificInformationOption_save_def pack_fields_eq_Inr load_simps elim!: rbind_InrE)
  show ?thesis
    using fit vendor_option_behind [OF cb, of "be_bytes 2 17 @ be_bytes 2 (length cb + 4) @ be_bytes 4 (nat n)"
      8 "Suc (length cb + 4)" pre post]
    by (simp add: VendorSpecificInformationOption_load_from_def bs load_simps add.commute del: items_loop.simps)
qed

lemma plain_roundtrip:
  assumes "plain_save o' = Inr bs" and "plain_validate o' = Inr ()" and "plain_representable o'"
    and "plain_loader (plain_class o') = Some load"
  shows "load (pre @ bs @ post) (length pre) None = Inr (length bs, o')"
proof (cases o')
  case (UnknownOption t d)
  then show ?thesis using assms
    by (auto elim!: rbind_InrE simp: plain_save_defs plain_load_defs plain_validate_defs load_simps pack_fields_eq_Inr)
next
  case (ClientIdOption d)
  then show ?thesis using assms by (auto intro!: ClientIdOption_roundtrip)
next
  case (ServerIdOption d)
  then show ?thesis using assms by (auto intro!: ServerIdOption_roundtrip)
next
  case (OptionRequestOption x4)
  then show ?thesis using assms
    by (auto elim!: rbind_InrE simp: plain_save_defs plain_load_defs plain_validate_defs load_simps pack_fields_eq_Inr)
next
  case (PreferenceOption x5)
  then show ?thesis using assms
    by (auto elim!: rbind_InrE simp: plain_save_defs plain_load_defs plain_validate_defs load_simps pack_fields_eq_Inr)
next
  case (ElapsedTimeOption x6)
  then show ?thesis using assms
    by (auto elim!: rbind_InrE simp: plain_save_defs plain_load_defs plain_validate_defs load_simps pack_fields_eq_Inr)
next
  case (AuthenticationOption x71 x72 x73 x74 x75)
  then show ?thesis using assms
    by (auto elim!: rbind_InrE simp: plain_save_defs plain_load_defs plain_validate_defs load_simps pack_fields_eq_Inr split: if_splits)
next
  case (ServerUnicastOption x8)
  then show ?thesis using assms
    by (auto elim!: rbind_InrE simp: plain_save_defs plain_load_defs plain_validate_defs load_simps pack_fields_eq_Inr split: option.splits)
next
  case (StatusCodeOption x91 x92)
  then show ?thesis using assms
    by (auto elim!: rbind_InrE simp: plain_save_defs plain_load_defs plain_validate_defs load_simps pack_fields_eq_Inr utf8_decode_encode)
next
  case RapidCommitOption
  then show ?thesis using assms
    by (auto elim!: rbind_InrE simp: plain_save_defs plain_load_defs plain_validate_defs load_simps pack_fields_eq_Inr)
next
  case (UserClassOption u)
  then show ?thesis using assms by (auto intro!: UserClassOption_roundtrip)
next
  case (VendorClassOption n u)
  then show ?thesis using assms by (auto intro!: VendorClassOption_roundtrip)
next
  case (VendorSpecificInformationOption n u)
  then show ?thesis using assms by (auto intro!: VendorSpecificInformationOption_roundtrip)
next
  case (InterfaceIdOption x14)
  then show ?thesis using assms
    by (auto elim!: rbind_InrE simp: plain_save_defs plain_load_defs plain_validate_defs load_simps pack_fields_eq_Inr)
next
  case (ReconfigureMessageOption x15)
  then show ?thesis using assms
    by (auto elim!: rbind_InrE simp: plain_save_defs plain_load_defs plain_validate_defs load_simps pack_fields_eq_Inr)
next
  case ReconfigureAcceptOption
  then show ?thesis using assms
    by (auto elim!: rbind_InrE simp: plain_save_defs plain_load_defs plain_validate_defs load_simps pack_fields_eq_Inr)
next
  case (ExtensionOption x)
  have "plain_loader (extension_class x) = map_option load_extension (extension_loader (extension_class x))"
    by (cases x) simp_all
  with ExtensionOption assms show ?thesis
    by (auto simp: load_extension_def extension_roundtrip)
qed

lemma plain_loader_own_class: "\<exists>load. plain_loader (plain_class p) = Some load"
proof (cases p)
  case (ExtensionOption x)
  then show ?thesis by (cases x) (simp_all add: extension_loader_def)
qed simp_all

lemma plain_loader_cases:
  assumes "plain_loader c = Some load"
  obtains load' where "extension_loader c = Some load'" and "load = load_extension load'"
  | "extension_loader c = None" and "c \<in> {C_UnknownOption, C_ClientIdOption, C_ServerIdOption,
       C_OptionRequestOption, C_PreferenceOption, C_ElapsedTimeOption, C_AuthenticationOption,
       C_ServerUnicastOption, C_StatusCodeOption, C_RapidCommitOption, C_UserClassOption,
       C_VendorClassOption, C_VendorSpecificInformationOption, C_InterfaceIdOption,
       C_ReconfigureMessageOption, C_ReconfigureAcceptOption}"
  using assms by (cases c) (auto simp: extension_loader_def)

lemma plain_loader_progress:
  assumes "plain_loader c = Some load" and "load buf off len = Inr (n, o')"
  shows "4 \<le> n"
  using assms(1)
proof (cases rule: plain_loader_cases)
  case (1 load')
  with assms(2) show ?thesis
    by (auto simp: load_extension_def elim!: rbind_InrE dest: extension_loader_end)
qed (use assms in \<open>auto elim!: rbind_InrE simp: plain_load_defs Let_def
    dest!: parse_option_header_InrD dest: DUID_parse_length items_loop_mono_offset split: if_splits\<close>)

lemma plain_loader_class:
  assumes "plain_loader c = Some load" and "load buf off len = Inr (n, o')"
  shows "plain_class o' = c"
  using assms(1)
proof (cases rule: plain_loader_cases)
  case (1 load')
  with assms(2) show ?thesis
    by (auto simp: load_extension_def elim!: rbind_InrE dest: extension_loader_class)
qed (use assms in \<open>auto elim!: rbind_InrE simp: plain_load_defs Let_def split: if_splits\<close>)

lemma items_loop_class_data_not_fuel [simp]:
  "max_offset - my_offset < fuel \<Longrightarrow>
   items_loop fuel (class_data_dec buf) offset my_offset max_offset \<noteq> Inl OutOfFuel"
  by (rule items_loop_not_fuel) (auto dest: class_data_dec_progress)

lemma items_loop_vendor_option_not_fuel [simp]:
  "max_offset - my_offset < fuel \<Longrightarrow>
   items_loop fuel (vendor_option_dec buf) offset my_offset max_offset \<noteq> Inl OutOfFuel"
  by (rule items_loop_not_fuel) (auto dest: vendor_option_dec_progress)

lemma plain_loader_not_fuel:
  assumes "plain_loader c = Some load"
  shows "load buf off len \<noteq> Inl OutOfFuel"
  using assms
proof (cases rule: plain_loader_cases)
  case (1 load')
  then show ?thesis by (auto simp: load_extension_def rbind_eq_Inl dest: extension_loader_not_fuel)
next
  case 2
  show ?thesis
  proof
    assume "load buf off len = Inl OutOfFuel"
    with assms 2 show False
      by (auto simp: rbind_eq_Inl plain_load_defs Let_def simp del: items_loop.simps
        dest!: parse_option_header_InrD split: if_splits prod.splits)
  qed
qed

end
