(* ===== verification/MessageTypes.thy ===== *)
theory MessageTypes
  imports PlainCodec
begin

text \<open>
  The mutually recursive data model of options and messages (dhcpkit/ipv6/messages.py,
  options.py and the extensions prefix_delegation.py, leasequery.py and map.py), the classes
  of its objects, and the loop over the suboptions of an option.
\<close>

type_synonym registry = "int \<Rightarrow> option_class option"

text \<open>The three subclasses of \<open>S46ContainerOption\<close>, which differ in their option number only.\<close>

datatype s46_container = S46MapE | S46MapT | S46LW

datatype dhcp_option =
    Plain plain_option
  | IANAOption bytes int int "dhcp_option list"
  | IATAOption bytes "dhcp_option list"
  | IAAddressOption "ipv6 option" int int "dhcp_option list"
  | RelayMessageOption "message option"
  | IAPDOption bytes int int "dhcp_option list"
  | IAPrefixOption "ipv6_network option" int int "dhcp_option list"
  | LQQueryOption int ipv6 "dhcp_option list"
  | ClientDataOption "dhcp_option list"
  | LQRelayDataOption "ipv6 option" "message option"
  | S46RuleOption int int ipv4_network ipv6_network "dhcp_option list"
  | S46V4V6BindingOption ipv4 ipv6_network "dhcp_option list"
  | S46ContainerOption s46_container "dhcp_option list"
and message =
    UnknownMessage int bytes
  | ClientServerMessage client_server_class bytes "dhcp_option list"
  | RelayServerMessage relay_class int "ipv6 option" "ipv6 option" "dhcp_option list"

text \<open>The classes of the objects.\<close>

fun s46_container_class :: "s46_container \<Rightarrow> option_class" where
  "s46_container_class S46MapE = C_S46MapEContainerOption"
| "s46_container_class S46MapT = C_S46MapTContainerOption"
| "s46_container_class S46LW = C_S46LWContainerOption"

fun option_class_of :: "dhcp_option \<Rightarrow> option_class" where
  "option_class_of (Plain p) = plain_class p"
| "option_class_of (IANAOption _ _ _ _) = C_IANAOption"
| "option_class_of (IATAOption _ _) = C_IATAOption"
| "option_class_of (IAAddressOption _ _ _ _) = C_IAAddressOption"
| "option_class_of (RelayMessageOption _) = C_RelayMessageOption"
| "option_class_of (IAPDOption _ _ _ _) = C_IAPDOption"
| "option_class_of (IAPrefixOption _ _ _ _) = C_IAPrefixOption"
| "option_class_of (LQQueryOption _ _ _) = C_LQQueryOption"
| "option_class_of (ClientDataOption _) = C_ClientDataOption"
| "option_class_of (LQRelayDataOption _ _) = C_LQRelayDataOption"
| "option_class_of (S46RuleOption _ _ _ _ _) = C_S46RuleOption"
| "option_class_of (S46V4V6BindingOption _ _ _) = C_S46V4V6BindingOption"
| "option_class_of (S46ContainerOption c _) = s46_container_class c"

abbreviation option_klass :: "dhcp_option \<Rightarrow> klass" where
  "option_klass o' \<equiv> OptionClass (option_class_of o')"

fun message_class_of :: "message \<Rightarrow> message_class" where
  "message_class_of (UnknownMessage _ _) = C_UnknownMessage"
| "message_class_of (ClientServerMessage c _ _) = ClientServer c"
| "message_class_of (RelayServerMessage c _ _ _ _) = RelayServer c"

abbreviation message_klass :: "message \<Rightarrow> klass" where
  "message_klass m \<equiv> MessageClass (message_class_of m)"

text \<open>The options of one datatype are of none of the classes of another.\<close>

lemma extension_class_core [simp]:
  "extension_class x \<noteq> C_IANAOption" "extension_class x \<noteq> C_IATAOption"
  "extension_class x \<noteq> C_IAPDOption" "extension_class x \<noteq> C_IAAddressOption"
  "extension_class x \<noteq> C_IAPrefixOption" "extension_class x \<noteq> C_RelayMessageOption"
  "extension_class x \<noteq> C_UnknownOption" "extension_class x \<noteq> C_ClientIdOption"
  "extension_class x \<noteq> C_ServerIdOption" "extension_class x \<noteq> C_StatusCodeOption"
  "extension_class x \<noteq> C_RapidCommitOption" "extension_class x \<noteq> C_ElapsedTimeOption"
  "extension_class x \<noteq> C_OptionRequestOption" "extension_class x \<noteq> C_InterfaceIdOption"
  "extension_class x \<noteq> C_PreferenceOption" "extension_class x \<noteq> C_ServerUnicastOption"
  by (cases x; simp)+

lemma plain_class_ia [simp]:
  "plain_class p \<noteq> C_IANAOption" "plain_class p \<noteq> C_IATAOption"
  "plain_class p \<noteq> C_IAPDOption" "plain_class p \<noteq> C_IAAddressOption"
  "plain_class p \<noteq> C_IAPrefixOption" "plain_class p \<noteq> C_RelayMessageOption"
  by (cases p; simp)+

lemma s46_container_class_core [simp]:
  "s46_container_class c \<noteq> C_IANAOption" "s46_container_class c \<noteq> C_IATAOption"
  "s46_container_class c \<noteq> C_IAPDOption" "s46_container_class c \<noteq> C_IAAddressOption"
  "s46_container_class c \<noteq> C_IAPrefixOption" "s46_container_class c \<noteq> C_RelayMessageOption"
  "s46_container_class c \<noteq> C_UnknownOption" "s46_container_class c \<noteq> C_ClientIdOption"
  "s46_container_class c \<noteq> C_ServerIdOption" "s46_container_class c \<noteq> C_StatusCodeOption"
  "s46_container_class c \<noteq> C_RapidCommitOption" "s46_container_class c \<noteq> C_ElapsedTimeOption"
  "s46_container_class c \<noteq> C_OptionRequestOption" "s46_container_class c \<noteq> C_InterfaceIdOption"
  "s46_container_class c \<noteq> C_PreferenceOption" "s46_container_class c \<noteq> C_ServerUnicastOption"
  by (cases c; simp)+

subsection \<open>Suboptions\<close>

text \<open>
  The loaders take the loader of the options (or of the message) they contain as an
  argument; \<open>option_parse\<close> and \<open>message_parse\<close> (theory Messages) tie the knot.
\<close>

type_synonym option_dec = "nat \<Rightarrow> (nat \<times> dhcp_option) res"

text \<open>The loop over the suboptions, and the check that they fill the option.\<close>

definition load_options ::
  "nat \<Rightarrow> option_dec \<Rightarrow> nat \<Rightarrow> nat \<Rightarrow> nat \<Rightarrow> (nat \<times> dhcp_option list) res" where
  "load_options fuel dec offset my_offset max_offset =
     rbind (items_loop fuel dec offset my_offset max_offset) (\<lambda>(my_offset, options).
     if my_offset \<noteq> max_offset then Inl ValueError else Inr (my_offset, options))"

end
