(* ===== verification/NestedExtensions.thy ===== *)
theory NestedExtensions
  imports MessageTypes
begin

text \<open>
  The options of dhcpkit/ipv6/extensions/leasequery.py and map.py that contain options or a
  message: what \<open>save\<close> writes around the saved contents, what \<open>validate\<close> checks of the fields,
  and \<open>load_from\<close> over a loader of the contents.
\<close>

subsection \<open>Leasequery\<close>

definition LQQueryOption_validate :: "int \<Rightarrow> ipv6 \<Rightarrow> unit res" where
  "LQQueryOption_validate query_type link_address =
     (if \<not> (0 \<le> query_type \<and> query_type < 2 ^ 8) then Inl ValueError
      else guard (\<not> (is_loopback link_address \<or> is_multicast link_address)) ValueError)"

definition LQQueryOption_save :: "int \<Rightarrow> ipv6 \<Rightarrow> bytes \<Rightarrow> bytes res" where
  "LQQueryOption_save query_type link_address options_buffer =
     rbind (pack_fields [(2, 44), (2, int (length options_buffer) + 17), (1, query_type)]) (\<lambda>h.
     Inr (h @ packed link_address @ options_buffer))"

definition LQQueryOption_load_from ::
  "nat \<Rightarrow> option_dec \<Rightarrow> bytes \<Rightarrow> nat \<Rightarrow> nat option \<Rightarrow> (nat \<times> dhcp_option) res" where
  "LQQueryOption_load_from fuel dec buf off len =
     rbind (parse_option_header 44 17 max_option_length buf off len) (\<lambda>(my_offset, option_len).
     let header_offset = my_offset in
     rbind (byte_at buf (off + my_offset)) (\<lambda>query_type.
     let my_offset = my_offset + 1 in
     rbind (ipv6_from_bytes (slice buf (off + my_offset) 16)) (\<lambda>link_address.
     let my_offset = my_offset + 16 in
     rbind (load_options fuel dec off my_offset (option_len + header_offset))
       (\<lambda>(my_offset, options). Inr (my_offset, LQQueryOption query_type link_address options)))))"

definition ClientDataOption_save :: "bytes \<Rightarrow> bytes res" where
  "ClientDataOption_save options_buffer =
     rbind (pack_fields [(2, 45), (2, int (length options_buffer))]) (\<lambda>h. Inr (h @ options_buffer))"

definition ClientDataOption_load_from ::
  "nat \<Rightarrow> option_dec \<Rightarrow> bytes \<Rightarrow> nat \<Rightarrow> nat option \<Rightarrow> (nat \<times> dhcp_option) res" where
  "ClientDataOption_load_from fuel dec buf off len =
     rbind (parse_option_header 45 0 max_option_length buf off len) (\<lambda>(my_offset, option_len).
     rbind (load_options fuel dec off my_offset (option_len + my_offset))
       (\<lambda>(my_offset, options). Inr (my_offset, ClientDataOption options)))"

definition LQRelayDataOption_validate :: "ipv6 option \<Rightarrow> unit res" where
  "LQRelayDataOption_validate peer_address =
     (case peer_address of
        None \<Rightarrow> Inl ValueError
      | Some a \<Rightarrow> guard (\<not> (is_loopback a \<or> is_multicast a \<or> is_unspecified a)) ValueError)"

definition LQRelayDataOption_save :: "ipv6 option \<Rightarrow> bytes \<Rightarrow> bytes res" where
  "LQRelayDataOption_save peer_address message =
     rbind (pack_fields [(2, 47), (2, int (length message) + 16)]) (\<lambda>h.
     case peer_address of
       None \<Rightarrow> Inl AttributeError
     | Some a \<Rightarrow> Inr (h @ packed a @ message))"

definition LQRelayDataOption_load_from ::
  "(nat \<Rightarrow> nat option \<Rightarrow> (nat \<times> message) res) \<Rightarrow> bytes \<Rightarrow> nat \<Rightarrow> nat option \<Rightarrow>
   (nat \<times> dhcp_option) res" where
  "LQRelayDataOption_load_from parse buf off len =
     rbind (parse_option_header 47 20 max_option_length buf off len) (\<lambda>(my_offset, option_len).
     rbind (ipv6_from_bytes (slice buf (off + my_offset) 16)) (\<lambda>peer_address.
     let my_offset = my_offset + 16 in
     rbind (parse (off + my_offset) (Some (option_len - 16))) (\<lambda>(message_len, relay_message).
     let my_offset = my_offset + message_len in
     if message_len \<noteq> option_len - 16 then Inl ValueError
     else Inr (my_offset, LQRelayDataOption (Some peer_address) (Some relay_message)))))"

subsection \<open>Softwires\<close>

definition S46RuleOption_validate :: "int \<Rightarrow> int \<Rightarrow> unit res" where
  "S46RuleOption_validate flags ea_len =
     (if \<not> (0 \<le> flags \<and> flags < 2 ^ 8) then Inl ValueError
      else guard (0 \<le> ea_len \<and> ea_len \<le> 48) ValueError)"

definition S46RuleOption_save ::
  "int \<Rightarrow> int \<Rightarrow> ipv4_network \<Rightarrow> ipv6_network \<Rightarrow> bytes \<Rightarrow> bytes res" where
  "S46RuleOption_save flags ea_len ipv4_prefix ipv6_prefix options_buffer =
     rbind (pack_fields
       [(2, 89), (2, int (length options_buffer) + int (included_octets (prefixlen ipv6_prefix)) + 8),
        (1, flags), (1, ea_len), (1, int (prefixlen4 ipv4_prefix))]) (\<lambda>h.
     rbind (append_byte (int (prefixlen ipv6_prefix))) (\<lambda>p.
     Inr (h @ packed4 (network_address4 ipv4_prefix) @ p @ prefix_bytes ipv6_prefix
          @ options_buffer)))"

definition S46RuleOption_load_from ::
  "nat \<Rightarrow> option_dec \<Rightarrow> bytes \<Rightarrow> nat \<Rightarrow> nat option \<Rightarrow> (nat \<times> dhcp_option) res" where
  "S46RuleOption_load_from fuel dec buf off len =
     rbind (parse_option_header 89 8 max_option_length buf off len) (\<lambda>(my_offset, option_len).
     let header_offset = my_offset in
     rbind (byte_at buf (off + my_offset)) (\<lambda>flags.
     let my_offset = my_offset + 1 in
     rbind (byte_at buf (off + my_offset)) (\<lambda>ea_len.
     let my_offset = my_offset + 1 in
     rbind (byte_at buf (off + my_offset)) (\<lambda>ipv4_prefix_length.
     let my_offset = my_offset + 1 in
     if \<not> (0 \<le> ipv4_prefix_length \<and> ipv4_prefix_length \<le> 32) then Inl ValueError
     else
       rbind (ipv4_from_bytes (slice buf (off + my_offset) 4)) (\<lambda>ipv4_address.
       let my_offset = my_offset + 4;
           ipv4_prefix = make_ipv4_network_lax ipv4_address (nat ipv4_prefix_length)
       in
       rbind (load_lax_prefix buf (off + my_offset)) (\<lambda>(prefix_len, ipv6_prefix).
       let my_offset = my_offset + prefix_len in
       rbind (load_options fuel dec off my_offset (option_len + header_offset))
         (\<lambda>(my_offset, options).
       Inr (my_offset, S46RuleOption flags ea_len ipv4_prefix ipv6_prefix options))))))))"

definition S46V4V6BindingOption_save :: "ipv4 \<Rightarrow> ipv6_network \<Rightarrow> bytes \<Rightarrow> bytes res" where
  "S46V4V6BindingOption_save ipv4_address ipv6_prefix options_buffer =
     rbind (pack_fields
       [(2, 92), (2, int (length options_buffer) + int (included_octets (prefixlen ipv6_prefix)) + 5)])
       (\<lambda>h.
     rbind (append_byte (int (prefixlen ipv6_prefix))) (\<lambda>p.
     Inr (h @ packed4 ipv4_address @ p @ prefix_bytes ipv6_prefix @ options_buffer)))"

definition S46V4V6BindingOption_load_from ::
  "nat \<Rightarrow> option_dec \<Rightarrow> bytes \<Rightarrow> nat \<Rightarrow> nat option \<Rightarrow> (nat \<times> dhcp_option) res" where
  "S46V4V6BindingOption_load_from fuel dec buf off len =
     rbind (parse_option_header 92 5 max_option_length buf off len) (\<lambda>(my_offset, option_len).
     let header_offset = my_offset in
     rbind (ipv4_from_bytes (slice buf (off + my_offset) 4)) (\<lambda>ipv4_address.
     let my_offset = my_offset + 4 in
     rbind (load_lax_prefix buf (off + my_offset)) (\<lambda>(prefix_len, ipv6_prefix).
     let my_offset = my_offset + prefix_len in
     rbind (load_options fuel dec off my_offset (option_len + header_offset))
       (\<lambda>(my_offset, options).
     Inr (my_offset, S46V4V6BindingOption ipv4_address ipv6_prefix options)))))"

definition s46_container_type :: "s46_container \<Rightarrow> int" where
  "s46_container_type c = class_option_type (s46_container_class c)"

definition S46ContainerOption_save :: "s46_container \<Rightarrow> bytes \<Rightarrow> bytes res" where
  "S46ContainerOption_save c options_buffer =
     rbind (pack_fields [(2, s46_container_type c), (2, int (length options_buffer))]) (\<lambda>h.
     Inr (h @ options_buffer))"

definition S46ContainerOption_load_from ::
  "s46_container \<Rightarrow> nat \<Rightarrow> option_dec \<Rightarrow> bytes \<Rightarrow> nat \<Rightarrow> nat option \<Rightarrow>
   (nat \<times> dhcp_option) res" where
  "S46ContainerOption_load_from c fuel dec buf off len =
     rbind (parse_option_header (s46_container_type c) 5 max_option_length buf off len)
       (\<lambda>(my_offset, option_len).
     rbind (load_options fuel dec off my_offset (option_len + my_offset))
       (\<lambda>(my_offset, options). Inr (my_offset, S46ContainerOption c options)))"

lemma s46_container_type_bounds: "94 \<le> s46_container_type c \<and> s46_container_type c \<le> 96"
  by (cases c) (simp_all add: s46_container_type_def)

end
