(* ===== verification/Messages.thy ===== *)
theory Messages
  imports NestedExtensions
begin

text \<open>
  dhcpkit/ipv6/messages.py and the options that contain options or a message
  (dhcpkit/ipv6/options.py, dhcpkit/ipv6/extensions/prefix_delegation.py, and those of theory
  NestedExtensions): \<open>load_from\<close>, \<open>save\<close> and \<open>validate\<close> of the data model.  The registry of
  option classes is filled when the extensions are loaded and is a parameter (\<open>registry\<close>);
  so are the containment rules (theory Elements).
\<close>

subsection \<open>Saving\<close>

text \<open>\<open>pack('4s', s)\<close> cuts the string off or pads it with zeros.\<close>

definition pack_string :: "nat \<Rightarrow> bytes \<Rightarrow> bytes" where
  "pack_string n s = take n s @ replicate (n - length s) 0"

definition IAOption_save :: "int \<Rightarrow> bytes \<Rightarrow> int \<Rightarrow> int \<Rightarrow> bytes \<Rightarrow> bytes res" where
  "IAOption_save option_type iaid t1 t2 options_buffer =
     rbind (pack_fields [(2, option_type), (2, int (length options_buffer) + 12)]) (\<lambda>h.
     rbind (pack_fields [(4, t1), (4, t2)]) (\<lambda>t.
     Inr (h @ pack_string 4 iaid @ t @ options_buffer)))"

definition IAPDOption_save :: "bytes \<Rightarrow> int \<Rightarrow> int \<Rightarrow> bytes \<Rightarrow> bytes res" where
  [simp]: "IAPDOption_save iaid t1 t2 options_buffer = IAOption_save 25 iaid t1 t2 options_buffer"

definition IATAOption_save :: "bytes \<Rightarrow> bytes \<Rightarrow> bytes res" where
  "IATAOption_save iaid options_buffer =
     rbind (pack_fields [(2, 4), (2, int (length options_buffer) + 4)]) (\<lambda>h.
     Inr (h @ pack_string 4 iaid @ options_buffer))"

definition IAAddressOption_save :: "ipv6 option \<Rightarrow> int \<Rightarrow> int \<Rightarrow> bytes \<Rightarrow> bytes res" where
  "IAAddressOption_save address preferred_lifetime valid_lifetime options_buffer =
     rbind (pack_fields [(2, 5), (2, int (length options_buffer) + 24)]) (\<lambda>h.
     case address of
       None \<Rightarrow> Inl AttributeError
     | Some a \<Rightarrow>
         rbind (pack_fields [(4, preferred_lifetime), (4, valid_lifetime)]) (\<lambda>t.
         Inr (h @ packed a @ t @ options_buffer)))"

definition IAPrefixOption_save :: "ipv6_network option \<Rightarrow> int \<Rightarrow> int \<Rightarrow> bytes \<Rightarrow> bytes res" where
  "IAPrefixOption_save prefix preferred_lifetime valid_lifetime options_buffer =
     (case prefix of
        None \<Rightarrow> Inl AttributeError
      | Some p \<Rightarrow>
          rbind (pack_fields [(2, 26), (2, int (length options_buffer) + 25),
                              (4, preferred_lifetime), (4, valid_lifetime),
                              (1, int (prefixlen p))]) (\<lambda>h.
          Inr (h @ packed (network_address p) @ options_buffer)))"

definition RelayMessageOption_save :: "bytes \<Rightarrow> bytes res" where
  "RelayMessageOption_save message =
     rbind (pack_fields [(2, 9), (2, int (length message))]) (\<lambda>h. Inr (h @ message))"

definition RelayServerMessage_save ::
  "int \<Rightarrow> int \<Rightarrow> ipv6 option \<Rightarrow> ipv6 option \<Rightarrow> bytes res \<Rightarrow> bytes res" where
  "RelayServerMessage_save message_type hop_count link_address peer_address options_save =
     rbind (append_byte message_type) (\<lambda>t.
     rbind (append_byte hop_count) (\<lambda>h.
     case link_address of
       None \<Rightarrow> Inl AttributeError
     | Some link \<Rightarrow>
         (case peer_address of
            None \<Rightarrow> Inl AttributeError
          | Some peer \<Rightarrow>
              rbind options_save (\<lambda>b. Inr (t @ h @ packed link @ packed peer @ b)))))"

fun option_save :: "dhcp_option \<Rightarrow> bytes res"
  and message_save :: "message \<Rightarrow> bytes res" where
  "option_save (Plain p) = plain_save p"
| "option_save (IANAOption iaid t1 t2 options) =
     rbind (concat_res option_save options) (\<lambda>options_buffer.
     IAOption_save 3 iaid t1 t2 options_buffer)"
| "option_save (IATAOption iaid options) =
     rbind (concat_res option_save options) (\<lambda>options_buffer.
     IATAOption_save iaid options_buffer)"
| "option_save (IAAddressOption address preferred valid options) =
     rbind (concat_res option_save options) (\<lambda>options_buffer.
     IAAddressOption_save address preferred valid options_buffer)"
| "option_save (RelayMessageOption relayed_message) =
     (case relayed_message of
        None \<Rightarrow> Inl AttributeError
      | Some m \<Rightarrow> rbind (message_save m) (\<lambda>b. RelayMessageOption_save b))"
| "option_save (IAPDOption iaid t1 t2 options) =
     rbind (concat_res option_save options) (\<lambda>options_buffer.
     IAPDOption_save iaid t1 t2 options_buffer)"
| "option_save (IAPrefixOption prefix preferred valid options) =
     rbind (concat_res option_save options) (\<lambda>options_buffer.
     IAPrefixOption_save prefix preferred valid options_buffer)"
| "option_save (LQQueryOption query_type link_address options) =
     rbind (concat_res option_save options) (\<lambda>options_buffer.
     LQQueryOption_save query_type link_address options_buffer)"
| "option_save (ClientDataOption options) =
     rbind (concat_res option_save options) (\<lambda>options_buffer. ClientDataOption_save options_buffer)"
| "option_save (LQRelayDataOption peer_address relay_message) =
     (case relay_message of
        None \<Rightarrow> Inl TypeError
      | Some m \<Rightarrow> rbind (message_save m) (\<lambda>b. LQRelayDataOption_save peer_address b))"
| "option_save (S46RuleOption flags ea_len ipv4_prefix ipv6_prefix options) =
     rbind (concat_res option_save options) (\<lambda>options_buffer.
     S46RuleOption_save flags ea_len ipv4_prefix ipv6_prefix options_buffer)"
| "option_save (S46V4V6BindingOption ipv4_address ipv6_prefix options) =
     rbind (concat_res option_save options) (\<lambda>options_buffer.
     S46V4V6BindingOption_save ipv4_address ipv6_prefix options_buffer)"
| "option_save (S46ContainerOption c options) =
     rbind (concat_res option_save options) (\<lambda>options_buffer.
     S46ContainerOption_save c options_buffer)"
| "message_save (UnknownMessage message_type message_data) =
     rbind (append_byte message_type) (\<lambda>t. Inr (t @ message_data))"
| "message_save (ClientServerMessage c transaction_id options) =
     rbind (append_byte (client_server_type c)) (\<lambda>t.
     rbind (concat_res option_save options) (\<lambda>b. Inr (t @ transaction_id @ b)))"
| "message_save (RelayServerMessage c hop_count link_address peer_address options) =
     RelayServerMessage_save (relay_type c) hop_count link_address peer_address
       (concat_res option_save options)"

subsection \<open>Validation\<close>

definition uint32 :: "int \<Rightarrow> bool" where
  "uint32 v \<longleftrightarrow> 0 \<le> v \<and> v < 2 ^ 32"

definition IAOption_validate :: "bytes \<Rightarrow> int \<Rightarrow> int \<Rightarrow> unit res" where
  "IAOption_validate iaid t1 t2 =
     (if length iaid \<noteq> 4 then Inl ValueError
      else if \<not> uint32 t1 then Inl ValueError
      else if \<not> uint32 t2 then Inl ValueError
      else Inr ())"

definition IAPDOption_validate :: "bytes \<Rightarrow> int \<Rightarrow> int \<Rightarrow> unit res" where
  [simp]: "IAPDOption_validate iaid t1 t2 = IAOption_validate iaid t1 t2"

definition IATAOption_validate :: "bytes \<Rightarrow> unit res" where
  [simp]: "IATAOption_validate iaid = guard (length iaid = 4) ValueError"

definition IAAddressOption_validate :: "ipv6 option \<Rightarrow> int \<Rightarrow> int \<Rightarrow> unit res" where
  "IAAddressOption_validate address preferred_lifetime valid_lifetime =
     (case address of
        None \<Rightarrow> Inl ValueError
      | Some a \<Rightarrow>
          if is_link_local a \<or> is_loopback a \<or> is_multicast a then Inl ValueError
          else if \<not> uint32 preferred_lifetime then Inl ValueError
          else if \<not> uint32 valid_lifetime then Inl ValueError
          else Inr ())"

definition IAPrefixOption_validate :: "ipv6_network option \<Rightarrow> int \<Rightarrow> int \<Rightarrow> unit res" where
  "IAPrefixOption_validate prefix preferred_lifetime valid_lifetime =
     (if \<not> uint32 preferred_lifetime then Inl ValueError
      else if \<not> uint32 valid_lifetime then Inl ValueError
      else
        (case prefix of
           None \<Rightarrow> Inl ValueError
         | Some p \<Rightarrow>
             guard (\<not> (network_all is_link_local p \<or> network_all is_loopback p \<or> network_all is_multicast p))
               ValueError))"

text \<open>The IAIDs of a message must be unique for their type.\<close>

fun option_iaid :: "dhcp_option \<Rightarrow> bytes option" where
  "option_iaid (IANAOption iaid _ _ _) = Some iaid"
| "option_iaid (IATAOption iaid _) = Some iaid"
| "option_iaid (IAPDOption iaid _ _ _) = Some iaid"
| "option_iaid _ = None"

fun check_iaids ::
  "(dhcp_option \<Rightarrow> klass option) \<Rightarrow> (klass option \<Rightarrow> bytes list) \<Rightarrow> dhcp_option list \<Rightarrow> unit res" where
  "check_iaids element_class iaids [] = Inr ()"
| "check_iaids element_class iaids (option # options) =
     (case option_iaid option of
        None \<Rightarrow> check_iaids element_class iaids options
      | Some iaid \<Rightarrow>
          if iaid = [] then check_iaids element_class iaids options
          else
            (let c = element_class option in
             if iaid \<in> set (iaids c) then Inl ValueError
             else check_iaids element_class (iaids(c := iaids c @ [iaid])) options))"

definition ClientServerMessage_check :: "bytes \<Rightarrow> unit res" where
  "ClientServerMessage_check transaction_id = guard (length transaction_id = 3) ValueError"

definition RelayServerMessage_check :: "int \<Rightarrow> ipv6 option \<Rightarrow> ipv6 option \<Rightarrow> unit res" where
  "RelayServerMessage_check hop_count link_address peer_address =
     (if \<not> (0 \<le> hop_count \<and> hop_count < 2 ^ 8) then Inl ValueError
      else
        (case link_address of
           None \<Rightarrow> Inl ValueError
         | Some link \<Rightarrow>
             if is_multicast link then Inl ValueError
             else
               (case peer_address of
                  None \<Rightarrow> Inl ValueError
                | Some peer \<Rightarrow> guard (\<not> is_multicast peer) ValueError)))"

fun option_validate :: "containment \<Rightarrow> dhcp_option \<Rightarrow> unit res"
  and message_validate :: "containment \<Rightarrow> message \<Rightarrow> unit res" where
  "option_validate T (Plain p) = plain_validate p"
| "option_validate T (IANAOption iaid t1 t2 options) =
     rbind (IAOption_validate iaid t1 t2) (\<lambda>_.
     rbind (validate_contains T (OptionClass C_IANAOption) (map option_klass options)) (\<lambda>_.
     for_all (option_validate T) options))"
| "option_validate T (IATAOption iaid options) =
     rbind (IATAOption_validate iaid) (\<lambda>_.
     rbind (validate_contains T (OptionClass C_IATAOption) (map option_klass options)) (\<lambda>_.
     for_all (option_validate T) options))"
| "option_validate T (IAAddressOption address preferred valid options) =
     rbind (IAAddressOption_validate address preferred valid) (\<lambda>_.
     rbind (validate_contains T (OptionClass C_IAAddressOption) (map option_klass options)) (\<lambda>_.
     for_all (option_validate T) options))"
| "option_validate T (RelayMessageOption relayed_message) =
     (case relayed_message of
        None \<Rightarrow> Inl ValueError
      | Some m \<Rightarrow>
          if \<not> may_contain T (OptionClass C_RelayMessageOption) (message_klass m) then Inl ValueError
          else message_validate T m)"
| "option_validate T (IAPDOption iaid t1 t2 options) =
     rbind (IAPDOption_validate iaid t1 t2) (\<lambda>_.
     rbind (validate_contains T (OptionClass C_IAPDOption) (map option_klass options)) (\<lambda>_.
     for_all (option_validate T) options))"
| "option_validate T (IAPrefixOption prefix preferred valid options) =
     rbind (IAPrefixOption_validate prefix preferred valid) (\<lambda>_.
     rbind (validate_contains T (OptionClass C_IAPrefixOption) (map option_klass options)) (\<lambda>_.
     for_all (option_validate T) options))"
| "option_validate T (LQQueryOption query_type link_address options) =
     rbind (LQQueryOption_validate query_type link_address) (\<lambda>_.
     rbind (validate_contains T (OptionClass C_LQQueryOption) (map option_klass options)) (\<lambda>_.
     for_all (option_validate T) options))"
| "option_validate T (ClientDataOption options) =
     rbind (validate_contains T (OptionClass C_ClientDataOption) (map option_klass options)) (\<lambda>_.
     for_all (option_validate T) options)"
| "option_validate T (LQRelayDataOption peer_address relay_message) =
     rbind (LQRelayDataOption_validate peer_address) (\<lambda>_.
     (case relay_message of
        None \<Rightarrow> Inl ValueError
      | Some m \<Rightarrow>
          if \<not> may_contain T (OptionClass C_LQRelayDataOption) (message_klass m) then Inl ValueError
          else message_validate T m))"
| "option_validate T (S46RuleOption flags ea_len ipv4_prefix ipv6_prefix options) =
     rbind (S46RuleOption_validate flags ea_len) (\<lambda>_.
     rbind (validate_contains T (OptionClass C_S46RuleOption) (map option_klass options)) (\<lambda>_.
     for_all (option_validate T) options))"
| "option_validate T (S46V4V6BindingOption ipv4_address ipv6_prefix options) =
     rbind (validate_contains T (OptionClass C_S46V4V6BindingOption) (map option_klass options)) (\<lambda>_.
     for_all (option_validate T) options)"
| "option_validate T (S46ContainerOption c options) =
     rbind (validate_contains T (OptionClass (s46_container_class c)) (map option_klass options)) (\<lambda>_.
     for_all (option_validate T) options)"
| "message_validate T (UnknownMessage message_type message_data) =
     guard (0 \<le> message_type \<and> message_type < 2 ^ 8) ValueError"
| "message_validate T (ClientServerMessage c transaction_id options) =
     rbind (ClientServerMessage_check transaction_id) (\<lambda>_.
     rbind (validate_contains T (MessageClass (ClientServer c)) (map option_klass options)) (\<lambda>_.
     rbind (for_all (option_validate T) options) (\<lambda>_.
     check_iaids (\<lambda>option. get_element_class T (MessageClass (ClientServer c)) (option_klass option))
       (\<lambda>_. []) options)))"
| "message_validate T (RelayServerMessage c hop_count link_address peer_address options) =
     rbind (RelayServerMessage_check hop_count link_address peer_address) (\<lambda>_.
     rbind (validate_contains T (MessageClass (RelayServer c)) (map option_klass options)) (\<lambda>_.
     for_all (option_validate T) options))"

subsection \<open>Loading\<close>

text \<open>
  \<open>option_parse\<close> and \<open>message_parse\<close> tie the knot of the loaders with a fuel that bounds the
  depth of the nesting and the number of items.
\<close>

definition IAOption_load_from ::
  "(bytes \<Rightarrow> int \<Rightarrow> int \<Rightarrow> dhcp_option list \<Rightarrow> dhcp_option) \<Rightarrow> int \<Rightarrow> nat \<Rightarrow> option_dec \<Rightarrow>
   bytes \<Rightarrow> nat \<Rightarrow> nat option \<Rightarrow> (nat \<times> dhcp_option) res" where
  "IAOption_load_from make option_type fuel dec buf off len =
     rbind (parse_option_header option_type 12 max_option_length buf off len)
       (\<lambda>(my_offset, option_len).
     let header_offset = my_offset;
         iaid = slice buf (off + my_offset) 4;
         my_offset = my_offset + 4
     in
     rbind (unpack2 4 4 buf (off + my_offset)) (\<lambda>(t1, t2).
     let my_offset = my_offset + 8 in
     rbind (load_options fuel dec off my_offset (option_len + header_offset))
       (\<lambda>(my_offset, options). Inr (my_offset, make iaid t1 t2 options))))"

definition IAPDOption_load_from ::
  "nat \<Rightarrow> option_dec \<Rightarrow> bytes \<Rightarrow> nat \<Rightarrow> nat option \<Rightarrow> (nat \<times> dhcp_option) res" where
  [simp]: "IAPDOption_load_from fuel dec buf off len = IAOption_load_from IAPDOption 25 fuel dec buf off len"

definition IATAOption_load_from ::
  "nat \<Rightarrow> option_dec \<Rightarrow> bytes \<Rightarrow> nat \<Rightarrow> nat option \<Rightarrow> (nat \<times> dhcp_option) res" where
  "IATAOption_load_from fuel dec buf off len =
     rbind (parse_option_header 4 4 max_option_length buf off len) (\<lambda>(my_offset, option_len).
     let header_offset = my_offset;
         iaid = slice buf (off + my_offset) 4;
         my_offset = my_offset + 4
     in
     rbind (load_options fuel dec off my_offset (option_len + header_offset))
       (\<lambda>(my_offset, options). Inr (my_offset, IATAOption iaid options)))"

definition IAAddressOption_load_from ::
  "nat \<Rightarrow> option_dec \<Rightarrow> bytes \<Rightarrow> nat \<Rightarrow> nat option \<Rightarrow> (nat \<times> dhcp_option) res" where
  "IAAddressOption_load_from fuel dec buf off len =
     rbind (parse_option_header 5 24 max_option_length buf off len) (\<lambda>(my_offset, option_len).
     let header_offset = my_offset in
     rbind (ipv6_from_bytes (slice buf (off + my_offset) 16)) (\<lambda>address.
     let my_offset = my_offset + 16 in
     rbind (unpack2 4 4 buf (off + my_offset)) (\<lambda>(preferred_lifetime, valid_lifetime).
     let my_offset = my_offset + 8 in
     rbind (load_options fuel dec off my_offset (option_len + header_offset))
       (\<lambda>(my_offset, options).
     Inr (my_offset, IAAddressOption (Some address) preferred_lifetime valid_lifetime options)))))"

definition IAPrefixOption_load_from ::
  "nat \<Rightarrow> option_dec \<Rightarrow> bytes \<Rightarrow> nat \<Rightarrow> nat option \<Rightarrow> (nat \<times> dhcp_option) res" where
  "IAPrefixOption_load_from fuel dec buf off len =
     rbind (parse_option_header 26 25 max_option_length buf off len) (\<lambda>(my_offset, option_len).
     let header_offset = my_offset in
     rbind (unpack2 4 4 buf (off + my_offset)) (\<lambda>(preferred_lifetime, valid_lifetime).
     let my_offset = my_offset + 8 in
     rbind (byte_at buf (off + my_offset)) (\<lambda>prefix_length.
     let my_offset = my_offset + 1 in
     rbind (ipv6_from_bytes (slice buf (off + my_offset) 16)) (\<lambda>address.
     let my_offset = my_offset + 16 in
     rbind (make_network address (nat prefix_length)) (\<lambda>prefix.
     rbind (load_options fuel dec off my_offset (option_len + header_offset))
       (\<lambda>(my_offset, options).
     Inr (my_offset, IAPrefixOption (Some prefix) preferred_lifetime valid_lifetime options)))))))"

definition RelayMessageOption_load_from ::
  "(nat \<Rightarrow> nat option \<Rightarrow> (nat \<times> message) res) \<Rightarrow> bytes \<Rightarrow> nat \<Rightarrow> nat option \<Rightarrow>
   (nat \<times> dhcp_option) res" where
  "RelayMessageOption_load_from parse buf off len =
     rbind (parse_option_header 9 1 max_option_length buf off len) (\<lambda>(my_offset, option_len).
     rbind (parse (off + my_offset) (Some option_len)) (\<lambda>(message_len, relayed_message).
     let my_offset = my_offset + option_len in
     if message_len \<noteq> option_len then Inl ValueError
     else Inr (my_offset, RelayMessageOption (Some relayed_message))))"

definition Option_determine_class :: "registry \<Rightarrow> bytes \<Rightarrow> nat \<Rightarrow> option_class res" where
  "Option_determine_class R buf off =
     rbind (unpack1 2 buf off) (\<lambda>option_type.
     Inr (case R option_type of Some c \<Rightarrow> c | None \<Rightarrow> C_UnknownOption))"

definition option_load_from ::
  "nat \<Rightarrow> option_dec \<Rightarrow> (nat \<Rightarrow> nat option \<Rightarrow> (nat \<times> message) res) \<Rightarrow> option_class \<Rightarrow>
   bytes \<Rightarrow> nat \<Rightarrow> nat option \<Rightarrow> (nat \<times> dhcp_option) res" where
  "option_load_from fuel dec parse c buf off len =
     (case plain_loader c of
        Some load \<Rightarrow> rbind (load buf off len) (\<lambda>(n, p). Inr (n, Plain p))
      | None \<Rightarrow>
          if c = C_IANAOption then IAOption_load_from IANAOption 3 fuel dec buf off len
          else if c = C_IATAOption then IATAOption_load_from fuel dec buf off len
          else if c = C_IAAddressOption then IAAddressOption_load_from fuel dec buf off len
          else if c = C_RelayMessageOption then RelayMessageOption_load_from parse buf off len
          else if c = C_IAPDOption then IAPDOption_load_from fuel dec buf off len
          else if c = C_IAPrefixOption then IAPrefixOption_load_from fuel dec buf off len
          else if c = C_LQQueryOption then LQQueryOption_load_from fuel dec buf off len
          else if c = C_ClientDataOption then ClientDataOption_load_from fuel dec buf off len
          else if c = C_LQRelayDataOption then LQRelayDataOption_load_from parse buf off len
          else if c = C_S46RuleOption then S46RuleOption_load_from fuel dec buf off len
          else if c = C_S46V4V6BindingOption then S46V4V6BindingOption_load_from fuel dec buf off len
          else if c = C_S46MapEContainerOption
            then S46ContainerOption_load_from S46MapE fuel dec buf off len
          else if c = C_S46MapTContainerOption
            then S46ContainerOption_load_from S46MapT fuel dec buf off len
          else S46ContainerOption_load_from S46LW fuel dec buf off len)"

definition Message_determine_class :: "bytes \<Rightarrow> nat \<Rightarrow> message_class res" where
  "Message_determine_class buf off =
     rbind (byte_at buf off) (\<lambda>message_type.
     Inr (case message_registry message_type of Some c \<Rightarrow> c | None \<Rightarrow> C_UnknownMessage))"

definition UnknownMessage_load_from :: "bytes \<Rightarrow> nat \<Rightarrow> nat option \<Rightarrow> (nat \<times> message) res" where
  "UnknownMessage_load_from buf off len =
     rbind (byte_at buf off) (\<lambda>message_type.
     let my_offset = 1;
         message_data_len = length_or len buf off - my_offset
     in Inr (my_offset + message_data_len,
             UnknownMessage message_type (slice buf (off + my_offset) message_data_len)))"

definition ClientServerMessage_load_from ::
  "client_server_class \<Rightarrow> nat \<Rightarrow> option_dec \<Rightarrow> bytes \<Rightarrow> nat \<Rightarrow> nat option \<Rightarrow>
   (nat \<times> message) res" where
  "ClientServerMessage_load_from c fuel dec buf off len =
     rbind (byte_at buf off) (\<lambda>message_type.
     let my_offset = 1 in
     if message_type \<noteq> client_server_type c then Inl ValueError
     else
       (let transaction_id = slice buf (off + my_offset) 3;
            my_offset = my_offset + 3
        in
        rbind (items_loop fuel dec off my_offset (length_or len buf off)) (\<lambda>(my_offset, options).
        Inr (my_offset, ClientServerMessage c transaction_id options))))"

definition RelayServerMessage_load_from ::
  "relay_class \<Rightarrow> nat \<Rightarrow> option_dec \<Rightarrow> bytes \<Rightarrow> nat \<Rightarrow> nat option \<Rightarrow> (nat \<times> message) res" where
  "RelayServerMessage_load_from c fuel dec buf off len =
     rbind (byte_at buf off) (\<lambda>message_type.
     rbind (byte_at buf (off + 1)) (\<lambda>hop_count.
     let my_offset = 2 in
     rbind (ipv6_from_bytes (slice buf (off + my_offset) 16)) (\<lambda>link_address.
     let my_offset = my_offset + 16 in
     rbind (ipv6_from_bytes (slice buf (off + my_offset) 16)) (\<lambda>peer_address.
     let my_offset = my_offset + 16 in
     rbind (items_loop fuel dec off my_offset (length_or len buf off)) (\<lambda>(my_offset, options).
     Inr (my_offset,
          RelayServerMessage c hop_count (Some link_address) (Some peer_address) options))))))"

definition message_load_from ::
  "nat \<Rightarrow> option_dec \<Rightarrow> message_class \<Rightarrow> bytes \<Rightarrow> nat \<Rightarrow> nat option \<Rightarrow> (nat \<times> message) res" where
  "message_load_from fuel dec c buf off len =
     (case c of
        C_UnknownMessage \<Rightarrow> UnknownMessage_load_from buf off len
      | ClientServer c \<Rightarrow> ClientServerMessage_load_from c fuel dec buf off len
      | RelayServer c \<Rightarrow> RelayServerMessage_load_from c fuel dec buf off len)"

fun option_parse :: "nat \<Rightarrow> registry \<Rightarrow> bytes \<Rightarrow> nat \<Rightarrow> (nat \<times> dhcp_option) res"
  and message_parse :: "nat \<Rightarrow> registry \<Rightarrow> bytes \<Rightarrow> nat \<Rightarrow> nat option \<Rightarrow> (nat \<times> message) res" where
  "option_parse 0 R buf off = Inl OutOfFuel"
| "option_parse (Suc fuel) R buf off =
     rbind (Option_determine_class R buf off) (\<lambda>element_class.
     option_load_from fuel (\<lambda>k. option_parse fuel R buf k) (\<lambda>k n. message_parse fuel R buf k n)
       element_class buf off None)"
| "message_parse 0 R buf off len = Inl OutOfFuel"
| "message_parse (Suc fuel) R buf off len =
     rbind (Message_determine_class buf off) (\<lambda>element_class.
     message_load_from fuel (\<lambda>k. option_parse fuel R buf k) element_class buf off len)"

text \<open>\<open>Option.parse(buffer, offset)\<close> and \<open>Message.parse(buffer)\<close>.\<close>

definition Option_parse :: "registry \<Rightarrow> bytes \<Rightarrow> nat \<Rightarrow> (nat \<times> dhcp_option) res" where
  "Option_parse R buf off = option_parse (length buf + 1) R buf off"

definition Message_parse :: "registry \<Rightarrow> bytes \<Rightarrow> (nat \<times> message) res" where
  "Message_parse R buf = message_parse (length buf + 1) R buf 0 None"

text \<open>The entries of setup.py for the options that are modelled.\<close>

definition core_registry :: registry where
  "core_registry t =
     map_of
       [(1, C_ClientIdOption),
        (2, C_ServerIdOption),
        (3, C_IANAOption),
        (4, C_IATAOption),
        (5, C_IAAddressOption),
        (6, C_OptionRequestOption),
        (7, C_PreferenceOption),
        (8, C_ElapsedTimeOption),
        (9, C_RelayMessageOption),
        (11, C_AuthenticationOption),
        (12, C_ServerUnicastOption),
        (13, C_StatusCodeOption),
        (14, C_RapidCommitOption),
        (15, C_UserClassOption),
        (16, C_VendorClassOption),
        (17, C_VendorSpecificInformationOption),
        (18, C_InterfaceIdOption),
        (19, C_ReconfigureMessageOption),
        (20, C_ReconfigureAcceptOption),
        (22, C_SIPServersAddressListOption),
        (23, C_RecursiveNameServersOption),
        (25, C_IAPDOption),
        (26, C_IAPrefixOption),
        (31, C_SNTPServersOption),
        (37, C_RemoteIdOption),
        (38, C_SubscriberIdOption),
        (42, C_TZDBTimezoneOption),
        (43, C_EchoRequestOption),
        (44, C_LQQueryOption),
        (45, C_ClientDataOption),
        (46, C_CLTTimeOption),
        (47, C_LQRelayDataOption),
        (48, C_LQClientLink),
        (53, C_RelayIdOption),
        (67, C_PDExcludeOption),
        (79, C_LinkLayerIdOption),
        (82, C_SolMaxRTOption),
        (83, C_InfMaxRTOption),
        (89, C_S46RuleOption),
        (90, C_S46BROption),
        (91, C_S46DMROption),
        (92, C_S46V4V6BindingOption),
        (93, C_S46PortParametersOption),
        (94, C_S46MapEContainerOption),
        (95, C_S46MapTContainerOption),
        (96, C_S46LWContainerOption)] t"

end
