(* ===== verification/MessageCodec.thy ===== *)
theory MessageCodec
  imports Messages
begin

text \<open>
  Parsing of options and messages: the fuel of the entry points is enough, every option uses
  at least its four header octets and every message at least one, and what \<open>save\<close> writes of
  a valid object is read back.
\<close>

lemmas nested_load_defs =
  IAOption_load_from_def IATAOption_load_from_def IAAddressOption_load_from_def
  IAPrefixOption_load_from_def RelayMessageOption_load_from_def LQQueryOption_load_from_def
  ClientDataOption_load_from_def LQRelayDataOption_load_from_def S46RuleOption_load_from_def
  S46V4V6BindingOption_load_from_def S46ContainerOption_load_from_def

subsection \<open>Progress\<close>

lemma load_options_mono_offset:
  "load_options fuel dec offset my_offset max_offset = Inr (e, xs) \<Longrightarrow> my_offset \<le> e"
  by (auto simp: load_options_def elim!: rbind_InrE split: if_splits dest: items_loop_mono_offset)

lemma option_load_from_progress:
  assumes "option_load_from fuel dec parse c buf off len = Inr (n, o')"
  shows "4 \<le> n"
proof (cases "plain_loader c")
  case None
  with assms show ?thesis
    by (auto elim!: rbind_InrE simp: option_load_from_def nested_load_defs Let_def
      dest!: parse_option_header_InrD load_options_mono_offset load_lax_prefix_bound
      split: if_splits)
next
  case (Some load)
  with assms show ?thesis
    by (auto elim!: rbind_InrE simp: option_load_from_def dest: plain_loader_progress)
qed

lemma option_parse_progress: "option_parse fuel R buf off = Inr (n, o') \<Longrightarrow> 4 \<le> n"
  by (cases fuel) (auto elim!: rbind_InrE dest: option_load_from_progress)

lemma option_parse_positive: "option_parse fuel R buf off = Inr (n, o') \<Longrightarrow> 0 < n"
  using option_parse_progress by fastforce

lemma message_parse_progress: "message_parse fuel R buf off len = Inr (n, m) \<Longrightarrow> 0 < n"
  by (cases fuel)
    (auto elim!: rbind_InrE simp: message_load_from_def UnknownMessage_load_from_def Let_def
      ClientServerMessage_load_from_def RelayServerMessage_load_from_def
      dest!: items_loop_mono_offset split: message_class.splits if_splits)

subsection \<open>The fuel is enough\<close>

lemma load_options_not_fuel:
  assumes "\<And>k. offset + my_offset \<le> k \<Longrightarrow> dec k \<noteq> Inl OutOfFuel"
    and "\<And>k n x. dec k = Inr (n, x) \<Longrightarrow> 0 < n" and "max_offset - my_offset < fuel"
  shows "load_options fuel dec offset my_offset max_offset \<noteq> Inl OutOfFuel"
  using items_loop_not_fuel [OF assms] by (auto simp: load_options_def rbind_eq_Inl split: if_splits)

lemma option_load_from_not_fuel:
  assumes dec: "\<And>k. off + 4 \<le> k \<Longrightarrow> dec k \<noteq> Inl OutOfFuel"
    and pos: "\<And>k n x. dec k = Inr (n, x) \<Longrightarrow> 0 < n"
    and parse: "\<And>k n. off + 4 \<le> k \<Longrightarrow> 0 < n \<Longrightarrow> k + n \<le> length buf \<Longrightarrow>
      parse k (Some n) \<noteq> Inl OutOfFuel"
    and fuel: "length buf - off \<le> fuel"
  shows "option_load_from fuel dec parse c buf off None \<noteq> Inl OutOfFuel"
proof (cases "plain_loader c")
  case None
  have loop: "load_options fuel dec off my_offset (m + 4) \<noteq> Inl OutOfFuel"
    if "4 \<le> my_offset" "4 + m \<le> length buf - off" for m my_offset
  proof (rule load_options_not_fuel)
    show "dec k \<noteq> Inl OutOfFuel" if "off + my_offset \<le> k" for k
      using dec [of k] that \<open>4 \<le> my_offset\<close> by simp
  qed (use pos fuel that in \<open>blast, linarith\<close>)
  show ?thesis
    using parse loop None
    by (auto simp: option_load_from_def nested_load_defs Let_def rbind_eq_Inl
      dest!: parse_option_header_InrD dest: load_lax_prefix_bound split: if_splits)
next
  case (Some load)
  then show ?thesis
    by (auto simp: option_load_from_def rbind_eq_Inl dest: plain_loader_not_fuel)
qed

lemma message_load_from_not_fuel:
  assumes dec: "\<And>k. off < k \<Longrightarrow> dec k \<noteq> Inl OutOfFuel"
    and pos: "\<And>k n x. dec k = Inr (n, x) \<Longrightarrow> 0 < n"
    and len: "length_or len buf off \<le> length buf - off" and fuel: "length buf - off \<le> fuel"
    and in_buf: "off < length buf"
  shows "message_load_from fuel dec c buf off len \<noteq> Inl OutOfFuel"
proof -
  have loop: "items_loop fuel dec off my_offset (length_or len buf off) \<noteq> Inl OutOfFuel"
    if "0 < my_offset" for my_offset
  proof (rule items_loop_not_fuel)
    show "dec k \<noteq> Inl OutOfFuel" if "off + my_offset \<le> k" for k
      using dec [of k] that \<open>0 < my_offset\<close> by simp
  qed (use pos len fuel in_buf that in \<open>blast, linarith\<close>)
  show ?thesis
    using loop
    by (auto simp: message_load_from_def UnknownMessage_load_from_def
      ClientServerMessage_load_from_def RelayServerMessage_load_from_def Let_def rbind_eq_Inl
      split: message_class.splits if_splits)
qed

lemma parse_not_fuel:
  shows "length buf - off < fuel \<Longrightarrow> option_parse fuel R buf off \<noteq> Inl OutOfFuel"
    and "length buf - off < fuel \<Longrightarrow> length_or len buf off \<le> length buf - off \<Longrightarrow>
         message_parse fuel R buf off len \<noteq> Inl OutOfFuel"
proof (induction fuel arbitrary: off len)
  case (Suc fuel)
  have "option_load_from fuel (option_parse fuel R buf) (message_parse fuel R buf) c buf off None
        \<noteq> Inl OutOfFuel"
    if "length buf - off < Suc fuel" "off + 2 \<le> length buf" for c off
  proof (rule option_load_from_not_fuel)
    show "option_parse fuel R buf k \<noteq> Inl OutOfFuel" if "off + 4 \<le> k" for k
      by (rule Suc.IH) (use that \<open>length buf - off < Suc fuel\<close> \<open>off + 2 \<le> length buf\<close> in linarith)
    show "message_parse fuel R buf k (Some n) \<noteq> Inl OutOfFuel"
      if "off + 4 \<le> k" "0 < n" "k + n \<le> length buf" for k n
      using that \<open>length buf - off < Suc fuel\<close> by (intro Suc.IH) auto
  qed (use that option_parse_positive in auto)
  moreover have "message_load_from fuel (option_parse fuel R buf) c buf off len \<noteq> Inl OutOfFuel"
    if "length buf - off < Suc fuel" "length_or len buf off \<le> length buf - off" "off < length buf"
    for c off len
  proof (rule message_load_from_not_fuel)
    show "option_parse fuel R buf k \<noteq> Inl OutOfFuel" if "off < k" for k
      by (rule Suc.IH) (use that \<open>length buf - off < Suc fuel\<close> \<open>off < length buf\<close> in linarith)
  qed (use that option_parse_positive in auto)
  ultimately have
    "length buf - off < Suc fuel \<Longrightarrow> option_parse (Suc fuel) R buf off \<noteq> Inl OutOfFuel"
    "length buf - off < Suc fuel \<Longrightarrow> length_or len buf off \<le> length buf - off \<Longrightarrow>
     message_parse (Suc fuel) R buf off len \<noteq> Inl OutOfFuel" for off len
    by (auto simp: rbind_eq_Inl Option_determine_class_def Message_determine_class_def
      elim!: rbind_InrE dest: unpack1_InrD byte_at_InrD)
  then show "length buf - off < Suc fuel \<Longrightarrow> option_parse (Suc fuel) R buf off \<noteq> Inl OutOfFuel"
    and "length buf - off < Suc fuel \<Longrightarrow> length_or len buf off \<le> length buf - off \<Longrightarrow>
     message_parse (Suc fuel) R buf off len \<noteq> Inl OutOfFuel" for off len
    by blast+
qed simp_all

text \<open>
  The entry points never run out of fuel: \<open>Message.parse\<close> returns or raises on every input,
  however its length fields are set.
\<close>

lemma Message_parse_total: "Message_parse R buf \<noteq> Inl OutOfFuel"
  unfolding Message_parse_def by (rule parse_not_fuel) simp_all

lemma Option_parse_total: "Option_parse R buf off \<noteq> Inl OutOfFuel"
  unfolding Option_parse_def by (rule parse_not_fuel) simp_all

subsection \<open>Round trip\<close>

text \<open>
  What reads back as the same object: the class of an option must be registered under its
  number (an unknown option or message under none), a prefix must be a proper network (its
  constructor raises on host bits), and so on recursively.  A softwire container and a relayed
  query must have the minimal length that their loaders ask for.
\<close>

definition octets_at_least :: "nat \<Rightarrow> bytes res \<Rightarrow> bool" where
  "octets_at_least n r = (case r of Inl _ \<Rightarrow> True | Inr bs \<Rightarrow> n \<le> length bs)"

fun option_representable :: "registry \<Rightarrow> dhcp_option \<Rightarrow> bool"
  and message_representable :: "registry \<Rightarrow> message \<Rightarrow> bool" where
  "option_representable R (Plain p) \<longleftrightarrow>
     plain_representable p \<and>
     (case p of UnknownOption t _ \<Rightarrow> R t = None
      | _ \<Rightarrow> R (class_option_type (plain_class p)) = Some (plain_class p))"
| "option_representable R (IANAOption _ _ _ options) \<longleftrightarrow>
     R 3 = Some C_IANAOption \<and> list_all (option_representable R) options"
| "option_representable R (IATAOption _ options) \<longleftrightarrow>
     R 4 = Some C_IATAOption \<and> list_all (option_representable R) options"
| "option_representable R (IAAddressOption _ _ _ options) \<longleftrightarrow>
     R 5 = Some C_IAAddressOption \<and> list_all (option_representable R) options"
| "option_representable R (RelayMessageOption relayed_message) \<longleftrightarrow>
     R 9 = Some C_RelayMessageOption \<and>
     (case relayed_message of None \<Rightarrow> False | Some m \<Rightarrow> message_representable R m)"
| "option_representable R (IAPDOption _ _ _ options) \<longleftrightarrow>
     R 25 = Some C_IAPDOption \<and> list_all (option_representable R) options"
| "option_representable R (IAPrefixOption prefix _ _ options) \<longleftrightarrow>
     R 26 = Some C_IAPrefixOption \<and> (case prefix of None \<Rightarrow> False | Some p \<Rightarrow> network_ok p) \<and>
     list_all (option_representable R) options"
| "option_representable R (LQQueryOption _ _ options) \<longleftrightarrow>
     R 44 = Some C_LQQueryOption \<and> list_all (option_representable R) options"
| "option_representable R (ClientDataOption options) \<longleftrightarrow>
     R 45 = Some C_ClientDataOption \<and> list_all (option_representable R) options"
| "option_representable R (LQRelayDataOption peer_address relay_message) \<longleftrightarrow>
     R 47 = Some C_LQRelayDataOption \<and>
     (case relay_message of
        None \<Rightarrow> False
      | Some m \<Rightarrow> octets_at_least 4 (message_save m) \<and> message_representable R m)"
| "option_representable R (S46RuleOption _ _ ipv4_prefix ipv6_prefix options) \<longleftrightarrow>
     R 89 = Some C_S46RuleOption \<and> ipv4_network_ok ipv4_prefix \<and> network_ok ipv6_prefix \<and>
     list_all (option_representable R) options"
| "option_representable R (S46V4V6BindingOption _ ipv6_prefix options) \<longleftrightarrow>
     R 92 = Some C_S46V4V6BindingOption \<and> network_ok ipv6_prefix \<and>
     list_all (option_representable R) options"
| "option_representable R (S46ContainerOption c options) \<longleftrightarrow>
     R (s46_container_type c) = Some (s46_container_class c) \<and>
     octets_at_least 5 (concat_res option_save options) \<and>
     list_all (option_representable R) options"
| "message_representable R (UnknownMessage t _) \<longleftrightarrow> message_registry t = None"
| "message_representable R (ClientServerMessage _ _ options) \<longleftrightarrow>
     list_all (option_representable R) options"
| "message_representable R (RelayServerMessage _ _ _ _ options) \<longleftrightarrow>
     list_all (option_representable R) options"

lemma plain_save_header:
  assumes "plain_save p = Inr bs"
  shows "\<exists>t bs'. 0 \<le> t \<and> t < 65536 \<and> bs = be_bytes 2 (nat t) @ bs' \<and> 2 \<le> length bs' \<and>
    t = (case p of UnknownOption t _ \<Rightarrow> t | _ \<Rightarrow> class_option_type (plain_class p))"
proof (cases p)
  case (ExtensionOption x)
  have "0 \<le> class_option_type (extension_class x) \<and> class_option_type (extension_class x) < 65536"
    by (cases x) simp_all
  with assms ExtensionOption extension_save_header [of x bs] show ?thesis by auto
qed (use assms in \<open>auto elim!: rbind_InrE simp: plain_save_defs pack_fields_eq_Inr split: option.splits\<close>)

lemmas nested_save_defs =
  IAOption_save_def IATAOption_save_def IAAddressOption_save_def IAPrefixOption_save_def
  RelayMessageOption_save_def LQQueryOption_save_def ClientDataOption_save_def
  LQRelayDataOption_save_def S46RuleOption_save_def S46V4V6BindingOption_save_def
  S46ContainerOption_save_def

lemma option_save_header:
  assumes "option_save o' = Inr bs"
  shows "\<exists>t bs'. 0 \<le> t \<and> t < 65536 \<and> bs = be_bytes 2 (nat t) @ bs' \<and> 2 \<le> length bs' \<and>
    t = (case o' of Plain (UnknownOption t _) \<Rightarrow> t | _ \<Rightarrow> class_option_type (option_class_of o'))"
proof (cases o')
  case (Plain p)
  with assms plain_save_header [of p bs] show ?thesis by (cases p) auto
next
  case (S46ContainerOption c xs)
  with assms s46_container_type_bounds [of c] show ?thesis
    by (auto elim!: rbind_InrE simp: S46ContainerOption_save_def pack_fields_eq_Inr s46_container_type_def)
qed (use assms in \<open>auto elim!: rbind_InrE simp: nested_save_defs pack_fields_eq_Inr append_byte_eq_Inr
  split: option.splits\<close>)

lemma option_save_nonempty: "option_save o' = Inr bs \<Longrightarrow> bs \<noteq> []"
  by (auto dest!: option_save_header)

lemma Option_determine_class_saved:
  assumes "option_save o' = Inr bs" and "option_representable R o'"
  shows "Option_determine_class R (pre @ bs @ post) (length pre) = Inr (option_class_of o')"
proof -
  have "R (case o' of Plain (UnknownOption t _) \<Rightarrow> t | _ \<Rightarrow> class_option_type (option_class_of o'))
        = (case o' of Plain (UnknownOption t _) \<Rightarrow> None | _ \<Rightarrow> Some (option_class_of o'))"
    using assms(2) by (auto simp: s46_container_type_def split: dhcp_option.splits plain_option.splits)
  with option_save_header [OF assms(1)] show ?thesis
    by (auto simp: Option_determine_class_def buf_simps nat_less_iff
      split: dhcp_option.splits plain_option.splits)
qed

lemma concat_res_member:
  assumes "concat_res enc xs = Inr bs" and "x \<in> set xs" and "enc x = Inr b"
  shows "length b \<le> length bs"
  using assms by (induction xs arbitrary: bs) (fastforce elim!: rbind_InrE)+

text \<open>The loop over suboptions reads back what was saved, given that each of them is read back.\<close>

lemma options_behind:
  assumes dec: "\<And>x b pre post. x \<in> set xs \<Longrightarrow> option_save x = Inr b \<Longrightarrow> length b < fuel \<Longrightarrow>
      option_parse fuel R (pre @ b @ post) (length pre) = Inr (length b, x)"
    and save: "concat_res option_save xs = Inr bs" and fuel: "length bs < fuel"
    and h: "length h = m"
  shows "items_loop fuel (option_parse fuel R (pre @ h @ bs @ post)) (length pre) m (length bs + m)
         = Inr (length bs + m, xs)"
proof -
  have "item_codec option_save (option_parse fuel R) (\<lambda>x. x \<in> set xs)"
  proof
    show "option_parse fuel R (pre @ b @ post) (length pre) = Inr (length b, x)"
      if "x \<in> set xs" "option_save x = Inr b" for x b pre post
      using dec [OF that] concat_res_member [OF save that] fuel by simp
  qed (rule option_save_nonempty)
  from item_codec.items_roundtrip_octets
    [OF this _ save, of "length pre" m "pre @ h" fuel post] fuel h
  show ?thesis by (simp add: add.commute)
qed

lemma load_options_behind:
  assumes "items_loop fuel dec offset m (n + m) = Inr (n + m, xs)"
  shows "load_options fuel dec offset m (n + m) = Inr (n + m, xs)"
  using assms by (simp add: load_options_def)

lemma IAOption_roundtrip:
  assumes "IAOption_save t iaid t1 t2 ob = Inr bs" and "length iaid = 4"
    and loop: "\<And>h m. length h = m \<Longrightarrow>
      items_loop fuel (dec (pre @ h @ ob @ post)) (length pre) m (length ob + m)
      = Inr (length ob + m, xs)"
  shows "IAOption_load_from make t fuel (dec (pre @ bs @ post)) (pre @ bs @ post) (length pre) None
         = Inr (length bs, make iaid t1 t2 xs)"
proof -
  let ?h = "be_bytes 2 (nat t) @ be_bytes 2 (length ob + 12) @ iaid @ be_bytes 4 (nat t1) @ be_bytes 4 (nat t2)"
  from assms(1,2) have bs: "bs = ?h @ ob"
    and fit: "0 \<le> t" "t < 65536" "length ob + 12 < 65536" "0 \<le> t1" "t1 < 4294967296" "0 \<le> t2" "t2 < 4294967296"
    by (auto simp: IAOption_save_def pack_string_def pack_fields_eq_Inr load_simps elim!: rbind_InrE)
  show ?thesis
    using assms(2) fit loop [of ?h 16, THEN load_options_behind]
    by (simp add: IAOption_load_from_def bs load_simps add.commute del: be_bytes_eq_Nil)
qed

lemma IATAOption_roundtrip:
  assumes "IATAOption_save iaid ob = Inr bs" and "length iaid = 4"
    and loop: "\<And>h m. length h = m \<Longrightarrow>
      items_loop fuel (dec (pre @ h @ ob @ post)) (length pre) m (length ob + m)
      = Inr (length ob + m, xs)"
  shows "IATAOption_load_from fuel (dec (pre @ bs @ post)) (pre @ bs @ post) (length pre) None
         = Inr (length bs, IATAOption iaid xs)"
proof -
  let ?h = "be_bytes 2 4 @ be_bytes 2 (length ob + 4) @ iaid"
  from assms(1,2) have bs: "bs = ?h @ ob" and fit: "length ob + 4 < 65536"
    by (auto simp: IATAOption_save_def pack_string_def pack_fields_eq_Inr load_simps elim!: rbind_InrE)
  show ?thesis
    using assms(2) fit loop [of ?h 8, THEN load_options_behind]
    by (simp add: IATAOption_load_from_def bs load_simps add.commute)
qed

lemma IAAddressOption_roundtrip:
  assumes "IAAddressOption_save (Some a) p v ob = Inr bs"
    and loop: "\<And>h m. length h = m \<Longrightarrow>
      items_loop fuel (dec (pre @ h @ ob @ post)) (length pre) m (length ob + m)
      = Inr (length ob + m, xs)"
  shows "IAAddressOption_load_from fuel (dec (pre @ bs @ post)) (pre @ bs @ post) (length pre) None
         = Inr (length bs, IAAddressOption (Some a) p v xs)"
proof -
  let ?h = "be_bytes 2 5 @ be_bytes 2 (length ob + 24) @ packed a @ be_bytes 4 (nat p) @ be_bytes 4 (nat v)"
  from assms(1) have bs: "bs = ?h @ ob"
    and fit: "length ob + 24 < 65536" "0 \<le> p" "p < 4294967296" "0 \<le> v" "v < 4294967296"
    by (auto simp: IAAddressOption_save_def pack_fields_eq_Inr load_simps elim!: rbind_InrE)
  show ?thesis
    using fit loop [of ?h 28, THEN load_options_behind]
    by (simp add: IAAddressOption_load_from_def bs load_simps add.commute)
qed

lemma IAPrefixOption_roundtrip:
  assumes "IAPrefixOption_save (Some n) p v ob = Inr bs" and "network_ok n"
    and loop: "\<And>h m. length h = m \<Longrightarrow>
      items_loop fuel (dec (pre @ h @ ob @ post)) (length pre) m (length ob + m)
      = Inr (length ob + m, xs)"
  shows "IAPrefixOption_load_from fuel (dec (pre @ bs @ post)) (pre @ bs @ post) (length pre) None
         = Inr (length bs, IAPrefixOption (Some n) p v xs)"
proof -
  let ?h = "be_bytes 2 26 @ be_bytes 2 (length ob + 25) @ be_bytes 4 (nat p) @ be_bytes 4 (nat v)
    @ be_bytes 1 (prefixlen n) @ packed (network_address n)"
  from assms(1) have bs: "bs = ?h @ ob"
    and fit: "length ob + 25 < 65536" "0 \<le> p" "p < 4294967296" "0 \<le> v" "v < 4294967296"
      "prefixlen n < 256"
    by (auto simp: IAPrefixOption_save_def pack_fields_eq_Inr load_simps elim!: rbind_InrE)
  show ?thesis
    using assms(2) fit loop [of ?h 29, THEN load_options_behind]
    by (simp add: IAPrefixOption_load_from_def bs load_simps add.commute make_network_def)
qed

lemma RelayMessageOption_roundtrip:
  assumes "RelayMessageOption_save mb = Inr bs" and "mb \<noteq> []"
    and parse: "\<And>h. parse (pre @ h @ mb @ post) (length pre + length h) (Some (length mb))
      = Inr (length mb, m)"
  shows "RelayMessageOption_load_from (parse (pre @ bs @ post)) (pre @ bs @ post) (length pre) None
         = Inr (length bs, RelayMessageOption (Some m))"
proof -
  let ?h = "be_bytes 2 9 @ be_bytes 2 (length mb)"
  from assms(1) have bs: "bs = ?h @ mb" and fit: "length mb < 65536"
    by (auto simp: RelayMessageOption_save_def pack_fields_eq_Inr load_simps elim!: rbind_InrE)
  show ?thesis
    using assms(2) fit parse [of ?h]
    by (simp add: RelayMessageOption_load_from_def bs load_simps Suc_le_eq)
qed

lemma LQQueryOption_roundtrip:
  assumes "LQQueryOption_save q a ob = Inr bs"
    and loop: "\<And>h m. length h = m \<Longrightarrow>
      items_loop fuel (dec (pre @ h @ ob @ post)) (length pre) m (length ob + m)
      = Inr (length ob + m, xs)"
  shows "LQQueryOption_load_from fuel (dec (pre @ bs @ post)) (pre @ bs @ post) (length pre) None
         = Inr (length bs, LQQueryOption q a xs)"
proof -
  let ?h = "be_bytes 2 44 @ be_bytes 2 (length ob + 17) @ be_bytes 1 (nat q) @ packed a"
  from assms(1) have bs: "bs = ?h @ ob"
    and fit: "length ob + 17 < 65536" "0 \<le> q" "q < 256"
    by (auto simp: LQQueryOption_save_def pack_fields_eq_Inr load_simps elim!: rbind_InrE)
  show ?thesis
    using fit loop [of ?h 21, THEN load_options_behind]
    by (simp add: LQQueryOption_load_from_def bs load_simps add.commute)
qed

lemma ClientDataOption_roundtrip:
  assumes "ClientDataOption_save ob = Inr bs"
    and loop: "\<And>h m. length h = m \<Longrightarrow>
      items_loop fuel (dec (pre @ h @ ob @ post)) (length pre) m (length ob + m)
      = Inr (length ob + m, xs)"
  shows "ClientDataOption_load_from fuel (dec (pre @ bs @ post)) (pre @ bs @ post) (length pre) None
         = Inr (length bs, ClientDataOption xs)"
proof -
  let ?h = "be_bytes 2 45 @ be_bytes 2 (length ob)"
  from assms(1) have bs: "bs = ?h @ ob" and fit: "length ob < 65536"
    by (auto simp: ClientDataOption_save_def pack_fields_eq_Inr load_simps elim!: rbind_InrE)
  show ?thesis
    using fit loop [of ?h 4, THEN load_options_behind]
    by (simp add: ClientDataOption_load_from_def bs load_simps add.commute)
qed

lemma S46ContainerOption_roundtrip:
  assumes "S46ContainerOption_save c ob = Inr bs" and "5 \<le> length ob"
    and loop: "\<And>h m. length h = m \<Longrightarrow>
      items_loop fuel (dec (pre @ h @ ob @ post)) (length pre) m (length ob + m)
      = Inr (length ob + m, xs)"
  shows "S46ContainerOption_load_from c fuel (dec (pre @ bs @ post)) (pre @ bs @ post) (length pre) None
         = Inr (length bs, S46ContainerOption c xs)"
proof -
  let ?h = "be_bytes 2 (nat (s46_container_type c)) @ be_bytes 2 (length ob)"
  from assms(1) have bs: "bs = ?h @ ob" and fit: "length ob < 65536"
    by (auto simp: S46ContainerOption_save_def pack_fields_eq_Inr load_simps elim!: rbind_InrE)
  show ?thesis
    using fit assms(2) s46_container_type_bounds [of c] loop [of ?h 4, THEN load_options_behind]
    by (simp add: S46ContainerOption_load_from_def bs load_simps add.commute)
qed

lemma LQRelayDataOption_roundtrip:
  assumes "LQRelayDataOption_save (Some a) mb = Inr bs" and "4 \<le> length mb"
    and parse: "\<And>h. parse (pre @ h @ mb @ post) (length pre + length h) (Some (length mb))
      = Inr (length mb, m)"
  shows "LQRelayDataOption_load_from (parse (pre @ bs @ post)) (pre @ bs @ post) (length pre) None
         = Inr (length bs, LQRelayDataOption (Some a) (Some m))"
proof -
  let ?h = "be_bytes 2 47 @ be_bytes 2 (length mb + 16) @ packed a"
  from assms(1) have bs: "bs = ?h @ mb" and fit: "length mb + 16 < 65536"
    by (auto simp: LQRelayDataOption_save_def pack_fields_eq_Inr load_simps elim!: rbind_InrE)
  show ?thesis
    using assms(2) fit parse [of ?h]
    by (simp add: LQRelayDataOption_load_from_def bs load_simps)
qed

text \<open>
  The two options with a prefix: the header and the fields are checked one by one, since the
  octets of the prefix are of no fixed number.
\<close>

lemma S46V4V6BindingOption_roundtrip:
  assumes "S46V4V6BindingOption_save a n ob = Inr bs" and n: "network_ok n"
    and loop: "\<And>h m. length h = m \<Longrightarrow>
      items_loop fuel (dec (pre @ h @ ob @ post)) (length pre) m (length ob + m)
      = Inr (length ob + m, xs)"
  shows "S46V4V6BindingOption_load_from fuel (dec (pre @ bs @ post)) (pre @ bs @ post) (length pre) None
         = Inr (length bs, S46V4V6BindingOption a n xs)"
proof -
  let ?o = "included_octets (prefixlen n)"
  let ?p = "be_bytes 1 (prefixlen n) @ prefix_bytes n"
  let ?h = "be_bytes 2 92 @ be_bytes 2 (length ob + ?o + 5) @ packed4 a @ ?p"
  from assms(1) have bs: "bs = ?h @ ob" and fit: "length ob + ?o + 5 < 65536"
    by (auto simp: S46V4V6BindingOption_save_def pack_fields_eq_Inr append_byte_eq_Inr
      nat_add_distrib elim!: rbind_InrE)
  have o: "length (prefix_bytes n) = ?o"
    using n by (simp add: network_ok_def length_prefix_bytes)
  have "parse_option_header 92 5 max_option_length (pre @ bs @ post) (length pre) None
        = Inr (4, length ob + ?o + 5)"
    using parse_option_header_here [of 92 "length ob + ?o + 5" 5 max_option_length
      "packed4 a @ ?p @ ob @ post" "int (length ob + ?o + 5)" pre] fit o
    by (simp add: bs max_option_length_def nat_add_distrib)
  moreover have "load_lax_prefix (pre @ bs @ post) (length pre + 8) = Inr (1 + ?o, n)"
    using load_lax_prefix_behind [OF n, of "length pre + 8"
      "pre @ be_bytes 2 92 @ be_bytes 2 (length ob + ?o + 5) @ packed4 a" "ob @ post"]
    by (simp add: bs)
  moreover have "ipv4_from_bytes (slice (pre @ bs @ post) (length pre + 4) 4) = Inr a"
    by (simp add: bs buf_simps)
  ultimately show ?thesis
    using loop [of ?h "9 + ?o", THEN load_options_behind] o
    by (simp add: S46V4V6BindingOption_load_from_def bs add.commute add.left_commute)
qed

lemma S46RuleOption_roundtrip:
  assumes "S46RuleOption_save f e n4 n ob = Inr bs" and n: "network_ok n" and n4: "ipv4_network_ok n4"
    and loop: "\<And>h m. length h = m \<Longrightarrow>
      items_loop fuel (dec (pre @ h @ ob @ post)) (length pre) m (length ob + m)
      = Inr (length ob + m, xs)"
  shows "S46RuleOption_load_from fuel (dec (pre @ bs @ post)) (pre @ bs @ post) (length pre) None
         = Inr (length bs, S46RuleOption f e n4 n xs)"
proof -
  let ?o = "included_octets (prefixlen n)"
  let ?p = "be_bytes 1 (prefixlen n) @ prefix_bytes n"
  let ?f = "be_bytes 1 (nat f) @ be_bytes 1 (nat e) @ be_bytes 1 (prefixlen4 n4)
    @ packed4 (network_address4 n4)"
  let ?h = "be_bytes 2 89 @ be_bytes 2 (length ob + ?o + 8) @ ?f @ ?p"
  from assms(1) have bs: "bs = ?h @ ob" and fit: "length ob + ?o + 8 < 65536"
    and f: "0 \<le> f" "f < 256" "0 \<le> e" "e < 256"
    by (auto simp: S46RuleOption_save_def pack_fields_eq_Inr append_byte_eq_Inr
      nat_add_distrib elim!: rbind_InrE)
  have o: "length (prefix_bytes n) = ?o"
    using n by (simp add: network_ok_def length_prefix_bytes)
  have p4: "prefixlen4 n4 \<le> 32" using n4 by (simp add: ipv4_network_ok_def)
  have "parse_option_header 89 8 max_option_length (pre @ bs @ post) (length pre) None
        = Inr (4, length ob + ?o + 8)"
    using parse_option_header_here [of 89 "length ob + ?o + 8" 8 max_option_length
      "?f @ ?p @ ob @ post" "int (length ob + ?o + 8)" pre] fit o
    by (simp add: bs max_option_length_def nat_add_distrib)
  moreover have "load_lax_prefix (pre @ bs @ post) (length pre + 11) = Inr (1 + ?o, n)"
    using load_lax_prefix_behind [OF n, of "length pre + 11"
      "pre @ be_bytes 2 89 @ be_bytes 2 (length ob + ?o + 8) @ ?f" "ob @ post"]
    by (simp add: bs)
  moreover have "byte_at (pre @ bs @ post) (length pre + 4) = Inr f"
      "byte_at (pre @ bs @ post) (length pre + 5) = Inr e"
      "byte_at (pre @ bs @ post) (length pre + 6) = Inr (int (prefixlen4 n4))"
    using f p4 by (simp_all add: bs buf_simps nat_less_iff)
  moreover have "ipv4_from_bytes (slice (pre @ bs @ post) (length pre + 7) 4)
      = Inr (network_address4 n4)"
    by (simp add: bs buf_simps)
  ultimately show ?thesis
    using loop [of ?h "12 + ?o", THEN load_options_behind] o p4 make_ipv4_network_lax_ok [OF n4]
    by (simp add: S46RuleOption_load_from_def bs add.commute add.left_commute)
qed

lemma ClientServerMessage_roundtrip:
  assumes bs: "bs = be_bytes 1 (nat (client_server_type c)) @ tid @ ob" and "length tid = 3"
    and len: "length_or len (pre @ bs @ post) (length pre) = length bs"
    and loop: "\<And>h m. length h = m \<Longrightarrow>
      items_loop fuel (dec (pre @ h @ ob @ post)) (length pre) m (length ob + m)
      = Inr (length ob + m, xs)"
  shows "ClientServerMessage_load_from c fuel (dec (pre @ bs @ post)) (pre @ bs @ post) (length pre) len
         = Inr (length bs, ClientServerMessage c tid xs)"
proof -
  let ?h = "be_bytes 1 (nat (client_server_type c)) @ tid"
  have "items_loop fuel (dec (pre @ bs @ post)) (length pre) 4 (length bs) = Inr (length bs, xs)"
    using loop [of ?h 4] assms(2) by (simp add: bs add.commute)
  then show ?thesis
    using assms(2) unfolding ClientServerMessage_load_from_def len by (simp add: bs load_simps)
qed

lemma RelayServerMessage_roundtrip:
  assumes bs: "RelayServerMessage_save (relay_type c) hop (Some link) (Some peer) (Inr ob) = Inr bs"
    and len: "length_or len (pre @ bs @ post) (length pre) = length bs"
    and loop: "\<And>h m. length h = m \<Longrightarrow>
      items_loop fuel (dec (pre @ h @ ob @ post)) (length pre) m (length ob + m)
      = Inr (length ob + m, xs)"
  shows "RelayServerMessage_load_from c fuel (dec (pre @ bs @ post)) (pre @ bs @ post) (length pre) len
         = Inr (length bs, RelayServerMessage c hop (Some link) (Some peer) xs)"
proof -
  let ?h = "be_bytes 1 (nat (relay_type c)) @ be_bytes 1 (nat hop) @ packed link @ packed peer"
  from bs have bs: "bs = ?h @ ob" and fit: "0 \<le> hop" "hop < 256"
    by (auto simp: RelayServerMessage_save_def append_byte_eq_Inr elim!: rbind_InrE)
  have "items_loop fuel (dec (pre @ bs @ post)) (length pre) 34 (length bs) = Inr (length bs, xs)"
    using loop [of ?h 34] by (simp add: bs add.commute)
  then show ?thesis
    using fit unfolding RelayServerMessage_load_from_def len by (simp add: bs load_simps)
qed

lemma Message_determine_class_saved:
  assumes "message_save m = Inr bs" and "message_representable R m"
  shows "Message_determine_class (pre @ bs @ post) (length pre) = Inr (message_class_of m)"
  using assms
  by (cases m) (auto simp: Message_determine_class_def append_byte_eq_Inr RelayServerMessage_save_def
    buf_simps nat_less_iff elim!: rbind_InrE split: option.splits)

lemma nested_save_length:
  "IAOption_save t iaid t1 t2 ob = Inr bs \<Longrightarrow> length ob < length bs"
  "IATAOption_save iaid ob = Inr bs \<Longrightarrow> length ob < length bs"
  "IAAddressOption_save a p v ob = Inr bs \<Longrightarrow> length ob < length bs"
  "IAPrefixOption_save np p v ob = Inr bs \<Longrightarrow> length ob < length bs"
  "RelayMessageOption_save ob = Inr bs \<Longrightarrow> length ob < length bs"
  "LQQueryOption_save q l ob = Inr bs \<Longrightarrow> length ob < length bs"
  "ClientDataOption_save ob = Inr bs \<Longrightarrow> length ob < length bs"
  "LQRelayDataOption_save a ob = Inr bs \<Longrightarrow> length ob < length bs"
  "S46RuleOption_save f e n4 n ob = Inr bs \<Longrightarrow> length ob < length bs"
  "S46V4V6BindingOption_save a4 n ob = Inr bs \<Longrightarrow> length ob < length bs"
  "S46ContainerOption_save c ob = Inr bs \<Longrightarrow> length ob < length bs"
  "RelayServerMessage_save ty hop link peer (Inr ob) = Inr bs \<Longrightarrow> length ob < length bs"
  by (auto simp: nested_save_defs RelayServerMessage_save_def
    pack_fields_eq_Inr append_byte_eq_Inr elim!: rbind_InrE split: option.splits)

lemma message_save_nonempty: "message_save m = Inr bs \<Longrightarrow> bs \<noteq> []"
  by (cases m) (auto simp: append_byte_eq_Inr RelayServerMessage_save_def be_bytes_one
    elim!: rbind_InrE split: option.splits)

text \<open>One level of the round trip, given the one of the suboptions and of the relayed message.\<close>

lemma option_load_roundtrip:
  assumes save: "option_save o' = Inr bs" and valid: "option_validate T o' = Inr ()"
    and repr: "option_representable R o'" and fuel: "length bs \<le> fuel"
    and loop: "\<And>xs ob h n. concat_res option_save xs = Inr ob \<Longrightarrow>
      for_all (option_validate T) xs = Inr () \<Longrightarrow> list_all (option_representable R) xs \<Longrightarrow>
      length ob < fuel \<Longrightarrow> length h = n \<Longrightarrow>
      items_loop fuel (dec (pre @ h @ ob @ post)) (length pre) n (length ob + n)
      = Inr (length ob + n, xs)"
    and parse: "\<And>m b h. message_save m = Inr b \<Longrightarrow> message_validate T m = Inr () \<Longrightarrow>
      message_representable R m \<Longrightarrow> length b < fuel \<Longrightarrow>
      parse (pre @ h @ b @ post) (length pre + length h) (Some (length b)) = Inr (length b, m)"
  shows "option_load_from fuel (dec (pre @ bs @ post)) (parse (pre @ bs @ post))
           (option_class_of o') (pre @ bs @ post) (length pre) None = Inr (length bs, o')"
proof (cases o')
  case (Plain p)
  obtain load where load: "plain_loader (plain_class p) = Some load"
    using plain_loader_own_class [of p] by blast
  have "load (pre @ bs @ post) (length pre) None = Inr (length bs, p)"
    using save valid repr Plain load by (intro plain_roundtrip) auto
  then show ?thesis
    by (simp add: option_load_from_def Plain load)
next
  case (IANAOption iaid t1 t2 xs)
  with save obtain ob where ob: "concat_res option_save xs = Inr ob" "IAOption_save 3 iaid t1 t2 ob = Inr bs"
    by (auto elim!: rbind_InrE)
  with valid repr fuel IANAOption have
    "IAOption_load_from IANAOption 3 fuel (dec (pre @ bs @ post)) (pre @ bs @ post) (length pre) None
     = Inr (length bs, IANAOption iaid t1 t2 xs)"
    by (intro IAOption_roundtrip loop)
      (auto simp: IAOption_validate_def elim!: rbind_InrE dest: nested_save_length split: if_splits)
  then show ?thesis by (simp add: option_load_from_def IANAOption)
next
  case (IATAOption iaid xs)
  with save obtain ob where ob: "concat_res option_save xs = Inr ob" "IATAOption_save iaid ob = Inr bs"
    by (auto elim!: rbind_InrE)
  with valid repr fuel IATAOption have
    "IATAOption_load_from fuel (dec (pre @ bs @ post)) (pre @ bs @ post) (length pre) None
     = Inr (length bs, IATAOption iaid xs)"
    by (intro IATAOption_roundtrip loop)
      (auto simp: guard_eq_Inr elim!: rbind_InrE dest: nested_save_length split: if_splits)
  then show ?thesis by (simp add: option_load_from_def IATAOption)
next
  case (IAAddressOption a p v xs)
  with save obtain ob where ob: "concat_res option_save xs = Inr ob" "IAAddressOption_save a p v ob = Inr bs"
    by (auto elim!: rbind_InrE)
  from valid IAAddressOption obtain b where a: "a = Some b"
    by (auto simp: IAAddressOption_validate_def elim!: rbind_InrE split: option.splits)
  have
    "IAAddressOption_load_from fuel (dec (pre @ bs @ post)) (pre @ bs @ post) (length pre) None
     = Inr (length bs, IAAddressOption (Some b) p v xs)"
    using ob valid repr fuel IAAddressOption a
    by (intro IAAddressOption_roundtrip loop)
      (auto elim!: rbind_InrE dest: nested_save_length split: if_splits)
  then show ?thesis by (simp add: option_load_from_def IAAddressOption a)
next
  case (RelayMessageOption rm)
  with save obtain m mb where m: "rm = Some m" and mb: "message_save m = Inr mb" "RelayMessageOption_save mb = Inr bs"
    by (auto elim!: rbind_InrE split: option.splits)
  with valid repr fuel RelayMessageOption have
    "RelayMessageOption_load_from (parse (pre @ bs @ post)) (pre @ bs @ post) (length pre) None
     = Inr (length bs, RelayMessageOption (Some m))"
    by (intro RelayMessageOption_roundtrip parse)
      (auto elim!: rbind_InrE dest: nested_save_length message_save_nonempty split: if_splits)
  then show ?thesis by (simp add: option_load_from_def RelayMessageOption m)
next
  case (IAPDOption iaid t1 t2 xs)
  with save obtain ob where ob: "concat_res option_save xs = Inr ob" "IAOption_save 25 iaid t1 t2 ob = Inr bs"
    by (auto elim!: rbind_InrE)
  with valid repr fuel IAPDOption have
    "IAOption_load_from IAPDOption 25 fuel (dec (pre @ bs @ post)) (pre @ bs @ post) (length pre) None
     = Inr (length bs, IAPDOption iaid t1 t2 xs)"
    by (intro IAOption_roundtrip loop)
      (auto simp: IAOption_validate_def elim!: rbind_InrE dest: nested_save_length split: if_splits)
  then show ?thesis by (simp add: option_load_from_def IAPDOption)
next
  case (IAPrefixOption n p v xs)
  with save obtain ob where ob: "concat_res option_save xs = Inr ob" "IAPrefixOption_save n p v ob = Inr bs"
    by (auto elim!: rbind_InrE)
  from repr IAPrefixOption obtain b where n: "n = Some b" and b: "network_ok b"
    by (auto split: option.splits)
  have
    "IAPrefixOption_load_from fuel (dec (pre @ bs @ post)) (pre @ bs @ post) (length pre) None
     = Inr (length bs, IAPrefixOption (Some b) p v xs)"
    using ob valid repr fuel IAPrefixOption n b
    by (intro IAPrefixOption_roundtrip loop)
      (auto elim!: rbind_InrE dest: nested_save_length split: if_splits)
  then show ?thesis by (simp add: option_load_from_def IAPrefixOption n)
next
  case (LQQueryOption q a xs)
  with save obtain ob where ob: "concat_res option_save xs = Inr ob" "LQQueryOption_save q a ob = Inr bs"
    by (auto elim!: rbind_InrE)
  with valid repr fuel LQQueryOption have
    "LQQueryOption_load_from fuel (dec (pre @ bs @ post)) (pre @ bs @ post) (length pre) None
     = Inr (length bs, LQQueryOption q a xs)"
    by (intro LQQueryOption_roundtrip loop) (auto elim!: rbind_InrE dest: nested_save_length)
  then show ?thesis by (simp add: option_load_from_def LQQueryOption)
next
  case (ClientDataOption xs)
  with save obtain ob where ob: "concat_res option_save xs = Inr ob" "ClientDataOption_save ob = Inr bs"
    by (auto elim!: rbind_InrE)
  with valid repr fuel ClientDataOption have
    "ClientDataOption_load_from fuel (dec (pre @ bs @ post)) (pre @ bs @ post) (length pre) None
     = Inr (length bs, ClientDataOption xs)"
    by (intro ClientDataOption_roundtrip loop) (auto elim!: rbind_InrE dest: nested_save_length)
  then show ?thesis by (simp add: option_load_from_def ClientDataOption)
next
  case (LQRelayDataOption pa rm)
  with save obtain m mb where m: "rm = Some m" and mb: "message_save m = Inr mb"
    "LQRelayDataOption_save pa mb = Inr bs"
    by (auto elim!: rbind_InrE split: option.splits)
  from valid LQRelayDataOption obtain a where a: "pa = Some a"
    by (auto simp: LQRelayDataOption_validate_def elim!: rbind_InrE split: option.splits)
  have
    "LQRelayDataOption_load_from (parse (pre @ bs @ post)) (pre @ bs @ post) (length pre) None
     = Inr (length bs, LQRelayDataOption (Some a) (Some m))"
    using mb m a valid repr fuel LQRelayDataOption
    by (intro LQRelayDataOption_roundtrip parse)
      (auto simp: octets_at_least_def elim!: rbind_InrE dest: nested_save_length split: if_splits)
  then show ?thesis by (simp add: option_load_from_def LQRelayDataOption m a)
next
  case (S46RuleOption f e n4 n xs)
  with save obtain ob where ob: "concat_res option_save xs = Inr ob" "S46RuleOption_save f e n4 n ob = Inr bs"
    by (auto elim!: rbind_InrE)
  with valid repr fuel S46RuleOption have
    "S46RuleOption_load_from fuel (dec (pre @ bs @ post)) (pre @ bs @ post) (length pre) None
     = Inr (length bs, S46RuleOption f e n4 n xs)"
    by (intro S46RuleOption_roundtrip loop) (auto elim!: rbind_InrE dest: nested_save_length)
  then show ?thesis by (simp add: option_load_from_def S46RuleOption)
next
  case (S46V4V6BindingOption a n xs)
  with save obtain ob where ob: "concat_res option_save xs = Inr ob" "S46V4V6BindingOption_save a n ob = Inr bs"
    by (auto elim!: rbind_InrE)
  with valid repr fuel S46V4V6BindingOption have
    "S46V4V6BindingOption_load_from fuel (dec (pre @ bs @ post)) (pre @ bs @ post) (length pre) None
     = Inr (length bs, S46V4V6BindingOption a n xs)"
    by (intro S46V4V6BindingOption_roundtrip loop) (auto elim!: rbind_InrE dest: nested_save_length)
  then show ?thesis by (simp add: option_load_from_def S46V4V6BindingOption)
next
  case (S46ContainerOption c xs)
  with save obtain ob where ob: "concat_res option_save xs = Inr ob" "S46ContainerOption_save c ob = Inr bs"
    by (auto elim!: rbind_InrE)
  with valid repr fuel S46ContainerOption have
    "S46ContainerOption_load_from c fuel (dec (pre @ bs @ post)) (pre @ bs @ post) (length pre) None
     = Inr (length bs, S46ContainerOption c xs)"
    by (intro S46ContainerOption_roundtrip loop)
      (auto simp: octets_at_least_def elim!: rbind_InrE dest: nested_save_length)
  then show ?thesis
    by (cases c) (simp_all add: option_load_from_def S46ContainerOption)
qed

lemma message_load_roundtrip:
  assumes save: "message_save m = Inr bs" and valid: "message_validate T m = Inr ()"
    and repr: "message_representable R m" and fuel: "length bs \<le> fuel"
    and len: "len = Some (length bs) \<or> len = None \<and> post = []"
    and loop: "\<And>xs ob h n. concat_res option_save xs = Inr ob \<Longrightarrow>
      for_all (option_validate T) xs = Inr () \<Longrightarrow> list_all (option_representable R) xs \<Longrightarrow>
      length ob < fuel \<Longrightarrow> length h = n \<Longrightarrow>
      items_loop fuel (dec (pre @ h @ ob @ post)) (length pre) n (length ob + n)
      = Inr (length ob + n, xs)"
  shows "message_load_from fuel (dec (pre @ bs @ post)) (message_class_of m)
           (pre @ bs @ post) (length pre) len = Inr (length bs, m)"
proof -
  have len: "length_or len (pre @ bs @ post) (length pre) = length bs"
    using len message_save_nonempty [OF save] by (auto simp: length_or_def)
  show ?thesis
  proof (cases m)
    case (UnknownMessage t d)
    with save have "bs = be_bytes 1 (nat t) @ d" "0 \<le> t" "t < 256"
      by (auto simp: append_byte_eq_Inr elim!: rbind_InrE)
    with len show ?thesis
      by (simp add: message_load_from_def UnknownMessage UnknownMessage_load_from_def load_simps)
  next
    case (ClientServerMessage c tid xs)
    with save obtain ob where ob: "concat_res option_save xs = Inr ob"
      and bs: "bs = be_bytes 1 (nat (client_server_type c)) @ tid @ ob"
      by (auto simp: append_byte_eq_Inr elim!: rbind_InrE)
    with valid repr fuel ClientServerMessage len have
      "ClientServerMessage_load_from c fuel (dec (pre @ bs @ post)) (pre @ bs @ post) (length pre) len
       = Inr (length bs, ClientServerMessage c tid xs)"
      by (intro ClientServerMessage_roundtrip loop)
        (auto simp: ClientServerMessage_check_def guard_eq_Inr elim!: rbind_InrE)
    then show ?thesis by (simp add: message_load_from_def ClientServerMessage)
  next
    case (RelayServerMessage c hop link peer xs)
    with save obtain ob l p where ob: "concat_res option_save xs = Inr ob"
      and lp: "link = Some l" "peer = Some p"
      and bs: "RelayServerMessage_save (relay_type c) hop (Some l) (Some p) (Inr ob) = Inr bs"
      by (auto simp: RelayServerMessage_save_def elim!: rbind_InrE split: option.splits)
    with valid repr fuel RelayServerMessage len have
      "RelayServerMessage_load_from c fuel (dec (pre @ bs @ post)) (pre @ bs @ post) (length pre) len
       = Inr (length bs, RelayServerMessage c hop (Some l) (Some p) xs)"
      by (intro RelayServerMessage_roundtrip loop) (auto elim!: rbind_InrE dest: nested_save_length)
    then show ?thesis by (simp add: message_load_from_def RelayServerMessage lp)
  qed
qed

lemma parse_roundtrip:
  shows "option_save o' = Inr bs \<Longrightarrow> option_validate T o' = Inr () \<Longrightarrow>
      option_representable R o' \<Longrightarrow> length bs < fuel \<Longrightarrow>
      option_parse fuel R (pre @ bs @ post) (length pre) = Inr (length bs, o')"
    and "message_save m = Inr bs \<Longrightarrow> message_validate T m = Inr () \<Longrightarrow>
      message_representable R m \<Longrightarrow> length bs < fuel \<Longrightarrow>
      len = Some (length bs) \<or> len = None \<and> post = [] \<Longrightarrow>
      message_parse fuel R (pre @ bs @ post) (length pre) len = Inr (length bs, m)"
proof (induction fuel arbitrary: o' m bs pre post len)
  case (Suc fuel)
  have loop: "items_loop fuel (option_parse fuel R (pre @ h @ ob @ post)) (length pre) n (length ob + n)
      = Inr (length ob + n, xs)"
    if "concat_res option_save xs = Inr ob" "for_all (option_validate T) xs = Inr ()"
      "list_all (option_representable R) xs" "length ob < fuel" "length h = n"
    for pre h ob post n xs
    using that by (intro options_behind Suc.IH) (auto simp: for_all_eq_Inr list_all_iff)
  have parse: "message_parse fuel R (pre @ h @ b @ post) (length pre + length h) (Some (length b))
      = Inr (length b, m)"
    if "message_save m = Inr b" "message_validate T m = Inr ()" "message_representable R m"
      "length b < fuel" for m b pre h post
    using Suc.IH(2) [OF that, of "Some (length b)" post "pre @ h"] by simp
  {
    case 1
    then show ?case
      by (simp add: Option_determine_class_saved option_load_roundtrip [OF _ _ _ _ loop parse])
  next
    case 2
    then show ?case
      by (simp add: Message_determine_class_saved message_load_roundtrip [OF _ _ _ _ _ loop])
  }
qed simp_all

text \<open>
  The options as an item format: the laws of \<open>item_codec\<close> hold of \<open>Option.parse\<close> and
  \<open>save\<close>, for every registry and every table of containment rules.
\<close>

interpretation dhcp_options: item_codec option_save "Option_parse R"
  "\<lambda>o'. option_validate T o' = Inr () \<and> option_representable R o'" for R T
proof
  show "Option_parse R (pre @ bs @ post) (length pre) = Inr (length bs, x)"
    if "option_validate T x = Inr () \<and> option_representable R x" "option_save x = Inr bs"
    for x bs pre post
    using that unfolding Option_parse_def by (intro parse_roundtrip) auto
qed (rule option_save_nonempty)

lemma message_roundtrip:
  assumes "message_save m = Inr bs" and "message_validate T m = Inr ()"
    and "message_representable R m"
  shows "Message_parse R bs = Inr (length bs, m)"
  using parse_roundtrip(2) [OF assms, of "length bs + 1" None "[]" "[]"]
  by (simp add: Message_parse_def del: message_parse.simps)

end
