(* ===== verification/Bundle.thy ===== *)
theory Bundle
  imports MessageCodec
begin

text \<open>
  dhcpkit/ipv6/server/transaction_bundle.py, \<open>split_relay_chain\<close> of dhcpkit/ipv6/utils.py and
  the accessors of the message classes: the relay chain of a request, the state of a
  transaction, and the chain of relay replies around the responses.
\<close>

subsection \<open>Client/server messages and relay messages as records\<close>

record client_server =
  cs_class :: client_server_class
  cs_transaction_id :: bytes
  cs_options :: "dhcp_option list"

definition cs_message :: "client_server \<Rightarrow> message" where
  "cs_message m = ClientServerMessage (cs_class m) (cs_transaction_id m) (cs_options m)"

abbreviation cs_klass :: "client_server \<Rightarrow> klass" where
  "cs_klass m \<equiv> MessageClass (ClientServer (cs_class m))"

record relay =
  relay_hop_count :: int
  relay_link_address :: "ipv6 option"
  relay_peer_address :: "ipv6 option"
  relay_options :: "dhcp_option list"

definition relay_message :: "relay_class \<Rightarrow> relay \<Rightarrow> message" where
  "relay_message c r =
     RelayServerMessage c (relay_hop_count r) (relay_link_address r) (relay_peer_address r)
       (relay_options r)"

text \<open>\<open>get_options_of_type\<close> and \<open>get_option_of_type\<close>.\<close>

definition get_options_of_type :: "option_class list \<Rightarrow> dhcp_option list \<Rightarrow> dhcp_option list" where
  "get_options_of_type classes options =
     filter (\<lambda>option. option_class_of option \<in> set classes) options"

definition get_option_of_type :: "option_class list \<Rightarrow> dhcp_option list \<Rightarrow> dhcp_option option" where
  "get_option_of_type classes options =
     find (\<lambda>option. option_class_of option \<in> set classes) options"

text \<open>
  The first \<open>RelayMessageOption\<close> of a list: \<open>Some m\<close> where there is one, \<open>m\<close> the message in
  it; and the setter of \<open>relayed_message\<close>.
\<close>

fun first_relay_option :: "dhcp_option list \<Rightarrow> message option option" where
  "first_relay_option [] = None"
| "first_relay_option (RelayMessageOption m # options) = Some m"
| "first_relay_option (option # options) = first_relay_option options"

definition relayed_message :: "dhcp_option list \<Rightarrow> message option" where
  "relayed_message options = (case first_relay_option options of Some m \<Rightarrow> m | None \<Rightarrow> None)"

fun set_relayed_message :: "message option \<Rightarrow> dhcp_option list \<Rightarrow> dhcp_option list" where
  "set_relayed_message message [] = [RelayMessageOption message]"
| "set_relayed_message message (RelayMessageOption m # options) = RelayMessageOption message # options"
| "set_relayed_message message (option # options) = option # set_relayed_message message options"

lemma size_first_relay_option [termination_simp]:
  "first_relay_option options = Some (Some m) \<Longrightarrow> size m < size_list size options"
  by (induction options rule: first_relay_option.induct) auto

lemma size_relayed_message [termination_simp]:
  "relayed_message options = Some m \<Longrightarrow> size m < size_list size options"
  by (auto simp: relayed_message_def size_first_relay_option split: option.splits)

lemma size_relayed_relay [termination_simp]:
  "relayed_message options = Some (RelayServerMessage c h l p os) \<Longrightarrow>
   size_list size os < size_list size options"
  by (auto dest: size_relayed_message)

lemma size_relayed_option [termination_simp]:
  "size_option size (relayed_message options) \<le> Suc (size_list size options)"
  by (cases "relayed_message options") (auto dest: size_relayed_message)

lemma relayed_message_set [simp]: "relayed_message (set_relayed_message m options) = m"
  by (induction options rule: first_relay_option.induct) (simp_all add: relayed_message_def)

fun inner_message :: "dhcp_option list \<Rightarrow> message option" where
  "inner_message options =
     (case relayed_message options of
        Some (RelayServerMessage c h l p relayed_options) \<Rightarrow> inner_message relayed_options
      | m \<Rightarrow> m)"

function inner_relay_message :: "relay_class \<Rightarrow> relay \<Rightarrow> relay_class \<times> relay" where
  "inner_relay_message c r =
     (case relayed_message (relay_options r) of
        Some (RelayServerMessage c' h l p relayed_options) \<Rightarrow>
          inner_relay_message c' \<lparr>relay_hop_count = h, relay_link_address = l,
            relay_peer_address = p, relay_options = relayed_options\<rparr>
      | _ \<Rightarrow> (c, r))"
  by pat_completeness auto

termination
  by (relation "measure (\<lambda>(c, r). size_list size (relay_options r))") (auto dest: size_relayed_relay)

declare inner_message.simps [simp del] inner_relay_message.simps [simp del]

subsection \<open>The relay chain of a request\<close>

function split_relay_loop ::
  "relay list \<Rightarrow> message option \<Rightarrow> client_server option \<times> relay list" where
  "split_relay_loop relay_messages (Some (RelayServerMessage RelayForwardMessage h l p options)) =
     split_relay_loop
       (\<lparr>relay_hop_count = h, relay_link_address = l, relay_peer_address = p,
         relay_options = options\<rparr> # relay_messages)
       (relayed_message options)"
| "split_relay_loop relay_messages (Some (RelayServerMessage RelayReplyMessage h l p options)) =
     (None, [])"
| "split_relay_loop relay_messages (Some (UnknownMessage t d)) = (None, [])"
| "split_relay_loop relay_messages (Some (ClientServerMessage c tid options)) =
     (if \<not> from_client_to_server c then (None, [])
      else (Some \<lparr>cs_class = c, cs_transaction_id = tid, cs_options = options\<rparr>, relay_messages))"
| "split_relay_loop relay_messages None = (None, [])"
  by pat_completeness auto

termination
  by (relation "measure (\<lambda>(r, m). size_option size m)")
    (use size_relayed_option in \<open>auto simp: less_Suc_eq_le\<close>)

definition split_relay_chain :: "message \<Rightarrow> client_server option \<times> relay list" where
  "split_relay_chain message = split_relay_loop [] (Some message)"

subsection \<open>Wrapping a response\<close>

text \<open>\<open>RelayForwardMessage.wrap_response\<close>, on the attributes of the relay message.\<close>

function wrap_response :: "relay \<Rightarrow> message option \<Rightarrow> relay" where
  "wrap_response r response =
     r\<lparr>relay_options :=
        (case relayed_message (relay_options r) of
           Some (RelayServerMessage RelayForwardMessage h l p options) \<Rightarrow>
             [RelayMessageOption (Some (relay_message RelayReplyMessage
                (wrap_response \<lparr>relay_hop_count = h, relay_link_address = l,
                   relay_peer_address = p, relay_options = options\<rparr> response)))]
         | Some (ClientServerMessage c tid options) \<Rightarrow> [RelayMessageOption response]
         | _ \<Rightarrow> [])\<rparr>"
  by pat_completeness auto

termination
  by (relation "measure (\<lambda>(r, m). size_list size (relay_options r))")
    (auto dest: size_relayed_relay)

declare wrap_response.simps [simp del]

text \<open>
  The chain of relay replies inside a message, the one closest to the client first (the loop
  of \<open>create_outgoing_relay_messages\<close>).
\<close>

function unwrap_replies :: "relay list \<Rightarrow> message option \<Rightarrow> relay list" where
  "unwrap_replies chain (Some (RelayServerMessage RelayReplyMessage h l p options)) =
     unwrap_replies
       (\<lparr>relay_hop_count = h, relay_link_address = l, relay_peer_address = p,
         relay_options = options\<rparr> # chain)
       (relayed_message options)"
| "unwrap_replies chain (Some (RelayServerMessage RelayForwardMessage h l p options)) = chain"
| "unwrap_replies chain (Some (UnknownMessage t d)) = chain"
| "unwrap_replies chain (Some (ClientServerMessage c tid options)) = chain"
| "unwrap_replies chain None = chain"
  by pat_completeness auto

termination
  by (relation "measure (\<lambda>(r, m). size_option size m)")
    (use size_relayed_option in \<open>auto simp: less_Suc_eq_le\<close>)

subsection \<open>The bundle\<close>

text \<open>
  \<open>MessagesList\<close>: the first response, which handlers manipulate, and an iterator over the
  responses after it (the list of what it will yield).
\<close>

record messages_list =
  first_message :: "client_server option"
  subsequent_messages :: "client_server list"

definition empty_messages :: messages_list where
  "empty_messages = \<lparr>first_message = None, subsequent_messages = []\<rparr>"

definition messages_iter :: "messages_list \<Rightarrow> client_server list" where
  "messages_iter ml =
     (case first_message ml of None \<Rightarrow> [] | Some m \<Rightarrow> m # subsequent_messages ml)"

record transaction_bundle =
  incoming_message :: message
  received_over_multicast :: bool
  received_over_tcp :: bool
  allow_unicast :: bool
  allow_rapid_commit :: bool
  request :: "client_server option"
  incoming_relay_messages :: "relay list"
  responses :: messages_list
  outgoing_relay_messages :: "relay list option"
  handled_options :: "dhcp_option list"
  marks :: "pystr set"

definition TransactionBundle ::
  "message \<Rightarrow> bool \<Rightarrow> bool \<Rightarrow> bool \<Rightarrow> pystr list \<Rightarrow> transaction_bundle res" where
  "TransactionBundle message over_multicast over_tcp rapid_commit ms =
     (case split_relay_chain message of
        (req, relays) \<Rightarrow>
          if over_tcp \<and> length relays > 1 then Inl ValueError
          else Inr \<lparr>incoming_message = message, received_over_multicast = over_multicast, received_over_tcp = over_tcp,
            allow_unicast = False, allow_rapid_commit = rapid_commit, request = req,
            incoming_relay_messages = relays, responses = empty_messages,
            outgoing_relay_messages = None, handled_options = [], marks = set ms\<rparr>)"

definition response :: "transaction_bundle \<Rightarrow> client_server option" where
  "response b = first_message (responses b)"

definition set_response :: "client_server option \<Rightarrow> transaction_bundle \<Rightarrow> transaction_bundle" where
  "set_response new_response b =
     (case new_response of
        None \<Rightarrow> b\<lparr>responses := empty_messages\<rparr>
      | Some m \<Rightarrow>
          if first_message (responses b) \<noteq> None
          then b\<lparr>responses := (responses b)\<lparr>first_message := Some m\<rparr>\<rparr>
          else b\<lparr>responses := \<lparr>first_message = Some m, subsequent_messages = []\<rparr>\<rparr>)"

definition mark_handled :: "dhcp_option \<Rightarrow> transaction_bundle \<Rightarrow> transaction_bundle" where
  "mark_handled option b =
     (if option \<notin> set (handled_options b)
      then b\<lparr>handled_options := handled_options b @ [option]\<rparr> else b)"

text \<open>The request is present whenever handlers run (\<open>MessageHandler.handle\<close>).\<close>

definition request_options :: "transaction_bundle \<Rightarrow> dhcp_option list" where
  "request_options b = (case request b of None \<Rightarrow> [] | Some m \<Rightarrow> cs_options m)"

definition get_unhandled_options :: "option_class list \<Rightarrow> transaction_bundle \<Rightarrow> dhcp_option list" where
  "get_unhandled_options option_types b =
     filter (\<lambda>option. option_class_of option \<in> set option_types \<and> option \<notin> set (handled_options b))
       (request_options b)"

definition is_space :: "nat \<Rightarrow> bool" where
  "is_space c \<longleftrightarrow> 9 \<le> c \<and> c \<le> 13 \<or> 28 \<le> c \<and> c \<le> 32 \<or> c = 133 \<or> c = 160 \<or> c = 5760
     \<or> 8192 \<le> c \<and> c \<le> 8202 \<or> c = 8232 \<or> c = 8233 \<or> c = 8239 \<or> c = 8287 \<or> c = 12288"

definition strip :: "pystr \<Rightarrow> pystr" where
  "strip s = rev (dropWhile is_space (rev (dropWhile is_space s)))"

definition add_mark :: "pystr \<Rightarrow> transaction_bundle \<Rightarrow> transaction_bundle" where
  "add_mark mark b = b\<lparr>marks := insert (strip mark) (marks b)\<rparr>"

text \<open>
  \<open>link_address\<close>: the search through the chain raises \<open>AttributeError\<close> at a relay without a
  link address; the TCP branch raises \<open>IndexError\<close> on an empty chain.
\<close>

fun useful_link_address :: "relay list \<Rightarrow> ipv6 res" where
  "useful_link_address [] = Inr 0"
| "useful_link_address (r # rs) =
     (case relay_link_address r of
        None \<Rightarrow> Inl AttributeError
      | Some a \<Rightarrow>
          if \<not> is_unspecified a \<and> \<not> is_loopback a \<and> \<not> is_link_local a then Inr a
          else useful_link_address rs)"

definition link_address :: "transaction_bundle \<Rightarrow> ipv6 option res" where
  "link_address b =
     (if received_over_tcp b then
        (if incoming_relay_messages b = [] then Inl IndexError
         else Inr (relay_peer_address (last (incoming_relay_messages b))))
      else rbind (useful_link_address (incoming_relay_messages b)) (\<lambda>a. Inr (Some a)))"

fun relay_addresses :: "relay list \<Rightarrow> ipv6 list res" where
  "relay_addresses [] = Inr []"
| "relay_addresses (r # rs) =
     (case relay_link_address r of
        None \<Rightarrow> Inl AttributeError
      | Some a \<Rightarrow>
          rbind (relay_addresses rs) (\<lambda>as.
          Inr (if \<not> is_unspecified a then a # as else as)))"

definition relays :: "transaction_bundle \<Rightarrow> ipv6 list res" where
  "relays b = relay_addresses (incoming_relay_messages b)"

subsection \<open>The outgoing chain\<close>

definition create_outgoing_relay_messages :: "transaction_bundle \<Rightarrow> transaction_bundle" where
  "create_outgoing_relay_messages b =
     (if incoming_relay_messages b = [] then b\<lparr>outgoing_relay_messages := Some []\<rparr>
      else
        (let outgoing_message =
           wrap_response (last (incoming_relay_messages b)) (map_option cs_message (response b))
         in b\<lparr>outgoing_relay_messages :=
              Some (unwrap_replies [] (Some (relay_message RelayReplyMessage outgoing_message)))\<rparr>))"

text \<open>
  The relay replies of the chain are objects that contain each other: the message in the
  relay option of one is the one before it.  Handlers change the options of the objects of
  the chain, so the list holds the current attributes of each, and \<open>relink\<close> follows the
  references from the outermost reply inwards, to the given innermost message.
\<close>

fun relink :: "message \<Rightarrow> relay list \<Rightarrow> message" where
  "relink message [] = message"
| "relink message (r # rs) =
     relink (relay_message RelayReplyMessage
       (r\<lparr>relay_options := set_relayed_message (Some message) (relay_options r)\<rparr>)) rs"

definition outgoing_chain :: "transaction_bundle \<Rightarrow> relay list" where
  "outgoing_chain b = (case outgoing_relay_messages b of None \<Rightarrow> [] | Some rs \<Rightarrow> rs)"

definition prepare_outgoing :: "transaction_bundle \<Rightarrow> transaction_bundle" where
  "prepare_outgoing b =
     (if incoming_relay_messages b \<noteq> [] \<and> outgoing_chain b = []
      then create_outgoing_relay_messages b else b)"

text \<open>
  The messages that the generator \<open>outgoing_messages\<close> yields, each as it is when it is
  yielded (the next round changes the same relay replies).
\<close>

definition outgoing_messages :: "transaction_bundle \<Rightarrow> message list" where
  "outgoing_messages b =
     (let chain = outgoing_chain (prepare_outgoing b) in
      map (\<lambda>m. relink (cs_message m) chain)
        (filter (\<lambda>m. from_server_to_client (cs_class m)) (messages_iter (responses b))))"

definition outgoing_message :: "transaction_bundle \<Rightarrow> message option" where
  "outgoing_message b =
     (if response b = None then None
      else (case outgoing_messages b of [] \<Rightarrow> None | m # ms \<Rightarrow> Some m))"

subsection \<open>The incoming chain\<close>

text \<open>Every relay of a chain holds the message before it, the first one the given message.\<close>

fun linked :: "relay_class \<Rightarrow> message \<Rightarrow> relay list \<Rightarrow> bool" where
  "linked c m [] \<longleftrightarrow> True"
| "linked c m (r # rs) \<longleftrightarrow>
     relayed_message (relay_options r) = Some m \<and> linked c (relay_message c r) rs"

definition outermost :: "relay_class \<Rightarrow> message \<Rightarrow> relay list \<Rightarrow> message" where
  "outermost c m rs = (if rs = [] then m else relay_message c (last rs))"

lemma linked_append:
  "linked c m (rs @ [r]) \<longleftrightarrow> linked c m rs \<and> relayed_message (relay_options r) = Some (outermost c m rs)"
  by (induction rs arbitrary: m) (auto simp: outermost_def)

lemma split_relay_loop_spec:
  assumes "split_relay_loop acc m = (Some q, rs)"
  shows "\<exists>pre. rs = pre @ acc \<and> m = Some (outermost RelayForwardMessage (cs_message q) pre)
    \<and> linked RelayForwardMessage (cs_message q) pre \<and> from_client_to_server (cs_class q)"
  using assms
proof (induction acc m rule: split_relay_loop.induct)
  case (1 acc h l p options)
  let ?r = "\<lparr>relay_hop_count = h, relay_link_address = l, relay_peer_address = p,
    relay_options = options\<rparr>"
  from 1 obtain pre where "rs = pre @ ?r # acc"
    "relayed_message options = Some (outermost RelayForwardMessage (cs_message q) pre)"
    "linked RelayForwardMessage (cs_message q) pre" "from_client_to_server (cs_class q)"
    by auto
  then show ?case
    by (intro exI [of _ "pre @ [?r]"]) (simp add: linked_append outermost_def relay_message_def)
next
  case (4 acc c tid options)
  then show ?case
    by (auto simp: outermost_def cs_message_def split: if_splits)
qed simp_all

lemma split_relay_chain_spec:
  assumes "split_relay_chain m = (Some q, rs)"
  shows "m = outermost RelayForwardMessage (cs_message q) rs"
    and "linked RelayForwardMessage (cs_message q) rs" and "from_client_to_server (cs_class q)"
  using split_relay_loop_spec [OF assms [unfolded split_relay_chain_def]] by auto

subsection \<open>The outgoing chain mirrors the incoming one\<close>

text \<open>The addressing of a relay message: what a relay agent uses to pass a reply on.\<close>

definition addressing :: "relay \<Rightarrow> int \<times> ipv6 option \<times> ipv6 option" where
  "addressing r = (relay_hop_count r, relay_link_address r, relay_peer_address r)"

lemma addressing_options [simp]: "addressing (r\<lparr>relay_options := os\<rparr>) = addressing r"
  by (simp add: addressing_def)

lemma unwrap_relay_reply:
  "unwrap_replies acc (Some (relay_message RelayReplyMessage r)) =
     unwrap_replies (r # acc) (relayed_message (relay_options r))"
  by (cases r) (simp add: relay_message_def)

lemma unwrap_client_server [simp]: "unwrap_replies acc (Some (cs_message m)) = acc"
  by (simp add: cs_message_def)

lemma wrap_response_inner:
  "relayed_message (relay_options r) = Some (cs_message q) \<Longrightarrow>
   wrap_response r m = r\<lparr>relay_options := [RelayMessageOption m]\<rparr>"
  by (simp add: wrap_response.simps [of r] cs_message_def)

lemma wrap_response_outer:
  "relayed_message (relay_options r) = Some (relay_message RelayForwardMessage r') \<Longrightarrow>
   wrap_response r m =
     r\<lparr>relay_options := [RelayMessageOption (Some (relay_message RelayReplyMessage (wrap_response r' m)))]\<rparr>"
  by (cases r') (simp add: wrap_response.simps [of r] relay_message_def)

lemma wrap_response_chain:
  assumes "linked RelayForwardMessage (cs_message q) (rs @ [r])"
  shows "map addressing (unwrap_replies acc
      (Some (relay_message RelayReplyMessage (wrap_response r (map_option cs_message resp)))))
    = map addressing (rs @ [r]) @ map addressing acc"
  using assms
proof (induction rs arbitrary: r acc rule: rev_induct)
  case Nil
  then show ?case
    by (cases resp) (simp_all add: wrap_response_inner unwrap_relay_reply relayed_message_def)
next
  case (snoc r' rs)
  then have link: "relayed_message (relay_options r) = Some (relay_message RelayForwardMessage r')"
    and rest: "linked RelayForwardMessage (cs_message q) (rs @ [r'])"
    using linked_append [of RelayForwardMessage "cs_message q" "rs @ [r']" r]
    by (simp_all add: outermost_def)
  show ?case
    using snoc.IH [OF rest]
    by (simp add: wrap_response_outer [OF link] unwrap_relay_reply relayed_message_def)
qed

lemma create_outgoing_addressing:
  assumes "linked RelayForwardMessage (cs_message q) (incoming_relay_messages b)"
  shows "map addressing (outgoing_chain (create_outgoing_relay_messages b))
         = map addressing (incoming_relay_messages b)"
proof (cases "incoming_relay_messages b" rule: rev_cases)
  case Nil
  then show ?thesis by (simp add: create_outgoing_relay_messages_def outgoing_chain_def)
next
  case (snoc rs r)
  with wrap_response_chain [of q rs r "[]" "response b"] assms show ?thesis
    by (simp add: create_outgoing_relay_messages_def outgoing_chain_def Let_def)
qed

text \<open>Following the relinked chain from outside passes the same relays and ends in the message.\<close>

lemma relink_append:
  "relink m (rs @ [r]) = relay_message RelayReplyMessage
     (r\<lparr>relay_options := set_relayed_message (Some (relink m rs)) (relay_options r)\<rparr>)"
  by (induction rs arbitrary: m) simp_all

lemma addressing_relink:
  "map addressing (unwrap_replies acc (Some (relink (cs_message m) rs)))
   = map addressing rs @ map addressing acc"
proof (induction rs arbitrary: acc rule: rev_induct)
  case (snoc r rs)
  then show ?case by (simp add: relink_append unwrap_relay_reply)
qed simp

lemma inner_message_relay:
  "relayed_message os = Some (relay_message c r) \<Longrightarrow> inner_message os = inner_message (relay_options r)"
  by (cases r) (simp add: inner_message.simps [of os] relay_message_def)

lemma inner_message_relink:
  "relayed_message os = Some (relink (cs_message m) rs) \<Longrightarrow> inner_message os = Some (cs_message m)"
proof (induction rs arbitrary: os rule: rev_induct)
  case Nil
  then show ?case by (simp add: inner_message.simps cs_message_def)
next
  case (snoc r rs)
  then show ?case by (simp add: relink_append inner_message_relay)
qed

text \<open>What the generator yields for a bundle whose outgoing chain mirrors the incoming one.\<close>

definition mirrored :: "transaction_bundle \<Rightarrow> bool" where
  "mirrored b \<longleftrightarrow>
     map addressing (outgoing_chain (prepare_outgoing b)) = map addressing (incoming_relay_messages b)"

lemma outgoing_messages_chain:
  assumes "mirrored b" and "out \<in> set (outgoing_messages b)"
  obtains m where "m \<in> set (messages_iter (responses b))" and "from_server_to_client (cs_class m)"
    and "map addressing (unwrap_replies [] (Some out)) = map addressing (incoming_relay_messages b)"
    and "inner_message [RelayMessageOption (Some out)] = Some (cs_message m)"
proof -
  from assms(2) obtain m where m: "m \<in> set (messages_iter (responses b))"
    "from_server_to_client (cs_class m)"
    and out: "out = relink (cs_message m) (outgoing_chain (prepare_outgoing b))"
    by (auto simp: outgoing_messages_def Let_def)
  have "map addressing (unwrap_replies [] (Some out)) = map addressing (incoming_relay_messages b)"
    using assms(1) by (simp add: out addressing_relink mirrored_def)
  moreover have "inner_message [RelayMessageOption (Some out)] = Some (cs_message m)"
    by (rule inner_message_relink [of _ m "outgoing_chain (prepare_outgoing b)"])
      (simp add: relayed_message_def out)
  ultimately show thesis using m that by blast
qed

lemma prepare_outgoing_mirrored:
  assumes "linked RelayForwardMessage (cs_message q) (incoming_relay_messages b)"
    and "outgoing_chain b = []"
  shows "mirrored b"
  using create_outgoing_addressing [OF assms(1)] assms(2)
  by (simp add: mirrored_def prepare_outgoing_def)

end
