(* ===== verification/Handlers.thy ===== *)
theory Handlers
  imports Bundle
begin

text \<open>
  dhcpkit/ipv6/server/handlers and dhcpkit/ipv6/server/extensions/prefix_delegation.py: the
  handlers that process a transaction bundle.  A handler is a record of its methods; a method
  returns the changed bundle, or the exception with the bundle as it was when it was raised
  (an exception does not undo the changes made before it).
\<close>

datatype handler_exception =
    CannotRespondError
  | ForOtherServerError
  | UseMulticastError
  | ReplyWithStatusError int pystr
  | ReplyWithLeasequeryError int pystr
  | PythonError py_error

type_synonym step =
  "transaction_bundle \<Rightarrow> (handler_exception \<times> transaction_bundle) + transaction_bundle"

record handler =
  analyse_pre :: step
  handler_pre :: step
  handler_handle :: step
  handler_post :: step
  analyse_post :: step

text \<open>The base class: every method leaves the bundle alone.\<close>

definition base_handler :: handler where
  "base_handler = \<lparr>analyse_pre = Inr, handler_pre = Inr, handler_handle = Inr,
     handler_post = Inr, analyse_post = Inr\<rparr>"

definition raise_in :: "handler_exception \<Rightarrow> step" where
  "raise_in e b = Inl (e, b)"

text \<open>
  A method that works on \<open>bundle.response\<close>: \<open>None\<close> has no attributes.  Changing the response
  in place changes the first message of the responses.
\<close>

definition with_response :: "(client_server \<Rightarrow> step) \<Rightarrow> step" where
  "with_response f b =
     (case response b of None \<Rightarrow> Inl (PythonError AttributeError, b) | Some m \<Rightarrow> f m b)"

definition set_response_options :: "client_server \<Rightarrow> dhcp_option list \<Rightarrow> step" where
  "set_response_options m options b = Inr (set_response (Some (m\<lparr>cs_options := options\<rparr>)) b)"

subsection \<open>handlers/basic.py\<close>

fun option_type_of :: "dhcp_option \<Rightarrow> int" where
  "option_type_of (Plain (UnknownOption t d)) = t"
| "option_type_of option = class_option_type (option_class_of option)"

text \<open>Whether the client's option request, if there is one, asks for the option type.\<close>

definition wanted :: "bool \<Rightarrow> int \<Rightarrow> transaction_bundle \<Rightarrow> bool" where
  "wanted always_send option_type b \<longleftrightarrow>
     always_send \<or>
     (case get_option_of_type [C_OptionRequestOption] (request_options b) of
        Some (Plain (OptionRequestOption requested_options)) \<Rightarrow> option_type \<in> set requested_options
      | _ \<Rightarrow> True)"

definition CopyOptionHandler_handle :: "containment \<Rightarrow> option_class \<Rightarrow> bool \<Rightarrow> step" where
  "CopyOptionHandler_handle T c always_send =
     with_response (\<lambda>m b.
       if \<not> may_contain T (cs_klass m) (OptionClass c) then Inr b
       else if \<not> wanted always_send (class_option_type c) b then Inr b
       else
         (let kept = filter (\<lambda>existing. option_class_of existing \<noteq> c) (cs_options m) in
          set_response_options m (get_options_of_type [c] (request_options b) @ kept) b))"

definition SimpleOptionHandler_handle ::
  "containment \<Rightarrow> (dhcp_option list \<Rightarrow> dhcp_option option) \<Rightarrow> dhcp_option \<Rightarrow> bool \<Rightarrow> bool \<Rightarrow> step" where
  "SimpleOptionHandler_handle T combine option always_add always_send =
     with_response (\<lambda>m b.
       if \<not> may_contain T (cs_klass m) (option_klass option) then Inr b
       else if \<not> wanted always_send (option_type_of option) b then Inr b
       else if always_add then set_response_options m (cs_options m @ [option]) b
       else
         (let found = get_options_of_type [option_class_of option] (cs_options m) in
          if found \<noteq> [] then
            (case combine found of
               Some result \<Rightarrow> set_response_options m (fold remove1 found (cs_options m) @ [result]) b
             | None \<Rightarrow> Inr b)
          else set_response_options m (cs_options m @ [option]) b))"

definition OverwriteOptionHandler_handle :: "containment \<Rightarrow> dhcp_option \<Rightarrow> bool \<Rightarrow> step" where
  "OverwriteOptionHandler_handle T option always_send =
     with_response (\<lambda>m b.
       if \<not> may_contain T (cs_klass m) (option_klass option) then Inr b
       else if \<not> wanted always_send (option_type_of option) b then Inr b
       else
         (let kept = filter (\<lambda>existing. option_class_of existing \<noteq> option_class_of option) (cs_options m)
          in set_response_options m (option # kept) b))"

definition CopyOptionHandler :: "containment \<Rightarrow> option_class \<Rightarrow> bool \<Rightarrow> handler" where
  "CopyOptionHandler T c always_send =
     base_handler\<lparr>handler_handle := CopyOptionHandler_handle T c always_send\<rparr>"

text \<open>The default \<open>combine\<close> leaves the existing options alone.\<close>

definition SimpleOptionHandler :: "containment \<Rightarrow> dhcp_option \<Rightarrow> bool \<Rightarrow> bool \<Rightarrow> handler" where
  "SimpleOptionHandler T option always_add always_send =
     base_handler\<lparr>handler_handle :=
       SimpleOptionHandler_handle T (\<lambda>_. None) option always_add always_send\<rparr>"

definition OverwriteOptionHandler :: "containment \<Rightarrow> dhcp_option \<Rightarrow> bool \<Rightarrow> handler" where
  "OverwriteOptionHandler T option always_send =
     base_handler\<lparr>handler_handle := OverwriteOptionHandler_handle T option always_send\<rparr>"

subsection \<open>handlers/client_id.py, server_id.py, preference.py, ignore.py, unicast.py\<close>

definition ClientIdHandler :: "containment \<Rightarrow> handler" where
  "ClientIdHandler T = CopyOptionHandler T C_ClientIdOption True"

definition ServerIdHandler_pre :: "duid \<Rightarrow> step" where
  "ServerIdHandler_pre duid b =
     (case get_option_of_type [C_ServerIdOption] (request_options b) of
        Some (Plain (ServerIdOption server_id)) \<Rightarrow>
          if server_id \<noteq> Some duid then raise_in ForOtherServerError b else Inr b
      | _ \<Rightarrow> Inr b)"

definition ServerIdHandler :: "containment \<Rightarrow> duid \<Rightarrow> handler" where
  "ServerIdHandler T duid =
     (OverwriteOptionHandler T (Plain (ServerIdOption (Some duid))) True)
       \<lparr>handler_pre := ServerIdHandler_pre duid\<rparr>"

definition PreferenceOptionHandler :: "containment \<Rightarrow> int \<Rightarrow> handler" where
  "PreferenceOptionHandler T preference =
     SimpleOptionHandler T (Plain (PreferenceOption preference)) False True"

definition IgnoreRequestHandler_pre :: "klass list \<Rightarrow> step" where
  "IgnoreRequestHandler_pre message_types b =
     (if message_types = []
         \<or> (case request b of None \<Rightarrow> False
            | Some m \<Rightarrow> list_ex (issubclass (cs_klass m)) message_types)
      then raise_in CannotRespondError b else Inr b)"

definition IgnoreRequestHandler :: "klass list \<Rightarrow> handler" where
  "IgnoreRequestHandler message_types =
     base_handler\<lparr>handler_pre := IgnoreRequestHandler_pre message_types\<rparr>"

definition RejectUnwantedUnicastHandler_pre :: step where
  "RejectUnwantedUnicastHandler_pre b =
     (if \<not> allow_unicast b \<and> \<not> received_over_multicast b
         \<and> length (incoming_relay_messages b) < 2
      then raise_in UseMulticastError b else Inr b)"

definition RejectUnwantedUnicastHandler :: handler where
  "RejectUnwantedUnicastHandler = base_handler\<lparr>handler_pre := RejectUnwantedUnicastHandler_pre\<rparr>"

definition ServerUnicastOptionHandler_pre :: step where
  "ServerUnicastOptionHandler_pre b = Inr (b\<lparr>allow_unicast := True\<rparr>)"

definition ServerUnicastOptionHandler :: "containment \<Rightarrow> ipv6 \<Rightarrow> handler" where
  "ServerUnicastOptionHandler T address =
     (SimpleOptionHandler T (Plain (ServerUnicastOption (Some address))) False True)
       \<lparr>handler_pre := ServerUnicastOptionHandler_pre\<rparr>"

subsection \<open>handlers/__init__.py and basic_relay.py: the relay chain\<close>

definition RelayHandler_handle :: "(relay \<Rightarrow> relay \<Rightarrow> relay) \<Rightarrow> step" where
  "RelayHandler_handle handle_relay b =
     (case outgoing_relay_messages b of
        None \<Rightarrow> Inr b
      | Some outgoing \<Rightarrow>
          if length (incoming_relay_messages b) \<noteq> length outgoing then Inr b
          else Inr (b\<lparr>outgoing_relay_messages :=
                 Some (map2 handle_relay (incoming_relay_messages b) outgoing)\<rparr>))"

definition CopyRelayOptionHandler_handle_relay ::
  "containment \<Rightarrow> option_class \<Rightarrow> relay \<Rightarrow> relay \<Rightarrow> relay" where
  "CopyRelayOptionHandler_handle_relay T c relay_message_in relay_message_out =
     (if \<not> may_contain T (MessageClass (RelayServer RelayReplyMessage)) (OptionClass c)
      then relay_message_out
      else relay_message_out\<lparr>relay_options :=
             get_options_of_type [c] (relay_options relay_message_in)
             @ filter (\<lambda>existing. option_class_of existing \<noteq> c) (relay_options relay_message_out)\<rparr>)"

definition CopyRelayOptionHandler :: "containment \<Rightarrow> option_class \<Rightarrow> handler" where
  "CopyRelayOptionHandler T c =
     base_handler\<lparr>handler_handle := RelayHandler_handle (CopyRelayOptionHandler_handle_relay T c)\<rparr>"

definition InterfaceIdOptionHandler :: "containment \<Rightarrow> handler" where
  "InterfaceIdOptionHandler T = CopyRelayOptionHandler T C_InterfaceIdOption"

subsection \<open>handlers/status_option.py\<close>

definition missing_status_message :: "client_server_class \<Rightarrow> pystr option" where
  "missing_status_message c =
     (case c of
        ConfirmMessage \<Rightarrow> Some (lit ''Assignments confirmed'')
      | ReleaseMessage \<Rightarrow> Some (lit ''Thank you for releasing your resources'')
      | DeclineMessage \<Rightarrow> Some (lit ''Our apologies for assigning you unusable addresses'')
      | _ \<Rightarrow> None)"

definition AddMissingStatusOptionHandler_handle :: step where
  "AddMissingStatusOptionHandler_handle b =
     (case request b of
        None \<Rightarrow> Inr b
      | Some req \<Rightarrow>
          (case missing_status_message (cs_class req) of
             None \<Rightarrow> Inr b
           | Some message \<Rightarrow>
               with_response (\<lambda>m b.
                 if get_option_of_type [C_StatusCodeOption] (cs_options m) = None
                 then set_response_options m (cs_options m @ [Plain (StatusCodeOption 0 message)]) b
                 else Inr b) b))"

definition AddMissingStatusOptionHandler :: handler where
  "AddMissingStatusOptionHandler =
     base_handler\<lparr>handler_handle := AddMissingStatusOptionHandler_handle\<rparr>"

subsection \<open>handlers/utils.py\<close>

text \<open>
  \<open>force_status\<close> removes elements from the list it is iterating over: the iterator moves on
  to the next index although the elements behind the removed one have moved down.
\<close>

function force_status_loop :: "nat \<Rightarrow> dhcp_option list \<Rightarrow> int \<Rightarrow> pystr \<Rightarrow> dhcp_option list" where
  "force_status_loop i options new_code new_message =
     (if i < length options then
        (case options ! i of
           Plain (StatusCodeOption status_code status_message) \<Rightarrow>
             if status_code = new_code then options
             else force_status_loop (Suc i) (remove1 (options ! i) options) new_code new_message
         | _ \<Rightarrow> force_status_loop (Suc i) options new_code new_message)
      else options @ [Plain (StatusCodeOption new_code new_message)])"
  by pat_completeness auto

termination
  by (relation "measure (\<lambda>(i, options, c, m). length options - i)") (auto simp: length_remove1)

declare force_status_loop.simps [simp del]

definition force_status :: "dhcp_option list \<Rightarrow> int \<Rightarrow> pystr \<Rightarrow> dhcp_option list" where
  "force_status options new_code new_message = force_status_loop 0 options new_code new_message"

subsection \<open>handlers/unanswered_ia.py and extensions/prefix_delegation.py\<close>

text \<open>\<open>ia_class(option.iaid, options=...)\<close>; the handlers pass identity associations only.\<close>

fun make_ia :: "dhcp_option \<Rightarrow> dhcp_option list \<Rightarrow> dhcp_option" where
  "make_ia (IANAOption iaid t1 t2 os) options = IANAOption iaid 0 0 options"
| "make_ia (IATAOption iaid os) options = IATAOption iaid options"
| "make_ia (IAPDOption iaid t1 t2 os) options = IAPDOption iaid 0 0 options"
| "make_ia option options = option"

fun suboptions :: "dhcp_option \<Rightarrow> dhcp_option list" where
  "suboptions (IANAOption iaid t1 t2 os) = os"
| "suboptions (IATAOption iaid os) = os"
| "suboptions (IAPDOption iaid t1 t2 os) = os"
| "suboptions (IAAddressOption a p v os) = os"
| "suboptions (IAPrefixOption n p v os) = os"
| "suboptions option = []"

text \<open>The addresses (prefixes) of an identity association, with lifetimes of zero.\<close>

fun withdraw :: "dhcp_option \<Rightarrow> dhcp_option" where
  "withdraw (IAAddressOption a p v os) = IAAddressOption a 0 0 []"
| "withdraw (IAPrefixOption n p v os) = IAPrefixOption n 0 0 []"
| "withdraw option = option"

definition withdrawn :: "option_class \<Rightarrow> dhcp_option \<Rightarrow> dhcp_option list" where
  "withdrawn c option = map withdraw (get_options_of_type [c] (suboptions option))"

definition append_response :: "dhcp_option \<Rightarrow> step" where
  "append_response option = with_response (\<lambda>m. set_response_options m (cs_options m @ [option]))"

abbreviation no_binding_addresses :: "dhcp_option list" where
  "no_binding_addresses \<equiv> [Plain (StatusCodeOption 3 (lit ''No addresses assigned to you''))]"

definition answer_ia :: "bool \<Rightarrow> dhcp_option \<Rightarrow> step" where
  "answer_ia authoritative option b =
     (case request b of
        None \<Rightarrow> Inr b
      | Some req \<Rightarrow>
          if cs_class req \<in> {SolicitMessage, RequestMessage} then
            append_response (make_ia option
              [Plain (StatusCodeOption 2 (lit ''No addresses available''))]) b
          else if cs_class req = ConfirmMessage then
            (if \<not> authoritative then raise_in CannotRespondError b
             else
               with_response (\<lambda>m. set_response_options m
                 (force_status (cs_options m) 4
                    (lit ''Those addresses are not appropriate on this link''))) b)
          else if cs_class req = RenewMessage then
            (if authoritative
             then append_response (make_ia option (withdrawn C_IAAddressOption option)) b
             else append_response (make_ia option no_binding_addresses) b)
          else if cs_class req = RebindMessage then
            (if \<not> authoritative then raise_in CannotRespondError b
             else append_response (make_ia option (withdrawn C_IAAddressOption option)) b)
          else if cs_class req = DeclineMessage then
            append_response (make_ia option no_binding_addresses) b
          else if cs_class req = ReleaseMessage then
            append_response (make_ia option no_binding_addresses) b
          else Inr b)"

definition UnansweredIAOptionHandler_handle :: "bool \<Rightarrow> step" where
  "UnansweredIAOptionHandler_handle authoritative b =
     run_steps (answer_ia authoritative) (get_unhandled_options [C_IANAOption, C_IATAOption] b) b"

definition UnansweredIAOptionHandler :: "bool \<Rightarrow> handler" where
  "UnansweredIAOptionHandler authoritative =
     base_handler\<lparr>handler_handle := UnansweredIAOptionHandler_handle authoritative\<rparr>"

abbreviation no_binding_prefixes :: "dhcp_option list" where
  "no_binding_prefixes \<equiv> [Plain (StatusCodeOption 3 (lit ''No prefixes assigned to you''))]"

definition answer_iapd :: "bool \<Rightarrow> dhcp_option \<Rightarrow> step" where
  "answer_iapd authoritative option b =
     (case request b of
        None \<Rightarrow> Inr b
      | Some req \<Rightarrow>
          if cs_class req \<in> {SolicitMessage, RequestMessage} then
            append_response (make_ia option
              [Plain (StatusCodeOption 6 (lit ''No prefixes available''))]) b
          else if cs_class req = RenewMessage then
            append_response (make_ia option no_binding_prefixes) b
          else if cs_class req = RebindMessage then
            (if \<not> authoritative then raise_in CannotRespondError b
             else append_response (make_ia option (withdrawn C_IAPrefixOption option)) b)
          else if cs_class req = ReleaseMessage then
            append_response (make_ia option no_binding_prefixes) b
          else Inr b)"

definition UnansweredIAPDOptionHandler_handle :: "bool \<Rightarrow> step" where
  "UnansweredIAPDOptionHandler_handle authoritative b =
     run_steps (answer_iapd authoritative) (get_unhandled_options [C_IAPDOption] b) b"

definition UnansweredIAPDOptionHandler :: "bool \<Rightarrow> handler" where
  "UnansweredIAPDOptionHandler authoritative =
     base_handler\<lparr>handler_handle := UnansweredIAPDOptionHandler_handle authoritative\<rparr>"

subsection \<open>handlers/rapid_commit.py\<close>

definition first_status :: "dhcp_option \<Rightarrow> int option" where
  "first_status option =
     (case get_option_of_type [C_StatusCodeOption] (suboptions option) of
        Some (Plain (StatusCodeOption status_code status_message)) \<Rightarrow> Some status_code
      | _ \<Rightarrow> None)"

definition refused :: "client_server \<Rightarrow> bool" where
  "refused m \<longleftrightarrow>
     list_ex (\<lambda>option. first_status option = Some 2)
       (get_options_of_type [C_IANAOption, C_IATAOption] (cs_options m))
     \<or> list_ex (\<lambda>option. first_status option = Some 6)
       (get_options_of_type [C_IAPDOption] (cs_options m))"

definition RapidCommitHandler_post :: "bool \<Rightarrow> step" where
  "RapidCommitHandler_post rapid_commit_rejections b =
     (case (request b, response b) of
        (Some req, Some m) \<Rightarrow>
          if \<not> allow_rapid_commit b then Inr b
          else if cs_class req \<noteq> SolicitMessage
                  \<or> get_option_of_type [C_RapidCommitOption] (cs_options req) = None then Inr b
          else if cs_class m \<noteq> AdvertiseMessage then Inr b
          else if \<not> rapid_commit_rejections
                  \<and> (get_unhandled_options [C_IANAOption, C_IATAOption, C_IAPDOption] b \<noteq> []
                     \<or> refused m) then Inr b
          else
            Inr (set_response (Some \<lparr>cs_class = ReplyMessage, cs_transaction_id = cs_transaction_id m,
                   cs_options = Plain RapidCommitOption # cs_options m\<rparr>) b)
      | _ \<Rightarrow> Inr b)"

definition RapidCommitHandler :: "bool \<Rightarrow> handler" where
  "RapidCommitHandler rapid_commit_rejections =
     base_handler\<lparr>handler_post := RapidCommitHandler_post rapid_commit_rejections\<rparr>"

end
