(* ===== verification/Filters.thy ===== *)
theory Filters
  imports Handlers
begin

text \<open>
  dhcpkit/ipv6/server/filters: trees of filters with the handlers configured in them.  The
  condition of a filter is its \<open>match\<close> method; reading the link address of the bundle may raise.
\<close>

datatype handler_filter =
  Filter "transaction_bundle \<Rightarrow> bool res" "handler_filter list" "handler list"

text \<open>The handlers of the filters that match: those of the inner filters come first.\<close>

fun filter_get_handlers :: "transaction_bundle \<Rightarrow> handler_filter \<Rightarrow> handler list res" where
  "filter_get_handlers b (Filter match sub_filters sub_handlers) =
     rbind (match b) (\<lambda>matches.
     if \<not> matches then Inr []
     else
       rbind (concat_res (filter_get_handlers b) sub_filters) (\<lambda>handlers.
       Inr (handlers @ sub_handlers)))"

text \<open>The handlers that stand under filters that all match.\<close>

inductive enabled :: "transaction_bundle \<Rightarrow> handler_filter \<Rightarrow> handler \<Rightarrow> bool" for b where
  "match b = Inr True \<Longrightarrow> h \<in> set sub_handlers \<Longrightarrow> enabled b (Filter match sub_filters sub_handlers) h"
| "match b = Inr True \<Longrightarrow> f \<in> set sub_filters \<Longrightarrow> enabled b f h \<Longrightarrow>
   enabled b (Filter match sub_filters sub_handlers) h"

inductive_simps enabled_Filter: "enabled b (Filter match sub_filters sub_handlers) h"

definition MarkedWithFilter_match :: "pystr \<Rightarrow> transaction_bundle \<Rightarrow> bool res" where
  "MarkedWithFilter_match mark b = Inr (mark \<in> marks b)"

definition address_in_network :: "ipv6 option \<Rightarrow> ipv6_network \<Rightarrow> bool res" where
  "address_in_network address prefix =
     (case address of None \<Rightarrow> Inl AttributeError | Some a \<Rightarrow> Inr (in_network a prefix))"

text \<open>\<open>any([...])\<close> of a list: every membership is computed first.\<close>

definition SubnetFilter_match :: "ipv6_network list \<Rightarrow> transaction_bundle \<Rightarrow> bool res" where
  "SubnetFilter_match prefixes b =
     rbind (concat_res (\<lambda>prefix.
       rbind (link_address b) (\<lambda>address.
       rbind (address_in_network address prefix) (\<lambda>r. Inr [r]))) prefixes) (\<lambda>rs.
     Inr (list_ex id rs))"

datatype time_limit = More_than int | Less_than int

fun within_limit :: "int \<Rightarrow> time_limit \<Rightarrow> bool" where
  "within_limit elapsed_time (More_than limit) \<longleftrightarrow> elapsed_time > limit"
| "within_limit elapsed_time (Less_than limit) \<longleftrightarrow> elapsed_time < limit"

definition ElapsedTimeFilter_match :: "time_limit list \<Rightarrow> transaction_bundle \<Rightarrow> bool res" where
  "ElapsedTimeFilter_match limits b =
     (case get_option_of_type [C_ElapsedTimeOption] (request_options b) of
        Some (Plain (ElapsedTimeOption elapsed_time)) \<Rightarrow> Inr (list_all (within_limit elapsed_time) limits)
      | _ \<Rightarrow> Inr False)"

text \<open>The configured limits are in seconds, zero or absent for none; the option counts 1/100 s.\<close>

definition configured :: "int option \<Rightarrow> bool" where
  "configured limit = (case limit of Some l \<Rightarrow> l \<noteq> 0 | None \<Rightarrow> False)"

definition ElapsedTimeFilterFactory_validate :: "int option \<Rightarrow> int option \<Rightarrow> unit res" where
  "ElapsedTimeFilterFactory_validate lower upper =
     (if \<not> configured upper \<and> \<not> configured lower then Inl ValueError
      else if configured upper \<and> configured lower \<and> the upper \<le> the lower then Inl ValueError
      else Inr ())"

definition ElapsedTimeFilterFactory_condition :: "int option \<Rightarrow> int option \<Rightarrow> time_limit list" where
  "ElapsedTimeFilterFactory_condition lower upper =
     (if configured lower then [More_than (the lower * 100)] else [])
     @ (if configured upper then [Less_than (the upper * 100)] else [])"

end
