(* ===== verification/Statistics.thy ===== *)
theory Statistics
  imports Bundle
begin

text \<open>
  dhcpkit/ipv6/server/statistics.py: the counters, the categories of counters, and the sets
  of counters that one packet updates.  The counters are \<open>c_uint64\<close> values in shared memory:
  64-bit words that wrap around.
\<close>

type_synonym counter = "64 word"

record statistics =
  incoming_packets :: counter
  outgoing_packets :: counter
  unparsable_packets :: counter
  handling_errors :: counter
  for_other_server :: counter
  do_not_respond :: counter
  use_multicast :: counter
  unknown_query_type :: counter
  malformed_query :: counter
  not_allowed :: counter
  other_error :: counter
  messages_in :: "(int \<times> counter) list"
  messages_out :: "(int \<times> counter) list"

text \<open>The message types that get a counter, in the order of the sorted registry.\<close>

definition message_counters :: "(client_server_class \<Rightarrow> bool) \<Rightarrow> (int \<times> counter) list" where
  "message_counters direction =
     concat (map (\<lambda>key. case message_registry (int key) of
        Some (ClientServer c) \<Rightarrow> if direction c then [(client_server_type c, 0)] else []
      | _ \<Rightarrow> []) [0..<256])"

definition new_statistics :: statistics where
  "new_statistics = \<lparr>incoming_packets = 0, outgoing_packets = 0, unparsable_packets = 0,
     handling_errors = 0, for_other_server = 0, do_not_respond = 0, use_multicast = 0,
     unknown_query_type = 0, malformed_query = 0, not_allowed = 0, other_error = 0,
     messages_in = message_counters from_client_to_server,
     messages_out = message_counters from_server_to_client\<rparr>"

text \<open>The generated \<open>count_...\<close> methods: what is counted.\<close>

datatype event =
    Incoming_packet | Outgoing_packet | Unparsable_packet | Handling_error
  | For_other_server | Do_not_respond | Use_multicast | Unknown_query_type
  | Malformed_query | Not_allowed | Other_error | Message_in int | Message_out int

definition update_dict :: "int \<Rightarrow> (int \<times> counter) list \<Rightarrow> (int \<times> counter) list" where
  "update_dict key counters = map (\<lambda>(k, v). (k, if k = key then v + 1 else v)) counters"

fun count :: "event \<Rightarrow> statistics \<Rightarrow> statistics" where
  "count Incoming_packet s = s\<lparr>incoming_packets := incoming_packets s + 1\<rparr>"
| "count Outgoing_packet s = s\<lparr>outgoing_packets := outgoing_packets s + 1\<rparr>"
| "count Unparsable_packet s = s\<lparr>unparsable_packets := unparsable_packets s + 1\<rparr>"
| "count Handling_error s = s\<lparr>handling_errors := handling_errors s + 1\<rparr>"
| "count For_other_server s = s\<lparr>for_other_server := for_other_server s + 1\<rparr>"
| "count Do_not_respond s = s\<lparr>do_not_respond := do_not_respond s + 1\<rparr>"
| "count Use_multicast s = s\<lparr>use_multicast := use_multicast s + 1\<rparr>"
| "count Unknown_query_type s = s\<lparr>unknown_query_type := unknown_query_type s + 1\<rparr>"
| "count Malformed_query s = s\<lparr>malformed_query := malformed_query s + 1\<rparr>"
| "count Not_allowed s = s\<lparr>not_allowed := not_allowed s + 1\<rparr>"
| "count Other_error s = s\<lparr>other_error := other_error s + 1\<rparr>"
| "count (Message_in t) s = s\<lparr>messages_in := update_dict t (messages_in s)\<rparr>"
| "count (Message_out t) s = s\<lparr>messages_out := update_dict t (messages_out s)\<rparr>"

subsection \<open>The statistics of the server\<close>

record server_statistics =
  global_stats :: statistics
  interface_stats :: "(pystr \<times> statistics) list"
  subnet_stats :: "(ipv6_network \<times> statistics) list"
  relay_stats :: "(ipv6 \<times> statistics) list"

definition new_server_statistics :: server_statistics where
  "new_server_statistics = \<lparr>global_stats = new_statistics, interface_stats = [],
     subnet_stats = [], relay_stats = []\<rparr>"

text \<open>
  \<open>update_categories\<close>: the loop adds the missing categories, and takes a key off the keys to
  remove only inside the branch for missing ones.
\<close>

definition update_category_step ::
  "('k \<times> statistics) list \<times> 'k list \<Rightarrow> 'k \<Rightarrow> ('k \<times> statistics) list \<times> 'k list" where
  "update_category_step state key =
     (case state of (container, remaining) \<Rightarrow>
        if key \<notin> fst ` set container
        then (container @ [(key, new_statistics)], removeAll key remaining)
        else (container, remaining))"

definition update_categories ::
  "('k \<times> statistics) list \<Rightarrow> 'k list \<Rightarrow> ('k \<times> statistics) list" where
  "update_categories container categories =
     (case foldl update_category_step (container, map fst container) categories of
        (container', remaining) \<Rightarrow> filter (\<lambda>(k, s). k \<notin> set remaining) container')"

record category_settings =
  wanted_interfaces :: "pystr list"
  wanted_subnets :: "ipv6_network list"
  wanted_relays :: "ipv6 list"

definition set_categories ::
  "category_settings option \<Rightarrow> server_statistics \<Rightarrow> server_statistics" where
  "set_categories settings st =
     (case settings of
        None \<Rightarrow> st
      | Some cs \<Rightarrow>
          st\<lparr>interface_stats := update_categories (interface_stats st) (wanted_interfaces cs),
             subnet_stats := update_categories (subnet_stats st) (wanted_subnets cs),
             relay_stats := update_categories (relay_stats st) (wanted_relays cs)\<rparr>)"

text \<open>
  A \<open>StatisticsSet\<close> is a set of references to the statistics objects of the server; counting
  on it counts on each of them.
\<close>

datatype stat_ref = Global | Interface pystr | Subnet ipv6_network | Relay ipv6

definition get_update_set ::
  "pystr option \<Rightarrow> transaction_bundle option \<Rightarrow> server_statistics \<Rightarrow> stat_ref list res" where
  "get_update_set interface_name b st =
     (let interfaces = (case interface_name of
            Some n \<Rightarrow> if n \<noteq> [] \<and> n \<in> fst ` set (interface_stats st) then [Interface n] else []
          | None \<Rightarrow> [])
      in
      (case b of
         None \<Rightarrow> Inr (Global # interfaces)
       | Some b \<Rightarrow>
           rbind (link_address b) (\<lambda>address.
           rbind (case address of
                    Some a \<Rightarrow> Inr (filter (in_network a) (map fst (subnet_stats st)))
                  | None \<Rightarrow> if subnet_stats st = [] then Inr [] else Inl AttributeError) (\<lambda>subnets.
           rbind (relays b) (\<lambda>rs.
           Inr (Global # interfaces @ map Subnet subnets
                @ map Relay (filter (\<lambda>a. a \<in> set rs) (map fst (relay_stats st)))))))))"

definition count_on :: "event \<Rightarrow> stat_ref list \<Rightarrow> server_statistics \<Rightarrow> server_statistics" where
  "count_on e refs st =
     \<lparr>global_stats = (if Global \<in> set refs then count e (global_stats st) else global_stats st),
      interface_stats = map (\<lambda>(k, s). (k, if Interface k \<in> set refs then count e s else s))
        (interface_stats st),
      subnet_stats = map (\<lambda>(k, s). (k, if Subnet k \<in> set refs then count e s else s))
        (subnet_stats st),
      relay_stats = map (\<lambda>(k, s). (k, if Relay k \<in> set refs then count e s else s))
        (relay_stats st)\<rparr>"

subsection \<open>Properties\<close>

lemma map_of_map_keys:
  "map_of (map (\<lambda>(k, s). (k, f k s)) kvs) k = map_option (f k) (map_of kvs k)"
  by (induction kvs) auto

text \<open>Counting touches exactly the statistics that are referenced.\<close>

lemma count_on_interface:
  "map_of (interface_stats (count_on e refs st)) n =
     map_option (\<lambda>s. if Interface n \<in> set refs then count e s else s) (map_of (interface_stats st) n)"
  by (simp add: count_on_def map_of_map_keys [of "\<lambda>k s. if Interface k \<in> set refs then count e s else s"])

lemma count_on_subnet:
  "map_of (subnet_stats (count_on e refs st)) n =
     map_option (\<lambda>s. if Subnet n \<in> set refs then count e s else s) (map_of (subnet_stats st) n)"
  by (simp add: count_on_def map_of_map_keys [of "\<lambda>k s. if Subnet k \<in> set refs then count e s else s"])

lemma count_on_relay:
  "map_of (relay_stats (count_on e refs st)) n =
     map_option (\<lambda>s. if Relay n \<in> set refs then count e s else s) (map_of (relay_stats st) n)"
  by (simp add: count_on_def map_of_map_keys [of "\<lambda>k s. if Relay k \<in> set refs then count e s else s"])

lemma count_on_keys:
  "map fst (interface_stats (count_on e refs st)) = map fst (interface_stats st)"
  "map fst (subnet_stats (count_on e refs st)) = map fst (subnet_stats st)"
  "map fst (relay_stats (count_on e refs st)) = map fst (relay_stats st)"
  by (simp_all add: count_on_def comp_def case_prod_beta)

lemma update_category_loop:
  assumes "set remaining \<subseteq> fst ` set container"
    and "foldl update_category_step (container, remaining) keys = (container', remaining')"
  shows "remaining' = remaining \<and> fst ` set container' = fst ` set container \<union> set keys"
  using assms
proof (induction keys arbitrary: container)
  case (Cons key keys)
  show ?case
  proof (cases "key \<in> fst ` set container")
    case True
    with Cons show ?thesis by (auto simp: update_category_step_def)
  next
    case False
    with Cons.prems(1) have "removeAll key remaining = remaining"
      by (intro removeAll_id) auto
    with False Cons.prems Cons.IH [of "container @ [(key, new_statistics)]"] show ?thesis
      by (auto simp: update_category_step_def)
  qed
qed simp

text \<open>
  The update keeps the categories that did not exist before; every category that existed is
  deleted, wanted or not.
\<close>

lemma update_categories_keys:
  "fst ` set (update_categories container categories) = set categories - fst ` set container"
proof -
  obtain c r where l: "foldl update_category_step (container, map fst container) categories = (c, r)"
    by (cases "foldl update_category_step (container, map fst container) categories")
  from update_category_loop [OF _ l] have "r = map fst container"
    and "fst ` set c = fst ` set container \<union> set categories"
    by auto
  moreover have "fst ` {e \<in> set c. fst e \<notin> K} = fst ` set c - K" for K by blast
  ultimately show ?thesis by (auto simp: update_categories_def l split_beta)
qed

end
