(* ===== verification/Containment.thy ===== *)
theory Containment
  imports Elements
begin

text \<open>
  The containment rules that importing dhcpkit/ipv6/options.py and the modules of
  dhcpkit/ipv6/extensions leaves in the classes: their calls of
  \<open>add_may_contain\<close>, in the order of the files, run from empty dictionaries.
\<close>

type_synonym rule = "klass \<times> klass \<times> int \<times> int"

definition add_rules :: "rule list \<Rightarrow> containment \<Rightarrow> containment" where
  "add_rules rules T =
     foldl (\<lambda>T (c, k, mn, mx). add_may_contain c k mn mx T) T rules"

definition rfc3315_rules :: "rule list" where
  "rfc3315_rules =
     [(Message_class, OptionClass C_UnknownOption, 0, infinite_occurrence),
      (Message_class, OptionClass C_AuthenticationOption, 0, 1),
      (Option_class, OptionClass C_UnknownOption, 0, infinite_occurrence),
      (MessageClass (ClientServer SolicitMessage), OptionClass C_ClientIdOption, 1, 1),
      (MessageClass (ClientServer SolicitMessage), OptionClass C_IANAOption, 0, infinite_occurrence),
      (MessageClass (ClientServer SolicitMessage), OptionClass C_IATAOption, 0, infinite_occurrence),
      (MessageClass (ClientServer SolicitMessage), OptionClass C_OptionRequestOption, 0, 1),
      (MessageClass (ClientServer SolicitMessage), OptionClass C_ElapsedTimeOption, 1, 1),
      (MessageClass (ClientServer SolicitMessage), OptionClass C_RapidCommitOption, 0, 1),
      (MessageClass (ClientServer SolicitMessage), OptionClass C_UserClassOption, 0, infinite_occurrence),
      (MessageClass (ClientServer SolicitMessage), OptionClass C_VendorClassOption, 0, infinite_occurrence),
      (MessageClass (ClientServer SolicitMessage), OptionClass C_VendorSpecificInformationOption, 0, infinite_occurrence),
      (MessageClass (ClientServer SolicitMessage), OptionClass C_ReconfigureAcceptOption, 0, 1),
      (MessageClass (ClientServer AdvertiseMessage), OptionClass C_ClientIdOption, 1, 1),
      (MessageClass (ClientServer AdvertiseMessage), OptionClass C_ServerIdOption, 1, 1),
      (MessageClass (ClientServer AdvertiseMessage), OptionClass C_IANAOption, 0, infinite_occurrence),
      (MessageClass (ClientServer AdvertiseMessage), OptionClass C_IATAOption, 0, infinite_occurrence),
      (MessageClass (ClientServer AdvertiseMessage), OptionClass C_PreferenceOption, 0, 1),
      (MessageClass (ClientServer AdvertiseMessage), OptionClass C_StatusCodeOption, 0, 1),
      (MessageClass (ClientServer AdvertiseMessage), OptionClass C_UserClassOption, 0, infinite_occurrence),
      (MessageClass (ClientServer AdvertiseMessage), OptionClass C_VendorClassOption, 0, infinite_occurrence),
      (MessageClass (ClientServer AdvertiseMessage), OptionClass C_VendorSpecificInformationOption, 0, infinite_occurrence),
      (MessageClass (ClientServer AdvertiseMessage), OptionClass C_ReconfigureAcceptOption, 0, 1),
      (MessageClass (ClientServer RequestMessage), OptionClass C_ClientIdOption, 1, 1),
      (MessageClass (ClientServer RequestMessage), OptionClass C_ServerIdOption, 1, 1),
      (MessageClass (ClientServer RequestMessage), OptionClass C_IANAOption, 0, infinite_occurrence),
      (MessageClass (ClientServer RequestMessage), OptionClass C_IATAOption, 0, infinite_occurrence),
      (MessageClass (ClientServer RequestMessage), OptionClass C_OptionRequestOption, 0, 1),
      (MessageClass (ClientServer RequestMessage), OptionClass C_ElapsedTimeOption, 1, 1),
      (MessageClass (ClientServer RequestMessage), OptionClass C_UserClassOption, 0, infinite_occurrence),
      (MessageClass (ClientServer RequestMessage), OptionClass C_VendorClassOption, 0, infinite_occurrence),
      (MessageClass (ClientServer RequestMessage), OptionClass C_VendorSpecificInformationOption, 0, infinite_occurrence),
      (MessageClass (ClientServer RequestMessage), OptionClass C_ReconfigureAcceptOption, 0, 1),
      (MessageClass (ClientServer ConfirmMessage), OptionClass C_ClientIdOption, 1, 1),
      (MessageClass (ClientServer ConfirmMessage), OptionClass C_IANAOption, 0, infinite_occurrence),
      (MessageClass (ClientServer ConfirmMessage), OptionClass C_IATAOption, 0, infinite_occurrence),
      (MessageClass (ClientServer ConfirmMessage), OptionClass C_OptionRequestOption, 0, 1),
      (MessageClass (ClientServer ConfirmMessage), OptionClass C_ElapsedTimeOption, 1, 1),
      (MessageClass (ClientServer ConfirmMessage), OptionClass C_UserClassOption, 0, infinite_occurrence),
      (MessageClass (ClientServer ConfirmMessage), OptionClass C_VendorClassOption, 0, infinite_occurrence),
      (MessageClass (ClientServer ConfirmMessage), OptionClass C_VendorSpecificInformationOption, 0, infinite_occurrence),
      (MessageClass (ClientServer RenewMessage), OptionClass C_ClientIdOption, 1, 1),
      (MessageClass (ClientServer RenewMessage), OptionClass C_ServerIdOption, 1, 1),
      (MessageClass (ClientServer RenewMessage), OptionClass C_IANAOption, 0, infinite_occurrence),
      (MessageClass (ClientServer RenewMessage), OptionClass C_IATAOption, 0, infinite_occurrence),
      (MessageClass (ClientServer RenewMessage), OptionClass C_OptionRequestOption, 0, 1),
      (MessageClass (ClientServer RenewMessage), OptionClass C_ElapsedTimeOption, 1, 1),
      (MessageClass (ClientServer RenewMessage), OptionClass C_UserClassOption, 0, infinite_occurrence),
      (MessageClass (ClientServer RenewMessage), OptionClass C_VendorClassOption, 0, infinite_occurrence),
      (MessageClass (ClientServer RenewMessage), OptionClass C_VendorSpecificInformationOption, 0, infinite_occurrence),
      (MessageClass (ClientServer RenewMessage), OptionClass C_ReconfigureAcceptOption, 0, 1),
      (MessageClass (ClientServer RebindMessage), OptionClass C_ClientIdOption, 1, 1),
      (MessageClass (ClientServer RebindMessage), OptionClass C_IANAOption, 0, infinite_occurrence),
      (MessageClass (ClientServer RebindMessage), OptionClass C_IATAOption, 0, infinite_occurrence),
      (MessageClass (ClientServer RebindMessage), OptionClass C_OptionRequestOption, 0, 1),
      (MessageClass (ClientServer RebindMessage), OptionClass C_ElapsedTimeOption, 1, 1),
      (MessageClass (ClientServer RebindMessage), OptionClass C_UserClassOption, 0, infinite_occurrence),
      (MessageClass (ClientServer RebindMessage), OptionClass C_VendorClassOption, 0, infinite_occurrence),
      (MessageClass (ClientServer RebindMessage), OptionClass C_VendorSpecificInformationOption, 0, infinite_occurrence),
      (MessageClass (ClientServer RebindMessage), OptionClass C_ReconfigureAcceptOption, 0, 1),
      (MessageClass (ClientServer ReleaseMessage), OptionClass C_ClientIdOption, 1, 1),
      (MessageClass (ClientServer ReleaseMessage), OptionClass C_ServerIdOption, 1, 1),
      (MessageClass (ClientServer ReleaseMessage), OptionClass C_IANAOption, 0, infinite_occurrence),
      (MessageClass (ClientServer ReleaseMessage), OptionClass C_IATAOption, 0, infinite_occurrence),
      (MessageClass (ClientServer ReleaseMessage), OptionClass C_OptionRequestOption, 0, 1),
      (MessageClass (ClientServer ReleaseMessage), OptionClass C_ElapsedTimeOption, 1, 1),
      (MessageClass (ClientServer ReleaseMessage), OptionClass C_UserClassOption, 0, infinite_occurrence),
      (MessageClass (ClientServer ReleaseMessage), OptionClass C_VendorClassOption, 0, infinite_occurrence),
      (MessageClass (ClientServer ReleaseMessage), OptionClass C_VendorSpecificInformationOption, 0, infinite_occurrence),
      (MessageClass (ClientServer DeclineMessage), OptionClass C_ClientIdOption, 1, 1),
      (MessageClass (ClientServer DeclineMessage), OptionClass C_ServerIdOption, 1, 1),
      (MessageClass (ClientServer DeclineMessage), OptionClass C_IANAOption, 0, infinite_occurrence),
      (MessageClass (ClientServer DeclineMessage), OptionClass C_IATAOption, 0, infinite_occurrence),
      (MessageClass (ClientServer DeclineMessage), OptionClass C_OptionRequestOption, 0, 1),
      (MessageClass (ClientServer DeclineMessage), OptionClass C_ElapsedTimeOption, 1, 1),
      (MessageClass (ClientServer DeclineMessage), OptionClass C_UserClassOption, 0, infinite_occurrence),
      (MessageClass (ClientServer DeclineMessage), OptionClass C_VendorClassOption, 0, infinite_occurrence),
      (MessageClass (ClientServer DeclineMessage), OptionClass C_VendorSpecificInformationOption, 0, infinite_occurrence),
      (MessageClass (ClientServer ReplyMessage), OptionClass C_ClientIdOption, 0, 1),
      (MessageClass (ClientServer ReplyMessage), OptionClass C_ServerIdOption, 1, 1),
      (MessageClass (ClientServer ReplyMessage), OptionClass C_IANAOption, 0, infinite_occurrence),
      (MessageClass (ClientServer ReplyMessage), OptionClass C_IATAOption, 0, infinite_occurrence),
      (MessageClass (ClientServer ReplyMessage), OptionClass C_PreferenceOption, 0, 1),
      (MessageClass (ClientServer ReplyMessage), OptionClass C_ServerUnicastOption, 0, 1),
      (MessageClass (ClientServer ReplyMessage), OptionClass C_StatusCodeOption, 0, 1),
      (MessageClass (ClientServer ReplyMessage), OptionClass C_RapidCommitOption, 0, 1),
      (MessageClass (ClientServer ReplyMessage), OptionClass C_UserClassOption, 0, infinite_occurrence),
      (MessageClass (ClientServer ReplyMessage), OptionClass C_VendorClassOption, 0, infinite_occurrence),
      (MessageClass (ClientServer ReplyMessage), OptionClass C_VendorSpecificInformationOption, 0, infinite_occurrence),
      (MessageClass (ClientServer ReplyMessage), OptionClass C_ReconfigureAcceptOption, 0, 1),
      (MessageClass (ClientServer ReconfigureMessage), OptionClass C_ClientIdOption, 1, 1),
      (MessageClass (ClientServer ReconfigureMessage), OptionClass C_ServerIdOption, 1, 1),
      (MessageClass (ClientServer ReconfigureMessage), OptionClass C_OptionRequestOption, 0, 1),
      (MessageClass (ClientServer ReconfigureMessage), OptionClass C_ReconfigureMessageOption, 1, 1),
      (MessageClass (ClientServer InformationRequestMessage), OptionClass C_ClientIdOption, 1, 1),
      (MessageClass (ClientServer InformationRequestMessage), OptionClass C_ServerUnicastOption, 0, 1),
      (MessageClass (ClientServer InformationRequestMessage), OptionClass C_OptionRequestOption, 0, 1),
      (MessageClass (ClientServer InformationRequestMessage), OptionClass C_ElapsedTimeOption, 1, 1),
      (MessageClass (ClientServer InformationRequestMessage), OptionClass C_UserClassOption, 0, infinite_occurrence),
      (MessageClass (ClientServer InformationRequestMessage), OptionClass C_VendorClassOption, 0, infinite_occurrence),
      (MessageClass (ClientServer InformationRequestMessage), OptionClass C_VendorSpecificInformationOption, 0, infinite_occurrence),
      (MessageClass (ClientServer InformationRequestMessage), OptionClass C_ReconfigureAcceptOption, 0, 1),
      (MessageClass (RelayServer RelayForwardMessage), OptionClass C_RelayMessageOption, 0, 1),
      (MessageClass (RelayServer RelayForwardMessage), OptionClass C_InterfaceIdOption, 0, 1),
      (MessageClass (RelayServer RelayReplyMessage), OptionClass C_RelayMessageOption, 1, 1),
      (MessageClass (RelayServer RelayReplyMessage), OptionClass C_InterfaceIdOption, 0, 1),
      (OptionClass C_IANAOption, OptionClass C_IAAddressOption, 0, infinite_occurrence),
      (OptionClass C_IANAOption, OptionClass C_StatusCodeOption, 0, infinite_occurrence),
      (OptionClass C_IATAOption, OptionClass C_IAAddressOption, 0, infinite_occurrence),
      (OptionClass C_IATAOption, OptionClass C_StatusCodeOption, 0, infinite_occurrence),
      (OptionClass C_IAAddressOption, OptionClass C_StatusCodeOption, 0, infinite_occurrence),
      (OptionClass C_RelayMessageOption, Message_class, 0, infinite_occurrence)]"

definition prefix_delegation_rules :: "rule list" where
  "prefix_delegation_rules =
     [(MessageClass (ClientServer SolicitMessage), OptionClass C_IAPDOption, 0, infinite_occurrence),
      (MessageClass (ClientServer AdvertiseMessage), OptionClass C_IAPDOption, 0, infinite_occurrence),
      (MessageClass (ClientServer RequestMessage), OptionClass C_IAPDOption, 0, infinite_occurrence),
      (MessageClass (ClientServer ConfirmMessage), OptionClass C_IAPDOption, 0, infinite_occurrence),
      (MessageClass (ClientServer RenewMessage), OptionClass C_IAPDOption, 0, infinite_occurrence),
      (MessageClass (ClientServer RebindMessage), OptionClass C_IAPDOption, 0, infinite_occurrence),
      (MessageClass (ClientServer ReleaseMessage), OptionClass C_IAPDOption, 0, infinite_occurrence),
      (MessageClass (ClientServer ReplyMessage), OptionClass C_IAPDOption, 0, infinite_occurrence),
      (OptionClass C_IAPDOption, OptionClass C_IAPrefixOption, 0, infinite_occurrence),
      (OptionClass C_IAPDOption, OptionClass C_StatusCodeOption, 0, 1),
      (OptionClass C_IAPrefixOption, OptionClass C_StatusCodeOption, 0, 1)]"

text \<open>
  The other extensions, without the options that carry domain names (theory DomainOptions).
  The modules relay_echo_request.py and bulk_leasequery.py have no rules.
\<close>

definition dns_rules :: "rule list" where
  "dns_rules =
     [(MessageClass (ClientServer SolicitMessage), OptionClass C_RecursiveNameServersOption, 0, infinite_occurrence),
      (MessageClass (ClientServer AdvertiseMessage), OptionClass C_RecursiveNameServersOption, 0, infinite_occurrence),
      (MessageClass (ClientServer RequestMessage), OptionClass C_RecursiveNameServersOption, 0, infinite_occurrence),
      (MessageClass (ClientServer RenewMessage), OptionClass C_RecursiveNameServersOption, 0, infinite_occurrence),
      (MessageClass (ClientServer RebindMessage), OptionClass C_RecursiveNameServersOption, 0, infinite_occurrence),
      (MessageClass (ClientServer InformationRequestMessage), OptionClass C_RecursiveNameServersOption, 0, infinite_occurrence),
      (MessageClass (ClientServer ReplyMessage), OptionClass C_RecursiveNameServersOption, 0, infinite_occurrence)]"

definition leasequery_rules :: "rule list" where
  "leasequery_rules =
     [(MessageClass (ClientServer LeasequeryMessage), OptionClass C_ClientIdOption, 1, infinite_occurrence),
      (MessageClass (ClientServer LeasequeryMessage), OptionClass C_ServerIdOption, 0, infinite_occurrence),
      (MessageClass (ClientServer LeasequeryMessage), OptionClass C_LQQueryOption, 1, 1),
      (MessageClass (ClientServer LeasequeryMessage), OptionClass C_OptionRequestOption, 0, infinite_occurrence),
      (MessageClass (ClientServer LeasequeryMessage), OptionClass C_StatusCodeOption, 0, infinite_occurrence),
      (MessageClass (ClientServer LeasequeryReplyMessage), OptionClass C_ClientIdOption, 1, 1),
      (MessageClass (ClientServer LeasequeryReplyMessage), OptionClass C_ServerIdOption, 1, 1),
      (MessageClass (ClientServer LeasequeryReplyMessage), OptionClass C_ClientDataOption, 0, 1),
      (MessageClass (ClientServer LeasequeryReplyMessage), OptionClass C_LQRelayDataOption, 0, infinite_occurrence),
      (MessageClass (ClientServer LeasequeryReplyMessage), OptionClass C_LQClientLink, 0, infinite_occurrence),
      (MessageClass (ClientServer LeasequeryReplyMessage), OptionClass C_StatusCodeOption, 0, infinite_occurrence),
      (OptionClass C_LQQueryOption, OptionClass C_IAAddressOption, 0, infinite_occurrence),
      (OptionClass C_LQQueryOption, OptionClass C_ClientIdOption, 0, infinite_occurrence),
      (OptionClass C_LQQueryOption, OptionClass C_OptionRequestOption, 0, infinite_occurrence),
      (OptionClass C_ClientDataOption, Option_class, 0, infinite_occurrence),
      (OptionClass C_LQRelayDataOption, MessageClass (RelayServer RelayForwardMessage), 1, 1)]"

definition linklayer_id_rules :: "rule list" where
  "linklayer_id_rules =
     [(RelayServerMessage_class, OptionClass C_LinkLayerIdOption, 0, 1)]"

definition map_rules :: "rule list" where
  "map_rules =
     [(MessageClass (ClientServer SolicitMessage), S46ContainerOption_class, 0, infinite_occurrence),
      (MessageClass (ClientServer AdvertiseMessage), S46ContainerOption_class, 0, infinite_occurrence),
      (MessageClass (ClientServer RequestMessage), S46ContainerOption_class, 0, infinite_occurrence),
      (MessageClass (ClientServer ConfirmMessage), S46ContainerOption_class, 0, infinite_occurrence),
      (MessageClass (ClientServer RenewMessage), S46ContainerOption_class, 0, infinite_occurrence),
      (MessageClass (ClientServer RebindMessage), S46ContainerOption_class, 0, infinite_occurrence),
      (MessageClass (ClientServer ReleaseMessage), S46ContainerOption_class, 0, infinite_occurrence),
      (MessageClass (ClientServer ReplyMessage), S46ContainerOption_class, 0, infinite_occurrence),
      (OptionClass C_S46RuleOption, OptionClass C_S46PortParametersOption, 0, infinite_occurrence),
      (OptionClass C_S46V4V6BindingOption, OptionClass C_S46PortParametersOption, 0, infinite_occurrence),
      (OptionClass C_S46MapEContainerOption, OptionClass C_S46RuleOption, 1, infinite_occurrence),
      (OptionClass C_S46MapEContainerOption, OptionClass C_S46BROption, 1, infinite_occurrence),
      (OptionClass C_S46MapEContainerOption, OptionClass C_S46PortParametersOption, 0, infinite_occurrence),
      (OptionClass C_S46MapTContainerOption, OptionClass C_S46RuleOption, 1, infinite_occurrence),
      (OptionClass C_S46MapTContainerOption, OptionClass C_S46DMROption, 1, 1),
      (OptionClass C_S46MapTContainerOption, OptionClass C_S46PortParametersOption, 0, infinite_occurrence),
      (OptionClass C_S46LWContainerOption, OptionClass C_S46V4V6BindingOption, 0, 1),
      (OptionClass C_S46LWContainerOption, OptionClass C_S46BROption, 1, infinite_occurrence),
      (OptionClass C_S46LWContainerOption, OptionClass C_S46PortParametersOption, 0, infinite_occurrence)]"

definition pd_exclude_rules :: "rule list" where
  "pd_exclude_rules =
     [(OptionClass C_IAPDOption, OptionClass C_PDExcludeOption, 0, 1)]"

definition remote_id_rules :: "rule list" where
  "remote_id_rules =
     [(MessageClass (RelayServer RelayForwardMessage), OptionClass C_RemoteIdOption, 0, infinite_occurrence),
      (MessageClass (RelayServer RelayReplyMessage), OptionClass C_RemoteIdOption, 0, infinite_occurrence)]"

definition sip_servers_rules :: "rule list" where
  "sip_servers_rules =
     [(MessageClass (ClientServer SolicitMessage), OptionClass C_SIPServersAddressListOption, 0, infinite_occurrence),
      (MessageClass (ClientServer AdvertiseMessage), OptionClass C_SIPServersAddressListOption, 0, infinite_occurrence),
      (MessageClass (ClientServer RequestMessage), OptionClass C_SIPServersAddressListOption, 0, infinite_occurrence),
      (MessageClass (ClientServer RenewMessage), OptionClass C_SIPServersAddressListOption, 0, infinite_occurrence),
      (MessageClass (ClientServer RebindMessage), OptionClass C_SIPServersAddressListOption, 0, infinite_occurrence),
      (MessageClass (ClientServer InformationRequestMessage), OptionClass C_SIPServersAddressListOption, 0, infinite_occurrence),
      (MessageClass (ClientServer ReplyMessage), OptionClass C_SIPServersAddressListOption, 0, infinite_occurrence)]"

definition sntp_rules :: "rule list" where
  "sntp_rules =
     [(MessageClass (ClientServer SolicitMessage), OptionClass C_SNTPServersOption, 0, infinite_occurrence),
      (MessageClass (ClientServer AdvertiseMessage), OptionClass C_SNTPServersOption, 0, infinite_occurrence),
      (MessageClass (ClientServer RequestMessage), OptionClass C_SNTPServersOption, 0, infinite_occurrence),
      (MessageClass (ClientServer RenewMessage), OptionClass C_SNTPServersOption, 0, infinite_occurrence),
      (MessageClass (ClientServer RebindMessage), OptionClass C_SNTPServersOption, 0, infinite_occurrence),
      (MessageClass (ClientServer InformationRequestMessage), OptionClass C_SNTPServersOption, 0, infinite_occurrence),
      (MessageClass (ClientServer ReplyMessage), OptionClass C_SNTPServersOption, 0, infinite_occurrence)]"

definition sol_max_rt_rules :: "rule list" where
  "sol_max_rt_rules =
     [(MessageClass (ClientServer AdvertiseMessage), OptionClass C_SolMaxRTOption, 0, 1),
      (MessageClass (ClientServer ReplyMessage), OptionClass C_SolMaxRTOption, 0, 1),
      (MessageClass (ClientServer AdvertiseMessage), OptionClass C_InfMaxRTOption, 0, 1),
      (MessageClass (ClientServer ReplyMessage), OptionClass C_InfMaxRTOption, 0, 1)]"

definition subscriber_id_rules :: "rule list" where
  "subscriber_id_rules =
     [(MessageClass (RelayServer RelayForwardMessage), OptionClass C_SubscriberIdOption, 0, infinite_occurrence),
      (MessageClass (RelayServer RelayReplyMessage), OptionClass C_SubscriberIdOption, 0, infinite_occurrence)]"

definition timezone_rules :: "rule list" where
  "timezone_rules =
     [(MessageClass (ClientServer SolicitMessage), OptionClass C_TZDBTimezoneOption, 0, 1),
      (MessageClass (ClientServer AdvertiseMessage), OptionClass C_TZDBTimezoneOption, 0, 1),
      (MessageClass (ClientServer RequestMessage), OptionClass C_TZDBTimezoneOption, 0, 1),
      (MessageClass (ClientServer RenewMessage), OptionClass C_TZDBTimezoneOption, 0, 1),
      (MessageClass (ClientServer RebindMessage), OptionClass C_TZDBTimezoneOption, 0, 1),
      (MessageClass (ClientServer InformationRequestMessage), OptionClass C_TZDBTimezoneOption, 0, 1),
      (MessageClass (ClientServer ReplyMessage), OptionClass C_TZDBTimezoneOption, 0, 1)]"

definition extension_rules :: "rule list" where
  "extension_rules =
     dns_rules @ leasequery_rules @ linklayer_id_rules @ map_rules @
     pd_exclude_rules @ remote_id_rules @ sip_servers_rules @ sntp_rules @
     sol_max_rt_rules @ subscriber_id_rules @ timezone_rules"

definition core_rules :: "rule list" where
  "core_rules = rfc3315_rules @ prefix_delegation_rules @ extension_rules"

definition core_containment :: containment where
  "core_containment = add_rules core_rules []"

lemmas extension_rules_defs =
  dns_rules_def leasequery_rules_def linklayer_id_rules_def map_rules_def
  pd_exclude_rules_def remote_id_rules_def sip_servers_rules_def sntp_rules_def
  sol_max_rt_rules_def subscriber_id_rules_def timezone_rules_def

subsection \<open>What the rules say\<close>

lemma own_may_contain_Nil [simp]: "own_may_contain [] c = []"
  by (simp add: own_may_contain_def)

lemma add_rules_keys:
  assumes "map_of (own_may_contain (add_rules rules T) c) k \<noteq> None"
  shows "map_of (own_may_contain T c) k \<noteq> None \<or> (\<exists>l. (c, k, l) \<in> set rules)"
  using assms
proof (induction rules arbitrary: T)
  case (Cons r rules)
  obtain c' k' mn mx where r: "r = (c', k', mn, mx)" by (cases r)
  from Cons.IH [of "add_may_contain c' k' mn mx T"] Cons.prems show ?case
    by (auto simp: r add_rules_def own_add_may_contain split: if_splits)
qed (simp add: add_rules_def)

lemma may_contain_limits_own:
  "may_contain_limits T c k \<noteq> None \<longleftrightarrow> (\<exists>d \<in> set (mro c). map_of (own_may_contain T d) k \<noteq> None)"
  by (cases c rule: mro.cases) (auto simp: may_contain_limits_def map_add_Some_iff)

text \<open>
  Only \<open>ClientDataOption\<close> may contain options of any class, and every other rule names a class
  of its own, or the common class of the softwire containers.
\<close>

lemma core_rules_specific:
  "list_all (\<lambda>(c, k, _). (k = Option_class \<longrightarrow> c = OptionClass C_ClientDataOption) \<and> k \<noteq> ProtocolElement_class)
     core_rules"
  by code_simp

lemma core_containment_specific:
  "c \<noteq> OptionClass C_ClientDataOption \<Longrightarrow> may_contain_limits core_containment c Option_class = None"
  "may_contain_limits core_containment c ProtocolElement_class = None"
proof -
  have "\<exists>d \<in> set (mro c). \<exists>l. (d, k, l) \<in> set core_rules"
    if "may_contain_limits core_containment c k \<noteq> None" for k
  proof -
    from that obtain d where d: "d \<in> set (mro c)"
      and "map_of (own_may_contain core_containment d) k \<noteq> None"
      unfolding may_contain_limits_own by blast
    from add_rules_keys [OF this(2) [unfolded core_containment_def]] d show ?thesis by auto
  qed
  then have rule: "\<exists>d \<in> set (mro c). (k = Option_class \<longrightarrow> d = OptionClass C_ClientDataOption)
      \<and> k \<noteq> ProtocolElement_class"
    if "may_contain_limits core_containment c k \<noteq> None" for k
    using that core_rules_specific unfolding list_all_iff by fast
  have "OptionClass C_ClientDataOption \<in> set (mro c) \<Longrightarrow> c = OptionClass C_ClientDataOption"
    by (cases c rule: mro.cases) (auto split: if_splits)
  then show "may_contain_limits core_containment c Option_class = None"
    if "c \<noteq> OptionClass C_ClientDataOption"
    using that rule [of Option_class] by blast
  show "may_contain_limits core_containment c ProtocolElement_class = None"
    using rule [of ProtocolElement_class] by blast
qed

text \<open>So an option is classified as its own class, or not at all, softwire containers apart.\<close>

lemma core_get_element_class:
  assumes "option_base oc = Option_class" and "c \<noteq> OptionClass C_ClientDataOption"
  shows "get_element_class core_containment c (OptionClass oc) =
     (case may_contain_limits core_containment c (OptionClass oc) of
        None \<Rightarrow> None
      | Some (mn, mx) \<Rightarrow> if mx < 1 then None else Some (OptionClass oc))"
  using assms by (auto simp: get_element_class_nearest core_containment_specific split: option.splits)

lemma core_may_contain_option:
  assumes "option_base oc = Option_class" and "c \<noteq> OptionClass C_ClientDataOption"
  shows "may_contain core_containment c (OptionClass oc) \<longleftrightarrow>
     (\<exists>mn mx. may_contain_limits core_containment c (OptionClass oc) = Some (mn, mx) \<and> 1 \<le> mx)"
  using assms by (auto simp: may_contain_def core_get_element_class split: option.splits)

lemma get_element_class_own:
  "get_element_class T c (OptionClass a) = Some (OptionClass oc) \<Longrightarrow> a = oc"
  by (auto dest!: get_element_class_Some simp: issubclass_def split: if_splits)

lemma core_validate_contains:
  assumes "validate_contains core_containment c (map OptionClass ocs) = Inr ()"
    and c: "c \<noteq> OptionClass C_ClientDataOption" and oc: "option_base oc = Option_class"
  shows "oc \<in> set ocs \<Longrightarrow> may_contain core_containment c (OptionClass oc)"
    and "may_contain_limits core_containment c (OptionClass oc) = Some (mn, mx) \<Longrightarrow> 1 \<le> mx \<Longrightarrow>
      mn \<le> int (count_list ocs oc) \<and> int (count_list ocs oc) \<le> mx"
proof -
  from assms(1) have ok: "\<forall>oc \<in> set ocs. may_contain core_containment c (OptionClass oc)"
    and occ: "\<forall>k mn mx. may_contain_limits core_containment c k = Some (mn, mx) \<longrightarrow>
       mn \<le> int (count_list (map (get_element_class core_containment c \<circ> OptionClass) ocs) (Some k))
       \<and> int (count_list (map (get_element_class core_containment c \<circ> OptionClass) ocs) (Some k)) \<le> mx"
    by (auto simp: validate_contains_iff)
  show "oc \<in> set ocs \<Longrightarrow> may_contain core_containment c (OptionClass oc)"
    using ok by blast
  assume lim: "may_contain_limits core_containment c (OptionClass oc) = Some (mn, mx)" "1 \<le> mx"
  have "count_list (map (get_element_class core_containment c \<circ> OptionClass) ocs) (Some (OptionClass oc))
      = count_list ocs oc"
    using lim core_get_element_class [OF oc c]
    by (induction ocs) (auto dest: get_element_class_own)
  with occ lim show "mn \<le> int (count_list ocs oc) \<and> int (count_list ocs oc) \<le> mx"
    by fastforce
qed

subsection \<open>The rules of one class\<close>

text \<open>
  The dictionary of a class depends on the calls for that class only; evaluation runs over
  those.
\<close>

definition own_rules :: "rule list \<Rightarrow> klass \<Rightarrow> (klass \<times> limits) list" where
  "own_rules rules c =
     foldl (\<lambda>d (_, k, l). AList.update k l d) [] (filter (\<lambda>r. fst r = c) rules)"

lemma own_may_contain_add:
  "own_may_contain (add_may_contain c k mn mx T) d =
     (if d = c then AList.update k (mn, mx) (own_may_contain T d) else own_may_contain T d)"
  by (simp add: own_may_contain_def add_may_contain_def update_conv)

lemma own_may_contain_add_rules:
  "own_may_contain (add_rules rules T) c =
     foldl (\<lambda>d (_, k, l). AList.update k l d) (own_may_contain T c) (filter (\<lambda>r. fst r = c) rules)"
proof (induction rules arbitrary: T)
  case (Cons r rules)
  obtain c' k mn mx where r: "r = (c', k, mn, mx)" by (cases r)
  have "add_rules (r # rules) T = add_rules rules (add_may_contain c' k mn mx T)"
    by (simp add: add_rules_def r)
  then show ?case by (simp add: Cons.IH own_may_contain_add r)
qed (simp add: add_rules_def)

lemma own_core_containment: "own_may_contain core_containment c = own_rules core_rules c"
  by (simp add: core_containment_def own_rules_def own_may_contain_add_rules)

definition rules_of :: "klass \<Rightarrow> (klass \<times> limits) list" where
  "rules_of c = concat (map (own_may_contain core_containment) (mro c))"

lemma rules_of_code [code]: "rules_of c = concat (map (own_rules core_rules) (mro c))"
  by (simp add: rules_of_def own_core_containment [abs_def])

lemma limits_rules: "may_contain_limits core_containment c k = map_of (rules_of c) k"
  by (simp add: may_contain_limits_def rules_of_def)

text \<open>Classification and validation by the list of the rules of the containing class.\<close>

definition class_by :: "(klass \<times> limits) list \<Rightarrow> klass \<Rightarrow> klass option" where
  "class_by rs e =
     (case find (\<lambda>k. map_of rs k \<noteq> None) (mro e) of
        None \<Rightarrow> None
      | Some k \<Rightarrow> if snd (the (map_of rs k)) < 1 then None else Some k)"

definition contains_by :: "(klass \<times> limits) list \<Rightarrow> klass list \<Rightarrow> bool" where
  "contains_by rs es \<longleftrightarrow>
     (let counted = map (class_by rs) es in
      list_all (\<lambda>c. c \<noteq> None) counted
      \<and> list_all (\<lambda>k. case map_of rs k of
          None \<Rightarrow> True
        | Some (mn, mx) \<Rightarrow>
            mn \<le> int (count_list counted (Some k)) \<and> int (count_list counted (Some k)) \<le> mx)
        (map fst rs))"

lemma core_class_by: "get_element_class core_containment c e = class_by (rules_of c) e"
proof -
  have limits: "may_contain_limits core_containment c = map_of (rules_of c)"
    by (rule ext) (rule limits_rules)
  show ?thesis unfolding class_by_def get_element_class_nearest limits ..
qed

lemma core_may_contain_rules: "may_contain core_containment c e \<longleftrightarrow> class_by (rules_of c) e \<noteq> None"
  by (simp add: may_contain_def core_class_by)

lemma contains_by_iff:
  "contains_by rs es \<longleftrightarrow>
     (\<forall>e \<in> set es. class_by rs e \<noteq> None)
     \<and> (\<forall>k mn mx. map_of rs k = Some (mn, mx) \<longrightarrow>
           mn \<le> int (count_list (map (class_by rs) es) (Some k))
           \<and> int (count_list (map (class_by rs) es) (Some k)) \<le> mx)"
proof -
  have "(\<forall>k \<in> set (map fst rs). case map_of rs k of None \<Rightarrow> True | Some (mn, mx) \<Rightarrow> P k mn mx) \<longleftrightarrow>
      (\<forall>k mn mx. map_of rs k = Some (mn, mx) \<longrightarrow> P k mn mx)" for P
  proof -
    have "k \<in> set (map fst rs)" if "map_of rs k = Some l" for k l
      using map_of_SomeD [OF that] by force
    then have "(\<forall>k \<in> set (map fst rs). case map_of rs k of None \<Rightarrow> True | Some (mn, mx) \<Rightarrow> P k mn mx) \<longleftrightarrow>
        (\<forall>k. case map_of rs k of None \<Rightarrow> True | Some (mn, mx) \<Rightarrow> P k mn mx)"
      unfolding Ball_def by (metis (mono_tags, lifting) option.case_eq_if option.collapse)
    also have "\<dots> \<longleftrightarrow> (\<forall>k mn mx. map_of rs k = Some (mn, mx) \<longrightarrow> P k mn mx)"
      by (auto split: option.splits)
    finally show ?thesis .
  qed
  note limits = this
  show ?thesis
    unfolding contains_by_def Let_def list_all_iff limits by simp
qed

lemma validate_contains_InlD: "validate_contains T c es = Inl e \<Longrightarrow> e = ValueError"
  by (auto simp: validate_contains_def Let_def rbind_eq_Inl guard_eq_Inl
    dest!: for_all_InlD dest: check_occurrence_not_fuel [THEN disjE])
    (metis check_occurrence_not_fuel)

lemma core_validate_by:
  "validate_contains core_containment c es =
     (if contains_by (rules_of c) es then Inr () else Inl ValueError)"
proof -
  have "validate_contains core_containment c es = Inr () \<longleftrightarrow> contains_by (rules_of c) es"
    by (simp add: validate_contains_iff contains_by_iff core_may_contain_rules core_class_by [abs_def]
      limits_rules)
  then show ?thesis
    by (cases "validate_contains core_containment c es") (auto dest: validate_contains_InlD)
qed

lemmas core_by = core_validate_by core_class_by core_may_contain_rules limits_rules

end
