(* ===== verification/MessageHandling.thy ===== *)
theory MessageHandling
  imports Filters Statistics Containment
begin

text \<open>
  dhcpkit/ipv6/server/message_handler.py: the order in which the handlers of a server run on a
  transaction, the response they start from, and what each exception turns the response into.
  The handlers that server extensions add (\<open>server_extension_registry\<close>) are parameters.
\<close>

record message_handler =
  server_id :: duid
  mh_filters :: "handler_filter list"
  mh_handlers :: "handler list"
  mh_allow_rapid_commit :: bool
  mh_rapid_commit_rejections :: bool
  extension_setup_handlers :: "handler list"
  extension_cleanup_handlers :: "handler list"

definition get_setup_handlers :: "containment \<Rightarrow> message_handler \<Rightarrow> handler list" where
  "get_setup_handlers T mh =
     (if mh_allow_rapid_commit mh then [RapidCommitHandler (mh_rapid_commit_rejections mh)] else [])
     @ [ServerIdHandler T (server_id mh), ClientIdHandler T, InterfaceIdOptionHandler T]
     @ extension_setup_handlers mh"

definition get_cleanup_handlers :: "message_handler \<Rightarrow> handler list" where
  "get_cleanup_handlers mh =
     [RejectUnwantedUnicastHandler, UnansweredIAOptionHandler True]
     @ extension_cleanup_handlers mh
     @ [AddMissingStatusOptionHandler]"

definition get_handlers :: "containment \<Rightarrow> message_handler \<Rightarrow> transaction_bundle \<Rightarrow> handler list res" where
  "get_handlers T mh b =
     rbind (concat_res (filter_get_handlers b) (mh_filters mh)) (\<lambda>filtered.
     Inr (get_setup_handlers T mh @ filtered @ mh_handlers mh @ get_cleanup_handlers mh))"

definition start_response :: "client_server_class \<Rightarrow> client_server \<Rightarrow> transaction_bundle \<Rightarrow> transaction_bundle" where
  "start_response c req b =
     create_outgoing_relay_messages
       (set_response (Some \<lparr>cs_class = c, cs_transaction_id = cs_transaction_id req, cs_options = []\<rparr>) b)"

definition init_response :: step where
  "init_response b =
     (case request b of
        None \<Rightarrow> raise_in CannotRespondError b
      | Some req \<Rightarrow>
          if cs_class req = SolicitMessage then Inr (start_response AdvertiseMessage req b)
          else if cs_class req \<in> {RequestMessage, RenewMessage, RebindMessage, ReleaseMessage,
                                  DeclineMessage, InformationRequestMessage}
          then Inr (start_response ReplyMessage req b)
          else if cs_class req = ConfirmMessage then
            (if list_ex (\<lambda>option. get_options_of_type [C_IAAddressOption, C_IAPrefixOption]
                                    (suboptions option) \<noteq> [])
                  (get_options_of_type [C_IANAOption, C_IATAOption, C_IAPDOption] (cs_options req))
             then Inr (start_response ReplyMessage req b)
             else raise_in CannotRespondError b)
          else if cs_class req = LeasequeryMessage
          then Inr (start_response LeasequeryReplyMessage req b)
          else raise_in CannotRespondError b)"

text \<open>
  The replies that only carry a status.  Where the request has no client id the code puts
  \<open>None\<close> in the list of options, and saving the reply raises \<open>AttributeError\<close>; no request that
  \<open>validate\<close> accepts is without one, and here the construction raises.
\<close>

definition construct_status_reply ::
  "client_server_class \<Rightarrow> message_handler \<Rightarrow> transaction_bundle \<Rightarrow> int \<Rightarrow> pystr \<Rightarrow> client_server res" where
  "construct_status_reply c mh b status_code status_message =
     (case request b of
        None \<Rightarrow> Inl AttributeError
      | Some req \<Rightarrow>
          (case get_option_of_type [C_ClientIdOption] (cs_options req) of
             None \<Rightarrow> Inl AttributeError
           | Some client_id \<Rightarrow>
               Inr \<lparr>cs_class = c, cs_transaction_id = cs_transaction_id req,
                 cs_options = [client_id, Plain (ServerIdOption (Some (server_id mh))),
                               Plain (StatusCodeOption status_code status_message)]\<rparr>))"

definition construct_plain_status_reply ::
  "message_handler \<Rightarrow> transaction_bundle \<Rightarrow> int \<Rightarrow> pystr \<Rightarrow> client_server res" where
  "construct_plain_status_reply = construct_status_reply ReplyMessage"

definition construct_leasequery_status_reply ::
  "message_handler \<Rightarrow> transaction_bundle \<Rightarrow> int \<Rightarrow> pystr \<Rightarrow> client_server res" where
  "construct_leasequery_status_reply = construct_status_reply LeasequeryReplyMessage"

definition construct_use_multicast_reply ::
  "message_handler \<Rightarrow> transaction_bundle \<Rightarrow> client_server option res" where
  "construct_use_multicast_reply mh b =
     (if received_over_multicast b then Inr None
      else
        rbind (construct_plain_status_reply mh b 5
          (lit ''You cannot send requests directly to this server, please use the proper multicast addresses''))
          (\<lambda>m. Inr (Some m)))"

subsection \<open>The dispatcher\<close>

text \<open>Analysis: every exception of a handler is ignored.\<close>

definition analyse :: "(handler \<Rightarrow> step) \<Rightarrow> handler list \<Rightarrow> transaction_bundle \<Rightarrow> transaction_bundle" where
  "analyse phase handlers b =
     foldl (\<lambda>b h. case phase h b of Inl (e, b') \<Rightarrow> b' | Inr b' \<Rightarrow> b') b handlers"

definition process :: "handler list \<Rightarrow> step" where
  "process handlers b =
     rbind (run_steps handler_pre handlers b) (\<lambda>b.
     rbind (init_response b) (\<lambda>b.
     rbind (run_steps handler_handle handlers b) (\<lambda>b.
     run_steps handler_post handlers b)))"

text \<open>The counter of a status code in a reply that signals an error.\<close>

definition status_event :: "int \<Rightarrow> event" where
  "status_event status_code =
     (if status_code = 7 then Unknown_query_type
      else if status_code = 8 then Malformed_query
      else if status_code = 10 then Not_allowed
      else Other_error)"

text \<open>The \<open>except\<close> clauses: the events to count, and the new response (or the exception that escapes).\<close>

definition recover ::
  "message_handler \<Rightarrow> handler_exception \<Rightarrow> transaction_bundle \<Rightarrow>
   event list \<times> (transaction_bundle res)" where
  "recover mh e b =
     (case e of
        ForOtherServerError \<Rightarrow> ([For_other_server], Inr (set_response None b))
      | CannotRespondError \<Rightarrow> ([Do_not_respond], Inr (set_response None b))
      | UseMulticastError \<Rightarrow>
          ([Use_multicast],
           rbind (construct_use_multicast_reply mh b) (\<lambda>m. Inr (set_response m b)))
      | ReplyWithStatusError c m \<Rightarrow>
          ([status_event c],
           rbind (construct_plain_status_reply mh b c m) (\<lambda>m. Inr (set_response (Some m) b)))
      | ReplyWithLeasequeryError c m \<Rightarrow>
          ([status_event c],
           rbind (construct_leasequery_status_reply mh b c m) (\<lambda>m. Inr (set_response (Some m) b)))
      | PythonError e \<Rightarrow> ([], Inl e))"

text \<open>The \<open>try\<close> statement: the phases, and the recovery from an exception.\<close>

definition run_phases ::
  "message_handler \<Rightarrow> handler list \<Rightarrow> transaction_bundle \<Rightarrow> event list \<times> (transaction_bundle res)" where
  "run_phases mh handlers b =
     (case process handlers b of
        Inr b' \<Rightarrow> ([], Inr b')
      | Inl (e, b') \<Rightarrow> recover mh e b')"

definition count_events :: "event list \<Rightarrow> stat_ref list \<Rightarrow> server_statistics \<Rightarrow> server_statistics" where
  "count_events es refs st = foldl (\<lambda>st e. count_on e refs st) st es"

text \<open>
  \<open>MessageHandler.handle\<close>: the resulting bundle or the exception that escapes, and the
  statistics, whose changes an exception does not undo.
\<close>

definition message_handler_handle ::
  "containment \<Rightarrow> message_handler \<Rightarrow> stat_ref list \<Rightarrow> transaction_bundle \<Rightarrow> server_statistics \<Rightarrow>
   transaction_bundle res \<times> server_statistics" where
  "message_handler_handle T mh refs b st =
     (case request b of
        None \<Rightarrow> (Inr b, st)
      | Some req \<Rightarrow>
          (let b = b\<lparr>allow_rapid_commit := mh_allow_rapid_commit mh\<rparr>;
               st = count_on (Message_in (client_server_type (cs_class req))) refs st
           in
           case get_handlers T mh b of
             Inl e \<Rightarrow> (Inl e, st)
           | Inr handlers \<Rightarrow>
               (let b = analyse analyse_pre handlers b;
                    (events, result) = run_phases mh handlers b;
                    st = count_events events refs st
                in
                case result of
                  Inl e \<Rightarrow> (Inl e, st)
                | Inr b \<Rightarrow>
                    (let b = analyse analyse_post handlers b in
                     (Inr b,
                      case response b of
                        Some m \<Rightarrow> count_on (Message_out (client_server_type (cs_class m))) refs st
                      | None \<Rightarrow> st)))))"

end
