(* ===== verification/Worker.thy ===== *)
theory Worker
  imports MessageHandling
begin

text \<open>
  dhcpkit/ipv6/server/worker.py: what a worker process does with one packet.  The listener
  that received it has put the meta-data in an \<open>IncomingPacketBundle\<close>; sending a reply is the
  \<open>Replier\<close>'s, a parameter that says whether a message is sent, refused with a
  \<open>ValueError\<close>, or fails otherwise.
\<close>

record incoming_packet =
  packet_data :: bytes
  source_address :: "ipv6 option"
  packet_link_address :: ipv6
  packet_over_multicast :: bool
  packet_over_tcp :: bool
  packet_marks :: "pystr list"
  packet_relay_options :: "dhcp_option list"

definition parse_incoming_request ::
  "registry \<Rightarrow> containment \<Rightarrow> incoming_packet \<Rightarrow> transaction_bundle res" where
  "parse_incoming_request R T packet =
     rbind (Message_parse R (packet_data packet)) (\<lambda>(len, incoming).
     rbind (message_validate T incoming) (\<lambda>_.
     let next_hop_count =
           (case incoming of
              RelayServerMessage RelayForwardMessage h l p os \<Rightarrow> h + 1
            | _ \<Rightarrow> 0);
         relay_options =
           packet_relay_options packet @ [RelayMessageOption (Some incoming)];
         wrapped =
           RelayServerMessage RelayForwardMessage next_hop_count
             (Some (packet_link_address packet)) (source_address packet) relay_options
     in
     TransactionBundle wrapped (packet_over_multicast packet) (packet_over_tcp packet) False
       (packet_marks packet)))"

definition verify_response :: "message \<Rightarrow> unit res" where
  "verify_response outgoing =
     (case outgoing of
        RelayServerMessage RelayReplyMessage h l p options \<Rightarrow>
          guard (relayed_message options \<noteq> None) ValueError
      | _ \<Rightarrow> Inl ValueError)"

text \<open>
  \<open>decode(encoding='utf-8', errors='replace')\<close>: a maximal ill-formed subpart becomes one
  replacement character.  \<open>ill_formed_length\<close> is its length where \<open>utf8_step\<close> fails.
\<close>

definition second_ok :: "nat \<Rightarrow> nat \<Rightarrow> bool" where
  "second_ok a b \<longleftrightarrow> continuation b \<and>
     (a = 0xE0 \<longrightarrow> 0xA0 \<le> b) \<and> (a = 0xED \<longrightarrow> b < 0xA0) \<and>
     (a = 0xF0 \<longrightarrow> 0x90 \<le> b) \<and> (a = 0xF4 \<longrightarrow> b < 0x90)"

fun ill_formed_length :: "nat list \<Rightarrow> nat" where
  "ill_formed_length (a # b # r) =
     (if 0xE0 \<le> a \<and> a < 0xF5 \<and> second_ok a b then
        (case r of
           c # r' \<Rightarrow> if 0xF0 \<le> a \<and> continuation c then 3 else 2
         | [] \<Rightarrow> 2)
      else 1)"
| "ill_formed_length ns = 1"

lemma ill_formed_length_pos: "0 < ill_formed_length ns"
  by (cases ns rule: ill_formed_length.cases) (auto split: list.splits)

function utf8_replace :: "nat list \<Rightarrow> pystr" where
  "utf8_replace ns =
     (if ns = [] then []
      else
        (case utf8_step ns of
           Inr (v, r) \<Rightarrow> v # utf8_replace r
         | Inl e \<Rightarrow> 0xFFFD # utf8_replace (drop (ill_formed_length ns) ns)))"
  by pat_completeness auto

termination
  by (relation "measure length") (auto simp: utf8_step_shorter ill_formed_length_pos)

declare utf8_replace.simps [simp del]

fun get_interface_name_from_options :: "dhcp_option list \<Rightarrow> pystr" where
  "get_interface_name_from_options [] = lit ''unknown''"
| "get_interface_name_from_options (Plain (InterfaceIdOption interface_id) # options) =
     utf8_replace (map unat interface_id)"
| "get_interface_name_from_options (option # options) = get_interface_name_from_options options"

datatype send_result = Sent | Refused | Failed

text \<open>
  The loop over the outgoing messages: a message that is no relay reply, or a failing
  replier, stops it with an exception; a refused message is logged and skipped.
\<close>

fun send_replies ::
  "(message \<Rightarrow> send_result) \<Rightarrow> stat_ref list \<Rightarrow> message list \<Rightarrow> server_statistics \<Rightarrow>
   (bool \<times> message list \<times> server_statistics)" where
  "send_replies send refs [] st = (True, [], st)"
| "send_replies send refs (m # ms) st =
     (case verify_response m of
        Inl e \<Rightarrow> (False, [], st)
      | Inr u \<Rightarrow>
          (let st = count_on Outgoing_packet refs st in
           case send m of
             Failed \<Rightarrow> (False, [], st)
           | Refused \<Rightarrow> send_replies send refs ms st
           | Sent \<Rightarrow>
               (case send_replies send refs ms st of
                  (ok, sent, st') \<Rightarrow> (ok, m # sent, st'))))"

text \<open>
  \<open>handle_message\<close>: the messages that were sent and the new statistics.  The second call of
  \<open>get_update_set\<close> stands outside the inner \<open>try\<close>; an exception there leaves the function.
\<close>

definition handle_message ::
  "registry \<Rightarrow> containment \<Rightarrow> message_handler \<Rightarrow> (message \<Rightarrow> send_result) \<Rightarrow> incoming_packet \<Rightarrow>
   server_statistics \<Rightarrow> (message list \<times> server_statistics) res" where
  "handle_message R T mh send packet st =
     (let interface_name = get_interface_name_from_options (packet_relay_options packet) in
      rbind (get_update_set (Some interface_name) None st) (\<lambda>refs.
      case parse_incoming_request R T packet of
        Inl e \<Rightarrow> Inr ([], count_on Unparsable_packet refs (count_on Incoming_packet refs st))
      | Inr b \<Rightarrow>
          rbind (get_update_set (Some interface_name) (Some b) st) (\<lambda>refs.
          let st = count_on Incoming_packet refs st in
          case message_handler_handle T mh refs b st of
            (Inl e, st) \<Rightarrow> Inr ([], count_on Handling_error refs st)
          | (Inr b, st) \<Rightarrow>
              (case send_replies send refs (outgoing_messages b) st of
                 (ok, sent, st) \<Rightarrow>
                   Inr (sent, if ok then st else count_on Handling_error refs st)))))"

end
