(* ===== verification/OptionHandlers.thy ===== *)
theory OptionHandlers
  imports Handlers Containment
begin

text \<open>
  dhcpkit/ipv6/server/extensions: the handlers that put a configured option into the response
  (dns, sip_servers, sntp, sol_max_rt, map), that copy an option of a relay (remote_id,
  subscriber_id, linklayer_id, relay_echo_request) and that keep bulk leasequery where it
  belongs (bulk_leasequery.py).  A constructor validates its option first, so it is fallible.
  The handlers of options with domain names are not handlers of these bundles (theory
  DomainHandlers).
\<close>

subsection \<open>Lists of addresses\<close>

text \<open>Append the elements that are not there yet, one after the other.\<close>

fun append_new :: "'a list \<Rightarrow> 'a list \<Rightarrow> 'a list" where
  "append_new found [] = found"
| "append_new found (x # xs) = append_new (if x \<in> set found then found else found @ [x]) xs"

fun option_addresses :: "dhcp_option \<Rightarrow> ipv6 list" where
  "option_addresses (Plain (ExtensionOption (RecursiveNameServersOption as))) = as"
| "option_addresses (Plain (ExtensionOption (SNTPServersOption as))) = as"
| "option_addresses (Plain (ExtensionOption (SIPServersAddressListOption as))) = as"
| "option_addresses _ = []"

definition combine_addresses ::
  "(ipv6 list \<Rightarrow> extension_option) \<Rightarrow> ipv6 list \<Rightarrow> dhcp_option list \<Rightarrow> dhcp_option option" where
  "combine_addresses construct own existing_options =
     Some (Plain (ExtensionOption (construct
       (append_new (append_new [] (concat (map option_addresses existing_options))) own))))"

text \<open>\<open>SimpleOptionHandler.__init__\<close> behind the validation of the option.\<close>

definition option_handler ::
  "containment \<Rightarrow> (dhcp_option list \<Rightarrow> dhcp_option option) \<Rightarrow> dhcp_option \<Rightarrow> bool \<Rightarrow> handler res" where
  "option_handler T combine option always_send =
     rbind (option_validate T option) (\<lambda>_.
     Inr (base_handler\<lparr>handler_handle := SimpleOptionHandler_handle T combine option False always_send\<rparr>))"

definition RecursiveNameServersOptionHandler :: "containment \<Rightarrow> ipv6 list \<Rightarrow> bool \<Rightarrow> handler res" where
  "RecursiveNameServersOptionHandler T dns_servers always_send =
     option_handler T (combine_addresses RecursiveNameServersOption dns_servers)
       (Plain (ExtensionOption (RecursiveNameServersOption dns_servers))) always_send"

definition SIPServersAddressListOptionHandler :: "containment \<Rightarrow> ipv6 list \<Rightarrow> bool \<Rightarrow> handler res" where
  "SIPServersAddressListOptionHandler T sip_servers always_send =
     option_handler T (combine_addresses SIPServersAddressListOption sip_servers)
       (Plain (ExtensionOption (SIPServersAddressListOption sip_servers))) always_send"

definition SNTPServersOptionHandler :: "containment \<Rightarrow> ipv6 list \<Rightarrow> bool \<Rightarrow> handler res" where
  "SNTPServersOptionHandler T sntp_servers always_send =
     option_handler T (combine_addresses SNTPServersOption sntp_servers)
       (Plain (ExtensionOption (SNTPServersOption sntp_servers))) always_send"

subsection \<open>map\<close>

definition MapEOptionHandler :: "containment \<Rightarrow> ipv6 list \<Rightarrow> dhcp_option list \<Rightarrow> bool \<Rightarrow> handler res" where
  "MapEOptionHandler T br_addresses rules always_send =
     option_handler T (\<lambda>_. None)
       (S46ContainerOption S46MapE
         (rules @ map (\<lambda>a. Plain (ExtensionOption (S46BROption (Some a)))) br_addresses)) always_send"

definition MapTOptionHandler :: "containment \<Rightarrow> ipv6_network \<Rightarrow> dhcp_option list \<Rightarrow> bool \<Rightarrow> handler res" where
  "MapTOptionHandler T dmr_prefix rules always_send =
     option_handler T (\<lambda>_. None)
       (S46ContainerOption S46MapT
         (rules @ [Plain (ExtensionOption (S46DMROption (Some dmr_prefix)))])) always_send"

subsection \<open>sol_max_rt\<close>

definition SolMaxRTOptionHandler :: "containment \<Rightarrow> int \<Rightarrow> bool \<Rightarrow> handler res" where
  "SolMaxRTOptionHandler T sol_max_rt always_send =
     (let option = Plain (ExtensionOption (SolMaxRTOption sol_max_rt)) in
      rbind (option_validate T option) (\<lambda>_. Inr (OverwriteOptionHandler T option always_send)))"

definition InfMaxRTOptionHandler :: "containment \<Rightarrow> int \<Rightarrow> bool \<Rightarrow> handler res" where
  "InfMaxRTOptionHandler T inf_max_rt always_send =
     (let option = Plain (ExtensionOption (InfMaxRTOption inf_max_rt)) in
      rbind (option_validate T option) (\<lambda>_. Inr (OverwriteOptionHandler T option always_send)))"

subsection \<open>remote_id, subscriber_id, linklayer_id\<close>

definition CopyRemoteIdOptionHandler :: "containment \<Rightarrow> handler" where
  "CopyRemoteIdOptionHandler T = CopyRelayOptionHandler T C_RemoteIdOption"

definition CopySubscriberIdOptionHandler :: "containment \<Rightarrow> handler" where
  "CopySubscriberIdOptionHandler T = CopyRelayOptionHandler T C_SubscriberIdOption"

definition CopyLinkLayerIdOptionHandler :: "containment \<Rightarrow> handler" where
  "CopyLinkLayerIdOptionHandler T = CopyRelayOptionHandler T C_LinkLayerIdOption"

subsection \<open>relay_echo_request.py\<close>

text \<open>
  The inner loop over the options to echo: the second component tells whether it returned from
  the method at an option that the relay reply may not contain.
\<close>

fun echo_append :: "containment \<Rightarrow> dhcp_option list \<Rightarrow> dhcp_option list \<Rightarrow> dhcp_option list \<times> bool" where
  "echo_append T [] options = (options, False)"
| "echo_append T (option # incoming_options) options =
     (if \<not> may_contain T (MessageClass (RelayServer RelayReplyMessage)) (option_klass option)
      then (options, True)
      else echo_append T incoming_options (options @ [option]))"

fun echo_types :: "containment \<Rightarrow> dhcp_option list \<Rightarrow> int list \<Rightarrow> dhcp_option list \<Rightarrow> dhcp_option list" where
  "echo_types T incoming [] options = options"
| "echo_types T incoming (option_type # requested) options =
     (if list_ex (\<lambda>option. option_type_of option = option_type) options
      then echo_types T incoming requested options
      else
        (case echo_append T (filter (\<lambda>option. option_type_of option = option_type) incoming) options of
           (options', returned) \<Rightarrow>
             if returned then options' else echo_types T incoming requested options'))"

definition RelayEchoRequestOptionHandler_handle_relay :: "containment \<Rightarrow> relay \<Rightarrow> relay \<Rightarrow> relay" where
  "RelayEchoRequestOptionHandler_handle_relay T relay_message_in relay_message_out =
     (case get_option_of_type [C_EchoRequestOption] (relay_options relay_message_in) of
        Some (Plain (ExtensionOption (EchoRequestOption requested_options))) \<Rightarrow>
          relay_message_out\<lparr>relay_options :=
            echo_types T (relay_options relay_message_in) requested_options (relay_options relay_message_out)\<rparr>
      | _ \<Rightarrow> relay_message_out)"

definition RelayEchoRequestOptionHandler :: "containment \<Rightarrow> handler" where
  "RelayEchoRequestOptionHandler T =
     base_handler\<lparr>handler_handle := RelayHandler_handle (RelayEchoRequestOptionHandler_handle_relay T)\<rparr>"

subsection \<open>bulk_leasequery.py\<close>

definition RequireBulkLeasequeryOverTCPHandler_pre :: step where
  "RequireBulkLeasequeryOverTCPHandler_pre b =
     (if \<not> received_over_tcp b then Inr b
      else
        (case request b of
           None \<Rightarrow> raise_in CannotRespondError b
         | Some req \<Rightarrow>
             if cs_class req \<noteq> LeasequeryMessage then raise_in CannotRespondError b else Inr b))"

definition RequireBulkLeasequeryOverTCPHandler :: handler where
  "RequireBulkLeasequeryOverTCPHandler =
     base_handler\<lparr>handler_pre := RequireBulkLeasequeryOverTCPHandler_pre\<rparr>"

definition bulk_query_message :: "int \<Rightarrow> pystr" where
  "bulk_query_message query_type =
     lit ''Query type '' @ decimal query_type @ lit '' is only allowed over bulk leasequery''"

definition RefuseBulkLeasequeryOverUDPHandler_pre :: step where
  "RefuseBulkLeasequeryOverUDPHandler_pre b =
     (if received_over_tcp b then Inr b
      else
        (case request b of
           None \<Rightarrow> Inr b
         | Some req \<Rightarrow>
             if cs_class req \<noteq> LeasequeryMessage then Inr b
             else
               (case get_option_of_type [C_LQQueryOption] (cs_options req) of
                  Some (LQQueryOption query_type query_link options) \<Rightarrow>
                    if query_type \<in> {3, 4, 5}
                    then raise_in (ReplyWithLeasequeryError 10 (bulk_query_message query_type)) b
                    else Inr b
                | _ \<Rightarrow> raise_in (PythonError AttributeError) b)))"

definition RefuseBulkLeasequeryOverUDPHandler :: handler where
  "RefuseBulkLeasequeryOverUDPHandler =
     base_handler\<lparr>handler_pre := RefuseBulkLeasequeryOverUDPHandler_pre\<rparr>"

end
