(* ===== verification/ClientKeys.thy ===== *)
theory ClientKeys
  imports Handlers
begin

text \<open>
  The names by which the server recognises a client: its DUID, or an identifier that the
  nearest relay added (dhcpkit/ipv6/server/extensions/rate_limit/key_functions.py, and the
  lookups of static_assignments/csv.py).
\<close>

definition request_option :: "option_class \<Rightarrow> transaction_bundle \<Rightarrow> dhcp_option option" where
  "request_option c b = get_option_of_type [c] (request_options b)"

text \<open>\<open>bundle.incoming_relay_messages[0].get_option_of_type(...)\<close>.\<close>

definition relay_option :: "option_class \<Rightarrow> transaction_bundle \<Rightarrow> dhcp_option option res" where
  "relay_option c b =
     (case incoming_relay_messages b of
        [] \<Rightarrow> Inl IndexError
      | r # rs \<Rightarrow> Inr (get_option_of_type [c] (relay_options r)))"

definition duid_name :: "duid \<Rightarrow> pystr res" where
  "duid_name d = rbind (DUID_save d) (\<lambda>bs. Inr (lit ''duid:'' @ hex_encode bs))"

definition interface_id_name :: "bytes \<Rightarrow> pystr" where
  "interface_id_name interface_id = lit ''interface-id:'' @ hex_encode interface_id"

definition remote_id_name :: "int \<Rightarrow> bytes \<Rightarrow> pystr" where
  "remote_id_name enterprise_number remote_id =
     lit ''remote-id:'' @ decimal enterprise_number @ lit '':'' @ hex_encode remote_id"

definition subscriber_id_name :: "bytes \<Rightarrow> pystr" where
  "subscriber_id_name subscriber_id = lit ''subscriber-id:'' @ hex_encode subscriber_id"

definition linklayer_id_name :: "int \<Rightarrow> bytes \<Rightarrow> pystr" where
  "linklayer_id_name link_layer_type link_layer_address =
     lit ''linklayer-id:'' @ decimal link_layer_type @ lit '':'' @ hex_encode link_layer_address"

text \<open>No option of the class is \<open>None\<close>, and a client id without a DUID has none to save.\<close>

definition duid_key :: "transaction_bundle \<Rightarrow> pystr res" where
  "duid_key b =
     (case request_option C_ClientIdOption b of
        Some (Plain (ClientIdOption (Some d))) \<Rightarrow> duid_name d
      | _ \<Rightarrow> Inl AttributeError)"

definition interface_id_key :: "transaction_bundle \<Rightarrow> pystr res" where
  "interface_id_key b =
     rbind (relay_option C_InterfaceIdOption b) (\<lambda>interface_id_option.
     case interface_id_option of
       Some (Plain (InterfaceIdOption interface_id)) \<Rightarrow> Inr (interface_id_name interface_id)
     | _ \<Rightarrow> duid_key b)"

definition remote_id_key :: "transaction_bundle \<Rightarrow> pystr res" where
  "remote_id_key b =
     rbind (relay_option C_RemoteIdOption b) (\<lambda>remote_id_option.
     case remote_id_option of
       Some (Plain (ExtensionOption (RemoteIdOption enterprise_number remote_id))) \<Rightarrow>
         Inr (remote_id_name enterprise_number remote_id)
     | _ \<Rightarrow> duid_key b)"

definition subscriber_id_key :: "transaction_bundle \<Rightarrow> pystr res" where
  "subscriber_id_key b =
     rbind (relay_option C_SubscriberIdOption b) (\<lambda>subscriber_id_option.
     case subscriber_id_option of
       Some (Plain (ExtensionOption (SubscriberIdOption subscriber_id))) \<Rightarrow>
         Inr (subscriber_id_name subscriber_id)
     | _ \<Rightarrow> duid_key b)"

definition linklayer_id_key :: "transaction_bundle \<Rightarrow> pystr res" where
  "linklayer_id_key b =
     rbind (relay_option C_LinkLayerIdOption b) (\<lambda>linklayer_id_option.
     case linklayer_id_option of
       Some (Plain (ExtensionOption (LinkLayerIdOption link_layer_type link_layer_address))) \<Rightarrow>
         Inr (linklayer_id_name link_layer_type link_layer_address)
     | _ \<Rightarrow> duid_key b)"

subsection \<open>Names of different clients differ\<close>

lemmas name_defs = duid_name_def interface_id_name_def remote_id_name_def subscriber_id_name_def
  linklayer_id_name_def

lemma number_prefix_inj:
  "decimal m @ lit '':'' @ s = decimal n @ lit '':'' @ t \<longleftrightarrow> m = n \<and> s = t"
proof
  assume eq: "decimal m @ lit '':'' @ s = decimal n @ lit '':'' @ t"
  have take: "takeWhile (\<lambda>c. c \<noteq> 58) (decimal k @ lit '':'' @ r) = decimal k" for k r
    using decimal_chars [of 58 k] by (subst takeWhile_append2) (auto simp: lit_def)
  have "decimal m = decimal n" using arg_cong [OF eq, of "takeWhile (\<lambda>c. c \<noteq> 58)"] by (simp only: take)
  with eq show "m = n \<and> s = t" by simp
qed simp

lemma names_inj:
  "duid_name d = Inr k \<Longrightarrow> duid_name e = Inr k \<Longrightarrow> DUID_save d = DUID_save e"
  "interface_id_name a = interface_id_name b \<longleftrightarrow> a = b"
  "remote_id_name m a = remote_id_name n b \<longleftrightarrow> m = n \<and> a = b"
  "subscriber_id_name a = subscriber_id_name b \<longleftrightarrow> a = b"
  "linklayer_id_name m a = linklayer_id_name n b \<longleftrightarrow> m = n \<and> a = b"
  by (auto simp: name_defs number_prefix_inj elim!: rbind_InrE)

lemma names_differ:
  "duid_name d = Inr k \<Longrightarrow> k \<noteq> interface_id_name a"
  "duid_name d = Inr k \<Longrightarrow> k \<noteq> remote_id_name m a"
  "duid_name d = Inr k \<Longrightarrow> k \<noteq> subscriber_id_name a"
  "duid_name d = Inr k \<Longrightarrow> k \<noteq> linklayer_id_name m a"
  "interface_id_name a \<noteq> remote_id_name m b"
  "interface_id_name a \<noteq> subscriber_id_name b"
  "interface_id_name a \<noteq> linklayer_id_name m b"
  "remote_id_name m a \<noteq> subscriber_id_name b"
  "remote_id_name m a \<noteq> linklayer_id_name n b"
  "subscriber_id_name a \<noteq> linklayer_id_name n b"
  by (auto simp: name_defs lit_def of_char_eq_iff elim!: rbind_InrE)

end
