(* ===== verification/StaticAssignments.thy ===== *)
theory StaticAssignments
  imports ClientKeys
begin

text \<open>
  dhcpkit/ipv6/server/extensions/static_assignments: the handler that answers the identity
  associations of a client from an assignment of one address and one prefix.  Where the
  assignment comes from is a parameter, as in the code (\<open>get_assignment\<close> is overridden);
  csv.py looks it up in the table it has read.
\<close>

record assignment =
  assigned_address :: "ipv6 option"
  assigned_prefix :: "ipv6_network option"

definition no_assignment :: assignment where
  "no_assignment = \<lparr>assigned_address = None, assigned_prefix = None\<rparr>"

record static_assignment =
  get_assignment :: "transaction_bundle \<Rightarrow> assignment res"
  address_preferred_lifetime :: int
  address_valid_lifetime :: int
  prefix_preferred_lifetime :: int
  prefix_valid_lifetime :: int

subsection \<open>Looking for a suitable option\<close>

fun get_addresses :: "dhcp_option list \<Rightarrow> ipv6 option list" where
  "get_addresses [] = []"
| "get_addresses (IAAddressOption address p v os # options) = address # get_addresses options"
| "get_addresses (_ # options) = get_addresses options"

fun get_prefixes :: "dhcp_option list \<Rightarrow> ipv6_network option list" where
  "get_prefixes [] = []"
| "get_prefixes (IAPrefixOption prefix p v os # options) = prefix # get_prefixes options"
| "get_prefixes (_ # options) = get_prefixes options"

definition head_option :: "'a list \<Rightarrow> 'a option" where
  "head_option xs = (case xs of [] \<Rightarrow> None | x # _ \<Rightarrow> Some x)"

definition find_iana_option_for_address :: "dhcp_option list \<Rightarrow> ipv6 \<Rightarrow> dhcp_option option" where
  "find_iana_option_for_address options address =
     (case find (\<lambda>option. Some address \<in> set (get_addresses (suboptions option))) options of
        Some option \<Rightarrow> Some option
      | None \<Rightarrow> head_option options)"

definition find_iapd_option_for_prefix :: "dhcp_option list \<Rightarrow> ipv6_network \<Rightarrow> dhcp_option option" where
  "find_iapd_option_for_prefix options prefix =
     (case find (\<lambda>option. Some prefix \<in> set (get_prefixes (suboptions option))) options of
        Some option \<Rightarrow> Some option
      | None \<Rightarrow> head_option options)"

text \<open>\<open>prefix_overlaps_prefixes\<close> on the prefixes of an option: one that is \<open>None\<close> has no attributes.\<close>

fun overlaps_prefixes :: "ipv6_network \<Rightarrow> ipv6_network option list \<Rightarrow> bool res" where
  "overlaps_prefixes prefix [] = Inr False"
| "overlaps_prefixes prefix (None # others) = Inl AttributeError"
| "overlaps_prefixes prefix (Some other # others) =
     (if overlaps prefix other then Inr True else overlaps_prefixes prefix others)"

subsection \<open>The methods\<close>

definition python :: "'a res \<Rightarrow> ('a \<Rightarrow> step) \<Rightarrow> step" where
  "python r f b = (case r of Inl e \<Rightarrow> raise_in (PythonError e) b | Inr x \<Rightarrow> f x b)"

text \<open>Append the answer to the response and mark the option it answers as handled.\<close>

definition answer_with :: "dhcp_option \<Rightarrow> dhcp_option \<Rightarrow> step" where
  "answer_with option response_option b =
     rbind (append_response response_option b) (\<lambda>b. Inr (mark_handled option b))"

fun option_iaid_of :: "dhcp_option \<Rightarrow> bytes" where
  "option_iaid_of (IANAOption iaid t1 t2 os) = iaid"
| "option_iaid_of (IATAOption iaid os) = iaid"
| "option_iaid_of (IAPDOption iaid t1 t2 os) = iaid"
| "option_iaid_of _ = []"

definition lease_prefix :: "static_assignment \<Rightarrow> ipv6_network \<Rightarrow> dhcp_option" where
  "lease_prefix h prefix =
     IAPrefixOption (Some prefix) (prefix_preferred_lifetime h) (prefix_valid_lifetime h) []"

definition lease_address :: "static_assignment \<Rightarrow> ipv6 \<Rightarrow> dhcp_option" where
  "lease_address h address =
     IAAddressOption (Some address) (address_preferred_lifetime h) (address_valid_lifetime h) []"

definition request_prefix :: "static_assignment \<Rightarrow> assignment \<Rightarrow> step" where
  "request_prefix h assignment b =
     (case assigned_prefix assignment of
        None \<Rightarrow> Inr b
      | Some prefix \<Rightarrow>
          (case find_iapd_option_for_prefix (get_unhandled_options [C_IAPDOption] b) prefix of
             None \<Rightarrow> Inr b
           | Some found_option \<Rightarrow>
               answer_with found_option
                 (IAPDOption (option_iaid_of found_option) 0 0 [lease_prefix h prefix]) b))"

definition request_address :: "static_assignment \<Rightarrow> assignment \<Rightarrow> step" where
  "request_address h assignment b =
     (case assigned_address assignment of
        None \<Rightarrow> Inr b
      | Some address \<Rightarrow>
          (case find_iana_option_for_address (get_unhandled_options [C_IANAOption] b) address of
             None \<Rightarrow> Inr b
           | Some found_option \<Rightarrow>
               answer_with found_option
                 (IANAOption (option_iaid_of found_option) 0 0 [lease_address h address]) b))"

definition handle_request :: "static_assignment \<Rightarrow> step" where
  "handle_request h b =
     python (get_assignment h b) (\<lambda>assignment b.
       rbind (request_prefix h assignment b) (request_address h assignment)) b"

definition handle_confirm :: "static_assignment \<Rightarrow> step" where
  "handle_confirm h b =
     python (get_assignment h b) (\<lambda>assignment b.
       run_steps
         (\<lambda>option b. Inr (if assigned_address assignment \<in> set (get_addresses (suboptions option))
                          then mark_handled option b else b))
         (get_unhandled_options [C_IANAOption] b) b) b"

definition renewed_prefix :: "static_assignment \<Rightarrow> ipv6_network \<Rightarrow> ipv6_network option \<Rightarrow> dhcp_option" where
  "renewed_prefix h prefix subprefix =
     (if subprefix = Some prefix then lease_prefix h prefix else IAPrefixOption subprefix 0 0 [])"

definition renew_prefix :: "static_assignment \<Rightarrow> assignment \<Rightarrow> dhcp_option \<Rightarrow> step" where
  "renew_prefix h assignment option b =
     (case assigned_prefix assignment of
        None \<Rightarrow> Inr b
      | Some prefix \<Rightarrow>
          python (overlaps_prefixes prefix (get_prefixes (suboptions option))) (\<lambda>overlap b.
            if overlap then
              answer_with option
                (IAPDOption (option_iaid_of option) 0 0
                  (map (renewed_prefix h prefix) (get_prefixes (suboptions option)))) b
            else Inr b) b)"

definition renewed_address :: "static_assignment \<Rightarrow> assignment \<Rightarrow> ipv6 option \<Rightarrow> dhcp_option" where
  "renewed_address h assignment address =
     (if address = assigned_address assignment
      then IAAddressOption (assigned_address assignment)
             (address_preferred_lifetime h) (address_valid_lifetime h) []
      else IAAddressOption address 0 0 [])"

definition renew_address :: "static_assignment \<Rightarrow> assignment \<Rightarrow> dhcp_option \<Rightarrow> step" where
  "renew_address h assignment option =
     answer_with option
       (IANAOption (option_iaid_of option) 0 0
         (map (renewed_address h assignment) (get_addresses (suboptions option))))"

definition handle_renew_rebind :: "static_assignment \<Rightarrow> step" where
  "handle_renew_rebind h b =
     python (get_assignment h b) (\<lambda>assignment b.
       (let unanswered_iana_options = get_unhandled_options [C_IANAOption] b;
            unanswered_iapd_options = get_unhandled_options [C_IAPDOption] b
        in
        rbind (run_steps (renew_prefix h assignment) unanswered_iapd_options b) (\<lambda>b.
        run_steps (renew_address h assignment) unanswered_iana_options b))) b"

definition release_prefix :: "assignment \<Rightarrow> dhcp_option \<Rightarrow> step" where
  "release_prefix assignment option b =
     (case assigned_prefix assignment of
        None \<Rightarrow> Inr b
      | Some prefix \<Rightarrow>
          python (overlaps_prefixes prefix (get_prefixes (suboptions option))) (\<lambda>overlap b.
            Inr (if overlap then mark_handled option b else b)) b)"

definition release_address :: "assignment \<Rightarrow> dhcp_option \<Rightarrow> step" where
  "release_address assignment option b =
     Inr (if assigned_address assignment \<in> set (get_addresses (suboptions option))
          then mark_handled option b else b)"

definition handle_release_decline :: "static_assignment \<Rightarrow> step" where
  "handle_release_decline h b =
     python (get_assignment h b) (\<lambda>assignment b.
       (let unanswered_iana_options = get_unhandled_options [C_IANAOption] b;
            unanswered_iapd_options = get_unhandled_options [C_IAPDOption] b
        in
        rbind (run_steps (release_prefix assignment) unanswered_iapd_options b) (\<lambda>b.
        run_steps (release_address assignment) unanswered_iana_options b))) b"

definition StaticAssignmentHandler_handle :: "static_assignment \<Rightarrow> step" where
  "StaticAssignmentHandler_handle h b =
     (case request b of
        None \<Rightarrow> Inr b
      | Some req \<Rightarrow>
          if cs_class req \<in> {SolicitMessage, RequestMessage} then handle_request h b
          else if cs_class req = ConfirmMessage then handle_confirm h b
          else if cs_class req \<in> {RenewMessage, RebindMessage} then handle_renew_rebind h b
          else if cs_class req \<in> {ReleaseMessage, DeclineMessage} then handle_release_decline h b
          else Inr b)"

definition StaticAssignmentHandler :: "static_assignment \<Rightarrow> handler" where
  "StaticAssignmentHandler h = base_handler\<lparr>handler_handle := StaticAssignmentHandler_handle h\<rparr>"

subsection \<open>csv.py: the assignment of a client\<close>

type_synonym assignment_table = "pystr \<rightharpoonup> assignment"

text \<open>
  The identifiers in the order in which they are tried: the DUID, which every request must
  have, then what the nearest relay added.
\<close>

definition try_name :: "assignment_table \<Rightarrow> pystr option \<Rightarrow> assignment res \<Rightarrow> assignment res" where
  "try_name mapping name otherwise =
     (case name of
        None \<Rightarrow> otherwise
      | Some k \<Rightarrow> (case mapping k of None \<Rightarrow> otherwise | Some a \<Rightarrow> Inr a))"

fun option_name :: "dhcp_option \<Rightarrow> pystr option" where
  "option_name (Plain (InterfaceIdOption interface_id)) = Some (interface_id_name interface_id)"
| "option_name (Plain (ExtensionOption (RemoteIdOption n r))) = Some (remote_id_name n r)"
| "option_name (Plain (ExtensionOption (SubscriberIdOption s))) = Some (subscriber_id_name s)"
| "option_name (Plain (ExtensionOption (LinkLayerIdOption t a))) = Some (linklayer_id_name t a)"
| "option_name _ = None"

definition relay_name :: "option_class \<Rightarrow> transaction_bundle \<Rightarrow> pystr option res" where
  "relay_name c b =
     rbind (relay_option c b) (\<lambda>option. Inr (Option.bind option option_name))"

fun try_relay_names ::
  "assignment_table \<Rightarrow> option_class list \<Rightarrow> transaction_bundle \<Rightarrow> assignment res" where
  "try_relay_names mapping [] b = Inr no_assignment"
| "try_relay_names mapping (c # cs) b =
     rbind (relay_name c b) (\<lambda>name. try_name mapping name (try_relay_names mapping cs b))"

definition csv_get_assignment :: "assignment_table \<Rightarrow> transaction_bundle \<Rightarrow> assignment res" where
  "csv_get_assignment mapping b =
     rbind (duid_key b) (\<lambda>duid.
     try_name mapping (Some duid)
       (try_relay_names mapping
         [C_InterfaceIdOption, C_RemoteIdOption, C_SubscriberIdOption, C_LinkLayerIdOption] b))"

subsection \<open>sqlite.py: the same from a database\<close>

text \<open>
  The names are gathered first, and \<open>ORDER BY id LIMIT 1\<close> takes the row with the smallest name of
  those that are in the table; the names are compared character by character.
\<close>

fun text_less :: "pystr \<Rightarrow> pystr \<Rightarrow> bool" where
  "text_less _ [] = False"
| "text_less [] (y # ys) = True"
| "text_less (x # xs) (y # ys) = (x < y \<or> x = y \<and> text_less xs ys)"

fun smallest :: "pystr list \<Rightarrow> pystr option" where
  "smallest [] = None"
| "smallest (k # ks) =
     (case smallest ks of None \<Rightarrow> Some k | Some k' \<Rightarrow> Some (if text_less k' k then k' else k))"

definition select_assignment :: "assignment_table \<Rightarrow> pystr list \<Rightarrow> assignment" where
  "select_assignment mapping possible_ids =
     (case smallest (filter (\<lambda>k. mapping k \<noteq> None) possible_ids) of
        None \<Rightarrow> no_assignment
      | Some k \<Rightarrow> (case mapping k of None \<Rightarrow> no_assignment | Some a \<Rightarrow> a))"

definition sqlite_get_assignment :: "assignment_table \<Rightarrow> transaction_bundle \<Rightarrow> assignment res" where
  "sqlite_get_assignment mapping b =
     rbind (duid_key b) (\<lambda>duid.
     rbind (concat_res (\<lambda>c. rbind (relay_name c b) (\<lambda>name. Inr (case name of None \<Rightarrow> [] | Some k \<Rightarrow> [k])))
       [C_InterfaceIdOption, C_RemoteIdOption, C_SubscriberIdOption, C_LinkLayerIdOption]) (\<lambda>possible_ids.
     Inr (select_assignment mapping (duid # possible_ids))))"

end
