(* ===== verification/TimingLimits.thy ===== *)
theory TimingLimits
  imports Handlers Complex_Main
begin

text \<open>
  dhcpkit/ipv6/server/extensions/timing_limits: the handler that sets the renewal times T1 and
  T2 of the identity associations in a response.  The factors are Python floats; they are
  modelled by rational numbers, so the rounding of the product before \<open>int\<close> cuts it off is not
  modelled.
\<close>

definition INFINITY :: int where
  "INFINITY = 2 ^ 32 - 1"

record timing_limits =
  min_t1 :: int
  max_t1 :: int
  factor_t1 :: "rat option"
  min_t2 :: int
  max_t2 :: int
  factor_t2 :: "rat option"

definition clamp_factor :: "rat option \<Rightarrow> rat option" where
  "clamp_factor factor = map_option (\<lambda>f. min (max 0 f) 1) factor"

definition nonzero :: "rat option \<Rightarrow> bool" where
  "nonzero factor \<longleftrightarrow> factor \<noteq> None \<and> factor \<noteq> Some 0"

definition TimingLimitsHandler_init ::
  "int \<Rightarrow> int \<Rightarrow> rat option \<Rightarrow> int \<Rightarrow> int \<Rightarrow> rat option \<Rightarrow> timing_limits res" where
  "TimingLimitsHandler_init mint1 maxt1 ft1 mint2 maxt2 ft2 =
     (let mint1' = max 0 mint1;
          maxt2' = min maxt2 INFINITY;
          maxt1' = min maxt1 maxt2';
          mint2' = max mint1' mint2;
          ft1' = clamp_factor ft1;
          ft2' = clamp_factor ft2
      in
      if mint1' > maxt2' then Inl ValueError
      else if nonzero ft1' \<and> nonzero ft2' \<and> the ft1' > the ft2' then Inl ValueError
      else Inr \<lparr>min_t1 = mint1', max_t1 = maxt1', factor_t1 = ft1',
                min_t2 = mint2', max_t2 = maxt2', factor_t2 = ft2'\<rparr>)"

text \<open>The value derived from the shortest preferred lifetime, for a time that was not set.\<close>

definition derived_time :: "int \<Rightarrow> rat option \<Rightarrow> int \<Rightarrow> int" where
  "derived_time shortest_preferred factor t =
     (case factor of
        None \<Rightarrow> t
      | Some f \<Rightarrow>
          if t \<noteq> 0 then t
          else if shortest_preferred = INFINITY then INFINITY
          else \<lfloor>of_int shortest_preferred * f\<rfloor>)"

definition limit_times :: "timing_limits \<Rightarrow> int \<Rightarrow> int \<times> int \<Rightarrow> int \<times> int" where
  "limit_times h shortest_preferred = (\<lambda>(t1, t2).
     if shortest_preferred > INFINITY then (t1, t2)
     else
       (let t1 = derived_time shortest_preferred (factor_t1 h) t1;
            t2 = derived_time shortest_preferred (factor_t2 h) t2;
            t2 = min (min (max (min_t2 h) t2) (max_t2 h)) shortest_preferred;
            t1 = min (min (max (min_t1 h) t1) (max_t1 h)) t2
        in (t1, t2)))"

subsection \<open>The two handlers\<close>

fun address_preferred :: "dhcp_option \<Rightarrow> int option" where
  "address_preferred (IAAddressOption address preferred_lifetime v os) = Some preferred_lifetime"
| "address_preferred _ = None"

fun prefix_preferred :: "dhcp_option \<Rightarrow> int option" where
  "prefix_preferred (IAPrefixOption prefix preferred_lifetime v os) = Some preferred_lifetime"
| "prefix_preferred _ = None"

fun shortest_preferred :: "(dhcp_option \<Rightarrow> int option) \<Rightarrow> int \<Rightarrow> dhcp_option list \<Rightarrow> int" where
  "shortest_preferred extract shortest [] = shortest"
| "shortest_preferred extract shortest (suboption # options) =
     shortest_preferred extract
       (case extract suboption of None \<Rightarrow> shortest | Some p \<Rightarrow> min shortest p) options"

fun iana_limit_option :: "timing_limits \<Rightarrow> dhcp_option \<Rightarrow> dhcp_option" where
  "iana_limit_option h (IANAOption iaid t1 t2 options) =
     (case limit_times h (shortest_preferred address_preferred (INFINITY + 1) options) (t1, t2) of
        (t1, t2) \<Rightarrow> IANAOption iaid t1 t2 options)"
| "iana_limit_option h option = option"

fun iapd_limit_option :: "timing_limits \<Rightarrow> dhcp_option \<Rightarrow> dhcp_option" where
  "iapd_limit_option h (IAPDOption iaid t1 t2 options) =
     (case limit_times h (shortest_preferred prefix_preferred (INFINITY + 1) options) (t1, t2) of
        (t1, t2) \<Rightarrow> IAPDOption iaid t1 t2 options)"
| "iapd_limit_option h option = option"

definition TimingLimitsHandler_handle :: "(dhcp_option \<Rightarrow> dhcp_option) \<Rightarrow> step" where
  "TimingLimitsHandler_handle limit_option =
     with_response (\<lambda>m. set_response_options m (map limit_option (cs_options m)))"

definition IANATimingLimitsHandler :: "timing_limits \<Rightarrow> handler" where
  "IANATimingLimitsHandler h =
     base_handler\<lparr>handler_handle := TimingLimitsHandler_handle (iana_limit_option h)\<rparr>"

definition IAPDTimingLimitsHandler :: "timing_limits \<Rightarrow> handler" where
  "IAPDTimingLimitsHandler h =
     base_handler\<lparr>handler_handle := TimingLimitsHandler_handle (iapd_limit_option h)\<rparr>"

subsection \<open>What the limits guarantee\<close>

lemma shortest_preferred_le:
  "shortest_preferred extract s options \<le> s"
  "suboption \<in> set options \<Longrightarrow> extract suboption = Some p \<Longrightarrow> shortest_preferred extract s options \<le> p"
proof (induction options arbitrary: s)
  case (Cons x xs)
  {
    case 1
    show ?case
      using Cons.IH(1) [of "case extract x of None \<Rightarrow> s | Some p \<Rightarrow> min s p"]
      by (auto split: option.splits)
  next
    case 2
    then show ?case
      using Cons.IH(1) [of "min s p"] Cons.IH(2) by auto
  }
qed auto

lemma shortest_preferred_attained:
  "shortest_preferred extract s options = s
   \<or> (\<exists>suboption \<in> set options. extract suboption = Some (shortest_preferred extract s options))"
proof (induction options arbitrary: s)
  case (Cons x xs)
  show ?case
  proof (cases "extract x")
    case (Some p)
    with Cons [of "min s p"] show ?thesis by (auto simp: min_def split: if_splits)
  qed (use Cons [of s] in auto)
qed simp

lemma limit_times_ordered:
  assumes "limit_times h s (t1, t2) = (u1, u2)" and "s \<le> INFINITY"
  shows "u1 \<le> u2 \<and> u2 \<le> s \<and> u2 \<le> max_t2 h \<and> u1 \<le> max_t1 h
         \<and> (min_t2 h \<le> min (max_t2 h) s \<longrightarrow> min_t2 h \<le> u2)
         \<and> (min_t1 h \<le> min (max_t1 h) (min (max_t2 h) s) \<longrightarrow> min_t1 h \<le> min_t2 h \<longrightarrow> min_t1 h \<le> u1)"
proof -
  obtain x y where u2: "u2 = min (min (max (min_t2 h) y) (max_t2 h)) s"
    and u1: "u1 = min (min (max (min_t1 h) x) (max_t1 h)) u2"
    using assms by (auto simp: limit_times_def Let_def not_less)
  show ?thesis
  proof (intro conjI impI)
    show "u1 \<le> u2" "u1 \<le> max_t1 h" unfolding u1 by linarith+
    show "u2 \<le> s" "u2 \<le> max_t2 h" unfolding u2 by linarith+
    assume "min_t2 h \<le> min (max_t2 h) s"
    then show "min_t2 h \<le> u2" unfolding u2 by linarith
  next
    assume "min_t1 h \<le> min (max_t1 h) (min (max_t2 h) s)" and "min_t1 h \<le> min_t2 h"
    then show "min_t1 h \<le> u1" unfolding u1 u2 by linarith
  qed
qed

end
