(* ===== verification/RateLimit.thy ===== *)
theory RateLimit
  imports ClientKeys Complex_Main
begin

text \<open>
  dhcpkit/ipv6/server/extensions/rate_limit: the counters that all workers share
  (\<open>RateLimitCounters\<close> in manager.py, a token bucket per client) and the handler that asks them.
  Times and allowances are Python floats; they are modelled by rational numbers, without
  rounding.  The clock is an argument.
\<close>

record rate_limit_counters =
  counters :: "pystr \<rightharpoonup> rat \<times> rat"
  rate_per_second :: rat
  bucket_size :: rat

text \<open>\<open>RateLimitCounters.__init__\<close>; a burst of zero is as good as none.\<close>

definition RateLimitCounters :: "int \<Rightarrow> int \<Rightarrow> int option \<Rightarrow> rate_limit_counters" where
  "RateLimitCounters rate per burst =
     \<lparr>counters = (\<lambda>_. None), rate_per_second = of_int rate / of_int per,
       bucket_size = (case burst of None \<Rightarrow> of_int rate
                      | Some b \<Rightarrow> if b = 0 then of_int rate else of_int b)\<rparr>"

definition check_request :: "rate_limit_counters \<Rightarrow> pystr \<Rightarrow> rat \<Rightarrow> bool \<times> rate_limit_counters" where
  "check_request c key now =
     (let (allowance, last_check) =
            (case counters c key of None \<Rightarrow> (bucket_size c, now) | Some e \<Rightarrow> e);
          time_passed = now - last_check;
          allowance = allowance + time_passed * rate_per_second c;
          allowance = (if allowance > bucket_size c then bucket_size c else allowance);
          allow = (\<not> allowance < 1);
          allowance = (if allow then allowance - 1 else allowance)
      in (allow, c\<lparr>counters := (counters c)(key \<mapsto> (allowance, now))\<rparr>))"

text \<open>
  \<open>RateLimitHandler.pre\<close>; what the shared counters answer to the key is an argument, since the
  counters live in a process of their own.
\<close>

definition RateLimitHandler_pre ::
  "(transaction_bundle \<Rightarrow> pystr res) \<Rightarrow> (pystr \<Rightarrow> bool) \<Rightarrow> step" where
  "RateLimitHandler_pre key check b =
     (case key b of
        Inl e \<Rightarrow> raise_in (PythonError e) b
      | Inr k \<Rightarrow> if \<not> check k then raise_in CannotRespondError b else Inr b)"

definition RateLimitHandler :: "(transaction_bundle \<Rightarrow> pystr res) \<Rightarrow> (pystr \<Rightarrow> bool) \<Rightarrow> handler" where
  "RateLimitHandler key check = base_handler\<lparr>handler_pre := RateLimitHandler_pre key check\<rparr>"

subsection \<open>The contract of a limiter\<close>

text \<open>
  A limiter gives every key tokens, up to a bucket full of them, at a fixed rate.  A request is
  allowed exactly if there is a token, and takes it; nobody else's tokens change.
\<close>

fun check_all :: "('s \<Rightarrow> 'k \<Rightarrow> rat \<Rightarrow> bool \<times> 's) \<Rightarrow> 's \<Rightarrow> ('k \<times> rat) list \<Rightarrow> bool list \<times> 's" where
  "check_all check s [] = ([], s)"
| "check_all check s ((k, t) # requests) =
     (case check s k t of (allow, s') \<Rightarrow>
        (case check_all check s' requests of (allowed, s'') \<Rightarrow> (allow # allowed, s'')))"

lemma check_all_append:
  assumes "check_all check s (earlier @ requests) = (allowed, s'')"
  obtains as s' bs where "check_all check s earlier = (as, s')" and "check_all check s' requests = (bs, s'')"
    and "allowed = as @ bs" and "length as = length earlier"
proof -
  have "\<exists>as s' bs. check_all check s earlier = (as, s') \<and> check_all check s' requests = (bs, s'')
      \<and> allowed = as @ bs \<and> length as = length earlier"
    using assms
  proof (induction earlier arbitrary: s allowed)
    case (Cons r earlier)
    obtain k t where r: "r = (k, t)" by (cases r)
    obtain a s1 where "check s k t = (a, s1)" by (cases "check s k t")
    note c = this
    with Cons.prems r obtain al where al: "check_all check s1 (earlier @ requests) = (al, s'')" "allowed = a # al"
      by (auto split: prod.splits)
    from Cons.IH [OF al(1)] obtain as s' bs where "check_all check s1 earlier = (as, s')"
        "check_all check s' requests = (bs, s'')" "al = as @ bs" "length as = length earlier"
      by blast
    with c r al(2) show ?case by simp
  qed auto
  with that show thesis by blast
qed

definition allowed_for :: "'k \<Rightarrow> ('k \<times> rat) list \<Rightarrow> bool list \<Rightarrow> nat" where
  "allowed_for k requests allowed =
     length (filter (\<lambda>((k', t), a). k' = k \<and> a) (zip requests allowed))"

locale limiter =
  fixes check :: "'s \<Rightarrow> 'k \<Rightarrow> rat \<Rightarrow> bool \<times> 's"
    and tokens :: "'s \<Rightarrow> 'k \<Rightarrow> rat \<Rightarrow> rat"
    and rate_of bucket_of :: "'s \<Rightarrow> rat"
    and wf :: "'s \<Rightarrow> bool"
  assumes rate_nonneg: "wf s \<Longrightarrow> 0 \<le> rate_of s"
    and wf_check: "wf s \<Longrightarrow> wf (snd (check s k t))"
    and settings_check: "rate_of (snd (check s k t)) = rate_of s"
      "bucket_of (snd (check s k t)) = bucket_of s"
    and allow_iff: "fst (check s k t) \<longleftrightarrow> 1 \<le> tokens s k t"
    and takes_token: "wf s \<Longrightarrow>
      tokens (snd (check s k t)) k t = tokens s k t - (if fst (check s k t) then 1 else 0)"
    and others: "k' \<noteq> k \<Longrightarrow> tokens (snd (check s k t)) k' u = tokens s k' u"
    and refill: "wf s \<Longrightarrow> t \<le> u \<Longrightarrow>
      tokens s k u = min (bucket_of s) (tokens s k t + (u - t) * rate_of s)"
begin

lemma refill_le: "wf s \<Longrightarrow> t \<le> u \<Longrightarrow> tokens s k u \<le> tokens s k t + (u - t) * rate_of s"
  by (simp add: refill [of s t u])

lemma tokens_le_bucket: "wf s \<Longrightarrow> tokens s k t \<le> bucket_of s"
  by (subst refill [of s t t]) simp_all

lemma tokens_mono: "wf s \<Longrightarrow> t \<le> u \<Longrightarrow> tokens s k t \<le> tokens s k u"
  using rate_nonneg tokens_le_bucket by (subst refill [of s t u]) simp_all

text \<open>Over any requests in the order of time, the allowed ones are paid for by tokens.\<close>

lemma allowed_bound:
  assumes "wf s" and "sorted (lo # map snd requests)" and "list_all (\<lambda>t. t \<le> hi) (lo # map snd requests)"
    and "check_all check s requests = (allowed, s')"
  shows "of_nat (allowed_for k requests allowed) + tokens s' k hi
           \<le> tokens s k lo + (hi - lo) * rate_of s
         \<and> (0 \<le> tokens s k lo \<longrightarrow> 0 \<le> tokens s' k hi)"
  using assms
proof (induction requests arbitrary: s lo allowed)
  case Nil
  then have "lo \<le> hi" by simp
  with Nil tokens_mono [of s lo hi k] refill_le [of s lo hi k] show ?case
    by (auto simp: allowed_for_def)
next
  case (Cons r requests)
  obtain k0 t where r: "r = (k0, t)" by (cases r)
  obtain a s1 where c: "check s k0 t = (a, s1)" by (cases "check s k0 t")
  from Cons.prems(4) c r obtain as where as: "check_all check s1 requests = (as, s')" and al: "allowed = a # as"
    by (auto split: prod.splits)
  have lo: "lo \<le> t" and wf1: "wf s1"
    using Cons.prems(2) r wf_check [OF Cons.prems(1), of k0 t] c by auto
  have rate: "rate_of s1 = rate_of s" using settings_check(1) [of s k0 t] c by simp
  let ?paid = "if k0 = k \<and> a then 1 else 0 :: rat"
  have "tokens s1 k t = tokens s k t - ?paid"
    using takes_token [OF Cons.prems(1), of k0 t] others [of k k0 s t t] c by (cases "k0 = k") auto
  moreover have "tokens s k t \<le> tokens s k lo + (t - lo) * rate_of s"
    using refill_le [OF Cons.prems(1) lo] .
  moreover have "of_nat (allowed_for k requests as) + tokens s' k hi
           \<le> tokens s1 k t + (hi - t) * rate_of s
         \<and> (0 \<le> tokens s1 k t \<longrightarrow> 0 \<le> tokens s' k hi)"
    using Cons.IH [OF wf1 _ _ as, of t] Cons.prems(2,3) r rate by simp
  moreover have "of_nat (allowed_for k (r # requests) allowed) = ?paid + of_nat (allowed_for k requests as)"
    by (simp add: allowed_for_def al r)
  moreover have "0 \<le> tokens s k lo \<longrightarrow> 0 \<le> tokens s1 k t"
    using tokens_mono [OF Cons.prems(1) lo, of k] allow_iff [of s k0 t] c calculation(1) by auto
  moreover have "(hi - t) * rate_of s + (t - lo) * rate_of s = (hi - lo) * rate_of s"
    by (simp add: left_diff_distrib)
  ultimately show ?case by linarith
qed

lemma check_all_keeps:
  assumes "wf s" and "check_all check s requests = (allowed, s')"
  shows "wf s' \<and> rate_of s' = rate_of s \<and> bucket_of s' = bucket_of s"
  using assms
proof (induction requests arbitrary: s allowed)
  case (Cons r requests)
  obtain k t where r: "r = (k, t)" by (cases r)
  obtain a s1 where c: "check s k t = (a, s1)" by (cases "check s k t")
  with Cons.prems r obtain as where "check_all check s1 requests = (as, s')" by (auto split: prod.splits)
  with Cons.IH c wf_check [OF Cons.prems(1), of k t] settings_check [of s k t] show ?case by simp
qed simp

text \<open>
  In any period, whatever was asked before it, no more is allowed than a full bucket and the tokens of the period.
\<close>

lemma period_bound:
  assumes "wf s" and "\<And>t. 0 \<le> tokens s k t"
    and "sorted (map snd (earlier @ requests))" and "start \<le> stop"
    and "\<forall>t \<in> snd ` set earlier. t \<le> start" and "\<forall>t \<in> snd ` set requests. start \<le> t \<and> t \<le> stop"
    and "check_all check s (earlier @ requests) = (allowed, s'')"
  shows "of_nat (allowed_for k requests (drop (length earlier) allowed))
    \<le> bucket_of s + (stop - start) * rate_of s"
proof -
  obtain as s' bs where as: "check_all check s earlier = (as, s')" and bs: "check_all check s' requests = (bs, s'')"
    and allowed: "allowed = as @ bs" "length as = length earlier"
    by (rule check_all_append [OF assms(7)])
  define lo where "lo = (case earlier of [] \<Rightarrow> start | r # _ \<Rightarrow> snd r)"
  have "sorted (lo # map snd earlier)" "list_all (\<lambda>t. t \<le> start) (lo # map snd earlier)"
    using assms(3,5) by (cases earlier; force simp: lo_def sorted_append list_all_iff)+
  from allowed_bound [OF assms(1) this as, of k] assms(2) have nonneg: "0 \<le> tokens s' k start" by simp
  have kept: "wf s'" "rate_of s' = rate_of s" "bucket_of s' = bucket_of s"
    using check_all_keeps [OF assms(1) as] by simp_all
  have "sorted (start # map snd requests)" "list_all (\<lambda>t. t \<le> stop) (start # map snd requests)"
    using assms(3,4,6) by (auto simp: sorted_append list_all_iff)
  from allowed_bound [OF kept(1) this bs, of k] nonneg tokens_le_bucket [OF kept(1), of k start]
  show ?thesis by (simp add: kept allowed)
qed

text \<open>A key that waits long enough for a token is allowed.\<close>

lemma patience_rewarded:
  assumes "wf s" and "t \<le> u" and "0 \<le> tokens s k t" and "1 \<le> (u - t) * rate_of s" and "1 \<le> bucket_of s"
  shows "fst (check s k u)"
  unfolding allow_iff refill [OF assms(1,2)] using assms(3-5) by simp

end

subsection \<open>The counters of the program\<close>

definition tokens_left :: "rate_limit_counters \<Rightarrow> pystr \<Rightarrow> rat \<Rightarrow> rat" where
  "tokens_left c key t =
     (case counters c key of
        None \<Rightarrow> bucket_size c
      | Some (allowance, last_check) \<Rightarrow>
          min (bucket_size c) (allowance + (t - last_check) * rate_per_second c))"

definition rates_ok :: "rate_limit_counters \<Rightarrow> bool" where
  "rates_ok c \<longleftrightarrow> 0 \<le> rate_per_second c"

lemma check_request_tokens:
  "check_request c key now =
     (1 \<le> tokens_left c key now,
      c\<lparr>counters := (counters c)(key \<mapsto>
        (tokens_left c key now - (if 1 \<le> tokens_left c key now then 1 else 0), now))\<rparr>)"
  by (auto simp: check_request_def tokens_left_def Let_def not_less min_def split: option.splits)

lemma tokens_left_stored:
  "tokens_left (c\<lparr>counters := (counters c)(k \<mapsto> (a, l))\<rparr>) k' t =
     (if k' = k then min (bucket_size c) (a + (t - l) * rate_per_second c) else tokens_left c k' t)"
  by (cases "counters c k'") (auto simp: tokens_left_def)

lemma tokens_left_le: "tokens_left c k t \<le> bucket_size c"
  by (simp add: tokens_left_def split: option.split)

interpretation buckets: limiter check_request tokens_left rate_per_second bucket_size rates_ok
proof
  show "tokens_left s k u = min (bucket_size s) (tokens_left s k t + (u - t) * rate_per_second s)"
    if "rates_ok s" and "t \<le> u" for s k t u
  proof -
    let ?d = "(u - t) * rate_per_second s"
    have d: "0 \<le> ?d" using that by (simp add: rates_ok_def)
    show ?thesis
    proof (cases "counters s k")
      case None
      with d show ?thesis by (simp add: tokens_left_def)
    next
      case (Some e)
      obtain a l where e: "e = (a, l)" by (cases e)
      let ?x = "a + (t - l) * rate_per_second s"
      have "a + (u - l) * rate_per_second s = ?x + ?d" by (simp add: left_diff_distrib)
      moreover have "min (bucket_size s) (?x + ?d) = min (bucket_size s) (min (bucket_size s) ?x + ?d)"
        using d by linarith
      ultimately show ?thesis by (simp add: tokens_left_def Some e)
    qed
  qed
  show "tokens_left (snd (check_request s k t)) k t
      = tokens_left s k t - (if fst (check_request s k t) then 1 else 0)" for s k t
    using tokens_left_le [of s k t] by (simp add: check_request_tokens tokens_left_stored)
  show "tokens_left (snd (check_request s k t)) k' u = tokens_left s k' u" if "k' \<noteq> k" for s k k' t u
    using that by (simp add: check_request_tokens tokens_left_stored)
qed (auto simp: rates_ok_def check_request_tokens)

end
