(* ===== verification/Leasequery.thy ===== *)
theory Leasequery
  imports Filters Messages
begin

text \<open>
  dhcpkit/ipv6/server/extensions/leasequery/__init__.py: what every lease store shares (which
  options it may keep and disclose, how it encodes identifiers, options and relay chains) and
  the handlers that answer leasequeries.  The store itself (\<open>find_leases\<close>) is an argument of the
  handler; theory LeaseStore models the one of sqlite.py.
\<close>

subsection \<open>Which options are kept\<close>

definition filter_options :: "dhcp_option list \<Rightarrow> int list \<Rightarrow> dhcp_option list" where
  "filter_options options unwanted_option_types =
     filter (\<lambda>option. option_type_of option \<notin> set unwanted_option_types) options"

definition filter_sensitive_options :: "int list \<Rightarrow> dhcp_option list \<Rightarrow> dhcp_option list" where
  "filter_sensitive_options sensitive_options options = filter_options options sensitive_options"

text \<open>Identity associations, leases, ids, status codes, option requests and relayed messages.\<close>

definition unstorable_options :: "int list" where
  "unstorable_options = [1, 2, 9, 6, 3, 4, 25, 5, 26, 13]"

definition filter_storable_options :: "int list \<Rightarrow> dhcp_option list \<Rightarrow> dhcp_option list" where
  "filter_storable_options sensitive_options options =
     filter_options options (sensitive_options @ unstorable_options)"

definition filter_requested_options :: "int list \<Rightarrow> dhcp_option list \<Rightarrow> int list \<Rightarrow> dhcp_option list" where
  "filter_requested_options sensitive_options options requested_options =
     (if requested_options = [] then []
      else filter (\<lambda>option. option_type_of option \<in> set requested_options
                            \<and> option_type_of option \<notin> set sensitive_options) options)"

definition is_accepted :: "dhcp_option list \<Rightarrow> bool" where
  "is_accepted options \<longleftrightarrow>
     (case get_option_of_type [C_StatusCodeOption] options of
        Some (Plain (StatusCodeOption status_code status_message)) \<Rightarrow> status_code = 0
      | _ \<Rightarrow> True)"

definition get_leases :: "option_class list \<Rightarrow> option_class \<Rightarrow> dhcp_option list \<Rightarrow> dhcp_option list" where
  "get_leases ia_classes lease_class options =
     concat (map (\<lambda>option. if is_accepted (suboptions option)
                           then get_options_of_type [lease_class] (suboptions option) else [])
       (get_options_of_type ia_classes options))"

definition get_address_leases :: "client_server \<Rightarrow> dhcp_option list" where
  "get_address_leases reply =
     get_leases [C_IANAOption, C_IATAOption] C_IAAddressOption (cs_options reply)"

definition get_prefix_leases :: "client_server \<Rightarrow> dhcp_option list" where
  "get_prefix_leases reply = get_leases [C_IAPDOption] C_IAPrefixOption (cs_options reply)"

subsection \<open>Identifiers\<close>

definition encode_duid :: "duid option \<Rightarrow> pystr res" where
  "encode_duid d =
     (case d of None \<Rightarrow> Inl AttributeError | Some d \<Rightarrow> rbind (DUID_save d) (\<lambda>bs. Inr (hex_encode bs)))"

definition decode_duid :: "pystr \<Rightarrow> duid res" where
  "decode_duid duid_str =
     rbind (from_hex duid_str) (\<lambda>duid_bytes.
     rbind (DUID_parse duid_bytes 0 (Some (length duid_bytes))) (\<lambda>(duid_len, duid). Inr duid))"

definition encode_remote_id :: "int \<Rightarrow> bytes \<Rightarrow> pystr" where
  "encode_remote_id enterprise_number remote_id =
     decimal enterprise_number @ lit '':'' @ hex_encode remote_id"

fun remote_ids_of :: "dhcp_option list \<Rightarrow> pystr list" where
  "remote_ids_of [] = []"
| "remote_ids_of (Plain (ExtensionOption (RemoteIdOption n r)) # options) =
     encode_remote_id n r # remote_ids_of options"
| "remote_ids_of (_ # options) = remote_ids_of options"

definition get_remote_ids :: "transaction_bundle \<Rightarrow> pystr list" where
  "get_remote_ids b =
     concat (map (\<lambda>relay_message. remote_ids_of (relay_options relay_message)) (incoming_relay_messages b))"

fun relay_ids_of :: "dhcp_option list \<Rightarrow> pystr list res" where
  "relay_ids_of [] = Inr []"
| "relay_ids_of (Plain (ExtensionOption (RelayIdOption d)) # options) =
     rbind (encode_duid d) (\<lambda>relay_id. rbind (relay_ids_of options) (\<lambda>relay_ids. Inr (relay_id # relay_ids)))"
| "relay_ids_of (_ # options) = relay_ids_of options"

definition get_relay_ids :: "transaction_bundle \<Rightarrow> pystr list res" where
  "get_relay_ids b = concat_res (\<lambda>relay_message. relay_ids_of (relay_options relay_message)) (incoming_relay_messages b)"

subsection \<open>Options and relay chains as octets\<close>

definition encode_options :: "int list \<Rightarrow> dhcp_option list \<Rightarrow> bytes res" where
  "encode_options sensitive_options options =
     concat_res option_save (filter_storable_options sensitive_options options)"

text \<open>The length that \<open>decode_options\<close> passes for an option is the rest of the data, as without one.\<close>

definition decode_options :: "registry \<Rightarrow> bytes \<Rightarrow> dhcp_option list res" where
  "decode_options R data =
     rbind (items_loop (Suc (length data)) (Option_parse R data) 0 0 (length data))
       (\<lambda>(offset, options). Inr options)"

text \<open>
  The chain that \<open>encode_relay_messages\<close> builds: every relay forward with its storable options,
  linked as they were; the message of the client is left out.
\<close>

function storable_chain :: "int list \<Rightarrow> relay \<Rightarrow> relay" where
  "storable_chain sensitive_options r =
     (let options = filter_storable_options sensitive_options (relay_options r) in
      r\<lparr>relay_options :=
        (case relayed_message (relay_options r) of
           Some (RelayServerMessage RelayForwardMessage h l p os) \<Rightarrow>
             set_relayed_message
               (Some (relay_message RelayForwardMessage
                 (storable_chain sensitive_options
                   \<lparr>relay_hop_count = h, relay_link_address = l, relay_peer_address = p,
                     relay_options = os\<rparr>)))
               options
         | _ \<Rightarrow> options)\<rparr>)"
  by pat_completeness auto

termination
  by (relation "measure (\<lambda>(s, r). size_list size (relay_options r))") (auto dest: size_relayed_relay)

declare storable_chain.simps [simp del]

definition encode_relay_messages :: "int list \<Rightarrow> relay option \<Rightarrow> bytes res" where
  "encode_relay_messages sensitive_options relay_chain =
     (case relay_chain of
        None \<Rightarrow> Inr []
      | Some r \<Rightarrow> message_save (relay_message RelayForwardMessage (storable_chain sensitive_options r)))"

definition decode_relay_messages :: "registry \<Rightarrow> bytes \<Rightarrow> message option res" where
  "decode_relay_messages R data =
     (if data = [] then Inr None
      else rbind (Message_parse R data) (\<lambda>(used, m). Inr (Some m)))"

text \<open>
  The outermost relay of a chain is the server's own, so the option starts from the next one;
  a decoded message that is no relay message has no peer address.
\<close>

definition build_relay_data_option_from_relay_data :: "registry \<Rightarrow> bytes \<Rightarrow> dhcp_option option res" where
  "build_relay_data_option_from_relay_data R relay_data =
     (if relay_data = [] then Inr None
      else
        rbind (decode_relay_messages R relay_data) (\<lambda>relay_chain.
        case relay_chain of
          Some (RelayServerMessage c h l peer_address options) \<Rightarrow>
            (case relayed_message options of
               Some (RelayServerMessage RelayForwardMessage h' l' p' os) \<Rightarrow>
                 Inr (Some (LQRelayDataOption peer_address
                   (Some (RelayServerMessage RelayForwardMessage h' l' p' os))))
             | _ \<Rightarrow> Inr None)
        | _ \<Rightarrow> Inl AttributeError))"

subsection \<open>The handlers\<close>

definition unknown_query_message :: "int \<Rightarrow> pystr" where
  "unknown_query_message query_type =
     lit ''This server can''  @ [39] @ lit ''t handle query type '' @ decimal query_type"

definition UnansweredLeasequeryHandler_post :: step where
  "UnansweredLeasequeryHandler_post b =
     (case request b of
        None \<Rightarrow> Inr b
      | Some req \<Rightarrow>
          if cs_class req \<noteq> LeasequeryMessage then Inr b
          else
            (case get_unhandled_options [C_LQQueryOption] b of
               LQQueryOption query_type l os # qs \<Rightarrow>
                 raise_in (ReplyWithLeasequeryError 7 (unknown_query_message query_type)) b
             | _ \<Rightarrow> Inr b))"

definition UnansweredLeasequeryHandler :: handler where
  "UnansweredLeasequeryHandler = base_handler\<lparr>handler_post := UnansweredLeasequeryHandler_post\<rparr>"

text \<open>What a store answers to a query: the number of leases (negative if it cannot tell) and the leases.\<close>

type_synonym find_leases =
  "dhcp_option \<Rightarrow> handler_exception + int \<times> (ipv6 \<times> dhcp_option) list"

fun allowed_by :: "ipv6 option \<Rightarrow> ipv6_network list \<Rightarrow> bool res" where
  "allowed_by peer [] = Inr False"
| "allowed_by peer (n # networks) =
     rbind (address_in_network peer n) (\<lambda>a. rbind (allowed_by peer networks) (\<lambda>b. Inr (a \<or> b)))"

definition LeasequeryHandler_pre :: "ipv6_network list \<Rightarrow> step" where
  "LeasequeryHandler_pre allow_from b =
     (case request b of
        None \<Rightarrow> Inr b
      | Some req \<Rightarrow>
          if cs_class req \<noteq> LeasequeryMessage then Inr b
          else
            (case (if allow_from = [] then Inr False
                   else
                     (case incoming_relay_messages b of
                        [] \<Rightarrow> Inl IndexError
                      | r # rs \<Rightarrow> allowed_by (relay_peer_address r) allow_from)) of
               Inl e \<Rightarrow> raise_in (PythonError e) b
             | Inr allowed \<Rightarrow>
                 if \<not> allowed
                 then raise_in (ReplyWithLeasequeryError 10 (lit ''Leasequery not allowed from your address'')) b
                 else Inr b))"

definition generate_data_messages :: "bytes \<Rightarrow> (ipv6 \<times> dhcp_option) list \<Rightarrow> client_server list" where
  "generate_data_messages transaction_id leases =
     map (\<lambda>(query_link, data_option).
       \<lparr>cs_class = LeasequeryDataMessage, cs_transaction_id = transaction_id, cs_options = [data_option]\<rparr>) leases
     @ [\<lparr>cs_class = LeasequeryDoneMessage, cs_transaction_id = transaction_id,
          cs_options = [Plain (StatusCodeOption 0 (lit ''That'' @ [39] @ lit ''s all folks''))]\<rparr>]"

definition reply_error :: "pystr" where
  "reply_error = lit ''Error constructing your reply, please try again''"

text \<open>
  The order in which Python iterates over a set is unspecified: \<open>as_set\<close> is the list of the
  link addresses without duplicates in that order.
\<close>

definition LeasequeryHandler_handle :: "find_leases \<Rightarrow> (ipv6 list \<Rightarrow> ipv6 list) \<Rightarrow> step" where
  "LeasequeryHandler_handle find_leases as_set b =
     (case request b of
        None \<Rightarrow> Inr b
      | Some req \<Rightarrow>
          if cs_class req \<noteq> LeasequeryMessage then Inr b
          else
            (case get_unhandled_options [C_LQQueryOption] b of
               [] \<Rightarrow> Inr b
             | query # queries \<Rightarrow>
                 (case find_leases query of
                    Inl e \<Rightarrow> raise_in e b
                  | Inr (lease_count, leases) \<Rightarrow>
                      if lease_count < 0 then Inr b
                      else
                        (let b = mark_handled query b in
                         if received_over_tcp b then
                           (if lease_count > 0 then
                              (case (leases, response b) of
                                 ((query_link, first_data_option) # rest, Some m) \<Rightarrow>
                                   (let m = m\<lparr>cs_options := cs_options m @ [first_data_option]\<rparr> in
                                    Inr (b\<lparr>responses := \<lparr>first_message = Some m,
                                      subsequent_messages =
                                        generate_data_messages (cs_transaction_id m) rest\<rparr>\<rparr>))
                               | _ \<Rightarrow> raise_in (ReplyWithLeasequeryError 11 reply_error) b)
                            else Inr b)
                         else
                           (if lease_count = 1 then
                              (case (leases, response b) of
                                 ((query_link, first_data_option) # rest, Some m) \<Rightarrow>
                                   set_response_options m (cs_options m @ [first_data_option]) b
                               | _ \<Rightarrow> raise_in (ReplyWithLeasequeryError 1 reply_error) b)
                            else if lease_count > 1 then
                              (case response b of
                                 Some m \<Rightarrow>
                                   set_response_options m
                                     (cs_options m @ [Plain (ExtensionOption (LQClientLink (as_set (map fst leases))))]) b
                               | None \<Rightarrow> raise_in (ReplyWithLeasequeryError 1 reply_error) b)
                            else Inr b)))))"

definition LeasequeryHandler ::
  "find_leases \<Rightarrow> (ipv6 list \<Rightarrow> ipv6 list) \<Rightarrow> ipv6_network list \<Rightarrow> handler" where
  "LeasequeryHandler find_leases as_set allow_from =
     base_handler\<lparr>handler_pre := LeasequeryHandler_pre allow_from,
       handler_handle := LeasequeryHandler_handle find_leases as_set\<rparr>"

text \<open>\<open>analyse_post\<close> lets the store remember the leases of a reply; it does not change the bundle.\<close>

definition remembers_lease :: "transaction_bundle \<Rightarrow> bool" where
  "remembers_lease b \<longleftrightarrow> (case response b of Some m \<Rightarrow> cs_class m = ReplyMessage | None \<Rightarrow> False)"

end
