(* ===== verification/HandlerLaws.thy ===== *)
theory HandlerLaws
  imports Worker OptionHandlers StaticAssignments TimingLimits RateLimit Leasequery
begin

text \<open>
  What the handlers do, one by one; and the contract between the handlers and the dispatcher:
  a handler may replace the options of the response, change the options of the outgoing relay
  replies, allow unicast, turn an advertise into a reply, and answer a leasequery over TCP with several
  messages.  A property of bundles that
  survives these changes (locale \<open>handler_invariant\<close>) survives every handler of the program,
  and one that also survives what the dispatcher does itself (locale
  \<open>transaction_invariant\<close>) holds of every handled bundle.
\<close>

lemma response_set_response [simp]: "response (set_response m b) = m"
  by (cases m) (auto simp: response_def set_response_def empty_messages_def)

lemma set_response_fields [simp]:
  "request (set_response m b) = request b"
  "incoming_relay_messages (set_response m b) = incoming_relay_messages b"
  "outgoing_relay_messages (set_response m b) = outgoing_relay_messages b"
  "received_over_tcp (set_response m b) = received_over_tcp b"
  "received_over_multicast (set_response m b) = received_over_multicast b"
  "allow_rapid_commit (set_response m b) = allow_rapid_commit b"
  "allow_unicast (set_response m b) = allow_unicast b"
  "handled_options (set_response m b) = handled_options b"
  by (auto simp: set_response_def split: option.splits)

lemma mark_handled_fields [simp]:
  "request (mark_handled option b) = request b"
  "response (mark_handled option b) = response b"
  "responses (mark_handled option b) = responses b"
  "incoming_relay_messages (mark_handled option b) = incoming_relay_messages b"
  "outgoing_relay_messages (mark_handled option b) = outgoing_relay_messages b"
  "handled_options (mark_handled option b) =
     (if option \<in> set (handled_options b) then handled_options b else handled_options b @ [option])"
  by (simp_all add: mark_handled_def response_def)

lemma request_options_set_response [simp]: "request_options (set_response m b) = request_options b"
  by (simp add: request_options_def)

lemma get_unhandled_set_response [simp]:
  "get_unhandled_options cs (set_response m b) = get_unhandled_options cs b"
  by (simp add: get_unhandled_options_def)

subsection \<open>The contract\<close>

definition after :: "(transaction_bundle \<Rightarrow> bool) \<Rightarrow>
    (handler_exception \<times> transaction_bundle) + transaction_bundle \<Rightarrow> bool" where
  "after I r = (case r of Inl (e, b) \<Rightarrow> I b | Inr b \<Rightarrow> I b)"

lemma after_simps [simp]: "after I (Inr b) = I b" "after I (Inl (e, b)) = I b"
  by (simp_all add: after_def)

lemma after_rbind: "after I m \<Longrightarrow> (\<And>b. I b \<Longrightarrow> after I (f b)) \<Longrightarrow> after I (rbind m f)"
  by (cases m) (auto simp: after_def)

text \<open>A step that does nothing, raises, or replaces the options of the response.\<close>

definition options_only :: "step \<Rightarrow> bool" where
  "options_only f \<longleftrightarrow>
     (\<forall>b. f b = Inr b \<or> (\<exists>e. f b = Inl (e, b))
        \<or> (\<exists>m options. response b = Some m \<and> f b = Inr (set_response (Some (m\<lparr>cs_options := options\<rparr>)) b)))"

definition step_keeps :: "(transaction_bundle \<Rightarrow> bool) \<Rightarrow> step \<Rightarrow> bool" where
  "step_keeps I f \<longleftrightarrow> (\<forall>b. I b \<longrightarrow> after I (f b))"

definition handler_keeps :: "(transaction_bundle \<Rightarrow> bool) \<Rightarrow> handler \<Rightarrow> bool" where
  "handler_keeps I h \<longleftrightarrow>
     step_keeps I (analyse_pre h) \<and> step_keeps I (handler_pre h)
     \<and> step_keeps I (handler_handle h) \<and> step_keeps I (handler_post h)
     \<and> step_keeps I (analyse_post h)"

lemma step_keepsI: "(\<And>b. I b \<Longrightarrow> after I (f b)) \<Longrightarrow> step_keeps I f"
  by (simp add: step_keeps_def)

lemma step_keepsD: "step_keeps I f \<Longrightarrow> I b \<Longrightarrow> after I (f b)"
  by (simp add: step_keeps_def)

lemma step_keeps_Inr [simp]: "step_keeps I Inr"
  by (simp add: step_keeps_def)

lemma run_steps_keeps:
  assumes "\<And>h. h \<in> set hs \<Longrightarrow> step_keeps I (f h)"
  shows "step_keeps I (run_steps f hs)"
  using assms
proof (induction hs)
  case (Cons h hs)
  then have h: "step_keeps I (f h)" and hs: "step_keeps I (run_steps f hs)" by simp_all
  show ?case
    by (rule step_keepsI) (simp add: after_rbind step_keepsD [OF h] step_keepsD [OF hs])
qed (simp add: step_keeps_def)

lemma analyse_keeps:
  assumes "\<And>h. h \<in> set hs \<Longrightarrow> step_keeps I (phase h)" and "I b"
  shows "I (analyse phase hs b)"
  using assms
proof (induction hs arbitrary: b)
  case (Cons h hs)
  have "I (case phase h b of Inl (e, b') \<Rightarrow> b' | Inr b' \<Rightarrow> b')"
    using step_keepsD [OF Cons.prems(1) [of h] Cons.prems(2)]
    by (simp add: after_def split: sum.splits prod.splits)
  with Cons.IH Cons.prems(1) show ?case
    by (simp add: analyse_def)
qed (simp add: analyse_def)

locale handler_invariant =
  fixes I :: "transaction_bundle \<Rightarrow> bool"
  assumes inv_options: "I b \<Longrightarrow> response b = Some m \<Longrightarrow>
      I (set_response (Some (m\<lparr>cs_options := options\<rparr>)) b)"
    and inv_chain: "I b \<Longrightarrow> outgoing_relay_messages b = Some rs \<Longrightarrow>
      map addressing rs' = map addressing rs \<Longrightarrow> I (b\<lparr>outgoing_relay_messages := Some rs'\<rparr>)"
    and inv_handled: "I b \<Longrightarrow> I (mark_handled option b)"
    and inv_unicast: "I b \<Longrightarrow> I (b\<lparr>allow_unicast := True\<rparr>)"
    and inv_rapid: "I b \<Longrightarrow> request b = Some req \<Longrightarrow> response b = Some m \<Longrightarrow>
      allow_rapid_commit b \<Longrightarrow> cs_class req = SolicitMessage \<Longrightarrow> cs_class m = AdvertiseMessage \<Longrightarrow>
      I (set_response (Some \<lparr>cs_class = ReplyMessage, cs_transaction_id = cs_transaction_id m,
        cs_options = options\<rparr>) b)"
    and inv_bulk: "I b \<Longrightarrow> request b = Some req \<Longrightarrow> cs_class req = LeasequeryMessage \<Longrightarrow>
      received_over_tcp b \<Longrightarrow> response b = Some m \<Longrightarrow>
      I (b\<lparr>responses := \<lparr>first_message = Some (m\<lparr>cs_options := options\<rparr>),
        subsequent_messages = generate_data_messages (cs_transaction_id m) leases\<rparr>\<rparr>)"
begin

lemma with_response_keeps:
  assumes "\<And>m b. I b \<Longrightarrow> response b = Some m \<Longrightarrow>
    f m b = Inr b \<or> (\<exists>options. f m b = set_response_options m options b)"
  shows "step_keeps I (with_response f)"
proof (rule step_keepsI)
  fix b assume b: "I b"
  show "after I (with_response f b)"
  proof (cases "response b")
    case (Some m)
    with assms [OF b Some] b inv_options [OF b Some] show ?thesis
      by (auto simp: with_response_def set_response_options_def)
  qed (use b in \<open>simp add: with_response_def\<close>)
qed

lemma append_response_keeps: "step_keeps I (append_response option)"
  unfolding append_response_def by (rule with_response_keeps) auto

lemma basic_handlers_keep:
  "step_keeps I (CopyOptionHandler_handle T c s)"
  "step_keeps I (SimpleOptionHandler_handle T combine option always_add s)"
  "step_keeps I (OverwriteOptionHandler_handle T option s)"
  unfolding CopyOptionHandler_handle_def SimpleOptionHandler_handle_def
    OverwriteOptionHandler_handle_def Let_def
  by (rule with_response_keeps; simp split: option.split; blast)+

lemma relay_handler_keeps:
  assumes "\<And>i r. addressing (f i r) = addressing r"
  shows "step_keeps I (RelayHandler_handle f)"
proof (rule step_keepsI)
  have "map addressing (map2 f incoming rs) = map addressing rs" if "length incoming = length rs" for incoming rs
    using that assms by (induction incoming rs rule: list_induct2) auto
  then show "after I (RelayHandler_handle f b)" if "I b" for b
    using that inv_chain [OF that] by (simp add: RelayHandler_handle_def split: option.split)
qed

lemma copy_relay_keeps:
  "step_keeps I (RelayHandler_handle (CopyRelayOptionHandler_handle_relay T c))"
  by (rule relay_handler_keeps) (simp add: CopyRelayOptionHandler_handle_relay_def)

lemma missing_status_keeps: "step_keeps I AddMissingStatusOptionHandler_handle"
proof (rule step_keepsI)
  have keep: "step_keeps I (with_response (\<lambda>m b.
      if get_option_of_type [C_StatusCodeOption] (cs_options m) = None
      then set_response_options m (cs_options m @ [Plain (StatusCodeOption 0 message)]) b
      else Inr b))" for message
    by (rule with_response_keeps) auto
  show "after I (AddMissingStatusOptionHandler_handle b)" if "I b" for b
    using that step_keepsD [OF keep that]
    by (simp add: AddMissingStatusOptionHandler_handle_def split: option.split)
qed

lemma answer_ia_keeps: "step_keeps I (answer_ia a option)"
proof (rule step_keepsI)
  have keep: "step_keeps I (with_response (\<lambda>m. set_response_options m (f m)))" for f
    by (rule with_response_keeps) auto
  show "after I (answer_ia a option b)" if "I b" for b
    using that step_keepsD [OF keep that] step_keepsD [OF append_response_keeps that]
    by (simp add: answer_ia_def raise_in_def split: option.split)
qed

lemma answer_iapd_keeps: "step_keeps I (answer_iapd a option)"
proof (rule step_keepsI)
  show "after I (answer_iapd a option b)" if "I b" for b
    using that step_keepsD [OF append_response_keeps that]
    by (simp add: answer_iapd_def raise_in_def split: option.split)
qed

lemma unanswered_keeps:
  "step_keeps I (UnansweredIAOptionHandler_handle a)"
  "step_keeps I (UnansweredIAPDOptionHandler_handle a)"
  unfolding UnansweredIAOptionHandler_handle_def UnansweredIAPDOptionHandler_handle_def
  by (rule step_keepsI, rule step_keepsD, rule run_steps_keeps,
      simp_all add: answer_ia_keeps answer_iapd_keeps)+

lemma rapid_commit_keeps: "step_keeps I (RapidCommitHandler_post r)"
proof (rule step_keepsI)
  show "after I (RapidCommitHandler_post r b)" if "I b" for b
    using that inv_rapid [OF that]
    by (simp add: RapidCommitHandler_post_def split: option.split)
qed

lemma echo_relay_keeps:
  "step_keeps I (RelayHandler_handle (RelayEchoRequestOptionHandler_handle_relay T))"
  by (rule relay_handler_keeps)
    (simp add: RelayEchoRequestOptionHandler_handle_relay_def
      split: option.split dhcp_option.split plain_option.split extension_option.split)

lemma timing_limits_keep: "step_keeps I (TimingLimitsHandler_handle f)"
  unfolding TimingLimitsHandler_handle_def by (rule with_response_keeps) auto

text \<open>Static assignments: each method is a sequence of answers and marks.\<close>

lemma answer_with_keeps: "step_keeps I (answer_with option answer)"
proof (rule step_keepsI)
  show "after I (answer_with option answer b)" if "I b" for b
    unfolding answer_with_def
    by (rule after_rbind [OF step_keepsD [OF append_response_keeps that]]) (simp add: inv_handled)
qed

lemma assignment_steps_keep:
  "step_keeps I (request_prefix h a)" "step_keeps I (request_address h a)"
  "step_keeps I (renew_prefix h a option)" "step_keeps I (renew_address h a option)"
  "step_keeps I (release_prefix a option)" "step_keeps I (release_address a option)"
proof -
  have answer: "after I (answer_with option answer b)" if "I b" for option answer b
    by (rule step_keepsD [OF answer_with_keeps that])
  have python: "after I (python r f b)" if "I b" and "\<And>x b. I b \<Longrightarrow> after I (f x b)"
    for r :: "'x res" and f b
    using that by (auto simp: python_def raise_in_def split: sum.split)
  show "step_keeps I (request_prefix h a)" "step_keeps I (request_address h a)"
    "step_keeps I (renew_prefix h a option)" "step_keeps I (renew_address h a option)"
    "step_keeps I (release_prefix a option)" "step_keeps I (release_address a option)"
    by (rule step_keepsI,
        simp add: request_prefix_def request_address_def renew_prefix_def renew_address_def
          release_prefix_def release_address_def answer inv_handled python split: option.split)+
qed

lemma static_assignment_keeps: "step_keeps I (StaticAssignmentHandler_handle h)"
proof (rule step_keepsI)
  note steps = assignment_steps_keep [THEN step_keepsD]
  have run: "after I (run_steps f options b)" if "I b" and "\<And>o' b. I b \<Longrightarrow> after I (f o' b)" for f options b
    by (rule run_steps_keeps [THEN step_keepsD]) (auto simp: step_keeps_def that)
  have python: "after I (python (get_assignment h b) f b)" if "I b" and "\<And>x b. I b \<Longrightarrow> after I (f x b)" for f b
    using that by (auto simp: python_def raise_in_def split: sum.split)
  have "after I (handle_request h b)" "after I (handle_confirm h b)"
    "after I (handle_renew_rebind h b)" "after I (handle_release_decline h b)" if "I b" for b
    unfolding handle_request_def handle_confirm_def handle_renew_rebind_def handle_release_decline_def Let_def
    by (rule python [OF that], (rule run after_rbind steps | assumption | simp add: inv_handled)+)+
  then show "after I (StaticAssignmentHandler_handle h b)" if "I b" for b
    using that by (simp add: StaticAssignmentHandler_handle_def split: option.split)
qed

lemma extension_pre_keeps:
  "step_keeps I RequireBulkLeasequeryOverTCPHandler_pre"
  "step_keeps I RefuseBulkLeasequeryOverUDPHandler_pre"
  "step_keeps I (RateLimitHandler_pre key check)"
  by (simp_all add: step_keeps_def RequireBulkLeasequeryOverTCPHandler_pre_def
    RefuseBulkLeasequeryOverUDPHandler_pre_def RateLimitHandler_pre_def raise_in_def
    split: option.split dhcp_option.split sum.split)

lemma leasequery_keeps:
  "step_keeps I (LeasequeryHandler_pre allow)" "step_keeps I (LeasequeryHandler_handle find_leases as_set)"
  "step_keeps I UnansweredLeasequeryHandler_post"
proof -
  have several: "I (b\<lparr>responses := \<lparr>first_message = Some (m\<lparr>cs_options := options\<rparr>),
        subsequent_messages = generate_data_messages (cs_transaction_id m) leases\<rparr>\<rparr>)"
    if "I b" "request b = Some req" "cs_class req = LeasequeryMessage" "received_over_tcp b" "response b = Some m"
    for b req m options leases
    by (rule inv_bulk [OF that])
  have one: "after I (set_response_options m options b)" if "I b" "response b = Some m" for b m options
    using inv_options [OF that] by (simp add: set_response_options_def)
  show "step_keeps I (LeasequeryHandler_pre allow)" "step_keeps I UnansweredLeasequeryHandler_post"
    by (simp_all add: step_keeps_def LeasequeryHandler_pre_def UnansweredLeasequeryHandler_post_def raise_in_def
      split: option.split sum.split list.split dhcp_option.split)
  show "step_keeps I (LeasequeryHandler_handle find_leases as_set)"
    by (rule step_keepsI)
      (auto simp: LeasequeryHandler_handle_def raise_in_def Let_def inv_handled
        split: option.split sum.split list.split prod.split intro!: several one)
qed

text \<open>A handler of another package, as far as it only changes the options of the response or raises.\<close>

lemma options_only_keeps:
  assumes "options_only f"
  shows "step_keeps I f"
proof (rule step_keepsI)
  fix b assume b: "I b"
  from assms consider "f b = Inr b" | e where "f b = Inl (e, b)"
    | m options where "response b = Some m" "f b = Inr (set_response (Some (m\<lparr>cs_options := options\<rparr>)) b)"
    unfolding options_only_def by blast
  then show "after I (f b)" using b inv_options by cases simp_all
qed

lemma pre_keeps:
  "step_keeps I (ServerIdHandler_pre d)"
  "step_keeps I (IgnoreRequestHandler_pre types)"
  "step_keeps I RejectUnwantedUnicastHandler_pre"
  "step_keeps I ServerUnicastOptionHandler_pre"
  by (simp_all add: step_keeps_def ServerIdHandler_pre_def IgnoreRequestHandler_pre_def
    RejectUnwantedUnicastHandler_pre_def ServerUnicastOptionHandler_pre_def raise_in_def inv_unicast
    split: option.split dhcp_option.split plain_option.split)

end

text \<open>
  The handlers of the program.  Those of options with domain names (theory DomainHandlers) are
  among the handlers that only change the options of the response, as are handlers of other packages that
  keep to this.
\<close>

inductive core_handler :: "containment \<Rightarrow> handler \<Rightarrow> bool" for T where
  "core_handler T (CopyOptionHandler T c s)"
| "core_handler T (SimpleOptionHandler T option always_add s)"
| "core_handler T (OverwriteOptionHandler T option s)"
| "core_handler T (ClientIdHandler T)"
| "core_handler T (ServerIdHandler T d)"
| "core_handler T (PreferenceOptionHandler T p)"
| "core_handler T (IgnoreRequestHandler types)"
| "core_handler T RejectUnwantedUnicastHandler"
| "core_handler T (ServerUnicastOptionHandler T address)"
| "core_handler T (CopyRelayOptionHandler T c)"
| "core_handler T (InterfaceIdOptionHandler T)"
| "core_handler T AddMissingStatusOptionHandler"
| "core_handler T (UnansweredIAOptionHandler a)"
| "core_handler T (UnansweredIAPDOptionHandler a)"
| "core_handler T (RapidCommitHandler r)"
| "option_handler T combine option s = Inr h \<Longrightarrow> core_handler T h"
| "core_handler T (RelayEchoRequestOptionHandler T)"
| "core_handler T RequireBulkLeasequeryOverTCPHandler"
| "core_handler T RefuseBulkLeasequeryOverUDPHandler"
| "core_handler T (StaticAssignmentHandler a)"
| "core_handler T (IANATimingLimitsHandler l)"
| "core_handler T (IAPDTimingLimitsHandler l)"
| "core_handler T (RateLimitHandler key check)"
| "core_handler T (LeasequeryHandler find_leases as_set allow)"
| "core_handler T UnansweredLeasequeryHandler"
| "options_only f \<Longrightarrow> core_handler T (base_handler\<lparr>handler_handle := f\<rparr>)"

lemmas handler_defs =
  CopyOptionHandler_def SimpleOptionHandler_def OverwriteOptionHandler_def ClientIdHandler_def
  ServerIdHandler_def PreferenceOptionHandler_def IgnoreRequestHandler_def
  RejectUnwantedUnicastHandler_def ServerUnicastOptionHandler_def CopyRelayOptionHandler_def
  InterfaceIdOptionHandler_def AddMissingStatusOptionHandler_def UnansweredIAOptionHandler_def
  UnansweredIAPDOptionHandler_def RapidCommitHandler_def RelayEchoRequestOptionHandler_def
  RequireBulkLeasequeryOverTCPHandler_def RefuseBulkLeasequeryOverUDPHandler_def
  StaticAssignmentHandler_def IANATimingLimitsHandler_def IAPDTimingLimitsHandler_def
  RateLimitHandler_def LeasequeryHandler_def UnansweredLeasequeryHandler_def base_handler_def

context handler_invariant
begin

lemma core_handler_keeps: "core_handler T h \<Longrightarrow> handler_keeps I h"
  by (induction rule: core_handler.induct)
    (auto simp: handler_keeps_def handler_defs basic_handlers_keep copy_relay_keeps
      missing_status_keeps unanswered_keeps rapid_commit_keeps pre_keeps echo_relay_keeps
      timing_limits_keep static_assignment_keeps extension_pre_keeps leasequery_keeps options_only_keeps
      option_handler_def
      elim!: rbind_InrE)

end

end
