(* ===== verification/HandlerEffects.thy ===== *)
theory HandlerEffects
  imports HandlerLaws
begin

text \<open>
  The effect of the single handlers on the response: how the loops over unanswered identity
  associations extend it, and what \<open>force_status\<close> makes of a list of options.
\<close>

lemma set_response_same: "response b = Some m \<Longrightarrow> set_response (Some m) b = b"
  by (simp add: set_response_def response_def)

lemma set_response_twice [simp]:
  "set_response (Some m) (set_response (Some m') b) = set_response (Some m) b"
  by (auto simp: set_response_def)

lemma append_response_eq:
  "response b = Some m \<Longrightarrow> append_response option b =
     Inr (set_response (Some (m\<lparr>cs_options := cs_options m @ [option]\<rparr>)) b)"
  by (simp add: append_response_def with_response_def set_response_options_def)

text \<open>A loop that appends one option for every element.\<close>

lemma run_append_response:
  assumes "\<And>x b. x \<in> set xs \<Longrightarrow> request b = Some req \<Longrightarrow> step x b = append_response (f x) b"
    and "request b = Some req" and "response b = Some m"
  shows "run_steps step xs b =
    Inr (set_response (Some (m\<lparr>cs_options := cs_options m @ map f xs\<rparr>)) b)"
  using assms
proof (induction xs arbitrary: b m)
  case (Cons x xs)
  let ?m = "m\<lparr>cs_options := cs_options m @ [f x]\<rparr>"
  have "step x b = Inr (set_response (Some ?m) b)"
    using Cons.prems by (simp add: append_response_eq)
  moreover have "run_steps step xs (set_response (Some ?m) b) =
      Inr (set_response (Some (?m\<lparr>cs_options := cs_options ?m @ map f xs\<rparr>)) (set_response (Some ?m) b))"
    by (rule Cons.IH) (use Cons.prems in auto)
  ultimately show ?case by simp
qed (simp add: set_response_same)

subsection \<open>Unanswered identity associations\<close>

text \<open>An answer that leaves the client nothing: a status, or addresses with no lifetime left.\<close>

fun no_lease :: "dhcp_option \<Rightarrow> bool" where
  "no_lease (Plain (StatusCodeOption c m)) \<longleftrightarrow> c \<noteq> 0"
| "no_lease (IAAddressOption a p v os) \<longleftrightarrow> p = 0 \<and> v = 0 \<and> os = []"
| "no_lease (IAPrefixOption n p v os) \<longleftrightarrow> p = 0 \<and> v = 0 \<and> os = []"
| "no_lease _ \<longleftrightarrow> False"

definition declines :: "dhcp_option \<Rightarrow> dhcp_option \<Rightarrow> bool" where
  "declines ia answer \<longleftrightarrow>
     (\<exists>options. answer = make_ia ia options \<and>
        ((\<exists>c m. options = [Plain (StatusCodeOption c m)] \<and> 0 < c \<and> c < 2 ^ 16)
         \<or> options = withdrawn C_IAAddressOption ia \<or> options = withdrawn C_IAPrefixOption ia))"

lemma make_ia_class: "option_class_of (make_ia o' os) = option_class_of o'"
  by (cases "(o', os)" rule: make_ia.cases) simp_all

lemma make_ia_iaid: "option_iaid (make_ia o' os) = option_iaid o'"
  by (cases "(o', os)" rule: make_ia.cases) simp_all

lemma make_ia_suboptions:
  "option_class_of o' \<in> {C_IANAOption, C_IATAOption, C_IAPDOption} \<Longrightarrow> suboptions (make_ia o' os) = os"
  by (cases "(o', os)" rule: make_ia.cases) (auto simp: plain_class_ia)

lemma withdrawn_no_lease:
  "c \<in> {C_IAAddressOption, C_IAPrefixOption} \<Longrightarrow> list_all no_lease (withdrawn c o')"
proof -
  have "no_lease (withdraw x)" if "option_class_of x \<in> {C_IAAddressOption, C_IAPrefixOption}" for x
    using that by (cases x) (auto simp: plain_class_ia)
  then show "c \<in> {C_IAAddressOption, C_IAPrefixOption} \<Longrightarrow> list_all no_lease (withdrawn c o')"
    by (auto simp: withdrawn_def get_options_of_type_def list_all_iff)
qed

text \<open>An answer is an association of the same class and IAID that leaves nothing to use.\<close>

lemma declinesD:
  assumes "declines ia answer" and "option_class_of ia \<in> {C_IANAOption, C_IATAOption, C_IAPDOption}"
  shows "option_class_of answer = option_class_of ia" and "option_iaid answer = option_iaid ia"
    and "list_all no_lease (suboptions answer)"
  using assms withdrawn_no_lease [of C_IAAddressOption ia] withdrawn_no_lease [of C_IAPrefixOption ia]
  by (auto simp: declines_def make_ia_class make_ia_iaid make_ia_suboptions)

lemma make_ia_declines:
  "0 < c \<Longrightarrow> c < 2 ^ 16 \<Longrightarrow> declines o' (make_ia o' [Plain (StatusCodeOption c m)])"
  "declines o' (make_ia o' (withdrawn C_IAAddressOption o'))"
  "declines o' (make_ia o' (withdrawn C_IAPrefixOption o'))"
  unfolding declines_def by blast+

lemma get_unhandled_class:
  "o' \<in> set (get_unhandled_options cs b) \<Longrightarrow> option_class_of o' \<in> set cs"
  by (simp add: get_unhandled_options_def)

definition answered_classes :: "client_server_class set" where
  "answered_classes = {SolicitMessage, RequestMessage, RenewMessage, RebindMessage,
     DeclineMessage, ReleaseMessage}"

lemma answer_ia_append:
  assumes "request b = Some req" and "cs_class req \<in> answered_classes"
  shows "\<exists>answer. declines o' answer \<and> (\<forall>b. request b = Some req \<longrightarrow>
    answer_ia True o' b = append_response answer b)"
proof -
  have "declines o' (make_ia o' [Plain (StatusCodeOption 2 (lit ''No addresses available''))])"
    "declines o' (make_ia o' no_binding_addresses)"
    "declines o' (make_ia o' (withdrawn C_IAAddressOption o'))"
    by (simp_all add: make_ia_declines)
  with assms(2) show ?thesis
    by (auto simp: answered_classes_def answer_ia_def)
qed

lemma run_declines:
  assumes "\<And>x. x \<in> set xs \<Longrightarrow> \<exists>answer. declines x answer \<and>
      (\<forall>b. request b = Some req \<longrightarrow> step x b = append_response answer b)"
    and "request b = Some req" and "response b = Some m"
  obtains answers where "list_all2 declines xs answers"
    and "run_steps step xs b =
      Inr (set_response (Some (m\<lparr>cs_options := cs_options m @ answers\<rparr>)) b)"
proof -
  from assms(1) obtain f where "\<forall>x \<in> set xs. declines x (f x) \<and>
      (\<forall>b. request b = Some req \<longrightarrow> step x b = append_response (f x) b)"
    by metis
  then show thesis
    using run_append_response [of xs req step f b m] assms(2,3)
    by (intro that [of "map f xs"]) (auto simp: list_all2_conv_all_nth)
qed

lemma unanswered_ia_declined:
  assumes "request b = Some req" and "cs_class req \<in> answered_classes" and "response b = Some m"
  obtains answers where
    "list_all2 declines (get_unhandled_options [C_IANAOption, C_IATAOption] b) answers"
    and "UnansweredIAOptionHandler_handle True b =
      Inr (set_response (Some (m\<lparr>cs_options := cs_options m @ answers\<rparr>)) b)"
proof (rule run_declines [of "get_unhandled_options [C_IANAOption, C_IATAOption] b" req "answer_ia True" b m])
  show "\<exists>answer. declines x answer \<and> (\<forall>b. request b = Some req \<longrightarrow>
      answer_ia True x b = append_response answer b)"
    if "x \<in> set (get_unhandled_options [C_IANAOption, C_IATAOption] b)" for x
    by (rule answer_ia_append [OF assms(1,2)])
qed (use assms that in \<open>auto simp: UnansweredIAOptionHandler_handle_def\<close>)

lemma unanswered_iapd_declined:
  assumes "request b = Some req" and "cs_class req \<in> answered_classes - {DeclineMessage}"
    and "response b = Some m"
  obtains answers where
    "list_all2 declines (get_unhandled_options [C_IAPDOption] b) answers"
    and "UnansweredIAPDOptionHandler_handle True b =
      Inr (set_response (Some (m\<lparr>cs_options := cs_options m @ answers\<rparr>)) b)"
proof (rule run_declines [of "get_unhandled_options [C_IAPDOption] b" req "answer_iapd True" b m])
  show "\<exists>answer. declines x answer \<and> (\<forall>b. request b = Some req \<longrightarrow>
      answer_iapd True x b = append_response answer b)"
    if "x \<in> set (get_unhandled_options [C_IAPDOption] b)" for x
  proof -
    have "declines x (make_ia x [Plain (StatusCodeOption 6 (lit ''No prefixes available''))])"
      "declines x (make_ia x no_binding_prefixes)"
      "declines x (make_ia x (withdrawn C_IAPrefixOption x))"
      by (simp_all add: make_ia_declines)
    with assms(2) show ?thesis
      by (auto simp: answered_classes_def answer_iapd_def)
  qed
qed (use assms that in \<open>auto simp: UnansweredIAPDOptionHandler_handle_def\<close>)

subsection \<open>force_status\<close>

fun is_status :: "dhcp_option \<Rightarrow> bool" where
  "is_status (Plain (StatusCodeOption c m)) \<longleftrightarrow> True"
| "is_status _ \<longleftrightarrow> False"

lemma is_statusE:
  assumes "is_status o'"
  obtains c m where "o' = Plain (StatusCodeOption c m)"
  using assms by (cases o' rule: is_status.cases) auto

lemma force_status_loop_step:
  "i < length options \<Longrightarrow> \<not> is_status (options ! i) \<Longrightarrow>
   force_status_loop i options c m = force_status_loop (Suc i) options c m"
  by (cases "options ! i" rule: is_status.cases) (simp_all add: force_status_loop.simps [of i])

lemma force_status_loop_skip:
  assumes "\<forall>o' \<in> set (drop i options). \<not> is_status o'"
  shows "force_status_loop i options c m = options @ [Plain (StatusCodeOption c m)]"
  using assms
proof (induction i options c m rule: force_status_loop.induct)
  case (1 i options c m)
  show ?case
  proof (cases "i < length options")
    case True
    then have d: "drop i options = options ! i # drop (Suc i) options"
      by (simp add: Cons_nth_drop_Suc)
    then have "\<not> is_status (options ! i)" using "1.prems" by simp
    then show ?thesis
      using "1.prems" d True
      by (cases "options ! i" rule: is_status.cases)
        (simp_all add: force_status_loop_step "1.IH")
  qed (simp add: force_status_loop.simps)
qed

lemma force_status_no_status:
  "\<forall>o' \<in> set options. \<not> is_status o' \<Longrightarrow>
   force_status options c m = options @ [Plain (StatusCodeOption c m)]"
  by (simp add: force_status_def force_status_loop_skip)

lemma force_status_loop_reach:
  assumes "\<forall>o' \<in> set xs. \<not> is_status o'" and "i \<le> length xs"
  shows "force_status_loop i (xs @ Plain (StatusCodeOption c' m') # ys) c m =
    force_status_loop (length xs) (xs @ Plain (StatusCodeOption c' m') # ys) c m"
  using assms(2)
proof (induction "length xs - i" arbitrary: i)
  case (Suc n)
  then have i: "i < length xs" by simp
  then have "\<not> is_status (xs ! i)" using assms(1) by simp
  then show ?case
    using Suc i by (simp add: force_status_loop_step nth_append)
qed simp

lemma remove1_middle: "x \<notin> set xs \<Longrightarrow> remove1 x (xs @ x # ys) = xs @ ys"
  by (simp add: remove1_append)

text \<open>With one status option in the list: it is kept if it has the code, and replaced otherwise.\<close>

lemma force_status_one:
  assumes "\<forall>o' \<in> set xs. \<not> is_status o'" and "\<forall>o' \<in> set ys. \<not> is_status o'"
  shows "force_status (xs @ Plain (StatusCodeOption c' m') # ys) c m =
    (if c' = c then xs @ Plain (StatusCodeOption c' m') # ys
     else xs @ ys @ [Plain (StatusCodeOption c m)])"
proof -
  have "Plain (StatusCodeOption c' m') \<notin> set xs" using assms(1) by fastforce
  then have "remove1 (Plain (StatusCodeOption c' m')) (xs @ Plain (StatusCodeOption c' m') # ys) = xs @ ys"
    by (rule remove1_middle)
  moreover have "force_status_loop (Suc (length xs)) (xs @ ys) c m =
      (xs @ ys) @ [Plain (StatusCodeOption c m)]"
    by (rule force_status_loop_skip) (use assms in \<open>auto dest: in_set_dropD\<close>)
  ultimately show ?thesis
    using force_status_loop_reach [OF assms(1), of 0]
    by (simp add: force_status_def force_status_loop.simps [of "length xs"])
qed

end
