(* ===== verification/Dispatch.thy ===== *)
theory Dispatch
  imports HandlerLaws
begin

text \<open>
  What the dispatcher guarantees of every handled bundle, whatever handlers of the program are
  configured: proved once for a property of bundles (locale \<open>transaction_invariant\<close>) and
  interpreted for the relay chain and for the kind of reply.
\<close>

text \<open>The class of the response that a request is given before the handlers run.\<close>

fun initial_reply :: "client_server_class \<Rightarrow> client_server_class option" where
  "initial_reply SolicitMessage = Some AdvertiseMessage"
| "initial_reply RequestMessage = Some ReplyMessage"
| "initial_reply ConfirmMessage = Some ReplyMessage"
| "initial_reply RenewMessage = Some ReplyMessage"
| "initial_reply RebindMessage = Some ReplyMessage"
| "initial_reply ReleaseMessage = Some ReplyMessage"
| "initial_reply DeclineMessage = Some ReplyMessage"
| "initial_reply InformationRequestMessage = Some ReplyMessage"
| "initial_reply LeasequeryMessage = Some LeasequeryReplyMessage"
| "initial_reply _ = None"

lemma init_response_cases:
  "init_response b = raise_in CannotRespondError b \<or>
   (\<exists>req c. request b = Some req \<and> initial_reply (cs_class req) = Some c \<and>
      init_response b = Inr (start_response c req b))"
  by (cases "request b"; cases "cs_class (the (request b))")
    (simp_all add: init_response_def)

locale transaction_invariant = handler_invariant +
  assumes inv_start: "I b \<Longrightarrow> request b = Some req \<Longrightarrow> initial_reply (cs_class req) = Some c \<Longrightarrow>
      I (start_response c req b)"
    and inv_drop: "I b \<Longrightarrow> I (set_response None b)"
    and inv_status: "I b \<Longrightarrow> request b = Some req \<Longrightarrow>
      c = ReplyMessage \<or> c = LeasequeryReplyMessage \<Longrightarrow>
      I (set_response (Some \<lparr>cs_class = c, cs_transaction_id = cs_transaction_id req,
        cs_options = options\<rparr>) b)"
begin

lemma init_response_keeps: "step_keeps I init_response"
proof (rule step_keepsI)
  show "after I (init_response b)" if "I b" for b
    using init_response_cases [of b] inv_start [OF that] that by (auto simp: raise_in_def)
qed

lemma process_keeps:
  assumes "\<And>h. h \<in> set handlers \<Longrightarrow> handler_keeps I h"
  shows "step_keeps I (process handlers)"
proof -
  have "step_keeps I (run_steps handler_pre handlers)" "step_keeps I (run_steps handler_handle handlers)"
    "step_keeps I (run_steps handler_post handlers)"
    using assms by (auto intro!: run_steps_keeps simp: handler_keeps_def)
  then show ?thesis
    using init_response_keeps
    by (auto simp: step_keeps_def process_def intro!: after_rbind)
qed

lemma recover_keeps:
  assumes "I b" and "recover mh e b = (events, Inr b')"
  shows "I b'"
proof -
  have status: "I (set_response (Some m) b)"
    if "construct_status_reply c mh b code message = Inr m"
      "c = ReplyMessage \<or> c = LeasequeryReplyMessage" for c code message m
    using that inv_status [OF assms(1)]
    by (auto simp: construct_status_reply_def split: option.splits)
  show ?thesis
    using assms(2) inv_drop [OF assms(1)] status
    by (auto simp: recover_def construct_use_multicast_reply_def construct_plain_status_reply_def
      construct_leasequery_status_reply_def elim!: rbind_InrE split: handler_exception.splits if_splits)
qed

lemma run_phases_keeps:
  assumes "\<And>h. h \<in> set handlers \<Longrightarrow> handler_keeps I h" and "I b"
    and "run_phases mh handlers b = (events, Inr b')"
  shows "I b'"
proof -
  have "after I (process handlers b)"
    using step_keepsD [OF process_keeps assms(2)] assms(1) by blast
  with assms(3) recover_keeps show ?thesis
    by (auto simp: run_phases_def split: sum.splits)
qed

lemma handled:
  assumes "message_handler_handle T mh refs b st = (Inr b', st')"
    and "request b \<noteq> None" and "I (b\<lparr>allow_rapid_commit := mh_allow_rapid_commit mh\<rparr>)"
    and "\<And>handlers h b. get_handlers T mh b = Inr handlers \<Longrightarrow> h \<in> set handlers \<Longrightarrow> handler_keeps I h"
  shows "I b'"
proof -
  let ?b = "b\<lparr>allow_rapid_commit := mh_allow_rapid_commit mh\<rparr>"
  from assms(1,2) obtain hs where hs: "get_handlers T mh ?b = Inr hs"
    by (auto simp: message_handler_handle_def Let_def split: option.splits sum.splits)
  have keeps: "handler_keeps I h" if "h \<in> set hs" for h
    using assms(4) [OF hs that] .
  have pre: "I (analyse analyse_pre hs ?b)"
    by (rule analyse_keeps) (simp_all add: assms(3) keeps [unfolded handler_keeps_def])
  from assms(1,2) hs obtain events b1
    where r: "run_phases mh hs (analyse analyse_pre hs ?b) = (events, Inr b1)"
      and b': "b' = analyse analyse_post hs b1"
    by (auto simp: message_handler_handle_def Let_def split: option.splits sum.splits prod.splits)
  have "I b1" by (rule run_phases_keeps [OF keeps pre r])
  then show ?thesis
    unfolding b' by (rule analyse_keeps [rotated]) (simp add: keeps [unfolded handler_keeps_def])
qed

end

text \<open>Which handlers run: the ones of the dispatcher, the configured ones, those of extensions.\<close>

fun filter_handlers :: "handler_filter \<Rightarrow> handler set" where
  "filter_handlers (Filter m fs hs) = (\<Union>f \<in> set fs. filter_handlers f) \<union> set hs"

lemma concat_res_set:
  "concat_res f xs = Inr ys \<Longrightarrow> y \<in> set ys \<Longrightarrow> \<exists>x \<in> set xs. \<exists>zs. f x = Inr zs \<and> y \<in> set zs"
  by (induction xs arbitrary: ys) (fastforce elim!: rbind_InrE)+

lemma filter_get_handlers_subset:
  "filter_get_handlers b f = Inr hs \<Longrightarrow> set hs \<subseteq> filter_handlers f"
proof (induction b f arbitrary: hs rule: filter_get_handlers.induct)
  case (1 b m fs gs)
  then obtain matches where m: "m b = Inr matches" by (auto elim!: rbind_InrE)
  show ?case
  proof (cases matches)
    case True
    with 1 m obtain inner where inner: "concat_res (filter_get_handlers b) fs = Inr inner"
      and hs: "hs = inner @ gs"
      by (auto elim!: rbind_InrE)
    have "h \<in> (\<Union>f \<in> set fs. filter_handlers f)" if "h \<in> set inner" for h
      using concat_res_set [OF inner that] 1(1) [OF m] True by fastforce
    with hs show ?thesis by auto
  qed (use 1 m in auto)
qed

definition configured_handlers :: "message_handler \<Rightarrow> handler set" where
  "configured_handlers mh =
     (\<Union>f \<in> set (mh_filters mh). filter_handlers f) \<union> set (mh_handlers mh)
     \<union> set (extension_setup_handlers mh) \<union> set (extension_cleanup_handlers mh)"

lemma get_handlers_core:
  assumes "get_handlers T mh b = Inr hs" and "h \<in> set hs"
  shows "core_handler T h \<or> h \<in> configured_handlers mh"
proof -
  from assms(1) obtain fs where fs: "concat_res (filter_get_handlers b) (mh_filters mh) = Inr fs"
    and hs: "hs = get_setup_handlers T mh @ fs @ mh_handlers mh @ get_cleanup_handlers mh"
    by (auto simp: get_handlers_def elim!: rbind_InrE)
  have "h \<in> configured_handlers mh" if "h \<in> set fs"
    using concat_res_set [OF fs that] filter_get_handlers_subset
    by (fastforce simp: configured_handlers_def)
  then show ?thesis
    using assms(2)
    by (auto simp: hs get_setup_handlers_def get_cleanup_handlers_def configured_handlers_def
      split: if_splits intro: core_handler.intros)
qed

subsection \<open>The relay chain\<close>

definition chain_kept :: "relay list \<Rightarrow> transaction_bundle \<Rightarrow> bool" where
  "chain_kept incoming b \<longleftrightarrow>
     incoming_relay_messages b = incoming
     \<and> (\<exists>q. linked RelayForwardMessage (cs_message q) incoming)
     \<and> (outgoing_relay_messages b = None
        \<or> map addressing (outgoing_chain b) = map addressing incoming)"

interpretation chain: transaction_invariant "chain_kept incoming" for incoming
proof
  fix b req c
  assume "chain_kept incoming b"
  then show "chain_kept incoming (start_response c req b)"
    using create_outgoing_addressing [of _ "set_response (Some \<lparr>cs_class = c,
      cs_transaction_id = cs_transaction_id req, cs_options = []\<rparr>) b"]
    by (auto simp: chain_kept_def start_response_def create_outgoing_relay_messages_def)
qed (auto simp: chain_kept_def outgoing_chain_def)

lemma chain_kept_mirrored:
  assumes "chain_kept incoming b"
  shows "mirrored b"
proof (cases "outgoing_chain b = []")
  case True
  with assms prepare_outgoing_mirrored show ?thesis by (auto simp: chain_kept_def)
next
  case False
  with assms show ?thesis
    by (auto simp: chain_kept_def mirrored_def prepare_outgoing_def outgoing_chain_def
      split: option.splits)
qed

subsection \<open>The reply\<close>

text \<open>
  The responses answer the request, with its transaction id.  The first is of a fitting class; others only
  follow it on a leasequery over TCP, and they are the data and the end of its answer.
\<close>

definition reply_class :: "client_server_class \<Rightarrow> client_server_class \<Rightarrow> bool" where
  "reply_class req c \<longleftrightarrow>
     initial_reply req = Some c \<or> c = ReplyMessage \<or> c = LeasequeryReplyMessage"

definition bulk_class :: "client_server_class \<Rightarrow> bool" where
  "bulk_class c \<longleftrightarrow> c = LeasequeryDataMessage \<or> c = LeasequeryDoneMessage"

definition answers :: "bool \<Rightarrow> client_server \<Rightarrow> transaction_bundle \<Rightarrow> bool" where
  "answers tcp req b \<longleftrightarrow>
     request b = Some req \<and> received_over_tcp b = tcp
     \<and> (\<forall>m. response b = Some m \<longrightarrow>
          cs_transaction_id m = cs_transaction_id req \<and> reply_class (cs_class req) (cs_class m))
     \<and> (\<forall>m \<in> set (subsequent_messages (responses b)).
          cs_transaction_id m = cs_transaction_id req \<and> bulk_class (cs_class m))
     \<and> (subsequent_messages (responses b) \<noteq> [] \<longrightarrow> cs_class req = LeasequeryMessage \<and> tcp)"

lemma subsequent_set_response:
  "subsequent_messages (responses (set_response m b)) = [] \<or>
   subsequent_messages (responses (set_response m b)) = subsequent_messages (responses b)"
  by (auto simp: set_response_def empty_messages_def split: option.splits)

lemma answers_set_response:
  assumes "answers tcp req b"
    and "\<And>m. r = Some m \<Longrightarrow> cs_transaction_id m = cs_transaction_id req \<and> reply_class (cs_class req) (cs_class m)"
  shows "answers tcp req (set_response r b)"
  using assms subsequent_set_response [of r b] by (auto simp: answers_def)

lemma create_outgoing_fields [simp]:
  "request (create_outgoing_relay_messages b) = request b"
  "response (create_outgoing_relay_messages b) = response b"
  "responses (create_outgoing_relay_messages b) = responses b"
  "received_over_tcp (create_outgoing_relay_messages b) = received_over_tcp b"
  by (auto simp: create_outgoing_relay_messages_def response_def Let_def)

lemma answers_outgoing [simp]: "answers tcp req (create_outgoing_relay_messages b) = answers tcp req b"
  by (simp add: answers_def)

lemma data_messages_answer:
  "m \<in> set (generate_data_messages transaction_id leases) \<Longrightarrow>
     cs_transaction_id m = transaction_id \<and> bulk_class (cs_class m)"
  by (auto simp: generate_data_messages_def bulk_class_def)

interpretation reply: transaction_invariant "answers tcp req" for tcp req
proof
  fix b m options
  assume a: "answers tcp req b"
  show "answers tcp req (set_response (Some (m\<lparr>cs_options := options\<rparr>)) b)" if "response b = Some m"
    using a that by (intro answers_set_response) (auto simp: answers_def)
  show "answers tcp req (mark_handled option b)" for option using a by (auto simp: answers_def mark_handled_def response_def)
  show "answers tcp req (b\<lparr>allow_unicast := True\<rparr>)" using a by (auto simp: answers_def response_def)
  show "answers tcp req (set_response None b)" using a by (rule answers_set_response) simp
next
  fix b rs rs'
  assume "answers tcp req b"
  then show "answers tcp req (b\<lparr>outgoing_relay_messages := Some rs'\<rparr>)" by (auto simp: answers_def response_def)
next
  fix b r m options
  assume a: "answers tcp req b" and "request b = Some r" and m: "response b = Some m"
  show "answers tcp req (set_response (Some \<lparr>cs_class = ReplyMessage, cs_transaction_id = cs_transaction_id m,
        cs_options = options\<rparr>) b)"
  proof (rule answers_set_response [OF a])
    fix x assume "Some \<lparr>cs_class = ReplyMessage, cs_transaction_id = cs_transaction_id m, cs_options = options\<rparr> = Some x"
    then show "cs_transaction_id x = cs_transaction_id req \<and> reply_class (cs_class req) (cs_class x)"
      using a m by (auto simp: answers_def reply_class_def)
  qed
next
  fix b r m options leases
  assume "answers tcp req b" and "request b = Some r" and "cs_class r = LeasequeryMessage"
    and "received_over_tcp b" and "response b = Some m"
  then show "answers tcp req (b\<lparr>responses := \<lparr>first_message = Some (m\<lparr>cs_options := options\<rparr>),
        subsequent_messages = generate_data_messages (cs_transaction_id m) leases\<rparr>\<rparr>)"
    using data_messages_answer by (fastforce simp: answers_def response_def)
next
  fix b r c
  assume a: "answers tcp req b" and "request b = Some r" and c: "initial_reply (cs_class r) = Some c"
  then have r: "r = req" by (simp add: answers_def)
  show "answers tcp req (start_response c r b)"
    unfolding r start_response_def answers_outgoing
    by (rule answers_set_response [OF a]) (use c r in \<open>auto simp: reply_class_def\<close>)
next
  fix b r c options
  assume a: "answers tcp req b" and "request b = Some r" and c: "c = ReplyMessage \<or> c = LeasequeryReplyMessage"
  then have r: "r = req" by (simp add: answers_def)
  show "answers tcp req (set_response (Some \<lparr>cs_class = c, cs_transaction_id = cs_transaction_id r,
        cs_options = options\<rparr>) b)"
    unfolding r by (rule answers_set_response [OF a]) (use c r in \<open>auto simp: reply_class_def\<close>)
qed

end
