(* ===== verification/EndToEnd.thy ===== *)
theory EndToEnd
  imports Dispatch
begin

text \<open>
  From the packet to the replies: what \<open>handle_message\<close> sends, and what it counts.
\<close>

lemma parse_incoming_request_spec:
  assumes "parse_incoming_request R T packet = Inr b"
  obtains n incoming where "Message_parse R (packet_data packet) = Inr (n, incoming)"
    and "message_validate T incoming = Inr ()"
    and "outgoing_relay_messages b = None" and "responses b = empty_messages"
    and "handled_options b = []" and "allow_unicast b = False"
    and "received_over_multicast b = packet_over_multicast packet"
    and "received_over_tcp b = packet_over_tcp packet"
    and "request b = None \<longleftrightarrow> incoming_relay_messages b = []"
    and "\<And>q. request b = Some q \<Longrightarrow>
      linked RelayForwardMessage (cs_message q) (incoming_relay_messages b)
      \<and> from_client_to_server (cs_class q)
      \<and> relay_link_address (last (incoming_relay_messages b)) = Some (packet_link_address packet)
      \<and> relay_peer_address (last (incoming_relay_messages b)) = source_address packet
      \<and> relayed_message (relay_options (last (incoming_relay_messages b)))
        = relayed_message (packet_relay_options packet @ [RelayMessageOption (Some incoming)])"
proof -
  from assms obtain n incoming hop where
    p: "Message_parse R (packet_data packet) = Inr (n, incoming)"
    and v: "message_validate T incoming = Inr ()"
    and b: "TransactionBundle (RelayServerMessage RelayForwardMessage hop
      (Some (packet_link_address packet)) (source_address packet)
      (packet_relay_options packet @ [RelayMessageOption (Some incoming)]))
      (packet_over_multicast packet) (packet_over_tcp packet) False (packet_marks packet) = Inr b"
    by (auto simp: parse_incoming_request_def Let_def elim!: rbind_InrE)
  let ?m = "RelayServerMessage RelayForwardMessage hop
      (Some (packet_link_address packet)) (source_address packet)
      (packet_relay_options packet @ [RelayMessageOption (Some incoming)])"
  obtain q rs where s: "split_relay_chain ?m = (q, rs)" by (cases "split_relay_chain ?m")
  have none: "q = None \<longleftrightarrow> rs = []"
  proof
    assume "rs = []"
    then show "q = None"
      using s split_relay_chain_spec [of ?m "the q" rs]
      by (cases q) (auto simp: outermost_def cs_message_def)
  next
    assume "q = None"
    have "snd (split_relay_loop acc x) = [] \<or> fst (split_relay_loop acc x) \<noteq> None" for acc x
      by (induction acc x rule: split_relay_loop.induct) auto
    from this [of "[]" "Some ?m"] s \<open>q = None\<close> show "rs = []"
      by (simp add: split_relay_chain_def)
  qed
  have q: "linked RelayForwardMessage (cs_message x) rs \<and> from_client_to_server (cs_class x)
      \<and> relay_link_address (last rs) = Some (packet_link_address packet)
      \<and> relay_peer_address (last rs) = source_address packet
      \<and> relayed_message (relay_options (last rs))
        = relayed_message (packet_relay_options packet @ [RelayMessageOption (Some incoming)])"
    if "q = Some x" for x
    using s that split_relay_chain_spec [of ?m x rs] none
    by (cases "last rs") (auto simp: outermost_def relay_message_def)
  from b s have "b = \<lparr>incoming_message = ?m, received_over_multicast = packet_over_multicast packet,
      received_over_tcp = packet_over_tcp packet, allow_unicast = False, allow_rapid_commit = False,
      request = q, incoming_relay_messages = rs, responses = empty_messages,
      outgoing_relay_messages = None, handled_options = [], marks = set (packet_marks packet)\<rparr>"
    by (auto simp: TransactionBundle_def split: if_splits)
  then show thesis
    using that [OF p v] none q by simp
qed

lemma send_replies_subset:
  "send_replies send refs ms st = (ok, sent, st') \<Longrightarrow> set sent \<subseteq> set ms \<and> length sent \<le> length ms"
proof (induction ms arbitrary: st sent)
  case (Cons m ms)
  then show ?case
    by (fastforce simp: Let_def split: sum.splits send_result.splits prod.splits)
qed simp

lemma handle_message_sent:
  assumes "handle_message R T mh send packet st = Inr (sent, st')" and "out \<in> set sent"
  obtains b refs st1 b' st2 where "parse_incoming_request R T packet = Inr b"
    and "message_handler_handle T mh refs b st1 = (Inr b', st2)"
    and "set sent \<subseteq> set (outgoing_messages b')" and "length sent \<le> length (outgoing_messages b')"
proof -
  from assms obtain b refs where p: "parse_incoming_request R T packet = Inr b"
    and "(case message_handler_handle T mh refs b (count_on Incoming_packet refs st) of
          (Inl e, st) \<Rightarrow> Inr ([], count_on Handling_error refs st)
        | (Inr b, st) \<Rightarrow>
            (case send_replies send refs (outgoing_messages b) st of
               (ok, sent, st) \<Rightarrow>
                 Inr (sent, if ok then st else count_on Handling_error refs st)))
        = (Inr (sent, st') :: (message list \<times> server_statistics) res)"
    by (auto simp: handle_message_def Let_def elim!: rbind_InrE split: sum.splits)
  with assms(2) obtain b' st2 ok st3 where
    "message_handler_handle T mh refs b (count_on Incoming_packet refs st) = (Inr b', st2)"
    "send_replies send refs (outgoing_messages b') st2 = (ok, sent, st3)"
    by (auto split: sum.splits prod.splits)
  with p send_replies_subset that show thesis by metis
qed

lemma unhandled_request:
  assumes "request b = None"
  shows "message_handler_handle T mh refs b st = (Inr b, st)"
  using assms by (simp add: message_handler_handle_def)

text \<open>What a handled request leaves, with the handlers of the program: the chain and what answers it.\<close>

lemma core_handled:
  assumes "message_handler_handle T mh refs b st = (Inr b', st')" and "request b = Some q"
    and core: "\<forall>h \<in> configured_handlers mh. core_handler T h"
  shows "responses b = empty_messages \<Longrightarrow> answers (received_over_tcp b) q b'"
    and "linked RelayForwardMessage (cs_message q) (incoming_relay_messages b) \<Longrightarrow>
      outgoing_relay_messages b = None \<Longrightarrow> chain_kept (incoming_relay_messages b) b'"
proof -
  have keeps: "handler_keeps I h" if "handler_invariant I" "get_handlers T mh x = Inr hs" "h \<in> set hs"
    for I x hs h
    using get_handlers_core [OF that(2,3)] core handler_invariant.core_handler_keeps [OF that(1)] by blast
  have req: "request b \<noteq> None" using assms(2) by simp
  show "answers (received_over_tcp b) q b'" if "responses b = empty_messages"
    by (rule reply.handled [OF assms(1) req])
      (use that assms(2) keeps [OF reply.handler_invariant_axioms] in
        \<open>auto simp: answers_def response_def empty_messages_def\<close>)
  show "chain_kept (incoming_relay_messages b) b'"
    if "linked RelayForwardMessage (cs_message q) (incoming_relay_messages b)"
      "outgoing_relay_messages b = None"
    by (rule chain.handled [OF assms(1) req])
      (use that keeps [OF chain.handler_invariant_axioms] in \<open>auto simp: chain_kept_def\<close>)
qed

text \<open>
  The end-to-end guarantee for a server with handlers of the program: whatever was received,
  every message sent is a chain of relay replies that mirrors the chain of relay
  forwards of the packet (the outermost being the listener's own, addressed to the sender of
  the packet) around a server message with the transaction id of the request; and there is only one, unless the
  request is a leasequery over TCP.
\<close>

definition mirrored_reply :: "transaction_bundle \<Rightarrow> client_server \<Rightarrow> message \<Rightarrow> client_server \<Rightarrow> bool" where
  "mirrored_reply b req out m \<longleftrightarrow>
     map addressing (unwrap_replies [] (Some out)) = map addressing (incoming_relay_messages b)
     \<and> inner_message [RelayMessageOption (Some out)] = Some (cs_message m)
     \<and> cs_transaction_id m = cs_transaction_id req \<and> from_server_to_client (cs_class m)"

lemma sent_reply:
  assumes sent: "handle_message R T mh send packet st = Inr (sent, st')" "sent \<noteq> []"
    and core: "\<And>h. h \<in> configured_handlers mh \<Longrightarrow> core_handler T h"
  obtains b req where "parse_incoming_request R T packet = Inr b" and "request b = Some req"
    and "\<And>out. out \<in> set sent \<Longrightarrow> \<exists>m. mirrored_reply b req out m
      \<and> (reply_class (cs_class req) (cs_class m)
         \<or> bulk_class (cs_class m) \<and> cs_class req = LeasequeryMessage \<and> packet_over_tcp packet)"
    and "length sent \<le> 1 \<or> cs_class req = LeasequeryMessage \<and> packet_over_tcp packet"
proof -
  obtain out where some: "out \<in> set sent" using sent(2) by (cases sent) auto
  obtain b refs st1 b' st2 where p: "parse_incoming_request R T packet = Inr b"
    and h: "message_handler_handle T mh refs b st1 = (Inr b', st2)"
    and sub: "set sent \<subseteq> set (outgoing_messages b')" "length sent \<le> length (outgoing_messages b')"
    by (rule handle_message_sent [OF sent(1) some])
  obtain q where q: "request b = Some q"
    and link: "linked RelayForwardMessage (cs_message q) (incoming_relay_messages b)"
    and init: "outgoing_relay_messages b = None" "responses b = empty_messages"
      "received_over_tcp b = packet_over_tcp packet"
  proof (rule parse_incoming_request_spec [OF p])
    fix n incoming
    assume a: "outgoing_relay_messages b = None" "responses b = empty_messages"
      "received_over_tcp b = packet_over_tcp packet"
      "\<And>q. request b = Some q \<Longrightarrow>
        linked RelayForwardMessage (cs_message q) (incoming_relay_messages b)
        \<and> from_client_to_server (cs_class q)
        \<and> relay_link_address (last (incoming_relay_messages b)) = Some (packet_link_address packet)
        \<and> relay_peer_address (last (incoming_relay_messages b)) = source_address packet
        \<and> relayed_message (relay_options (last (incoming_relay_messages b)))
          = relayed_message (packet_relay_options packet @ [RelayMessageOption (Some incoming)])"
    show thesis
    proof (cases "request b")
      case None
      then have "b' = b" using h unhandled_request by simp
      then have "outgoing_messages b' = []"
        by (simp add: outgoing_messages_def Let_def a messages_iter_def empty_messages_def)
      with sub(1) some show thesis by auto
    next
      case (Some q)
      then show thesis using that a by blast
    qed
  qed
  have kept: "chain_kept (incoming_relay_messages b) b'"
    by (rule core_handled(2) [OF h q]) (use core link init in auto)
  then have mirror: "mirrored b'" by (rule chain_kept_mirrored)
  from kept have inc: "incoming_relay_messages b' = incoming_relay_messages b"
    by (simp add: chain_kept_def)
  have ans: "answers (packet_over_tcp packet) q b'"
    using core_handled(1) [OF h q] core init by auto
  have fits: "cs_transaction_id m = cs_transaction_id q
      \<and> (reply_class (cs_class q) (cs_class m)
         \<or> bulk_class (cs_class m) \<and> cs_class q = LeasequeryMessage \<and> packet_over_tcp packet)"
    if "m \<in> set (messages_iter (responses b'))" for m
  proof -
    from that have "response b' = Some m \<or> m \<in> set (subsequent_messages (responses b'))"
      by (auto simp: messages_iter_def response_def split: option.splits)
    then show ?thesis
    proof
      assume "response b' = Some m"
      with ans show ?thesis by (simp add: answers_def)
    next
      assume m: "m \<in> set (subsequent_messages (responses b'))"
      then have "subsequent_messages (responses b') \<noteq> []" by auto
      with m ans show ?thesis unfolding answers_def by blast
    qed
  qed
  have short: "length (outgoing_messages b') \<le> length (messages_iter (responses b'))"
    by (simp add: outgoing_messages_def Let_def)
  have "length (messages_iter (responses b')) \<le> 1 \<or> cs_class q = LeasequeryMessage \<and> packet_over_tcp packet"
    using ans by (cases "subsequent_messages (responses b') = []")
      (simp_all add: messages_iter_def answers_def split: option.splits)
  then have len: "length sent \<le> 1 \<or> cs_class q = LeasequeryMessage \<and> packet_over_tcp packet"
    using sub(2) short by linarith
  have "\<exists>m. mirrored_reply b q out m
      \<and> (reply_class (cs_class q) (cs_class m)
         \<or> bulk_class (cs_class m) \<and> cs_class q = LeasequeryMessage \<and> packet_over_tcp packet)"
    if "out \<in> set sent" for out
  proof -
    from sub(1) that have "out \<in> set (outgoing_messages b')" by blast
    then obtain m where m: "m \<in> set (messages_iter (responses b'))" "from_server_to_client (cs_class m)"
      "map addressing (unwrap_replies [] (Some out)) = map addressing (incoming_relay_messages b')"
      "inner_message [RelayMessageOption (Some out)] = Some (cs_message m)"
      by (rule outgoing_messages_chain [OF mirror])
    with fits [OF m(1)] inc show ?thesis by (auto simp: mirrored_reply_def)
  qed
  with that [OF p q] len show thesis by blast
qed

end
