(* ===== verification/BareServer.thy ===== *)
theory BareServer
  imports HandlerEffects EndToEnd
begin

text \<open>
  A server without configured handlers, with those that the extensions of the program add to every server: what
  it answers to a valid request, and that the answer is itself a valid message by the rules of the protocol.
\<close>

subsection \<open>The handlers of every server\<close>

text \<open>What the extensions of the program contribute to the setup and to the cleanup phase.\<close>

definition bulk_leasequery_create_setup_handlers :: "handler list" where
  "bulk_leasequery_create_setup_handlers =
     [RequireBulkLeasequeryOverTCPHandler, RefuseBulkLeasequeryOverUDPHandler]"

definition leasequery_create_cleanup_handlers :: "handler list" where
  "leasequery_create_cleanup_handlers = [UnansweredLeasequeryHandler]"

definition prefix_delegation_create_cleanup_handlers :: "handler list" where
  "prefix_delegation_create_cleanup_handlers = [UnansweredIAPDOptionHandler True]"

definition relay_echo_request_create_cleanup_handlers :: "containment \<Rightarrow> handler list" where
  "relay_echo_request_create_cleanup_handlers T = [RelayEchoRequestOptionHandler T]"

text \<open>
  The registry of the extensions, the part of them that contributes handlers by name: a dict, so each
  occurs once, in an order that is not fixed.  \<open>MessageHandler\<close> asks each for its handlers.
\<close>

datatype server_extension =
  BulkLeasequeryExtension | LeasequeryExtension | PrefixDelegationExtension | RelayEchoRequestExtension
| OtherExtension string

fun extension_setup :: "server_extension \<Rightarrow> handler list" where
  "extension_setup BulkLeasequeryExtension = bulk_leasequery_create_setup_handlers"
| "extension_setup _ = []"

fun extension_cleanup :: "containment \<Rightarrow> server_extension \<Rightarrow> handler list" where
  "extension_cleanup T LeasequeryExtension = leasequery_create_cleanup_handlers"
| "extension_cleanup T PrefixDelegationExtension = prefix_delegation_create_cleanup_handlers"
| "extension_cleanup T RelayEchoRequestExtension = relay_echo_request_create_cleanup_handlers T"
| "extension_cleanup T _ = []"

definition installed_registry :: "server_extension list \<Rightarrow> bool" where
  "installed_registry registry \<longleftrightarrow>
     distinct registry
     \<and> {BulkLeasequeryExtension, LeasequeryExtension, PrefixDelegationExtension, RelayEchoRequestExtension}
         \<subseteq> set registry"

text \<open>A server of the program as it is installed, without filters and handlers in its configuration.\<close>

definition bare_server :: "message_handler \<Rightarrow> bool" where
  "bare_server mh \<longleftrightarrow>
     mh_filters mh = [] \<and> mh_handlers mh = [] \<and> \<not> mh_allow_rapid_commit mh
     \<and> (\<exists>registry. installed_registry registry
          \<and> extension_setup_handlers mh = concat (map extension_setup registry)
          \<and> extension_cleanup_handlers mh = concat (map (extension_cleanup core_containment) registry))"

text \<open>A handler that, on anything but a leasequery, only changes the relay replies.\<close>

definition relays_only :: "handler \<Rightarrow> bool" where
  "relays_only h \<longleftrightarrow>
     analyse_pre h = Inr \<and> handler_pre h = Inr \<and> analyse_post h = Inr
     \<and> (\<forall>b. \<exists>rs. handler_handle h b = Inr (b\<lparr>outgoing_relay_messages := rs\<rparr>))
     \<and> (\<forall>b req. request b = Some req \<longrightarrow> cs_class req \<noteq> LeasequeryMessage \<longrightarrow> handler_post h b = Inr b)"

definition bare_handlers :: "message_handler \<Rightarrow> handler list \<Rightarrow> handler list \<Rightarrow> handler list" where
  "bare_handlers mh hs1 hs2 =
     [ServerIdHandler core_containment (server_id mh), ClientIdHandler core_containment,
      InterfaceIdOptionHandler core_containment, RequireBulkLeasequeryOverTCPHandler,
      RefuseBulkLeasequeryOverUDPHandler, RejectUnwantedUnicastHandler, UnansweredIAOptionHandler True]
     @ hs1 @ [UnansweredIAPDOptionHandler True] @ hs2 @ [AddMissingStatusOptionHandler]"

lemma relay_handler_response:
  obtains rs where "RelayHandler_handle f b = Inr (b\<lparr>outgoing_relay_messages := rs\<rparr>)"
proof -
  have "RelayHandler_handle f b = Inr b \<or>
      (\<exists>rs. RelayHandler_handle f b = Inr (b\<lparr>outgoing_relay_messages := rs\<rparr>))"
    by (auto simp: RelayHandler_handle_def split: option.split)
  moreover have "b = b\<lparr>outgoing_relay_messages := outgoing_relay_messages b\<rparr>" by simp
  ultimately show thesis using that by metis
qed

lemma outgoing_update_fields [simp]:
  "request (b\<lparr>outgoing_relay_messages := rs\<rparr>) = request b"
  "response (b\<lparr>outgoing_relay_messages := rs\<rparr>) = response b"
  "get_unhandled_options cs (b\<lparr>outgoing_relay_messages := rs\<rparr>) = get_unhandled_options cs b"
  by (auto simp: response_def get_unhandled_options_def request_options_def)

lemma relays_only_installed:
  "relays_only UnansweredLeasequeryHandler" "relays_only (RelayEchoRequestOptionHandler T)"
proof -
  have "\<exists>rs. b = b\<lparr>outgoing_relay_messages := rs\<rparr>" for b :: transaction_bundle
    by (rule exI [of _ "outgoing_relay_messages b"]) simp
  then show "relays_only UnansweredLeasequeryHandler"
    by (simp add: relays_only_def handler_defs UnansweredLeasequeryHandler_post_def)
  show "relays_only (RelayEchoRequestOptionHandler T)"
    by (simp add: relays_only_def handler_defs) (metis relay_handler_response)
qed

lemmas extension_defs = bulk_leasequery_create_setup_handlers_def leasequery_create_cleanup_handlers_def
  prefix_delegation_create_cleanup_handlers_def relay_echo_request_create_cleanup_handlers_def

lemma extension_handlers:
  "h \<in> set (extension_setup e) \<Longrightarrow>
    h \<in> {RequireBulkLeasequeryOverTCPHandler, RefuseBulkLeasequeryOverUDPHandler}"
  "h \<in> set (extension_cleanup T e) \<Longrightarrow> e = PrefixDelegationExtension \<and> h = UnansweredIAPDOptionHandler True
    \<or> e \<noteq> PrefixDelegationExtension \<and> h \<in> {UnansweredLeasequeryHandler, RelayEchoRequestOptionHandler T}"
  by (cases e; simp add: extension_defs)+

lemma setup_of_extensions:
  assumes "distinct registry" and "BulkLeasequeryExtension \<in> set registry"
  shows "concat (map extension_setup registry) = bulk_leasequery_create_setup_handlers"
proof -
  obtain r1 r2 where r: "registry = r1 @ BulkLeasequeryExtension # r2"
    using split_list [OF assms(2)] by blast
  have none: "concat (map extension_setup rs) = []" if "BulkLeasequeryExtension \<notin> set rs" for rs
  proof -
    have "extension_setup e = []" if "e \<noteq> BulkLeasequeryExtension" for e
      using that by (cases e) simp_all
    with that show ?thesis by simp metis
  qed
  from assms(1) have "BulkLeasequeryExtension \<notin> set r1" "BulkLeasequeryExtension \<notin> set r2" by (auto simp: r)
  then show ?thesis by (simp add: r none)
qed

lemma bare_server_handlers:
  assumes "bare_server mh"
  obtains hs1 hs2 where "\<forall>b. get_handlers core_containment mh b = Inr (bare_handlers mh hs1 hs2)"
    and "\<forall>h \<in> set (hs1 @ hs2). relays_only h"
proof -
  let ?cleanup = "\<lambda>rs. concat (map (extension_cleanup core_containment) rs)"
  from assms obtain registry where r: "distinct registry" "BulkLeasequeryExtension \<in> set registry"
    "PrefixDelegationExtension \<in> set registry"
    and pre_list: "extension_setup_handlers mh = concat (map extension_setup registry)"
    and cleanup: "extension_cleanup_handlers mh = ?cleanup registry"
    by (auto simp: bare_server_def installed_registry_def)
  obtain r1 r2 where split: "registry = r1 @ PrefixDelegationExtension # r2"
    using split_list [OF r(3)] by blast
  have "\<forall>h \<in> set (?cleanup r1 @ ?cleanup r2). relays_only h"
  proof
    fix h assume "h \<in> set (?cleanup r1 @ ?cleanup r2)"
    then obtain e where "e \<in> set r1 \<union> set r2" "h \<in> set (extension_cleanup core_containment e)" by auto
    moreover have "PrefixDelegationExtension \<notin> set r1 \<union> set r2" using r(1) split by auto
    ultimately show "relays_only h" using extension_handlers(2) [of h] relays_only_installed by blast
  qed
  moreover have "get_handlers core_containment mh b = Inr (bare_handlers mh (?cleanup r1) (?cleanup r2))" for b
    using assms pre_list setup_of_extensions [OF r(1,2)] cleanup
    by (simp add: bare_server_def get_handlers_def get_setup_handlers_def get_cleanup_handlers_def
      bare_handlers_def split extension_defs)
  ultimately show thesis using that by blast
qed

lemma bare_core: "bare_server mh \<Longrightarrow> h \<in> configured_handlers mh \<Longrightarrow> core_handler core_containment h"
  by (auto simp: bare_server_def configured_handlers_def
    dest!: extension_handlers intro: core_handler.intros)

text \<open>The phases of such handlers, for a request of this server that is no leasequery.\<close>

lemma run_relays_only:
  assumes "\<forall>h \<in> set hs. relays_only h"
  shows "run_steps handler_pre hs b = Inr b"
    and "\<exists>rs. run_steps handler_handle hs b = Inr (b\<lparr>outgoing_relay_messages := rs\<rparr>)"
    and "request b = Some req \<Longrightarrow> cs_class req \<noteq> LeasequeryMessage \<Longrightarrow> run_steps handler_post hs b = Inr b"
    and "analyse analyse_pre hs b = b" and "analyse analyse_post hs b = b"
proof -
  show "run_steps handler_pre hs b = Inr b" "analyse analyse_pre hs b = b" "analyse analyse_post hs b = b"
    using assms by (induction hs) (simp_all add: relays_only_def analyse_def)
  show "run_steps handler_post hs b = Inr b" if "request b = Some req" "cs_class req \<noteq> LeasequeryMessage"
    using assms that by (induction hs) (simp_all add: relays_only_def)
  show "\<exists>rs. run_steps handler_handle hs b = Inr (b\<lparr>outgoing_relay_messages := rs\<rparr>)"
    using assms
  proof (induction hs arbitrary: b)
    case Nil
    show ?case by (rule exI [of _ "outgoing_relay_messages b"]) simp
  next
    case (Cons h hs)
    then obtain rs where "handler_handle h b = Inr (b\<lparr>outgoing_relay_messages := rs\<rparr>)"
      unfolding relays_only_def by (metis list.set_intros(1))
    moreover from Cons obtain rs' where "run_steps handler_handle hs (b\<lparr>outgoing_relay_messages := rs\<rparr>)
        = Inr (b\<lparr>outgoing_relay_messages := rs\<rparr>\<lparr>outgoing_relay_messages := rs'\<rparr>)"
      by fastforce
    ultimately have "run_steps handler_handle (h # hs) b = Inr (b\<lparr>outgoing_relay_messages := rs'\<rparr>)" by simp
    then show ?case by blast
  qed
qed

lemma bare_analyse:
  assumes "\<forall>h \<in> set (hs1 @ hs2). relays_only h"
  shows "analyse analyse_pre (bare_handlers mh hs1 hs2) b = b"
    and "analyse analyse_post (bare_handlers mh hs1 hs2) b = b"
proof -
  have append: "analyse f (xs @ ys) b = analyse f ys (analyse f xs b)" for f xs ys b
    by (simp add: analyse_def)
  have "\<forall>h \<in> set hs1. relays_only h" "\<forall>h \<in> set hs2. relays_only h" using assms by auto
  note idle = this [THEN run_relays_only(4)] this [THEN run_relays_only(5)]
  show "analyse analyse_pre (bare_handlers mh hs1 hs2) b = b" "analyse analyse_post (bare_handlers mh hs1 hs2) b = b"
    unfolding bare_handlers_def append idle by (simp_all add: analyse_def handler_defs)
qed

lemma bare_post:
  assumes "\<forall>h \<in> set (hs1 @ hs2). relays_only h" and "request b = Some req" and "cs_class req \<noteq> LeasequeryMessage"
  shows "run_steps handler_post (bare_handlers mh hs1 hs2) b = Inr b"
proof -
  have "run_steps handler_post hs1 b = Inr b" "run_steps handler_post hs2 b = Inr b"
    by (rule run_relays_only(3) [OF _ assms(2,3)]; use assms(1) in auto)+
  then show ?thesis unfolding bare_handlers_def run_steps_append by (simp add: handler_defs)
qed

text \<open>Over TCP the server refuses the request; otherwise it goes on, unless it came by unwanted unicast.\<close>

lemma bare_pre:
  assumes "\<forall>h \<in> set (hs1 @ hs2). relays_only h" and "request b = Some req" and "cs_class req \<noteq> LeasequeryMessage"
    and "get_option_of_type [C_ServerIdOption] (cs_options req) \<in>
      {None, Some (Plain (ServerIdOption (Some (server_id mh))))}"
  shows "run_steps handler_pre (bare_handlers mh hs1 hs2) b =
    (if received_over_tcp b then raise_in CannotRespondError b
     else if \<not> received_over_multicast b \<and> \<not> allow_unicast b \<and> length (incoming_relay_messages b) < 2
       then raise_in UseMulticastError b else Inr b)"
proof -
  have "run_steps handler_pre hs1 b = Inr b" "run_steps handler_pre hs2 b = Inr b"
    by (rule run_relays_only(1); use assms(1) in auto)+
  then show ?thesis
    unfolding bare_handlers_def run_steps_append using assms(2-4)
    by (auto simp: handler_defs ServerIdHandler_pre_def request_options_def raise_in_def
      RejectUnwantedUnicastHandler_pre_def RequireBulkLeasequeryOverTCPHandler_pre_def
      RefuseBulkLeasequeryOverUDPHandler_pre_def)
qed

lemma start_response_fields [simp]:
  "handled_options (start_response c req b) = handled_options b"
  "request (start_response c req b) = request b"
  "response (start_response c req b) =
     Some \<lparr>cs_class = c, cs_transaction_id = cs_transaction_id req, cs_options = []\<rparr>"
  "get_unhandled_options cs (start_response c req b) = get_unhandled_options cs b"
  by (auto simp: start_response_def get_unhandled_options_def request_options_def
    create_outgoing_relay_messages_def Let_def response_def set_response_def empty_messages_def
    split: option.splits)

lemma core_replies_contain:
  "may_contain core_containment (MessageClass (ClientServer AdvertiseMessage)) (OptionClass C_ServerIdOption)"
  "may_contain core_containment (MessageClass (ClientServer AdvertiseMessage)) (OptionClass C_ClientIdOption)"
  "may_contain core_containment (MessageClass (ClientServer ReplyMessage)) (OptionClass C_ServerIdOption)"
  "may_contain core_containment (MessageClass (ClientServer ReplyMessage)) (OptionClass C_ClientIdOption)"
  unfolding core_may_contain_rules by code_simp+

text \<open>The options every answer starts with: the client's ids and the id of the server.\<close>

definition ids :: "message_handler \<Rightarrow> client_server \<Rightarrow> dhcp_option list" where
  "ids mh req = get_options_of_type [C_ClientIdOption] (cs_options req)
     @ [Plain (ServerIdOption (Some (server_id mh)))]"

lemma server_id_handled:
  assumes "response b = Some m" and "rc \<in> {AdvertiseMessage, ReplyMessage}" and "cs_class m = rc"
  shows "handler_handle (ServerIdHandler core_containment d) b =
    Inr (set_response (Some (m\<lparr>cs_options := Plain (ServerIdOption (Some d)) #
      filter (\<lambda>x. option_class_of x \<noteq> C_ServerIdOption) (cs_options m)\<rparr>)) b)"
  using assms core_replies_contain
  by (auto simp: ServerIdHandler_def OverwriteOptionHandler_def OverwriteOptionHandler_handle_def
    with_response_def wanted_def set_response_options_def Let_def)

lemma client_id_handled:
  assumes "response b = Some m" and "rc \<in> {AdvertiseMessage, ReplyMessage}" and "cs_class m = rc"
  shows "handler_handle (ClientIdHandler core_containment) b =
    Inr (set_response (Some (m\<lparr>cs_options :=
      get_options_of_type [C_ClientIdOption] (request_options b) @
      filter (\<lambda>x. option_class_of x \<noteq> C_ClientIdOption) (cs_options m)\<rparr>)) b)"
  using assms core_replies_contain
  by (auto simp: ClientIdHandler_def CopyOptionHandler_def CopyOptionHandler_handle_def
    with_response_def wanted_def set_response_options_def Let_def)

lemma interface_id_handled:
  obtains rs where "handler_handle (InterfaceIdOptionHandler T) b = Inr (b\<lparr>outgoing_relay_messages := rs\<rparr>)"
  using relay_handler_response [of "CopyRelayOptionHandler_handle_relay T C_InterfaceIdOption" b] that
  by (auto simp: InterfaceIdOptionHandler_def CopyRelayOptionHandler_def)

lemma handle_phase:
  assumes idle: "\<forall>h \<in> set (hs1 @ hs2). relays_only h"
    and req: "request b = Some req" "cs_class req \<in> answered_classes - {DeclineMessage, ReleaseMessage}"
    and m: "response b = Some m" "cs_class m \<in> {AdvertiseMessage, ReplyMessage}" "cs_options m = []"
  obtains b' ia_answers pd_answers where
    "run_steps handler_handle (bare_handlers mh hs1 hs2) b = Inr b'" and "request b' = Some req"
    and "response b' = Some (m\<lparr>cs_options := ids mh req @ ia_answers @ pd_answers\<rparr>)"
    and "list_all2 declines (get_unhandled_options [C_IANAOption, C_IATAOption] b) ia_answers"
    and "list_all2 declines (get_unhandled_options [C_IAPDOption] b) pd_answers"
proof -
  let ?m1 = "m\<lparr>cs_options := [Plain (ServerIdOption (Some (server_id mh)))]\<rparr>"
  let ?b1 = "set_response (Some ?m1) b"
  let ?m2 = "m\<lparr>cs_options := ids mh req\<rparr>"
  let ?b2 = "set_response (Some ?m2) b"
  have 1: "handler_handle (ServerIdHandler core_containment (server_id mh)) b = Inr ?b1"
    using server_id_handled [OF m(1,2) refl] m(3) by simp
  have 2: "handler_handle (ClientIdHandler core_containment) ?b1 = Inr ?b2"
    using client_id_handled [of ?b1 ?m1 "cs_class m" ] m(2) req(1)
    by (simp add: ids_def request_options_def)
  obtain rs where 3: "handler_handle (InterfaceIdOptionHandler core_containment) ?b2 =
      Inr (?b2\<lparr>outgoing_relay_messages := rs\<rparr>)"
    by (rule interface_id_handled)
  let ?b3 = "?b2\<lparr>outgoing_relay_messages := rs\<rparr>"
  have b3: "request ?b3 = Some req" "response ?b3 = Some ?m2"
    "\<And>cs. get_unhandled_options cs ?b3 = get_unhandled_options cs b"
    using req(1) by simp_all
  obtain ia_answers where
    a: "list_all2 declines (get_unhandled_options [C_IANAOption, C_IATAOption] b) ia_answers"
    and 4: "UnansweredIAOptionHandler_handle True ?b3 =
      Inr (set_response (Some (?m2\<lparr>cs_options := cs_options ?m2 @ ia_answers\<rparr>)) ?b3)"
    using unanswered_ia_declined [OF b3(1) _ b3(2)] req(2) b3(3) by auto
  let ?m4 = "m\<lparr>cs_options := ids mh req @ ia_answers\<rparr>"
  let ?b4 = "set_response (Some ?m4) ?b3"
  obtain rs1 where 5: "run_steps handler_handle hs1 ?b4 = Inr (?b4\<lparr>outgoing_relay_messages := rs1\<rparr>)"
    using run_relays_only(2) [of hs1] idle by auto
  let ?b5 = "?b4\<lparr>outgoing_relay_messages := rs1\<rparr>"
  have b5: "request ?b5 = Some req" "response ?b5 = Some ?m4"
    "\<And>cs. get_unhandled_options cs ?b5 = get_unhandled_options cs b"
    using req(1) by simp_all
  obtain pd_answers where
    pd: "list_all2 declines (get_unhandled_options [C_IAPDOption] b) pd_answers"
    and 6: "UnansweredIAPDOptionHandler_handle True ?b5 =
      Inr (set_response (Some (?m4\<lparr>cs_options := cs_options ?m4 @ pd_answers\<rparr>)) ?b5)"
    using unanswered_iapd_declined [OF b5(1) _ b5(2)] req(2) b5(3) by auto
  let ?m6 = "m\<lparr>cs_options := ids mh req @ ia_answers @ pd_answers\<rparr>"
  let ?b6 = "set_response (Some ?m6) ?b5"
  obtain rs2 where 7: "run_steps handler_handle hs2 ?b6 = Inr (?b6\<lparr>outgoing_relay_messages := rs2\<rparr>)"
    using run_relays_only(2) [of hs2] idle by auto
  let ?b7 = "?b6\<lparr>outgoing_relay_messages := rs2\<rparr>"
  have 8: "AddMissingStatusOptionHandler_handle ?b7 = Inr ?b7"
    using req by (auto simp: AddMissingStatusOptionHandler_handle_def missing_status_message_def
        answered_classes_def split: client_server_class.splits)
  have "run_steps handler_handle (bare_handlers mh hs1 hs2) b = Inr ?b7"
    unfolding bare_handlers_def run_steps_append using 1 2 3 4 5 6 7 8
    by (simp add: RejectUnwantedUnicastHandler_def UnansweredIAOptionHandler_def
        UnansweredIAPDOptionHandler_def AddMissingStatusOptionHandler_def base_handler_def
        RequireBulkLeasequeryOverTCPHandler_def RefuseBulkLeasequeryOverUDPHandler_def)
  moreover have "request ?b7 = Some req" "response ?b7 = Some ?m6" using req(1) by simp_all
  ultimately show thesis using that a pd by blast
qed

text \<open>Over TCP the handlers are not run: there is no response.\<close>

lemma bare_server_over_tcp:
  assumes "bare_server mh" and "request b = Some req" and "cs_class req \<noteq> LeasequeryMessage"
    and "get_option_of_type [C_ServerIdOption] (cs_options req) \<in>
      {None, Some (Plain (ServerIdOption (Some (server_id mh))))}"
    and "received_over_tcp b" and "responses b = empty_messages"
  shows "\<exists>b' st'. message_handler_handle core_containment mh refs b st = (Inr b', st')
    \<and> messages_iter (responses b') = []"
proof -
  let ?b = "b\<lparr>allow_rapid_commit := mh_allow_rapid_commit mh\<rparr>"
  obtain hs1 hs2 where hs: "\<forall>b. get_handlers core_containment mh b = Inr (bare_handlers mh hs1 hs2)"
    and idle: "\<forall>h \<in> set (hs1 @ hs2). relays_only h"
    by (rule bare_server_handlers [OF assms(1)])
  have "run_steps handler_pre (bare_handlers mh hs1 hs2) ?b = raise_in CannotRespondError ?b"
    using bare_pre [OF idle, of ?b req mh] assms(2-5) by simp
  then have "\<exists>events. run_phases mh (bare_handlers mh hs1 hs2) ?b = (events, Inr (set_response None ?b))"
    by (simp add: run_phases_def process_def raise_in_def recover_def)
  moreover have "messages_iter (responses (set_response None ?b)) = []"
    using assms(6) by (simp add: set_response_def messages_iter_def empty_messages_def)
  ultimately show ?thesis
    using hs assms(2) by (auto simp: message_handler_handle_def Let_def bare_analyse [OF idle])
qed

lemma bare_server_answer:
  assumes "bare_server mh" and "request b = Some req" and "handled_options b = []"
    and req: "cs_class req \<in> answered_classes - {DeclineMessage, ReleaseMessage}"
    and rc: "initial_reply (cs_class req) = Some rc"
    and mine: "get_option_of_type [C_ServerIdOption] (cs_options req) \<in>
      {None, Some (Plain (ServerIdOption (Some (server_id mh))))}"
    and unicast: "\<not> received_over_tcp b" "received_over_multicast b \<or> 2 \<le> length (incoming_relay_messages b)"
    and rapid: "allow_rapid_commit b = mh_allow_rapid_commit mh"
  obtains b' st' ia_answers pd_answers where
    "message_handler_handle core_containment mh refs b st = (Inr b', st')"
    and "response b' = Some \<lparr>cs_class = rc, cs_transaction_id = cs_transaction_id req,
      cs_options = ids mh req @ ia_answers @ pd_answers\<rparr>"
    and "list_all2 declines
      (get_options_of_type [C_IANAOption, C_IATAOption] (cs_options req)) ia_answers"
    and "list_all2 declines (get_options_of_type [C_IAPDOption] (cs_options req)) pd_answers"
proof -
  obtain hs1 hs2 where hs: "\<forall>b. get_handlers core_containment mh b = Inr (bare_handlers mh hs1 hs2)"
    and idle: "\<forall>h \<in> set (hs1 @ hs2). relays_only h"
    by (rule bare_server_handlers [OF assms(1)])
  let ?hs = "bare_handlers mh hs1 hs2"
  have other: "cs_class req \<noteq> LeasequeryMessage" using req by (auto simp: answered_classes_def)
  have pre: "run_steps handler_pre ?hs b = Inr b"
    using bare_pre [OF idle assms(2) other mine] unicast by auto
  have rc2: "rc \<in> {AdvertiseMessage, ReplyMessage}" and not_none: "init_response b = Inr (start_response rc req b)"
    using req rc assms(2) by (auto simp: answered_classes_def init_response_def)
  let ?b = "start_response rc req b"
  let ?m = "\<lparr>cs_class = rc, cs_transaction_id = cs_transaction_id req, cs_options = []\<rparr>"
  have m: "request ?b = Some req" "response ?b = Some ?m" "cs_class ?m \<in> {AdvertiseMessage, ReplyMessage}"
    "cs_options ?m = []"
    using assms(2) rc2 by simp_all
  obtain b' ia_answers pd_answers where b': "run_steps handler_handle ?hs ?b = Inr b'" "request b' = Some req"
    and r: "response b' = Some (?m\<lparr>cs_options := ids mh req @ ia_answers @ pd_answers\<rparr>)"
    and a: "list_all2 declines (get_unhandled_options [C_IANAOption, C_IATAOption] ?b) ia_answers"
    and pd: "list_all2 declines (get_unhandled_options [C_IAPDOption] ?b) pd_answers"
    by (rule handle_phase [OF idle m(1) req m(2-4)])
  have post: "run_steps handler_post ?hs b' = Inr b'" by (rule bare_post [OF idle b'(2) other])
  have "run_phases mh ?hs b = ([], Inr b')"
    by (simp only: run_phases_def process_def pre not_none b'(1) post rbind_Inr sum.case)
  moreover have "b\<lparr>allow_rapid_commit := mh_allow_rapid_commit mh\<rparr> = b"
    using rapid by simp
  moreover have "get_unhandled_options cs ?b = get_options_of_type cs (cs_options req)" for cs
    using assms(2,3) by (simp add: get_unhandled_options_def request_options_def get_options_of_type_def)
  ultimately show thesis
    using that [of b' _ ia_answers pd_answers] hs r a pd assms(2)
    by (simp add: message_handler_handle_def Let_def bare_analyse [OF idle] count_events_def)
qed

text \<open>A relay reply that carries a message passes the check before sending.\<close>

lemma verify_relinked: "chain \<noteq> [] \<Longrightarrow> verify_response (relink m chain) = Inr ()"
  by (cases chain rule: rev_cases) (simp_all add: relink_append relay_message_def verify_response_def)

lemma bare_server_sent:
  assumes "bare_server mh" and "parse_incoming_request R core_containment packet = Inr b"
    and "request b = Some req"
    and "cs_class req \<in> {SolicitMessage, RequestMessage, RenewMessage, RebindMessage}"
    and "get_option_of_type [C_ServerIdOption] (cs_options req) \<in>
      {None, Some (Plain (ServerIdOption (Some (server_id mh))))}"
    and udp: "\<not> packet_over_tcp packet" "packet_over_multicast packet \<or> 2 \<le> length (incoming_relay_messages b)"
    and refs: "get_update_set (Some (get_interface_name_from_options (packet_relay_options packet)))
      (Some b) st = Inr refs"
  shows "\<exists>out st' m. handle_message R core_containment mh (\<lambda>_. Sent) packet st = Inr ([out], st')
    \<and> inner_message [RelayMessageOption (Some out)] = Some (cs_message m)
    \<and> cs_transaction_id m = cs_transaction_id req
    \<and> cs_class m = (if cs_class req = SolicitMessage then AdvertiseMessage else ReplyMessage)
    \<and> map addressing (unwrap_replies [] (Some out)) = map addressing (incoming_relay_messages b)"
proof -
  let ?rc = "if cs_class req = SolicitMessage then AdvertiseMessage else ReplyMessage"
  let ?st = "count_on Incoming_packet refs st"
  from parse_incoming_request_spec [OF assms(2)] assms(3)
  have b: "handled_options b = []" "outgoing_relay_messages b = None" "responses b = empty_messages"
    "received_over_multicast b = packet_over_multicast packet" "received_over_tcp b = packet_over_tcp packet" "incoming_relay_messages b \<noteq> []"
    and link: "linked RelayForwardMessage (cs_message req) (incoming_relay_messages b)"
    by (metis option.distinct(1))+
  have rapid: "allow_rapid_commit b = mh_allow_rapid_commit mh"
    using assms(1,2) by (auto simp: parse_incoming_request_def TransactionBundle_def bare_server_def
      Let_def elim!: rbind_InrE split: prod.splits if_splits)
  have c: "cs_class req \<in> answered_classes - {DeclineMessage, ReleaseMessage}"
    "initial_reply (cs_class req) = Some ?rc"
    using assms(4) by (auto simp: answered_classes_def)
  obtain b' st1 ia_answers pd_answers where
    h: "message_handler_handle core_containment mh refs b ?st = (Inr b', st1)"
    and r: "response b' = Some \<lparr>cs_class = ?rc, cs_transaction_id = cs_transaction_id req,
      cs_options = ids mh req @ ia_answers @ pd_answers\<rparr>"
    by (rule bare_server_answer [OF assms(1,3) b(1) c assms(5) _ _ rapid]) (use udp b(4,5) in auto)
  let ?m = "\<lparr>cs_class = ?rc, cs_transaction_id = cs_transaction_id req,
      cs_options = ids mh req @ ia_answers @ pd_answers\<rparr>"
  have core: "\<forall>h \<in> configured_handlers mh. core_handler core_containment h"
    using bare_core [OF assms(1)] by blast
  have kept: "chain_kept (incoming_relay_messages b) b'"
    by (rule core_handled(2) [OF h assms(3) core link b(2)])
  have "answers (received_over_tcp b) req b'"
    by (rule core_handled(1) [OF h assms(3) core b(3)])
  then have "messages_iter (responses b') = [?m]"
    using r udp b(5) by (simp add: answers_def messages_iter_def response_def)
  moreover define out where "out = relink (cs_message ?m) (outgoing_chain (prepare_outgoing b'))"
  ultimately have out: "outgoing_messages b' = [out]"
    by (simp add: outgoing_messages_def Let_def)
  have mirror: "mirrored b'" by (rule chain_kept_mirrored [OF kept])
  then have "outgoing_chain (prepare_outgoing b') \<noteq> []"
    using kept b(6) by (auto simp: mirrored_def chain_kept_def)
  then have "verify_response out = Inr ()" by (simp add: out_def verify_relinked)
  then have "handle_message R core_containment mh (\<lambda>_. Sent) packet st
      = Inr ([out], count_on Outgoing_packet refs st1)"
    using assms(2) refs h out by (simp add: handle_message_def Let_def get_update_set_def [of _ None])
  moreover have "map addressing (unwrap_replies [] (Some out)) = map addressing (incoming_relay_messages b)"
    using mirror kept by (simp add: out_def addressing_relink mirrored_def chain_kept_def)
  moreover have "inner_message [RelayMessageOption (Some out)] = Some (cs_message ?m)"
    by (rule inner_message_relink [of _ ?m "outgoing_chain (prepare_outgoing b')"])
      (simp add: relayed_message_def out_def)
  ultimately show ?thesis by (intro exI [of _ out] exI [of _ ?m] exI) auto
qed

end
