(* ===== verification/ReplyValidity.thy ===== *)
theory ReplyValidity
  imports BareServer
begin

text \<open>
  The answer of a server without configured handlers passes \<open>validate\<close>: the options fit the
  message, occur as often as they may, are themselves valid, and the IAIDs are unique.
\<close>

subsection \<open>Unique IAIDs\<close>

definition has_iaid :: "dhcp_option \<Rightarrow> bool" where
  "has_iaid option \<longleftrightarrow> option_iaid option \<noteq> None \<and> option_iaid option \<noteq> Some []"

lemma check_iaids_iff:
  "check_iaids ec seen options = Inr () \<longleftrightarrow>
     distinct (map (\<lambda>x. (ec x, option_iaid x)) (filter has_iaid options))
     \<and> (\<forall>x \<in> set options. has_iaid x \<longrightarrow> the (option_iaid x) \<notin> set (seen (ec x)))"
proof (induction options arbitrary: seen)
  case (Cons x options)
  show ?case
  proof (cases "has_iaid x")
    case True
    then obtain iaid where i: "option_iaid x = Some iaid" "iaid \<noteq> []"
      by (auto simp: has_iaid_def)
    have "check_iaids ec seen (x # options) = Inr () \<longleftrightarrow>
        iaid \<notin> set (seen (ec x)) \<and>
        check_iaids ec (seen(ec x := seen (ec x) @ [iaid])) options = Inr ()"
      using i by (simp add: Let_def)
    also have "\<dots> \<longleftrightarrow> iaid \<notin> set (seen (ec x)) \<and>
        distinct (map (\<lambda>x. (ec x, option_iaid x)) (filter has_iaid options)) \<and>
        (\<forall>y \<in> set options. has_iaid y \<longrightarrow>
          the (option_iaid y) \<notin> set ((seen(ec x := seen (ec x) @ [iaid])) (ec y)))"
      using Cons.IH by blast
    also have "\<dots> \<longleftrightarrow>
        distinct (map (\<lambda>x. (ec x, option_iaid x)) (filter has_iaid (x # options)))
        \<and> (\<forall>y \<in> set (x # options). has_iaid y \<longrightarrow> the (option_iaid y) \<notin> set (seen (ec y)))"
    proof -
      have "(ec x, option_iaid x) \<notin> (\<lambda>x. (ec x, option_iaid x)) ` {y \<in> set options. has_iaid y} \<longleftrightarrow>
          (\<forall>y \<in> set options. has_iaid y \<longrightarrow> ec y = ec x \<longrightarrow> the (option_iaid y) \<noteq> iaid)"
      proof -
        have "the (option_iaid y) = iaid \<longleftrightarrow> Some iaid = option_iaid y" if "has_iaid y" for y
          using that by (auto simp: has_iaid_def)
        then show ?thesis unfolding i(1) image_iff by (simp add: eq_commute [of "ec x"]) blast
      qed
      moreover have "(\<forall>y \<in> set options. has_iaid y \<longrightarrow>
          the (option_iaid y) \<notin> set ((seen(ec x := seen (ec x) @ [iaid])) (ec y))) \<longleftrightarrow>
          (\<forall>y \<in> set options. has_iaid y \<longrightarrow> the (option_iaid y) \<notin> set (seen (ec y))) \<and>
          (\<forall>y \<in> set options. has_iaid y \<longrightarrow> ec y = ec x \<longrightarrow> the (option_iaid y) \<noteq> iaid)"
      proof -
        have "the (option_iaid y) \<notin> set ((seen(ec x := seen (ec x) @ [iaid])) (ec y)) \<longleftrightarrow>
            the (option_iaid y) \<notin> set (seen (ec y)) \<and>
            (ec y = ec x \<longrightarrow> the (option_iaid y) \<noteq> iaid)" for y
          by (cases "ec y = ec x") auto
        then show ?thesis by blast
      qed
      moreover have "the (option_iaid x) = iaid" using i(1) by simp
      ultimately show ?thesis
        using True unfolding filter.simps list.map distinct.simps set_map set_filter list.set
        by (simp only: if_True list.map distinct.simps set_map set_filter ball_simps) blast
    qed
    finally show ?thesis .
  next
    case False
    then have "check_iaids ec seen (x # options) = check_iaids ec seen options"
      by (auto simp: has_iaid_def split: option.splits)
    with False Cons.IH show ?thesis by simp
  qed
qed simp

subsection \<open>Occurrences\<close>

lemma core_count:
  assumes "\<forall>oc \<in> set ocs. may_contain core_containment c (OptionClass oc)"
    and "\<forall>oc \<in> set ocs. option_base oc = Option_class" and c: "c \<noteq> OptionClass C_ClientDataOption"
  shows "count_list (map (get_element_class core_containment c \<circ> OptionClass) ocs) (Some k)
    = (case k of OptionClass oc \<Rightarrow> count_list ocs oc | _ \<Rightarrow> 0)"
  using assms(1,2)
proof (induction ocs)
  case (Cons a ocs)
  then obtain mn mx where "may_contain_limits core_containment c (OptionClass a) = Some (mn, mx)" "1 \<le> mx"
    using c by (auto simp: core_may_contain_option)
  then have "get_element_class core_containment c (OptionClass a) = Some (OptionClass a)"
    using Cons.prems c by (simp add: core_get_element_class)
  with Cons show ?case by (cases k) auto
qed (auto split: klass.split)

lemma core_validate_containsI:
  assumes "\<And>oc. oc \<in> set ocs \<Longrightarrow> may_contain core_containment c (OptionClass oc)"
    and "\<And>k mn mx. may_contain_limits core_containment c k = Some (mn, mx) \<Longrightarrow>
      mn \<le> int (case k of OptionClass oc \<Rightarrow> count_list ocs oc | _ \<Rightarrow> 0)
      \<and> int (case k of OptionClass oc \<Rightarrow> count_list ocs oc | _ \<Rightarrow> 0) \<le> mx"
    and "\<forall>oc \<in> set ocs. option_base oc = Option_class" and "c \<noteq> OptionClass C_ClientDataOption"
  shows "validate_contains core_containment c (map OptionClass ocs) = Inr ()"
  using assms core_count [of ocs c]
  by (auto simp: validate_contains_iff)

text \<open>The rules of the messages and options that occur in the answers, as one list each.\<close>

lemma rules_of_ia:
  "rules_of (OptionClass C_IANAOption) = [(OptionClass C_IAAddressOption, 0, infinite_occurrence),
     (OptionClass C_StatusCodeOption, 0, infinite_occurrence),
     (OptionClass C_UnknownOption, 0, infinite_occurrence)]"
  "rules_of (OptionClass C_IATAOption) = [(OptionClass C_IAAddressOption, 0, infinite_occurrence),
     (OptionClass C_StatusCodeOption, 0, infinite_occurrence),
     (OptionClass C_UnknownOption, 0, infinite_occurrence)]"
  "rules_of (OptionClass C_IAPDOption) = [(OptionClass C_IAPrefixOption, 0, infinite_occurrence),
     (OptionClass C_StatusCodeOption, 0, 1), (OptionClass C_PDExcludeOption, 0, 1),
     (OptionClass C_UnknownOption, 0, infinite_occurrence)]"
  "rules_of (OptionClass C_IAAddressOption) = [(OptionClass C_StatusCodeOption, 0, infinite_occurrence),
     (OptionClass C_UnknownOption, 0, infinite_occurrence)]"
  "rules_of (OptionClass C_IAPrefixOption) = [(OptionClass C_StatusCodeOption, 0, 1),
     (OptionClass C_UnknownOption, 0, infinite_occurrence)]"
  by code_simp+

text \<open>Options without suboptions in their containers: nothing is required.\<close>

definition answer_rules_ok :: "(klass \<times> limits) list \<Rightarrow> bool" where
  "answer_rules_ok rs \<longleftrightarrow>
     (\<forall>(k, mn, mx) \<in> set rs.
        (mn = 0 \<or> k = OptionClass C_ClientIdOption \<or> k = OptionClass C_ServerIdOption)
        \<and> mn \<le> 1 \<and> 1 \<le> mx)
     \<and> (\<forall>k \<in> {C_IANAOption, C_IATAOption, C_IAPDOption}.
        map_of rs (OptionClass k) = Some (0, infinite_occurrence))
     \<and> map_of rs (OptionClass C_ServerIdOption) = Some (1, 1)
     \<and> map_of rs (OptionClass C_ClientIdOption) \<in> {Some (1, 1), Some (0, 1)}"

definition request_rules_ok :: "(klass \<times> limits) list \<Rightarrow> bool" where
  "request_rules_ok rs \<longleftrightarrow>
     (\<forall>k \<in> {C_IANAOption, C_IATAOption, C_IAPDOption}.
        map_of rs (OptionClass k) = Some (0, infinite_occurrence))
     \<and> map_of rs (OptionClass C_ClientIdOption) = Some (1, 1)"

lemma rules_checked:
  "list_all (\<lambda>c. answer_rules_ok (rules_of (MessageClass (ClientServer c)))) [AdvertiseMessage, ReplyMessage]"
  "list_all (\<lambda>c. request_rules_ok (rules_of (MessageClass (ClientServer c))))
     [SolicitMessage, RequestMessage, RenewMessage, RebindMessage]"
  by code_simp+

lemma rules_of_messages:
  "\<forall>c \<in> {AdvertiseMessage, ReplyMessage}.
     (\<forall>(k, mn, mx) \<in> set (rules_of (MessageClass (ClientServer c))).
        (mn = 0 \<or> k = OptionClass C_ClientIdOption \<or> k = OptionClass C_ServerIdOption)
        \<and> mn \<le> 1 \<and> 1 \<le> mx)
     \<and> (\<forall>k \<in> {C_IANAOption, C_IATAOption, C_IAPDOption}.
        map_of (rules_of (MessageClass (ClientServer c))) (OptionClass k) = Some (0, infinite_occurrence))
     \<and> map_of (rules_of (MessageClass (ClientServer c))) (OptionClass C_ServerIdOption) = Some (1, 1)
     \<and> map_of (rules_of (MessageClass (ClientServer c))) (OptionClass C_ClientIdOption) \<in>
         {Some (1, 1), Some (0, 1)}"
  using rules_checked(1) by (simp add: answer_rules_ok_def)

lemma rules_of_requests:
  "\<forall>c \<in> {SolicitMessage, RequestMessage, RenewMessage, RebindMessage}.
     (\<forall>k \<in> {C_IANAOption, C_IATAOption, C_IAPDOption}.
        map_of (rules_of (MessageClass (ClientServer c))) (OptionClass k) = Some (0, infinite_occurrence))
     \<and> map_of (rules_of (MessageClass (ClientServer c))) (OptionClass C_ClientIdOption) = Some (1, 1)"
  using rules_checked(2) by (simp add: request_rules_ok_def)

lemma rules_of_options:
  assumes "X \<in> {C_IANAOption, C_IATAOption, C_IAPDOption, C_IAAddressOption, C_IAPrefixOption}"
    and "may_contain_limits core_containment (OptionClass X) k = Some (mn, mx)"
  shows "mn = 0 \<and> 1 \<le> mx"
  using assms by (auto simp: limits_rules rules_of_ia infinite_occurrence_def split: if_splits)

lemma contains_nothing:
  "X \<in> {C_IANAOption, C_IATAOption, C_IAPDOption, C_IAAddressOption, C_IAPrefixOption} \<Longrightarrow>
   validate_contains core_containment (OptionClass X) [] = Inr ()"
  using core_validate_containsI [of "[]" "OptionClass X"] rules_of_options [of X]
  by (fastforce split: klass.split)

lemma contains_status:
  assumes X: "X \<in> {C_IANAOption, C_IATAOption, C_IAPDOption}"
  shows "validate_contains core_containment (OptionClass X) [OptionClass C_StatusCodeOption] = Inr ()"
proof -
  have "validate_contains core_containment (OptionClass X) (map OptionClass [C_StatusCodeOption]) = Inr ()"
  proof (rule core_validate_containsI)
    show "may_contain core_containment (OptionClass X) (OptionClass oc)"
      if "oc \<in> set [C_StatusCodeOption]" for oc
      using that X by (auto simp: core_may_contain_option limits_rules rules_of_ia infinite_occurrence_def)
    show "\<forall>oc \<in> set [C_StatusCodeOption]. option_base oc = Option_class" by simp
    show "OptionClass X \<noteq> OptionClass C_ClientDataOption" using X by auto
    fix k mn mx assume "may_contain_limits core_containment (OptionClass X) k = Some (mn, mx)"
    then have "mn = 0" "1 \<le> mx" using rules_of_options [of X] X by blast+
    then show "mn \<le> int (case k of OptionClass oc \<Rightarrow> count_list [C_StatusCodeOption] oc | _ \<Rightarrow> 0)
      \<and> int (case k of OptionClass oc \<Rightarrow> count_list [C_StatusCodeOption] oc | _ \<Rightarrow> 0) \<le> mx"
      by (simp split: klass.split)
  qed
  then show ?thesis by simp
qed

subsection \<open>Answers are valid options\<close>

lemma withdraw_address_valid:
  "option_validate core_containment (IAAddressOption a p v os) = Inr () \<Longrightarrow>
   option_validate core_containment (IAAddressOption a 0 0 []) = Inr ()"
  by (auto simp: contains_nothing IAAddressOption_validate_def uint32_def elim!: rbind_InrE
    split: option.splits if_splits)

lemma withdraw_prefix_valid:
  "option_validate core_containment (IAPrefixOption n p v os) = Inr () \<Longrightarrow>
   option_validate core_containment (IAPrefixOption n 0 0 []) = Inr ()"
  by (auto simp: contains_nothing IAPrefixOption_validate_def uint32_def elim!: rbind_InrE
    split: option.splits if_splits)

lemma withdraw_valid:
  assumes "option_validate core_containment x = Inr ()"
    and "option_class_of x \<in> {C_IAAddressOption, C_IAPrefixOption}"
  shows "option_validate core_containment (withdraw x) = Inr ()"
    and "option_class_of (withdraw x) = option_class_of x"
proof -
  have "(\<exists>a p v os. x = IAAddressOption a p v os) \<or> (\<exists>n p v os. x = IAPrefixOption n p v os)"
    using assms(2) by (cases x) (auto simp: plain_class_ia)
  then show "option_validate core_containment (withdraw x) = Inr ()"
    and "option_class_of (withdraw x) = option_class_of x"
    using assms(1) withdraw_address_valid withdraw_prefix_valid
    by (auto simp del: option_validate.simps)
qed

lemma count_filter_map:
  "count_list (map f (filter (\<lambda>x. f x \<in> S) xs)) k = (if k \<in> S then count_list (map f xs) k else 0)"
  by (induction xs) auto

lemma withdrawn_valid:
  assumes X: "X \<in> {C_IANAOption, C_IATAOption, C_IAPDOption}"
    and S: "S \<in> {C_IAAddressOption, C_IAPrefixOption}"
    and contains: "validate_contains core_containment (OptionClass X) (map option_klass os) = Inr ()"
    and valid: "for_all (option_validate core_containment) os = Inr ()"
  shows "validate_contains core_containment (OptionClass X)
      (map option_klass (map withdraw (get_options_of_type [S] os))) = Inr ()"
    and "for_all (option_validate core_containment) (map withdraw (get_options_of_type [S] os)) = Inr ()"
proof -
  have v: "option_validate core_containment x = Inr ()" if "x \<in> set os" for x
    using valid that by (simp add: for_all_eq_Inr)
  have w: "option_class_of (withdraw x) = option_class_of x"
    "option_validate core_containment (withdraw x) = Inr ()"
    if "x \<in> set (get_options_of_type [S] os)" for x
    using that S withdraw_valid [OF v] by (auto simp: get_options_of_type_def)
  then show "for_all (option_validate core_containment) (map withdraw (get_options_of_type [S] os)) = Inr ()"
    by (auto simp: for_all_eq_Inr)
  have cls: "map option_class_of (map withdraw (get_options_of_type [S] os))
      = map option_class_of (filter (\<lambda>x. option_class_of x \<in> {S}) os)"
    using w(1) by (auto simp: get_options_of_type_def)
  have X': "OptionClass X \<noteq> OptionClass C_ClientDataOption" using X by auto
  have S': "option_base S = Option_class" using S by auto
  note c = core_validate_contains
    [OF contains [folded map_map [of OptionClass option_class_of, unfolded comp_def]] X' S']
  have "validate_contains core_containment (OptionClass X)
      (map OptionClass (map option_class_of (filter (\<lambda>x. option_class_of x \<in> {S}) os))) = Inr ()"
  proof (rule core_validate_containsI)
    show "may_contain core_containment (OptionClass X) (OptionClass oc)"
      if "oc \<in> set (map option_class_of (filter (\<lambda>x. option_class_of x \<in> {S}) os))" for oc
      using that c(1) by auto
    show "\<forall>oc \<in> set (map option_class_of (filter (\<lambda>x. option_class_of x \<in> {S}) os)).
        option_base oc = Option_class"
      using S' by auto
    fix k mn mx assume l: "may_contain_limits core_containment (OptionClass X) k = Some (mn, mx)"
    then have m: "mn = 0" "1 \<le> mx" using rules_of_options [of X] X by blast+
    show "mn \<le> int (case k of OptionClass oc \<Rightarrow>
          count_list (map option_class_of (filter (\<lambda>x. option_class_of x \<in> {S}) os)) oc | _ \<Rightarrow> 0)
      \<and> int (case k of OptionClass oc \<Rightarrow>
          count_list (map option_class_of (filter (\<lambda>x. option_class_of x \<in> {S}) os)) oc | _ \<Rightarrow> 0) \<le> mx"
      unfolding count_filter_map using m c(2) l by (auto split: klass.split)
  qed (rule X')
  then show "validate_contains core_containment (OptionClass X)
      (map option_klass (map withdraw (get_options_of_type [S] os))) = Inr ()"
    unfolding cls [symmetric] by (simp add: comp_def)
qed

lemma answer_valid:
  assumes "declines ia answer" and "option_validate core_containment ia = Inr ()"
    and "option_class_of ia \<in> {C_IANAOption, C_IATAOption, C_IAPDOption}"
  shows "option_validate core_containment answer = Inr ()"
proof -
  from assms(1) obtain os where a: "answer = make_ia ia os"
    and os: "(\<exists>c m. os = [Plain (StatusCodeOption c m)] \<and> 0 < c \<and> c < 2 ^ 16)
      \<or> os = withdrawn C_IAAddressOption ia \<or> os = withdrawn C_IAPrefixOption ia"
    by (auto simp: declines_def)
  have "validate_contains core_containment (OptionClass (option_class_of ia)) (map option_klass (suboptions ia)) = Inr ()"
    "for_all (option_validate core_containment) (suboptions ia) = Inr ()"
    using assms(2,3) by (cases ia; auto simp: plain_class_ia elim!: rbind_InrE)+
  from withdrawn_valid [OF assms(3) _ this] os
  have "validate_contains core_containment (OptionClass (option_class_of ia)) (map option_klass os) = Inr ()"
    "for_all (option_validate core_containment) os = Inr ()"
    using contains_status [OF assms(3)]
    by (auto simp: withdrawn_def StatusCodeOption_validate_def)
  then show ?thesis
    using assms(2,3)
    by (cases ia) (auto simp: a plain_class_ia IAOption_validate_def uint32_def elim!: rbind_InrE split: if_splits)
qed

subsection \<open>The answer is a valid message\<close>

lemma declines_classes:
  assumes "list_all2 declines ias ia_answers"
    and "\<forall>x \<in> set ias. option_class_of x \<in> {C_IANAOption, C_IATAOption, C_IAPDOption}"
  shows "map option_class_of ia_answers = map option_class_of ias"
    and "map option_iaid ia_answers = map option_iaid ias"
    and "map (\<lambda>x. (option_class_of x, option_iaid x)) ia_answers
      = map (\<lambda>x. (option_class_of x, option_iaid x)) ias"
  using assms by (induction rule: list_all2_induct) (auto dest: declinesD)

lemma declines_no_lease:
  assumes "list_all2 declines ias ia_answers"
    and "\<forall>x \<in> set ias. option_class_of x \<in> {C_IANAOption, C_IATAOption, C_IAPDOption}"
  shows "\<forall>answer \<in> set ia_answers. list_all no_lease (suboptions answer)"
  using assms by (induction rule: list_all2_induct) (auto dest: declinesD(3))

lemma declines_valid:
  assumes "list_all2 declines ias ia_answers"
    and "\<forall>x \<in> set ias. option_class_of x \<in> {C_IANAOption, C_IATAOption, C_IAPDOption}"
    and "\<forall>x \<in> set ias. option_validate core_containment x = Inr ()"
  shows "\<forall>x \<in> set ia_answers. option_validate core_containment x = Inr ()"
  using assms by (induction rule: list_all2_induct) (auto dest: answer_valid)

lemma ia_has_iaid:
  assumes "option_validate core_containment x = Inr ()"
    and "option_class_of x \<in> {C_IANAOption, C_IATAOption, C_IAPDOption}"
  shows "has_iaid x"
  using assms by (cases x) (auto simp: has_iaid_def plain_class_ia IAOption_validate_def
    guard_eq_Inr elim!: rbind_InrE split: if_splits)

lemma map_filter_class:
  "map option_class_of (get_options_of_type cs os) = filter (\<lambda>c. c \<in> set cs) (map option_class_of os)"
  by (induction os) (auto simp: get_options_of_type_def)

lemma count_list_filter: "count_list (filter P xs) k = (if P k then count_list xs k else 0)"
  by (induction xs) auto

lemma count_list_append [simp]: "count_list (xs @ ys) k = count_list xs k + count_list ys k"
  by (induction xs) auto

lemma answer_occurrences:
  assumes req: "validate_contains core_containment (MessageClass (ClientServer c)) (map OptionClass cls) = Inr ()"
    and c: "c \<in> {SolicitMessage, RequestMessage, RenewMessage, RebindMessage}"
    and rc: "rc \<in> {AdvertiseMessage, ReplyMessage}"
  shows "validate_contains core_containment (MessageClass (ClientServer rc)) (map OptionClass
      (filter (\<lambda>x. x \<in> set [C_ClientIdOption]) cls @ [C_ServerIdOption] @
       filter (\<lambda>x. x \<in> set [C_IANAOption, C_IATAOption]) cls @
       filter (\<lambda>x. x \<in> set [C_IAPDOption]) cls)) = Inr ()"
    (is "validate_contains _ ?rc (map OptionClass ?cls) = _")
proof (rule core_validate_containsI)
  let ?c = "MessageClass (ClientServer c)"
  have rr: "may_contain_limits core_containment ?rc (OptionClass k) = Some (0, infinite_occurrence)"
    "may_contain_limits core_containment ?c (OptionClass k) = Some (0, infinite_occurrence)"
    if "k \<in> {C_IANAOption, C_IATAOption, C_IAPDOption}" for k
    using rules_of_messages rules_of_requests c rc that unfolding limits_rules by blast+
  have ids: "may_contain_limits core_containment ?rc (OptionClass C_ServerIdOption) = Some (1, 1)"
    "may_contain_limits core_containment ?rc (OptionClass C_ClientIdOption) \<in> {Some (1, 1), Some (0, 1)}"
    "may_contain_limits core_containment ?c (OptionClass C_ClientIdOption) = Some (1, 1)"
    using rules_of_messages rules_of_requests c rc unfolding limits_rules by blast+
  note count = core_validate_contains(2) [OF req, simplified]
  have one: "count_list cls C_ClientIdOption = 1"
    using count [of C_ClientIdOption 1 1] ids(3) by simp
  have few: "int (count_list cls k) \<le> infinite_occurrence"
    if "k \<in> {C_IANAOption, C_IATAOption, C_IAPDOption}" for k
    using count [of k 0 infinite_occurrence] rr(2) [OF that] that
    by (auto simp: infinite_occurrence_def)
  show "may_contain core_containment ?rc (OptionClass oc)" if "oc \<in> set ?cls" for oc
  proof -
    from that have oc: "oc \<in> {C_ServerIdOption, C_ClientIdOption, C_IANAOption, C_IATAOption, C_IAPDOption}"
      by auto
    then have "\<exists>mn mx. may_contain_limits core_containment ?rc (OptionClass oc) = Some (mn, mx) \<and> 1 \<le> mx"
      using rr(1) [of oc] ids(1,2) by (auto simp: infinite_occurrence_def)
    moreover have "option_base oc = Option_class" using oc by auto
    ultimately show ?thesis by (subst core_may_contain_option) simp_all
  qed
  show "\<forall>oc \<in> set ?cls. option_base oc = Option_class" by auto
  show "?rc \<noteq> OptionClass C_ClientDataOption" by simp
  fix k mn mx assume l: "may_contain_limits core_containment ?rc k = Some (mn, mx)"
  then have "(k, mn, mx) \<in> set (rules_of ?rc)"
    by (simp add: limits_rules map_of_SomeD)
  then have b: "mn = 0 \<or> k = OptionClass C_ClientIdOption \<or> k = OptionClass C_ServerIdOption"
    "mn \<le> 1" "1 \<le> mx"
    using rules_of_messages rc by blast+
  show "mn \<le> int (case k of OptionClass oc \<Rightarrow> count_list ?cls oc | _ \<Rightarrow> 0)
    \<and> int (case k of OptionClass oc \<Rightarrow> count_list ?cls oc | _ \<Rightarrow> 0) \<le> mx"
  proof (cases "\<exists>oc. k = OptionClass oc")
    case True
    then obtain oc where k: "k = OptionClass oc" by blast
    consider "oc = C_ClientIdOption" | "oc = C_ServerIdOption"
      | "oc \<in> {C_IANAOption, C_IATAOption, C_IAPDOption}"
      | "oc \<notin> {C_ClientIdOption, C_ServerIdOption, C_IANAOption, C_IATAOption, C_IAPDOption}"
      by blast
    then show ?thesis
    proof cases
      case 3
      then have "mn = 0" "mx = infinite_occurrence" using rr(1) [OF 3] l k by auto
      moreover have "count_list ?cls oc = count_list cls oc"
        using 3 by (auto simp: count_list_filter)
      ultimately show ?thesis using few [OF 3] k by simp
    qed (use b k one in \<open>auto simp: count_list_filter\<close>)
  next
    case False
    with b show ?thesis by (auto split: klass.split)
  qed
qed

definition ia_key :: "dhcp_option \<Rightarrow> option_class \<times> bytes option" where
  "ia_key x = (option_class_of x, option_iaid x)"

lemma declines_key:
  assumes "list_all2 declines ias ia_answers"
    and "\<forall>x \<in> set ias. option_class_of x \<in> {C_IANAOption, C_IATAOption, C_IAPDOption}"
  shows "map ia_key ia_answers = map ia_key ias"
  using declines_classes(3) [OF assms] by (simp add: ia_key_def [abs_def])

definition keyed :: "option_class \<times> bytes option \<Rightarrow> bool" where
  "keyed p \<longleftrightarrow> snd p \<noteq> None \<and> snd p \<noteq> Some []"

lemma filter_has_iaid: "map ia_key (filter has_iaid xs) = filter keyed (map ia_key xs)"
  by (induction xs) (auto simp: ia_key_def keyed_def has_iaid_def)

text \<open>In a message that may contain its options the check is about the classes of the options.\<close>

lemma core_check_iaids:
  assumes "\<forall>x \<in> set os. may_contain core_containment c (option_klass x)"
    and c: "c \<noteq> OptionClass C_ClientDataOption"
  shows "check_iaids (\<lambda>x. get_element_class core_containment c (option_klass x)) (\<lambda>_. []) os = Inr ()
    \<longleftrightarrow> distinct (filter keyed (map ia_key os))"
proof -
  have ec: "get_element_class core_containment c (option_klass x) = Some (option_klass x)"
    if "x \<in> set os" and "has_iaid x" for x
  proof -
    from that(2) have "option_base (option_class_of x) = Option_class"
      by (cases x) (auto simp: has_iaid_def)
    moreover have "may_contain core_containment c (option_klass x)" using assms that by blast
    ultimately show ?thesis
      using c by (auto simp: core_may_contain_option core_get_element_class)
  qed
  let ?g = "\<lambda>(oc, i). (Some (OptionClass oc), i :: bytes option)"
  have "map (\<lambda>x. (get_element_class core_containment c (option_klass x), option_iaid x)) (filter has_iaid os)
      = map ?g (map ia_key (filter has_iaid os))"
    using ec by (auto simp: ia_key_def)
  moreover have "inj ?g" by (auto intro!: injI)
  ultimately show ?thesis
    by (simp only: check_iaids_iff distinct_map filter_has_iaid)
      (auto simp: distinct_map filter_has_iaid inj_on_def)
qed

lemma option_class_client_id: "option_class_of x = C_ClientIdOption \<Longrightarrow> option_iaid x = None"
  by (cases x) simp_all

lemma answer_message_valid:
  assumes req: "message_validate core_containment (cs_message req) = Inr ()"
    and c: "cs_class req \<in> {SolicitMessage, RequestMessage, RenewMessage, RebindMessage}"
    and rc: "rc \<in> {AdvertiseMessage, ReplyMessage}" and duid: "DUID_validate (server_id mh) = Inr ()"
    and a: "list_all2 declines (get_options_of_type [C_IANAOption, C_IATAOption] (cs_options req)) ia_answers"
    and pd: "list_all2 declines (get_options_of_type [C_IAPDOption] (cs_options req)) pd_answers"
  shows "message_validate core_containment (cs_message \<lparr>cs_class = rc,
    cs_transaction_id = cs_transaction_id req, cs_options = ids mh req @ ia_answers @ pd_answers\<rparr>) = Inr ()"
proof -
  let ?os = "cs_options req"
  let ?ia = "get_options_of_type [C_IANAOption, C_IATAOption] ?os"
  let ?pd = "get_options_of_type [C_IAPDOption] ?os"
  let ?rs = "ids mh req @ ia_answers @ pd_answers"
  from req have tid: "ClientServerMessage_check (cs_transaction_id req) = Inr ()"
    and contains: "validate_contains core_containment (cs_klass req) (map option_klass ?os) = Inr ()"
    and valid: "for_all (option_validate core_containment) ?os = Inr ()"
    and iaids: "check_iaids (\<lambda>x. get_element_class core_containment (cs_klass req) (option_klass x)) (\<lambda>_. []) ?os = Inr ()"
    by (auto simp: cs_message_def elim!: rbind_InrE)
  have v: "option_validate core_containment x = Inr ()" if "x \<in> set ?os" for x
    using valid that by (simp add: for_all_eq_Inr)
  have sub: "set ?ia \<subseteq> set ?os" "set ?pd \<subseteq> set ?os" by (auto simp: get_options_of_type_def)
  have cl: "\<forall>x \<in> set ?ia. option_class_of x \<in> {C_IANAOption, C_IATAOption, C_IAPDOption}"
    "\<forall>x \<in> set ?pd. option_class_of x \<in> {C_IANAOption, C_IATAOption, C_IAPDOption}"
    by (auto simp: get_options_of_type_def)
  have "map option_class_of ?rs = map option_class_of (get_options_of_type [C_ClientIdOption] ?os)
      @ [C_ServerIdOption] @ map option_class_of ?ia @ map option_class_of ?pd"
    using declines_classes(1) [OF a cl(1)] declines_classes(1) [OF pd cl(2)] by (simp add: ids_def)
  with answer_occurrences [of "cs_class req" "map option_class_of ?os" rc] contains c rc
  have contains': "validate_contains core_containment (MessageClass (ClientServer rc)) (map option_klass ?rs) = Inr ()"
    unfolding map_filter_class by (metis (no_types, lifting) map_map comp_def map_eq_conv)
  have "\<forall>x \<in> set ?rs. option_validate core_containment x = Inr ()"
    using declines_valid [OF a cl(1)] declines_valid [OF pd cl(2)] v sub duid
    by (auto simp: ids_def get_options_of_type_def ServerIdOption_validate_def)
  then have valid': "for_all (option_validate core_containment) ?rs = Inr ()"
    by (simp add: for_all_eq_Inr)
  have iaids': "check_iaids (\<lambda>x. get_element_class core_containment (MessageClass (ClientServer rc)) (option_klass x)) (\<lambda>_. []) ?rs = Inr ()"
  proof -
    let ?A = "\<lambda>p. fst p \<in> set [C_IANAOption, C_IATAOption]" and ?B = "\<lambda>p. fst p \<in> set [C_IAPDOption]"
    have keys: "map ia_key (get_options_of_type cs xs) = filter (\<lambda>p. fst p \<in> set cs) (map ia_key xs)" for cs xs
      by (induction xs) (auto simp: get_options_of_type_def ia_key_def)
    have "filter keyed (map ia_key (ids mh req)) = []"
      by (auto simp: ids_def get_options_of_type_def ia_key_def keyed_def filter_empty_conv option_class_client_id)
    moreover have "map ia_key ia_answers = filter ?A (map ia_key ?os)"
      "map ia_key pd_answers = filter ?B (map ia_key ?os)"
      using declines_key [OF a cl(1)] declines_key [OF pd cl(2)] by (simp_all add: keys)
    ultimately have k: "filter keyed (map ia_key ?rs)
        = filter ?A (filter keyed (map ia_key ?os)) @ filter ?B (filter keyed (map ia_key ?os))"
      by (simp add: conj_commute)
    have "distinct (filter keyed (map ia_key ?os))"
      using iaids core_check_iaids [of ?os "cs_klass req"] contains unfolding validate_contains_iff by auto
    then have "distinct (filter keyed (map ia_key ?rs))"
      unfolding k distinct_append by (auto simp del: filter_filter)
    then show ?thesis
      using core_check_iaids [of ?rs "MessageClass (ClientServer rc)"] contains'
      unfolding validate_contains_iff by auto
  qed
  show ?thesis
    using tid contains' valid' iaids' by (simp add: cs_message_def)
qed

end
