(* ===== verification/ParseBounds.thy ===== *)
theory ParseBounds
  imports MessageCodec
begin

text \<open>
  Where a successful parse ends: an option ends inside the buffer, and a message that is
  valid has used the whole packet.
\<close>

lemma items_loop_bound:
  assumes "\<And>k n x. dec k = Inr (n, x) \<Longrightarrow> k + n \<le> len"
    and "items_loop fuel dec offset my_offset max_offset = Inr (e, xs)"
    and "offset + my_offset \<le> len"
  shows "offset + e \<le> len"
  using assms(2,3)
proof (induction fuel arbitrary: my_offset xs)
  case (Suc fuel)
  show ?case
  proof (cases "max_offset > my_offset")
    case True
    with Suc.prems(1) obtain n x ys where d: "dec (offset + my_offset) = Inr (n, x)"
      and l: "items_loop fuel dec offset (my_offset + n) max_offset = Inr (e, ys)"
      by (auto elim!: rbind_InrE)
    from Suc.IH [OF l] assms(1) [OF d] show ?thesis by simp
  qed (use Suc.prems in auto)
qed simp

lemma parse_option_header_end:
  "parse_option_header t mn mx buf off None = Inr (m, n) \<Longrightarrow> m = 4 \<and> mn \<le> n \<and> off + 4 + n \<le> length buf"
  by (auto dest!: parse_option_header_InrD)

lemma plain_loader_bound:
  assumes "plain_loader c = Some load" and "load buf off None = Inr (n, o')"
  shows "off + n \<le> length buf"
  using assms(1)
proof (cases rule: plain_loader_cases)
  case (1 load')
  with assms(2) show ?thesis
    by (fastforce simp: load_extension_def elim!: rbind_InrE dest: extension_loader_end)
next
  case 2
  from 2(2) assms show ?thesis
    by (auto elim!: rbind_InrE simp: plain_load_defs Let_def unpack2_def
      dest!: parse_option_header_end DUID_parse_length split: if_splits)
qed

lemma load_options_end:
  "load_options fuel dec offset my_offset max_offset = Inr (e, xs) \<Longrightarrow> e = max_offset"
  by (auto simp: load_options_def elim!: rbind_InrE split: if_splits)

lemma option_load_from_bound:
  assumes "option_load_from fuel dec parse c buf off None = Inr (n, o')"
  shows "off + n \<le> length buf"
proof (cases "plain_loader c")
  case None
  with assms show ?thesis
    by (auto elim!: rbind_InrE simp: option_load_from_def nested_load_defs Let_def
      dest!: parse_option_header_end load_options_end split: if_splits)
next
  case (Some load)
  with assms show ?thesis
    by (auto elim!: rbind_InrE simp: option_load_from_def dest: plain_loader_bound)
qed

lemma option_parse_bound: "option_parse fuel R buf off = Inr (n, o') \<Longrightarrow> off + n \<le> length buf"
  by (cases fuel) (auto elim!: rbind_InrE dest: option_load_from_bound)

lemma items_loop_options_bound:
  assumes "items_loop fuel (option_parse f R buf) off my_offset (length buf - off) = Inr (e, xs)"
    and "off + my_offset \<le> length buf"
  shows "off + e = length buf"
proof -
  have "off + e \<le> length buf"
    using items_loop_bound [of "option_parse f R buf" "length buf", OF option_parse_bound assms] .
  with items_loop_end [OF assms(1)] assms(2) show ?thesis by linarith
qed

text \<open>A message that \<open>validate\<close> accepts was read to the end of the packet.\<close>

lemma message_parse_whole:
  assumes "Message_parse R buf = Inr (n, m)" and "message_validate T m = Inr ()"
  shows "n = length buf"
proof -
  from assms(1) obtain c where
    load: "message_load_from (length buf) (option_parse (length buf) R buf) c buf 0 None = Inr (n, m)"
    by (auto simp: Message_parse_def elim!: rbind_InrE)
  show ?thesis
  proof (cases c)
    case C_UnknownMessage
    with load show ?thesis
      by (auto simp: message_load_from_def UnknownMessage_load_from_def Let_def byte_at_def
        elim!: rbind_InrE split: if_splits)
  next
    case (ClientServer cc)
    with load obtain tid os where
      l: "items_loop (length buf) (option_parse (length buf) R buf) 0 4 (length buf) = Inr (n, os)"
      and tid: "tid = slice buf 1 3" and m: "m = ClientServerMessage cc tid os"
      by (auto simp: message_load_from_def ClientServerMessage_load_from_def Let_def
        elim!: rbind_InrE split: if_splits)
    have "length tid = 3"
      using assms(2) by (auto simp: m ClientServerMessage_check_def guard_eq_Inr elim!: rbind_InrE)
    then have "4 \<le> length buf" by (auto simp: tid slice_def)
    with items_loop_options_bound [of "length buf" "length buf" R buf 0 4 n os] l
    show ?thesis by simp
  next
    case (RelayServer rc)
    with load obtain os a where
      l: "items_loop (length buf) (option_parse (length buf) R buf) 0 34 (length buf) = Inr (n, os)"
      and a: "ipv6_from_bytes (slice buf 18 16) = Inr a"
      by (auto simp: message_load_from_def RelayServerMessage_load_from_def Let_def
        elim!: rbind_InrE split: if_splits)
    then have "34 \<le> length buf" by (auto simp: ipv6_from_bytes_def slice_def split: if_splits)
    with items_loop_options_bound [of "length buf" "length buf" R buf 0 34 n os] l
    show ?thesis by simp
  qed
qed

text \<open>
  A DUID of at least eight octets is read from its own octets only; the shorter ones are read
  with octets from behind them (see the root theory).
\<close>

lemma slice_slice: "i + n \<le> m \<Longrightarrow> slice (slice buf off m) i n = slice buf (off + i) n"
  by (simp add: slice_def drop_take add.commute min_def)

lemma unpack1_slice:
  "off + m \<le> length buf \<Longrightarrow> i + w \<le> m \<Longrightarrow> unpack1 w (slice buf off m) i = unpack1 w buf (off + i)"
  by (simp add: unpack1_def slice_slice) (simp add: slice_def)

lemma unpack2_slice:
  "off + m \<le> length buf \<Longrightarrow> i + v + w \<le> m \<Longrightarrow>
   unpack2 v w (slice buf off m) i = unpack2 v w buf (off + i)"
  by (simp add: unpack2_def slice_slice add.assoc) (simp add: slice_def)

lemma DUID_parse_slice:
  assumes "off + n \<le> length buf" and "8 \<le> n"
  shows "DUID_parse (slice buf off n) 0 (Some n) = DUID_parse buf off (Some n)"
proof -
  have head: "unpack1 2 (slice buf off n) 0 = unpack1 2 buf off"
    using unpack1_slice [OF assms(1), of 0 2] assms(2) by simp
  show ?thesis
  proof (cases "unpack1 2 buf off")
    case (Inr t)
    show ?thesis
      using assms Inr
      by (auto simp: DUID_parse_def DUID_determine_class_def duid_load_defs head unpack1_slice
        unpack2_slice slice_rest_def slice_slice simp del: add_2_eq_Suc add_2_eq_Suc'
          split: duid_class.split option.split)
  qed (simp add: DUID_parse_def DUID_determine_class_def head)
qed

end
