(* ===== verification/Scenario.thy ===== *)
theory Scenario
  imports ReplyValidity ParseBounds
begin

text \<open>
  A concrete exchange on which the properties are instantiated: a client solicits an address
  and a prefix, through the server's listener.
\<close>

definition ex_client :: duid where
  "ex_client = LinkLayerDUID 1 [2, 0, 0, 0, 0, 1]"

definition ex_server :: duid where
  "ex_server = EnterpriseDUID 40208 [1, 2, 3]"

definition ex_address :: ipv6 where
  "ex_address = 0x20010db8000000000000000000000001"

definition ex_solicit :: client_server where
  "ex_solicit = \<lparr>cs_class = SolicitMessage, cs_transaction_id = [1, 2, 3], cs_options =
     [Plain (ClientIdOption (Some ex_client)), Plain (ElapsedTimeOption 0),
      IANAOption [0, 0, 0, 1] 0 0 [IAAddressOption (Some ex_address) 100 200 []],
      IAPDOption [0, 0, 0, 1] 0 0 []]\<rparr>"

definition ex_octets :: bytes where
  "ex_octets =
     [1, 1, 2, 3,
      0, 1, 0, 10, 0, 3, 0, 1, 2, 0, 0, 0, 0, 1,
      0, 8, 0, 2, 0, 0,
      0, 3, 0, 40, 0, 0, 0, 1, 0, 0, 0, 0, 0, 0, 0, 0,
        0, 5, 0, 24, 0x20, 1, 0x0d, 0xb8, 0, 0, 0, 0, 0, 0, 0, 0, 0, 0, 0, 1,
        0, 0, 0, 100, 0, 0, 0, 200,
      0, 25, 0, 12, 0, 0, 0, 1, 0, 0, 0, 0, 0, 0, 0, 0]"

definition ex_message :: message where
  "ex_message = cs_message ex_solicit"

lemmas ex_defs = ex_client_def ex_server_def ex_address_def ex_solicit_def ex_message_def cs_message_def

lemma ex_saved: "message_save ex_message = Inr ex_octets"
  by (simp add: ex_defs ex_octets_def plain_save_defs IAOption_save_def IAAddressOption_save_def
    append_byte_def pack_string_def packed_def be_bytes_numeral be_bytes_one)

lemma ex_contains:
  "validate_contains core_containment (MessageClass (ClientServer SolicitMessage))
     [OptionClass C_ClientIdOption, OptionClass C_ElapsedTimeOption, OptionClass C_IANAOption,
      OptionClass C_IAPDOption] = Inr ()"
  "validate_contains core_containment (OptionClass C_IANAOption) [OptionClass C_IAAddressOption] = Inr ()"
  "validate_contains core_containment (OptionClass C_IAAddressOption) [] = Inr ()"
  "validate_contains core_containment (OptionClass C_IAPDOption) [] = Inr ()"
  "get_element_class core_containment (MessageClass (ClientServer SolicitMessage))
     (OptionClass C_IANAOption) = Some (OptionClass C_IANAOption)"
  "get_element_class core_containment (MessageClass (ClientServer SolicitMessage))
     (OptionClass C_IAPDOption) = Some (OptionClass C_IAPDOption)"
  unfolding core_by by code_simp+

lemma ex_routable:
  "\<not> is_link_local ex_address" "\<not> is_multicast ex_address" "\<not> is_loopback ex_address"
  by (simp_all add: ex_address_def is_link_local_def is_multicast_def is_loopback_def
    in_network_def broadcast_address_def hostmask_def mask_eq_exp_minus_1)

lemma ex_valid: "message_validate core_containment ex_message = Inr ()"
  by (simp add: ex_defs(1,4-6) ex_contains ex_routable ClientServerMessage_check_def plain_validate_defs
    IAOption_validate_def IAAddressOption_validate_def uint32_def Let_def)

lemma ex_representable: "message_representable core_registry ex_message"
  by (simp add: ex_defs core_registry_def)

lemma ex_parsed: "Message_parse core_registry ex_octets = Inr (length ex_octets, ex_message)"
  by (rule message_roundtrip [OF ex_saved ex_valid ex_representable])

subsection \<open>The packet and the server\<close>

definition ex_packet :: incoming_packet where
  "ex_packet = \<lparr>packet_data = ex_octets, source_address = Some 0xfe800000000000000000000000000001,
     packet_link_address = ex_address, packet_over_multicast = True, packet_over_tcp = False,
     packet_marks = [], packet_relay_options = [Plain (InterfaceIdOption [101, 116, 104, 48])]\<rparr>"

definition ex_registry :: "server_extension list" where
  "ex_registry = [OtherExtension ''listen-unicast'', BulkLeasequeryExtension, OtherExtension ''dns'',
     LeasequeryExtension, PrefixDelegationExtension, RelayEchoRequestExtension]"

definition ex_handler :: message_handler where
  "ex_handler = \<lparr>server_id = ex_server, mh_filters = [], mh_handlers = [],
     mh_allow_rapid_commit = False, mh_rapid_commit_rejections = False,
     extension_setup_handlers = concat (map extension_setup ex_registry),
     extension_cleanup_handlers = concat (map (extension_cleanup core_containment) ex_registry)\<rparr>"

definition ex_relay :: relay where
  "ex_relay = \<lparr>relay_hop_count = 0, relay_link_address = Some ex_address,
     relay_peer_address = Some 0xfe800000000000000000000000000001,
     relay_options = [Plain (InterfaceIdOption [101, 116, 104, 48]), RelayMessageOption (Some ex_message)]\<rparr>"

definition ex_bundle :: transaction_bundle where
  "ex_bundle = \<lparr>incoming_message = relay_message RelayForwardMessage ex_relay,
     received_over_multicast = True, received_over_tcp = False, allow_unicast = False,
     allow_rapid_commit = False, request = Some ex_solicit, incoming_relay_messages = [ex_relay],
     responses = empty_messages, outgoing_relay_messages = None, handled_options = [], marks = {}\<rparr>"

lemma ex_received: "parse_incoming_request core_registry core_containment ex_packet = Inr ex_bundle"
  by (simp add: parse_incoming_request_def ex_packet_def ex_parsed ex_valid)
    (simp add: TransactionBundle_def split_relay_chain_def relayed_message_def ex_bundle_def
      ex_relay_def relay_message_def ex_message_def cs_message_def ex_solicit_def)

lemma ex_bare: "bare_server ex_handler"
  by (auto simp: bare_server_def ex_handler_def installed_registry_def ex_registry_def
    intro!: exI [of _ ex_registry])

lemmas ex_core = bare_core [OF ex_bare]

end
