(* ===== verification/WireProperties.thy ===== *)
theory WireProperties
  imports Scenario
begin

text \<open>
  The properties of the wire format, of validation and of addresses, each with an instance on
  the exchange of theory Scenario.
\<close>

subsection \<open>Parsing and saving\<close>

text \<open>
  C1. A packet that was saved parses to the message it was saved from, whole: for every
  message that validates (under any containment rules) and whose classes are registered, at
  every level of nesting.
\<close>

theorem parse_saved_message:
  assumes "message_save m = Inr bs" and "message_validate T m = Inr ()"
    and "message_representable R m"
  shows "Message_parse R bs = Inr (length bs, m)"
  using assms by (rule message_roundtrip)

theorem parse_saved_message_witness:
  "Message_parse core_registry ex_octets = Inr (length ex_octets, ex_message)"
  by (rule parse_saved_message [OF ex_saved ex_valid ex_representable])

text \<open>
  C5. Parsing a packet terminates: for every registry and every octets, at every offset, the
  fuel given (the octets of the buffer plus one) is never used up, so the result is a message
  (or option) or an exception of the code.
\<close>

theorem parsing_terminates:
  "Message_parse R buf \<noteq> Inl OutOfFuel \<and> Option_parse R buf off \<noteq> Inl OutOfFuel"
  by (simp add: Message_parse_total Option_parse_total)

text \<open>
  An option that parses takes at least the four octets of its header and lies inside the
  buffer, whatever lengths the octets claim.
\<close>

lemma parsed_option_in_buffer:
  assumes "Option_parse R buf off = Inr (n, o')"
  shows "4 \<le> n \<and> off + n \<le> length buf"
  using option_parse_progress option_parse_bound assms [unfolded Option_parse_def] by metis

lemma parsed_option_in_buffer_witness:
  "(4 :: nat) \<le> 6 \<and> 2 + 6 \<le> length [9, 9, 0, 8, 0, 2, 0, 7 :: byte]"
proof (rule parsed_option_in_buffer)
  have "Option_parse core_registry ([9, 9] @ [0, 8, 0, 2, 0, 7] @ []) (length [9, 9 :: byte])
      = Inr (length [0, 8, 0, 2, 0, 7 :: byte], Plain (ElapsedTimeOption 7))"
    by (rule dhcp_options.dec_enc [where T = core_containment])
      (simp_all add: plain_validate_defs plain_save_defs be_bytes_numeral be_bytes_one core_registry_def)
  then show "Option_parse core_registry [9, 9, 0, 8, 0, 2, 0, 7] 2 = Inr (6, Plain (ElapsedTimeOption 7))"
    by (simp add: numeral_eq_Suc)
qed

text \<open>
  A packet that parses to a message that validates was read to its last octet: no
  accepted message leaves octets of the packet unread, or claims more.
\<close>

lemma valid_message_is_whole_packet:
  assumes "Message_parse R buf = Inr (n, m)" and "message_validate T m = Inr ()"
  shows "n = length buf"
  using assms by (rule message_parse_whole)

lemma valid_message_is_whole_packet_witness: "84 = length ex_octets"
proof (rule valid_message_is_whole_packet [OF _ ex_valid])
  show "Message_parse core_registry ex_octets = Inr (84, ex_message)"
    unfolding ex_parsed by (simp add: ex_octets_def)
qed

text \<open>
  An option that was saved parses back at whatever place of a buffer it stands, with
  any octets before and behind it, and uses exactly its own octets.
\<close>

lemma option_roundtrip_anywhere:
  assumes "option_save o' = Inr bs" and "option_validate T o' = Inr ()"
    and "option_representable R o'"
  shows "Option_parse R (pre @ bs @ post) (length pre) = Inr (length bs, o')"
  using assms by (intro dhcp_options.dec_enc [where T = T]) auto

lemma option_roundtrip_anywhere_witness:
  "Option_parse core_registry ([7] @ [0, 13, 0, 4, 0, 2, 110, 111] @ [1, 2]) (length [7 :: byte])
     = Inr (length [0, 13, 0, 4, 0, 2, 110, 111 :: byte], Plain (StatusCodeOption 2 (lit ''no'')))"
  by (rule option_roundtrip_anywhere [where T = core_containment])
    (simp_all add: plain_validate_defs plain_save_defs be_bytes_numeral be_bytes_one core_registry_def
      lit_def utf8_encode_def)

text \<open>
  The loop that messages and options run over the options they contain reads back a
  list of saved options, in order and up to the end offset, from any buffer that holds them.
\<close>

lemma option_list_roundtrip:
  assumes "concat_res option_save os = Inr bs"
    and "\<forall>o' \<in> set os. option_validate T o' = Inr () \<and> option_representable R o'"
    and "offset + my_offset = length pre" and "length bs < fuel"
  shows "items_loop fuel (Option_parse R (pre @ bs @ post)) offset my_offset (my_offset + length bs)
         = Inr (my_offset + length bs, os)"
  using assms by (intro dhcp_options.items_roundtrip_octets [where T = T]) auto

lemma option_list_roundtrip_witness:
  "items_loop 20 (Option_parse core_registry ([9, 9, 9] @ [0, 8, 0, 2, 0, 7, 0, 14, 0, 0] @ [1])) 1 2
     (2 + length [0, 8, 0, 2, 0, 7, 0, 14, 0, 0 :: byte])
   = Inr (2 + length [0, 8, 0, 2, 0, 7, 0, 14, 0, 0 :: byte],
          [Plain (ElapsedTimeOption 7), Plain RapidCommitOption])"
  by (rule option_list_roundtrip [where T = core_containment])
    (simp_all add: plain_validate_defs plain_save_defs be_bytes_numeral be_bytes_one core_registry_def)

subsection \<open>DUIDs\<close>

text \<open>
  A saved DUID parses back from its octets wherever they stand, given its length: the
  type of an unknown DUID must not be one of the registered ones.
\<close>

lemma duid_roundtrip:
  assumes "DUID_save d = Inr bs" and "duid_representable d"
  shows "DUID_parse (pre @ bs @ post) (length pre) (Some (length bs)) = Inr (length bs, d)"
  using assms by (rule DUID_parse_save)

lemma duid_roundtrip_witness:
  "DUID_parse ([5] @ [0, 3, 0, 1, 2, 0, 0, 0, 0, 1] @ [6]) (length [5 :: byte])
     (Some (length [0, 3, 0, 1, 2, 0, 0, 0, 0, 1 :: byte]))
   = Inr (length [0, 3, 0, 1, 2, 0, 0, 0, 0, 1 :: byte], ex_client)"
  by (rule duid_roundtrip) (simp_all add: ex_client_def be_bytes_numeral be_bytes_one)

text \<open>
  A DUID of eight octets or more is read from its own octets alone: what stands before
  and behind it in the packet does not matter.
\<close>

lemma duid_read_from_own_octets:
  assumes "off + n \<le> length buf" and "8 \<le> n"
  shows "DUID_parse buf off (Some n) = DUID_parse (slice buf off n) 0 (Some n)"
  using assms by (rule DUID_parse_slice [symmetric])

lemma duid_read_from_own_octets_witness:
  "DUID_parse [9, 0, 2, 0, 0, 0, 1, 7, 8, 9] 1 (Some 8)
     = DUID_parse (slice [9, 0, 2, 0, 0, 0, 1, 7, 8, 9] 1 8) 0 (Some 8)"
  by (rule duid_read_from_own_octets) simp_all

text \<open>
  C26. A shorter DUID is not: a client id option of length two that holds the type of a
  link-layer-plus-time DUID loads, and takes the six octets behind the option for the
  hardware type and the time of the DUID.
\<close>

theorem short_duid_reads_behind_option:
  "ClientIdOption_load_from (pre @ [0, 1, 0, 2, 0, 1] @ [a, b, c, d, e, f] @ post) (length pre) None
     = Inr (6, ClientIdOption (Some
         (LinkLayerTimeDUID (int (be_nat [a, b])) (int (be_nat [c, d, e, f])) [])))"
proof -
  define buf where "buf = pre @ [0, 1, 0, 2, 0, 1] @ [a, b, c, d, e, f] @ post"
  have len: "length buf = length pre + 12 + length post" by (simp add: buf_def)
  have reads: "unpack1 2 buf (length pre + 4) = Inr 1"
    "unpack2 2 2 buf (length pre) = Inr (1, 2)"
    "unpack2 2 4 buf (length pre + 6) = Inr (int (be_nat [a, b]), int (be_nat [c, d, e, f]))"
    unfolding buf_def by (simp_all add: unpack1_skip unpack2_skip unpack1_def unpack2_def slice_def)
  have "parse_option_header 1 2 max_option_length buf (length pre) None = Inr (4, 2)"
    by (simp add: parse_option_header_def reads(2) max_option_length_def length_or_def len)
  moreover have "DUID_parse buf (length pre + 4) (Some 2)
      = Inr (2, LinkLayerTimeDUID (int (be_nat [a, b])) (int (be_nat [c, d, e, f])) [])"
    using reads(1,3)
    by (simp add: add.commute [of _ 6] add.commute [of _ 4] DUID_parse_def DUID_determine_class_def duid_registry_def
      LinkLayerTimeDUID_load_from_def parse_duid_header_def Let_def slice_rest_def slice_none del: be_nat.simps)
  ultimately show ?thesis
    unfolding buf_def [symmetric] by (simp add: ClientIdOption_load_from_def)
qed

subsection \<open>Containment\<close>

text \<open>
  C24. A list of elements passes \<open>validate_contains\<close> exactly if every element may stand in
  the class and, for every rule of the class or a superclass, the number of elements it
  classifies is within its limits.
\<close>

theorem validate_contains_counts:
  "validate_contains T c es = Inr () \<longleftrightarrow>
     (\<forall>e \<in> set es. may_contain T c e)
     \<and> (\<forall>k mn mx. may_contain_limits T c k = Some (mn, mx) \<longrightarrow>
           mn \<le> int (count_list (map (get_element_class T c) es) (Some k))
           \<and> int (count_list (map (get_element_class T c) es) (Some k)) \<le> mx)"
  by (rule validate_contains_iff)

theorem validate_contains_counts_witness:
  "validate_contains core_containment (OptionClass C_IAPDOption)
     [OptionClass C_StatusCodeOption, OptionClass C_StatusCodeOption] \<noteq> Inr ()"
proof -
  have "may_contain_limits core_containment (OptionClass C_IAPDOption) (OptionClass C_StatusCodeOption) = Some (0, 1)"
    "count_list (map (get_element_class core_containment (OptionClass C_IAPDOption))
       [OptionClass C_StatusCodeOption, OptionClass C_StatusCodeOption]) (Some (OptionClass C_StatusCodeOption)) = 2"
    unfolding core_by by code_simp+
  then show ?thesis
    unfolding validate_contains_counts by fastforce
qed

text \<open>
  An element is classified as the nearest of its superclasses (itself first) that the
  rules of the container list, whatever the order of the rules; and as nothing if none is
  listed, or the one that is listed may not occur.
\<close>

lemma element_class_is_nearest:
  "get_element_class T c e =
     (case find (\<lambda>k. may_contain_limits T c k \<noteq> None) (mro e) of
        None \<Rightarrow> None
      | Some k \<Rightarrow> if snd (the (may_contain_limits T c k)) < 1 then None else Some k)"
  by (rule get_element_class_nearest)

lemma request_rules:
  "list_all (\<lambda>(c, r). map_of r (OptionClass C_ClientIdOption) = Some (1, 1)
      \<and> map_of r (OptionClass C_ElapsedTimeOption) = Some (1, 1)
      \<and> map_of r (OptionClass C_ServerIdOption) =
         (if c \<in> {SolicitMessage, ConfirmMessage, RebindMessage} then None else Some (1, 1))
      \<and> (c = SolicitMessage \<or> map_of r (OptionClass C_RapidCommitOption) = None))
    (map (\<lambda>c. (c, rules_of (MessageClass (ClientServer c))))
      [SolicitMessage, RequestMessage, ConfirmMessage, RenewMessage, RebindMessage,
       ReleaseMessage, DeclineMessage])"
  by code_simp

text \<open>
  C25. What validation guarantees of a request, by the rules of the program: a transaction id
  of three octets; exactly one client id and one elapsed time; exactly one server id in the
  messages to a chosen server and none in those to any; and a rapid commit option only in a
  solicit.
\<close>

theorem valid_request_options:
  assumes "message_validate core_containment (ClientServerMessage c tid os) = Inr ()"
    and "c \<in> {SolicitMessage, RequestMessage, ConfirmMessage, RenewMessage, RebindMessage,
              ReleaseMessage, DeclineMessage}"
  shows "length tid = 3
    \<and> count_list (map option_class_of os) C_ClientIdOption = 1
    \<and> count_list (map option_class_of os) C_ElapsedTimeOption = 1
    \<and> count_list (map option_class_of os) C_ServerIdOption
      = (if c \<in> {SolicitMessage, ConfirmMessage, RebindMessage} then 0 else 1)
    \<and> (C_RapidCommitOption \<in> option_class_of ` set os \<longrightarrow> c = SolicitMessage)"
proof -
  let ?limits = "\<lambda>c oc. may_contain_limits core_containment (MessageClass (ClientServer c)) (OptionClass oc)"
  let ?all = "{SolicitMessage, RequestMessage, ConfirmMessage, RenewMessage, RebindMessage,
              ReleaseMessage, DeclineMessage}"
  let ?any = "{SolicitMessage, ConfirmMessage, RebindMessage}"
  from assms(1) have tid: "length tid = 3"
    and v: "validate_contains core_containment (MessageClass (ClientServer c))
      (map OptionClass (map option_class_of os)) = Inr ()"
    by (auto simp: ClientServerMessage_check_def guard_eq_Inr comp_def elim!: rbind_InrE)
  have c: "MessageClass (ClientServer c) \<noteq> OptionClass C_ClientDataOption" by simp
  note counts = core_validate_contains(2) [OF v c]
  have absent: "oc \<notin> set (map option_class_of os)"
    if "?limits c oc = None" and base: "option_base oc = Option_class" for oc
    using that core_validate_contains(1) [OF v c base]
    by (auto simp: core_may_contain_option [OF base c])
  have all: "?limits c C_ClientIdOption = Some (1, 1) \<and> ?limits c C_ElapsedTimeOption = Some (1, 1)
      \<and> ?limits c C_ServerIdOption = (if c \<in> ?any then None else Some (1, 1))
      \<and> (c = SolicitMessage \<or> ?limits c C_RapidCommitOption = None)"
    using request_rules assms(2) unfolding limits_rules list_all_iff by fastforce
  have client: "?limits c C_ClientIdOption = Some (1, 1)" "?limits c C_ElapsedTimeOption = Some (1, 1)"
    and server: "?limits c C_ServerIdOption = (if c \<in> ?any then None else Some (1, 1))"
    and rapid: "c = SolicitMessage \<or> ?limits c C_RapidCommitOption = None"
    using all by - (elim conjE, assumption)+
  have "count_list (map option_class_of os) C_ServerIdOption = (if c \<in> ?any then 0 else 1)"
    using server counts [of C_ServerIdOption 1 1] absent [of C_ServerIdOption]
    by (cases "c \<in> ?any") (simp_all only: if_True if_False count_list_0_iff option_base_simps, auto)
  moreover have "C_RapidCommitOption \<in> option_class_of ` set os \<longrightarrow> c = SolicitMessage"
    using rapid absent [of C_RapidCommitOption] by auto
  ultimately show ?thesis
    using counts [OF _ client(1)] counts [OF _ client(2)] tid by simp
qed

theorem valid_request_options_witness:
  "count_list (map option_class_of (cs_options ex_solicit)) C_ClientIdOption = 1
    \<and> count_list (map option_class_of (cs_options ex_solicit)) C_ServerIdOption = 0"
proof -
  have "message_validate core_containment
      (ClientServerMessage SolicitMessage [1, 2, 3] (cs_options ex_solicit)) = Inr ()"
    using ex_valid by (simp add: ex_message_def cs_message_def ex_solicit_def)
  from valid_request_options [OF this] show ?thesis by simp
qed

text \<open>
  In a message that validates, no two identity associations of one class have the same
  IAID, whatever the containment rules are.
\<close>

lemma valid_message_unique_iaids:
  assumes "message_validate T (ClientServerMessage c tid os) = Inr ()"
    and "i < j" and "j < length os"
    and "option_class_of (os ! i) = option_class_of (os ! j)"
    and "option_class_of (os ! i) \<in> {C_IANAOption, C_IATAOption, C_IAPDOption}"
  shows "option_iaid (os ! i) \<noteq> option_iaid (os ! j)"
proof -
  let ?ec = "\<lambda>x. get_element_class T (MessageClass (ClientServer c)) (option_klass x)"
  have ia: "has_iaid (os ! k)" if "k \<in> {i, j}" for k
  proof -
    have "option_validate T (os ! k) = Inr ()"
      using assms(1-3) that by (auto simp: for_all_eq_Inr elim!: rbind_InrE)
    then show ?thesis
      using assms(4,5) that
      by (cases "os ! k") (auto simp: plain_class_ia has_iaid_def IAOption_validate_def guard_eq_Inr
        elim!: rbind_InrE split: if_splits)
  qed
  from assms(1) have "distinct (map (\<lambda>x. (?ec x, option_iaid x)) (filter has_iaid os))"
    by (auto simp: check_iaids_iff elim!: rbind_InrE)
  moreover have "filter has_iaid os
      = filter has_iaid (take j os) @ os ! j # filter has_iaid (drop (Suc j) os)"
    using ia [of j] arg_cong [OF id_take_nth_drop [OF assms(3)], of "filter has_iaid"] by simp
  ultimately have "(?ec (os ! j), option_iaid (os ! j)) \<notin>
      (\<lambda>x. (?ec x, option_iaid x)) ` set (filter has_iaid (take j os))"
    by (simp add: image_iff)
  moreover have "os ! i \<in> set (filter has_iaid (take j os))"
    using ia [of i] assms(2,3) by (auto simp: in_set_conv_nth intro: exI [of _ i])
  ultimately have "(?ec (os ! j), option_iaid (os ! j)) \<noteq> (?ec (os ! i), option_iaid (os ! i))"
    by (metis (no_types, lifting) imageI)
  then show ?thesis using assms(4) by simp
qed

lemma valid_message_unique_iaids_witness:
  "option_iaid ([IANAOption [0, 0, 0, 1] 0 0 [], IANAOption [0, 0, 0, 2] 0 0 []] ! 0)
     \<noteq> option_iaid ([IANAOption [0, 0, 0, 1] 0 0 [], IANAOption [0, 0, 0, 2] 0 0 []] ! 1)"
proof (rule valid_message_unique_iaids)
  have "get_element_class [(Option_class, []), (ClientServerMessage_class,
      [(OptionClass C_IANAOption, 0, 2)])] (MessageClass (ClientServer ReplyMessage)) (OptionClass C_IANAOption)
      = Some (OptionClass C_IANAOption)"
    "validate_contains [(Option_class, []), (ClientServerMessage_class,
      [(OptionClass C_IANAOption, 0, 2)])] (MessageClass (ClientServer ReplyMessage))
      [OptionClass C_IANAOption, OptionClass C_IANAOption] = Inr ()"
    "validate_contains [(Option_class, []), (ClientServerMessage_class,
      [(OptionClass C_IANAOption, 0, 2)])] (OptionClass C_IANAOption) [] = Inr ()"
    by code_simp+
  then show "message_validate [(Option_class, []), (ClientServerMessage_class,
      [(OptionClass C_IANAOption, 0, 2)])] (ClientServerMessage ReplyMessage [1, 2, 3]
        [IANAOption [0, 0, 0, 1] 0 0 [], IANAOption [0, 0, 0, 2] 0 0 []]) = Inr ()"
    by (simp add: ClientServerMessage_check_def IAOption_validate_def uint32_def)
qed simp_all

subsection \<open>Addresses and prefixes\<close>

text \<open>
  \<open>address_in_prefixes\<close> holds exactly of the addresses whose leading bits are those of
  one of the prefixes, as many bits as the prefix is long.
\<close>

lemma address_in_prefixes_leading_bits:
  assumes "\<forall>n \<in> set prefixes. network_ok n"
  shows "address_in_prefixes a prefixes \<longleftrightarrow>
    (\<exists>n \<in> set prefixes. leading (prefixlen n) a = leading (prefixlen n) (network_address n))"
  using assms by (auto simp: address_in_prefixes_def list_ex_iff in_network_leading)

lemma address_in_prefixes_leading_bits_witness:
  "address_in_prefixes ex_address [IPv6Network 0x20010db8000000000000000000000000 32]"
  by (subst address_in_prefixes_leading_bits)
    (simp_all add: network_ok_def hostmask_def mask_eq_exp_minus_1 leading_def ex_address_def)

text \<open>
  \<open>prefix_overlaps_prefixes\<close> holds exactly if the leading bits of the prefix and of one of
  the others agree, as far as the shorter of the two is long.
\<close>

lemma prefix_overlaps_leading_bits:
  assumes "network_ok p" and "\<forall>n \<in> set prefixes. network_ok n"
  shows "prefix_overlaps_prefixes p prefixes \<longleftrightarrow>
    (\<exists>n \<in> set prefixes. leading (min (prefixlen p) (prefixlen n)) (network_address p)
       = leading (min (prefixlen p) (prefixlen n)) (network_address n))"
proof -
  have "overlaps p n \<longleftrightarrow> leading (min (prefixlen p) (prefixlen n)) (network_address p)
       = leading (min (prefixlen p) (prefixlen n)) (network_address n)" if "network_ok n" for n
  proof (cases "prefixlen p \<le> prefixlen n")
    case True
    then show ?thesis using overlaps_leading_le [OF assms(1) that] by (simp add: min_def)
  next
    case False
    then show ?thesis
      using overlaps_leading_le [OF that assms(1)] overlaps_sym [of p n] by (auto simp: min_def)
  qed
  then show ?thesis
    using assms(2) by (auto simp: prefix_overlaps_prefixes_def list_ex_iff)
qed

lemma prefix_overlaps_leading_bits_witness:
  "prefix_overlaps_prefixes (IPv6Network 0x20010db8000000000000000000000000 32)
     [IPv6Network 0x20010db8000100000000000000000000 48]"
  by (subst prefix_overlaps_leading_bits)
    (simp_all add: network_ok_def hostmask_def mask_eq_exp_minus_1 leading_def)

end
