(* ===== verification/ServerProperties.thy ===== *)
theory ServerProperties
  imports Scenario
begin

text \<open>
  The properties of the relay chain, the handlers and the dispatcher, each with an instance.
\<close>

subsection \<open>The relay chain\<close>

text \<open>
  \<open>split_relay_chain\<close> takes a message apart without losing anything: the message is the
  outermost relay of the chain (or the request itself), every relay carries the one before
  it and the first carries the request, which is a message a client sends.
\<close>

lemma relay_chain_split:
  assumes "split_relay_chain m = (Some req, chain)"
  shows "m = outermost RelayForwardMessage (cs_message req) chain
    \<and> linked RelayForwardMessage (cs_message req) chain \<and> from_client_to_server (cs_class req)"
  using split_relay_chain_spec [OF assms] by blast

lemma relay_chain_split_witness:
  "relay_message RelayForwardMessage ex_relay
      = outermost RelayForwardMessage (cs_message ex_solicit) [ex_relay]
    \<and> linked RelayForwardMessage (cs_message ex_solicit) [ex_relay]
    \<and> from_client_to_server (cs_class ex_solicit)"
  by (rule relay_chain_split)
    (simp add: split_relay_chain_def relayed_message_def ex_relay_def relay_message_def
      ex_message_def cs_message_def ex_solicit_def)

text \<open>
  The chain of relay replies that \<open>create_outgoing_relay_messages\<close> builds around the
  response has the hop counts, link addresses and peer addresses of the relay forwards, in
  the same order.
\<close>

lemma outgoing_chain_mirrors_incoming:
  assumes "linked RelayForwardMessage (cs_message req) (incoming_relay_messages b)"
  shows "map addressing (outgoing_chain (create_outgoing_relay_messages b))
         = map addressing (incoming_relay_messages b)"
  using assms by (rule create_outgoing_addressing)

lemma ex_linked: "linked RelayForwardMessage (cs_message ex_solicit) (incoming_relay_messages ex_bundle)"
  by (simp add: ex_bundle_def ex_relay_def relayed_message_def ex_message_def)

lemma outgoing_chain_mirrors_incoming_witness:
  "map addressing (outgoing_chain (create_outgoing_relay_messages ex_bundle))
     = map addressing (incoming_relay_messages ex_bundle)"
  by (rule outgoing_chain_mirrors_incoming [OF ex_linked])

text \<open>
  Over UDP \<open>link_address\<close> is the first link address of the chain, from the client's
  side, that is neither unspecified nor loopback nor link-local, and the unspecified address
  if there is none.
\<close>

definition useful :: "ipv6 \<Rightarrow> bool" where
  "useful a \<longleftrightarrow> \<not> is_unspecified a \<and> \<not> is_loopback a \<and> \<not> is_link_local a"

lemma link_address_is_first_useful:
  assumes "\<not> received_over_tcp b"
    and "map relay_link_address (incoming_relay_messages b) = map Some links"
  shows "link_address b = Inr (Some (case find useful links of Some a \<Rightarrow> a | None \<Rightarrow> 0))"
proof -
  have "useful_link_address rs = Inr (case find useful links of Some a \<Rightarrow> a | None \<Rightarrow> 0)"
    if "map relay_link_address rs = map Some links" for rs
    using that
  proof (induction rs arbitrary: links)
    case (Cons r rs)
    then obtain a as where "links = a # as" "relay_link_address r = Some a"
      "map relay_link_address rs = map Some as"
      by (cases links) auto
    with Cons.IH show ?case by (simp add: useful_def)
  qed simp
  from this [OF assms(2)] assms(1) show ?thesis by (simp add: link_address_def)
qed

lemma link_address_is_first_useful_witness:
  "link_address ex_bundle = Inr (Some (case find useful [ex_address] of Some a \<Rightarrow> a | None \<Rightarrow> 0))"
  by (rule link_address_is_first_useful) (simp_all add: ex_bundle_def ex_relay_def)

subsection \<open>The dispatcher\<close>

text \<open>
  C7. Whatever handlers of the program are configured, every message that handling a request leaves has its
  transaction id.  The first is of the class for the request or (for errors, and rapid commit) a reply.  There are
  more only for a leasequery that came over TCP: the data that follow, and the end of the answer.
\<close>

theorem response_answers_request:
  assumes "message_handler_handle T mh refs b st = (Inr b', st')"
    and "request b = Some req" and "responses b = empty_messages"
    and "\<forall>h \<in> configured_handlers mh. core_handler T h"
  shows "(case messages_iter (responses b') of
         [] \<Rightarrow> response b' = None
       | m # ms \<Rightarrow> response b' = Some m \<and> reply_class (cs_class req) (cs_class m)
           \<and> (ms = [] \<or> cs_class req = LeasequeryMessage \<and> received_over_tcp b)
           \<and> (\<forall>x \<in> set ms. cs_class x \<in> {LeasequeryDataMessage, LeasequeryDoneMessage})
           \<and> (\<forall>x \<in> set (m # ms). cs_transaction_id x = cs_transaction_id req))"
proof -
  have "answers (received_over_tcp b) req b'"
    by (rule core_handled(1) [OF assms(1,2,4,3)])
  then show ?thesis
    by (cases "subsequent_messages (responses b') = []")
      (auto simp: answers_def messages_iter_def response_def bulk_class_def split: option.split)
qed

lemma ex_handled:
  obtains b' st' ia_answers pd_answers where
    "message_handler_handle core_containment ex_handler refs ex_bundle st = (Inr b', st')"
    and "response b' = Some \<lparr>cs_class = AdvertiseMessage, cs_transaction_id = [1, 2, 3],
      cs_options = ids ex_handler ex_solicit @ ia_answers @ pd_answers\<rparr>"
proof (rule bare_server_answer [OF ex_bare, of ex_bundle ex_solicit AdvertiseMessage refs st])
  show "get_option_of_type [C_ServerIdOption] (cs_options ex_solicit) \<in>
      {None, Some (Plain (ServerIdOption (Some (server_id ex_handler))))}"
    by (simp add: ex_solicit_def get_option_of_type_def)
qed (use that in \<open>auto simp: ex_bundle_def ex_solicit_def ex_handler_def answered_classes_def\<close>)

theorem response_answers_request_witness:
  "\<exists>b' m. response b' = Some m \<and> messages_iter (responses b') = [m]
    \<and> cs_transaction_id m = [1, 2, 3] \<and> reply_class SolicitMessage (cs_class m)"
proof -
  obtain b' st' ia_answers pd_answers where
    h: "message_handler_handle core_containment ex_handler [] ex_bundle new_server_statistics = (Inr b', st')"
    and r: "response b' = Some \<lparr>cs_class = AdvertiseMessage, cs_transaction_id = [1, 2, 3],
      cs_options = ids ex_handler ex_solicit @ ia_answers @ pd_answers\<rparr>"
    by (rule ex_handled)
  have "request ex_bundle = Some ex_solicit" "responses ex_bundle = empty_messages"
    by (simp_all add: ex_bundle_def)
  from response_answers_request [OF h this] ex_core r
  have "response b' = Some (the (response b')) \<and> messages_iter (responses b') = [the (response b')]
      \<and> cs_transaction_id (the (response b')) = [1, 2, 3]
      \<and> reply_class SolicitMessage (cs_class (the (response b')))"
    by (auto simp: ex_solicit_def split: list.splits)
  then show ?thesis by blast
qed

text \<open>
  C3. What a server without configured handlers (no address or prefix to give away), but with those that the
  extensions of the program always add, makes of a solicit, request, renew or rebind that is its own and came by
  multicast or through a relay agent.  Over TCP it does not respond at all.  Otherwise it responds with an
  advertise or reply with the client's ids, the server's id, and for every
  identity association of the request one with its class and IAID that gives nothing: an
  error status, or the client's addresses or prefixes with no lifetime left.
\<close>

theorem bare_server_declines:
  assumes "bare_server mh" and "request b = Some req" and "handled_options b = []"
    and "responses b = empty_messages"
    and "cs_class req \<in> {SolicitMessage, RequestMessage, RenewMessage, RebindMessage}"
    and "get_option_of_type [C_ServerIdOption] (cs_options req) \<in>
      {None, Some (Plain (ServerIdOption (Some (server_id mh))))}"
    and "received_over_multicast b \<or> 2 \<le> length (incoming_relay_messages b)"
    and "\<not> allow_rapid_commit b"
  shows "\<exists>b' st'. message_handler_handle core_containment mh refs b st = (Inr b', st')
    \<and> (if received_over_tcp b then messages_iter (responses b') = []
       else \<exists>ia_answers pd_answers. response b' = Some \<lparr>
          cs_class = (if cs_class req = SolicitMessage then AdvertiseMessage else ReplyMessage),
          cs_transaction_id = cs_transaction_id req,
          cs_options = get_options_of_type [C_ClientIdOption] (cs_options req)
            @ [Plain (ServerIdOption (Some (server_id mh)))] @ ia_answers @ pd_answers\<rparr>
        \<and> map ia_key ia_answers
          = map ia_key (get_options_of_type [C_IANAOption, C_IATAOption] (cs_options req))
        \<and> map ia_key pd_answers = map ia_key (get_options_of_type [C_IAPDOption] (cs_options req))
        \<and> list_all (\<lambda>answer. list_all no_lease (suboptions answer)) (ia_answers @ pd_answers))"
proof (cases "received_over_tcp b")
  case True
  have "cs_class req \<noteq> LeasequeryMessage" using assms(5) by auto
  with bare_server_over_tcp [OF assms(1,2) _ assms(6) True assms(4)] True show ?thesis by simp
next
  case False
  have c: "cs_class req \<in> answered_classes - {DeclineMessage, ReleaseMessage}"
    "initial_reply (cs_class req)
      = Some (if cs_class req = SolicitMessage then AdvertiseMessage else ReplyMessage)"
    "allow_rapid_commit b = mh_allow_rapid_commit mh"
    using assms(1,5,8) by (auto simp: answered_classes_def bare_server_def)
  obtain b' st' ia_answers pd_answers where
    h: "message_handler_handle core_containment mh refs b st = (Inr b', st')"
    and r: "response b' = Some \<lparr>
      cs_class = (if cs_class req = SolicitMessage then AdvertiseMessage else ReplyMessage),
      cs_transaction_id = cs_transaction_id req, cs_options = ids mh req @ ia_answers @ pd_answers\<rparr>"
    and ia: "list_all2 declines (get_options_of_type [C_IANAOption, C_IATAOption] (cs_options req)) ia_answers"
    and pd: "list_all2 declines (get_options_of_type [C_IAPDOption] (cs_options req)) pd_answers"
    by (rule bare_server_answer [OF assms(1-3) c(1,2) assms(6) False assms(7) c(3)])
  have cl: "\<forall>x \<in> set (get_options_of_type [C_IANAOption, C_IATAOption] (cs_options req)).
      option_class_of x \<in> {C_IANAOption, C_IATAOption, C_IAPDOption}"
    "\<forall>x \<in> set (get_options_of_type [C_IAPDOption] (cs_options req)).
      option_class_of x \<in> {C_IANAOption, C_IATAOption, C_IAPDOption}"
    by (auto simp: get_options_of_type_def)
  have answer: "response b' = Some \<lparr>
          cs_class = (if cs_class req = SolicitMessage then AdvertiseMessage else ReplyMessage),
          cs_transaction_id = cs_transaction_id req,
          cs_options = get_options_of_type [C_ClientIdOption] (cs_options req)
            @ [Plain (ServerIdOption (Some (server_id mh)))] @ ia_answers @ pd_answers\<rparr>"
    using r by (simp add: ids_def)
  have "list_all (\<lambda>answer. list_all no_lease (suboptions answer)) (ia_answers @ pd_answers)"
    using declines_no_lease [OF ia cl(1)] declines_no_lease [OF pd cl(2)] by (auto simp: list_all_iff)
  with answer declines_key [OF ia cl(1)] declines_key [OF pd cl(2)] h
  show ?thesis unfolding if_not_P [OF False] by blast
qed

text \<open>
  C4. The answer (to a message that did not come over TCP) is itself valid by the rules of the program: the options it may hold, as
  often as it must, valid each, with distinct IAIDs.
\<close>

theorem bare_server_answer_valid:
  assumes "bare_server mh" and "request b = Some req" and "handled_options b = []"
    and "cs_class req \<in> {SolicitMessage, RequestMessage, RenewMessage, RebindMessage}"
    and "get_option_of_type [C_ServerIdOption] (cs_options req) \<in>
      {None, Some (Plain (ServerIdOption (Some (server_id mh))))}"
    and udp: "\<not> received_over_tcp b" and "received_over_multicast b \<or> 2 \<le> length (incoming_relay_messages b)"
    and "\<not> allow_rapid_commit b"
    and "message_validate core_containment (cs_message req) = Inr ()"
    and "DUID_validate (server_id mh) = Inr ()"
  shows "\<exists>b' st' m. message_handler_handle core_containment mh refs b st = (Inr b', st')
    \<and> response b' = Some m \<and> message_validate core_containment (cs_message m) = Inr ()"
proof -
  let ?rc = "if cs_class req = SolicitMessage then AdvertiseMessage else ReplyMessage"
  have c: "cs_class req \<in> answered_classes - {DeclineMessage, ReleaseMessage}"
    "initial_reply (cs_class req) = Some ?rc" "?rc \<in> {AdvertiseMessage, ReplyMessage}"
    "allow_rapid_commit b = mh_allow_rapid_commit mh"
    using assms(1,4,8) by (auto simp: answered_classes_def bare_server_def)
  obtain b' st' ia_answers pd_answers where
    h: "message_handler_handle core_containment mh refs b st = (Inr b', st')"
    and r: "response b' = Some \<lparr>cs_class = ?rc,
      cs_transaction_id = cs_transaction_id req, cs_options = ids mh req @ ia_answers @ pd_answers\<rparr>"
    and ia: "list_all2 declines (get_options_of_type [C_IANAOption, C_IATAOption] (cs_options req)) ia_answers"
    and pd: "list_all2 declines (get_options_of_type [C_IAPDOption] (cs_options req)) pd_answers"
    by (rule bare_server_answer [OF assms(1-3) c(1,2) assms(5) udp assms(7) c(4)])
  from answer_message_valid [OF assms(9,4) c(3) assms(10) ia pd] h r show ?thesis by blast
qed

theorem bare_server_declines_witness:
  "(\<exists>b' st' ia_answers pd_answers.
    message_handler_handle core_containment ex_handler [Global] ex_bundle new_server_statistics
      = (Inr b', st')
    \<and> response b' = Some \<lparr>
        cs_class = AdvertiseMessage,
        cs_transaction_id = cs_transaction_id ex_solicit,
        cs_options = get_options_of_type [C_ClientIdOption] (cs_options ex_solicit)
          @ [Plain (ServerIdOption (Some (server_id ex_handler)))] @ ia_answers @ pd_answers\<rparr>
    \<and> map ia_key ia_answers
      = map ia_key (get_options_of_type [C_IANAOption, C_IATAOption] (cs_options ex_solicit))
    \<and> map ia_key pd_answers = map ia_key (get_options_of_type [C_IAPDOption] (cs_options ex_solicit))
    \<and> list_all (\<lambda>answer. list_all no_lease (suboptions answer)) (ia_answers @ pd_answers))
   \<and> (\<exists>b' st'. message_handler_handle core_containment ex_handler [Global] (ex_bundle\<lparr>received_over_tcp := True\<rparr>)
        new_server_statistics = (Inr b', st') \<and> messages_iter (responses b') = [])"
  using bare_server_declines [OF ex_bare, of ex_bundle ex_solicit "[Global]" new_server_statistics]
    bare_server_declines [OF ex_bare, of "ex_bundle\<lparr>received_over_tcp := True\<rparr>" ex_solicit "[Global]"
      new_server_statistics]
  by (simp add: ex_bundle_def ex_solicit_def get_option_of_type_def)

theorem bare_server_answer_valid_witness:
  "\<exists>b' st' m. message_handler_handle core_containment ex_handler [Global] ex_bundle
      new_server_statistics = (Inr b', st')
    \<and> response b' = Some m \<and> message_validate core_containment (cs_message m) = Inr ()"
proof (rule bare_server_answer_valid [OF ex_bare])
  show "message_validate core_containment (cs_message ex_solicit) = Inr ()"
    using ex_valid by (simp add: ex_message_def)
qed (simp_all add: ex_bundle_def ex_solicit_def get_option_of_type_def ex_handler_def ex_server_def)

lemma ex_useful: "useful_link_address [ex_relay] = Inr ex_address"
  using ex_routable by (simp add: ex_relay_def is_unspecified_def ex_address_def)

lemma ex_update_set:
  "get_update_set (Some name) (Some ex_bundle) new_server_statistics = Inr [Global]"
  by (simp add: get_update_set_def link_address_def relays_def ex_bundle_def ex_relay_def
    is_unspecified_def new_server_statistics_def ex_useful)

lemma ex_sent:
  "\<exists>out st' m. handle_message core_registry core_containment ex_handler (\<lambda>_. Sent) ex_packet
      new_server_statistics = Inr ([out], st')
    \<and> inner_message [RelayMessageOption (Some out)] = Some (cs_message m)
    \<and> cs_transaction_id m = cs_transaction_id ex_solicit
    \<and> cs_class m = (if cs_class ex_solicit = SolicitMessage then AdvertiseMessage else ReplyMessage)
    \<and> map addressing (unwrap_replies [] (Some out)) = map addressing (incoming_relay_messages ex_bundle)"
  by (rule bare_server_sent [OF ex_bare ex_received _ _ _ _ _ ex_update_set])
    (simp_all add: ex_bundle_def ex_solicit_def ex_packet_def get_option_of_type_def)

text \<open>The handlers of the program do not take part in the analysis.\<close>

lemma core_handler_analyse: "core_handler T h \<Longrightarrow> analyse_pre h = Inr \<and> analyse_post h = Inr"
  by (induction rule: core_handler.induct)
    (auto simp: handler_defs option_handler_def elim!: rbind_InrE)

lemma analyse_core:
  assumes "get_handlers T mh b = Inr hs" and "\<forall>h \<in> configured_handlers mh. core_handler T h"
  shows "analyse analyse_pre hs x = x \<and> analyse analyse_post hs x = x"
proof -
  have "\<forall>h \<in> set hs. analyse_pre h = Inr \<and> analyse_post h = Inr"
    using get_handlers_core [OF assms(1)] assms(2) core_handler_analyse by blast
  then show ?thesis
  proof (induction hs arbitrary: x)
    case (Cons h hs)
    then show ?case by (simp add: analyse_def)
  qed (simp add: analyse_def)
qed

text \<open>
  A request that names another server is not answered, whatever handlers of the program
  are configured: there is no response and nothing to send, and exactly the incoming message
  and the request for another server are counted.
\<close>

lemma request_for_other_server_ignored:
  assumes "request b = Some req" and "responses b = empty_messages"
    and "get_option_of_type [C_ServerIdOption] (cs_options req) = Some (Plain (ServerIdOption other))"
    and "other \<noteq> Some (server_id mh)"
    and "get_handlers T mh (b\<lparr>allow_rapid_commit := mh_allow_rapid_commit mh\<rparr>) = Inr hs"
    and "\<forall>h \<in> configured_handlers mh. core_handler T h"
  shows "\<exists>b'. message_handler_handle T mh refs b st
      = (Inr b', count_on For_other_server refs
           (count_on (Message_in (client_server_type (cs_class req))) refs st))
    \<and> response b' = None \<and> outgoing_messages b' = []"
proof -
  let ?b = "b\<lparr>allow_rapid_commit := mh_allow_rapid_commit mh\<rparr>"
  obtain rest where hs: "hs = (if mh_allow_rapid_commit mh
      then [RapidCommitHandler (mh_rapid_commit_rejections mh)] else [])
      @ ServerIdHandler T (server_id mh) # rest"
    using assms(5) by (auto simp: get_handlers_def get_setup_handlers_def elim!: rbind_InrE)
  have "run_steps handler_pre hs ?b = Inl (ForOtherServerError, ?b)"
    unfolding hs using assms(1,3,4)
    by (simp add: handler_defs ServerIdHandler_pre_def request_options_def raise_in_def)
  then have "run_phases mh hs ?b = ([For_other_server], Inr (set_response None ?b))"
    by (simp add: run_phases_def process_def recover_def)
  then have h: "message_handler_handle T mh refs b st
      = (Inr (set_response None ?b), count_on For_other_server refs
           (count_on (Message_in (client_server_type (cs_class req))) refs st))"
    using assms(1,5) analyse_core [OF assms(5,6)]
    by (simp add: message_handler_handle_def Let_def count_events_def)
  moreover have "response (set_response None ?b) = None" by simp
  moreover have "responses (set_response None ?b) = empty_messages" by (simp add: set_response_def)
  then have "outgoing_messages (set_response None ?b) = []"
    by (simp add: outgoing_messages_def Let_def messages_iter_def empty_messages_def)
  ultimately show ?thesis by blast
qed

lemma request_for_other_server_ignored_witness:
  "\<exists>b'. message_handler_handle core_containment ex_handler [Global]
      (ex_bundle\<lparr>request := Some (ex_solicit\<lparr>cs_class := RequestMessage,
         cs_options := Plain (ServerIdOption (Some ex_client)) # cs_options ex_solicit\<rparr>)\<rparr>)
      new_server_statistics
    = (Inr b', count_on For_other_server [Global] (count_on
        (Message_in (client_server_type (cs_class (ex_solicit\<lparr>cs_class := RequestMessage,
           cs_options := Plain (ServerIdOption (Some ex_client)) # cs_options ex_solicit\<rparr>))))
        [Global] new_server_statistics))
    \<and> response b' = None \<and> outgoing_messages b' = []"
  by (rule request_for_other_server_ignored [where other = "Some ex_client"])
    (simp_all add: ex_bundle_def ex_handler_def ex_client_def ex_server_def get_option_of_type_def
      get_handlers_def get_setup_handlers_def get_cleanup_handlers_def ex_core [simplified ex_handler_def])

text \<open>
  A request that was sent by unicast to a server that does not allow it gets a reply
  that says so: the client's id, the server's id and the status \<open>UseMulticast\<close>.
\<close>

lemma unicast_request_rejected:
  assumes "bare_server mh" and "request b = Some req"
    and "cs_class req \<noteq> LeasequeryMessage" and "\<not> received_over_tcp b"
    and "\<not> received_over_multicast b" and "\<not> allow_unicast b"
    and "length (incoming_relay_messages b) < 2"
    and "get_option_of_type [C_ServerIdOption] (cs_options req) \<in>
      {None, Some (Plain (ServerIdOption (Some (server_id mh))))}"
    and "get_option_of_type [C_ClientIdOption] (cs_options req) = Some client"
  shows "\<exists>b' st' text. message_handler_handle core_containment mh refs b st = (Inr b', st')
    \<and> response b' = Some \<lparr>cs_class = ReplyMessage, cs_transaction_id = cs_transaction_id req,
        cs_options = [client, Plain (ServerIdOption (Some (server_id mh))),
                      Plain (StatusCodeOption 5 text)]\<rparr>"
proof -
  let ?b = "b\<lparr>allow_rapid_commit := mh_allow_rapid_commit mh\<rparr>"
  obtain hs1 hs2 where hs: "\<forall>b. get_handlers core_containment mh b = Inr (bare_handlers mh hs1 hs2)"
    and idle: "\<forall>h \<in> set (hs1 @ hs2). relays_only h"
    by (rule bare_server_handlers [OF assms(1)])
  let ?hs = "bare_handlers mh hs1 hs2"
  have "run_steps handler_pre ?hs ?b = Inl (UseMulticastError, ?b)"
    using bare_pre [OF idle _ assms(3,8), of ?b] assms(2,4-7) by (simp add: raise_in_def)
  then have "\<exists>text. run_phases mh ?hs ?b = ([Use_multicast], Inr (set_response
      (Some \<lparr>cs_class = ReplyMessage, cs_transaction_id = cs_transaction_id req,
        cs_options = [client, Plain (ServerIdOption (Some (server_id mh))),
                      Plain (StatusCodeOption 5 text)]\<rparr>) ?b))"
    using assms(2,5,9)
    by (simp add: run_phases_def process_def recover_def construct_use_multicast_reply_def
      construct_plain_status_reply_def construct_status_reply_def) blast
  with assms(2) hs bare_analyse [OF idle] show ?thesis
    by (auto simp: message_handler_handle_def Let_def)
qed

lemma unicast_request_rejected_witness:
  "\<exists>b' st' text. message_handler_handle core_containment ex_handler [Global]
      (ex_bundle\<lparr>received_over_multicast := False\<rparr>) new_server_statistics = (Inr b', st')
    \<and> response b' = Some \<lparr>cs_class = ReplyMessage, cs_transaction_id = cs_transaction_id ex_solicit,
        cs_options = [Plain (ClientIdOption (Some ex_client)),
                      Plain (ServerIdOption (Some (server_id ex_handler))),
                      Plain (StatusCodeOption 5 text)]\<rparr>"
  by (rule unicast_request_rejected [OF ex_bare])
    (simp_all add: ex_bundle_def ex_solicit_def get_option_of_type_def)

end
