(* ===== verification/HandlerProperties.thy ===== *)
theory HandlerProperties
  imports Scenario
begin

text \<open>
  The properties of the single handlers, of the filters, of the statistics and of the packets
  that are not answered, each with an instance.
\<close>

subsection \<open>The handlers\<close>

text \<open>
  After the handlers for the server id and the client id the response has exactly one
  server id, the server's own, and the client ids of the request; its other options are as
  they were.
\<close>

lemma response_identifies_both:
  assumes "response b = Some m"
    and "may_contain T (cs_klass m) (OptionClass C_ServerIdOption)"
    and "may_contain T (cs_klass m) (OptionClass C_ClientIdOption)"
  shows "\<exists>b' m'. run_steps handler_handle [ServerIdHandler T duid, ClientIdHandler T] b = Inr b'
    \<and> response b' = Some m'
    \<and> get_options_of_type [C_ServerIdOption] (cs_options m') = [Plain (ServerIdOption (Some duid))]
    \<and> get_options_of_type [C_ClientIdOption] (cs_options m')
      = get_options_of_type [C_ClientIdOption] (request_options b)
    \<and> filter (\<lambda>x. option_class_of x \<notin> {C_ServerIdOption, C_ClientIdOption}) (cs_options m')
      = filter (\<lambda>x. option_class_of x \<notin> {C_ServerIdOption, C_ClientIdOption}) (cs_options m)"
proof -
  let ?keep = "\<lambda>c. filter (\<lambda>x. option_class_of x \<noteq> c)"
  let ?ids = "get_options_of_type [C_ClientIdOption] (request_options b)"
  let ?os = "?ids @ ?keep C_ClientIdOption
    (Plain (ServerIdOption (Some duid)) # ?keep C_ServerIdOption (cs_options m))"
  have "run_steps handler_handle [ServerIdHandler T duid, ClientIdHandler T] b
      = Inr (set_response (Some (m\<lparr>cs_options := ?os\<rparr>)) b)"
    using assms by (simp add: handler_defs OverwriteOptionHandler_handle_def CopyOptionHandler_handle_def
      with_response_def wanted_def set_response_options_def)
  moreover have "filter (\<lambda>x. option_class_of x = C_ServerIdOption) ?ids = []"
    by (auto simp: get_options_of_type_def filter_empty_conv)
  moreover have "filter (\<lambda>x. option_class_of x \<notin> {C_ServerIdOption, C_ClientIdOption}) ?ids = []"
    by (auto simp: get_options_of_type_def filter_empty_conv)
  ultimately show ?thesis
    by (simp add: get_options_of_type_def filter_empty_conv conj_commute) 
qed

text \<open>The exchange of theory Scenario, with an empty response.\<close>

definition ex_response :: client_server where
  "ex_response = \<lparr>cs_class = AdvertiseMessage, cs_transaction_id = [1, 2, 3], cs_options = []\<rparr>"

definition ex_started :: transaction_bundle where
  "ex_started = set_response (Some ex_response) ex_bundle"

lemma ex_started: "request ex_started = Some ex_solicit" "response ex_started = Some ex_response"
  by (simp_all add: ex_started_def ex_bundle_def)

lemma response_identifies_both_witness:
  "\<exists>b' m'. run_steps handler_handle [ServerIdHandler core_containment ex_server,
      ClientIdHandler core_containment] ex_started = Inr b'
    \<and> response b' = Some m'
    \<and> get_options_of_type [C_ServerIdOption] (cs_options m') = [Plain (ServerIdOption (Some ex_server))]
    \<and> get_options_of_type [C_ClientIdOption] (cs_options m')
      = get_options_of_type [C_ClientIdOption] (request_options ex_started)
    \<and> filter (\<lambda>x. option_class_of x \<notin> {C_ServerIdOption, C_ClientIdOption}) (cs_options m')
      = filter (\<lambda>x. option_class_of x \<notin> {C_ServerIdOption, C_ClientIdOption}) (cs_options ex_response)"
  by (rule response_identifies_both) (simp_all add: ex_started ex_response_def core_replies_contain)

text \<open>
  In an authoritative server every identity association for addresses that no handler
  has handled is answered, in order, by one with its class and IAID that leaves the client
  nothing to use; the options already in the response stay.
\<close>

lemma unhandled_ia_declined:
  assumes "request b = Some req" and "response b = Some m"
    and "cs_class req \<in> {SolicitMessage, RequestMessage, RenewMessage, RebindMessage,
      DeclineMessage, ReleaseMessage}"
  shows "\<exists>b' ia_answers. UnansweredIAOptionHandler_handle True b = Inr b'
    \<and> response b' = Some (m\<lparr>cs_options := cs_options m @ ia_answers\<rparr>)
    \<and> map ia_key ia_answers = map ia_key (get_unhandled_options [C_IANAOption, C_IATAOption] b)
    \<and> list_all (\<lambda>answer. list_all no_lease (suboptions answer)) ia_answers"
proof -
  obtain ia_answers where
    a: "list_all2 declines (get_unhandled_options [C_IANAOption, C_IATAOption] b) ia_answers"
    and h: "UnansweredIAOptionHandler_handle True b =
      Inr (set_response (Some (m\<lparr>cs_options := cs_options m @ ia_answers\<rparr>)) b)"
    by (rule unanswered_ia_declined [OF assms(1) _ assms(2)]) (use assms(3) in \<open>auto simp: answered_classes_def\<close>)
  have "\<forall>x \<in> set (get_unhandled_options [C_IANAOption, C_IATAOption] b).
      option_class_of x \<in> {C_IANAOption, C_IATAOption, C_IAPDOption}"
    by (auto simp: get_unhandled_options_def)
  with declines_key [OF a this] declines_no_lease [OF a this] h show ?thesis by (auto simp: list_all_iff)
qed

lemma unhandled_ia_declined_witness:
  "\<exists>b' ia_answers. UnansweredIAOptionHandler_handle True ex_started = Inr b'
    \<and> response b' = Some (ex_response\<lparr>cs_options := cs_options ex_response @ ia_answers\<rparr>)
    \<and> map ia_key ia_answers = map ia_key (get_unhandled_options [C_IANAOption, C_IATAOption] ex_started)
    \<and> list_all (\<lambda>answer. list_all no_lease (suboptions answer)) ia_answers"
  by (rule unhandled_ia_declined [OF ex_started]) (simp add: ex_solicit_def)

text \<open>
  Likewise for the identity associations for prefixes, when the server is asked for, or
  given back, prefixes.
\<close>

lemma unhandled_iapd_declined:
  assumes "request b = Some req" and "response b = Some m"
    and "cs_class req \<in> {SolicitMessage, RequestMessage, RenewMessage, RebindMessage, ReleaseMessage}"
  shows "\<exists>b' pd_answers. UnansweredIAPDOptionHandler_handle True b = Inr b'
    \<and> response b' = Some (m\<lparr>cs_options := cs_options m @ pd_answers\<rparr>)
    \<and> map ia_key pd_answers = map ia_key (get_unhandled_options [C_IAPDOption] b)
    \<and> list_all (\<lambda>answer. list_all no_lease (suboptions answer)) pd_answers"
proof -
  obtain pd_answers where
    a: "list_all2 declines (get_unhandled_options [C_IAPDOption] b) pd_answers"
    and h: "UnansweredIAPDOptionHandler_handle True b =
      Inr (set_response (Some (m\<lparr>cs_options := cs_options m @ pd_answers\<rparr>)) b)"
    by (rule unanswered_iapd_declined [OF assms(1) _ assms(2)]) (use assms(3) in \<open>auto simp: answered_classes_def\<close>)
  have "\<forall>x \<in> set (get_unhandled_options [C_IAPDOption] b).
      option_class_of x \<in> {C_IANAOption, C_IATAOption, C_IAPDOption}"
    by (auto simp: get_unhandled_options_def)
  with declines_key [OF a this] declines_no_lease [OF a this] h show ?thesis by (auto simp: list_all_iff)
qed

lemma unhandled_iapd_declined_witness:
  "\<exists>b' pd_answers. UnansweredIAPDOptionHandler_handle True ex_started = Inr b'
    \<and> response b' = Some (ex_response\<lparr>cs_options := cs_options ex_response @ pd_answers\<rparr>)
    \<and> map ia_key pd_answers = map ia_key (get_unhandled_options [C_IAPDOption] ex_started)
    \<and> list_all (\<lambda>answer. list_all no_lease (suboptions answer)) pd_answers"
  by (rule unhandled_iapd_declined [OF ex_started]) (simp add: ex_solicit_def)

text \<open>
  C28. The rapid commit handler (rejections not enabled) turns an advertise into a reply
  exactly if rapid commit is allowed, the client solicited with the option, every identity
  association of the request was handled, and no association of the response reports that
  there are no addresses or no prefixes; the reply is the advertise, with the option in front.
\<close>

theorem rapid_commit_exactly_when_served:
  assumes "request b = Some req" and "response b = Some m" and "cs_class m = AdvertiseMessage"
  shows "\<exists>b' m'. RapidCommitHandler_post False b = Inr b' \<and> response b' = Some m'
    \<and> cs_transaction_id m' = cs_transaction_id m
    \<and> (cs_class m' = ReplyMessage \<longleftrightarrow>
        allow_rapid_commit b \<and> cs_class req = SolicitMessage
        \<and> (\<exists>x \<in> set (cs_options req). option_class_of x = C_RapidCommitOption)
        \<and> (\<forall>x \<in> set (cs_options req).
            option_class_of x \<in> {C_IANAOption, C_IATAOption, C_IAPDOption} \<longrightarrow> x \<in> set (handled_options b))
        \<and> (\<forall>x \<in> set (cs_options m).
            (option_class_of x \<in> {C_IANAOption, C_IATAOption} \<longrightarrow> first_status x \<noteq> Some 2)
            \<and> (option_class_of x = C_IAPDOption \<longrightarrow> first_status x \<noteq> Some 6)))
    \<and> cs_options m' = (if cs_class m' = ReplyMessage then [Plain RapidCommitOption] else []) @ cs_options m"
proof -
  have rapid: "get_option_of_type [C_RapidCommitOption] os \<noteq> None \<longleftrightarrow>
      (\<exists>x \<in> set os. option_class_of x = C_RapidCommitOption)" for os
    by (auto simp: get_option_of_type_def find_None_iff)
  have unhandled: "get_unhandled_options [C_IANAOption, C_IATAOption, C_IAPDOption] b = [] \<longleftrightarrow>
      (\<forall>x \<in> set (cs_options req).
        option_class_of x \<in> {C_IANAOption, C_IATAOption, C_IAPDOption} \<longrightarrow> x \<in> set (handled_options b))"
    using assms(1) by (auto simp: get_unhandled_options_def request_options_def filter_empty_conv)
  have ref: "\<not> refused m \<longleftrightarrow> (\<forall>x \<in> set (cs_options m).
      (option_class_of x \<in> {C_IANAOption, C_IATAOption} \<longrightarrow> first_status x \<noteq> Some 2)
      \<and> (option_class_of x = C_IAPDOption \<longrightarrow> first_status x \<noteq> Some 6))"
    by (auto simp: refused_def list_ex_iff get_options_of_type_def)
  show ?thesis
    unfolding rapid [symmetric] unhandled [symmetric] ref [symmetric]
    using assms by (auto simp: RapidCommitHandler_post_def)
qed

theorem rapid_commit_exactly_when_served_witness:
  "\<exists>b' m'. RapidCommitHandler_post False ex_started = Inr b' \<and> response b' = Some m'
    \<and> cs_class m' \<noteq> ReplyMessage"
proof -
  have "cs_class ex_response = AdvertiseMessage" by (simp add: ex_response_def)
  moreover have "\<not> allow_rapid_commit ex_started" by (simp add: ex_started_def ex_bundle_def)
  ultimately show ?thesis
    using rapid_commit_exactly_when_served [OF ex_started] by blast
qed

subsection \<open>Status options\<close>

text \<open>
  \<open>force_status\<close> on a list of options with at most one status: afterwards there is
  exactly one, with the wanted code; a status that has the code already is kept with its
  message and its place, and the other options stay in order.
\<close>

lemma force_status_sets_status:
  assumes "length (filter is_status options) \<le> 1"
  shows "\<exists>text. filter is_status (force_status options c message) = [Plain (StatusCodeOption c text)]
    \<and> filter (\<lambda>x. \<not> is_status x) (force_status options c message) = filter (\<lambda>x. \<not> is_status x) options
    \<and> (Plain (StatusCodeOption c text) \<in> set options \<longrightarrow> force_status options c message = options)
    \<and> (Plain (StatusCodeOption c text) \<notin> set options \<longrightarrow> text = message)"
proof (cases "filter is_status options")
  case Nil
  then have none: "\<forall>x \<in> set options. \<not> is_status x" by (simp add: filter_empty_conv)
  then have "force_status options c message = options @ [Plain (StatusCodeOption c message)]"
    by (rule force_status_no_status)
  with none show ?thesis by (intro exI [of _ message]) (auto simp: filter_empty_conv)
next
  case (Cons s rest)
  with assms have "filter is_status options = [s]" by simp
  then obtain us vs where o: "options = us @ s # vs" and none: "\<forall>x \<in> set us. \<not> is_status x"
      "\<forall>x \<in> set vs. \<not> is_status x" and "is_status s"
    by (auto simp: filter_eq_Cons_iff filter_empty_conv eq_commute [of "[]"])
  from \<open>is_status s\<close> obtain c' m' where s: "s = Plain (StatusCodeOption c' m')" by (rule is_statusE)
  note f = force_status_one [OF none, of c' m' c message]
  have "Plain (StatusCodeOption c msg) \<notin> set us \<union> set vs" for msg using none by fastforce
  then show ?thesis
    using none f by (intro exI [of _ "if c' = c then m' else message"]) (auto simp: o s filter_empty_conv)
qed

lemma force_status_sets_status_witness:
  "\<exists>text. filter is_status (force_status [Plain (StatusCodeOption 0 (lit ''ok'')), Plain RapidCommitOption] 4 (lit ''no''))
      = [Plain (StatusCodeOption 4 text)]
    \<and> filter (\<lambda>x. \<not> is_status x)
        (force_status [Plain (StatusCodeOption 0 (lit ''ok'')), Plain RapidCommitOption] 4 (lit ''no''))
      = [Plain RapidCommitOption]"
  using force_status_sets_status
    [of "[Plain (StatusCodeOption 0 (lit ''ok'')), Plain RapidCommitOption]" 4 "lit ''no''"]
  by auto

text \<open>
  With two status options next to each other that do not have the code it fails: the
  loop skips the second when it removes the first, so a status with another code stays, in
  front of the new one.
\<close>

lemma force_status_skips_adjacent:
  assumes "c1 \<noteq> c" and "c2 \<noteq> c"
  shows "force_status [Plain (StatusCodeOption c1 m1), Plain (StatusCodeOption c2 m2)] c m
    = [Plain (StatusCodeOption c2 m2), Plain (StatusCodeOption c m)]"
  using assms
  by (simp add: force_status_def force_status_loop.simps [of 0] force_status_loop.simps [of "Suc 0"])

lemma force_status_skips_adjacent_witness:
  "force_status [Plain (StatusCodeOption 0 (lit ''ok'')), Plain (StatusCodeOption 2 (lit ''none''))] 4 (lit ''no'')
    = [Plain (StatusCodeOption 2 (lit ''none'')), Plain (StatusCodeOption 4 (lit ''no''))]"
  by (rule force_status_skips_adjacent) simp_all

text \<open>
  Marking an option as handled takes it, and every option equal to it, off the unhandled
  options of its type, keeps the order of the others and does so however often it is marked.
\<close>

lemma handled_options_are_not_unhandled:
  "get_unhandled_options types (mark_handled option (mark_handled option b))
     = filter (\<lambda>x. x \<noteq> option) (get_unhandled_options types b)
   \<and> mark_handled option (mark_handled option b) = mark_handled option b"
  by (auto simp: get_unhandled_options_def mark_handled_def request_options_def
    intro!: filter_cong)

subsection \<open>Filters\<close>

text \<open>
  The handlers a tree of filters gives for a request are exactly those that stand under
  filters that all match, from the outermost down to the one they are configured in.
\<close>

lemma filters_give_enabled_handlers:
  assumes "filter_get_handlers b f = Inr hs"
  shows "h \<in> set hs \<longleftrightarrow> enabled b f h"
  using assms
proof (induction b f arbitrary: hs rule: filter_get_handlers.induct)
  case (1 b m fs gs)
  show ?case
  proof (cases "m b")
    case (Inr matches)
    show ?thesis
    proof (cases matches)
      case True
      with Inr 1(2) obtain inner where inner: "concat_res (filter_get_handlers b) fs = Inr inner"
        and hs: "hs = inner @ gs"
        by (auto elim!: rbind_InrE)
      have "h \<in> set inner \<longleftrightarrow> (\<exists>f \<in> set fs. enabled b f h)"
        using inner 1(1) [OF Inr] True
      proof (induction fs arbitrary: inner)
        case (Cons f fs)
        then show ?case by (fastforce simp: res_simps)
      qed simp
      with Inr True hs show ?thesis by (auto simp: enabled_Filter)
    qed (use Inr 1(2) in \<open>simp add: enabled_Filter\<close>)
  qed (use 1(2) in simp)
qed

lemma filters_give_enabled_handlers_witness:
  "RejectUnwantedUnicastHandler \<in> set [RejectUnwantedUnicastHandler]
     \<longleftrightarrow> enabled ex_bundle (Filter (SubnetFilter_match
       [IPv6Network 0x20010db8000000000000000000000000 32])
       [Filter (MarkedWithFilter_match (lit ''x'')) [] [AddMissingStatusOptionHandler]]
       [RejectUnwantedUnicastHandler]) RejectUnwantedUnicastHandler"
proof (rule filters_give_enabled_handlers)
  have "link_address ex_bundle = Inr (Some ex_address)"
    using ex_routable by (simp add: link_address_def ex_bundle_def ex_relay_def is_unspecified_def ex_address_def)
  moreover have "in_network ex_address (IPv6Network 0x20010db8000000000000000000000000 32)"
    by (simp add: in_network_def ex_address_def broadcast_address_def hostmask_def mask_eq_exp_minus_1)
  ultimately show "filter_get_handlers ex_bundle (Filter (SubnetFilter_match
       [IPv6Network 0x20010db8000000000000000000000000 32])
       [Filter (MarkedWithFilter_match (lit ''x'')) [] [AddMissingStatusOptionHandler]]
       [RejectUnwantedUnicastHandler]) = Inr [RejectUnwantedUnicastHandler]"
    by (simp add: SubnetFilter_match_def MarkedWithFilter_match_def address_in_network_def)
      (simp add: ex_bundle_def)
qed

text \<open>
  With the limits that its factory accepts and builds, the elapsed time filter matches a
  request exactly if the client has been trying for longer than the lower limit and for less
  than the upper limit, in seconds, each where it is set; at least one is set, and there are
  times that match.
\<close>

lemma elapsed_time_filter_matches:
  assumes "ElapsedTimeFilterFactory_validate lower upper = Inr ()"
    and "get_option_of_type [C_ElapsedTimeOption] (request_options b) = Some (Plain (ElapsedTimeOption t))"
  shows "ElapsedTimeFilter_match (ElapsedTimeFilterFactory_condition lower upper) b
      = Inr ((\<forall>l. lower = Some l \<and> l \<noteq> 0 \<longrightarrow> 100 * l < t) \<and> (\<forall>u. upper = Some u \<and> u \<noteq> 0 \<longrightarrow> t < 100 * u))
    \<and> ElapsedTimeFilterFactory_condition lower upper \<noteq> []
    \<and> (\<exists>t'. list_all (within_limit t') (ElapsedTimeFilterFactory_condition lower upper))"
proof (intro conjI)
  let ?t = "if configured lower then 100 * the lower + 1 else 100 * the upper - 1"
  have "list_all (within_limit ?t) (ElapsedTimeFilterFactory_condition lower upper)"
    using assms(1) by (auto simp: ElapsedTimeFilterFactory_condition_def
      ElapsedTimeFilterFactory_validate_def split: if_splits)
  then show "\<exists>t'. list_all (within_limit t') (ElapsedTimeFilterFactory_condition lower upper)" ..
  show "ElapsedTimeFilterFactory_condition lower upper \<noteq> []"
    using assms(1) by (auto simp: ElapsedTimeFilterFactory_condition_def
      ElapsedTimeFilterFactory_validate_def split: if_splits)
qed (use assms(2) in \<open>auto simp: ElapsedTimeFilter_match_def ElapsedTimeFilterFactory_condition_def
    configured_def split: option.splits\<close>)

lemma elapsed_time_filter_matches_witness:
  "ElapsedTimeFilter_match (ElapsedTimeFilterFactory_condition (Some 10) None) ex_bundle = Inr False"
proof -
  have "ElapsedTimeFilterFactory_validate (Some 10) None = Inr ()"
    by (simp add: ElapsedTimeFilterFactory_validate_def configured_def)
  moreover have "get_option_of_type [C_ElapsedTimeOption] (request_options ex_bundle)
      = Some (Plain (ElapsedTimeOption 0))"
    by (simp add: ex_bundle_def request_options_def ex_solicit_def get_option_of_type_def)
  ultimately show ?thesis
    using elapsed_time_filter_matches [of "Some 10" None ex_bundle 0] by auto
qed

subsection \<open>Confirm messages\<close>

lemma answer_ia_confirm:
  assumes "request b = Some req" and "cs_class req = ConfirmMessage" and "response b = Some m"
    and "\<forall>x \<in> set (cs_options m). \<not> is_status x"
  shows "\<exists>text. run_steps (answer_ia True) xs b = Inr (set_response
    (Some (m\<lparr>cs_options := cs_options m @ (if xs = [] then [] else [Plain (StatusCodeOption 4 text)])\<rparr>)) b)"
proof -
  let ?text = "lit ''Those addresses are not appropriate on this link''"
  let ?m = "m\<lparr>cs_options := cs_options m @ [Plain (StatusCodeOption 4 ?text)]\<rparr>"
  have step: "answer_ia True x b' = Inr (set_response (Some (m'\<lparr>cs_options :=
      force_status (cs_options m') 4 ?text\<rparr>)) b')" if "request b' = Some req" "response b' = Some m'" for x b' m'
    using that assms(2) by (simp add: answer_ia_def with_response_def set_response_options_def)
  have again: "run_steps (answer_ia True) xs (set_response (Some ?m) b) = Inr (set_response (Some ?m) b)" for xs
  proof (induction xs)
    case (Cons x xs)
    have "force_status (cs_options ?m) 4 ?text = cs_options ?m"
      using force_status_one [OF assms(4), of "[]"] by simp
    with Cons step [of "set_response (Some ?m) b" ?m] assms(1) show ?case by simp
  qed simp
  show ?thesis
  proof (cases xs)
    case (Cons x ys)
    have "force_status (cs_options m) 4 ?text = cs_options ?m"
      using force_status_no_status [OF assms(4)] by simp
    then have "answer_ia True x b = Inr (set_response (Some ?m) b)"
      using step [OF assms(1,3)] by simp
    with again Cons show ?thesis by auto
  qed (use assms(3) in \<open>simp add: set_response_same\<close>)
qed

lemma answer_iapd_confirm:
  "request b = Some req \<Longrightarrow> cs_class req = ConfirmMessage \<Longrightarrow> run_steps (answer_iapd a) xs b = Inr b"
  by (induction xs) (simp_all add: answer_iapd_def)

lemma find_behind: "find P xs = None \<Longrightarrow> find P (xs @ ys) = find P ys"
  by (induction xs) auto

lemma ids_no_status: "\<forall>x \<in> set (ids mh req). \<not> is_status x"
proof -
  have "\<not> is_status x" if "option_class_of x = C_ClientIdOption" for x
    using that by (cases x rule: is_status.cases) simp_all
  then show ?thesis by (auto simp: ids_def get_options_of_type_def)
qed

lemma missing_status_of_confirm:
  assumes "request b = Some req" and "cs_class req = ConfirmMessage" and "response b = Some m"
    and "cs_options m = os @ (if none then [] else [Plain (StatusCodeOption 4 msg)])"
    and "get_option_of_type [C_StatusCodeOption] os = None"
  shows "\<exists>text. AddMissingStatusOptionHandler_handle b =
    Inr (set_response (Some (m\<lparr>cs_options := os @ [Plain (StatusCodeOption (if none then 0 else 4) text)]\<rparr>)) b)"
proof (cases none)
  case False
  then have "m\<lparr>cs_options := os @ [Plain (StatusCodeOption 4 msg)]\<rparr> = m" using assms(4) by simp
  then have same: "set_response (Some (m\<lparr>cs_options := os @ [Plain (StatusCodeOption 4 msg)]\<rparr>)) b = b"
    using set_response_same [OF assms(3)] by simp
  have "AddMissingStatusOptionHandler_handle b = Inr b"
    using assms False by (auto simp: AddMissingStatusOptionHandler_handle_def missing_status_message_def
      with_response_def get_option_of_type_def find_behind)
  with same False show ?thesis by (intro exI [of _ msg]) simp
next
  case True
  then show ?thesis
    using assms by (auto simp: AddMissingStatusOptionHandler_handle_def missing_status_message_def with_response_def
      set_response_options_def)
qed

lemma confirm_handle_phase:
  assumes idle: "\<forall>h \<in> set (hs1 @ hs2). relays_only h"
    and req: "request b = Some req" "cs_class req = ConfirmMessage"
    and m: "response b = Some m" "cs_class m = ReplyMessage" "cs_options m = []"
  shows "\<exists>b' text. run_steps handler_handle (bare_handlers mh hs1 hs2) b = Inr b' \<and> request b' = Some req
    \<and> response b' = Some (m\<lparr>cs_options := ids mh req @ [Plain (StatusCodeOption
        (if get_unhandled_options [C_IANAOption, C_IATAOption] b = [] then 0 else 4) text)]\<rparr>)"
proof -
  let ?m1 = "m\<lparr>cs_options := [Plain (ServerIdOption (Some (server_id mh)))]\<rparr>"
  let ?b1 = "set_response (Some ?m1) b"
  let ?m2 = "m\<lparr>cs_options := ids mh req\<rparr>"
  let ?b2 = "set_response (Some ?m2) b"
  let ?ias = "get_unhandled_options [C_IANAOption, C_IATAOption] b"
  have rc: "ReplyMessage \<in> {AdvertiseMessage, ReplyMessage}" by simp
  have 1: "handler_handle (ServerIdHandler core_containment (server_id mh)) b = Inr ?b1"
    using server_id_handled [OF m(1) rc m(2)] m(3) by simp
  have 2: "handler_handle (ClientIdHandler core_containment) ?b1 = Inr ?b2"
    using client_id_handled [OF _ rc, of ?b1 ?m1] m(2) req(1) by (simp add: ids_def request_options_def)
  obtain rs where 3: "handler_handle (InterfaceIdOptionHandler core_containment) ?b2 =
      Inr (?b2\<lparr>outgoing_relay_messages := rs\<rparr>)"
    by (rule interface_id_handled)
  let ?b3 = "?b2\<lparr>outgoing_relay_messages := rs\<rparr>"
  obtain msg where 4: "UnansweredIAOptionHandler_handle True ?b3 = Inr (set_response (Some (?m2\<lparr>cs_options :=
      ids mh req @ (if ?ias = [] then [] else [Plain (StatusCodeOption 4 msg)])\<rparr>)) ?b3)"
    using answer_ia_confirm [of ?b3 req ?m2 ?ias] req ids_no_status
    by (auto simp: UnansweredIAOptionHandler_handle_def)
  let ?m4 = "m\<lparr>cs_options := ids mh req @ (if ?ias = [] then [] else [Plain (StatusCodeOption 4 msg)])\<rparr>"
  let ?b4 = "set_response (Some ?m4) ?b3"
  obtain rs1 where 5: "run_steps handler_handle hs1 ?b4 = Inr (?b4\<lparr>outgoing_relay_messages := rs1\<rparr>)"
    using run_relays_only(2) [of hs1] idle by auto
  let ?b5 = "?b4\<lparr>outgoing_relay_messages := rs1\<rparr>"
  have 6: "UnansweredIAPDOptionHandler_handle True ?b5 = Inr ?b5"
    using answer_iapd_confirm [of ?b5 req] req by (simp add: UnansweredIAPDOptionHandler_handle_def)
  obtain rs2 where 7: "run_steps handler_handle hs2 ?b5 = Inr (?b5\<lparr>outgoing_relay_messages := rs2\<rparr>)"
    using run_relays_only(2) [of hs2 ?b5] idle by auto
  let ?b7 = "?b5\<lparr>outgoing_relay_messages := rs2\<rparr>"
  have status: "get_option_of_type [C_StatusCodeOption] (ids mh req) = None"
    using ids_no_status [of mh req]
    by (auto simp: get_option_of_type_def find_None_iff ids_def get_options_of_type_def)
  have "request ?b7 = Some req" "response ?b7 = Some ?m4" using req(1) by simp_all
  then have "\<exists>text'. AddMissingStatusOptionHandler_handle ?b7 = Inr (set_response (Some (?m4\<lparr>cs_options :=
      ids mh req @ [Plain (StatusCodeOption (if ?ias = [] then 0 else 4) text')]\<rparr>)) ?b7)"
    by (rule missing_status_of_confirm [OF _ req(2) _ _ status]) simp
  then obtain text' where 8: "AddMissingStatusOptionHandler_handle ?b7 = Inr (set_response (Some (m\<lparr>cs_options :=
      ids mh req @ [Plain (StatusCodeOption (if ?ias = [] then 0 else 4) text')]\<rparr>)) ?b7)"
    by auto
  let ?b8 = "set_response (Some (m\<lparr>cs_options :=
      ids mh req @ [Plain (StatusCodeOption (if ?ias = [] then 0 else 4) text')]\<rparr>)) ?b7"
  have "run_steps handler_handle (bare_handlers mh hs1 hs2) b = Inr ?b8"
    unfolding bare_handlers_def run_steps_append using 1 2 3 4 5 6 7 8
    by (simp add: RejectUnwantedUnicastHandler_def UnansweredIAOptionHandler_def
        UnansweredIAPDOptionHandler_def AddMissingStatusOptionHandler_def base_handler_def
        RequireBulkLeasequeryOverTCPHandler_def RefuseBulkLeasequeryOverUDPHandler_def)
  moreover have "request ?b8 = Some req" using req(1) by simp
  ultimately show ?thesis by (intro exI [of _ ?b8] exI [of _ text']) simp
qed

text \<open>
  C27. What a server without configured handlers (but with those that the extensions of the program always add)
  answers to a confirm that came by multicast
  and holds an address or a prefix: a reply with the ids of both and one status.  If the client
  asks about an association for addresses it is \<open>NotOnLink\<close>; if all it holds are associations
  for prefixes it is \<open>Success\<close>, although nothing has confirmed them.
\<close>

theorem bare_server_confirm:
  assumes "bare_server mh" and "request b = Some req" and "cs_class req = ConfirmMessage"
    and "\<exists>ia \<in> set (cs_options req). option_class_of ia \<in> {C_IANAOption, C_IATAOption, C_IAPDOption}
      \<and> (\<exists>x \<in> set (suboptions ia). option_class_of x \<in> {C_IAAddressOption, C_IAPrefixOption})"
    and "C_ServerIdOption \<notin> option_class_of ` set (cs_options req)"
    and "received_over_multicast b" and "\<not> received_over_tcp b" and "handled_options b = []"
  shows "\<exists>b' st' text. message_handler_handle core_containment mh refs b st = (Inr b', st')
    \<and> response b' = Some \<lparr>cs_class = ReplyMessage, cs_transaction_id = cs_transaction_id req,
        cs_options = get_options_of_type [C_ClientIdOption] (cs_options req)
          @ [Plain (ServerIdOption (Some (server_id mh))),
             Plain (StatusCodeOption
               (if get_options_of_type [C_IANAOption, C_IATAOption] (cs_options req) = [] then 0 else 4)
               text)]\<rparr>"
proof -
  let ?T = core_containment
  obtain hs1 hs2 where hs: "\<forall>b. get_handlers core_containment mh b = Inr (bare_handlers mh hs1 hs2)"
    and idle: "\<forall>h \<in> set (hs1 @ hs2). relays_only h"
    by (rule bare_server_handlers [OF assms(1)])
  let ?hs = "bare_handlers mh hs1 hs2"
  have other: "cs_class req \<noteq> LeasequeryMessage" using assms(3) by simp
  let ?start = "b\<lparr>allow_rapid_commit := mh_allow_rapid_commit mh\<rparr>"
  let ?b = "start_response ReplyMessage req ?start"
  let ?m = "\<lparr>cs_class = ReplyMessage, cs_transaction_id = cs_transaction_id req, cs_options = []\<rparr>"
  let ?ias = "get_options_of_type [C_IANAOption, C_IATAOption] (cs_options req)"
  have "get_option_of_type [C_ServerIdOption] (cs_options req) = None"
    using assms(5) by (force simp: get_option_of_type_def find_None_iff)
  then have pre: "run_steps handler_pre ?hs ?start = Inr ?start"
    using bare_pre [OF idle _ other, of ?start] assms(2,6,7) by simp
  have "list_ex (\<lambda>option. get_options_of_type [C_IAAddressOption, C_IAPrefixOption] (suboptions option) \<noteq> [])
      (get_options_of_type [C_IANAOption, C_IATAOption, C_IAPDOption] (cs_options req))"
    using assms(4) by (fastforce simp: list_ex_iff get_options_of_type_def filter_empty_conv)
  then have init: "init_response ?start = Inr ?b"
    using assms(2,3) by (simp add: init_response_def)
  have b: "request ?b = Some req" "response ?b = Some ?m" using assms(2) by simp_all
  have ias: "get_unhandled_options [C_IANAOption, C_IATAOption] ?b = ?ias"
    using assms(2,8) by (simp add: get_unhandled_options_def request_options_def get_options_of_type_def)
  obtain b' msg where handle: "run_steps handler_handle ?hs ?b = Inr b'" "request b' = Some req"
    and r: "response b' = Some (?m\<lparr>cs_options := ids mh req @ [Plain (StatusCodeOption
      (if get_unhandled_options [C_IANAOption, C_IATAOption] ?b = [] then 0 else 4) msg)]\<rparr>)"
    using confirm_handle_phase [OF idle b(1) assms(3) b(2), of mh] by auto
  have post: "run_steps handler_post ?hs b' = Inr b'" by (rule bare_post [OF idle handle(2) other])
  have "run_phases mh ?hs ?start = ([], Inr b')"
    by (simp only: run_phases_def process_def pre init handle(1) post rbind_Inr sum.case)
  with hs bare_analyse [OF idle] r ias assms(2) show ?thesis
    by (simp add: message_handler_handle_def Let_def count_events_def ids_def)
qed

text \<open>A confirm for the address of the exchange.\<close>

definition ex_confirm :: client_server where
  "ex_confirm = \<lparr>cs_class = ConfirmMessage, cs_transaction_id = [4, 5, 6], cs_options =
     [Plain (ClientIdOption (Some ex_client)), Plain (ElapsedTimeOption 0),
      IANAOption [0, 0, 0, 1] 0 0 [IAAddressOption (Some ex_address) 0 0 []]]\<rparr>"

theorem bare_server_confirm_witness:
  "\<exists>b' st' text. message_handler_handle core_containment ex_handler [Global]
      (ex_bundle\<lparr>request := Some ex_confirm\<rparr>) new_server_statistics = (Inr b', st')
    \<and> response b' = Some \<lparr>cs_class = ReplyMessage, cs_transaction_id = cs_transaction_id ex_confirm,
        cs_options = get_options_of_type [C_ClientIdOption] (cs_options ex_confirm)
          @ [Plain (ServerIdOption (Some (server_id ex_handler))),
             Plain (StatusCodeOption
               (if get_options_of_type [C_IANAOption, C_IATAOption] (cs_options ex_confirm) = [] then 0 else 4)
               text)]\<rparr>"
  by (rule bare_server_confirm [OF ex_bare])
    (simp_all add: ex_bundle_def ex_confirm_def)

end
