(* ===== verification/PacketProperties.thy ===== *)
theory PacketProperties
  imports Scenario
begin

text \<open>
  The properties of the statistics and of the packets that are not answered, each with an
  instance.
\<close>

subsection \<open>Counting\<close>

text \<open>
  An event of a packet is counted where it belongs and nowhere else: globally, on the
  interface it was received on, on the subnets that contain its link address and on the relays
  of its chain, where the server keeps statistics for them; which it keeps does not change.
\<close>

lemma events_counted_where_they_belong:
  assumes "get_update_set (Some name) (Some b) st = Inr refs"
    and "link_address b = Inr (Some a)" and "relays b = Inr rs"
  shows "global_stats (count_on e refs st) = count e (global_stats st)
    \<and> map_of (interface_stats (count_on e refs st)) k
      = map_option (\<lambda>s. if k = name \<and> name \<noteq> [] then count e s else s) (map_of (interface_stats st) k)
    \<and> map_of (subnet_stats (count_on e refs st)) n
      = map_option (\<lambda>s. if in_network a n then count e s else s) (map_of (subnet_stats st) n)
    \<and> map_of (relay_stats (count_on e refs st)) r
      = map_option (\<lambda>s. if r \<in> set rs then count e s else s) (map_of (relay_stats st) r)"
proof -
  have key: "x \<in> fst ` set kvs" if "map_of kvs x = Some y" for x y and kvs :: "('k \<times> 'v) list"
    using map_of_SomeD [OF that] by force
  have refs: "refs = Global
      # (if name \<noteq> [] \<and> name \<in> fst ` set (interface_stats st) then [Interface name] else [])
      @ map Subnet (filter (in_network a) (map fst (subnet_stats st)))
      @ map Relay (filter (\<lambda>a. a \<in> set rs) (map fst (relay_stats st)))"
    using assms by (simp add: get_update_set_def Let_def)
  have i: "map_of (interface_stats (count_on e refs st)) k
      = map_option (\<lambda>s. if k = name \<and> name \<noteq> [] then count e s else s) (map_of (interface_stats st) k)"
    unfolding count_on_interface by (cases "map_of (interface_stats st) k") (auto simp: refs dest: key)
  have s: "map_of (subnet_stats (count_on e refs st)) n
      = map_option (\<lambda>s. if in_network a n then count e s else s) (map_of (subnet_stats st) n)"
    unfolding count_on_subnet
    by (cases "map_of (subnet_stats st) n") (auto simp: refs dest: key)
  have "map_of (relay_stats (count_on e refs st)) r
      = map_option (\<lambda>s. if r \<in> set rs then count e s else s) (map_of (relay_stats st) r)"
    unfolding count_on_relay
    by (cases "map_of (relay_stats st) r") (auto simp: refs dest: key)
  with i s show ?thesis by (simp add: count_on_def refs)
qed

lemma ex_link: "link_address ex_bundle = Inr (Some ex_address)" "relays ex_bundle = Inr [ex_address]"
  using ex_routable
  by (simp_all add: link_address_def relays_def ex_bundle_def ex_relay_def is_unspecified_def ex_address_def)

lemma events_counted_where_they_belong_witness:
  "\<exists>refs. get_update_set (Some (lit ''eth0'')) (Some ex_bundle)
      (new_server_statistics\<lparr>relay_stats := [(ex_address, new_statistics), (7, new_statistics)]\<rparr>) = Inr refs
    \<and> map_of (relay_stats (count_on Incoming_packet refs
        (new_server_statistics\<lparr>relay_stats := [(ex_address, new_statistics), (7, new_statistics)]\<rparr>))) 7
      = Some new_statistics"
proof -
  let ?st = "new_server_statistics\<lparr>relay_stats := [(ex_address, new_statistics), (7, new_statistics)]\<rparr>"
  obtain refs where r: "get_update_set (Some (lit ''eth0'')) (Some ex_bundle) ?st = Inr refs"
    by (simp add: get_update_set_def ex_link new_server_statistics_def)
  have "(7 :: ipv6) \<noteq> ex_address" by (simp add: ex_address_def)
  with events_counted_where_they_belong [OF r ex_link, of Incoming_packet "[]" undefined 7] r
  show ?thesis by auto
qed

lemma update_categories_twice: "update_categories (update_categories [] ks) ks = []"
proof -
  have "fst ` set (update_categories (update_categories [] ks) ks) = {}"
    by (simp add: update_categories_keys)
  then show ?thesis by simp
qed

text \<open>
  C34. Setting the categories of the statistics gives a new server the ones that are wanted,
  and setting the same ones again, as a configuration that is loaded again does, deletes all of
  them: a category that exists is not taken off the list of those to remove.
\<close>

theorem setting_categories_again_deletes_them:
  "let once = set_categories (Some cs) new_server_statistics; twice = set_categories (Some cs) once in
     fst ` set (interface_stats once) = set (wanted_interfaces cs) \<and> interface_stats twice = []
     \<and> fst ` set (subnet_stats once) = set (wanted_subnets cs) \<and> subnet_stats twice = []
     \<and> fst ` set (relay_stats once) = set (wanted_relays cs) \<and> relay_stats twice = []"
  by (simp add: set_categories_def new_server_statistics_def update_categories_keys
    update_categories_twice Let_def)

subsection \<open>Packets that are not answered\<close>

text \<open>
  A packet that does not parse, or parses to a message that is not valid, is counted as
  received and as unparsable, globally and on its interface; nothing is sent and nothing else
  changes.
\<close>

lemma unparsable_packet_counted:
  assumes "Message_parse R (packet_data packet) = Inl e
    \<or> (\<exists>n m. Message_parse R (packet_data packet) = Inr (n, m) \<and> message_validate T m = Inl e)"
  shows "\<exists>refs. get_update_set (Some (get_interface_name_from_options (packet_relay_options packet))) None st
      = Inr refs
    \<and> handle_message R T mh send packet st
      = Inr ([], count_on Unparsable_packet refs (count_on Incoming_packet refs st))"
proof -
  have "parse_incoming_request R T packet = Inl e"
    using assms by (auto simp: parse_incoming_request_def)
  then show ?thesis by (simp add: handle_message_def Let_def get_update_set_def)
qed

lemma unparsable_packet_counted_witness:
  "\<exists>refs. get_update_set (Some (get_interface_name_from_options
      (packet_relay_options (ex_packet\<lparr>packet_data := []\<rparr>)))) None new_server_statistics = Inr refs
    \<and> handle_message core_registry core_containment ex_handler (\<lambda>_. Sent) (ex_packet\<lparr>packet_data := []\<rparr>)
        new_server_statistics
      = Inr ([], count_on Unparsable_packet refs (count_on Incoming_packet refs new_server_statistics))"
  by (rule unparsable_packet_counted [where e = IndexError])
    (simp add: Message_parse_def Message_determine_class_def byte_at_def)

text \<open>
  C35. A valid message of unknown type that arrives over TCP makes \<open>handle_message\<close> itself
  raise: the link address of a bundle with an empty relay chain is the peer of its last relay,
  and the lookup stands outside the part that catches exceptions.  The packet is not counted.
\<close>

lemma first_relay_option_behind:
  "C_RelayMessageOption \<notin> option_class_of ` set os \<Longrightarrow>
   first_relay_option (os @ [RelayMessageOption m]) = Some m"
  by (induction os rule: first_relay_option.induct) auto

theorem unknown_message_over_tcp_escapes:
  assumes "Message_parse R (packet_data packet) = Inr (n, UnknownMessage t d)"
    and "0 \<le> t" and "t < 256" and "packet_over_tcp packet"
    and "C_RelayMessageOption \<notin> option_class_of ` set (packet_relay_options packet)"
  shows "handle_message R T mh send packet st = Inl IndexError"
proof -
  obtain b where "parse_incoming_request R T packet = Inr b" "received_over_tcp b"
    "incoming_relay_messages b = []"
    using assms by (simp add: parse_incoming_request_def TransactionBundle_def split_relay_chain_def
      relayed_message_def first_relay_option_behind)
  then show ?thesis
    by (simp add: handle_message_def Let_def get_update_set_def link_address_def)
qed

theorem unknown_message_over_tcp_escapes_witness:
  "handle_message core_registry core_containment ex_handler (\<lambda>_. Sent)
     (ex_packet\<lparr>packet_data := [200, 1], packet_over_tcp := True\<rparr>) new_server_statistics = Inl IndexError"
proof (rule unknown_message_over_tcp_escapes)
  show "Message_parse core_registry (packet_data (ex_packet\<lparr>packet_data := [200, 1], packet_over_tcp := True\<rparr>))
      = Inr (length [200, 1 :: byte], UnknownMessage 200 [1])"
    using message_roundtrip [of "UnknownMessage 200 [1]" "[200, 1]" core_containment core_registry]
    by (simp add: append_byte_def message_registry_def be_bytes_one)
qed (simp_all add: ex_packet_def)

end
