(* ===== verification/DomainNames.thy ===== *)
theory DomainNames
  imports Text Items
begin

text \<open>
  dhcpkit/utils.py: domain names in the encoding of RFC 1035 (section 3.1) and hexadecimal
  strings.  The package \<open>idna\<close> is not part of the program: its three functions are a parameter
  (\<open>idna\<close>), and what the round trips rely on is stated as \<open>idna_labels\<close> (no label that it accepts
  is empty or longer than 63 characters) and \<open>canonical\<close> (a name that it decodes back to itself).
  Every error of the package is a \<open>UnicodeError\<close>, hence a \<open>ValueError\<close>.
\<close>

record idna =
  idna_encode :: "pystr \<Rightarrow> bytes res"
  idna_decode :: "bytes \<Rightarrow> pystr res"
  idna_alabel :: "pystr \<Rightarrow> bytes res"

subsection \<open>String operations\<close>

definition dot :: nat where
  "dot = 46"

definition ends_with_dot :: "pystr \<Rightarrow> bool" where
  "ends_with_dot s \<longleftrightarrow> s \<noteq> [] \<and> last s = dot"

text \<open>\<open>s.rstrip('.')\<close>, \<open>s.split('.')\<close> and \<open>sep.join(parts)\<close>.\<close>

definition rstrip_dots :: "pystr \<Rightarrow> pystr" where
  "rstrip_dots s = rev (dropWhile (\<lambda>c. c = dot) (rev s))"

fun split_on :: "'a \<Rightarrow> 'a list \<Rightarrow> 'a list list" where
  "split_on c [] = [[]]"
| "split_on c (x # xs) =
     (if x = c then [] # split_on c xs
      else (case split_on c xs of [] \<Rightarrow> [[x]] | y # ys \<Rightarrow> (x # y) # ys))"

fun join :: "'a \<Rightarrow> 'a list list \<Rightarrow> 'a list" where
  "join c [] = []"
| "join c [x] = x"
| "join c (x # y # ys) = x @ c # join c (y # ys)"

lemma split_on_not_Nil [simp]: "split_on c s \<noteq> []"
  by (cases s) (auto split: list.splits)

lemma join_split_on [simp]: "join c (split_on c s) = s"
proof (induction s)
  case (Cons x s)
  obtain y ys where s: "split_on c s = y # ys" by (cases "split_on c s") auto
  with Cons show ?case by (cases ys) auto
qed simp

lemma map_join: "map f (join c xs) = join (f c) (map (map f) xs)"
  by (induction c xs rule: join.induct) simp_all

subsection \<open>Labels\<close>

definition validate_domain_label :: "idna \<Rightarrow> pystr \<Rightarrow> unit res" where
  "validate_domain_label lib label =
     (case idna_alabel lib label of Inl _ \<Rightarrow> Inl ValueError | Inr _ \<Rightarrow> Inr ())"

text \<open>
  The loop of \<open>parse_domain_bytes\<close>: the offset reached, the labels read, and whether a label of
  length zero ended the name.
\<close>

function domain_labels :: "bytes \<Rightarrow> nat \<Rightarrow> nat \<Rightarrow> nat \<Rightarrow> bytes list \<Rightarrow> (nat \<times> bytes list \<times> bool) res" where
  "domain_labels buf off max_offset my_offset current_labels =
     (if max_offset > my_offset then
        rbind (byte_at buf (off + my_offset)) (\<lambda>label_length.
        let my_offset = my_offset + 1 in
        if label_length = 0 then Inr (my_offset, current_labels, True)
        else if label_length > 63 then Inl ValueError
        else if my_offset + nat label_length > max_offset then Inl ValueError
        else
          domain_labels buf off max_offset (my_offset + nat label_length)
            (current_labels @ [slice buf (off + my_offset) (nat label_length)]))
      else Inr (my_offset, current_labels, False))"
  by pat_completeness auto

termination
  by (relation "measure (\<lambda>(buf, off, max_offset, my_offset, _). max_offset - my_offset)") auto

declare domain_labels.simps [simp del]

definition parse_domain_upto :: "idna \<Rightarrow> bytes \<Rightarrow> nat \<Rightarrow> nat \<Rightarrow> bool \<Rightarrow> (nat \<times> pystr) res" where
  "parse_domain_upto lib buf off max_offset allow_relative =
     rbind (domain_labels buf off max_offset 0 []) (\<lambda>(my_offset, current_labels, ended).
     if ended then
       rbind (idna_decode lib (join (of_nat dot) current_labels @ [of_nat dot])) (\<lambda>domain_name.
       if length domain_name > 254 then Inl ValueError else Inr (my_offset, domain_name))
     else if allow_relative then
       rbind (idna_decode lib (join (of_nat dot) current_labels)) (\<lambda>domain_name.
       if length domain_name > 253 then Inl ValueError else Inr (my_offset, domain_name))
     else Inl ValueError)"

definition parse_domain_bytes ::
  "idna \<Rightarrow> bytes \<Rightarrow> nat \<Rightarrow> nat option \<Rightarrow> bool \<Rightarrow> (nat \<times> pystr) res" where
  "parse_domain_bytes lib buf off len allow_relative =
     parse_domain_upto lib buf off (length_or len buf off) allow_relative"

definition parse_domain_list_bytes ::
  "idna \<Rightarrow> bytes \<Rightarrow> nat \<Rightarrow> nat option \<Rightarrow> (nat \<times> pystr list) res" where
  "parse_domain_list_bytes lib buf off len =
     (let max_offset = length_or len buf off in
      items_loop (Suc max_offset)
        (\<lambda>k. parse_domain_bytes lib buf k (Some (off + max_offset - k)) False) off 0 max_offset)"

subsection \<open>Encoding\<close>

definition encode_label :: "idna \<Rightarrow> pystr \<Rightarrow> bytes res" where
  "encode_label lib label =
     rbind (validate_domain_label lib label) (\<lambda>_.
     rbind (append_byte (int (length label))) (\<lambda>label_length.
     rbind (ascii_encode label) (\<lambda>b. Inr (label_length @ b))))"

text \<open>\<open>idna.encode(domain_name).decode('ascii')\<close>, multiple dots at the end replaced with one.\<close>

definition ascii_name :: "idna \<Rightarrow> pystr \<Rightarrow> pystr res" where
  "ascii_name lib domain_name =
     (let domain_name = (if ends_with_dot domain_name then rstrip_dots domain_name @ [dot] else domain_name) in
      case idna_encode lib domain_name of
        Inl _ \<Rightarrow> Inl ValueError
      | Inr b \<Rightarrow> ascii_decode b)"

definition encode_domain :: "idna \<Rightarrow> pystr \<Rightarrow> bool \<Rightarrow> bytes res" where
  "encode_domain lib domain_name allow_relative =
     rbind (ascii_name lib domain_name) (\<lambda>domain_name.
     let end_with_zero = (allow_relative \<longrightarrow> ends_with_dot domain_name);
         domain_name = (if end_with_zero then rstrip_dots domain_name else domain_name)
     in
     rbind (concat_res (encode_label lib) (split_on dot domain_name)) (\<lambda>buffer.
     Inr (buffer @ (if end_with_zero then [0] else []))))"

definition encode_domain_list :: "idna \<Rightarrow> pystr list \<Rightarrow> bytes res" where
  "encode_domain_list lib domain_names =
     concat_res (\<lambda>domain_name. encode_domain lib domain_name False) domain_names"

subsection \<open>What the package is trusted to do\<close>

definition idna_labels :: "idna \<Rightarrow> bool" where
  "idna_labels lib \<longleftrightarrow>
     (\<forall>label a. idna_alabel lib label = Inr a \<longrightarrow> 0 < length label \<and> length label \<le> 63)"

text \<open>
  The name that goes to the wire in ASCII, and the names that the package reads back from it
  as they were.
\<close>

definition wire_name :: "idna \<Rightarrow> pystr \<Rightarrow> bytes res" where
  "wire_name lib domain_name =
     rbind (ascii_name lib domain_name) (\<lambda>n. ascii_encode (rstrip_dots n @ [dot]))"

definition canonical :: "idna \<Rightarrow> pystr \<Rightarrow> bool" where
  "canonical lib domain_name \<longleftrightarrow>
     rbind (wire_name lib domain_name) (idna_decode lib) = Inr domain_name
     \<and> length domain_name \<le> 254"

subsection \<open>Progress and bounds\<close>

lemma domain_labels_end:
  assumes "domain_labels buf off mx my ls = Inr (e, ls', ended)"
  shows "my \<le> e \<and> (my < mx \<longrightarrow> my < e) \<and> e \<le> max my mx \<and> (\<not> ended \<longrightarrow> mx \<le> e)"
  using assms
proof (induction buf off mx my ls rule: domain_labels.induct)
  case (1 buf off mx my ls)
  note step = domain_labels.simps [of buf off mx my ls]
  show ?case
  proof (cases "my < mx")
    case True
    with "1.prems" step obtain l where l: "byte_at buf (off + my) = Inr l"
      by (auto elim!: rbind_InrE)
    consider "l = 0" | "l \<noteq> 0" "\<not> 63 < l" "\<not> mx < my + 1 + nat l"
      using True l "1.prems" step by (fastforce split: if_splits)
    then show ?thesis
    proof cases
      case 2
      with True l "1.prems" step
      have "domain_labels buf off mx (my + 1 + nat l) (ls @ [slice buf (off + (my + 1)) (nat l)])
          = Inr (e, ls', ended)"
        by simp
      from "1.IH" [OF True l refl 2 this] True 2 show ?thesis by auto
    qed (use True l "1.prems" step in auto)
  qed (use "1.prems" step in auto)
qed

lemma parse_domain_upto_bounds:
  assumes "parse_domain_upto lib buf off mx ar = Inr (n, name)"
  shows "n \<le> mx \<and> (0 < mx \<longrightarrow> 0 < n)"
  using assms domain_labels_end [of buf off mx 0 "[]"]
  by (fastforce simp: parse_domain_upto_def res_simps split: if_splits)

lemma domain_labels_not_fuel: "domain_labels buf off mx my ls \<noteq> Inl OutOfFuel"
proof (induction buf off mx my ls rule: domain_labels.induct)
  case (1 buf off mx my ls)
  then show ?case
    by (subst domain_labels.simps) (auto simp: res_simps Let_def)
qed

subsection \<open>Round trips\<close>

lemma encode_label_Inr:
  assumes "idna_labels lib" and "encode_label lib label = Inr bs"
  shows "bs = of_nat (length label) # map of_nat label \<and> 0 < length label \<and> length label \<le> 63
         \<and> list_all (\<lambda>c. c < 128) label"
  using assms
  by (auto simp: encode_label_def validate_domain_label_def ascii_encode_def idna_labels_def
      be_bytes_one res_simps split: sum.splits if_splits)

lemma domain_labels_part:
  assumes "idna_labels lib" and "encode_label lib label = Inr enc"
    and "off + my = length pre" and "my + length enc \<le> mx"
  shows "domain_labels (pre @ enc @ post) off mx my ls
         = domain_labels (pre @ enc @ post) off mx (my + length enc) (ls @ [map of_nat label])"
proof -
  from encode_label_Inr [OF assms(1,2)]
  have enc: "enc = of_nat (length label) # map of_nat label" and len: "0 < length label"
      "length label \<le> 63"
    by auto
  have at: "byte_at (pre @ enc @ post) (off + my) = Inr (int (length label))"
    using len by (simp add: byte_at_def assms(3) enc nth_append unsigned_of_nat take_bit_eq_mod)
  have "slice (pre @ enc @ post) (off + (my + 1)) (length label) = map of_nat label"
    using assms(3) by (simp add: slice_def enc add.assoc [symmetric])
  with at len assms(4) show ?thesis
    by (subst domain_labels.simps) (simp add: Let_def enc)
qed

lemma domain_labels_parts:
  assumes "idna_labels lib" and "concat_res (encode_label lib) parts = Inr enc"
    and "off + my = length pre" and "my + length enc \<le> mx"
  shows "domain_labels (pre @ enc @ post) off mx my ls
         = domain_labels (pre @ enc @ post) off mx (my + length enc) (ls @ map (map of_nat) parts)"
  using assms(2-)
proof (induction parts arbitrary: enc pre my ls)
  case (Cons label parts)
  then obtain a b where a: "encode_label lib label = Inr a"
    and b: "concat_res (encode_label lib) parts = Inr b" and enc: "enc = a @ b"
    by (auto simp: res_simps)
  have "domain_labels (pre @ a @ (b @ post)) off mx my ls
      = domain_labels (pre @ a @ (b @ post)) off mx (my + length a) (ls @ [map of_nat label])"
    by (rule domain_labels_part) (use assms(1) a Cons.prems enc in auto)
  moreover have "domain_labels ((pre @ a) @ b @ post) off mx (my + length a) (ls @ [map of_nat label])
      = domain_labels ((pre @ a) @ b @ post) off mx (my + length a + length b)
          ((ls @ [map of_nat label]) @ map (map of_nat) parts)"
    by (rule Cons.IH) (use b Cons.prems enc in auto)
  ultimately show ?case by (simp add: enc add.assoc)
qed simp

lemma wire_name_ascii:
  assumes "ascii_name lib name = Inr n"
  shows "wire_name lib name = Inr (map of_nat (rstrip_dots n @ [dot]))"
proof -
  have "list_all (\<lambda>c. c < 128) n"
    using assms by (auto simp: ascii_name_def ascii_decode_def list_all_iff Let_def
        split: sum.splits if_splits)
  then have "list_all (\<lambda>c. c < 128) (rstrip_dots n @ [dot])"
    by (auto simp: rstrip_dots_def list_all_iff dot_def dest: set_dropWhileD)
  then show ?thesis
    using assms by (simp add: wire_name_def ascii_encode_def)
qed

lemma wire_name_absolute:
  assumes "encode_domain lib name False = Inr bs"
  obtains wire where "wire_name lib name = Inr wire" and "last wire = of_nat dot"
  using assms wire_name_ascii by (fastforce simp: encode_domain_def Let_def elim!: rbind_InrE)

lemma encode_domain_last:
  "encode_domain lib name False = Inr bs \<Longrightarrow> last bs = 0 \<and> bs \<noteq> []"
  by (auto simp: encode_domain_def Let_def elim!: rbind_InrE)

lemma parse_encoded_domain:
  assumes lib: "idna_labels lib" and enc: "encode_domain lib name False = Inr bs"
    and mx: "length bs \<le> mx"
  shows "parse_domain_upto lib (pre @ bs @ post) (length pre) mx ar
         = rbind (rbind (wire_name lib name) (idna_decode lib)) (\<lambda>name'.
           if length name' > 254 then Inl ValueError else Inr (length bs, name'))"
proof -
  from enc obtain n labels where n: "ascii_name lib name = Inr n"
    and labels: "concat_res (encode_label lib) (split_on dot (rstrip_dots n)) = Inr labels"
    and bs: "bs = labels @ [0]"
    by (auto simp: encode_domain_def res_simps Let_def)
  let ?parts = "map (map (of_nat :: nat \<Rightarrow> byte)) (split_on dot (rstrip_dots n))"
  have "domain_labels (pre @ bs @ post) (length pre) mx 0 []
      = domain_labels (pre @ bs @ post) (length pre) mx (length labels) ?parts"
    using domain_labels_parts [OF lib labels, of "length pre" 0 pre mx "0 # post" "[]"] mx bs by simp
  also have "\<dots> = Inr (length bs, ?parts, True)"
    using mx by (subst domain_labels.simps) (simp add: bs byte_at_def nth_append)
  finally have loop: "domain_labels (pre @ bs @ post) (length pre) mx 0 [] = Inr (length bs, ?parts, True)" .
  note wire = wire_name_ascii [OF n]
  have "join (of_nat dot) ?parts @ [of_nat dot] = map of_nat (rstrip_dots n @ [dot])"
    by (simp add: map_join [symmetric])
  with loop wire show ?thesis by (simp add: parse_domain_upto_def)
qed

lemma domain_roundtrip:
  assumes "idna_labels lib" and "encode_domain lib name False = Inr bs" and "canonical lib name"
    and "length bs \<le> mx"
  shows "parse_domain_upto lib (pre @ bs @ post) (length pre) mx ar = Inr (length bs, name)"
  using parse_encoded_domain [OF assms(1,2,4)] assms(3) by (simp add: canonical_def)

lemma encode_domain_nonempty: "encode_domain lib name False = Inr bs \<Longrightarrow> bs \<noteq> []"
  by (auto simp: encode_domain_def res_simps Let_def)

text \<open>
  Lists of names: the length passed for a name is what remains of the list, so the loop is
  not an instance of \<open>item_codec\<close>, whose decoder knows its offset only.
\<close>

lemma domain_items_roundtrip:
  assumes lib: "idna_labels lib"
  shows "encode_domain_list lib names = Inr bs \<Longrightarrow> list_all (canonical lib) names \<Longrightarrow>
    off + my = length pre \<Longrightarrow> length bs < fuel \<Longrightarrow>
    items_loop fuel (\<lambda>k. parse_domain_bytes lib (pre @ bs @ post) k (Some (off + (my + length bs) - k)) False)
      off my (my + length bs) = Inr (my + length bs, names)"
proof (induction names arbitrary: bs pre my fuel)
  case Nil
  then obtain f where "fuel = Suc f" by (cases fuel) auto
  with Nil show ?case by (simp add: encode_domain_list_def)
next
  case (Cons name names)
  from Cons.prems(4) obtain f where fuel: "fuel = Suc f" by (cases fuel) auto
  from Cons.prems(1) obtain a b where a: "encode_domain lib name False = Inr a"
    and b: "encode_domain_list lib names = Inr b" and bs: "bs = a @ b"
    by (auto simp: encode_domain_list_def res_simps)
  have pos: "0 < length a" using encode_domain_nonempty [OF a] by simp
  have rest: "off + (my + (length a + length b)) - length pre = length a + length b"
    using Cons.prems(3) by linarith
  have "parse_domain_upto lib (pre @ a @ b @ post) (length pre) (length a + length b) False
      = Inr (length a, name)"
    by (rule domain_roundtrip) (use lib a Cons.prems(2) in auto)
  then have "parse_domain_bytes lib (pre @ bs @ post) (off + my) (Some (off + (my + length bs) - (off + my))) False
      = Inr (length a, name)"
    using pos Cons.prems(3) by (simp add: parse_domain_bytes_def bs rest)
  moreover have "items_loop f
      (\<lambda>k. parse_domain_bytes lib ((pre @ a) @ b @ post) k (Some (off + (my + length a + length b) - k)) False)
      off (my + length a) (my + length a + length b) = Inr (my + length a + length b, names)"
    by (rule Cons.IH) (use b Cons.prems bs fuel in \<open>auto simp del: length_greater_0_conv intro: less_le_trans\<close>, use pos in linarith)
  ultimately show ?case
    using pos by (simp add: fuel bs add.assoc)
qed

lemma domain_list_roundtrip:
  assumes "idna_labels lib" and "encode_domain_list lib names = Inr bs"
    and "list_all (canonical lib) names" and "bs \<noteq> []"
  shows "parse_domain_list_bytes lib (pre @ bs @ post) (length pre) (Some (length bs)) = Inr (length bs, names)"
  using domain_items_roundtrip [OF assms(1-3), of "length pre" 0 pre "Suc (length bs)" post] assms(4)
  by (simp add: parse_domain_list_bytes_def Let_def)

lemma parse_domain_bytes_progress:
  "parse_domain_bytes lib buf off (Some n) ar = Inr (m, name) \<Longrightarrow> 0 < n \<Longrightarrow> 0 < m \<and> m \<le> n"
  using parse_domain_upto_bounds by (fastforce simp: parse_domain_bytes_def)

lemma domain_items_end:
  "items_loop fuel (\<lambda>k. parse_domain_bytes lib buf k (Some (off + mx - k)) False) off my mx = Inr (e, xs) \<Longrightarrow>
   my \<le> mx \<Longrightarrow> e = mx"
proof (induction fuel arbitrary: my xs)
  case (Suc fuel)
  show ?case
  proof (cases "my < mx")
    case True
    with Suc.prems obtain n x ys
      where p: "parse_domain_bytes lib buf (off + my) (Some (mx - my)) False = Inr (n, x)"
        and r: "items_loop fuel (\<lambda>k. parse_domain_bytes lib buf k (Some (off + mx - k)) False) off (my + n) mx
          = Inr (e, ys)"
      by (auto simp: res_simps)
    have "my + n \<le> mx" using parse_domain_bytes_progress [OF p] True by linarith
    with Suc.IH [OF r] show ?thesis by simp
  qed (use Suc.prems in auto)
qed simp

lemma parse_domain_list_end:
  "parse_domain_list_bytes lib buf off len = Inr (e, xs) \<Longrightarrow> e = length_or len buf off"
  using domain_items_end unfolding parse_domain_list_bytes_def Let_def by blast

subsection \<open>A concrete package\<close>

text \<open>
  Host names in ASCII (letters, digits and hyphens) satisfy what is assumed of the package:
  used at the concrete inputs of the witnesses.
\<close>

definition host_label :: "pystr \<Rightarrow> bool" where
  "host_label label \<longleftrightarrow> 0 < length label \<and> length label \<le> 63
     \<and> list_all (\<lambda>c. c = 45 \<or> (48 \<le> c \<and> c \<le> 57) \<or> (97 \<le> c \<and> c \<le> 122)) label"

definition ascii_idna :: idna where
  "ascii_idna = \<lparr>
     idna_encode = (\<lambda>s. if list_all host_label (split_on dot (rstrip_dots s)) then ascii_encode s
                        else Inl ValueError),
     idna_decode = ascii_decode,
     idna_alabel = (\<lambda>label. if host_label label then ascii_encode label else Inl ValueError) \<rparr>"

lemma ascii_idna_labels [simp]: "idna_labels ascii_idna"
  by (auto simp: idna_labels_def ascii_idna_def host_label_def split: if_splits)

end
