(* ===== verification/DomainOptions.thy ===== *)
theory DomainOptions
  imports DomainNames OptionHeader Addresses
begin

text \<open>
  The options of dhcpkit/ipv6/extensions that hold domain names (dns.py, sip_servers.py,
  client_fqdn.py, dslite.py and ntp.py with its suboptions): \<open>validate\<close>, \<open>load_from\<close> and \<open>save\<close>
  of every class over the package \<open>idna\<close>.  They form a layer of their own: the options of
  theory Messages do not depend on that package, and a registry without these classes reads
  them as \<open>UnknownOption\<close>s.
\<close>

datatype ntp_suboption =
    UnknownNTPSubOption int bytes
  | NTPServerAddressSubOption "ipv6 option"
  | NTPMulticastAddressSubOption "ipv6 option"
  | NTPServerFQDNSubOption pystr

datatype domain_option =
    DomainSearchListOption "pystr list"
  | SIPServersDomainNameListOption "pystr list"
  | ClientFQDNOption int "pystr option"
  | AFTRNameOption pystr
  | NTPServersOption "ntp_suboption list"

type_synonym domain_loader = "idna \<Rightarrow> bytes \<Rightarrow> nat \<Rightarrow> nat option \<Rightarrow> (nat \<times> domain_option) res"

definition domain_buffer_save :: "int \<Rightarrow> bytes \<Rightarrow> bytes res" where
  "domain_buffer_save option_type domain_buffer =
     rbind (pack_fields [(2, option_type), (2, int (length domain_buffer))]) (\<lambda>h.
     Inr (h @ domain_buffer))"

subsection \<open>Lists of domain names\<close>

definition validate_domain_names :: "idna \<Rightarrow> pystr list \<Rightarrow> unit res" where
  "validate_domain_names lib names =
     for_all (\<lambda>name. rbind (encode_domain lib name False) (\<lambda>_. Inr ())) names"

definition domain_list_load_from :: "int \<Rightarrow> (pystr list \<Rightarrow> domain_option) \<Rightarrow> domain_loader" where
  "domain_list_load_from option_type construct lib buf off len =
     rbind (parse_option_header option_type 0 max_option_length buf off len)
       (\<lambda>(my_offset, option_len).
     rbind (parse_domain_list_bytes lib buf (off + my_offset) (Some option_len))
       (\<lambda>(parsed_len, names).
     Inr (my_offset + parsed_len, construct names)))"

definition domain_list_save :: "int \<Rightarrow> idna \<Rightarrow> pystr list \<Rightarrow> bytes res" where
  "domain_list_save option_type lib names =
     rbind (encode_domain_list lib names) (domain_buffer_save option_type)"

definition DomainSearchListOption_validate :: "idna \<Rightarrow> pystr list \<Rightarrow> unit res" where
  [simp]: "DomainSearchListOption_validate lib search_list = validate_domain_names lib search_list"

definition DomainSearchListOption_load_from :: domain_loader where
  [simp]: "DomainSearchListOption_load_from = domain_list_load_from 24 DomainSearchListOption"

definition DomainSearchListOption_save :: "idna \<Rightarrow> pystr list \<Rightarrow> bytes res" where
  [simp]: "DomainSearchListOption_save lib search_list = domain_list_save 24 lib search_list"

definition SIPServersDomainNameListOption_validate :: "idna \<Rightarrow> pystr list \<Rightarrow> unit res" where
  [simp]: "SIPServersDomainNameListOption_validate lib domain_names =
     validate_domain_names lib domain_names"

definition SIPServersDomainNameListOption_load_from :: domain_loader where
  [simp]: "SIPServersDomainNameListOption_load_from =
     domain_list_load_from 21 SIPServersDomainNameListOption"

definition SIPServersDomainNameListOption_save :: "idna \<Rightarrow> pystr list \<Rightarrow> bytes res" where
  [simp]: "SIPServersDomainNameListOption_save lib domain_names = domain_list_save 21 lib domain_names"

subsection \<open>ClientFQDNOption\<close>

definition server_aaaa_update :: "int \<Rightarrow> bool" where
  "server_aaaa_update flags = (flags AND 1 \<noteq> 0)"

definition server_aaaa_override :: "int \<Rightarrow> bool" where
  "server_aaaa_override flags = (flags AND 2 \<noteq> 0)"

definition no_server_dns_update :: "int \<Rightarrow> bool" where
  "no_server_dns_update flags = (flags AND 4 \<noteq> 0)"

text \<open>The three setters.\<close>

definition set_server_aaaa_update :: "bool \<Rightarrow> int \<Rightarrow> int" where
  "set_server_aaaa_update value flags = (if value then flags OR 1 else flags AND NOT 1)"

definition set_server_aaaa_override :: "bool \<Rightarrow> int \<Rightarrow> int" where
  "set_server_aaaa_override value flags = (if value then flags OR 2 else flags AND NOT 2)"

definition set_no_server_dns_update :: "bool \<Rightarrow> int \<Rightarrow> int" where
  "set_no_server_dns_update value flags = (if value then flags OR 4 else flags AND NOT 4)"

definition ClientFQDNOption_validate :: "idna \<Rightarrow> pystr option \<Rightarrow> unit res" where
  "ClientFQDNOption_validate lib domain_name =
     (case domain_name of
        None \<Rightarrow> Inr ()
      | Some name \<Rightarrow>
          if name = [] then Inr ()
          else rbind (encode_domain lib name True) (\<lambda>_. Inr ()))"

text \<open>
  The length passed for the name is \<open>option_len - 1\<close>: minus one for an option without flags,
  when the flags come from behind the option and no octet is left for the name, and zero for
  an option with flags only, which \<open>parse_domain_bytes\<close> takes for the rest of the buffer.
\<close>

definition ClientFQDNOption_load_from :: domain_loader where
  "ClientFQDNOption_load_from lib buf off len =
     rbind (parse_option_header 39 0 max_option_length buf off len) (\<lambda>(my_offset, option_len).
     let header_offset = my_offset in
     rbind (byte_at buf (off + my_offset)) (\<lambda>flags.
     let my_offset = my_offset + 1;
         max_offset = option_len + header_offset
     in
     rbind (if option_len = 0 then parse_domain_upto lib buf (off + my_offset) 0 True
            else parse_domain_bytes lib buf (off + my_offset) (Some (option_len - 1)) True)
       (\<lambda>(domain_name_len, domain_name).
     let my_offset = my_offset + domain_name_len in
     if my_offset \<noteq> max_offset then Inl ValueError
     else Inr (my_offset, ClientFQDNOption flags (Some domain_name)))))"

definition ClientFQDNOption_save :: "idna \<Rightarrow> int \<Rightarrow> pystr option \<Rightarrow> bytes res" where
  "ClientFQDNOption_save lib flags domain_name =
     (case domain_name of
        None \<Rightarrow> Inl ValueError
      | Some name \<Rightarrow>
          rbind (encode_domain lib name False) (\<lambda>domain_buffer.
          rbind (pack_fields [(2, 39), (2, 1 + int (length domain_buffer)), (1, flags)]) (\<lambda>h.
          Inr (h @ domain_buffer))))"

subsection \<open>AFTRNameOption\<close>

definition AFTRNameOption_validate :: "idna \<Rightarrow> pystr \<Rightarrow> unit res" where
  "AFTRNameOption_validate lib fqdn =
     rbind (encode_domain lib fqdn False) (\<lambda>b. guard (\<not> length b < 4) ValueError)"

definition AFTRNameOption_load_from :: domain_loader where
  "AFTRNameOption_load_from lib buf off len =
     rbind (parse_option_header 64 4 max_option_length buf off len) (\<lambda>(my_offset, option_len).
     let max_offset = option_len + my_offset in
     rbind (parse_domain_bytes lib buf (off + my_offset) (Some option_len) False)
       (\<lambda>(name_len, fqdn).
     let my_offset = my_offset + name_len in
     if my_offset \<noteq> max_offset then Inl ValueError
     else Inr (my_offset, AFTRNameOption fqdn)))"

definition AFTRNameOption_save :: "idna \<Rightarrow> pystr \<Rightarrow> bytes res" where
  "AFTRNameOption_save lib fqdn =
     rbind (encode_domain lib fqdn False) (domain_buffer_save 64)"

subsection \<open>The suboptions of NTPServersOption\<close>

definition parse_suboption_header ::
  "int \<Rightarrow> bytes \<Rightarrow> nat \<Rightarrow> nat option \<Rightarrow> (nat \<times> nat) res" where
  "parse_suboption_header self_type buf off len =
     rbind (unpack2 2 2 buf off) (\<lambda>(suboption_type, suboption_len).
     if suboption_type \<noteq> self_type then Inl ValueError
     else if (case len of None \<Rightarrow> False | Some l \<Rightarrow> nat suboption_len + 4 > l) then Inl ValueError
     else Inr (4, nat suboption_len))"

definition UnknownNTPSubOption_validate :: "int \<Rightarrow> bytes \<Rightarrow> unit res" where
  "UnknownNTPSubOption_validate suboption_type suboption_data =
     guard (0 \<le> suboption_type \<and> suboption_type < 2 ^ 16) ValueError"

definition UnknownNTPSubOption_load_from ::
  "bytes \<Rightarrow> nat \<Rightarrow> nat option \<Rightarrow> (nat \<times> ntp_suboption) res" where
  "UnknownNTPSubOption_load_from buf off len =
     rbind (unpack2 2 2 buf off) (\<lambda>(suboption_type, option_len).
     let my_offset = 4;
         max_length = length_or len buf off
     in
     if my_offset + nat option_len > max_length then Inl ValueError
     else Inr (my_offset + nat option_len,
               UnknownNTPSubOption suboption_type (slice buf (off + my_offset) (nat option_len))))"

definition UnknownNTPSubOption_save :: "int \<Rightarrow> bytes \<Rightarrow> bytes res" where
  "UnknownNTPSubOption_save suboption_type suboption_data =
     domain_buffer_save suboption_type suboption_data"

definition NTPServerAddressSubOption_validate :: "ipv6 option \<Rightarrow> unit res" where
  "NTPServerAddressSubOption_validate address =
     (case address of
        None \<Rightarrow> Inl ValueError
      | Some a \<Rightarrow>
          guard (\<not> (is_link_local a \<or> is_loopback a \<or> is_multicast a \<or> is_unspecified a)) ValueError)"

definition ntp_address_load_from ::
  "int \<Rightarrow> (ipv6 option \<Rightarrow> ntp_suboption) \<Rightarrow> bytes \<Rightarrow> nat \<Rightarrow> nat option \<Rightarrow> (nat \<times> ntp_suboption) res" where
  "ntp_address_load_from suboption_type construct buf off len =
     rbind (parse_suboption_header suboption_type buf off len) (\<lambda>(my_offset, suboption_len).
     if suboption_len \<noteq> 16 then Inl ValueError
     else
       rbind (ipv6_from_bytes (slice buf (off + my_offset) 16)) (\<lambda>address.
       Inr (my_offset + 16, construct (Some address))))"

definition ntp_address_save :: "int \<Rightarrow> ipv6 option \<Rightarrow> bytes res" where
  "ntp_address_save suboption_type address =
     rbind (pack_fields [(2, suboption_type), (2, 16)]) (\<lambda>h.
     case address of None \<Rightarrow> Inl AttributeError | Some a \<Rightarrow> Inr (h @ packed a))"

definition NTPServerAddressSubOption_load_from where
  [simp]: "NTPServerAddressSubOption_load_from = ntp_address_load_from 1 NTPServerAddressSubOption"

definition NTPServerAddressSubOption_save where
  [simp]: "NTPServerAddressSubOption_save address = ntp_address_save 1 address"

definition NTPMulticastAddressSubOption_validate :: "ipv6 option \<Rightarrow> unit res" where
  "NTPMulticastAddressSubOption_validate address =
     (case address of None \<Rightarrow> Inl ValueError | Some a \<Rightarrow> guard (is_multicast a) ValueError)"

definition NTPMulticastAddressSubOption_load_from where
  [simp]: "NTPMulticastAddressSubOption_load_from = ntp_address_load_from 2 NTPMulticastAddressSubOption"

definition NTPMulticastAddressSubOption_save where
  [simp]: "NTPMulticastAddressSubOption_save address = ntp_address_save 2 address"

definition NTPServerFQDNSubOption_validate :: "idna \<Rightarrow> pystr \<Rightarrow> unit res" where
  "NTPServerFQDNSubOption_validate lib fqdn =
     rbind (encode_domain lib fqdn False) (\<lambda>_. Inr ())"

definition NTPServerFQDNSubOption_load_from ::
  "idna \<Rightarrow> bytes \<Rightarrow> nat \<Rightarrow> nat option \<Rightarrow> (nat \<times> ntp_suboption) res" where
  "NTPServerFQDNSubOption_load_from lib buf off len =
     rbind (parse_suboption_header 3 buf off len) (\<lambda>(my_offset, suboption_len).
     let max_offset = suboption_len + my_offset in
     rbind (parse_domain_bytes lib buf (off + my_offset) (Some suboption_len) False)
       (\<lambda>(domain_name_len, fqdn).
     let my_offset = my_offset + domain_name_len in
     if my_offset \<noteq> max_offset then Inl ValueError
     else Inr (my_offset, NTPServerFQDNSubOption fqdn)))"

definition NTPServerFQDNSubOption_save :: "idna \<Rightarrow> pystr \<Rightarrow> bytes res" where
  "NTPServerFQDNSubOption_save lib fqdn =
     rbind (encode_domain lib fqdn False) (domain_buffer_save 3)"

fun ntp_suboption_validate :: "idna \<Rightarrow> ntp_suboption \<Rightarrow> unit res" where
  "ntp_suboption_validate lib (UnknownNTPSubOption t b) = UnknownNTPSubOption_validate t b"
| "ntp_suboption_validate lib (NTPServerAddressSubOption a) = NTPServerAddressSubOption_validate a"
| "ntp_suboption_validate lib (NTPMulticastAddressSubOption a) = NTPMulticastAddressSubOption_validate a"
| "ntp_suboption_validate lib (NTPServerFQDNSubOption n) = NTPServerFQDNSubOption_validate lib n"

fun ntp_suboption_save :: "idna \<Rightarrow> ntp_suboption \<Rightarrow> bytes res" where
  "ntp_suboption_save lib (UnknownNTPSubOption t b) = UnknownNTPSubOption_save t b"
| "ntp_suboption_save lib (NTPServerAddressSubOption a) = NTPServerAddressSubOption_save a"
| "ntp_suboption_save lib (NTPMulticastAddressSubOption a) = NTPMulticastAddressSubOption_save a"
| "ntp_suboption_save lib (NTPServerFQDNSubOption n) = NTPServerFQDNSubOption_save lib n"

text \<open>\<open>NTPSubOption.parse\<close>: the class that \<open>determine_class\<close> finds, with the registry of ntp.py.\<close>

definition NTPSubOption_parse :: "idna \<Rightarrow> bytes \<Rightarrow> nat \<Rightarrow> nat option \<Rightarrow> (nat \<times> ntp_suboption) res" where
  "NTPSubOption_parse lib buf off len =
     rbind (unpack1 2 buf off) (\<lambda>suboption_type.
     if suboption_type = 1 then NTPServerAddressSubOption_load_from buf off len
     else if suboption_type = 2 then NTPMulticastAddressSubOption_load_from buf off len
     else if suboption_type = 3 then NTPServerFQDNSubOption_load_from lib buf off len
     else UnknownNTPSubOption_load_from buf off len)"

subsection \<open>NTPServersOption\<close>

text \<open>\<open>validate_contains\<close> with the only rule of the class: at least one \<open>NTPSubOption\<close>.\<close>

definition NTPServersOption_validate :: "idna \<Rightarrow> ntp_suboption list \<Rightarrow> unit res" where
  "NTPServersOption_validate lib options =
     rbind (guard (1 \<le> length options) ValueError) (\<lambda>_.
     for_all (ntp_suboption_validate lib) options)"

definition NTPServersOption_load_from :: domain_loader where
  "NTPServersOption_load_from lib buf off len =
     rbind (parse_option_header 56 0 max_option_length buf off len) (\<lambda>(my_offset, option_len).
     let max_offset = option_len + my_offset in
     rbind (items_loop (Suc option_len) (\<lambda>k. NTPSubOption_parse lib buf k None) off my_offset max_offset)
       (\<lambda>(my_offset, options).
     if my_offset \<noteq> max_offset then Inl ValueError
     else Inr (my_offset, NTPServersOption options)))"

definition NTPServersOption_save :: "idna \<Rightarrow> ntp_suboption list \<Rightarrow> bytes res" where
  "NTPServersOption_save lib options =
     rbind (concat_res (ntp_suboption_save lib) options) (domain_buffer_save 56)"

subsection \<open>All classes\<close>

fun domain_validate :: "idna \<Rightarrow> domain_option \<Rightarrow> unit res" where
  "domain_validate lib (DomainSearchListOption ns) = DomainSearchListOption_validate lib ns"
| "domain_validate lib (SIPServersDomainNameListOption ns) = SIPServersDomainNameListOption_validate lib ns"
| "domain_validate lib (ClientFQDNOption f n) = ClientFQDNOption_validate lib n"
| "domain_validate lib (AFTRNameOption n) = AFTRNameOption_validate lib n"
| "domain_validate lib (NTPServersOption os) = NTPServersOption_validate lib os"

fun domain_save :: "idna \<Rightarrow> domain_option \<Rightarrow> bytes res" where
  "domain_save lib (DomainSearchListOption ns) = DomainSearchListOption_save lib ns"
| "domain_save lib (SIPServersDomainNameListOption ns) = SIPServersDomainNameListOption_save lib ns"
| "domain_save lib (ClientFQDNOption f n) = ClientFQDNOption_save lib f n"
| "domain_save lib (AFTRNameOption n) = AFTRNameOption_save lib n"
| "domain_save lib (NTPServersOption os) = NTPServersOption_save lib os"

fun domain_load_from :: "domain_option \<Rightarrow> domain_loader" where
  "domain_load_from (DomainSearchListOption _) = DomainSearchListOption_load_from"
| "domain_load_from (SIPServersDomainNameListOption _) = SIPServersDomainNameListOption_load_from"
| "domain_load_from (ClientFQDNOption _ _) = ClientFQDNOption_load_from"
| "domain_load_from (AFTRNameOption _) = AFTRNameOption_load_from"
| "domain_load_from (NTPServersOption _) = NTPServersOption_load_from"

fun domain_option_type :: "domain_option \<Rightarrow> int" where
  "domain_option_type (DomainSearchListOption _) = 24"
| "domain_option_type (SIPServersDomainNameListOption _) = 21"
| "domain_option_type (ClientFQDNOption _ _) = 39"
| "domain_option_type (AFTRNameOption _) = 64"
| "domain_option_type (NTPServersOption _) = 56"

end
