(* ===== verification/DomainCodec.thy ===== *)
theory DomainCodec
  imports DomainOptions
begin

text \<open>
  What the options with domain names guarantee: the round trip of every class and suboption,
  and where their loaders end.
\<close>

lemma domain_buffer_save_eq [res_simps]:
  "domain_buffer_save t b = Inr bs \<longleftrightarrow>
     0 \<le> t \<and> t < 65536 \<and> length b < 65536 \<and> bs = be_bytes 2 (nat t) @ be_bytes 2 (length b) @ b"
  by (auto simp: domain_buffer_save_def pack_fields_eq_Inr res_simps)

subsection \<open>Suboptions\<close>

fun suboption_representable :: "idna \<Rightarrow> ntp_suboption \<Rightarrow> bool" where
  "suboption_representable lib (UnknownNTPSubOption t b) \<longleftrightarrow> t \<notin> {1, 2, 3}"
| "suboption_representable lib (NTPServerFQDNSubOption n) \<longleftrightarrow> idna_labels lib \<and> canonical lib n"
| "suboption_representable lib _ \<longleftrightarrow> True"

lemmas suboption_simps =
  NTPSubOption_parse_def parse_suboption_header_def ntp_address_load_from_def ntp_address_save_def
  UnknownNTPSubOption_load_from_def UnknownNTPSubOption_save_def load_simps pack_fields_eq_Inr

lemma suboption_roundtrip:
  assumes repr: "suboption_representable lib x" and save: "ntp_suboption_save lib x = Inr bs"
  shows "NTPSubOption_parse lib (pre @ bs @ post) (length pre) None = Inr (length bs, x)"
proof (cases x)
  case (NTPServerFQDNSubOption n)
  with save obtain b where b: "encode_domain lib n False = Inr b" and fit: "length b < 65536"
    and bs: "bs = be_bytes 2 3 @ be_bytes 2 (length b) @ b"
    by (auto simp: NTPServerFQDNSubOption_save_def res_simps)
  have "b \<noteq> []" using encode_domain_nonempty [OF b] .
  moreover have "parse_domain_upto lib ((pre @ be_bytes 2 3 @ be_bytes 2 (length b)) @ b @ post)
      (length (pre @ be_bytes 2 3 @ be_bytes 2 (length b))) (length b) False = Inr (length b, n)"
    by (rule domain_roundtrip) (use repr NTPServerFQDNSubOption b in auto)
  ultimately show ?thesis
    using fit
    by (simp add: NTPServerFQDNSubOption NTPServerFQDNSubOption_load_from_def bs suboption_simps
        parse_domain_bytes_def)
qed (use assms in \<open>auto simp: suboption_simps domain_buffer_save_eq elim!: rbind_InrE
  split: option.splits\<close>)

interpretation ntp_suboption: item_codec "ntp_suboption_save lib"
  "\<lambda>buf k. NTPSubOption_parse lib buf k None" "suboption_representable lib" for lib
proof
  show "NTPSubOption_parse lib (pre @ bs @ post) (length pre) None = Inr (length bs, x)"
    if "suboption_representable lib x" and "ntp_suboption_save lib x = Inr bs" for x bs pre post
    using that by (rule suboption_roundtrip)
  show "bs \<noteq> []" if "ntp_suboption_save lib x = Inr bs" for x bs
    using that
    by (cases x) (auto simp: suboption_simps NTPServerFQDNSubOption_save_def res_simps
        split: option.splits)
qed

subsection \<open>Options\<close>

fun domain_representable :: "idna \<Rightarrow> domain_option \<Rightarrow> bool" where
  "domain_representable lib (DomainSearchListOption ns) \<longleftrightarrow>
     idna_labels lib \<and> ns \<noteq> [] \<and> list_all (canonical lib) ns"
| "domain_representable lib (SIPServersDomainNameListOption ns) \<longleftrightarrow>
     idna_labels lib \<and> ns \<noteq> [] \<and> list_all (canonical lib) ns"
| "domain_representable lib (ClientFQDNOption f n) \<longleftrightarrow>
     idna_labels lib \<and> (case n of None \<Rightarrow> False | Some name \<Rightarrow> canonical lib name)"
| "domain_representable lib (AFTRNameOption n) \<longleftrightarrow> idna_labels lib \<and> canonical lib n"
| "domain_representable lib (NTPServersOption os) \<longleftrightarrow> list_all (suboption_representable lib) os"

lemma encode_domain_list_nonempty:
  "encode_domain_list lib ns = Inr bs \<Longrightarrow> ns \<noteq> [] \<Longrightarrow> bs \<noteq> []"
  by (cases ns) (auto simp: encode_domain_list_def res_simps dest: encode_domain_nonempty)

lemma domain_list_option_roundtrip:
  assumes "domain_list_save t lib ns = Inr bs"
    and "idna_labels lib" and "ns \<noteq> []" and "list_all (canonical lib) ns"
  shows "domain_list_load_from t construct lib (pre @ bs @ post) (length pre) None
         = Inr (length bs, construct ns)"
proof -
  from assms(1) obtain b where b: "encode_domain_list lib ns = Inr b" and t: "0 \<le> t" "t < 65536"
    and fit: "length b < 65536" and bs: "bs = be_bytes 2 (nat t) @ be_bytes 2 (length b) @ b"
    by (auto simp: domain_list_save_def res_simps)
  have "parse_domain_list_bytes lib ((pre @ be_bytes 2 (nat t) @ be_bytes 2 (length b)) @ b @ post)
      (length (pre @ be_bytes 2 (nat t) @ be_bytes 2 (length b))) (Some (length b)) = Inr (length b, ns)"
    by (rule domain_list_roundtrip [OF assms(2) b assms(4)])
      (use encode_domain_list_nonempty [OF b assms(3)] in simp)
  then show ?thesis
    using t fit by (simp add: domain_list_load_from_def bs load_simps)
qed

lemma ClientFQDNOption_roundtrip:
  assumes "ClientFQDNOption_save lib f (Some n) = Inr bs" and "idna_labels lib" and "canonical lib n"
  shows "ClientFQDNOption_load_from lib (pre @ bs @ post) (length pre) None
         = Inr (length bs, ClientFQDNOption f (Some n))"
proof -
  from assms(1) obtain b where b: "encode_domain lib n False = Inr b" and f: "0 \<le> f" "f < 256"
    and fit: "1 + length b < 65536"
    and bs: "bs = be_bytes 2 39 @ be_bytes 2 (1 + length b) @ be_bytes 1 (nat f) @ b"
    by (auto simp: ClientFQDNOption_save_def pack_fields_eq_Inr res_simps nat_add_distrib)
  let ?h = "pre @ be_bytes 2 39 @ be_bytes 2 (1 + length b) @ be_bytes 1 (nat f)"
  have "b \<noteq> []" using encode_domain_nonempty [OF b] .
  moreover have "parse_domain_upto lib (?h @ b @ post) (length ?h) (length b) True = Inr (length b, n)"
    by (rule domain_roundtrip) (use assms b in auto)
  moreover have "nat (1 + int (length b)) = Suc (length b)" by linarith
  ultimately show ?thesis
    using f fit
    by (simp add: ClientFQDNOption_load_from_def bs load_simps parse_domain_bytes_def)
qed

lemma AFTRNameOption_roundtrip:
  assumes "AFTRNameOption_save lib n = Inr bs" and "AFTRNameOption_validate lib n = Inr ()"
    and "idna_labels lib" and "canonical lib n"
  shows "AFTRNameOption_load_from lib (pre @ bs @ post) (length pre) None
         = Inr (length bs, AFTRNameOption n)"
proof -
  from assms(1,2) obtain b where b: "encode_domain lib n False = Inr b" and fit: "length b < 65536"
    "4 \<le> length b" and bs: "bs = be_bytes 2 64 @ be_bytes 2 (length b) @ b"
    by (auto simp: AFTRNameOption_save_def AFTRNameOption_validate_def res_simps)
  let ?h = "pre @ be_bytes 2 64 @ be_bytes 2 (length b)"
  have "parse_domain_upto lib (?h @ b @ post) (length ?h) (length b) False = Inr (length b, n)"
    by (rule domain_roundtrip) (use assms b in auto)
  moreover have "0 < length b" using fit by linarith
  ultimately show ?thesis
    using fit
    by (simp add: AFTRNameOption_load_from_def bs load_simps parse_domain_bytes_def
        del: length_greater_0_conv)
qed

lemma NTPServersOption_roundtrip:
  assumes "NTPServersOption_save lib os = Inr bs" and "list_all (suboption_representable lib) os"
  shows "NTPServersOption_load_from lib (pre @ bs @ post) (length pre) None
         = Inr (length bs, NTPServersOption os)"
proof -
  from assms(1) obtain b where b: "concat_res (ntp_suboption_save lib) os = Inr b"
    and fit: "length b < 65536" and bs: "bs = be_bytes 2 56 @ be_bytes 2 (length b) @ b"
    by (auto simp: NTPServersOption_save_def res_simps)
  have "items_loop (Suc (length b))
      (\<lambda>k. NTPSubOption_parse lib ((pre @ be_bytes 2 56 @ be_bytes 2 (length b)) @ b @ post) k None)
      (length pre) 4 (4 + length b) = Inr (4 + length b, os)"
    by (rule ntp_suboption.items_roundtrip_octets) (use assms(2) b in \<open>auto simp: list_all_iff\<close>)
  then show ?thesis
    using fit
    by (simp add: NTPServersOption_load_from_def bs load_simps add.commute del: items_loop.simps)
qed

lemma domain_option_roundtrip:
  assumes "domain_save lib x = Inr bs" and "domain_validate lib x = Inr ()"
    and "domain_representable lib x"
  shows "domain_load_from x lib (pre @ bs @ post) (length pre) None = Inr (length bs, x)"
proof (cases x)
  case (ClientFQDNOption f n)
  with assms(3) obtain name where "n = Some name" by (auto split: option.splits)
  with ClientFQDNOption show ?thesis
    using assms ClientFQDNOption_roundtrip [of lib f name bs pre post] by simp
qed (use assms in \<open>auto intro!: domain_list_option_roundtrip AFTRNameOption_roundtrip
  NTPServersOption_roundtrip\<close>)

subsection \<open>Where a loader ends\<close>

lemma parse_suboption_header_InrD:
  "parse_suboption_header t buf off len = Inr (m, n) \<Longrightarrow> m = 4 \<and> off + 4 \<le> length buf"
  by (auto simp: parse_suboption_header_def unpack2_def elim!: rbind_InrE split: if_splits option.splits)

lemma NTPSubOption_parse_progress: "NTPSubOption_parse lib buf off len = Inr (n, x) \<Longrightarrow> 4 \<le> n"
  by (auto simp: NTPSubOption_parse_def ntp_address_load_from_def UnknownNTPSubOption_load_from_def
      NTPServerFQDNSubOption_load_from_def Let_def dest!: parse_suboption_header_InrD
      elim!: rbind_InrE split: if_splits)

text \<open>
  Except for the lists of names, a loader uses exactly the octets that the header of its
  option names; a list of names does so unless the header says that it is empty.
\<close>

definition declared_length :: "bytes \<Rightarrow> nat \<Rightarrow> nat" where
  "declared_length buf off = be_nat (slice buf (off + 2) 2)"

lemma parse_option_header_declared:
  "parse_option_header t mn mx buf off len = Inr (m, n) \<Longrightarrow> n = declared_length buf off"
  by (auto simp: parse_option_header_def Let_def unpack2_def declared_length_def
      elim!: rbind_InrE split: if_splits)

lemma parse_option_header_all:
  "parse_option_header t mn mx buf off len = Inr (m, n) \<Longrightarrow>
   m = 4 \<and> n = declared_length buf off \<and> 4 + n \<le> length_or len buf off"
  using parse_option_header_InrD parse_option_header_declared by blast

lemma domain_list_load_from_end:
  assumes "domain_list_load_from t construct lib buf off len = Inr (n, x)"
  shows "n = 4 + length_or (Some (declared_length buf off)) buf (off + 4)
         \<and> 4 + declared_length buf off \<le> length_or len buf off"
  using assms
  by (auto simp: domain_list_load_from_def elim!: rbind_InrE dest!: parse_domain_list_end
      dest: parse_option_header_InrD parse_option_header_declared)

lemma domain_option_end:
  assumes "domain_load_from x lib buf off len = Inr (n, y)"
  shows "(n = 4 + declared_length buf off \<or>
           declared_length buf off = 0 \<and> domain_option_type x \<in> {21, 24} \<and> off + n = length buf)
         \<and> 4 + declared_length buf off \<le> length_or len buf off"
proof -
  have *: ?thesis if "domain_list_load_from t construct lib buf off len = Inr (n, y)"
    and "domain_option_type x \<in> {21, 24}" for t construct
  proof -
    from that(1) have "off + 4 \<le> length buf"
      by (auto simp: domain_list_load_from_def elim!: rbind_InrE dest!: parse_option_header_InrD)
    with domain_list_load_from_end [OF that(1)] that(2) show ?thesis
      by (cases "declared_length buf off") auto
  qed
  show ?thesis
  proof (cases x)
    case (ClientFQDNOption f name)
    with assms show ?thesis
      by (auto simp: ClientFQDNOption_load_from_def Let_def elim!: rbind_InrE split: if_splits
          dest!: parse_option_header_all)
  next
    case (AFTRNameOption name)
    with assms show ?thesis
      by (auto simp: AFTRNameOption_load_from_def Let_def elim!: rbind_InrE split: if_splits
          dest!: parse_option_header_all)
  next
    case (NTPServersOption os)
    with assms show ?thesis
      by (auto simp: NTPServersOption_load_from_def Let_def elim!: rbind_InrE split: if_splits
          simp del: items_loop.simps dest!: parse_option_header_all)
  qed (use assms * in auto)
qed

subsection \<open>Fuel\<close>

definition idna_errors :: "idna \<Rightarrow> bool" where
  "idna_errors lib \<longleftrightarrow> (\<forall>b. idna_decode lib b \<noteq> Inl OutOfFuel)"

lemma parse_domain_upto_not_fuel:
  "idna_errors lib \<Longrightarrow> parse_domain_upto lib buf off mx ar \<noteq> Inl OutOfFuel"
  using domain_labels_not_fuel [of buf off mx 0 "[]"]
  by (auto simp: parse_domain_upto_def idna_errors_def res_simps)

lemma parse_domain_bytes_not_fuel:
  "idna_errors lib \<Longrightarrow> parse_domain_bytes lib buf off len ar \<noteq> Inl OutOfFuel"
  by (simp add: parse_domain_bytes_def parse_domain_upto_not_fuel)

lemma parse_domain_list_bytes_not_fuel:
  assumes "idna_errors lib"
  shows "parse_domain_list_bytes lib buf off len \<noteq> Inl OutOfFuel"
proof -
  let ?mx = "length_or len buf off"
  have "items_loop fuel (\<lambda>k. parse_domain_bytes lib buf k (Some (off + ?mx - k)) False) off my ?mx
      \<noteq> Inl OutOfFuel" if "?mx - my < fuel" for fuel my
    using that
  proof (induction fuel arbitrary: my)
    case (Suc fuel)
    have "items_loop fuel (\<lambda>k. parse_domain_bytes lib buf k (Some (off + ?mx - k)) False) off (my + n) ?mx
        \<noteq> Inl OutOfFuel"
      if "parse_domain_bytes lib buf (off + my) (Some (?mx - my)) False = Inr (n, x)" and "my < ?mx" for n x
      by (rule Suc.IH) (use parse_domain_bytes_progress [OF that(1)] that(2) Suc.prems in linarith)
    then show ?case
      using parse_domain_bytes_not_fuel [OF assms, of buf "off + my" "Some (?mx - my)" False]
      by (cases "parse_domain_bytes lib buf (off + my) (Some (?mx - my)) False") (auto simp: res_simps)
  qed simp
  from this [of 0 "Suc ?mx"] show ?thesis by (simp add: parse_domain_list_bytes_def Let_def)
qed

lemma parse_suboption_header_not_fuel [simp]: "parse_suboption_header t buf off len \<noteq> Inl OutOfFuel"
  by (auto simp: parse_suboption_header_def res_simps split: option.splits)

lemma NTPSubOption_parse_not_fuel:
  "idna_errors lib \<Longrightarrow> NTPSubOption_parse lib buf off len \<noteq> Inl OutOfFuel"
  by (auto simp: NTPSubOption_parse_def ntp_address_load_from_def UnknownNTPSubOption_load_from_def
      NTPServerFQDNSubOption_load_from_def Let_def parse_domain_bytes_not_fuel res_simps)

lemma NTPServersOption_load_from_not_fuel:
  assumes "idna_errors lib"
  shows "NTPServersOption_load_from lib buf off len \<noteq> Inl OutOfFuel"
proof -
  have "items_loop (Suc l) (\<lambda>k. NTPSubOption_parse lib buf k None) off m (l + m) \<noteq> Inl OutOfFuel" for l m
    by (rule items_loop_not_fuel)
      (use NTPSubOption_parse_not_fuel [OF assms] NTPSubOption_parse_progress in force)+
  then show ?thesis
    by (auto simp: NTPServersOption_load_from_def Let_def res_simps simp del: items_loop.simps)
qed

lemma domain_option_not_fuel:
  assumes "idna_errors lib"
  shows "domain_load_from x lib buf off len \<noteq> Inl OutOfFuel"
  by (cases x)
    (use NTPServersOption_load_from_not_fuel [OF assms] parse_domain_list_bytes_not_fuel [OF assms]
      parse_domain_bytes_not_fuel [OF assms] parse_domain_upto_not_fuel [OF assms]
      in \<open>auto simp: domain_list_load_from_def ClientFQDNOption_load_from_def
        AFTRNameOption_load_from_def Let_def res_simps\<close>)

subsection \<open>The flags of ClientFQDNOption\<close>

lemma flag_bits:
  "server_aaaa_update f = bit f 0" "server_aaaa_override f = bit f 1" "no_server_dns_update f = bit f 2"
  using and_exp_eq_0_iff_not_bit [of f 0] and_exp_eq_0_iff_not_bit [of f 1] and_exp_eq_0_iff_not_bit [of f 2]
  by (simp_all add: server_aaaa_update_def server_aaaa_override_def no_server_dns_update_def)

lemma setter_bits:
  "set_server_aaaa_update v f = (if v then set_bit 0 f else unset_bit 0 f)"
  "set_server_aaaa_override v f = (if v then set_bit 1 f else unset_bit 1 f)"
  "set_no_server_dns_update v f = (if v then set_bit 2 f else unset_bit 2 f)"
  by (simp_all add: set_server_aaaa_update_def set_server_aaaa_override_def
      set_no_server_dns_update_def set_bit_eq_or unset_bit_eq_and_not)

end
