(* ===== verification/DomainProperties.thy ===== *)
theory DomainProperties
  imports DomainCodec
begin

text \<open>
  The properties of domain names on the wire and of the options that hold them, with the
  package \<open>idna\<close> as a parameter.
\<close>

definition example_name :: pystr where
  "example_name = lit ''a.example.''"

lemma example_name [simp]:
  "canonical ascii_idna example_name"
  by code_simp

definition example_bytes :: bytes where
  "example_bytes = [1, 97, 7, 101, 120, 97, 109, 112, 108, 101, 0]"

lemma encode_example [simp]: "encode_domain ascii_idna example_name False = Inr example_bytes"
  by code_simp

text \<open>
   A name that \<open>encode_domain\<close> accepts is read back by \<open>parse_domain_bytes\<close> from any place
  in a buffer, with its own octets used and nothing behind them read, as the name that the
  package makes of its ASCII form: the encoding loses nothing but what the package loses.
\<close>

lemma encoded_name_is_decoded:
  assumes "idna_labels lib" and "encode_domain lib name False = Inr bs" and "length bs \<le> n"
  shows "parse_domain_bytes lib (pre @ bs @ post) (length pre) (Some n) ar
         = rbind (rbind (wire_name lib name) (idna_decode lib)) (\<lambda>name'.
           if length name' > 254 then Inl ValueError else Inr (length bs, name'))"
  using parse_encoded_domain [OF assms, of pre post ar] encode_domain_nonempty [OF assms(2)] assms(3)
  by (cases n) (auto simp: parse_domain_bytes_def)

lemma encoded_name_is_decoded_witness:
  "parse_domain_bytes ascii_idna ([7] @ example_bytes @ [8]) 1 (Some 12) False = Inr (11, example_name)"
proof -
  have "rbind (wire_name ascii_idna example_name) (idna_decode ascii_idna) = Inr example_name"
    using example_name by (simp add: canonical_def)
  then show ?thesis
    using encoded_name_is_decoded [OF ascii_idna_labels encode_example, of 12 "[7]" "[8]" False]
    by (simp add: example_bytes_def example_name_def)
qed

text \<open>
  C15.  Every option with domain names that validates and is saved is read back by its class
  from any place in a buffer, using exactly its own octets (lists of names must not be empty,
  names must be such that the package reads them back).
\<close>

theorem saved_domain_option_parses:
  assumes "domain_save lib x = Inr bs" and "domain_validate lib x = Inr ()"
    and "domain_representable lib x"
  shows "domain_load_from x lib (pre @ bs @ post) (length pre) None = Inr (length bs, x)"
  using assms by (rule domain_option_roundtrip)

definition example_ntp :: domain_option where
  "example_ntp = NTPServersOption
     [NTPServerFQDNSubOption example_name, UnknownNTPSubOption 9 [5, 6]]"

theorem saved_domain_option_parses_witness:
  "domain_load_from example_ntp ascii_idna
     ([9] @ ([0, 56, 0, 21, 0, 3, 0, 11] @ example_bytes
       @ [0, 9, 0, 2, 5, 6]) @ [1, 2]) 1 None
   = Inr (25, example_ntp)"
proof -
  have "domain_save ascii_idna example_ntp
      = Inr ([0, 56, 0, 21, 0, 3, 0, 11] @ example_bytes
         @ [0, 9, 0, 2, 5, 6])" (is "_ = Inr ?b")
    by code_simp
  moreover have "domain_validate ascii_idna example_ntp = Inr ()" by code_simp
  moreover have "domain_representable ascii_idna example_ntp" by (simp add: example_ntp_def)
  ultimately have "domain_load_from example_ntp ascii_idna ([9] @ ?b @ [1, 2]) (length [9 :: byte]) None
      = Inr (length ?b, example_ntp)"
    by (rule saved_domain_option_parses)
  then show ?thesis by (simp add: example_bytes_def)
qed

text \<open>
   A loader uses exactly the octets that the header of its option declares, within the
  length given, with one exception: a list of names that declares no octets at all uses the
  buffer to its end.
\<close>

lemma domain_option_uses_declared_octets:
  assumes "domain_load_from x lib buf off len = Inr (n, y)"
  shows "(n = 4 + declared_length buf off \<or>
           declared_length buf off = 0 \<and> domain_option_type x \<in> {21, 24} \<and> off + n = length buf)
         \<and> 4 + declared_length buf off \<le> length_or len buf off"
  using assms by (rule domain_option_end)

lemma domain_option_uses_declared_octets_witness:
  "declared_length ([0, 64, 0, 11] @ example_bytes @ [9, 9]) 0 = 11"
proof -
  let ?b = "[0, 64, 0, 11] @ example_bytes"
  have "AFTRNameOption_save ascii_idna example_name = Inr ?b"
    by code_simp
  from AFTRNameOption_roundtrip [OF this, of "[]" "[9, 9]"]
  have "domain_load_from (AFTRNameOption []) ascii_idna (?b @ [9, 9]) 0 None
      = Inr (length ?b, AFTRNameOption example_name)"
    by (simp add: AFTRNameOption_validate_def example_bytes_def)
  from domain_option_uses_declared_octets [OF this] show ?thesis by (simp add: example_bytes_def)
qed

text \<open>
  C40.  An empty list of names is saved as an option without data, but what is read back are
  the names that follow it: the length zero is taken for no length, so the loader runs to the
  end of the buffer.
\<close>

theorem empty_name_list_swallows_what_follows:
  assumes lib: "idna_labels lib" and names: "encode_domain_list lib names = Inr bs"
    and ok: "names \<noteq> []" "list_all (canonical lib) names"
  shows "\<exists>h. domain_save lib (DomainSearchListOption []) = Inr h
         \<and> domain_load_from (DomainSearchListOption []) lib (h @ bs) 0 None
           = Inr (length h + length bs, DomainSearchListOption names)"
proof -
  let ?h = "be_bytes 2 24 @ be_bytes 2 0"
  have save: "domain_save lib (DomainSearchListOption []) = Inr ?h"
    by (simp add: domain_list_save_def encode_domain_list_def domain_buffer_save_eq)
  have ne: "bs \<noteq> []" using encode_domain_list_nonempty [OF names ok(1)] .
  have "parse_domain_list_bytes lib (?h @ bs) 4 (Some 0)
      = parse_domain_list_bytes lib (?h @ bs) 4 (Some (length bs))"
    using ne by (simp add: parse_domain_list_bytes_def)
  also have "\<dots> = Inr (length bs, names)"
    using domain_list_roundtrip [OF lib names ok(2) ne, of ?h "[]"] by simp
  finally have "parse_domain_list_bytes lib (?h @ bs) 4 (Some 0) = Inr (length bs, names)" .
  then have "domain_load_from (DomainSearchListOption []) lib (?h @ bs) 0 None
      = Inr (4 + length bs, DomainSearchListOption names)"
    by (simp add: domain_list_load_from_def load_simps)
  with save show ?thesis by auto
qed

theorem empty_name_list_swallows_what_follows_witness:
  "domain_load_from (DomainSearchListOption []) ascii_idna ([0, 24, 0, 0] @ example_bytes) 0 None
   = Inr (15, DomainSearchListOption [example_name])"
proof -
  have "encode_domain_list ascii_idna [example_name] = Inr example_bytes"
    by (simp add: encode_domain_list_def)
  from empty_name_list_swallows_what_follows [OF ascii_idna_labels this] obtain h
    where h: "domain_save ascii_idna (DomainSearchListOption []) = Inr h"
      and l: "domain_load_from (DomainSearchListOption []) ascii_idna (h @ example_bytes) 0 None
        = Inr (length h + length example_bytes, DomainSearchListOption [example_name])"
    by auto
  have "domain_save ascii_idna (DomainSearchListOption []) = Inr [0, 24, 0, 0]" by code_simp
  with h have "h = [0, 24, 0, 0]" by simp
  with l show ?thesis by (simp add: example_bytes_def del: domain_load_from.simps)
qed

text \<open>
   Whatever name a client FQDN option holds, relative or not, what is saved is the absolute
  name: the octets end with the label of length zero and the name read back is the decoding of
  an ASCII form that ends with a dot.  The validation accepts relative names all the same.
\<close>

lemma fqdn_saved_as_absolute_name:
  assumes lib: "idna_labels lib" and save: "domain_save lib (ClientFQDNOption flags (Some name)) = Inr bs"
  shows "last bs = 0 \<and>
    (\<exists>wire. last wire = of_nat dot \<and>
       domain_load_from (ClientFQDNOption 0 None) lib (pre @ bs @ post) (length pre) None
       = rbind (idna_decode lib wire) (\<lambda>name'.
           if length name' > 254 then Inl ValueError
           else Inr (length bs, ClientFQDNOption flags (Some name'))))"
proof -
  from save obtain b where b: "encode_domain lib name False = Inr b" and f: "0 \<le> flags" "flags < 256"
    and fit: "1 + length b < 65536"
    and bs: "bs = be_bytes 2 39 @ be_bytes 2 (1 + length b) @ be_bytes 1 (nat flags) @ b"
    by (auto simp: ClientFQDNOption_save_def pack_fields_eq_Inr nat_add_distrib elim!: rbind_InrE)
  from b obtain wire where wire: "wire_name lib name = Inr wire" and dot: "last wire = of_nat dot"
    and b0: "last b = 0" "b \<noteq> []"
    using wire_name_absolute [OF b] encode_domain_last [OF b] by auto
  let ?h = "pre @ be_bytes 2 39 @ be_bytes 2 (1 + length b) @ be_bytes 1 (nat flags)"
  have "parse_domain_upto lib (?h @ b @ post) (length ?h) (length b) True
      = rbind (idna_decode lib wire) (\<lambda>name'.
          if length name' > 254 then Inl ValueError else Inr (length b, name'))"
    using parse_encoded_domain [OF lib b, of "length b" ?h post True] wire by simp
  moreover have "nat (1 + int (length b)) = Suc (length b)" by linarith
  ultimately have "domain_load_from (ClientFQDNOption 0 None) lib (pre @ bs @ post) (length pre) None
       = rbind (idna_decode lib wire) (\<lambda>name'.
           if length name' > 254 then Inl ValueError
           else Inr (length bs, ClientFQDNOption flags (Some name')))"
    using f fit b0
    by (cases "idna_decode lib wire")
      (simp_all add: ClientFQDNOption_load_from_def bs load_simps parse_domain_bytes_def)
  with dot b0 show ?thesis by (auto simp: bs)
qed

lemma fqdn_saved_as_absolute_name_witness:
  "domain_validate ascii_idna (ClientFQDNOption 1 (Some (lit ''host''))) = Inr () \<and>
   last [0, 39, 0, 7, 1, 4, 104, 111, 115, 116, 0 :: byte] = 0"
proof -
  have "domain_save ascii_idna (ClientFQDNOption 1 (Some (lit ''host'')))
      = Inr [0, 39, 0, 7, 1, 4, 104, 111, 115, 116, 0]"
    by code_simp
  moreover have "domain_validate ascii_idna (ClientFQDNOption 1 (Some (lit ''host''))) = Inr ()"
    by code_simp
  ultimately show ?thesis
    using fqdn_saved_as_absolute_name [OF ascii_idna_labels] by blast
qed

text \<open>
   A client FQDN option with an empty name (only the flags), by which a client asks the server
  to choose a name, is never read wherever anything follows it; at the end of a buffer it is
  read only if the package decodes the empty string.
\<close>

lemma fqdn_without_name_is_rejected:
  assumes "idna_errors lib" and "idna_decode lib [] = Inl e"
    and "declared_length buf off = 1"
  shows "\<exists>e'. domain_load_from (ClientFQDNOption 0 None) lib buf off len = Inl e'"
proof (cases "domain_load_from (ClientFQDNOption 0 None) lib buf off len")
  case (Inr r)
  then obtain m n k name where h: "parse_option_header 39 0 max_option_length buf off len = Inr (m, n)"
    and p: "parse_domain_upto lib buf (off + m + 1) (length_or (Some (n - 1)) buf (off + m + 1)) True = Inr (k, name)"
    and e: "m + 1 + k = n + m" and n: "n \<noteq> 0"
    by (cases r)
      (auto simp: ClientFQDNOption_load_from_def Let_def parse_domain_bytes_def add.assoc elim!: rbind_InrE
        split: if_splits dest: parse_domain_upto_bounds)
  from parse_option_header_all [OF h] assms(3) have "n = 1" by simp
  with e have k: "k = 0" by simp
  with parse_domain_upto_bounds [OF p] have mx: "length_or (Some (n - 1)) buf (off + m + 1) = 0"
    by (cases "length_or (Some (n - 1)) buf (off + m + 1)") auto
  from p assms(2) have False unfolding mx
    by (subst (asm) parse_domain_upto_def, subst (asm) domain_labels.simps) simp
  then show ?thesis ..
qed auto

lemma fqdn_without_name_is_rejected_witness:
  "\<exists>e'. domain_load_from (ClientFQDNOption 0 None)
     (ascii_idna\<lparr>idna_decode := (\<lambda>b. if b = [] then Inl ValueError else ascii_decode b)\<rparr>)
     [0, 39, 0, 1, 1, 0, 14, 0, 0] 0 None = Inl e'"
  by (rule fqdn_without_name_is_rejected)
    (auto simp: idna_errors_def declared_length_def slice_def be_nat.simps)

end
