(* ===== verification/LeaseStore.thy ===== *)
theory LeaseStore
  imports Leasequery "HOL-Library.AList"
begin

text \<open>
  dhcpkit/ipv6/server/extensions/leasequery/sqlite.py: the store that remembers the leases of
  the replies and answers leasequeries.  The tables of the database are lists of rows, and
  every statement is the operation on the lists that SQL defines; a \<open>SELECT\<close> without an order
  yields the rows in the order of the list.  Addresses are compared in the code as
  hexadecimal strings of equal length (\<open>exploded\<close>), which is the comparison of the numbers.
  The times that \<open>time.time()\<close> returns are arguments.
\<close>

subsection \<open>The tables\<close>

record client_row =
  row_id :: int
  row_client_id :: pystr
  row_link_address :: ipv6
  row_options :: bytes
  last_interaction :: int
  row_relay_data :: bytes

text \<open>A row of \<open>addresses\<close> has an address as its key, a row of \<open>prefixes\<close> the ends of its range.\<close>

record 'k lease_row =
  lease_fk :: int
  lease_key :: 'k
  preferred_lifetime_end :: int
  valid_lifetime_end :: int
  lease_options :: bytes

record lease_store =
  last_row_id :: int
  clients :: "client_row list"
  addresses :: "ipv6 lease_row list"
  prefixes :: "(ipv6 \<times> ipv6) lease_row list"
  remote_ids :: "(int \<times> pystr) list"
  relay_ids :: "(int \<times> pystr) list"

text \<open>The tables as \<open>create_tables\<close> creates them.\<close>

definition empty_store :: lease_store where
  "empty_store = \<lparr>last_row_id = 0, clients = [], addresses = [], prefixes = [], remote_ids = [], relay_ids = []\<rparr>"

text \<open>
  A method on the database returns or raises, with the database after it; \<open>with self.db\<close>
  undoes the changes of a block that raises.
\<close>

type_synonym 'a db = "lease_store \<Rightarrow> 'a res \<times> lease_store"

definition db_bind :: "'a db \<Rightarrow> ('a \<Rightarrow> 'b db) \<Rightarrow> 'b db" where
  "db_bind m f st =
     (case m st of (Inl e, st') \<Rightarrow> (Inl e, st') | (Inr x, st') \<Rightarrow> f x st')"

definition db_res :: "'a res \<Rightarrow> 'a db" where
  "db_res r st = (r, st)"

definition transaction :: "'a db \<Rightarrow> 'a db" where
  "transaction m st = (case m st of (Inl e, st') \<Rightarrow> (Inl e, st) | (Inr x, st') \<Rightarrow> (Inr x, st'))"

subsection \<open>Clients\<close>

definition same_client :: "pystr \<Rightarrow> ipv6 \<Rightarrow> client_row \<Rightarrow> bool" where
  "same_client client_id query_link row \<longleftrightarrow> row_client_id row = client_id \<and> row_link_address row = query_link"

text \<open>\<open>INSERT OR IGNORE\<close> ignores a row that the table has; a new row gets the next identifier.\<close>

definition get_client_row_id :: "pystr \<Rightarrow> ipv6 \<Rightarrow> bool \<Rightarrow> int option db" where
  "get_client_row_id client_id query_link create st =
     (case find (same_client client_id query_link) (clients st) of
        Some row \<Rightarrow> (Inr (Some (row_id row)), st)
      | None \<Rightarrow>
          if create then
            (let i = last_row_id st + 1 in
             (Inr (Some i),
              st\<lparr>last_row_id := i,
                 clients := clients st @ [\<lparr>row_id = i, row_client_id = client_id, row_link_address = query_link,
                   row_options = [], last_interaction = -1, row_relay_data = []\<rparr>]\<rparr>))
          else (Inr None, st))"

definition update_last_interaction ::
  "int list \<Rightarrow> int \<Rightarrow> int \<Rightarrow> dhcp_option list \<Rightarrow> relay option \<Rightarrow> unit db" where
  "update_last_interaction sensitive_options now client_row_id options relay_chain st =
     db_bind (db_res (encode_options sensitive_options options)) (\<lambda>options.
     db_bind (db_res (encode_relay_messages sensitive_options relay_chain)) (\<lambda>relay_data st.
     (Inr (),
      st\<lparr>clients := map (\<lambda>row. if row_id row = client_row_id
            then row\<lparr>last_interaction := now, row_options := options, row_relay_data := relay_data\<rparr>
            else row) (clients st)\<rparr>))) st"

subsection \<open>Remote ids and relay ids\<close>

definition insert_or_ignore :: "'a \<Rightarrow> 'a list \<Rightarrow> 'a list" where
  "insert_or_ignore row table = (if row \<in> set table then table else table @ [row])"

text \<open>
  The loop over the rows of the client: a row that is in the list of new ids is kept and taken
  off the list, any other is deleted.
\<close>

fun keep_or_delete :: "int \<Rightarrow> pystr list \<Rightarrow> pystr list \<Rightarrow> (int \<times> pystr) list \<Rightarrow> pystr list \<times> (int \<times> pystr) list" where
  "keep_or_delete fk [] ids table = (ids, table)"
| "keep_or_delete fk (row # rows) ids table =
     (if row \<in> set ids then keep_or_delete fk rows (remove1 row ids) table
      else keep_or_delete fk rows ids (filter (\<lambda>r. r \<noteq> (fk, row)) table))"

definition replace_ids :: "int \<Rightarrow> pystr list \<Rightarrow> (int \<times> pystr) list \<Rightarrow> (int \<times> pystr) list" where
  "replace_ids fk ids table =
     (let rows = map snd (filter (\<lambda>(f, i). f = fk) table);
          (ids, table) = keep_or_delete fk rows ids table
      in fold (\<lambda>i. insert_or_ignore (fk, i)) ids table)"

definition replace_remote_ids :: "int \<Rightarrow> pystr list \<Rightarrow> unit db" where
  "replace_remote_ids client_row_id ids st =
     (Inr (), st\<lparr>remote_ids := replace_ids client_row_id ids (remote_ids st)\<rparr>)"

definition replace_relay_ids :: "int \<Rightarrow> pystr list \<Rightarrow> unit db" where
  "replace_relay_ids client_row_id ids st =
     (Inr (), st\<lparr>relay_ids := replace_ids client_row_id ids (relay_ids st)\<rparr>)"

subsection \<open>Leases\<close>

text \<open>What is stored of a lease: the lifetimes and the options.\<close>

type_synonym new_lease = "int \<times> int \<times> dhcp_option list"

fun new_address_lease :: "dhcp_option \<Rightarrow> (ipv6 \<times> new_lease) res" where
  "new_address_lease (IAAddressOption (Some address) preferred valid options) =
     Inr (address, preferred, valid, options)"
| "new_address_lease _ = Inl AttributeError"

definition network_range :: "ipv6_network \<Rightarrow> ipv6 \<times> ipv6" where
  "network_range n = (network_address n, broadcast_address n)"

fun new_prefix_lease :: "dhcp_option \<Rightarrow> ((ipv6 \<times> ipv6) \<times> new_lease) res" where
  "new_prefix_lease (IAPrefixOption (Some prefix) preferred valid options) =
     Inr (network_range prefix, preferred, valid, options)"
| "new_prefix_lease _ = Inl TypeError"

text \<open>The dictionary of the new leases: a later lease of a key replaces an earlier one.\<close>

fun lease_dict ::
  "(dhcp_option \<Rightarrow> ('k \<times> new_lease) res) \<Rightarrow> dhcp_option list \<Rightarrow> ('k \<times> new_lease) list \<Rightarrow>
   ('k \<times> new_lease) list res" where
  "lease_dict entry [] leases = Inr leases"
| "lease_dict entry (option # options) leases =
     rbind (entry option) (\<lambda>(k, l). lease_dict entry options (AList.update k l leases))"

definition make_lease_row :: "int list \<Rightarrow> int \<Rightarrow> int \<Rightarrow> 'k \<Rightarrow> new_lease \<Rightarrow> 'k lease_row res" where
  "make_lease_row sensitive_options now fk k = (\<lambda>(preferred, valid, options).
     rbind (encode_options sensitive_options options) (\<lambda>options.
     Inr \<lparr>lease_fk = fk, lease_key = k, preferred_lifetime_end = now + preferred,
          valid_lifetime_end = now + valid, lease_options = options\<rparr>))"

text \<open>
  The four statements on a table: delete what other clients hold of the new leases, update the
  client's rows that are leased again, insert the rest, and delete the client's expired rows.
  \<open>overlap\<close> says which keys of other clients a new key displaces.
\<close>

definition delete_others ::
  "('k \<Rightarrow> 'k \<Rightarrow> bool) \<Rightarrow> int \<Rightarrow> ('k \<times> new_lease) list \<Rightarrow> 'k lease_row list \<Rightarrow> 'k lease_row list" where
  "delete_others overlap fk leases table =
     filter (\<lambda>r. \<not> (lease_fk r \<noteq> fk \<and> list_ex (\<lambda>(k, l). overlap k (lease_key r)) leases)) table"

definition update_rows ::
  "int list \<Rightarrow> int \<Rightarrow> int \<Rightarrow> ('k \<times> new_lease) list \<Rightarrow> 'k lease_row list \<Rightarrow> 'k lease_row list res" where
  "update_rows sensitive_options now fk leases table =
     concat_res (\<lambda>r.
       if lease_fk r = fk then
         (case map_of leases (lease_key r) of
            None \<Rightarrow> Inr [r]
          | Some l \<Rightarrow> rbind (make_lease_row sensitive_options now fk (lease_key r) l) (\<lambda>r. Inr [r]))
       else Inr [r]) table"

definition insert_rows ::
  "int list \<Rightarrow> int \<Rightarrow> int \<Rightarrow> ('k \<times> new_lease) list \<Rightarrow> 'k lease_row list \<Rightarrow> 'k lease_row list res" where
  "insert_rows sensitive_options now fk leases table =
     concat_res (\<lambda>(k, l).
       if list_ex (\<lambda>r. lease_fk r = fk \<and> lease_key r = k) table then Inr []
       else rbind (make_lease_row sensitive_options now fk k l) (\<lambda>r. Inr [r])) leases"

definition update_leases ::
  "('k \<Rightarrow> 'k \<Rightarrow> bool) \<Rightarrow> int list \<Rightarrow> int \<Rightarrow> int \<Rightarrow> ('k \<times> new_lease) list \<Rightarrow> 'k lease_row list \<Rightarrow>
   'k lease_row list res" where
  "update_leases overlap sensitive_options now fk leases table =
     (let table = delete_others overlap fk leases table in
      rbind (update_rows sensitive_options now fk leases table) (\<lambda>updated.
      rbind (insert_rows sensitive_options now fk leases updated) (\<lambda>inserted.
      Inr (filter (\<lambda>r. \<not> (lease_fk r = fk \<and> valid_lifetime_end r < now)) (updated @ inserted)))))"

definition ranges_overlap :: "ipv6 \<times> ipv6 \<Rightarrow> ipv6 \<times> ipv6 \<Rightarrow> bool" where
  "ranges_overlap = (\<lambda>(first_address, last_address) (first_row, last_row).
     first_row \<le> last_address \<and> last_row \<ge> first_address)"

definition update_address_leases :: "int list \<Rightarrow> int \<Rightarrow> int \<Rightarrow> dhcp_option list \<Rightarrow> unit db" where
  "update_address_leases sensitive_options now client_row_id address_leases =
     db_bind (db_res (lease_dict new_address_lease address_leases [])) (\<lambda>new_leases.
     transaction (\<lambda>st.
       case update_leases (=) sensitive_options now client_row_id new_leases (addresses st) of
         Inl e \<Rightarrow> (Inl e, st)
       | Inr table \<Rightarrow> (Inr (), st\<lparr>addresses := table\<rparr>)))"

definition update_prefix_leases :: "int list \<Rightarrow> int \<Rightarrow> int \<Rightarrow> dhcp_option list \<Rightarrow> unit db" where
  "update_prefix_leases sensitive_options now client_row_id prefix_leases =
     db_bind (db_res (lease_dict new_prefix_lease prefix_leases [])) (\<lambda>new_leases.
     transaction (\<lambda>st.
       case update_leases ranges_overlap sensitive_options now client_row_id new_leases (prefixes st) of
         Inl e \<Rightarrow> (Inl e, st)
       | Inr table \<Rightarrow> (Inr (), st\<lparr>prefixes := table\<rparr>)))"

subsection \<open>Remembering a transaction\<close>

definition client_id_of :: "transaction_bundle \<Rightarrow> pystr res" where
  "client_id_of b =
     (case get_option_of_type [C_ClientIdOption] (request_options b) of
        Some (Plain (ClientIdOption d)) \<Rightarrow> encode_duid d
      | _ \<Rightarrow> Inl AttributeError)"

definition link_of :: "transaction_bundle \<Rightarrow> ipv6 res" where
  "link_of b =
     rbind (link_address b) (\<lambda>a. case a of None \<Rightarrow> Inl AttributeError | Some a \<Rightarrow> Inr a)"

text \<open>The leases of a reply: none unless the request asked for leases and was accepted.\<close>

definition reply_leases :: "transaction_bundle \<Rightarrow> (dhcp_option list \<times> dhcp_option list) res" where
  "reply_leases b =
     (case request b of
        None \<Rightarrow> Inr ([], [])
      | Some req \<Rightarrow>
          if cs_class req \<in> {SolicitMessage, RequestMessage, RenewMessage, RebindMessage} then
            (case response b of
               None \<Rightarrow> Inl AttributeError
             | Some reply \<Rightarrow>
                 Inr (if is_accepted (cs_options reply)
                      then (get_address_leases reply, get_prefix_leases reply) else ([], [])))
          else Inr ([], []))"

definition response_options :: "transaction_bundle \<Rightarrow> dhcp_option list res" where
  "response_options b = (case response b of None \<Rightarrow> Inl AttributeError | Some m \<Rightarrow> Inr (cs_options m))"

definition outermost_relay :: "transaction_bundle \<Rightarrow> relay res" where
  "outermost_relay b =
     (if incoming_relay_messages b = [] then Inl IndexError else Inr (last (incoming_relay_messages b)))"

text \<open>What is updated of a client that has a row.\<close>

definition update_client ::
  "int list \<Rightarrow> int \<times> int \<times> int \<Rightarrow> transaction_bundle \<Rightarrow> int \<Rightarrow> dhcp_option list \<Rightarrow> dhcp_option list \<Rightarrow> unit db" where
  "update_client sensitive_options = (\<lambda>(now, now_addresses, now_prefixes) b i address_leases prefix_leases.
     db_bind (db_res (response_options b)) (\<lambda>options.
     db_bind (db_res (outermost_relay b)) (\<lambda>relay_chain.
     db_bind (update_last_interaction sensitive_options now i options (Some relay_chain)) (\<lambda>_.
     db_bind (replace_remote_ids i (get_remote_ids b)) (\<lambda>_.
     db_bind (db_res (get_relay_ids b)) (\<lambda>ids.
     db_bind (replace_relay_ids i ids) (\<lambda>_.
     db_bind (update_address_leases sensitive_options now_addresses i address_leases) (\<lambda>_.
     update_prefix_leases sensitive_options now_prefixes i prefix_leases))))))))"

definition remember_lease :: "int list \<Rightarrow> int \<times> int \<times> int \<Rightarrow> transaction_bundle \<Rightarrow> unit db" where
  "remember_lease sensitive_options clock b =
     db_bind (db_res (client_id_of b)) (\<lambda>client_id.
     db_bind (db_res (link_of b)) (\<lambda>query_link.
     db_bind (db_res (reply_leases b)) (\<lambda>(address_leases, prefix_leases).
     let interesting_client = (address_leases \<noteq> [] \<or> prefix_leases \<noteq> []) in
     db_bind (get_client_row_id client_id query_link interesting_client) (\<lambda>client_row_id.
     case client_row_id of
       None \<Rightarrow> db_res (Inr ())
     | Some i \<Rightarrow> update_client sensitive_options clock b i address_leases prefix_leases))))"

subsection \<open>Queries\<close>

fun query_options :: "dhcp_option \<Rightarrow> dhcp_option list" where
  "query_options (LQQueryOption query_type query_link options) = options"
| "query_options _ = []"

definition malformed_query :: "string \<Rightarrow> handler_exception + 'a" where
  "malformed_query message = Inl (ReplyWithLeasequeryError 8 (lit message))"

definition res_exception :: "'a res \<Rightarrow> handler_exception + 'a" where
  "res_exception r = (case r of Inl e \<Rightarrow> Inl (PythonError e) | Inr x \<Rightarrow> Inr x)"

text \<open>The clients with a row in a table of the others, on the link of the query if it names one.\<close>

definition clients_on_link :: "lease_store \<Rightarrow> ipv6 \<Rightarrow> int list \<Rightarrow> int list" where
  "clients_on_link st query_link ids =
     map row_id (filter (\<lambda>c. row_link_address c = query_link \<and> row_id c \<in> set ids) (clients st))"

definition address_holders :: "lease_store \<Rightarrow> ipv6 \<Rightarrow> int list" where
  "address_holders st address =
     map lease_fk (filter (\<lambda>r. lease_key r = address) (addresses st))
     @ map lease_fk (filter (\<lambda>r. fst (lease_key r) \<le> address \<and> address \<le> snd (lease_key r)) (prefixes st))"

definition find_client_by_address :: "lease_store \<Rightarrow> ipv6 \<Rightarrow> dhcp_option list \<Rightarrow> handler_exception + int list" where
  "find_client_by_address st query_link options =
     (case get_option_of_type [C_IAAddressOption] options of
        Some (IAAddressOption (Some address) p v os) \<Rightarrow>
          Inr (if is_unspecified query_link then remdups (address_holders st address)
               else clients_on_link st query_link (address_holders st address))
      | Some _ \<Rightarrow> Inl (PythonError AttributeError)
      | None \<Rightarrow> malformed_query ''Address queries must contain an address'')"

definition find_client_by_client_id :: "lease_store \<Rightarrow> ipv6 \<Rightarrow> dhcp_option list \<Rightarrow> handler_exception + int list" where
  "find_client_by_client_id st query_link options =
     (case get_option_of_type [C_ClientIdOption] options of
        Some (Plain (ClientIdOption d)) \<Rightarrow>
          rbind (res_exception (encode_duid d)) (\<lambda>client_id.
          Inr (map row_id (filter (\<lambda>c. row_client_id c = client_id
                 \<and> (is_unspecified query_link \<or> row_link_address c = query_link)) (clients st))))
      | _ \<Rightarrow> malformed_query ''Client-ID queries must contain a client ID'')"

definition holders_of_id :: "lease_store \<Rightarrow> ipv6 \<Rightarrow> (int \<times> pystr) list \<Rightarrow> pystr \<Rightarrow> int list" where
  "holders_of_id st query_link table i =
     (let ids = map fst (filter (\<lambda>r. snd r = i) table) in
      if is_unspecified query_link then ids else clients_on_link st query_link ids)"

definition find_client_by_relay_id :: "lease_store \<Rightarrow> ipv6 \<Rightarrow> dhcp_option list \<Rightarrow> handler_exception + int list" where
  "find_client_by_relay_id st query_link options =
     (case get_option_of_type [C_RelayIdOption] options of
        Some (Plain (ExtensionOption (RelayIdOption d))) \<Rightarrow>
          rbind (res_exception (encode_duid d)) (\<lambda>relay_id.
          Inr (holders_of_id st query_link (relay_ids st) relay_id))
      | _ \<Rightarrow> malformed_query ''Relay-ID queries must contain a relay ID'')"

definition find_client_by_link_address :: "lease_store \<Rightarrow> ipv6 \<Rightarrow> int list" where
  "find_client_by_link_address st query_link =
     map row_id (filter (\<lambda>c. is_unspecified query_link \<or> row_link_address c = query_link) (clients st))"

definition find_client_by_remote_id :: "lease_store \<Rightarrow> ipv6 \<Rightarrow> dhcp_option list \<Rightarrow> handler_exception + int list" where
  "find_client_by_remote_id st query_link options =
     (case get_option_of_type [C_RemoteIdOption] options of
        Some (Plain (ExtensionOption (RemoteIdOption n r))) \<Rightarrow>
          Inr (holders_of_id st query_link (remote_ids st) (encode_remote_id n r))
      | _ \<Rightarrow> malformed_query ''Remote-ID queries must contain a remote ID'')"

text \<open>\<open>find_leases\<close> up to the generator: the clients found, \<open>None\<close> for an unknown type of query.\<close>

fun find_client_rows :: "lease_store \<Rightarrow> dhcp_option \<Rightarrow> handler_exception + int list option" where
  "find_client_rows st (LQQueryOption query_type query_link options) =
     (if query_type = 1 then rbind (find_client_by_address st query_link options) (\<lambda>ids. Inr (Some ids))
      else if query_type = 2 then rbind (find_client_by_client_id st query_link options) (\<lambda>ids. Inr (Some ids))
      else if query_type = 3 then rbind (find_client_by_relay_id st query_link options) (\<lambda>ids. Inr (Some ids))
      else if query_type = 4 then Inr (Some (find_client_by_link_address st query_link))
      else if query_type = 5 then rbind (find_client_by_remote_id st query_link options) (\<lambda>ids. Inr (Some ids))
      else Inr None)"
| "find_client_rows st _ = Inl (PythonError AttributeError)"

subsection \<open>What is told about a client\<close>

text \<open>\<open>summarize_address_range\<close>: the one network that is the range, if there is one.\<close>

definition range_network :: "ipv6 \<times> ipv6 \<Rightarrow> ipv6_network option" where
  "range_network = (\<lambda>(first_address, last_address).
     find (\<lambda>n. network_ok n \<and> broadcast_address n = last_address)
       (map (IPv6Network first_address) [0..<129]))"

definition current_leases :: "int \<Rightarrow> int \<Rightarrow> 'k lease_row list \<Rightarrow> 'k lease_row list" where
  "current_leases now fk table = filter (\<lambda>r. lease_fk r = fk \<and> valid_lifetime_end r > now) table"

definition address_data :: "registry \<Rightarrow> int \<Rightarrow> ipv6 lease_row \<Rightarrow> dhcp_option list res" where
  "address_data R now r =
     rbind (decode_options R (lease_options r)) (\<lambda>options.
     Inr [IAAddressOption (Some (lease_key r)) (max 0 (preferred_lifetime_end r - now))
            (max 0 (valid_lifetime_end r - now)) options])"

definition prefix_data :: "registry \<Rightarrow> int \<Rightarrow> (ipv6 \<times> ipv6) lease_row \<Rightarrow> dhcp_option list res" where
  "prefix_data R now r =
     (case range_network (lease_key r) of
        None \<Rightarrow> Inr []
      | Some n \<Rightarrow>
          rbind (decode_options R (lease_options r)) (\<lambda>options.
          Inr [IAPrefixOption (Some n) (max 0 (preferred_lifetime_end r - now))
                 (max 0 (valid_lifetime_end r - now)) options]))"

definition client_data_option ::
  "registry \<Rightarrow> int list \<Rightarrow> int \<Rightarrow> int list \<Rightarrow> lease_store \<Rightarrow> client_row \<Rightarrow> (ipv6 \<times> dhcp_option) res" where
  "client_data_option R sensitive_options now requested_options st c =
     (let relay_data_requested = (47 \<in> set requested_options);
          extra_data_requested = list_ex (\<lambda>t. t \<noteq> 47 \<and> t \<noteq> 0) requested_options
      in
      rbind (decode_duid (row_client_id c)) (\<lambda>duid.
      rbind (if extra_data_requested
             then rbind (decode_options R (row_options c)) (\<lambda>stored_options.
                  Inr (filter_requested_options sensitive_options stored_options requested_options))
             else Inr []) (\<lambda>stored_options.
      rbind (if relay_data_requested then build_relay_data_option_from_relay_data R (row_relay_data c)
             else Inr None) (\<lambda>relay_data_option.
      rbind (concat_res (address_data R now) (current_leases now (row_id c) (addresses st))) (\<lambda>address_options.
      rbind (concat_res (prefix_data R now) (current_leases now (row_id c) (prefixes st))) (\<lambda>prefix_options.
      Inr (row_link_address c,
           ClientDataOption
             ([Plain (ClientIdOption (Some duid)),
               Plain (ExtensionOption (CLTTimeOption (now - last_interaction c)))]
              @ stored_options @ (case relay_data_option of None \<Rightarrow> [] | Some o' \<Rightarrow> [o'])
              @ address_options @ prefix_options))))))))"

definition generate_client_data_options ::
  "registry \<Rightarrow> int list \<Rightarrow> int \<Rightarrow> lease_store \<Rightarrow> int list \<Rightarrow> int list \<Rightarrow> (ipv6 \<times> dhcp_option) list res" where
  "generate_client_data_options R sensitive_options now st client_row_ids requested_options =
     concat_res (\<lambda>c. rbind (client_data_option R sensitive_options now requested_options st c) (\<lambda>d. Inr [d]))
       (filter (\<lambda>c. row_id c \<in> set client_row_ids) (clients st))"

text \<open>\<open>find_leases\<close> as a whole: how many leases there are, and the leases.\<close>

definition sqlite_find_leases :: "registry \<Rightarrow> int list \<Rightarrow> int \<Rightarrow> lease_store \<Rightarrow> find_leases" where
  "sqlite_find_leases R sensitive_options now st query =
     rbind (find_client_rows st query) (\<lambda>client_row_ids.
     case client_row_ids of
       None \<Rightarrow> Inr (-1, [])
     | Some ids \<Rightarrow>
         if ids = [] then Inr (0, [])
         else
           (let requested_options =
              (case get_option_of_type [C_OptionRequestOption] (query_options query) of
                 Some (Plain (OptionRequestOption requested)) \<Rightarrow> requested
               | _ \<Rightarrow> [])
            in
            rbind (res_exception
                (generate_client_data_options R sensitive_options now st ids requested_options)) (\<lambda>leases.
            Inr (int (length ids), leases))))"

subsection \<open>Starting up\<close>

text \<open>
  The clean-up of \<open>create_tables\<close>: expired leases go, and then the clients without leases, with
  whatever refers to them (\<open>ON DELETE CASCADE\<close>).
\<close>

definition expired_lease :: "int \<Rightarrow> 'k lease_row \<Rightarrow> bool" where
  "expired_lease now r \<longleftrightarrow> preferred_lifetime_end r < now \<and> valid_lifetime_end r < now"

definition clean_up :: "int \<Rightarrow> lease_store \<Rightarrow> lease_store" where
  "clean_up now st =
     (let adr = filter (\<lambda>r. \<not> expired_lease now r) (addresses st);
          pre = filter (\<lambda>r. \<not> expired_lease now r) (prefixes st);
          cs = filter (\<lambda>c. row_id c \<in> lease_fk ` set adr \<or> row_id c \<in> lease_fk ` set pre) (clients st)
      in
      st\<lparr>clients := cs, addresses := adr, prefixes := pre,
         remote_ids := filter (\<lambda>(i, s). i \<in> row_id ` set cs) (remote_ids st),
         relay_ids := filter (\<lambda>(i, s). i \<in> row_id ` set cs) (relay_ids st)\<rparr>)"

end
