(* ===== verification/LeaseStoreLaws.thy ===== *)
theory LeaseStoreLaws
  imports LeaseStore
begin

text \<open>
  What the lease store guarantees: its tables stay consistent (every row belongs to a client,
  nothing is stored twice, no address or part of a prefix is held by two clients), an update of
  a table of leases computes the set of rows that it should, and the identifiers of a client
  are exactly those of its last transaction.
\<close>

lemma concat_res_set_eq:
  "concat_res f xs = Inr ys \<Longrightarrow> set ys = {y. \<exists>x \<in> set xs. \<exists>zs. f x = Inr zs \<and> y \<in> set zs}"
  by (induction xs arbitrary: ys) (fastforce elim!: rbind_InrE)+

lemma concat_res_map_eq:
  assumes "concat_res f xs = Inr ys" and "\<And>x zs. x \<in> set xs \<Longrightarrow> f x = Inr zs \<Longrightarrow> map h zs = [g x]"
  shows "map h ys = map g xs"
  using assms by (induction xs arbitrary: ys) (auto elim!: rbind_InrE)

subsection \<open>A table of leases\<close>

lemma make_lease_row_fields:
  "make_lease_row sens now fk k l = Inr r \<Longrightarrow> lease_fk r = fk \<and> lease_key r = k"
  by (auto simp: make_lease_row_def elim!: rbind_InrE split: prod.splits)

definition row_ident :: "'k lease_row \<Rightarrow> int \<times> 'k" where
  "row_ident r = (lease_fk r, lease_key r)"

definition displaced :: "('k \<Rightarrow> 'k \<Rightarrow> bool) \<Rightarrow> int \<Rightarrow> ('k \<times> new_lease) list \<Rightarrow> 'k lease_row \<Rightarrow> bool" where
  "displaced overlap fk leases r \<longleftrightarrow> lease_fk r \<noteq> fk \<and> (\<exists>k \<in> fst ` set leases. overlap k (lease_key r))"

lemma set_delete_others:
  "set (delete_others overlap fk leases table) = {r \<in> set table. \<not> displaced overlap fk leases r}"
  by (auto simp: delete_others_def displaced_def list_ex_iff split: prod.splits)

lemma update_rows_ident:
  "update_rows sens now fk leases table = Inr ys \<Longrightarrow> map row_ident ys = map row_ident table"
  unfolding update_rows_def
  by (rule concat_res_map_eq, assumption)
    (auto simp: row_ident_def elim!: rbind_InrE dest!: make_lease_row_fields split: if_splits option.splits)

lemma insert_rows_ident:
  "insert_rows sens now fk leases table = Inr ys \<Longrightarrow>
   map row_ident ys = map (\<lambda>(k, l). (fk, k)) (filter (\<lambda>(k, l). (fk, k) \<notin> row_ident ` set table) leases)"
  unfolding insert_rows_def
  by (induction leases arbitrary: ys)
    (auto simp: row_ident_def list_ex_iff image_iff elim!: rbind_InrE dest!: make_lease_row_fields split: if_splits)

text \<open>The rows of a table after an update: the others' not displaced, the client's own, and the new ones.\<close>

lemma update_leases_set:
  assumes upd: "update_leases overlap sens now fk leases table = Inr table'"
    and d: "distinct (map fst leases)"
  shows "set table' =
      {r \<in> set table. lease_fk r \<noteq> fk \<and> \<not> displaced overlap fk leases r}
      \<union> {r \<in> set table. lease_fk r = fk \<and> lease_key r \<notin> fst ` set leases \<and> now \<le> valid_lifetime_end r}
      \<union> {r. \<exists>k l. (k, l) \<in> set leases \<and> make_lease_row sens now fk k l = Inr r \<and> now \<le> valid_lifetime_end r}"
proof -
  let ?t = "delete_others overlap fk leases table"
  from upd obtain us ins where u: "update_rows sens now fk leases ?t = Inr us"
    and i: "insert_rows sens now fk leases us = Inr ins"
    and t': "table' = filter (\<lambda>r. \<not> (lease_fk r = fk \<and> valid_lifetime_end r < now)) (us @ ins)"
    by (auto simp: update_leases_def Let_def elim!: rbind_InrE)
  have lookup: "map_of leases k = Some l \<longleftrightarrow> (k, l) \<in> set leases" for k l
    using d by simp
  have none: "map_of leases k = None \<longleftrightarrow> k \<notin> fst ` set leases" for k
    by (rule map_of_eq_None_iff)
  have row: "(\<exists>zs. (if lease_fk r = fk then
         (case map_of leases (lease_key r) of
            None \<Rightarrow> Inr [r]
          | Some l \<Rightarrow> rbind (make_lease_row sens now fk (lease_key r) l) (\<lambda>r. Inr [r]))
       else Inr [r]) = Inr zs \<and> y \<in> set zs)
     \<longleftrightarrow> y = r \<and> (lease_fk r \<noteq> fk \<or> lease_key r \<notin> fst ` set leases)
       \<or> (\<exists>l. lease_fk r = fk \<and> (lease_key r, l) \<in> set leases
            \<and> make_lease_row sens now fk (lease_key r) l = Inr y)" for r y
  proof (cases "map_of leases (lease_key r)")
    case None
    then have k: "lease_key r \<notin> fst ` set leases" by (simp add: map_of_eq_None_iff)
    then have "(lease_key r, l) \<notin> set leases" for l by force
    with None k show ?thesis by (auto simp del: split_paired_Ex)
  next
    case (Some l)
    then have mem: "(lease_key r, l') \<in> set leases \<longleftrightarrow> l' = l" for l'
      unfolding lookup [of "lease_key r", symmetric] by auto
    have "lease_key r \<in> fst ` set leases" using mem [of l] by force
    with Some mem show ?thesis
      by (auto simp del: split_paired_Ex elim!: rbind_InrE)
  qed
  have us: "set us = {r \<in> set ?t. lease_fk r \<noteq> fk \<or> lease_key r \<notin> fst ` set leases}
      \<union> {r. \<exists>q \<in> set ?t. \<exists>l. lease_fk q = fk \<and> (lease_key q, l) \<in> set leases
            \<and> make_lease_row sens now fk (lease_key q) l = Inr r}"
    unfolding concat_res_set_eq [OF u [unfolded update_rows_def]] row by blast
  have in_us: "(fk, k) \<in> row_ident ` set us \<longleftrightarrow> (\<exists>q \<in> set ?t. lease_fk q = fk \<and> lease_key q = k)" for k
    using arg_cong [OF update_rows_ident [OF u], of set] by (force simp: row_ident_def)
  have new: "(\<exists>zs. (\<lambda>(k, l). if list_ex (\<lambda>r. lease_fk r = fk \<and> lease_key r = k) us then Inr []
          else rbind (make_lease_row sens now fk k l) (\<lambda>r. Inr [r])) e = Inr zs \<and> y \<in> set zs)
     \<longleftrightarrow> (fk, fst e) \<notin> row_ident ` set us \<and> make_lease_row sens now fk (fst e) (snd e) = Inr y" for e y
    by (cases e, cases "make_lease_row sens now fk (fst e) (snd e)")
      (auto simp: row_ident_def list_ex_iff image_iff)
  have ins: "set ins = {r. \<exists>k l. (k, l) \<in> set leases \<and> \<not> (\<exists>q \<in> set ?t. lease_fk q = fk \<and> lease_key q = k)
      \<and> make_lease_row sens now fk k l = Inr r}"
    unfolding concat_res_set_eq [OF i [unfolded insert_rows_def]] new in_us by force
  let ?new = "{r. \<exists>k l. (k, l) \<in> set leases \<and> make_lease_row sens now fk k l = Inr r}"
  have all: "set (us @ ins) = {r \<in> set ?t. lease_fk r \<noteq> fk \<or> lease_key r \<notin> fst ` set leases} \<union> ?new"
    unfolding set_append us ins by blast
  have new_fk: "r \<in> ?new \<Longrightarrow> lease_fk r = fk" for r
    using make_lease_row_fields by fast
  show ?thesis
    unfolding t' set_filter all set_delete_others using new_fk
    by (auto simp: displaced_def not_less simp del: split_paired_Ex)
qed

lemma update_leases_rowE:
  assumes "update_leases overlap sens now fk leases table = Inr table'" and "distinct (map fst leases)"
    and "r \<in> set table'"
  obtains (other) "r \<in> set table" "lease_fk r \<noteq> fk" "\<not> displaced overlap fk leases r"
  | (own) "r \<in> set table" "lease_fk r = fk" "lease_key r \<notin> fst ` set leases" "now \<le> valid_lifetime_end r"
  | (new) l where "(lease_key r, l) \<in> set leases" "make_lease_row sens now fk (lease_key r) l = Inr r"
      "lease_fk r = fk" "now \<le> valid_lifetime_end r"
proof -
  consider "r \<in> set table" "lease_fk r \<noteq> fk" "\<not> displaced overlap fk leases r"
    | "r \<in> set table" "lease_fk r = fk" "lease_key r \<notin> fst ` set leases" "now \<le> valid_lifetime_end r"
    | k l where "(k, l) \<in> set leases" "make_lease_row sens now fk k l = Inr r" "now \<le> valid_lifetime_end r"
    using assms(3) unfolding update_leases_set [OF assms(1,2)] by blast
  then show thesis
  proof cases
    case 3
    with make_lease_row_fields [OF 3(2)] show ?thesis by (intro new) auto
  qed (use other own in blast)+
qed

lemma update_leases_distinct:
  assumes upd: "update_leases overlap sens now fk leases table = Inr table'"
    and d: "distinct (map fst leases)" and t: "distinct (map row_ident table)"
  shows "distinct (map row_ident table')"
proof -
  let ?t = "delete_others overlap fk leases table"
  from upd obtain us ins where u: "update_rows sens now fk leases ?t = Inr us"
    and i: "insert_rows sens now fk leases us = Inr ins"
    and t': "table' = filter (\<lambda>r. \<not> (lease_fk r = fk \<and> valid_lifetime_end r < now)) (us @ ins)"
    by (auto simp: update_leases_def Let_def elim!: rbind_InrE)
  have "distinct (map row_ident ?t)"
    using t unfolding delete_others_def by (rule distinct_map_filter)
  moreover have "distinct (map (\<lambda>(k, l). (fk, k)) (filter P leases))" for P
    using d by (induction leases) (auto simp: image_iff)
  ultimately have "distinct (map row_ident (us @ ins))"
    unfolding map_append insert_rows_ident [OF i] update_rows_ident [OF u] distinct_append
    using arg_cong [OF update_rows_ident [OF u], of set] by auto
  then show ?thesis unfolding t' by (rule distinct_map_filter)
qed

text \<open>No two clients hold overlapping leases.\<close>

definition exclusive :: "('k \<Rightarrow> 'k \<Rightarrow> bool) \<Rightarrow> 'k lease_row list \<Rightarrow> bool" where
  "exclusive overlap table \<longleftrightarrow>
     (\<forall>r \<in> set table. \<forall>s \<in> set table. overlap (lease_key r) (lease_key s) \<longrightarrow> lease_fk r = lease_fk s)"

lemma update_leases_exclusive:
  assumes upd: "update_leases overlap sens now fk leases table = Inr table'"
    and d: "distinct (map fst leases)" and x: "exclusive overlap table"
    and sym: "\<And>j k. overlap j k \<longleftrightarrow> overlap k j"
  shows "exclusive overlap table'"
proof -
  have other: "r \<in> set table \<and> \<not> displaced overlap fk leases r" if "r \<in> set table'" "lease_fk r \<noteq> fk" for r
    using that(1) by (rule update_leases_rowE [OF upd d]) (use that(2) in auto)
  have own: "r \<in> set table \<or> lease_key r \<in> fst ` set leases" if "r \<in> set table'" for r
    using that by (rule update_leases_rowE [OF upd d]) force+
  show ?thesis
    unfolding exclusive_def
  proof (intro ballI impI)
    fix r s assume r: "r \<in> set table'" and s: "s \<in> set table'" and o: "overlap (lease_key r) (lease_key s)"
    consider "lease_fk r = fk" "lease_fk s = fk" | "lease_fk r \<noteq> fk" "lease_fk s \<noteq> fk"
      | "lease_fk r = fk" "lease_fk s \<noteq> fk" | "lease_fk r \<noteq> fk" "lease_fk s = fk" by blast
    then show "lease_fk r = lease_fk s"
    proof cases
      case 2
      with other [OF r] other [OF s] x o show ?thesis by (auto simp: exclusive_def)
    next
      case 3
      with other [OF s] own [OF r] x o show ?thesis by (auto simp: exclusive_def displaced_def)
    next
      case 4
      with other [OF r] own [OF s] x o sym show ?thesis
        by (auto simp: exclusive_def displaced_def)
    qed simp
  qed
qed

lemma lease_dict_distinct:
  "lease_dict entry options leases = Inr leases' \<Longrightarrow> distinct (map fst leases) \<Longrightarrow> distinct (map fst leases')"
  by (induction options arbitrary: leases) (auto elim!: rbind_InrE simp: distinct_update)

subsection \<open>A table of identifiers\<close>

lemma keep_or_delete_set:
  assumes "distinct rows" and "keep_or_delete fk rows ids table = (ids', table')"
  shows "set table' = {(f, i) \<in> set table. f \<noteq> fk \<or> i \<notin> set rows \<or> i \<in> set ids}
         \<and> set ids \<subseteq> set ids' \<union> set rows \<and> set ids' \<subseteq> set ids \<and> (distinct table \<longrightarrow> distinct table')"
  using assms
proof (induction rows arbitrary: ids table)
  case (Cons row rows)
  show ?case
  proof (cases "row \<in> set ids")
    case True
    with Cons.prems have k: "keep_or_delete fk rows (remove1 row ids) table = (ids', table')" by simp
    have mem: "i \<in> set (remove1 row ids) \<longleftrightarrow> i \<in> set ids" if "i \<noteq> row" for i
      using that by (simp add: in_set_remove1)
    have kept: "i \<notin> set rows \<or> i \<in> set (remove1 row ids) \<longleftrightarrow> i \<notin> set (row # rows) \<or> i \<in> set ids" for i
      using True Cons.prems(1) mem by (cases "i = row") auto
    have "set ids \<subseteq> insert row (set (remove1 row ids))" using mem by blast
    with Cons.IH [OF _ k] Cons.prems(1) set_remove1_subset [of row ids] True show ?thesis
      unfolding kept by auto
  next
    case False
    with Cons.prems Cons.IH [of ids "filter (\<lambda>r. r \<noteq> (fk, row)) table"] show ?thesis
      by auto
  qed
qed auto

lemma fold_insert_set:
  "set (fold (\<lambda>i. insert_or_ignore (fk, i)) ids table) = set table \<union> Pair fk ` set ids
   \<and> (distinct table \<longrightarrow> distinct (fold (\<lambda>i. insert_or_ignore (fk, i)) ids table))"
  by (induction ids arbitrary: table) (auto simp: insert_or_ignore_def)

lemma replace_ids_set:
  assumes "distinct table"
  shows "set (replace_ids fk ids table) = {(f, i) \<in> set table. f \<noteq> fk} \<union> Pair fk ` set ids"
    and "distinct (replace_ids fk ids table)"
proof -
  let ?rows = "map snd (filter (\<lambda>(f, i). f = fk) table)"
  have rows: "set ?rows = {i. (fk, i) \<in> set table}" by force
  have "inj_on snd (set (filter (\<lambda>(f, i). f = fk) table))" by (auto simp: inj_on_def)
  with assms have d: "distinct ?rows" by (simp add: distinct_map)
  obtain ids' table' where k: "keep_or_delete fk ?rows ids table = (ids', table')" by fastforce
  note ks = keep_or_delete_set [OF d k]
  have r: "replace_ids fk ids table = fold (\<lambda>i. insert_or_ignore (fk, i)) ids' table'"
    by (simp add: replace_ids_def Let_def k)
  show "distinct (replace_ids fk ids table)"
    using ks assms fold_insert_set [of fk ids' table'] unfolding r by blast
  show "set (replace_ids fk ids table) = {(f, i) \<in> set table. f \<noteq> fk} \<union> Pair fk ` set ids"
    using ks fold_insert_set [of fk ids' table'] unfolding r rows by auto
qed

subsection \<open>The store\<close>

text \<open>
  What the schema demands and the statements keep: a client has one row and one identifier, a
  row of the other tables belongs to a client and is there once, and no two clients hold the
  same address or overlapping prefixes.
\<close>

definition client_ids :: "lease_store \<Rightarrow> int set" where
  "client_ids st = row_id ` set (clients st)"

definition clients_ok :: "lease_store \<Rightarrow> bool" where
  "clients_ok st \<longleftrightarrow> distinct (map row_id (clients st))
     \<and> distinct (map (\<lambda>c. (row_client_id c, row_link_address c)) (clients st))
     \<and> (\<forall>c \<in> set (clients st). row_id c \<le> last_row_id st)"

definition leases_ok :: "('k \<Rightarrow> 'k \<Rightarrow> bool) \<Rightarrow> int set \<Rightarrow> 'k lease_row list \<Rightarrow> bool" where
  "leases_ok overlap ids table \<longleftrightarrow>
     distinct (map row_ident table) \<and> exclusive overlap table \<and> lease_fk ` set table \<subseteq> ids"

definition ids_ok :: "int set \<Rightarrow> (int \<times> pystr) list \<Rightarrow> bool" where
  "ids_ok ids table \<longleftrightarrow> distinct table \<and> fst ` set table \<subseteq> ids"

definition store_ok :: "lease_store \<Rightarrow> bool" where
  "store_ok st \<longleftrightarrow> clients_ok st
     \<and> leases_ok (=) (client_ids st) (addresses st)
     \<and> leases_ok ranges_overlap (client_ids st) (prefixes st)
     \<and> ids_ok (client_ids st) (remote_ids st) \<and> ids_ok (client_ids st) (relay_ids st)"

lemma store_ok_empty: "store_ok empty_store"
  by (simp add: store_ok_def clients_ok_def leases_ok_def ids_ok_def exclusive_def empty_store_def)

text \<open>
  A method from \<open>P\<close> to \<open>Q\<close>: where it returns, \<open>Q\<close> holds of the result and the database; where it
  raises, the database is still consistent.
\<close>

definition db_ok :: "(lease_store \<Rightarrow> bool) \<Rightarrow> 'a db \<Rightarrow> ('a \<Rightarrow> lease_store \<Rightarrow> bool) \<Rightarrow> bool" where
  "db_ok P m Q \<longleftrightarrow> (\<forall>st. P st \<longrightarrow> (case m st of (Inl e, st') \<Rightarrow> store_ok st' | (Inr x, st') \<Rightarrow> Q x st'))"

lemma db_ok_bind:
  assumes "db_ok P m Q" and "\<And>x. db_ok (Q x) (f x) R"
  shows "db_ok P (db_bind m f) R"
  using assms by (fastforce simp: db_ok_def db_bind_def split: prod.splits sum.splits)

lemma db_ok_res:
  assumes "\<And>st. P st \<Longrightarrow> store_ok st"
  shows "db_ok P (db_res r) (\<lambda>x st. r = Inr x \<and> P st)"
  using assms by (auto simp: db_ok_def db_res_def split: sum.splits)

lemma db_ok_transaction:
  assumes "\<And>st. P st \<Longrightarrow> store_ok st" and "\<And>st st' x. P st \<Longrightarrow> m st = (Inr x, st') \<Longrightarrow> Q x st'"
  shows "db_ok P (transaction m) Q"
  using assms by (auto simp: db_ok_def transaction_def split: prod.splits sum.splits)

text \<open>What is known of a store from the time on that the row of the client is there.\<close>

definition has_client :: "int \<Rightarrow> pystr \<Rightarrow> ipv6 \<Rightarrow> lease_store \<Rightarrow> bool" where
  "has_client i client_id query_link st \<longleftrightarrow>
     (\<exists>c \<in> set (clients st). row_id c = i \<and> row_client_id c = client_id \<and> row_link_address c = query_link)"

lemma has_client_ids: "has_client i client_id query_link st \<Longrightarrow> i \<in> client_ids st"
  by (auto simp: has_client_def client_ids_def)

lemma leases_ok_mono: "leases_ok overlap ids table \<Longrightarrow> ids \<subseteq> ids' \<Longrightarrow> leases_ok overlap ids' table"
  by (auto simp: leases_ok_def)

lemma ids_ok_mono: "ids_ok ids table \<Longrightarrow> ids \<subseteq> ids' \<Longrightarrow> ids_ok ids' table"
  by (auto simp: ids_ok_def)

lemma get_client_row_id_ok:
  "db_ok store_ok (get_client_row_id client_id query_link create)
     (\<lambda>r st. store_ok st \<and> (\<forall>i. r = Some i \<longrightarrow> has_client i client_id query_link st))"
proof -
  have "store_ok st' \<and> (\<forall>i. r = Some i \<longrightarrow> has_client i client_id query_link st')"
    if ok: "store_ok st" and g: "get_client_row_id client_id query_link create st = (Inr r, st')" for st st' r
  proof (cases "find (same_client client_id query_link) (clients st)")
    case (Some row)
    with ok g show ?thesis
      by (auto simp: get_client_row_id_def has_client_def find_Some_iff same_client_def intro: nth_mem)
  next
    case None
    then have new: "(client_id, query_link) \<notin> (\<lambda>c. (row_client_id c, row_link_address c)) ` set (clients st)"
      by (auto simp: find_None_iff same_client_def)
    show ?thesis
    proof (cases create)
      case True
      have sub: "client_ids st \<subseteq> client_ids st'" and cs: "clients_ok st'" and h: "r = Some i \<Longrightarrow> has_client i client_id query_link st'" for i
        using g None True ok new
        by (fastforce simp: get_client_row_id_def Let_def client_ids_def store_ok_def clients_ok_def has_client_def)+
      moreover have "addresses st' = addresses st" "prefixes st' = prefixes st"
          "remote_ids st' = remote_ids st" "relay_ids st' = relay_ids st"
        using g None True by (auto simp: get_client_row_id_def Let_def)
      ultimately show ?thesis
        using ok by (auto simp: store_ok_def intro: leases_ok_mono [OF _ sub] ids_ok_mono [OF _ sub])
    qed (use ok g None in \<open>auto simp: get_client_row_id_def\<close>)
  qed
  moreover have "get_client_row_id client_id query_link create st \<noteq> (Inl e, st')" for e st st'
    by (auto simp: get_client_row_id_def Let_def split: option.splits)
  ultimately show ?thesis
    by (auto simp: db_ok_def split: prod.splits sum.splits)
qed

definition known_client :: "int \<Rightarrow> lease_store \<Rightarrow> bool" where
  "known_client i st \<longleftrightarrow> store_ok st \<and> i \<in> client_ids st"

lemma known_client_ok [intro]: "known_client i st \<Longrightarrow> store_ok st"
  by (simp add: known_client_def)

lemma map_client_fields:
  assumes "\<And>c. row_id (f c) = row_id c \<and> row_client_id (f c) = row_client_id c
                \<and> row_link_address (f c) = row_link_address c"
  shows "clients_ok (st\<lparr>clients := map f (clients st)\<rparr>) = clients_ok st"
    and "client_ids (st\<lparr>clients := map f (clients st)\<rparr>) = client_ids st"
  using assms by (simp_all add: clients_ok_def client_ids_def comp_def image_image)

lemma update_last_interaction_ok:
  "db_ok (known_client i) (update_last_interaction sens now i' options relay_chain) (\<lambda>_. known_client i)"
  unfolding update_last_interaction_def [abs_def]
proof (rule db_ok_bind [OF db_ok_res], blast, rule db_ok_bind [OF db_ok_res], blast)
  fix opts data
  let ?f = "\<lambda>row. if row_id row = i'
    then row\<lparr>last_interaction := now, row_options := opts, row_relay_data := data\<rparr> else row"
  note fields = map_client_fields [of ?f]
  show "db_ok (\<lambda>st. encode_relay_messages sens relay_chain = Inr data
       \<and> encode_options sens options = Inr opts \<and> known_client i st)
     (\<lambda>st. (Inr (), st\<lparr>clients := map ?f (clients st)\<rparr>)) (\<lambda>_. known_client i)"
    by (auto simp: db_ok_def known_client_def store_ok_def fields)
qed

lemma replace_ids_ok: "ids_ok ids table \<Longrightarrow> i \<in> ids \<Longrightarrow> ids_ok ids (replace_ids i xs table)"
  by (auto simp: ids_ok_def replace_ids_set)

lemma replace_remote_ids_ok: "db_ok (known_client i) (replace_remote_ids i ids) (\<lambda>_. known_client i)"
  by (auto simp: db_ok_def replace_remote_ids_def known_client_def store_ok_def client_ids_def clients_ok_def
      intro: replace_ids_ok)

lemma replace_relay_ids_ok: "db_ok (known_client i) (replace_relay_ids i ids) (\<lambda>_. known_client i)"
  by (auto simp: db_ok_def replace_relay_ids_def known_client_def store_ok_def client_ids_def clients_ok_def
      intro: replace_ids_ok)

lemma update_leases_ok:
  assumes "update_leases overlap sens now i leases table = Inr table'" and "distinct (map fst leases)"
    and "leases_ok overlap ids table" and "i \<in> ids" and sym: "\<And>j k. overlap j k \<longleftrightarrow> overlap k j"
  shows "leases_ok overlap ids table'"
proof -
  have "lease_fk r \<in> ids" if "r \<in> set table'" for r
    using that by (rule update_leases_rowE [OF assms(1,2)]) (use assms(3,4) in \<open>auto simp: leases_ok_def\<close>)
  with assms(3) show ?thesis
    using update_leases_distinct [OF assms(1,2)] update_leases_exclusive [OF assms(1,2) _ sym]
    by (auto simp: leases_ok_def)
qed

lemma ranges_overlap_sym: "ranges_overlap j k \<longleftrightarrow> ranges_overlap k j"
  by (auto simp: ranges_overlap_def split: prod.splits)

lemma update_address_leases_ok:
  "db_ok (known_client i) (update_address_leases sens now i leases) (\<lambda>_. known_client i)"
  unfolding update_address_leases_def
proof (rule db_ok_bind [OF db_ok_res], blast, rule db_ok_transaction)
  fix new_leases st st' x
  assume "lease_dict new_address_lease leases [] = Inr new_leases \<and> known_client i st"
    and "(case update_leases (=) sens now i new_leases (addresses st) of
          Inl e \<Rightarrow> (Inl e, st) | Inr table \<Rightarrow> (Inr (), st\<lparr>addresses := table\<rparr>)) = (Inr x, st')"
  then obtain table where d: "distinct (map fst new_leases)" and k: "known_client i st"
    and u: "update_leases (=) sens now i new_leases (addresses st) = Inr table"
    and st': "st' = st\<lparr>addresses := table\<rparr>"
    by (auto dest: lease_dict_distinct split: sum.splits)
  with update_leases_ok [OF u d, of "client_ids st"] show "known_client i st'"
    by (auto simp: known_client_def store_ok_def client_ids_def clients_ok_def)
qed blast

lemma update_prefix_leases_ok:
  "db_ok (known_client i) (update_prefix_leases sens now i leases) (\<lambda>_. known_client i)"
  unfolding update_prefix_leases_def
proof (rule db_ok_bind [OF db_ok_res], blast, rule db_ok_transaction)
  fix new_leases st st' x
  assume "lease_dict new_prefix_lease leases [] = Inr new_leases \<and> known_client i st"
    and "(case update_leases ranges_overlap sens now i new_leases (prefixes st) of
          Inl e \<Rightarrow> (Inl e, st) | Inr table \<Rightarrow> (Inr (), st\<lparr>prefixes := table\<rparr>)) = (Inr x, st')"
  then obtain table where d: "distinct (map fst new_leases)" and k: "known_client i st"
    and u: "update_leases ranges_overlap sens now i new_leases (prefixes st) = Inr table"
    and st': "st' = st\<lparr>prefixes := table\<rparr>"
    by (auto dest: lease_dict_distinct split: sum.splits)
  with update_leases_ok [OF u d, of "client_ids st"] ranges_overlap_sym show "known_client i st'"
    by (auto simp: known_client_def store_ok_def client_ids_def clients_ok_def)
qed blast

lemma db_ok_conseq:
  assumes "db_ok P m Q" and "\<And>st. P' st \<Longrightarrow> P st" and "\<And>x st. Q x st \<Longrightarrow> Q' x st"
  shows "db_ok P' m Q'"
  unfolding db_ok_def
proof (intro allI impI)
  fix st assume "P' st"
  with assms(1,2) have "case m st of (Inl e, st') \<Rightarrow> store_ok st' | (Inr x, st') \<Rightarrow> Q x st'"
    by (simp add: db_ok_def)
  then show "case m st of (Inl e, st') \<Rightarrow> store_ok st' | (Inr x, st') \<Rightarrow> Q' x st'"
    using assms(3) by (auto split: prod.splits sum.splits)
qed

lemma db_ok_pure:
  assumes "\<And>st. P st \<Longrightarrow> store_ok st" and "\<And>x. db_ok P (f x) R"
  shows "db_ok P (db_bind (db_res r) f) R"
  using assms by (auto simp: db_ok_def db_bind_def db_res_def split: sum.splits)

lemma update_client_ok:
  "db_ok (known_client i) (update_client sens clock b i as ps) (\<lambda>_. known_client i)"
proof -
  obtain now now_addresses now_prefixes where clock: "clock = (now, now_addresses, now_prefixes)"
    by (cases clock)
  note steps = update_last_interaction_ok replace_remote_ids_ok replace_relay_ids_ok
    update_address_leases_ok update_prefix_leases_ok
  show ?thesis
    unfolding update_client_def clock prod.case
    by (rule db_ok_pure known_client_ok db_ok_bind [OF steps(1)] db_ok_bind [OF steps(2)]
        db_ok_bind [OF steps(3)] db_ok_bind [OF steps(4)] steps(5) | assumption)+
qed

lemma remember_lease_ok: "db_ok store_ok (remember_lease sens clock b) (\<lambda>_. store_ok)"
  unfolding remember_lease_def
proof ((rule db_ok_pure, assumption)+, split prod.split, intro allI impI,
    unfold Let_def, rule db_ok_bind [OF get_client_row_id_ok])
  fix client_id query_link as ps r
  show "db_ok (\<lambda>st. store_ok st \<and> (\<forall>i. r = Some i \<longrightarrow> has_client i client_id query_link st))
    (case r of None \<Rightarrow> db_res (Inr ()) | Some i \<Rightarrow> update_client sens clock b i as ps) (\<lambda>_. store_ok)"
  proof (cases r)
    case None
    then show ?thesis by (simp add: db_ok_def db_res_def)
  next
    case (Some i)
    show ?thesis
      unfolding Some option.case
      by (rule db_ok_conseq [OF update_client_ok]) (auto simp: known_client_def intro: has_client_ids)
  qed
qed

subsection \<open>The life of a store\<close>

lemma clean_up_ok: "store_ok st \<Longrightarrow> store_ok (clean_up now st)"
proof -
  assume ok: "store_ok st"
  let ?adr = "filter (\<lambda>r. \<not> expired_lease now r) (addresses st)"
  let ?pre = "filter (\<lambda>r. \<not> expired_lease now r) (prefixes st)"
  let ?st = "clean_up now st"
  have leases: "leases_ok overlap (client_ids st) table \<Longrightarrow>
      lease_fk ` set (filter P table) \<subseteq> client_ids ?st \<Longrightarrow>
      leases_ok overlap (client_ids ?st) (filter P table)"
    for overlap P and table :: "'k lease_row list"
    by (auto simp: leases_ok_def exclusive_def distinct_map_filter)
  have keep: "client_ids ?st = client_ids st \<inter> (lease_fk ` set ?adr \<union> lease_fk ` set ?pre)"
    by (auto simp: client_ids_def clean_up_def Let_def)
  have sub: "lease_fk ` set ?adr \<subseteq> client_ids ?st" "lease_fk ` set ?pre \<subseteq> client_ids ?st"
    unfolding keep using ok by (auto simp: store_ok_def leases_ok_def)
  have "clients_ok ?st"
    using ok by (auto simp: store_ok_def clients_ok_def clean_up_def Let_def distinct_map_filter)
  moreover have "ids_ok (client_ids ?st) (filter (\<lambda>(i, s). i \<in> client_ids ?st) table)"
    if "ids_ok (client_ids st) table" for table
    using that by (auto simp: ids_ok_def)
  moreover have "addresses ?st = ?adr" "prefixes ?st = ?pre"
      "remote_ids ?st = filter (\<lambda>(i, s). i \<in> client_ids ?st) (remote_ids st)"
      "relay_ids ?st = filter (\<lambda>(i, s). i \<in> client_ids ?st) (relay_ids st)"
    by (simp_all add: clean_up_def Let_def client_ids_def)
  ultimately show ?thesis
    using ok leases [OF _ sub(1)] leases [OF _ sub(2)] unfolding store_ok_def by simp
qed

text \<open>
  The stores that can come about: an empty database, transactions that are remembered (or fail
  to be), and restarts of the server.
\<close>

inductive store_history :: "int list \<Rightarrow> lease_store \<Rightarrow> bool" for sensitive_options where
  created: "store_history sensitive_options empty_store"
| remembered: "store_history sensitive_options st \<Longrightarrow> remember_lease sensitive_options clock b st = (r, st') \<Longrightarrow>
    store_history sensitive_options st'"
| restarted: "store_history sensitive_options st \<Longrightarrow> store_history sensitive_options (clean_up now st)"

lemma store_history_ok: "store_history sens st \<Longrightarrow> store_ok st"
proof (induction rule: store_history.induct)
  case (remembered st clock b r st')
  with remember_lease_ok [of sens clock b] show ?case
    by (cases r) (auto simp: db_ok_def split: prod.splits)
qed (auto intro: store_ok_empty clean_up_ok)

lemma exclusive_rows_eq:
  assumes "leases_ok (=) ids table" and "r \<in> set table" and "s \<in> set table" and "lease_key r = lease_key s"
  shows "r = s"
proof -
  have "lease_fk r = lease_fk s"
    using assms unfolding leases_ok_def exclusive_def by blast
  with assms(4) have "row_ident r = row_ident s" by (simp add: row_ident_def)
  with assms(1-3) show ?thesis by (auto simp: leases_ok_def distinct_map dest: inj_onD)
qed

subsection \<open>What is remembered\<close>

lemma db_bind_Inr:
  "db_bind m f st = (Inr y, st'') \<longleftrightarrow> (\<exists>x st'. m st = (Inr x, st') \<and> f x st' = (Inr y, st''))"
  by (auto simp: db_bind_def split: prod.splits sum.splits)

lemma db_res_Inr: "db_res r st = (Inr x, st') \<longleftrightarrow> r = Inr x \<and> st' = st"
  by (auto simp: db_res_def)

lemma transaction_Inr:
  "transaction m st = (Inr x, st') \<Longrightarrow> m st = (Inr x, st')"
  by (auto simp: transaction_def split: prod.splits sum.splits)

lemma stored_table_Inr:
  "(case t of Inl e \<Rightarrow> (Inl e, st) | Inr table \<Rightarrow> (Inr x, f table)) = (Inr y, st')
   \<Longrightarrow> \<exists>table. t = Inr table \<and> st' = f table"
  by (cases t) auto

lemma update_address_leases_Inr:
  "update_address_leases sens now i leases st = (Inr u, st') \<Longrightarrow>
     \<exists>new table. lease_dict new_address_lease leases [] = Inr new
        \<and> update_leases (=) sens now i new (addresses st) = Inr table \<and> st' = st\<lparr>addresses := table\<rparr>"
  by (auto simp: update_address_leases_def db_bind_Inr db_res_Inr dest!: transaction_Inr stored_table_Inr)

lemma update_prefix_leases_Inr:
  "update_prefix_leases sens now i leases st = (Inr u, st') \<Longrightarrow>
     \<exists>new table. lease_dict new_prefix_lease leases [] = Inr new
        \<and> update_leases ranges_overlap sens now i new (prefixes st) = Inr table \<and> st' = st\<lparr>prefixes := table\<rparr>"
  by (auto simp: update_prefix_leases_def db_bind_Inr db_res_Inr dest!: transaction_Inr stored_table_Inr)

lemma get_client_row_id_other:
  assumes "get_client_row_id client_id query_link create st = (Inr r, st')"
  shows "addresses st' = addresses st \<and> prefixes st' = prefixes st
       \<and> remote_ids st' = remote_ids st \<and> relay_ids st' = relay_ids st"
  using assms by (auto simp: get_client_row_id_def Let_def split: option.splits if_splits)

text \<open>
  The store after a transaction with leases, table by table: the client's row as of this
  transaction, its identifiers and its leases.
\<close>

lemma remember_leaseE:
  assumes rem: "remember_lease sens (now, now_addresses, now_prefixes) b st = (Inr (), st')"
    and leases: "reply_leases b = Inr (as, ps)" and some: "as \<noteq> [] \<or> ps \<noteq> []"
  obtains client_id query_link i st1 options opts rc data rids new_as new_ps
  where "client_id_of b = Inr client_id" "link_of b = Inr query_link"
    "get_client_row_id client_id query_link True st = (Inr (Some i), st1)"
    "response_options b = Inr options" "encode_options sens options = Inr opts"
    "outermost_relay b = Inr rc" "encode_relay_messages sens (Some rc) = Inr data"
    "clients st' = map (\<lambda>row. if row_id row = i
       then row\<lparr>last_interaction := now, row_options := opts, row_relay_data := data\<rparr> else row) (clients st1)"
    "remote_ids st' = replace_ids i (get_remote_ids b) (remote_ids st)"
    "get_relay_ids b = Inr rids" "relay_ids st' = replace_ids i rids (relay_ids st)"
    "lease_dict new_address_lease as [] = Inr new_as"
    "update_leases (=) sens now_addresses i new_as (addresses st) = Inr (addresses st')"
    "lease_dict new_prefix_lease ps [] = Inr new_ps"
    "update_leases ranges_overlap sens now_prefixes i new_ps (prefixes st) = Inr (prefixes st')"
proof -
  have create: "(as = [] \<longrightarrow> ps \<noteq> []) = True" using some by simp
  from rem obtain client_id query_link r st1 where cid: "client_id_of b = Inr client_id"
    and ql: "link_of b = Inr query_link"
    and g: "get_client_row_id client_id query_link True st = (Inr r, st1)"
    and rest: "(case r of None \<Rightarrow> db_res (Inr ())
       | Some i \<Rightarrow> update_client sens (now, now_addresses, now_prefixes) b i as ps) st1 = (Inr (), st')"
    by (auto simp: remember_lease_def leases create Let_def db_bind_Inr db_res_Inr)
  obtain i where r: "r = Some i"
    using g by (auto simp: get_client_row_id_def Let_def split: option.splits)
  from rest obtain options rc rids st2 st3 where opts: "response_options b = Inr options"
    and rc: "outermost_relay b = Inr rc"
    and u: "update_last_interaction sens now i options (Some rc) st1 = (Inr (), st2)"
    and ids: "get_relay_ids b = Inr rids"
    and a: "update_address_leases sens now_addresses i as
        (st2\<lparr>remote_ids := replace_ids i (get_remote_ids b) (remote_ids st2),
             relay_ids := replace_ids i rids (relay_ids st2)\<rparr>) = (Inr (), st3)"
    and p: "update_prefix_leases sens now_prefixes i ps st3 = (Inr (), st')"
    unfolding r by (auto simp: update_client_def db_bind_Inr db_res_Inr replace_remote_ids_def replace_relay_ids_def)
  from u obtain os data where os: "encode_options sens options = Inr os"
    and data: "encode_relay_messages sens (Some rc) = Inr data"
    and st2: "st2 = st1\<lparr>clients := map (\<lambda>row. if row_id row = i
       then row\<lparr>last_interaction := now, row_options := os, row_relay_data := data\<rparr> else row) (clients st1)\<rparr>"
    by (auto simp: update_last_interaction_def db_bind_Inr db_res_Inr)
  from update_address_leases_Inr [OF a] update_prefix_leases_Inr [OF p] obtain new_as new_ps ta tp
    where "lease_dict new_address_lease as [] = Inr new_as"
      "update_leases (=) sens now_addresses i new_as (addresses st2) = Inr ta"
      "lease_dict new_prefix_lease ps [] = Inr new_ps"
      "update_leases ranges_overlap sens now_prefixes i new_ps (prefixes st2) = Inr tp"
      "st' = st2\<lparr>remote_ids := replace_ids i (get_remote_ids b) (remote_ids st2),
             relay_ids := replace_ids i rids (relay_ids st2), addresses := ta, prefixes := tp\<rparr>"
    by auto
  with get_client_row_id_other [OF g] show thesis
    by (intro that [OF cid ql g [unfolded r] opts os rc data]) (simp_all add: ids st2)
qed

lemma concat_res_elem: "concat_res f xs = Inr ys \<Longrightarrow> x \<in> set xs \<Longrightarrow> \<exists>zs. f x = Inr zs"
  by (induction xs arbitrary: ys) (auto elim!: rbind_InrE)

lemma update_leases_new_row:
  assumes upd: "update_leases overlap sens now fk leases table = Inr table'"
    and d: "distinct (map fst leases)" and l: "(k, l) \<in> set leases"
  obtains r where "make_lease_row sens now fk k l = Inr r"
proof -
  let ?t = "delete_others overlap fk leases table"
  from upd obtain us ins where u: "update_rows sens now fk leases ?t = Inr us"
    and i: "insert_rows sens now fk leases us = Inr ins"
    by (auto simp: update_leases_def Let_def elim!: rbind_InrE)
  show thesis
  proof (cases "(fk, k) \<in> row_ident ` set us")
    case True
    then obtain q where q: "q \<in> set ?t" "lease_fk q = fk" "lease_key q = k"
      using arg_cong [OF update_rows_ident [OF u], of set] by (force simp: row_ident_def)
    with concat_res_elem [OF u [unfolded update_rows_def] q(1)] d l show thesis
      by (auto intro: that elim!: rbind_InrE)
  next
    case False
    then have "\<not> list_ex (\<lambda>r. lease_fk r = fk \<and> lease_key r = k) us"
      by (auto simp: row_ident_def list_ex_iff)
    with concat_res_elem [OF i [unfolded insert_rows_def] l] show thesis
      by (auto intro: that elim!: rbind_InrE)
  qed
qed

lemma remembered_row:
  assumes upd: "update_leases overlap sens now fk leases table = Inr table'"
    and d: "distinct (map fst leases)" and l: "map_of leases k = Some (p, v, os)" and v: "0 \<le> v"
  shows "\<exists>r \<in> set table'. lease_fk r = fk \<and> lease_key r = k \<and> preferred_lifetime_end r = now + p
       \<and> valid_lifetime_end r = now + v \<and> encode_options sens os = Inr (lease_options r)"
proof -
  have mem: "(k, p, v, os) \<in> set leases" using l by (rule map_of_SomeD)
  obtain r where r: "make_lease_row sens now fk k (p, v, os) = Inr r"
    using update_leases_new_row [OF upd d mem] .
  then have "lease_fk r = fk \<and> lease_key r = k \<and> preferred_lifetime_end r = now + p
       \<and> valid_lifetime_end r = now + v \<and> encode_options sens os = Inr (lease_options r)"
    by (auto simp: make_lease_row_def elim!: rbind_InrE)
  moreover have "r \<in> set table'"
    unfolding update_leases_set [OF upd d] using r mem calculation v by fastforce
  ultimately show ?thesis by blast
qed

lemma remembered_client:
  assumes "remember_lease sens (now, now_addresses, now_prefixes) b st = (Inr (), st')"
    and "store_ok st" and "reply_leases b = Inr (as, ps)" and "lease_dict new_address_lease as [] = Inr new"
    and "map_of new a = Some (p, v, os)" and "0 \<le> v"
    and "client_id_of b = Inr client_id" and "link_of b = Inr query_link"
  obtains c r where "c \<in> set (clients st')" "row_client_id c = client_id" "row_link_address c = query_link"
    "last_interaction c = now" "r \<in> set (addresses st')" "lease_fk r = row_id c" "lease_key r = a"
    "preferred_lifetime_end r = now_addresses + p" "valid_lifetime_end r = now_addresses + v"
    "encode_options sens os = Inr (lease_options r)"
    "{i. (row_id c, i) \<in> set (remote_ids st')} = set (get_remote_ids b)"
proof -
  have some: "as \<noteq> [] \<or> ps \<noteq> []" using assms(4,5) by (cases as) auto
  show thesis
  proof (rule remember_leaseE [OF assms(1,3) some])
    fix cid ql i st1 options opts rc data rids new_as new_ps
    let ?f = "\<lambda>row. if row_id row = i
       then row\<lparr>last_interaction := now, row_options := opts, row_relay_data := data\<rparr> else row"
    assume "client_id_of b = Inr cid" "link_of b = Inr ql"
      and g: "get_client_row_id cid ql True st = (Inr (Some i), st1)"
      and cs: "clients st' = map ?f (clients st1)"
      and ids: "remote_ids st' = replace_ids i (get_remote_ids b) (remote_ids st)"
      and new: "lease_dict new_address_lease as [] = Inr new_as"
      and upd: "update_leases (=) sens now_addresses i new_as (addresses st) = Inr (addresses st')"
    with assms(7,8) have ql: "cid = client_id" "ql = query_link" by auto
    have "has_client i client_id query_link st1"
      using get_client_row_id_ok [of cid ql True] assms(2) g by (fastforce simp: db_ok_def ql)
    then obtain c0 where c0: "c0 \<in> set (clients st1)" "row_id c0 = i" "row_client_id c0 = client_id"
        "row_link_address c0 = query_link"
      by (auto simp: has_client_def)
    then have c: "?f c0 \<in> set (clients st')" by (auto simp: cs)
    have d: "distinct (map fst new_as)" using lease_dict_distinct [OF new] by simp
    from remembered_row [OF upd d _ assms(6), of a p os] assms(4,5) new obtain r
      where r: "r \<in> set (addresses st')" "lease_fk r = i" "lease_key r = a"
      "preferred_lifetime_end r = now_addresses + p" "valid_lifetime_end r = now_addresses + v"
      "encode_options sens os = Inr (lease_options r)"
      by auto
    have "distinct (remote_ids st)" using assms(2) by (simp add: store_ok_def ids_ok_def)
    then have "{j. (i, j) \<in> set (remote_ids st')} = set (get_remote_ids b)"
      by (auto simp: ids replace_ids_set)
    with c0 r show thesis by (intro that [OF c]) auto
  qed
qed

subsection \<open>What is counted is what is told\<close>

lemma holders_of_id_ok:
  assumes "clients_ok st" and "ids_ok (client_ids st) table"
  shows "distinct (holders_of_id st query_link table i) \<and> set (holders_of_id st query_link table i) \<subseteq> client_ids st"
proof -
  have "distinct (map fst (filter (\<lambda>r. snd r = i) table))"
    using assms(2) by (auto simp: ids_ok_def distinct_map inj_on_def)
  with assms show ?thesis
    by (auto simp: holders_of_id_def clients_on_link_def clients_ok_def client_ids_def ids_ok_def
        distinct_map_filter Let_def)
qed

lemma find_client_rows_ok:
  assumes "store_ok st" and "find_client_rows st query = Inr (Some ids)"
  shows "distinct ids \<and> set ids \<subseteq> client_ids st"
proof -
  obtain t l os where q: "query = LQQueryOption t l os"
    using assms(2) by (cases query) auto
  have cs: "clients_ok st" and remote: "ids_ok (client_ids st) (remote_ids st)"
    and relay: "ids_ok (client_ids st) (relay_ids st)"
    using assms(1) by (auto simp: store_ok_def)
  have rows: "distinct (map row_id (filter P (clients st)))" "row_id ` set (filter P (clients st)) \<subseteq> client_ids st" for P
    using cs by (auto simp: clients_ok_def client_ids_def distinct_map_filter)
  have row_in: "c \<in> set (clients st) \<Longrightarrow> row_id c \<in> client_ids st" for c
    by (auto simp: client_ids_def)
  have holders: "set (address_holders st a) \<subseteq> client_ids st" for a
    using assms(1) by (auto simp: address_holders_def store_ok_def leases_ok_def)
  have "distinct ids' \<and> set ids' \<subseteq> client_ids st" if "find_client_by_address st l os = Inr ids'" for ids'
    using that rows(1)
    by (auto simp: find_client_by_address_def malformed_query_def clients_on_link_def
        intro: subsetD [OF holders] row_in split: option.splits dhcp_option.splits if_splits)
  moreover have "distinct ids' \<and> set ids' \<subseteq> client_ids st" if "find_client_by_client_id st l os = Inr ids'" for ids'
    using that rows(1) by (auto simp: find_client_by_client_id_def malformed_query_def elim!: rbind_InrE
        intro: row_in split: option.splits dhcp_option.splits plain_option.splits)
  moreover have "distinct ids' \<and> set ids' \<subseteq> client_ids st" if "find_client_by_relay_id st l os = Inr ids'" for ids'
    using that holders_of_id_ok [OF cs relay]
    by (auto simp: find_client_by_relay_id_def malformed_query_def elim!: rbind_InrE
        split: option.splits dhcp_option.splits plain_option.splits extension_option.splits)
  moreover have "distinct ids' \<and> set ids' \<subseteq> client_ids st" if "find_client_by_remote_id st l os = Inr ids'" for ids'
    using that holders_of_id_ok [OF cs remote]
    by (auto simp: find_client_by_remote_id_def malformed_query_def
        split: option.splits dhcp_option.splits plain_option.splits extension_option.splits)
  ultimately show ?thesis
    using assms(2) rows(1) unfolding q
    by (auto simp: find_client_by_link_address_def elim!: rbind_InrE intro: row_in split: if_splits)
qed

lemma concat_res_single: "concat_res (\<lambda>x. rbind (f x) (\<lambda>y. Inr [y])) xs = Inr ys \<Longrightarrow> length ys = length xs"
  by (induction xs arbitrary: ys) (auto elim!: rbind_InrE)

lemma sqlite_counts_leases:
  assumes "store_ok st" and "sqlite_find_leases R sens now st query = Inr (n, leases)" and "0 < n"
  shows "n = int (length leases)"
proof -
  from assms(2,3) obtain ids requested where rows: "find_client_rows st query = Inr (Some ids)"
    and n: "n = int (length ids)"
    and g: "generate_client_data_options R sens now st ids requested = Inr leases"
    by (auto simp: sqlite_find_leases_def res_exception_def Let_def elim!: rbind_InrE
        split: option.splits if_splits sum.splits)
  let ?cs = "filter (\<lambda>c. row_id c \<in> set ids) (clients st)"
  have ids: "distinct ids" "set ids \<subseteq> client_ids st" using find_client_rows_ok [OF assms(1) rows] by auto
  have "distinct (map row_id ?cs)"
    using assms(1) by (auto simp: store_ok_def clients_ok_def distinct_map_filter)
  moreover have "set (map row_id ?cs) = set ids"
    using ids(2) by (auto simp: client_ids_def)
  ultimately have "length ?cs = length ids"
    using ids(1) by (metis distinct_card length_map)
  with concat_res_single [OF g [unfolded generate_client_data_options_def]] n show ?thesis by simp
qed
end
