(* ===== verification/LeaseProperties.thy ===== *)
theory LeaseProperties
  imports LeaseStoreLaws Scenario
begin

text \<open>
  What the lease store and the leasequery handler guarantee: the database stays consistent over
  any history, an update of the leases is the set of leases that it should be, what was
  remembered is found again and comes back as it was stored, no sensitive option is disclosed,
  and a bulk query is answered completely and in order.
\<close>

subsection \<open>A concrete transaction\<close>

definition ex_relay :: relay where
  "ex_relay = \<lparr>relay_hop_count = 0, relay_link_address = Some ex_address,
     relay_peer_address = Some 0xfe800000000000000000000000000001,
     relay_options = [Plain (InterfaceIdOption [101]), Plain (ExtensionOption (RemoteIdOption 9 [1, 171]))]\<rparr>"

definition ex_lease :: dhcp_option where
  "ex_lease = IAAddressOption (Some ex_address) 100 200 []"

definition ex_leased :: transaction_bundle where
  "ex_leased =
     \<lparr>incoming_message = relay_message RelayForwardMessage ex_relay,
      received_over_multicast = True, received_over_tcp = False, allow_unicast = False,
      allow_rapid_commit = False,
      request = Some \<lparr>cs_class = RequestMessage, cs_transaction_id = [1, 2, 3],
        cs_options = [Plain (ClientIdOption (Some ex_client))]\<rparr>,
      incoming_relay_messages = [ex_relay],
      responses = \<lparr>first_message = Some \<lparr>cs_class = ReplyMessage, cs_transaction_id = [1, 2, 3],
        cs_options = [IANAOption [0, 0, 0, 1] 0 0 [ex_lease]]\<rparr>, subsequent_messages = []\<rparr>,
      outgoing_relay_messages = None, handled_options = [], marks = {}\<rparr>"

definition ex_client_id :: pystr where
  "ex_client_id = lit ''00030001020000000001''"

definition ex_store :: lease_store where
  "ex_store =
     \<lparr>last_row_id = 1,
      clients = [\<lparr>row_id = 1, row_client_id = ex_client_id, row_link_address = ex_address,
        row_options = [], last_interaction = 1000,
        row_relay_data = [12, 0, 0x20, 1, 0x0d, 0xb8, 0, 0, 0, 0, 0, 0, 0, 0, 0, 0, 0, 1,
          0xfe, 0x80, 0, 0, 0, 0, 0, 0, 0, 0, 0, 0, 0, 0, 0, 1,
          0, 18, 0, 1, 101, 0, 37, 0, 6, 0, 0, 0, 9, 1, 171]\<rparr>],
      addresses = [\<lparr>lease_fk = 1, lease_key = ex_address, preferred_lifetime_end = 1101,
        valid_lifetime_end = 1201, lease_options = []\<rparr>],
      prefixes = [], remote_ids = [(1, lit ''9:01ab'')], relay_ids = []\<rparr>"

lemma ex_link_address: "link_of ex_leased = Inr ex_address"
  by (simp add: link_of_def link_address_def ex_leased_def ex_relay_def ex_routable)
    (simp add: ex_address_def is_unspecified_def)

lemma ex_client_id: "client_id_of ex_leased = Inr ex_client_id"
  by (simp add: client_id_of_def ex_leased_def request_options_def get_option_of_type_def
    get_options_of_type_def encode_duid_def ex_client_def be_bytes_numeral be_bytes_one hex_encode_def
    hex_digit_def lit_def ex_client_id_def)

lemma ex_reply_leases: "reply_leases ex_leased = Inr ([ex_lease], [])"
  by (simp add: reply_leases_def ex_leased_def ex_lease_def is_accepted_def get_address_leases_def
    get_prefix_leases_def get_leases_def response_def get_option_of_type_def get_options_of_type_def)

lemma ex_relay_data:
  "encode_relay_messages [] (Some ex_relay) = Inr (row_relay_data (hd (clients ex_store)))"
  by (simp add: ex_store_def encode_relay_messages_def ex_relay_def storable_chain.simps relay_message_def
    ex_address_def plain_save_defs extension_save_defs append_byte_def pack_string_def packed_def
    be_bytes_numeral be_bytes_one relayed_message_def RelayServerMessage_save_def filter_storable_options_def filter_options_def
    unstorable_options_def)

lemma ex_remote_ids: "get_remote_ids ex_leased = [lit ''9:01ab'']"
  by (simp add: get_remote_ids_def ex_leased_def ex_relay_def encode_remote_id_def decimal_def
    decimal_digits.simps hex_encode_def hex_digit_def lit_def)

lemma ex_remembered: "remember_lease [] (1000, 1001, 1002) ex_leased empty_store = (Inr (), ex_store)"
proof -
  have "get_relay_ids ex_leased = Inr []"
    by (simp add: get_relay_ids_def ex_leased_def ex_relay_def)
  moreover have "response_options ex_leased = Inr [IANAOption [0, 0, 0, 1] 0 0 [ex_lease]]"
      "outermost_relay ex_leased = Inr ex_relay"
    by (simp_all add: response_options_def outermost_relay_def ex_leased_def response_def)
  ultimately show ?thesis
    by (simp add: remember_lease_def update_client_def db_bind_def db_res_def ex_client_id ex_link_address ex_reply_leases
      ex_remote_ids get_client_row_id_def empty_store_def Let_def update_last_interaction_def
      encode_options_def filter_storable_options_def filter_options_def unstorable_options_def
      ex_relay_data replace_remote_ids_def replace_relay_ids_def replace_ids_def insert_or_ignore_def
      update_address_leases_def update_prefix_leases_def transaction_def ex_lease_def update_leases_def
      delete_others_def update_rows_def insert_rows_def make_lease_row_def)
      (simp add: ex_store_def)
qed

lemma ex_history: "store_history [] ex_store"
  by (rule store_history.remembered [OF store_history.created ex_remembered])

subsection \<open>Consistency\<close>

text \<open>
  C8. Whatever transactions a lease store has remembered, failed ones included, and however
  often the server was restarted: a client has one row for a link, no address is stored twice
  (so no two clients hold it), overlapping prefixes belong to one client, and every lease belongs
  to a client of the store.
\<close>

theorem lease_store_consistent:
  assumes "store_history sens st"
  shows "distinct (map (\<lambda>c. (row_client_id c, row_link_address c)) (clients st))
    \<and> distinct (map lease_key (addresses st))
    \<and> exclusive ranges_overlap (prefixes st)
    \<and> list_all (\<lambda>r. lease_fk r \<in> row_id ` set (clients st)) (addresses st)
    \<and> list_all (\<lambda>r. lease_fk r \<in> row_id ` set (clients st)) (prefixes st)"
proof -
  have ok: "store_ok st" using assms by (rule store_history_ok)
  then have rows: "leases_ok (=) (client_ids st) (addresses st)" by (simp add: store_ok_def)
  have "inj_on lease_key (set (addresses st))"
    using exclusive_rows_eq [OF rows] by (auto intro: inj_onI)
  moreover have "distinct (addresses st)"
    using rows by (auto simp: leases_ok_def distinct_map)
  ultimately show ?thesis
    using ok by (auto simp: store_ok_def clients_ok_def leases_ok_def distinct_map client_ids_def list_all_iff)
qed

theorem lease_store_consistent_witness:
  "distinct (map lease_key (addresses ex_store)) \<and> length (addresses ex_store) = 1
   \<and> list_all (\<lambda>r. lease_fk r \<in> row_id ` set (clients ex_store)) (addresses ex_store)"
  using lease_store_consistent [OF ex_history] by (simp add: ex_store_def)

text \<open>
  C10. The four statements that bring a table of leases up to date compute this set of rows: the
  other clients' rows that no new lease displaces, the client's own that have not expired and
  are not leased again, and the new leases, unless their lifetime is over at once.
\<close>

definition leases_after ::
  "('k \<Rightarrow> 'k \<Rightarrow> bool) \<Rightarrow> int list \<Rightarrow> int \<Rightarrow> int \<Rightarrow> ('k \<times> new_lease) list \<Rightarrow> 'k lease_row set \<Rightarrow> 'k lease_row set" where
  "leases_after overlap sensitive_options now fk leases rows =
      {r \<in> rows. lease_fk r \<noteq> fk \<and> \<not> (\<exists>k \<in> fst ` set leases. overlap k (lease_key r))}
      \<union> {r \<in> rows. lease_fk r = fk \<and> lease_key r \<notin> fst ` set leases \<and> now \<le> valid_lifetime_end r}
      \<union> {r. \<exists>k l. (k, l) \<in> set leases \<and> make_lease_row sensitive_options now fk k l = Inr r
              \<and> now \<le> valid_lifetime_end r}"

theorem lease_update_refines_set:
  assumes "update_leases overlap sens now fk leases table = Inr table'" and "distinct (map fst leases)"
  shows "set table' = leases_after overlap sens now fk leases (set table)"
  unfolding update_leases_set [OF assms] leases_after_def displaced_def by blast

definition ex_row :: "int \<Rightarrow> int \<Rightarrow> int \<Rightarrow> int lease_row" where
  "ex_row fk k end =
     \<lparr>lease_fk = fk, lease_key = k, preferred_lifetime_end = end, valid_lifetime_end = end, lease_options = []\<rparr>"

theorem lease_update_refines_set_witness:
  "set [ex_row 2 21 90, ex_row 1 10 150] =
     leases_after (=) [] 50 1 [(10 :: int, 100, 100, [])]
       (set [ex_row 2 10 90, ex_row 2 21 90, ex_row 1 11 40, ex_row 1 10 60])"
  by (rule lease_update_refines_set)
    (simp_all add: update_leases_def delete_others_def update_rows_def insert_rows_def make_lease_row_def
      encode_options_def filter_storable_options_def filter_options_def ex_row_def)

subsection \<open>What is remembered is found\<close>

text \<open>
  C9. An address that a reply leased is found again: the client has a row with the time of the
  transaction, the lease with the ends of its lifetimes and its options, exactly the remote ids
  of the request, and it is an answer to a query for the address, on its link or on any.
\<close>

theorem remembered_address_is_found:
  assumes "remember_lease sens (now, now_addresses, now_prefixes) b st = (Inr (), st')"
    and "store_history sens st" and "reply_leases b = Inr (as, ps)"
    and "lease_dict new_address_lease as [] = Inr new"
    and "map_of new a = Some (p, v, os)" and "0 \<le> v"
    and "client_id_of b = Inr client_id" and "link_of b = Inr query_link"
  shows "\<exists>c r ids. c \<in> set (clients st') \<and> row_client_id c = client_id \<and> row_link_address c = query_link
    \<and> last_interaction c = now
    \<and> r \<in> set (addresses st') \<and> lease_fk r = row_id c \<and> lease_key r = a
    \<and> preferred_lifetime_end r = now_addresses + p \<and> valid_lifetime_end r = now_addresses + v
    \<and> encode_options sens os = Inr (lease_options r)
    \<and> {i. (row_id c, i) \<in> set (remote_ids st')} = set (get_remote_ids b)
    \<and> find_client_by_address st' query_link [IAAddressOption (Some a) 0 0 []] = Inr ids
    \<and> row_id c \<in> set ids"
proof -
  have ok: "store_ok st" using assms(2) by (rule store_history_ok)
  from assms(1) ok assms(3-8) obtain c r where c: "c \<in> set (clients st')" "row_client_id c = client_id"
      "row_link_address c = query_link" "last_interaction c = now"
    and r: "r \<in> set (addresses st')" "lease_fk r = row_id c" "lease_key r = a"
      "preferred_lifetime_end r = now_addresses + p" "valid_lifetime_end r = now_addresses + v"
      "encode_options sens os = Inr (lease_options r)"
    and ids: "{i. (row_id c, i) \<in> set (remote_ids st')} = set (get_remote_ids b)"
    by (rule remembered_client)
  have "row_id c \<in> set (address_holders st' a)"
    unfolding r(2) [symmetric] using r(1,3) by (auto simp: address_holders_def)
  then obtain found where "find_client_by_address st' query_link [IAAddressOption (Some a) 0 0 []] = Inr found"
      "row_id c \<in> set found"
    using c(1,3) by (auto simp: find_client_by_address_def get_option_of_type_def get_options_of_type_def
        clients_on_link_def)
  with c r ids show ?thesis by blast
qed

theorem remembered_address_is_found_witness:
  "\<exists>c r ids. c \<in> set (clients ex_store) \<and> row_client_id c = ex_client_id \<and> row_link_address c = ex_address
    \<and> last_interaction c = 1000
    \<and> r \<in> set (addresses ex_store) \<and> lease_fk r = row_id c \<and> lease_key r = ex_address
    \<and> preferred_lifetime_end r = 1001 + 100 \<and> valid_lifetime_end r = 1001 + 200
    \<and> encode_options [] [] = Inr (lease_options r)
    \<and> {i. (row_id c, i) \<in> set (remote_ids ex_store)} = set (get_remote_ids ex_leased)
    \<and> find_client_by_address ex_store ex_address [IAAddressOption (Some ex_address) 0 0 []] = Inr ids
    \<and> row_id c \<in> set ids"
  by (rule remembered_address_is_found [where new = "[(ex_address, 100, 200, [])]",
        OF ex_remembered store_history.created ex_reply_leases _ _ _ ex_client_id ex_link_address])
    (simp_all add: ex_lease_def)

text \<open>
  The options that are stored come back as they were, in order, without those that must
  not be stored: identity associations, leases, ids, status codes and what the administrator
  calls sensitive.
\<close>

lemma stored_options_come_back:
  assumes "encode_options sens options = Inr bs"
    and "\<forall>o' \<in> set (filter_storable_options sens options).
           option_validate T o' = Inr () \<and> option_representable R o'"
  shows "decode_options R bs = Inr (filter_storable_options sens options)"
  using dhcp_options.items_roundtrip_octets [where pre = "[]" and post = "[]" and offset = 0 and my_offset = 0
      and fuel = "Suc (length bs)", OF assms(2) assms(1) [unfolded encode_options_def]]
  by (simp add: decode_options_def)

lemma stored_options_come_back_witness:
  "decode_options core_registry [0, 7, 0, 1, 255]
     = Inr (filter_storable_options [17]
         [Plain (ServerIdOption None), Plain (PreferenceOption 255), Plain (StatusCodeOption 0 []),
          Plain (VendorSpecificInformationOption 9 [])])"
  by (rule stored_options_come_back [where T = core_containment])
    (simp_all add: encode_options_def filter_storable_options_def filter_options_def unstorable_options_def
      plain_save_defs plain_validate_defs be_bytes_numeral be_bytes_one core_registry_def append_byte_def)

lemma address_data_class:
  "concat_res (address_data R now) rows = Inr os \<Longrightarrow> o' \<in> set os \<Longrightarrow> option_type_of o' = 5"
  by (auto simp: concat_res_set_eq address_data_def elim!: rbind_InrE)

lemma prefix_data_class:
  "concat_res (prefix_data R now) rows = Inr os \<Longrightarrow> o' \<in> set os \<Longrightarrow> option_type_of o' = 26"
  by (auto simp: concat_res_set_eq prefix_data_def split: option.splits elim!: rbind_InrE)

lemma relay_data_class:
  "build_relay_data_option_from_relay_data R data = Inr (Some o') \<Longrightarrow> option_type_of o' = 47"
  by (auto simp: build_relay_data_option_from_relay_data_def elim!: rbind_InrE
      split: if_splits option.splits message.splits relay_class.splits)

lemma client_data_optionE:
  assumes "client_data_option R sens now requested st c = Inr (l, ClientDataOption os)"
  obtains duid stored relay adr pre
  where "os = [Plain (ClientIdOption (Some duid)),
             Plain (ExtensionOption (CLTTimeOption (now - last_interaction c)))]
          @ stored @ relay @ adr @ pre"
    "l = row_link_address c" "decode_duid (row_client_id c) = Inr duid"
    "\<exists>options. stored = filter_requested_options sens options requested \<or> stored = []"
    "list_all (\<lambda>o'. option_type_of o' = 47) relay"
    "concat_res (address_data R now) (current_leases now (row_id c) (addresses st)) = Inr adr"
    "concat_res (prefix_data R now) (current_leases now (row_id c) (prefixes st)) = Inr pre"
proof -
  from assms obtain duid stored relay adr pre where d: "decode_duid (row_client_id c) = Inr duid"
    and s: "(if list_ex (\<lambda>t. t \<noteq> 47 \<and> t \<noteq> 0) requested
             then rbind (decode_options R (row_options c)) (\<lambda>stored_options.
                  Inr (filter_requested_options sens stored_options requested))
             else Inr []) = Inr stored"
    and rl: "(if 47 \<in> set requested then build_relay_data_option_from_relay_data R (row_relay_data c)
             else Inr None) = Inr relay"
    and adr: "concat_res (address_data R now) (current_leases now (row_id c) (addresses st)) = Inr adr"
    and pre: "concat_res (prefix_data R now) (current_leases now (row_id c) (prefixes st)) = Inr pre"
    and l: "l = row_link_address c"
    and os: "os = [Plain (ClientIdOption (Some duid)),
             Plain (ExtensionOption (CLTTimeOption (now - last_interaction c)))]
          @ stored @ (case relay of None \<Rightarrow> [] | Some o' \<Rightarrow> [o']) @ adr @ pre"
    unfolding client_data_option_def Let_def by (elim rbind_InrE) simp
  have "\<exists>options. stored = filter_requested_options sens options requested \<or> stored = []"
    using s by (auto elim!: rbind_InrE split: if_splits)
  moreover have "list_all (\<lambda>o'. option_type_of o' = 47) (case relay of None \<Rightarrow> [] | Some o' \<Rightarrow> [o'])"
    using rl relay_data_class by (auto split: if_splits option.splits)
  ultimately show thesis using d l os adr pre by (intro that) auto
qed

text \<open>
  C36. What is told about a client holds no option that the administrator calls sensitive, except
  what the answer itself consists of: the client id, the time since the last interaction, the
  relay data and the leases.
\<close>

theorem sensitive_options_stay_secret:
  assumes "client_data_option R sens now requested st c = Inr (l, ClientDataOption os)"
    and "o' \<in> set os" and "option_type_of o' \<in> set sens"
  shows "option_type_of o' \<in> {1, 46, 47, 5, 26}"
  using assms(1)
proof (rule client_data_optionE)
  fix duid stored relay adr pre
  assume os: "os = [Plain (ClientIdOption (Some duid)),
             Plain (ExtensionOption (CLTTimeOption (now - last_interaction c)))]
          @ stored @ relay @ adr @ pre"
    and "\<exists>options. stored = filter_requested_options sens options requested \<or> stored = []"
    and "list_all (\<lambda>o'. option_type_of o' = 47) relay"
    and adr: "concat_res (address_data R now) (current_leases now (row_id c) (addresses st)) = Inr adr"
    and pre: "concat_res (prefix_data R now) (current_leases now (row_id c) (prefixes st)) = Inr pre"
  moreover from this have "o' \<notin> set stored"
    using assms(3) by (auto simp: filter_requested_options_def split: if_splits)
  ultimately show ?thesis
    using assms(2) address_data_class [OF adr] prefix_data_class [OF pre] by (auto simp: list_all_iff)
qed

lemma ex_client_data:
  "client_data_option core_registry sens now [] ex_store (hd (clients ex_store)) =
     Inr (ex_address, ClientDataOption
       ([Plain (ClientIdOption (Some ex_client)), Plain (ExtensionOption (CLTTimeOption (now - 1000)))]
        @ (if now < 1201 then [IAAddressOption (Some ex_address) (max 0 (1101 - now)) (1201 - now) []] else [])))"
proof -
  have "decode_duid ex_client_id = Inr ex_client"
    using DUID_parse_save [of ex_client "[0, 3, 0, 1, 2, 0, 0, 0, 0, 1]" "[]" "[]"]
    by (simp add: decode_duid_def ex_client_id_def lit_def ascii_space_def hex_value_def ex_client_def
      be_bytes_numeral be_bytes_one)
  moreover have "decode_options R [] = Inr []" for R
    by (simp add: decode_options_def)
  ultimately show ?thesis
    by (simp add: client_data_option_def ex_store_def current_leases_def address_data_def max_def)
qed

theorem sensitive_options_stay_secret_witness:
  "option_type_of (IAAddressOption (Some ex_address) 1 101 []) \<in> {1, 46, 47, 5, 26}"
  by (rule sensitive_options_stay_secret [where sens = "[5, 23]" and now = 1100, OF ex_client_data]) simp_all

text \<open>
  C39. A query for an address whose lease has expired still finds the client that held it, and
  what is told about this client then does not mention the address.
\<close>

fun tells_address :: "ipv6 \<Rightarrow> dhcp_option \<Rightarrow> bool" where
  "tells_address a (IAAddressOption address p v os) = (address = Some a)"
| "tells_address a _ = False"

theorem expired_lease_still_found:
  assumes "store_history sens' st" and "r \<in> set (addresses st)" and "valid_lifetime_end r \<le> now"
    and "row_id c = lease_fk r"
    and "client_data_option R sens now [] st c = Inr (l, ClientDataOption os)"
  shows "(\<exists>ids. find_client_by_address st 0 [IAAddressOption (Some (lease_key r)) 0 0 []] = Inr ids
            \<and> row_id c \<in> set ids)
         \<and> \<not> list_ex (tells_address (lease_key r)) os"
proof
  show "\<exists>ids. find_client_by_address st 0 [IAAddressOption (Some (lease_key r)) 0 0 []] = Inr ids
            \<and> row_id c \<in> set ids"
    using assms(2,4) by (auto simp: find_client_by_address_def get_option_of_type_def get_options_of_type_def
        is_unspecified_def address_holders_def)
  have rows: "leases_ok (=) (client_ids st) (addresses st)"
    using store_history_ok [OF assms(1)] by (simp add: store_ok_def)
  show "\<not> list_ex (tells_address (lease_key r)) os"
    using assms(5)
  proof (rule client_data_optionE)
    fix duid stored relay adr pre
    assume os: "os = [Plain (ClientIdOption (Some duid)),
               Plain (ExtensionOption (CLTTimeOption (now - last_interaction c)))]
            @ stored @ relay @ adr @ pre"
      and s: "\<exists>options. stored = filter_requested_options sens options [] \<or> stored = []"
      and rl: "list_all (\<lambda>o'. option_type_of o' = 47) relay"
      and adr: "concat_res (address_data R now) (current_leases now (row_id c) (addresses st)) = Inr adr"
      and pre: "concat_res (prefix_data R now) (current_leases now (row_id c) (prefixes st)) = Inr pre"
    have no_type: "\<not> tells_address a o'" if "option_type_of o' \<noteq> 5" for a o'
      using that by (cases o') auto
    have "\<not> tells_address (lease_key r) o'" if "o' \<in> set adr" for o'
    proof
      assume "tells_address (lease_key r) o'"
      with that adr obtain q where q: "q \<in> set (current_leases now (row_id c) (addresses st))"
          and k: "lease_key q = lease_key r"
        by (auto simp: concat_res_set_eq address_data_def elim!: rbind_InrE)
      then have "q = r" using exclusive_rows_eq [OF rows _ assms(2)] by (auto simp: current_leases_def)
      with q assms(3) show False by (simp add: current_leases_def)
    qed
    with s rl prefix_data_class [OF pre] no_type show ?thesis
      by (auto simp: os list_ex_iff list_all_iff filter_requested_options_def)
  qed
qed

theorem expired_lease_still_found_witness:
  "(\<exists>ids. find_client_by_address ex_store 0
       [IAAddressOption (Some (lease_key (hd (addresses ex_store)))) 0 0 []] = Inr ids
     \<and> row_id (hd (clients ex_store)) \<in> set ids)
   \<and> \<not> list_ex (tells_address (lease_key (hd (addresses ex_store))))
       [Plain (ClientIdOption (Some ex_client)), Plain (ExtensionOption (CLTTimeOption 300))]"
  by (rule expired_lease_still_found [where sens = "[]" and now = 1300 and R = core_registry
        and l = ex_address, OF ex_history])
    (simp_all add: ex_client_data, simp_all add: ex_store_def)

subsection \<open>Bulk leasequery\<close>

lemma bulk_answer:
  assumes "request b = Some req" and "cs_class req = LeasequeryMessage" and "received_over_tcp b"
    and "response b = Some m" and "get_unhandled_options [C_LQQueryOption] b = query # queries"
    and "find_leases query = Inr (int (length leases), leases)" and "leases \<noteq> []"
  shows "\<exists>b' answers finish. LeasequeryHandler_handle find_leases as_set b = Inr b'
    \<and> messages_iter (responses b') = answers @ [finish]
    \<and> map cs_class answers = cs_class m # replicate (length leases - 1) LeasequeryDataMessage
    \<and> cs_class finish = LeasequeryDoneMessage
    \<and> list_all (\<lambda>x. cs_transaction_id x = cs_transaction_id m) (answers @ [finish])
    \<and> concat (map cs_options answers) = cs_options m @ map snd leases
    \<and> query \<in> set (handled_options b')"
proof -
  obtain l d rest where leases: "leases = (l, d) # rest" using assms(7) by (cases leases) auto
  let ?m = "m\<lparr>cs_options := cs_options m @ [d]\<rparr>"
  let ?data = "map (\<lambda>(query_link, data_option).
      \<lparr>cs_class = LeasequeryDataMessage, cs_transaction_id = cs_transaction_id m, cs_options = [data_option]\<rparr>) rest"
  let ?b = "(mark_handled query b)\<lparr>responses := \<lparr>first_message = Some ?m,
      subsequent_messages = generate_data_messages (cs_transaction_id m) rest\<rparr>\<rparr>"
  have step: "LeasequeryHandler_handle find_leases as_set b = Inr ?b"
    using assms(1-6) unfolding leases
    by (simp add: LeasequeryHandler_handle_def Let_def mark_handled_def response_def)
  let ?finish = "\<lparr>cs_class = LeasequeryDoneMessage, cs_transaction_id = cs_transaction_id m,
      cs_options = [Plain (StatusCodeOption 0 (lit ''That'' @ [39] @ lit ''s all folks''))]\<rparr>"
  have "map cs_class ?data = replicate (length rest) LeasequeryDataMessage"
    and "concat (map cs_options ?data) = map snd rest"
    and "list_all (\<lambda>x. cs_transaction_id x = cs_transaction_id m) ?data"
    by (induction rest) auto
  with step show ?thesis
    by (intro exI [of _ ?b] exI [of _ "?m # ?data"] exI [of _ ?finish])
      (auto simp: leases messages_iter_def generate_data_messages_def mark_handled_def)
qed

text \<open>
  A leasequery over TCP that finds leases in the store is answered completely and in order: the reply
  with the first lease, one message of data for every further one, and a last message that says
  so; all of them carry the transaction id of the reply, the query counts as handled, and the number of
  leases that the store gives is the number it tells.
\<close>

lemma bulk_query_answered_in_order:
  assumes "store_history sens st" and "request b = Some req" and "cs_class req = LeasequeryMessage"
    and "received_over_tcp b" and "response b = Some m"
    and "get_unhandled_options [C_LQQueryOption] b = query # queries"
    and "sqlite_find_leases R sens now st query = Inr (n, leases)" and "0 < n"
  shows "\<exists>b' answers finish. LeasequeryHandler_handle (sqlite_find_leases R sens now st) as_set b = Inr b'
    \<and> n = int (length leases)
    \<and> messages_iter (responses b') = answers @ [finish]
    \<and> map cs_class answers = cs_class m # replicate (length leases - 1) LeasequeryDataMessage
    \<and> cs_class finish = LeasequeryDoneMessage
    \<and> list_all (\<lambda>x. cs_transaction_id x = cs_transaction_id m) (answers @ [finish])
    \<and> concat (map cs_options answers) = cs_options m @ map snd leases
    \<and> query \<in> set (handled_options b')"
proof -
  have n: "n = int (length leases)"
    using sqlite_counts_leases [OF store_history_ok [OF assms(1)] assms(7,8)] .
  with assms(7,8) have "sqlite_find_leases R sens now st query = Inr (int (length leases), leases)" "leases \<noteq> []"
    by auto
  from bulk_answer [where find_leases = "sqlite_find_leases R sens now st" and as_set = as_set,
      OF assms(2-6) this] show ?thesis unfolding n by simp
qed

definition ex_query :: dhcp_option where
  "ex_query = LQQueryOption 1 0 [IAAddressOption (Some ex_address) 0 0 []]"

definition ex_query_bundle :: transaction_bundle where
  "ex_query_bundle = ex_leased\<lparr>received_over_tcp := True,
     request := Some \<lparr>cs_class = LeasequeryMessage, cs_transaction_id = [1, 2, 3], cs_options = [ex_query]\<rparr>,
     responses := \<lparr>first_message = Some \<lparr>cs_class = LeasequeryReplyMessage, cs_transaction_id = [1, 2, 3],
        cs_options = []\<rparr>, subsequent_messages = []\<rparr>\<rparr>"

definition ex_told :: dhcp_option where
  "ex_told = ClientDataOption [Plain (ClientIdOption (Some ex_client)),
     Plain (ExtensionOption (CLTTimeOption 100)), IAAddressOption (Some ex_address) 1 101 []]"

lemma ex_found: "sqlite_find_leases core_registry [] 1100 ex_store ex_query = Inr (1, [(ex_address, ex_told)])"
proof -
  have "find_client_rows ex_store ex_query = Inr (Some [1])"
    by (simp add: ex_query_def ex_store_def find_client_by_address_def get_option_of_type_def
      is_unspecified_def address_holders_def)
  moreover have "generate_client_data_options core_registry [] 1100 ex_store [1] [] = Inr [(ex_address, ex_told)]"
  proof -
    have "clients ex_store = [hd (clients ex_store)]" "row_id (hd (clients ex_store)) = 1"
      by (simp_all add: ex_store_def)
    then have "filter (\<lambda>c. row_id c \<in> set [1]) (clients ex_store) = [hd (clients ex_store)]"
      by (metis (no_types, lifting) filter.simps list.set_intros(1))
    then show ?thesis
      by (simp add: generate_client_data_options_def ex_client_data ex_told_def)
  qed
  ultimately show ?thesis
    by (simp add: sqlite_find_leases_def res_exception_def)
      (simp add: ex_query_def get_option_of_type_def)
qed

lemma bulk_query_answered_in_order_witness:
  "\<exists>b' answers finish. LeasequeryHandler_handle (sqlite_find_leases core_registry [] 1100 ex_store) id
      ex_query_bundle = Inr b'
    \<and> 1 = int (length [(ex_address, ex_told)])
    \<and> messages_iter (responses b') = answers @ [finish]
    \<and> map cs_class answers = cs_class (the (response ex_query_bundle))
        # replicate (length [(ex_address, ex_told)] - 1) LeasequeryDataMessage
    \<and> cs_class finish = LeasequeryDoneMessage
    \<and> list_all (\<lambda>x. cs_transaction_id x = cs_transaction_id (the (response ex_query_bundle))) (answers @ [finish])
    \<and> concat (map cs_options answers)
        = cs_options (the (response ex_query_bundle)) @ map snd [(ex_address, ex_told)]
    \<and> ex_query \<in> set (handled_options b')"
  by (rule bulk_query_answered_in_order [where queries = "[]" and req = "the (request ex_query_bundle)",
        OF ex_history _ _ _ _ _ ex_found])
    (simp_all add: ex_query_bundle_def ex_leased_def response_def get_unhandled_options_def
      request_options_def ex_query_def)

end
