(* ===== verification/StaticLaws.thy ===== *)
theory StaticLaws
  imports StaticAssignments
begin

text \<open>
  What the static assignment handler adds to a response, and how the two places where
  assignments are kept choose between the names of a client.
\<close>

subsection \<open>What is added to the response\<close>

text \<open>The options of the response grow at their end, by options with the property \<open>P\<close>.\<close>

definition adds_options :: "(dhcp_option \<Rightarrow> bool) \<Rightarrow> transaction_bundle \<Rightarrow> transaction_bundle \<Rightarrow> bool" where
  "adds_options P b b' \<longleftrightarrow>
     (\<exists>new. list_all P new \<and> map_option cs_options (response b') = map_option (\<lambda>m. cs_options m @ new) (response b))"

lemma adds_options_refl [intro]: "response b' = response b \<Longrightarrow> adds_options P b b'"
  unfolding adds_options_def by (rule exI [of _ "[]"]) (simp cong: option.map_cong)

lemma adds_options_trans: "adds_options P b c \<Longrightarrow> adds_options P c d \<Longrightarrow> adds_options P b d"
  unfolding adds_options_def
  by (elim exE conjE, rule_tac x = "new @ newa" in exI) (cases "response b"; cases "response c"; auto)

definition adding :: "(dhcp_option \<Rightarrow> bool) \<Rightarrow> step \<Rightarrow> bool" where
  "adding P f \<longleftrightarrow> (\<forall>b b'. f b = Inr b' \<longrightarrow> adds_options P b b')"

lemma adding_bind:
  assumes "adding P f" and "adding P g"
  shows "adding P (\<lambda>b. rbind (f b) g)"
  unfolding adding_def
proof (intro allI impI)
  fix b b' assume "rbind (f b) g = Inr b'"
  then obtain c where "f b = Inr c" "g c = Inr b'" by (elim rbind_InrE)
  with assms show "adds_options P b b'" unfolding adding_def by (blast intro: adds_options_trans)
qed

lemma adding_run_steps: "(\<And>x. x \<in> set xs \<Longrightarrow> adding P (f x)) \<Longrightarrow> adding P (run_steps f xs)"
proof (induction xs)
  case (Cons x xs)
  then have "adding P (\<lambda>b. rbind (f x b) (run_steps f xs))" by (intro adding_bind) auto
  then show ?case by (simp add: adding_def)
qed (auto simp: adding_def)

lemma adding_python: "(\<And>x. r = Inr x \<Longrightarrow> adding P (f x)) \<Longrightarrow> adding P (python r f)"
  by (auto simp: adding_def python_def raise_in_def split: sum.splits)

lemma response_mark_handled [simp]: "response (mark_handled option b) = response b"
  by (simp add: mark_handled_def response_def)

lemma answer_with_adds: "answer_with option answer b = Inr b' \<Longrightarrow> P answer \<Longrightarrow> adds_options P b b'"
  unfolding adds_options_def
  by (auto simp: answer_with_def append_response_def with_response_def set_response_options_def
      set_response_def response_def mark_handled_def elim!: rbind_InrE split: option.splits
      intro!: exI [of _ "[answer]"])

lemma adding_answer_with: "P answer \<Longrightarrow> adding P (answer_with option answer)"
  by (auto simp: adding_def intro: answer_with_adds)

text \<open>
  A lease that the handler may give: the assigned one with the configured lifetimes, or any
  with no lifetimes.
\<close>

fun lease_allowed :: "static_assignment \<Rightarrow> assignment \<Rightarrow> dhcp_option \<Rightarrow> bool" where
  "lease_allowed h a (IAAddressOption address p v os) \<longleftrightarrow> os = [] \<and>
     (p = 0 \<and> v = 0 \<or> address = assigned_address a \<and> p = address_preferred_lifetime h \<and> v = address_valid_lifetime h)"
| "lease_allowed h a (IAPrefixOption prefix p v os) \<longleftrightarrow> os = [] \<and>
     (p = 0 \<and> v = 0 \<or> prefix = assigned_prefix a \<and> p = prefix_preferred_lifetime h \<and> v = prefix_valid_lifetime h)"
| "lease_allowed h a _ \<longleftrightarrow> False"

definition answer_allowed :: "static_assignment \<Rightarrow> assignment \<Rightarrow> dhcp_option \<Rightarrow> bool" where
  "answer_allowed h a answer \<longleftrightarrow>
     option_class_of answer \<in> {C_IANAOption, C_IAPDOption} \<and> list_all (lease_allowed h a) (suboptions answer)"

lemma request_adding:
  "adding (answer_allowed h a) (request_prefix h a)" "adding (answer_allowed h a) (request_address h a)"
  unfolding adding_def request_prefix_def request_address_def
  by (auto split: option.splits elim!: answer_with_adds
      simp: answer_allowed_def lease_prefix_def lease_address_def)

lemma renew_adding:
  "adding (answer_allowed h a) (renew_prefix h a option)" "adding (answer_allowed h a) (renew_address h a option)"
proof -
  have "list_all (lease_allowed h a) (map (renewed_prefix h p) ps)" if "assigned_prefix a = Some p" for p ps
    using that by (auto simp: list_all_iff renewed_prefix_def lease_prefix_def)
  then show "adding (answer_allowed h a) (renew_prefix h a option)"
    unfolding adding_def renew_prefix_def python_def
    by (auto split: option.splits sum.splits if_splits simp: raise_in_def answer_allowed_def
        elim!: answer_with_adds)
  have "list_all (lease_allowed h a) (map (renewed_address h a) as)" for as
    by (auto simp: list_all_iff renewed_address_def)
  then show "adding (answer_allowed h a) (renew_address h a option)"
    unfolding renew_address_def by (intro adding_answer_with) (simp add: answer_allowed_def)
qed

lemma unchanged_adding:
  "adding P (release_prefix a option)" "adding P (release_address a option)"
  by (auto simp: adding_def release_prefix_def release_address_def python_def raise_in_def
      split: option.splits sum.splits if_splits)

lemma static_assignment_adds:
  assumes a: "get_assignment h b = Inr a" and h: "StaticAssignmentHandler_handle h b = Inr b'"
  shows "adds_options (answer_allowed h a) b b'"
proof -
  let ?P = "answer_allowed h a"
  note steps = adding_bind adding_run_steps request_adding renew_adding unchanged_adding
  have use: "adding ?P f \<Longrightarrow> f b = Inr b' \<Longrightarrow> adds_options ?P b b'" for f
    by (simp add: adding_def)
  have request: "adds_options ?P b b'" if "handle_request h b = Inr b'"
    using that by (intro use [of "\<lambda>b. rbind (request_prefix h a b) (request_address h a)"] steps)
      (simp add: handle_request_def python_def a)
  have confirm: "adds_options ?P b b'" if "handle_confirm h b = Inr b'"
  proof -
    let ?f = "\<lambda>option b. Inr (if assigned_address a \<in> set (get_addresses (suboptions option))
                          then mark_handled option b else b)"
    have "adding ?P (run_steps ?f xs)" for xs
      by (rule adding_run_steps) (auto simp: adding_def)
    then show ?thesis
      using that by (auto simp: handle_confirm_def python_def a adding_def)
  qed
  have renew: "adds_options ?P b b'" if "handle_renew_rebind h b = Inr b'"
    using that by (intro use [of "\<lambda>c. rbind (run_steps (renew_prefix h a) (get_unhandled_options [C_IAPDOption] b) c)
        (run_steps (renew_address h a) (get_unhandled_options [C_IANAOption] b))"] steps)
      (simp add: handle_renew_rebind_def python_def a Let_def)
  have release: "adds_options ?P b b'" if "handle_release_decline h b = Inr b'"
    using that by (intro use [of "\<lambda>c. rbind (run_steps (release_prefix a) (get_unhandled_options [C_IAPDOption] b) c)
        (run_steps (release_address a) (get_unhandled_options [C_IANAOption] b))"] steps)
      (simp add: handle_release_decline_def python_def a Let_def)
  from h show ?thesis
    using request confirm renew release
    by (auto simp: StaticAssignmentHandler_handle_def split: option.splits if_splits)
qed

subsection \<open>Which name decides\<close>

lemma smallest_in: "smallest ks = Some k \<Longrightarrow> k \<in> set ks"
  by (induction ks arbitrary: k) (auto split: option.splits if_splits)

lemma smallest_first_letter:
  assumes "k \<in> set ks" and "\<forall>k' \<in> set ks. k' \<noteq> [] \<and> (k' = k \<or> hd k < hd k')"
  shows "smallest ks = Some k"
  using assms
proof (induction ks)
  case (Cons x xs)
  have "k \<noteq> []" using Cons.prems by blast
  then have less: "hd k < hd k' \<Longrightarrow> k' \<noteq> [] \<Longrightarrow> text_less k k' \<and> \<not> text_less k' k" for k'
    by (cases k; cases k') simp_all
  show ?case
  proof (cases "k \<in> set xs")
    case True
    with Cons less [of x] show ?thesis by auto
  next
    case False
    then have "x = k" using Cons.prems(1) by simp
    moreover have "\<not> text_less k' k" if "smallest xs = Some k'" for k'
    proof -
      have "k' \<in> set xs" using that by (rule smallest_in)
      with False have "k' \<noteq> k" by blast
      moreover have "k' \<noteq> [] \<and> (k' = k \<or> hd k < hd k')"
        using Cons.prems(2) \<open>k' \<in> set xs\<close> by (rule bspec [OF _ list.set_intros(2)])
      ultimately show ?thesis using less by blast
    qed
    ultimately show ?thesis by (auto split: option.splits)
  qed
qed simp

lemma select_first_letter:
  assumes "mapping k = Some a" and "k \<in> set ids"
    and "\<forall>k' \<in> set ids. k' \<noteq> [] \<and> (mapping k' = None \<or> k' = k \<or> hd k < hd k')"
  shows "select_assignment mapping ids = a"
proof -
  have "smallest (filter (\<lambda>k. mapping k \<noteq> None) ids) = Some k"
    using assms by (intro smallest_first_letter) auto
  with assms(1) show ?thesis by (simp add: select_assignment_def)
qed

lemma select_none: "\<forall>k \<in> set ids. mapping k = None \<Longrightarrow> select_assignment mapping ids = no_assignment"
  by (simp add: select_assignment_def filter_False)

definition first_letter :: "option_class \<Rightarrow> nat" where
  "first_letter c =
     (if c = C_InterfaceIdOption then 105 else if c = C_LinkLayerIdOption then 108
      else if c = C_RemoteIdOption then 114 else 115)"

lemma relay_name_letter:
  assumes "relay_name c b = Inr (Some k)"
    and "c \<in> {C_InterfaceIdOption, C_RemoteIdOption, C_SubscriberIdOption, C_LinkLayerIdOption}"
  shows "k \<noteq> [] \<and> hd k = first_letter c"
proof -
  obtain o' os where f: "get_option_of_type [c] os = Some o'" and n: "option_name o' = Some k"
    using assms(1) by (auto simp: relay_name_def relay_option_def bind_eq_Some_conv
        elim!: rbind_InrE split: list.splits)
  from f have "option_class_of o' = c"
    unfolding get_option_of_type_def find_Some_iff by auto
  note o' = this n
  with assms(2) show ?thesis
    by (cases o' rule: option_name.cases) (auto simp: name_defs lit_def first_letter_def)
qed

lemma duid_key_letter: "duid_key b = Inr k \<Longrightarrow> k \<noteq> [] \<and> hd k = 100"
  by (auto simp: duid_key_def name_defs lit_def split: option.splits dhcp_option.splits plain_option.splits
      elim!: rbind_InrE)

fun first_assigned :: "assignment_table \<Rightarrow> pystr option list \<Rightarrow> assignment" where
  "first_assigned mapping [] = no_assignment"
| "first_assigned mapping (None # names) = first_assigned mapping names"
| "first_assigned mapping (Some k # names) =
     (case mapping k of None \<Rightarrow> first_assigned mapping names | Some a \<Rightarrow> a)"

definition present :: "pystr option list \<Rightarrow> pystr list" where
  "present names = concat (map (\<lambda>n. case n of None \<Rightarrow> [] | Some k \<Rightarrow> [k]) names)"

lemma present_simps [simp]:
  "present [] = []" "present (None # names) = present names" "present (Some k # names) = k # present names"
  by (simp_all add: present_def)

lemma first_assigned_present: "first_assigned mapping (map Some (present names)) = first_assigned mapping names"
proof (induction names)
  case (Cons n names)
  then show ?case by (cases n) (auto split: option.splits)
qed simp

lemma set_present: "k \<in> set (present names) \<longleftrightarrow> Some k \<in> set names"
proof (induction names)
  case (Cons n names)
  then show ?case by (cases n) auto
qed simp

text \<open>Of names in the order of their first letters, the smallest in the table is the first.\<close>

lemma select_is_first:
  assumes "sorted_wrt (\<lambda>k k'. hd k < hd k') ks" and "[] \<notin> set ks" and "set ids = set ks"
  shows "select_assignment mapping ids = first_assigned mapping (map Some ks)"
proof -
  have "(\<forall>k \<in> set ks. mapping k = None) \<and> first_assigned mapping (map Some ks) = no_assignment
      \<or> (\<exists>k \<in> set ks. mapping k = Some (first_assigned mapping (map Some ks))
         \<and> (\<forall>k' \<in> set ks. mapping k' = None \<or> k' = k \<or> hd k < hd k'))"
    using assms(1)
  proof (induction ks)
    case (Cons k ks)
    then show ?case by (cases "mapping k") auto
  qed simp
  then show ?thesis
  proof (elim disjE bexE conjE)
    assume "\<forall>k \<in> set ks. mapping k = None" "first_assigned mapping (map Some ks) = no_assignment"
    then show ?thesis using assms(3) by (simp add: select_none)
  next
    fix k assume "k \<in> set ks" "mapping k = Some (first_assigned mapping (map Some ks))"
      and "\<forall>k' \<in> set ks. mapping k' = None \<or> k' = k \<or> hd k < hd k'"
    with assms(2,3) show ?thesis by (intro select_first_letter [of _ k]) auto
  qed
qed

lemma try_relay_names_first:
  assumes "\<And>c. c \<in> set cs \<Longrightarrow> relay_name c b = Inr (f c)"
  shows "try_relay_names mapping cs b = Inr (first_assigned mapping (map f cs))"
  using assms
proof (induction cs)
  case (Cons c cs)
  then show ?case by (cases "f c") (auto simp: try_name_def split: option.splits)
qed simp

lemma sorted_present:
  assumes "sorted_wrt (\<lambda>c c'. letter c < letter c') cs"
    and "\<And>c k. c \<in> set cs \<Longrightarrow> f c = Some k \<Longrightarrow> hd k = letter c"
  shows "sorted_wrt (\<lambda>k k'. hd k < (hd k' :: nat)) (present (map f cs))"
  using assms
proof (induction cs)
  case (Cons c cs)
  have "hd k < hd k'" if "f c = Some k" "k' \<in> set (present (map f cs))" for k k'
  proof -
    from that(2) obtain x where "x \<in> set cs" "f x = Some k'"
      unfolding set_present set_map by (metis imageE)
    with Cons.prems(1) Cons.prems(2) [of c k] Cons.prems(2) [of x k'] that(1) show ?thesis by simp
  qed
  with Cons show ?case by (cases "f c") auto
qed simp

lemma sqlite_is_first:
  assumes "incoming_relay_messages b \<noteq> []"
  shows "sqlite_get_assignment mapping b =
     rbind (duid_key b) (\<lambda>duid. try_name mapping (Some duid)
       (try_relay_names mapping
         [C_InterfaceIdOption, C_LinkLayerIdOption, C_RemoteIdOption, C_SubscriberIdOption] b))"
proof (cases "duid_key b")
  case (Inr d)
  define f where "f c = projr (relay_name c b)" for c
  have f: "relay_name c b = Inr (f c)" for c
    using assms by (simp add: f_def relay_name_def relay_option_def split: list.split)
  let ?cs = "[C_InterfaceIdOption, C_LinkLayerIdOption, C_RemoteIdOption, C_SubscriberIdOption]"
  let ?ids = "d # present (map f [C_InterfaceIdOption, C_RemoteIdOption, C_SubscriberIdOption, C_LinkLayerIdOption])"
  have letter: "f c = Some k \<Longrightarrow> c \<in> set ?cs \<Longrightarrow> k \<noteq> [] \<and> hd k = first_letter c" for c k
    using relay_name_letter [of c b k] f [of c] by auto
  have d: "d \<noteq> []" "hd d = 100" using duid_key_letter [OF Inr] by auto
  have later: "k \<noteq> [] \<and> hd d < hd k" if "k \<in> set (present (map f ?cs))" for k
  proof -
    from that obtain c where "c \<in> set ?cs" "f c = Some k"
      unfolding set_present set_map by (metis imageE)
    with letter [of c k] d(2) show ?thesis by (simp add: first_letter_def)
  qed
  have "sorted_wrt (\<lambda>k k'. hd k < hd k') (present (map f ?cs))"
    by (rule sorted_present [where letter = first_letter]) (use letter in \<open>simp_all add: first_letter_def\<close>)
  with later d(1) have "select_assignment mapping ?ids = first_assigned mapping (map Some (d # present (map f ?cs)))"
    by (intro select_is_first) (auto simp: set_present)
  moreover have "sqlite_get_assignment mapping b = Inr (select_assignment mapping ?ids)"
    by (simp add: sqlite_get_assignment_def Inr f present_def)
  moreover have "try_relay_names mapping ?cs b = Inr (first_assigned mapping (map f ?cs))"
    by (rule try_relay_names_first) (rule f)
  ultimately show ?thesis
    unfolding Inr rbind_Inr try_name_def
    by (cases "mapping d") (simp_all only: list.map first_assigned.simps first_assigned_present option.case)
qed (simp add: sqlite_get_assignment_def)

end
