(* ===== verification/Listeners.thy ===== *)
theory Listeners
  imports Worker
begin

text \<open>
  dhcpkit/ipv6/server/listeners: which sockets a listener accepts, how a TCP connection cuts
  its stream into messages, what it hands to a worker, and what a replier puts on the wire.
  The operating system's part (receiving, sending, interface indexes) is an argument: a
  connection delivers its stream in pieces of any size, and an empty piece means that the
  peer closed it.
\<close>

subsection \<open>__init__.py\<close>

definition increase_message_counter :: "nat \<Rightarrow> nat" where
  "increase_message_counter message_counter =
     (let message_counter = message_counter + 1 in
      if message_counter > 0xFFFFFF then 1 else message_counter)"

subsection \<open>udp.py\<close>

text \<open>What the code asks of a socket: family and protocol, and its name.\<close>

record socket =
  is_inet6 :: bool
  is_udp :: bool
  is_tcp :: bool
  sock_address :: ipv6
  sock_port :: int
  sock_interface :: int

datatype listener_error = ListeningSocketError | IncompleteMessage | ClosedListener

record udp_listener =
  udp_interface_id :: bytes
  udp_listen_address :: ipv6
  udp_global_address :: ipv6
  udp_marks :: "pystr list"
  udp_interface_index :: int

text \<open>
  \<open>UDPListener.__init__\<close>: a missing reply socket is the listening one.  The sockets are compared
  by identity; the argument \<open>same_socket\<close> says whether they are the same object.
\<close>

definition UDPListener ::
  "bytes \<Rightarrow> socket \<Rightarrow> socket \<Rightarrow> bool \<Rightarrow> ipv6 option \<Rightarrow> pystr list \<Rightarrow> listener_error + udp_listener" where
  "UDPListener interface_id listen_socket reply_socket same_socket global_address ms =
     (if \<not> is_inet6 listen_socket \<or> \<not> is_udp listen_socket
         \<or> \<not> is_inet6 reply_socket \<or> \<not> is_udp reply_socket then Inl ListeningSocketError
      else if sock_port listen_socket \<noteq> 547 \<or> sock_port reply_socket \<noteq> 547 then Inl ListeningSocketError
      else if sock_interface listen_socket \<noteq> sock_interface reply_socket then Inl ListeningSocketError
      else
        (let listen_address = sock_address listen_socket;
             reply_address = sock_address reply_socket
         in
         rbind
           (case global_address of
              Some a \<Rightarrow> Inr a
            | None \<Rightarrow>
                if \<not> is_link_local listen_address \<and> \<not> is_multicast listen_address then Inr listen_address
                else Inl ListeningSocketError)
           (\<lambda>global_address.
         if is_unspecified listen_address \<or> is_unspecified reply_address then Inl ListeningSocketError
         else if is_multicast listen_address \<and> \<not> is_link_local reply_address then Inl ListeningSocketError
         else if \<not> is_multicast listen_address \<and> \<not> same_socket then Inl ListeningSocketError
         else Inr \<lparr>udp_interface_id = interface_id, udp_listen_address = listen_address,
                udp_global_address = global_address, udp_marks = ms,
                udp_interface_index = sock_interface listen_socket\<rparr>)))"

definition udp_recv_request :: "udp_listener \<Rightarrow> bytes \<Rightarrow> ipv6 \<Rightarrow> incoming_packet" where
  "udp_recv_request l data sender =
     \<lparr>packet_data = data, source_address = Some sender, packet_link_address = udp_global_address l,
       packet_over_multicast = is_multicast (udp_listen_address l), packet_over_tcp = False,
       packet_marks = udp_marks l,
       packet_relay_options = [Plain (InterfaceIdOption (udp_interface_id l))]\<rparr>"

text \<open>
  \<open>UDPReplier.send_reply\<close>: the octets and the destination (address, port, interface index) that
  are handed to the socket; \<open>if_nametoindex\<close> is an argument, \<open>None\<close> for its \<open>OSError\<close>.
\<close>

definition udp_destination ::
  "(bytes \<Rightarrow> int option) \<Rightarrow> relay \<Rightarrow> message \<Rightarrow> ipv6 option \<times> int \<times> int" where
  "udp_destination if_nametoindex outgoing reply =
     (relay_peer_address outgoing,
      (case reply of RelayServerMessage RelayReplyMessage h l p os \<Rightarrow> 547 | _ \<Rightarrow> 546),
      (case get_option_of_type [C_InterfaceIdOption] (relay_options outgoing) of
         Some (Plain (InterfaceIdOption interface_id)) \<Rightarrow>
           (case if_nametoindex interface_id of None \<Rightarrow> 0 | Some i \<Rightarrow> i)
       | _ \<Rightarrow> 0))"

subsection \<open>tcp.py: accepting connections\<close>

definition TCPConnectionListener_global_address :: "socket \<Rightarrow> ipv6 option \<Rightarrow> listener_error + ipv6" where
  "TCPConnectionListener_global_address listen_socket global_address =
     (if \<not> is_inet6 listen_socket \<or> \<not> is_tcp listen_socket then Inl ListeningSocketError
      else if sock_port listen_socket \<noteq> 547 then Inl ListeningSocketError
      else
        rbind
          (case global_address of
             Some a \<Rightarrow> Inr a
           | None \<Rightarrow>
               if is_global_unicast (sock_address listen_socket) then Inr (sock_address listen_socket)
               else Inl ListeningSocketError)
          (\<lambda>global_address.
        if is_unspecified (sock_address listen_socket) then Inl ListeningSocketError
        else Inr global_address))"

text \<open>\<open>create_listener\<close>: whether a connection of the client is kept.\<close>

definition accepts_connection :: "nat \<Rightarrow> nat \<Rightarrow> ipv6_network list \<Rightarrow> ipv6 \<Rightarrow> bool" where
  "accepts_connection open_sockets max_connections allow_from client_address \<longleftrightarrow>
     \<not> open_sockets \<ge> max_connections
     \<and> (allow_from = [] \<or> list_ex (in_network client_address) allow_from)"

subsection \<open>tcp.py: the stream\<close>

text \<open>The buffer of a connection, and the pieces that its socket has still to deliver.\<close>

record tcp_connection =
  tcp_buffer :: bytes
  tcp_socket :: "bytes list"

text \<open>\<open>recv(amount)\<close>: at most that much of the first piece; nothing when the peer has closed.\<close>

definition socket_recv :: "nat \<Rightarrow> bytes list \<Rightarrow> bytes \<times> bytes list" where
  "socket_recv amount pieces =
     (case pieces of
        [] \<Rightarrow> ([], [])
      | p # ps \<Rightarrow> (take amount p, if length p \<le> amount then ps else drop amount p # ps))"

definition recv_data_into_buffer :: "nat \<Rightarrow> tcp_connection \<Rightarrow> bool \<times> tcp_connection" where
  "recv_data_into_buffer amount c =
     (case socket_recv amount (tcp_socket c) of
        (data, pieces) \<Rightarrow>
          if data = [] then (False, c\<lparr>tcp_socket := pieces\<rparr>)
          else (True, c\<lparr>tcp_buffer := tcp_buffer c @ data, tcp_socket := pieces\<rparr>))"

definition packet_from_buffer :: "tcp_connection \<Rightarrow> bytes \<times> tcp_connection" where
  "packet_from_buffer c =
     (let message_length = be_nat (take 2 (tcp_buffer c)) in
      (slice (tcp_buffer c) 2 message_length,
       c\<lparr>tcp_buffer := drop (2 + message_length) (tcp_buffer c)\<rparr>))"

text \<open>\<open>recv_request\<close>: the data of a message, or the exception raised, with the connection after it.\<close>

definition recv_rest :: "tcp_connection \<Rightarrow> (listener_error + bytes) \<times> tcp_connection" where
  "recv_rest c =
     (if \<not> length (tcp_buffer c) \<ge> 2 then (Inl IncompleteMessage, c)
      else
        (let message_length = be_nat (take 2 (tcp_buffer c));
             remaining_data = int message_length - (int (length (tcp_buffer c)) - 2);
             (got, c) = (if remaining_data > 0 then recv_data_into_buffer (nat remaining_data) c
                          else (True, c))
         in
         if \<not> got then (Inl ClosedListener, c)
         else if length (tcp_buffer c) - 2 \<ge> message_length
         then (case packet_from_buffer c of (data, c) \<Rightarrow> (Inr data, c))
         else (Inl IncompleteMessage, c)))"

definition recv_request :: "tcp_connection \<Rightarrow> (listener_error + bytes) \<times> tcp_connection" where
  "recv_request c =
     (if length (tcp_buffer c) < 2 then
        (case recv_data_into_buffer (2 - length (tcp_buffer c)) c of
           (got, c) \<Rightarrow> if \<not> got then (Inl ClosedListener, c) else recv_rest c)
      else recv_rest c)"

definition tcp_packet :: "bytes \<Rightarrow> ipv6 \<Rightarrow> ipv6 \<Rightarrow> pystr list \<Rightarrow> bytes \<Rightarrow> incoming_packet" where
  "tcp_packet interface_id client_address global_address ms data =
     \<lparr>packet_data = data, source_address = Some client_address, packet_link_address = global_address,
       packet_over_multicast = False, packet_over_tcp = True, packet_marks = ms,
       packet_relay_options = [Plain (InterfaceIdOption interface_id)]\<rparr>"

text \<open>\<open>TCPReplier.send_reply\<close>: the octets of a message on the stream.\<close>

definition tcp_frame :: "bytes \<Rightarrow> bytes res" where
  "tcp_frame message_data =
     rbind (pack_fields [(2, int (length message_data))]) (\<lambda>h. Inr (h @ message_data))"

subsection \<open>The messages of a connection\<close>

text \<open>
  The main loop calls \<open>recv_request\<close> whenever the connection is readable and ignores
  \<open>IncompleteMessage\<close>, until the connection is closed.
\<close>

definition to_receive :: "tcp_connection \<Rightarrow> nat" where
  "to_receive c = 2 * length (concat (tcp_socket c)) + length (tcp_buffer c)"

lemma recv_data_less:
  "recv_data_into_buffer n c = (True, c') \<Longrightarrow> to_receive c' < to_receive c"
  by (cases "tcp_socket c")
    (auto simp: recv_data_into_buffer_def socket_recv_def to_receive_def split: if_splits)

lemma packet_less:
  "2 \<le> length (tcp_buffer c) \<Longrightarrow> packet_from_buffer c = (data, c') \<Longrightarrow> to_receive c' < to_receive c"
  by (auto simp: packet_from_buffer_def Let_def to_receive_def)

lemma recv_buffer_mono:
  "recv_data_into_buffer n c = (got, c') \<Longrightarrow> length (tcp_buffer c) \<le> length (tcp_buffer c')"
  by (auto simp: recv_data_into_buffer_def split: prod.splits if_splits)

lemma recv_rest_less:
  assumes "recv_rest c = (r, c')" and "r \<noteq> Inl ClosedListener"
  shows "to_receive c' < to_receive c \<or> c' = c \<and> length (tcp_buffer c) < 2"
proof (cases "length (tcp_buffer c) \<ge> 2")
  case True
  define n where "n = int (be_nat (take 2 (tcp_buffer c))) - (int (length (tcp_buffer c)) - 2)"
  show ?thesis
  proof (cases "0 < n")
    case got: True
    with True assms obtain d where d: "recv_data_into_buffer (nat n) c = (True, d)"
      and rest: "c' = d \<or> (\<exists>data. packet_from_buffer d = (data, c'))"
      by (auto simp: recv_rest_def Let_def n_def split: prod.splits if_splits)
    from recv_data_less [OF d] packet_less [of d] recv_buffer_mono [OF d] True rest show ?thesis
      by fastforce
  next
    case False
    with True assms packet_less [OF True] show ?thesis
      by (auto simp: recv_rest_def Let_def n_def split: prod.splits if_splits)
  qed
qed (use assms in \<open>auto simp: recv_rest_def\<close>)

lemma recv_request_less:
  assumes "recv_request c = (r, c')" and "r \<noteq> Inl ClosedListener"
  shows "to_receive c' < to_receive c"
proof (cases "length (tcp_buffer c) < 2")
  case True
  with assms obtain d where d: "recv_data_into_buffer (2 - length (tcp_buffer c)) c = (True, d)"
    and r: "recv_rest d = (r, c')"
    by (auto simp: recv_request_def split: prod.splits if_splits)
  from recv_data_less [OF d] recv_rest_less [OF r assms(2)] show ?thesis by auto
qed (use assms recv_rest_less [of c r c'] in \<open>auto simp: recv_request_def\<close>)

function tcp_messages :: "tcp_connection \<Rightarrow> bytes list" where
  "tcp_messages c =
     (case recv_request c of
        (Inl ClosedListener, c') \<Rightarrow> []
      | (Inl _, c') \<Rightarrow> tcp_messages c'
      | (Inr data, c') \<Rightarrow> data # tcp_messages c')"
  by pat_completeness auto

termination
  by (relation "measure to_receive") (auto dest: recv_request_less [OF sym])

declare tcp_messages.simps [simp del]

subsection \<open>The stream as a whole\<close>

text \<open>
  The reference reading: a stream is cut into frames from its front, whatever pieces it comes
  in; octets that are no whole frame are left.
\<close>

definition stream :: "tcp_connection \<Rightarrow> bytes" where
  "stream c = tcp_buffer c @ concat (tcp_socket c)"

definition whole_frame :: "bytes \<Rightarrow> bool" where
  "whole_frame s \<longleftrightarrow> 2 \<le> length s \<and> be_nat (take 2 s) \<le> length s - 2"

function frames :: "bytes \<Rightarrow> bytes list" where
  "frames s =
     (if whole_frame s
      then slice s 2 (be_nat (take 2 s)) # frames (drop (2 + be_nat (take 2 s)) s)
      else [])"
  by pat_completeness auto

termination
  by (relation "measure length") (auto simp: whole_frame_def)

declare frames.simps [simp del]

definition pieces_ok :: "tcp_connection \<Rightarrow> bool" where
  "pieces_ok c \<longleftrightarrow> [] \<notin> set (tcp_socket c)"

lemma recv_data_stream:
  assumes "recv_data_into_buffer n c = (got, c')" and "pieces_ok c" and "0 < n"
  shows "pieces_ok c' \<and> stream c' = stream c \<and> (\<not> got \<longrightarrow> c' = c \<and> tcp_socket c = [])
         \<and> (\<exists>a. tcp_buffer c' = tcp_buffer c @ a)"
proof (cases "tcp_socket c")
  case Nil
  with assms show ?thesis
    by (cases c) (auto simp: recv_data_into_buffer_def socket_recv_def)
next
  case (Cons p ps)
  with assms(2) have "p \<noteq> []" by (auto simp: pieces_ok_def)
  with Cons assms show ?thesis
    by (auto simp: recv_data_into_buffer_def socket_recv_def pieces_ok_def stream_def split: if_splits)
qed

definition step_ok :: "tcp_connection \<Rightarrow> (listener_error + bytes) \<times> tcp_connection \<Rightarrow> bool" where
  "step_ok c = (\<lambda>(r, c'). pieces_ok c' \<and>
     (case r of
        Inl ClosedListener \<Rightarrow> \<not> whole_frame (stream c)
      | Inl _ \<Rightarrow> stream c' = stream c
      | Inr data \<Rightarrow> whole_frame (stream c) \<and> data = slice (stream c) 2 (be_nat (take 2 (stream c)))
          \<and> stream c' = drop (2 + be_nat (take 2 (stream c))) (stream c)))"

lemma step_ok_stream: "stream d = stream c \<Longrightarrow> step_ok d = step_ok c"
  unfolding step_ok_def by (erule ssubst) (rule refl)

lemma packet_ok:
  assumes "whole_frame (tcp_buffer c)" and "pieces_ok c" and "packet_from_buffer c = (data, c')"
  shows "step_ok c (Inr data, c')"
proof -
  have "2 \<le> length (tcp_buffer c)" "be_nat (take 2 (tcp_buffer c)) \<le> length (tcp_buffer c) - 2"
    using assms(1) by (auto simp: whole_frame_def)
  with assms show ?thesis
    by (auto simp: step_ok_def packet_from_buffer_def Let_def stream_def whole_frame_def slice_def pieces_ok_def)
qed

lemma recv_rest_ok:
  assumes "pieces_ok c"
  shows "step_ok c (recv_rest c)"
proof (cases "length (tcp_buffer c) \<ge> 2")
  case len: True
  define l where "l = be_nat (take 2 (tcp_buffer c))"
  define n where "n = int l - (int (length (tcp_buffer c)) - 2)"
  show ?thesis
  proof (cases "0 < n")
    case True
    obtain got d where d: "recv_data_into_buffer (nat n) c = (got, d)" by fastforce
    note ds = recv_data_stream [OF d assms]
    from ds True len have head: "be_nat (take 2 (tcp_buffer d)) = l" "2 \<le> length (tcp_buffer d)"
      by (auto simp: l_def)
    consider "\<not> got" | "got" "l \<le> length (tcp_buffer d) - 2" | "got" "\<not> l \<le> length (tcp_buffer d) - 2"
      by blast
    then show ?thesis
    proof cases
      case 1
      with ds True have dc: "d = c" "tcp_socket c = []" by auto
      have "recv_rest c = (Inl ClosedListener, d)"
        using len True d 1 by (simp add: recv_rest_def Let_def l_def n_def)
      moreover have "\<not> whole_frame (stream c)"
        using True len dc by (auto simp: whole_frame_def stream_def l_def n_def)
      ultimately show ?thesis using assms dc by (simp add: step_ok_def)
    next
      case 2
      obtain data e where p: "packet_from_buffer d = (data, e)" by fastforce
      have "recv_rest c = (Inr data, e)"
        using len True d 2 p by (simp add: recv_rest_def Let_def l_def n_def)
      moreover have "step_ok d (Inr data, e)"
        by (rule packet_ok [OF _ _ p]) (use 2 head ds True in \<open>auto simp: whole_frame_def\<close>)
      ultimately show ?thesis using ds True by (simp add: step_ok_def)
    next
      case 3
      then have "recv_rest c = (Inl IncompleteMessage, d)"
        using len True d by (simp add: recv_rest_def Let_def l_def n_def)
      then show ?thesis using ds True by (simp add: step_ok_def)
    qed
  next
    case False
    obtain data e where p: "packet_from_buffer c = (data, e)" by fastforce
    have whole: "l \<le> length (tcp_buffer c) - 2" using False len by (simp add: n_def)
    then have "recv_rest c = (Inr data, e)"
      using len False p by (simp add: recv_rest_def Let_def l_def n_def)
    then show ?thesis
      using packet_ok [OF _ assms p] len whole by (simp add: whole_frame_def l_def)
  qed
qed (use assms in \<open>simp add: recv_rest_def step_ok_def\<close>)

lemma recv_request_ok:
  assumes "pieces_ok c"
  shows "step_ok c (recv_request c)"
proof (cases "length (tcp_buffer c) < 2")
  case True
  obtain got d where d: "recv_data_into_buffer (2 - length (tcp_buffer c)) c = (got, d)" by fastforce
  from recv_data_stream [OF d assms] True
  have ds: "pieces_ok d" "stream d = stream c" "\<not> got \<longrightarrow> d = c \<and> tcp_socket c = []" by auto
  show ?thesis
  proof (cases got)
    case got: True
    with recv_rest_ok [OF ds(1)] True d step_ok_stream [OF ds(2)] show ?thesis
      by (simp add: recv_request_def)
  next
    case False
    with ds True have "\<not> whole_frame (stream c)" by (simp add: whole_frame_def stream_def)
    with False True d ds show ?thesis by (simp add: recv_request_def step_ok_def)
  qed
qed (use recv_rest_ok [OF assms] in \<open>simp add: recv_request_def\<close>)

lemma tcp_messages_frames:
  assumes "pieces_ok c"
  shows "tcp_messages c = frames (stream c)"
  using assms
proof (induction c rule: tcp_messages.induct)
  case (1 c)
  obtain r c' where r: "recv_request c = (r, c')" by fastforce
  with recv_request_ok [OF "1.prems"] have ok: "step_ok c (r, c')" by simp
  consider "r = Inl ClosedListener" | e where "r = Inl e" "e \<noteq> ClosedListener" | data where "r = Inr data"
    by (cases r) auto
  then show ?case
  proof cases
    case 1
    with ok r show ?thesis by (subst tcp_messages.simps, subst frames.simps) (simp add: step_ok_def)
  next
    case 2
    with ok have "pieces_ok c'" "stream c' = stream c" by (auto simp: step_ok_def split: listener_error.splits)
    with 2 r "1.IH"(1,2) [of r c' e] show ?thesis
      by (subst tcp_messages.simps) (cases e; auto)
  next
    case 3
    with ok r "1.IH" show ?thesis
      by (subst tcp_messages.simps, subst frames.simps) (auto simp: step_ok_def)
  qed
qed

lemma frames_tcp_frame:
  assumes "tcp_frame m = Inr bs"
  shows "frames (bs @ s) = m # frames s"
proof -
  have "bs = be_bytes 2 (length m) @ m" and "length m < 65536"
    using assms by (auto simp: tcp_frame_def pack_fields_eq_Inr elim!: rbind_InrE)
  then show ?thesis
    by (subst frames.simps) (simp add: whole_frame_def be_nat_be_bytes slice_def)
qed

lemma frames_concat: "concat_res tcp_frame ms = Inr bs \<Longrightarrow> frames (bs @ s) = ms @ frames s"
  by (induction ms arbitrary: bs) (auto elim!: rbind_InrE simp: frames_tcp_frame)

end
