(* ===== verification/ExtensionProperties.thy ===== *)
theory ExtensionProperties
  imports StaticLaws TimingLimits RateLimit Listeners Scenario
begin

text \<open>
  What the server extensions and the listeners guarantee: a TCP connection yields the messages
  that its stream holds however it is cut up, a rate limit is kept and patience is rewarded,
  renewal times are in order, a static assignment leases nothing else, and two places that keep
  assignments do not prefer the same names.  Two kinds of messages that the extensions wait for
  never get past validation.
\<close>

subsection \<open>TCP\<close>

text \<open>
  C11. A connection yields the messages that were framed onto its stream, in order, in whatever
  pieces the stream is received, and goes on with what follows them.
\<close>

theorem tcp_stream_yields_messages:
  assumes "concat_res tcp_frame messages = Inr octets" and "[] \<notin> set pieces"
    and "concat pieces = octets @ rest"
  shows "tcp_messages \<lparr>tcp_buffer = [], tcp_socket = pieces\<rparr> = messages @ frames rest"
  using assms tcp_messages_frames [of "\<lparr>tcp_buffer = [], tcp_socket = pieces\<rparr>"]
  by (simp add: pieces_ok_def stream_def frames_concat)

theorem tcp_stream_yields_messages_witness:
  "tcp_messages \<lparr>tcp_buffer = [], tcp_socket = [[0], [2, 7], [8, 0, 1, 9, 0], [3, 1]]\<rparr>
     = [[7, 8], [9]] @ frames [0, 3, 1]"
  by (rule tcp_stream_yields_messages [where octets = "[0, 2, 7, 8, 0, 1, 9]"])
    (simp_all add: tcp_frame_def be_bytes_numeral be_bytes_one)

subsection \<open>Rate limits\<close>

text \<open>
  C12. Of the requests of one client in any period, no more are allowed than the burst and the
  rate over that period give, whatever the clients have asked before, and however long the client has been
  silent: tokens are not saved up.
\<close>

theorem rate_limit_is_kept:
  assumes "0 \<le> rate" and "0 < per" and "1 \<le> burst"
    and "sorted (map snd (earlier @ requests))" and "start \<le> stop"
    and "\<forall>t \<in> snd ` set earlier. t \<le> start" and "\<forall>t \<in> snd ` set requests. start \<le> t \<and> t \<le> stop"
    and "check_all check_request (RateLimitCounters rate per (Some burst)) (earlier @ requests) = (allowed, c)"
  shows "of_nat (allowed_for k requests (drop (length earlier) allowed))
    \<le> of_int burst + (stop - start) * (of_int rate / of_int per)"
proof -
  let ?c = "RateLimitCounters rate per (Some burst)"
  have "rates_ok ?c" using assms(1,2) by (simp add: rates_ok_def RateLimitCounters_def)
  from buckets.period_bound [OF this _ assms(4-8), of k] assms(3)
  show ?thesis by (simp add: RateLimitCounters_def tokens_left_def)
qed

theorem rate_limit_is_kept_witness:
  "of_nat (allowed_for [7] [([7 :: nat], 1000), ([7], 1001), ([8], 1002), ([7], 1002)]
     (drop 3 [True, True, False, True, True, True, False]))
   \<le> of_int 2 + (1002 - 1000 :: rat) * (of_int 1 / of_int 10)"
proof -
  let ?earlier = "[([7 :: nat], 1), ([7], 2), ([7], 3)]" and ?requests = "[([7 :: nat], 1000), ([7], 1001), ([8], 1002), ([7], 1002)]"
  have "check_all check_request (RateLimitCounters 1 10 (Some 2)) (?earlier @ ?requests)
      = ([True, True, False, True, True, True, False],
         snd (check_all check_request (RateLimitCounters 1 10 (Some 2)) (?earlier @ ?requests)))"
    by (simp add: check_request_def RateLimitCounters_def Let_def)
  from rate_limit_is_kept [OF _ _ _ _ _ _ _ this, of 1000 1002 "[7]"] show ?thesis by simp
qed

text \<open>
  A client that waits for one token's time after a request, allowed or not, is allowed.
\<close>

lemma patient_client_is_allowed:
  assumes "rates_ok c" and "0 \<le> tokens_left c k t" and "1 \<le> bucket_size c"
    and "check_request c k t = (allow, c')" and "t \<le> u" and "1 \<le> (u - t) * rate_per_second c"
  shows "fst (check_request c' k u)"
proof -
  have c': "c' = snd (check_request c k t)" using assms(4) by simp
  have "0 \<le> tokens_left c' k t"
    unfolding c' buckets.takes_token [OF assms(1)] using assms(2) by (simp add: buckets.allow_iff)
  with buckets.wf_check [OF assms(1)] assms(3,5,6) show ?thesis
    unfolding c' by (intro buckets.patience_rewarded [of _ t]) (simp_all add: buckets.settings_check)
qed

lemma patient_client_is_allowed_witness:
  "fst (check_request (snd (check_request (RateLimitCounters 1 10 (Some 1)) [7] 5)) [7] 15)"
  by (rule patient_client_is_allowed [where c = "RateLimitCounters 1 10 (Some 1)" and t = 5
        and allow = True])
    (simp_all add: check_request_def RateLimitCounters_def rates_ok_def tokens_left_def Let_def)

subsection \<open>Renewal times\<close>

text \<open>
  C14. After the timing limits of addresses were applied, the renewal times of an identity
  association whose leases end are in order: T1 is not after T2, T2 not after the end of any
  preferred lifetime, and neither after its maximum.
\<close>

theorem renewal_times_in_order:
  assumes "handler_handle (IANATimingLimitsHandler h) b = Inr b'" and "response b' = Some m"
    and "IANAOption iaid t1 t2 options \<in> set (cs_options m)"
    and "IAAddressOption adr p v os \<in> set options" and "p \<le> INFINITY"
  shows "t1 \<le> t2 \<and> t2 \<le> p \<and> t1 \<le> max_t1 h \<and> t2 \<le> max_t2 h"
proof -
  have "\<exists>os. cs_options m = map (iana_limit_option h) os"
    using assms(1,2) by (fastforce simp: IANATimingLimitsHandler_def base_handler_def TimingLimitsHandler_handle_def
        with_response_def set_response_options_def set_response_def response_def split: option.splits)
  then obtain m0 where "cs_options m = map (iana_limit_option h) m0" by blast
  with assms(3) obtain o' where o': "iana_limit_option h o' = IANAOption iaid t1 t2 options" by auto
  then obtain u1 u2 where "o' = IANAOption iaid u1 u2 options"
    and lim: "limit_times h (shortest_preferred address_preferred (INFINITY + 1) options) (u1, u2) = (t1, t2)"
    by (cases o') (auto split: prod.splits)
  have short: "shortest_preferred address_preferred (INFINITY + 1) options \<le> p"
    by (rule shortest_preferred_le(2) [OF assms(4)]) simp
  with limit_times_ordered [OF lim] assms(5) show ?thesis by auto
qed

definition ex_timing :: timing_limits where
  "ex_timing = \<lparr>min_t1 = 0, max_t1 = INFINITY, factor_t1 = Some (1 / 2),
     min_t2 = 0, max_t2 = INFINITY, factor_t2 = Some (4 / 5)\<rparr>"

definition ex_replying :: transaction_bundle where
  "ex_replying =
     \<lparr>incoming_message = ex_message, received_over_multicast = True, received_over_tcp = False,
      allow_unicast = False, allow_rapid_commit = False, request = Some ex_solicit,
      incoming_relay_messages = [\<lparr>relay_hop_count = 0, relay_link_address = Some ex_address,
        relay_peer_address = Some ex_address, relay_options = []\<rparr>],
      responses = \<lparr>first_message = Some \<lparr>cs_class = AdvertiseMessage, cs_transaction_id = [1, 2, 3],
        cs_options = [IANAOption [0, 0, 0, 1] 0 0 [IAAddressOption (Some ex_address) 100 200 []]]\<rparr>,
        subsequent_messages = []\<rparr>,
      outgoing_relay_messages = None, handled_options = [], marks = {}\<rparr>"

lemma ex_limits: "limit_times ex_timing (min (INFINITY + 1) 100) (0, 0) = (50, 80)"
proof -
  have "min (INFINITY + 1) 100 = 100" "\<not> 100 > INFINITY" "100 \<noteq> INFINITY" by (simp_all add: INFINITY_def)
  moreover have "\<lfloor>of_int 100 * (1 / 2 :: rat)\<rfloor> = 50" "\<lfloor>of_int 100 * (4 / 5 :: rat)\<rfloor> = 80" by simp_all
  ultimately show ?thesis
    by (simp add: limit_times_def derived_time_def ex_timing_def Let_def)
qed

theorem renewal_times_in_order_witness:
  "(50 :: int) \<le> 80 \<and> 80 \<le> (100 :: int) \<and> 50 \<le> max_t1 ex_timing \<and> 80 \<le> max_t2 ex_timing"
proof (rule renewal_times_in_order [where iaid = "[0, 0, 0, 1]" and adr = "Some ex_address"
      and options = "[IAAddressOption (Some ex_address) 100 200 []]" and os = "[]" and v = 200])
  show "handler_handle (IANATimingLimitsHandler ex_timing) ex_replying
      = Inr (ex_replying\<lparr>responses := \<lparr>first_message = Some \<lparr>cs_class = AdvertiseMessage,
          cs_transaction_id = [1, 2, 3],
          cs_options = [IANAOption [0, 0, 0, 1] 50 80 [IAAddressOption (Some ex_address) 100 200 []]]\<rparr>,
        subsequent_messages = []\<rparr>\<rparr>)"
    by (simp add: IANATimingLimitsHandler_def base_handler_def TimingLimitsHandler_handle_def
        with_response_def set_response_options_def set_response_def response_def ex_replying_def ex_limits)
qed (simp add: ex_replying_def response_def INFINITY_def)+

subsection \<open>Static assignments\<close>

text \<open>
  C13. Whatever the client asks, the static assignment handler adds to the response only identity
  associations whose leases are the assigned address or prefix with the configured lifetimes,
  or are withdrawn by lifetimes of zero.
\<close>

theorem static_assignment_only_gives_assigned:
  assumes "get_assignment h b = Inr a" and "response b = Some m"
    and "handler_handle (StaticAssignmentHandler h) b = Inr b'"
  shows "\<exists>m' new. response b' = Some m' \<and> cs_options m' = cs_options m @ new
         \<and> list_all (answer_allowed h a) new"
  using static_assignment_adds [OF assms(1), of b'] assms(2,3)
  by (auto simp: StaticAssignmentHandler_def base_handler_def adds_options_def)

definition ex_assigning :: static_assignment where
  "ex_assigning =
     \<lparr>get_assignment = csv_get_assignment (\<lambda>_. Some \<lparr>assigned_address = Some ex_address, assigned_prefix = None\<rparr>),
      address_preferred_lifetime = 10, address_valid_lifetime = 20, prefix_preferred_lifetime = 30,
      prefix_valid_lifetime = 40\<rparr>"

lemma ex_csv_assignment:
  "get_assignment ex_assigning ex_replying
     = Inr \<lparr>assigned_address = Some ex_address, assigned_prefix = None\<rparr>"
proof -
  obtain d where "duid_key ex_replying = Inr d"
    by (simp add: duid_key_def request_option_def ex_replying_def request_options_def ex_solicit_def
        get_option_of_type_def duid_name_def ex_client_def be_bytes_numeral be_bytes_one)
  then show ?thesis by (simp add: ex_assigning_def csv_get_assignment_def try_name_def)
qed

theorem static_assignment_only_gives_assigned_witness:
  "\<exists>m' new. response (mark_handled (IANAOption [0, 0, 0, 1] 0 0 [IAAddressOption (Some ex_address) 100 200 []])
       (set_response (Some \<lparr>cs_class = AdvertiseMessage, cs_transaction_id = [1, 2, 3],
          cs_options = [IANAOption [0, 0, 0, 1] 0 0 [IAAddressOption (Some ex_address) 100 200 []],
            IANAOption [0, 0, 0, 1] 0 0 [IAAddressOption (Some ex_address) 10 20 []]]\<rparr>) ex_replying)) = Some m'
     \<and> cs_options m' = [IANAOption [0, 0, 0, 1] 0 0 [IAAddressOption (Some ex_address) 100 200 []]] @ new
     \<and> list_all (answer_allowed ex_assigning \<lparr>assigned_address = Some ex_address, assigned_prefix = None\<rparr>) new"
proof -
  let ?m = "the (response ex_replying)"
  have m: "response ex_replying = Some ?m" by (simp add: ex_replying_def response_def)
  show ?thesis
    using static_assignment_only_gives_assigned [OF ex_csv_assignment m, of
      "mark_handled (IANAOption [0, 0, 0, 1] 0 0 [IAAddressOption (Some ex_address) 100 200 []])
       (set_response (Some \<lparr>cs_class = AdvertiseMessage, cs_transaction_id = [1, 2, 3],
          cs_options = [IANAOption [0, 0, 0, 1] 0 0 [IAAddressOption (Some ex_address) 100 200 []],
            IANAOption [0, 0, 0, 1] 0 0 [IAAddressOption (Some ex_address) 10 20 []]]\<rparr>) ex_replying)"]
      ex_csv_assignment
    by (simp add: StaticAssignmentHandler_def base_handler_def StaticAssignmentHandler_handle_def
      ex_replying_def ex_solicit_def handle_request_def python_def request_prefix_def request_address_def
      get_unhandled_options_def request_options_def find_iana_option_for_address_def
      answer_with_def append_response_def with_response_def set_response_options_def response_def
      set_response_def lease_address_def ex_assigning_def)
qed

text \<open>
  C37. The database of sqlite.py takes the first assignment in the order DUID, interface id,
  link-layer id, remote id, subscriber id: where several names of a client have one, the
  link-layer id counts before the remote id and the subscriber id.
\<close>

theorem sqlite_order_of_names:
  assumes "incoming_relay_messages b \<noteq> []"
  shows "sqlite_get_assignment mapping b =
     rbind (duid_key b) (\<lambda>duid. try_name mapping (Some duid)
       (try_relay_names mapping
         [C_InterfaceIdOption, C_LinkLayerIdOption, C_RemoteIdOption, C_SubscriberIdOption] b))"
  using assms by (rule sqlite_is_first)

theorem sqlite_order_of_names_witness:
  "sqlite_get_assignment (\<lambda>_. None) ex_replying =
     rbind (duid_key ex_replying) (\<lambda>duid. try_name (\<lambda>_. None) (Some duid)
       (try_relay_names (\<lambda>_. None)
         [C_InterfaceIdOption, C_LinkLayerIdOption, C_RemoteIdOption, C_SubscriberIdOption] ex_replying))"
  by (rule sqlite_order_of_names) (simp add: ex_replying_def)

subsection \<open>What never gets past validation\<close>

text \<open>
  C38. No rule of the program allows an echo request in a relayed message, nor a relay id there
  or in a leasequery: such packets are refused when they are validated, so the handler for echo
  requests and the queries by relay id and by remote id are never reached.
\<close>

theorem relay_identifiers_are_refused:
  assumes "o' \<in> set options"
  shows "(option_class_of o' \<in> {C_EchoRequestOption, C_RelayIdOption} \<longrightarrow>
            message_validate core_containment (RelayServerMessage RelayForwardMessage h l p options) \<noteq> Inr ())
         \<and> (option_class_of o' \<in> {C_RelayIdOption, C_RemoteIdOption} \<longrightarrow>
            option_validate core_containment (LQQueryOption q l' options) \<noteq> Inr ())"
proof -
  have refused: "\<not> may_contain core_containment (MessageClass (RelayServer RelayForwardMessage)) (OptionClass C_EchoRequestOption)"
    "\<not> may_contain core_containment (MessageClass (RelayServer RelayForwardMessage)) (OptionClass C_RelayIdOption)"
    "\<not> may_contain core_containment (OptionClass C_LQQueryOption) (OptionClass C_RelayIdOption)"
    "\<not> may_contain core_containment (OptionClass C_LQQueryOption) (OptionClass C_RemoteIdOption)"
    unfolding core_by by code_simp+
  have none: "validate_contains core_containment c (map option_klass options) \<noteq> Inr ()"
    if "\<not> may_contain core_containment c (OptionClass (option_class_of o'))" for c
    using that assms by (auto simp: validate_contains_iff)
  show ?thesis
    using none refused by (auto elim!: rbind_InrE)
qed

theorem relay_identifiers_are_refused_witness:
  "message_validate core_containment (RelayServerMessage RelayForwardMessage 0 (Some 1) (Some 2)
      [Plain (ExtensionOption (EchoRequestOption [1]))]) \<noteq> Inr ()
   \<and> option_validate core_containment (LQQueryOption 3 0 [Plain (ExtensionOption (RelayIdOption None))]) \<noteq> Inr ()"
  using relay_identifiers_are_refused [of "Plain (ExtensionOption (EchoRequestOption [1]))"
      "[Plain (ExtensionOption (EchoRequestOption [1]))]" 0 "Some 1" "Some 2"]
    relay_identifiers_are_refused [of "Plain (ExtensionOption (RelayIdOption None))"
      "[Plain (ExtensionOption (RelayIdOption None))]" 0 "Some 1" "Some 2" 3 0]
  by (simp del: message_validate.simps option_validate.simps)

end
