(* ===== verification/Names.thy ===== *)
theory Names
  imports DomainNames Messages
begin

text \<open>
  What the configuration is made of: hexadecimal strings and the names derived from class names
  (dhcpkit/utils.py), the data types of its values (dhcpkit/common/server/config_datatypes.py and
  dhcpkit/ipv6/server/config_datatypes.py), and the registries of entry points (dhcpkit/registry.py).
\<close>

subsection \<open>Characters and numbers\<close>

text \<open>\<open>str.lower\<close>; letters beyond ASCII are left alone, since where this is used they occur in no name
  that is looked up, nor does one of them become a letter of such a name.\<close>

definition lower_char :: "nat \<Rightarrow> nat" where
  "lower_char c = (if 65 \<le> c \<and> c \<le> 90 then c + 32 else c)"

definition lower :: "pystr \<Rightarrow> pystr" where
  "lower s = map lower_char s"

definition upper_letter :: "nat \<Rightarrow> bool" where
  "upper_letter c \<longleftrightarrow> 65 \<le> c \<and> c \<le> 90"

definition lower_letter :: "nat \<Rightarrow> bool" where
  "lower_letter c \<longleftrightarrow> 97 \<le> c \<and> c \<le> 122"

definition digit :: "nat \<Rightarrow> bool" where
  "digit c \<longleftrightarrow> 48 \<le> c \<and> c \<le> 57"

text \<open>\<open>str.isspace\<close> of a character, and \<open>str.strip\<close>.\<close>

definition white_space :: "nat \<Rightarrow> bool" where
  "white_space c \<longleftrightarrow>
     9 \<le> c \<and> c \<le> 13 \<or> 28 \<le> c \<and> c \<le> 32 \<or> 0x2000 \<le> c \<and> c \<le> 0x200A \<or>
     c \<in> {0x85, 0xA0, 0x1680, 0x2028, 0x2029, 0x202F, 0x205F, 0x3000}"

definition strip_space :: "pystr \<Rightarrow> pystr" where
  "strip_space s = rev (dropWhile white_space (rev (dropWhile white_space s)))"

text \<open>\<open>str.startswith\<close>.\<close>

definition starts_with :: "pystr \<Rightarrow> pystr \<Rightarrow> bool" where
  "starts_with prefix s \<longleftrightarrow> take (length prefix) s = prefix"

text \<open>
  \<open>int\<close> of a string: white space around it, a sign, decimal digits.  Left out are the digits of other
  scripts, and the underscores that Python accepts from version 3.6 on.
\<close>

definition py_int :: "pystr \<Rightarrow> int res" where
  "py_int s =
     (let t = strip_space s;
          (sign, digits) =
            (case t of
               [] \<Rightarrow> (1, [])
             | c # r \<Rightarrow> if c = 45 then (- 1, r) else if c = 43 then (1, r) else (1, t))
      in if digits \<noteq> [] \<and> list_all digit digits then Inr (sign * int (number_of_digits digits))
         else Inl ValueError)"

subsection \<open>utils.py: hexadecimal strings\<close>

definition hex_char :: "nat \<Rightarrow> bool" where
  "hex_char c \<longleftrightarrow> hex_value c \<noteq> None"

text \<open>
  The regular expression of \<open>normalise_hex\<close>: a pair of digits, then pairs with a colon or none
  before them; its \<open>$\<close> also stands before a newline that ends the string.
\<close>

fun more_hex_pairs :: "pystr \<Rightarrow> bool" where
  "more_hex_pairs [] = True"
| "more_hex_pairs [c] = (c = 10)"
| "more_hex_pairs (c # d # s) =
     (if c = 58 then (case s of [] \<Rightarrow> False | e # s' \<Rightarrow> hex_char d \<and> hex_char e \<and> more_hex_pairs s')
      else hex_char c \<and> hex_char d \<and> more_hex_pairs s)"

definition hex_data_format :: "pystr \<Rightarrow> bool" where
  "hex_data_format s =
     (case s of c # d # r \<Rightarrow> hex_char c \<and> hex_char d \<and> more_hex_pairs r | _ \<Rightarrow> False)"

text \<open>\<open>re.findall('..', s)\<close>; the dot matches everything but a newline.\<close>

fun findall_pairs :: "pystr \<Rightarrow> pystr list" where
  "findall_pairs (c # d # s) =
     (if c \<noteq> 10 \<and> d \<noteq> 10 then [c, d] # findall_pairs s else findall_pairs (d # s))"
| "findall_pairs _ = []"

datatype hex_data = HexText pystr | HexBytes bytes

definition normalise_hex :: "hex_data \<Rightarrow> bool \<Rightarrow> pystr res" where
  "normalise_hex hex_data include_colons =
     (let s = (case hex_data of HexText s \<Rightarrow> s | HexBytes bs \<Rightarrow> hex_encode bs) in
      if s = [] then Inr s
      else if hex_data_format s then
        (let s = lower (filter (\<lambda>c. c \<noteq> 58) s) in
         Inr (if include_colons then join 58 (findall_pairs s) else s))
      else Inl ValueError)"

text \<open>\<open>codecs.decode(s, 'hex')\<close>: pairs of digits and nothing else.\<close>

fun unhexlify :: "pystr \<Rightarrow> bytes res" where
  "unhexlify [] = Inr []"
| "unhexlify [_] = Inl ValueError"
| "unhexlify (c # d # s) =
     (case (hex_value c, hex_value d) of
        (Some x, Some y) \<Rightarrow> rbind (unhexlify s) (\<lambda>bs. Inr (of_nat (16 * x + y) # bs))
      | _ \<Rightarrow> Inl ValueError)"

subsection \<open>utils.py: names in CamelCase\<close>

text \<open>\<open>re.sub('(.)([A-Z][a-z]+)', r'\1_\2', s)\<close>.\<close>

function sub_words :: "pystr \<Rightarrow> pystr" where
  "sub_words [] = []"
| "sub_words [c] = [c]"
| "sub_words (c # u # s) =
     (if c \<noteq> 10 \<and> upper_letter u \<and> takeWhile lower_letter s \<noteq> []
      then c # 95 # u # takeWhile lower_letter s @ sub_words (dropWhile lower_letter s)
      else c # sub_words (u # s))"
  by pat_completeness auto
termination
  by (relation "measure length") (auto simp: less_Suc_eq_le length_dropWhile_le le_SucI)

text \<open>\<open>re.sub('([a-z0-9])([A-Z])', r'\1_\2', s)\<close>.\<close>

fun sub_humps :: "pystr \<Rightarrow> pystr" where
  "sub_humps (c # u # s) =
     (if (lower_letter c \<or> digit c) \<and> upper_letter u then c # 95 # u # sub_humps s
      else c # sub_humps (u # s))"
| "sub_humps s = s"

text \<open>\<open>re.sub(r'_+', '_', s)\<close>.\<close>

fun collapse_underscores :: "pystr \<Rightarrow> pystr" where
  "collapse_underscores (c # d # s) =
     (if c = 95 \<and> d = 95 then collapse_underscores (d # s) else c # collapse_underscores (d # s))"
| "collapse_underscores s = s"

definition camelcase_to_underscore :: "pystr \<Rightarrow> pystr" where
  "camelcase_to_underscore camelcase =
     (let s0 = map (\<lambda>c. if c = 45 then 95 else c) camelcase;
          s1 = sub_words s0;
          s2 = sub_humps s1;
          s3 = lower s2
      in collapse_underscores s3)"

definition camelcase_to_dash :: "pystr \<Rightarrow> pystr" where
  "camelcase_to_dash camelcase = map (\<lambda>c. if c = 95 then 45 else c) (camelcase_to_underscore camelcase)"

subsection \<open>config_datatypes.py\<close>

definition unsigned_int_8 :: "pystr \<Rightarrow> int res" where
  "unsigned_int_8 value =
     rbind (py_int value) (\<lambda>value. if \<not> (0 \<le> value \<and> value < 2 ^ 8) then Inl ValueError else Inr value)"

definition unsigned_int_16 :: "pystr \<Rightarrow> int res" where
  "unsigned_int_16 value =
     rbind (py_int value) (\<lambda>value. if \<not> (0 \<le> value \<and> value < 2 ^ 16) then Inl ValueError else Inr value)"

definition unsigned_int_32 :: "pystr \<Rightarrow> int res" where
  "unsigned_int_32 value =
     rbind (py_int value) (\<lambda>value. if \<not> (0 \<le> value \<and> value < 2 ^ 32) then Inl ValueError else Inr value)"

definition number_of_workers :: "pystr \<Rightarrow> int res" where
  "number_of_workers value =
     rbind (py_int value) (\<lambda>value. if value < 1 then Inl ValueError else Inr value)"

definition hex_bytes :: "pystr \<Rightarrow> bytes res" where
  "hex_bytes value = rbind (normalise_hex (HexText value) False) from_hex"

text \<open>A domain name may have any letters: their lower case (\<open>lower_case\<close>) is an argument, as \<open>idna\<close> is.\<close>

definition domain_name :: "idna \<Rightarrow> (pystr \<Rightarrow> pystr) \<Rightarrow> pystr \<Rightarrow> pystr res" where
  "domain_name lib lower_case value =
     (let value = lower_case value in
      rbind (encode_domain lib value False) (\<lambda>_. Inr value))"

text \<open>\<open>parse_address\<close> is \<open>IPv6Address\<close> of a string.\<close>

definition unicast_address :: "(pystr \<Rightarrow> ipv6 res) \<Rightarrow> pystr \<Rightarrow> ipv6 res" where
  "unicast_address parse_address value =
     rbind (parse_address value) (\<lambda>address.
     if is_link_local address \<or> is_loopback address \<or> is_multicast address \<or> is_unspecified address
     then Inl ValueError else Inr address)"

subsection \<open>registry.py\<close>

text \<open>
  An entry point has a name and can be loaded, or not: because of the version of a package, because
  it cannot be imported, or because of another exception.
\<close>

datatype 'a load_result = Loads 'a | VersionConflict | ImportError | LoadRaises py_error

datatype registry_key = Number int | Name pystr

record 'a class_registry =
  entries :: "registry_key \<rightharpoonup> 'a"
  by_name :: "pystr \<rightharpoonup> 'a"

definition entry_key :: "pystr \<Rightarrow> registry_key" where
  "entry_key name = (case py_int name of Inl _ \<Rightarrow> Name name | Inr n \<Rightarrow> Number n)"

text \<open>\<open>Registry.__init__\<close>, the body of its loop and the loop; \<open>get_name\<close> is the method.\<close>

definition add_entry_point ::
  "('a \<Rightarrow> pystr) \<Rightarrow> pystr \<times> 'a load_result \<Rightarrow> 'a class_registry \<Rightarrow> 'a class_registry res" where
  "add_entry_point get_name entry_point reg =
     (let name = entry_key (fst entry_point) in
      if entries reg name \<noteq> None then Inr reg
      else
        (case snd entry_point of
           Loads loaded \<Rightarrow>
             Inr \<lparr>entries = (entries reg)(name \<mapsto> loaded), by_name = (by_name reg)(get_name loaded \<mapsto> loaded)\<rparr>
         | VersionConflict \<Rightarrow> Inr reg
         | ImportError \<Rightarrow> Inr reg
         | LoadRaises e \<Rightarrow> Inl e))"

definition Registry :: "('a \<Rightarrow> pystr) \<Rightarrow> (pystr \<times> 'a load_result) list \<Rightarrow> 'a class_registry res" where
  "Registry get_name entry_points =
     run_steps (add_entry_point get_name) entry_points \<lparr>entries = (\<lambda>_. None), by_name = (\<lambda>_. None)\<rparr>"

text \<open>\<open>get_name\<close> of the registries: the name of the class with dashes, less the suffix.\<close>

definition without_suffix :: "pystr \<Rightarrow> pystr \<Rightarrow> pystr" where
  "without_suffix suffix name =
     (if length suffix \<le> length name \<and> drop (length name - length suffix) name = suffix
      then take (length name - length suffix) name else name)"

definition Registry_get_name :: "pystr \<Rightarrow> pystr" where
  "Registry_get_name class_name = camelcase_to_dash class_name"

definition MessageRegistry_get_name :: "pystr \<Rightarrow> pystr" where
  "MessageRegistry_get_name class_name = without_suffix (lit ''-message'') (Registry_get_name class_name)"

definition DUIDRegistry_get_name :: "pystr \<Rightarrow> pystr" where
  "DUIDRegistry_get_name class_name = without_suffix (lit ''-duid'') (Registry_get_name class_name)"

definition OptionRegistry_get_name :: "pystr \<Rightarrow> pystr" where
  "OptionRegistry_get_name class_name = without_suffix (lit ''-option'') (Registry_get_name class_name)"

text \<open>The entry points of setup.py for messages and DUIDs, and the names of their classes.\<close>

fun message_class_name :: "message_class \<Rightarrow> pystr" where
  "message_class_name C_UnknownMessage = lit ''UnknownMessage''"
| "message_class_name (ClientServer SolicitMessage) = lit ''SolicitMessage''"
| "message_class_name (ClientServer AdvertiseMessage) = lit ''AdvertiseMessage''"
| "message_class_name (ClientServer RequestMessage) = lit ''RequestMessage''"
| "message_class_name (ClientServer ConfirmMessage) = lit ''ConfirmMessage''"
| "message_class_name (ClientServer RenewMessage) = lit ''RenewMessage''"
| "message_class_name (ClientServer RebindMessage) = lit ''RebindMessage''"
| "message_class_name (ClientServer ReplyMessage) = lit ''ReplyMessage''"
| "message_class_name (ClientServer ReleaseMessage) = lit ''ReleaseMessage''"
| "message_class_name (ClientServer DeclineMessage) = lit ''DeclineMessage''"
| "message_class_name (ClientServer ReconfigureMessage) = lit ''ReconfigureMessage''"
| "message_class_name (ClientServer InformationRequestMessage) = lit ''InformationRequestMessage''"
| "message_class_name (ClientServer LeasequeryMessage) = lit ''LeasequeryMessage''"
| "message_class_name (ClientServer LeasequeryReplyMessage) = lit ''LeasequeryReplyMessage''"
| "message_class_name (ClientServer LeasequeryDoneMessage) = lit ''LeasequeryDoneMessage''"
| "message_class_name (ClientServer LeasequeryDataMessage) = lit ''LeasequeryDataMessage''"
| "message_class_name (RelayServer RelayForwardMessage) = lit ''RelayForwardMessage''"
| "message_class_name (RelayServer RelayReplyMessage) = lit ''RelayReplyMessage''"

definition message_entry_points :: "(pystr \<times> message_class load_result) list" where
  "message_entry_points =
     [(lit ''1'', Loads (ClientServer SolicitMessage)), (lit ''2'', Loads (ClientServer AdvertiseMessage)),
      (lit ''3'', Loads (ClientServer RequestMessage)), (lit ''4'', Loads (ClientServer ConfirmMessage)),
      (lit ''5'', Loads (ClientServer RenewMessage)), (lit ''6'', Loads (ClientServer RebindMessage)),
      (lit ''7'', Loads (ClientServer ReplyMessage)), (lit ''8'', Loads (ClientServer ReleaseMessage)),
      (lit ''9'', Loads (ClientServer DeclineMessage)), (lit ''10'', Loads (ClientServer ReconfigureMessage)),
      (lit ''11'', Loads (ClientServer InformationRequestMessage)),
      (lit ''12'', Loads (RelayServer RelayForwardMessage)), (lit ''13'', Loads (RelayServer RelayReplyMessage)),
      (lit ''14'', Loads (ClientServer LeasequeryMessage)), (lit ''15'', Loads (ClientServer LeasequeryReplyMessage)),
      (lit ''16'', Loads (ClientServer LeasequeryDoneMessage)),
      (lit ''17'', Loads (ClientServer LeasequeryDataMessage))]"

definition duid_class_name :: "duid_class \<Rightarrow> pystr" where
  "duid_class_name c =
     (case c of
        C_UnknownDUID \<Rightarrow> lit ''UnknownDUID''
      | C_LinkLayerTimeDUID \<Rightarrow> lit ''LinkLayerTimeDUID''
      | C_EnterpriseDUID \<Rightarrow> lit ''EnterpriseDUID''
      | C_LinkLayerDUID \<Rightarrow> lit ''LinkLayerDUID'')"

definition duid_entry_points :: "(pystr \<times> duid_class load_result) list" where
  "duid_entry_points =
     [(lit ''1'', Loads C_LinkLayerTimeDUID), (lit ''2'', Loads C_EnterpriseDUID),
      (lit ''3'', Loads C_LinkLayerDUID)]"

text \<open>\<open>message_type\<close> of config_datatypes.py, over the registry.\<close>

definition message_type :: "'a class_registry \<Rightarrow> pystr \<Rightarrow> 'a res" where
  "message_type reg value =
     (case by_name reg (camelcase_to_dash value) of None \<Rightarrow> Inl ValueError | Some c \<Rightarrow> Inr c)"

end
