(* ===== verification/ControlSocket.thy ===== *)
theory ControlSocket
  imports Names Complex_Main
begin

text \<open>
  dhcpkit/ipv6/server/control_socket.py: a connection of the control socket, which cuts what it
  receives into commands, and its answers.  What the operating system answers to \<open>recv\<close>, \<open>send\<close>
  and \<open>accept\<close>, and to the calls that create the socket in the file system, is an argument.
\<close>

subsection \<open>Connections\<close>

text \<open>
  What \<open>sock.send\<close> does: it takes some of the octets, or fails because the peer has gone
  (\<open>BrokenPipeError\<close>), or for another reason (a full send buffer, a reset connection).
\<close>

datatype sock_result = Accepted nat | BrokenPipe | SendError

text \<open>
  \<open>conn_sends\<close> lists what the next calls of \<open>send\<close> will do (after that everything is accepted),
  \<open>conn_sent\<close> is what they have put on the stream.
\<close>

record control_connection =
  conn_buffer :: bytes
  conn_last_activity :: rat
  conn_closed :: bool
  conn_sends :: "sock_result list"
  conn_sent :: bytes

definition sock_send :: "bytes \<Rightarrow> control_connection \<Rightarrow> sock_result \<times> control_connection" where
  "sock_send data c =
     (if conn_closed c then (SendError, c)
      else case conn_sends c of
        [] \<Rightarrow> (Accepted (length data), c\<lparr>conn_sent := conn_sent c @ data\<rparr>)
      | r # rs \<Rightarrow>
          (r, c\<lparr>conn_sends := rs,
                conn_sent := conn_sent c @ (case r of Accepted n \<Rightarrow> take n data | _ \<Rightarrow> [])\<rparr>))"

text \<open>
  \<open>ControlConnection.send\<close>, \<open>acknowledge\<close> and \<open>reject\<close>: the connection after it, and whether it
  returned without an exception.
\<close>

definition conn_send :: "pystr \<Rightarrow> control_connection \<Rightarrow> bool \<times> control_connection" where
  "conn_send output c =
     (case utf8_encode output of
        Inl _ \<Rightarrow> (False, c)
      | Inr bs \<Rightarrow>
          (case sock_send (bs @ [10]) c of
             (Accepted _, c) \<Rightarrow> (True, c)
           | (BrokenPipe, c) \<Rightarrow> (True, c)
           | (SendError, c) \<Rightarrow> (False, c)))"

definition acknowledge :: "pystr \<Rightarrow> control_connection \<Rightarrow> bool \<times> control_connection" where
  "acknowledge feedback c =
     (if feedback \<noteq> [] then conn_send (lit ''OK: '' @ feedback) c else conn_send (lit ''OK'') c)"

definition reject :: "control_connection \<Rightarrow> bool \<times> control_connection" where
  "reject c = conn_send (lit ''UNKNOWN'') c"

text \<open>Several calls in a row: an exception leaves the rest out.\<close>

fun send_all :: "pystr list \<Rightarrow> control_connection \<Rightarrow> bool \<times> control_connection" where
  "send_all [] c = (True, c)"
| "send_all (x # xs) c = (case conn_send x c of (ok, c) \<Rightarrow> if ok then send_all xs c else (False, c))"

definition conn_close :: "control_connection \<Rightarrow> control_connection" where
  "conn_close c = c\<lparr>conn_closed := True\<rparr>"

text \<open>\<open>ControlConnection.__init__\<close>: the welcome is sent at once; \<open>version\<close> is that of the package.\<close>

definition version :: pystr where
  "version = lit ''1.0.8b1''"

definition ControlConnection :: "sock_result list \<Rightarrow> rat \<Rightarrow> bool \<times> control_connection" where
  "ControlConnection sends now =
     conn_send (lit ''DHCPKit DHCPv6 Server '' @ version)
       \<lparr>conn_buffer = [], conn_last_activity = now, conn_closed = False,
         conn_sends = sends, conn_sent = []\<rparr>"

text \<open>
  \<open>ControlSocket.accept\<close>: \<open>None\<close> when accepting the connection fails (\<open>accepts\<close> is false) or when its
  peer has gone before the welcome.
\<close>

definition accept :: "bool \<Rightarrow> sock_result list \<Rightarrow> rat \<Rightarrow> control_connection option" where
  "accept accepts sends now =
     (if \<not> accepts then None
      else case ControlConnection sends now of (ok, c) \<Rightarrow> if ok then Some c else None)"

subsection \<open>Commands\<close>

text \<open>\<open>self.buffer.split(b'\n', maxsplit=1)\<close>: the line and the rest, if there is a newline.\<close>

definition split_line :: "bytes \<Rightarrow> (bytes \<times> bytes) option" where
  "split_line bs =
     (case dropWhile (\<lambda>b. b \<noteq> 10) bs of
        [] \<Rightarrow> None
      | _ # r \<Rightarrow> Some (takeWhile (\<lambda>b. b \<noteq> 10) bs, r))"

lemma split_line_shorter: "split_line bs = Some (l, r) \<Longrightarrow> length r < length bs"
  using length_dropWhile_le [of "\<lambda>b. b \<noteq> 10" bs]
  by (auto simp: split_line_def split: list.splits)

text \<open>The command on a line; lines that are not UTF-8 and empty lines hold none.\<close>

definition line_command :: "bytes \<Rightarrow> pystr list" where
  "line_command line =
     (case utf8_decode line of
        Inl _ \<Rightarrow> []
      | Inr s \<Rightarrow> if lower s \<noteq> [] then [lower s] else [])"

text \<open>The loop over the lines of the buffer.\<close>

function buffer_commands :: "bytes \<Rightarrow> pystr list \<times> bytes" where
  "buffer_commands buffer =
     (case split_line buffer of
        None \<Rightarrow> ([], buffer)
      | Some (line, rest) \<Rightarrow>
          (case buffer_commands rest of (commands, buffer) \<Rightarrow> (line_command line @ commands, buffer)))"
  by auto
termination
  by (relation "measure length") (auto simp: split_line_shorter)

declare buffer_commands.simps [simp del]

text \<open>
  \<open>get_commands\<close>: \<open>received\<close> is what \<open>recv(64)\<close> does: it gives some octets (none at the end of the
  stream), has nothing to give (\<open>BlockingIOError\<close>), or raises another exception.  \<open>None\<close> in the list of
  commands stands for the end of the connection.
\<close>

datatype recv_outcome = RecvData bytes | WouldBlock | RecvFails

definition get_commands ::
  "recv_outcome \<Rightarrow> rat \<Rightarrow> control_connection \<Rightarrow> pystr option list option \<times> control_connection" where
  "get_commands received now c =
     (case received of
        RecvFails \<Rightarrow> (None, c)
      | WouldBlock \<Rightarrow>
          (case buffer_commands (conn_buffer c) of
             (commands, buffer) \<Rightarrow> (Some (map Some commands), c\<lparr>conn_buffer := buffer\<rparr>))
      | RecvData data \<Rightarrow>
          (let c = c\<lparr>conn_buffer := conn_buffer c @ data, conn_last_activity := now\<rparr> in
           if data = [] then (Some [None], c)
           else (case buffer_commands (conn_buffer c) of
                   (commands, buffer) \<Rightarrow> (Some (map Some commands), c\<lparr>conn_buffer := buffer\<rparr>))))"

subsection \<open>The stream of commands\<close>

lemma split_line_None: "split_line bs = None \<longleftrightarrow> 10 \<notin> set bs"
proof (cases "dropWhile (\<lambda>b. b \<noteq> 10) bs")
  case Nil
  then have "10 \<notin> set bs" by (auto simp: dropWhile_eq_Nil_conv)
  then show ?thesis unfolding split_line_def Nil by simp
next
  case (Cons x r)
  have "10 \<in> set bs"
  proof (rule ccontr)
    assume "10 \<notin> set bs"
    then have "dropWhile (\<lambda>b. b \<noteq> 10) bs = []" by (auto simp: dropWhile_eq_Nil_conv)
    with Cons show False by simp
  qed
  then show ?thesis unfolding split_line_def Cons by simp
qed

lemma split_line_newline: "10 \<notin> set l \<Longrightarrow> split_line (l @ 10 # r) = Some (l, r)"
proof -
  assume l: "10 \<notin> set l"
  then have "dropWhile (\<lambda>b. b \<noteq> 10) (l @ 10 # r) = 10 # r"
    by (subst dropWhile_append2) auto
  moreover have "takeWhile (\<lambda>b. b \<noteq> 10) (l @ 10 # r) = l"
    using l by (subst takeWhile_append2) auto
  ultimately show ?thesis by (simp add: split_line_def)
qed

lemma split_line_Some:
  assumes "split_line bs = Some (l, r)"
  shows "bs = l @ 10 # r" and "10 \<notin> set l"
proof -
  have "10 \<in> set bs" using assms split_line_None [of bs] by simp
  then obtain l' r' where bs: "bs = l' @ 10 # r'" and l': "10 \<notin> set l'"
    by (metis split_list_first)
  then have "l' = l" "r' = r" using assms split_line_newline by auto
  with bs l' show "bs = l @ 10 # r" "10 \<notin> set l" by auto
qed

lemma buffer_commands_no_line [simp]: "10 \<notin> set bs \<Longrightarrow> buffer_commands bs = ([], bs)"
  by (subst buffer_commands.simps) (simp add: split_line_None [THEN iffD2])

lemma buffer_commands_line:
  "10 \<notin> set l \<Longrightarrow> buffer_commands (l @ 10 # r) =
     (line_command l @ fst (buffer_commands r), snd (buffer_commands r))"
  by (subst buffer_commands.simps) (simp add: split_line_newline split_beta)

lemma buffer_commands_append:
  "buffer_commands (a @ b) =
     (fst (buffer_commands a) @ fst (buffer_commands (snd (buffer_commands a) @ b)),
      snd (buffer_commands (snd (buffer_commands a) @ b)))"
proof (induction a rule: buffer_commands.induct)
  case (1 a)
  show ?case
  proof (cases "split_line a")
    case None
    then show ?thesis by (simp add: split_line_None)
  next
    case (Some p)
    then obtain l r where l: "split_line a = Some (l, r)" by (cases p) auto
    note parts = split_line_Some [OF l]
    from 1 [OF l refl] parts show ?thesis
      using buffer_commands_line [OF parts(2), of r] buffer_commands_line [OF parts(2), of "r @ b"]
      by simp
  qed
qed

lemma buffer_commands_rest: "10 \<notin> set (snd (buffer_commands bs))"
proof (induction bs rule: buffer_commands.induct)
  case (1 bs)
  show ?case
  proof (cases "split_line bs")
    case None
    then show ?thesis by (simp add: split_line_None)
  next
    case (Some p)
    then obtain l r where l: "split_line bs = Some (l, r)" by (cases p) auto
    with 1 [OF l refl] split_line_Some [OF l] show ?thesis by (simp add: buffer_commands_line)
  qed
qed

text \<open>The commands that the pieces of a stream give, received one after the other.\<close>

fun receive_commands ::
  "bytes list \<Rightarrow> rat \<Rightarrow> control_connection \<Rightarrow> pystr option list \<times> control_connection" where
  "receive_commands [] now c = ([], c)"
| "receive_commands (p # ps) now c =
     (case get_commands (RecvData p) now c of
        (commands, c) \<Rightarrow>
          (case receive_commands ps now c of
             (later, c) \<Rightarrow> ((case commands of None \<Rightarrow> [] | Some cs \<Rightarrow> cs) @ later, c)))"

lemma receive_commands_stream:
  assumes "[] \<notin> set ps" and "10 \<notin> set (conn_buffer c)"
  shows "fst (receive_commands ps now c) = map Some (fst (buffer_commands (conn_buffer c @ concat ps))) \<and>
    conn_buffer (snd (receive_commands ps now c)) = snd (buffer_commands (conn_buffer c @ concat ps))"
  using assms
proof (induction ps arbitrary: c)
  case (Cons p ps)
  define r where "r = buffer_commands (conn_buffer c @ p)"
  define c' where "c' = c\<lparr>conn_buffer := snd r, conn_last_activity := now\<rparr>"
  have get: "get_commands (RecvData p) now c = (Some (map Some (fst r)), c')"
    using Cons.prems by (auto simp: get_commands_def r_def c'_def Let_def split_beta)
  have "10 \<notin> set (conn_buffer c')"
    by (simp add: c'_def r_def buffer_commands_rest)
  with Cons.IH [of c'] Cons.prems get
  show ?case
    using buffer_commands_append [of "conn_buffer c @ p" "concat ps"]
    by (simp add: c'_def r_def split_beta)
qed simp

text \<open>The commands of lines that end with a newline each.\<close>

lemma buffer_commands_lines:
  "\<forall>l \<in> set ls. 10 \<notin> set l \<Longrightarrow>
   buffer_commands (concat (map (\<lambda>l. l @ [10]) ls)) = (concat (map line_command ls), [])"
  by (induction ls) (simp_all add: buffer_commands_line)

subsection \<open>The socket in the file system\<close>

text \<open>
  \<open>ControlSocket.__init__\<close>: what the system answers to the first \<open>bind\<close>, to \<open>connect\<close>, to \<open>unlink\<close> and to the second
  \<open>bind\<close> are the arguments; the calls that are made, and the exception.  Of the codes of an \<open>OSError\<close> those are
  named that the code looks at; \<open>FileNotFoundError\<close> is the one with \<open>ENOENT\<close>.  A socket has a name once it is bound,
  and \<open>listen\<close> on a socket that is bound succeeds.
\<close>

datatype errno = ENOENT | EADDRINUSE | ECONNREFUSED | ENOTSOCK | Other_errno

type_synonym os_answer = "errno option"

datatype os_call = Call_bind | Call_connect | Call_unlink | Call_listen

datatype create_error = CreateRuntimeError | CreateOSError errno

definition ControlSocket_listen :: "os_call list \<Rightarrow> bool \<Rightarrow> os_call list \<times> create_error option" where
  "ControlSocket_listen calls bound =
     (if \<not> bound then (calls, Some CreateRuntimeError) else (calls @ [Call_listen], None))"

definition ControlSocket_replace :: "os_call list \<Rightarrow> os_answer \<Rightarrow> os_answer \<Rightarrow> os_call list \<times> create_error option" where
  "ControlSocket_replace calls unlinked bound =
     (case unlinked of
        Some e \<Rightarrow> (calls @ [Call_unlink], Some (CreateOSError e))
      | None \<Rightarrow>
          (case bound of
             Some e \<Rightarrow> (calls @ [Call_unlink, Call_bind], Some (CreateOSError e))
           | None \<Rightarrow> ControlSocket_listen (calls @ [Call_unlink, Call_bind]) True))"

definition ControlSocket_init ::
  "os_answer \<Rightarrow> os_answer \<Rightarrow> os_answer \<Rightarrow> os_answer \<Rightarrow> os_call list \<times> create_error option" where
  "ControlSocket_init bound connecting unlinked bound_again =
     (case bound of
        None \<Rightarrow> ControlSocket_listen [Call_bind] True
      | Some e \<Rightarrow>
          if e = ENOENT then ([Call_bind], Some CreateRuntimeError)
          else if e = EADDRINUSE then
            (case connecting of
               Some e2 \<Rightarrow>
                 if e2 = ECONNREFUSED then ControlSocket_replace [Call_bind, Call_connect] unlinked bound_again
                 else if e2 = ENOTSOCK then ([Call_bind, Call_connect], Some CreateRuntimeError)
                 else ControlSocket_listen [Call_bind, Call_connect] False
             | None \<Rightarrow> ControlSocket_listen [Call_bind, Call_connect] False)
          else ControlSocket_listen [Call_bind] False)"

lemmas ControlSocket_defs = ControlSocket_init_def ControlSocket_replace_def ControlSocket_listen_def

text \<open>
  A path is only removed when something is there and nobody answers on it; a control socket that is alive is
  left alone, and without an exception the server listens.
\<close>

lemma control_socket_unlinks:
  "Call_unlink \<in> set (fst (ControlSocket_init bound connecting unlinked bound_again)) \<longleftrightarrow>
     bound = Some EADDRINUSE \<and> connecting = Some ECONNREFUSED"
  by (auto simp: ControlSocket_defs split: option.splits)

lemma control_socket_listens:
  "Call_listen \<in> set (fst (ControlSocket_init bound connecting unlinked bound_again)) \<longleftrightarrow>
     snd (ControlSocket_init bound connecting unlinked bound_again) = None"
  "snd (ControlSocket_init bound connecting unlinked bound_again) = None \<longleftrightarrow>
     bound = None \<or> bound = Some EADDRINUSE \<and> connecting = Some ECONNREFUSED \<and> unlinked = None \<and> bound_again = None"
  by (auto simp: ControlSocket_defs split: option.splits)

end
