(* ===== verification/MainLoop.thy ===== *)
theory MainLoop
  imports Listeners ControlSocket
begin

text \<open>
  dhcpkit/ipv6/server/main.py, the loop of the main process: what it does with a request, a new
  connection, a signal and a command, when it reloads, and when it stops.  The operating system
  (what \<open>select\<close> reports, what sockets deliver, the clock) and the parsing of the configuration
  file are arguments: an event carries the answers they give while it is handled.  Logging,
  privileges, the PID file, the categories of the statistics and the processes of the pool are left out.
\<close>

subsection \<open>State\<close>

text \<open>The file objects of the selector; numbers stand for the identity of objects.\<close>

datatype fileobj =
    SignalPipe
  | ControlSocketObj nat
  | ListenerObj nat
  | CreatorObj nat
  | ConnectionObj nat

definition is_listener :: "fileobj \<Rightarrow> bool" where
  "is_listener f = (case f of ListenerObj _ \<Rightarrow> True | CreatorObj _ \<Rightarrow> True | _ \<Rightarrow> False)"

definition is_connection :: "fileobj \<Rightarrow> bool" where
  "is_connection f = (case f of ConnectionObj _ \<Rightarrow> True | _ \<Rightarrow> False)"

text \<open>The part of the configuration that the loop itself reads.\<close>

record loop_config =
  exception_window :: rat
  max_exceptions :: int

text \<open>
  The local variables of \<open>main\<close>.  \<open>registered\<close> is the map of the selector, \<open>listeners\<close> holds
  listeners and listener creators, \<open>connections\<close> the state of the control connections, and
  \<open>signal_pipe\<close> the octets between \<open>signal_w\<close> and \<open>signal_r\<close>, of which the pipe holds at most
  \<open>pipe_size\<close>.  \<open>dispatched\<close> lists the packets that the pool has taken.  \<open>fileno\<close> gives the file descriptor
  of an object while it is open; it is up to the operating system and does not change.  Objects can share a
  descriptor: a listener that takes over the socket of another one has that of the other.
\<close>

record loop_state =
  config :: loop_config
  running :: bool
  stopping :: bool
  count_exception :: bool
  exception_history :: "rat list"
  message_count :: nat
  listeners :: "fileobj list"
  control_socket :: "fileobj option"
  registered :: "fileobj list"
  connections :: "nat \<rightharpoonup> control_connection"
  signal_pipe :: "8 word list"
  pipe_size :: nat
  dispatched :: "incoming_packet list"
  fileno :: "fileobj \<Rightarrow> nat"

text \<open>How a statement leaves: it goes on, it leaves the innermost loop, or it raises an exception.\<close>

datatype flow = Proceed | Leave | Raised

text \<open>
  \<open>sel.register\<close> and \<open>sel.unregister\<close>.  The map of the selector has file descriptors as its keys: an object cannot
  be registered (\<open>KeyError\<close>) when another one with its descriptor is, and it is looked up by its descriptor.
  Only a closed object, which has none any more, is looked up by its identity.
\<close>

definition register :: "fileobj \<Rightarrow> loop_state \<Rightarrow> flow \<times> loop_state" where
  "register f s =
     (if fileno s f \<in> fileno s ` set (registered s) then (Raised, s)
      else (Proceed, s\<lparr>registered := registered s @ [f]\<rparr>))"

definition object_closed :: "fileobj \<Rightarrow> loop_state \<Rightarrow> bool" where
  "object_closed f s =
     (case f of
        ConnectionObj i \<Rightarrow> (case connections s i of None \<Rightarrow> False | Some c \<Rightarrow> conn_closed c)
      | _ \<Rightarrow> False)"

definition selector_lookup :: "fileobj \<Rightarrow> loop_state \<Rightarrow> fileobj option" where
  "selector_lookup f s =
     (if object_closed f s then find (\<lambda>g. g = f) (registered s)
      else find (\<lambda>g. fileno s g = fileno s f) (registered s))"

definition unregister :: "fileobj \<Rightarrow> loop_state \<Rightarrow> flow \<times> loop_state" where
  "unregister f s =
     (case selector_lookup f s of
        None \<Rightarrow> (Raised, s)
      | Some g \<Rightarrow> (Proceed, s\<lparr>registered := remove1 g (registered s)\<rparr>))"

text \<open>One statement after another.\<close>

definition and_then :: "flow \<times> loop_state \<Rightarrow> (loop_state \<Rightarrow> flow \<times> loop_state) \<Rightarrow> flow \<times> loop_state" where
  "and_then r k = (case r of (Proceed, s) \<Rightarrow> k s | _ \<Rightarrow> r)"

lemma and_then_simps [simp]:
  "and_then (Proceed, s) k = k s"
  "and_then (Leave, s) k = (Leave, s)"
  "and_then (Raised, s) k = (Raised, s)"
  by (simp_all add: and_then_def)

text \<open>\<open>os.write(signal_w, ...)\<close>: the pipe does not block, so a full one raises an exception.\<close>

definition write_signal :: "8 word \<Rightarrow> loop_state \<Rightarrow> flow \<times> loop_state" where
  "write_signal b s =
     (if length (signal_pipe s) < pipe_size s then (Proceed, s\<lparr>signal_pipe := signal_pipe s @ [b]\<rparr>)
      else (Raised, s))"

abbreviation (input) SIGHUP :: "8 word" where "SIGHUP \<equiv> 1"
abbreviation (input) SIGINT :: "8 word" where "SIGINT \<equiv> 2"
abbreviation (input) SIGUSR1 :: "8 word" where "SIGUSR1 \<equiv> 10"
abbreviation (input) SIGTERM :: "8 word" where "SIGTERM \<equiv> 15"

subsection \<open>Commands\<close>

text \<open>A method of the control connection with number \<open>i\<close>.\<close>

definition on_connection ::
  "nat \<Rightarrow> (control_connection \<Rightarrow> bool \<times> control_connection) \<Rightarrow> loop_state \<Rightarrow> flow \<times> loop_state" where
  "on_connection i f s =
     (case connections s i of
        None \<Rightarrow> (Raised, s)
      | Some c \<Rightarrow>
          (case f c of
             (ok, c) \<Rightarrow> (if ok then Proceed else Raised, s\<lparr>connections := (connections s)(i \<mapsto> c)\<rparr>)))"

definition close_connection :: "nat \<Rightarrow> loop_state \<Rightarrow> flow \<times> loop_state" where
  "close_connection i s =
     and_then (on_connection i (\<lambda>c. (True, conn_close c)) s) (unregister (ConnectionObj i))"

definition help_lines :: "pystr list" where
  "help_lines =
     [lit ''Recognised commands:'', lit ''  help'', lit ''  stats'', lit ''  stats-json'', lit ''  reload'',
      lit ''  shutdown'', lit ''  quit'']"

text \<open>
  The body of the loop over the commands; \<open>stats\<close> and \<open>stats_json\<close> are the texts that the
  statistics give.
\<close>

definition handle_command ::
  "pystr \<Rightarrow> pystr \<Rightarrow> nat \<Rightarrow> pystr option \<Rightarrow> loop_state \<Rightarrow> flow \<times> loop_state" where
  "handle_command stats stats_json i command s =
     (if command = Some (lit ''help'') then
        and_then (on_connection i (send_all help_lines) s) (on_connection i (acknowledge []))
      else if command = Some (lit ''stats'') then
        and_then (on_connection i (conn_send stats) s) (on_connection i (acknowledge []))
      else if command = Some (lit ''stats-json'') then
        and_then (on_connection i (conn_send stats_json) s) (on_connection i (acknowledge []))
      else if command = Some (lit ''reload'') then
        and_then (write_signal SIGHUP s) (on_connection i (acknowledge (lit ''Reloading'')))
      else if command = Some (lit ''shutdown'') then
        and_then (on_connection i (acknowledge (lit ''Shutting down'')) s) (\<lambda>s.
        and_then (close_connection i s) (\<lambda>s.
        and_then (write_signal SIGTERM s) (\<lambda>s. (Leave, s))))
      else if command = Some (lit ''quit'') \<or> command = None then
        and_then (if command = Some (lit ''quit'') then on_connection i (acknowledge []) s
                  else (Proceed, s)) (\<lambda>s.
        and_then (close_connection i s) (\<lambda>s. (Leave, s)))
      else on_connection i reject s)"

fun handle_commands ::
  "pystr \<Rightarrow> pystr \<Rightarrow> nat \<Rightarrow> pystr option list \<Rightarrow> loop_state \<Rightarrow> flow \<times> loop_state" where
  "handle_commands stats stats_json i [] s = (Proceed, s)"
| "handle_commands stats stats_json i (command # commands) s =
     (case handle_command stats stats_json i command s of
        (Proceed, s) \<Rightarrow> handle_commands stats stats_json i commands s
      | (Leave, s) \<Rightarrow> (Proceed, s)
      | (Raised, s) \<Rightarrow> (Raised, s))"

subsection \<open>Events\<close>

text \<open>
  What \<open>recv_request\<close> of a listener does: it gives a packet (which the task queue of the pool
  takes, or not), or raises \<open>IgnoreMessage\<close> (as an incomplete message does), \<open>ClosedListener\<close> or
  something else.
\<close>

datatype request_outcome = Request incoming_packet bool | Ignored | PeerClosed | RequestFails

datatype creator_outcome = NewListener nat | NoListener | CreatorFails

text \<open>
  What loading the configuration file does: a new configuration, one of the exceptions for
  a wrong one (\<open>ConfigurationSyntaxError\<close>, \<open>DataConversionError\<close>, \<open>ValueError\<close>), or another one.
\<close>

datatype load_outcome = Loaded loop_config | WrongConfig | LoadFails

datatype loop_event =
    ListenerReady nat request_outcome
  | CreatorReady nat creator_outcome
  | SignalReady load_outcome
  | ControlSocketReady nat bool "sock_result list" rat nat
  | ConnectionReady nat recv_outcome rat pystr pystr

definition handle_listener :: "fileobj \<Rightarrow> request_outcome \<Rightarrow> loop_state \<Rightarrow> flow \<times> loop_state" where
  "handle_listener l r s =
     (case r of
        Request packet taken \<Rightarrow>
          (Proceed, s\<lparr>message_count := message_count s + 1,
                     dispatched := (if taken then dispatched s @ [packet] else dispatched s)\<rparr>)
      | Ignored \<Rightarrow> (Proceed, s)
      | PeerClosed \<Rightarrow>
          and_then (unregister l s) (\<lambda>s.
            if l \<in> set (listeners s) then (Proceed, s\<lparr>listeners := remove1 l (listeners s)\<rparr>)
            else (Raised, s))
      | RequestFails \<Rightarrow> (Raised, s))"

definition handle_creator :: "creator_outcome \<Rightarrow> loop_state \<Rightarrow> flow \<times> loop_state" where
  "handle_creator r s =
     (case r of
        NewListener l \<Rightarrow>
          and_then (register (ListenerObj l) s) (\<lambda>s.
            (Proceed, s\<lparr>listeners := listeners s @ [ListenerObj l]\<rparr>))
      | NoListener \<Rightarrow> (Proceed, s)
      | CreatorFails \<Rightarrow> (Raised, s))"

text \<open>
  A signal; \<open>select\<close> reports the pipe only when it holds an octet, so the read does not block.
  Octets of other signals do nothing.
\<close>

definition handle_signal :: "load_outcome \<Rightarrow> loop_state \<Rightarrow> flow \<times> loop_state" where
  "handle_signal load s =
     (case signal_pipe s of
        [] \<Rightarrow> (Proceed, s)
      | signal_nr # pipe \<Rightarrow>
          (let s = s\<lparr>signal_pipe := pipe\<rparr> in
           if signal_nr = SIGHUP then
             (case load of
                WrongConfig \<Rightarrow> (Proceed, s)
              | LoadFails \<Rightarrow> (Raised, s)
              | Loaded c \<Rightarrow> (Proceed, s\<lparr>config := c, running := False, stopping := False\<rparr>))
           else if signal_nr = SIGINT \<or> signal_nr = SIGTERM then
             (Leave, s\<lparr>running := False, stopping := True\<rparr>)
           else if signal_nr = SIGUSR1 then (Proceed, s\<lparr>count_exception := True\<rparr>)
           else (Proceed, s)))"

definition handle_event :: "loop_event \<Rightarrow> loop_state \<Rightarrow> flow \<times> loop_state" where
  "handle_event e s =
     (case e of
        ListenerReady i r \<Rightarrow> handle_listener (ListenerObj i) r s
      | CreatorReady i r \<Rightarrow> handle_creator r s
      | SignalReady load \<Rightarrow> handle_signal load s
      | ControlSocketReady i accepts sends now new \<Rightarrow>
          (case accept accepts sends now of
             None \<Rightarrow> (Proceed, s)
           | Some c \<Rightarrow>
               register (ConnectionObj new) (s\<lparr>connections := (connections s)(new \<mapsto> c)\<rparr>))
      | ConnectionReady i received now stats stats_json \<Rightarrow>
          (case connections s i of
             None \<Rightarrow> (Raised, s)
           | Some c \<Rightarrow>
               (case get_commands received now c of
                  (None, c) \<Rightarrow> (Raised, s\<lparr>connections := (connections s)(i \<mapsto> c)\<rparr>)
                | (Some commands, c) \<Rightarrow>
                    handle_commands stats stats_json i commands
                      (s\<lparr>connections := (connections s)(i \<mapsto> c)\<rparr>))))"

fun handle_events :: "loop_event list \<Rightarrow> loop_state \<Rightarrow> flow \<times> loop_state" where
  "handle_events [] s = (Proceed, s)"
| "handle_events (e # es) s = and_then (handle_event e s) (handle_events es)"

subsection \<open>The loops\<close>

definition note_exception :: "rat \<Rightarrow> loop_state \<Rightarrow> loop_state" where
  "note_exception now s =
     (let history = exception_history s @ [now];
          cutoff = now - exception_window (config s);
          history = dropWhile (\<lambda>t. t < cutoff) history;
          s = s\<lparr>exception_history := history\<rparr>
      in if int (length history) > max_exceptions (config s)
         then s\<lparr>running := False, stopping := True\<rparr> else s)"

text \<open>
  One turn of the inner loop: the events that \<open>select\<close> reports (\<open>None\<close> when it raises an exception),
  and the clock at the end.
\<close>

type_synonym turn = "loop_event list option \<times> rat"

definition take_turn :: "turn \<Rightarrow> loop_state \<Rightarrow> loop_state" where
  "take_turn t s =
     (let s = s\<lparr>count_exception := False\<rparr>;
          (how, s) = (case fst t of None \<Rightarrow> (Raised, s) | Some events \<Rightarrow> handle_events events s);
          s = (if how = Raised then s\<lparr>count_exception := True\<rparr> else s)
      in if count_exception s then note_exception (snd t) s else s)"

fun serve :: "turn list \<Rightarrow> loop_state \<Rightarrow> loop_state" where
  "serve [] s = s"
| "serve (t # ts) s = (if running s then serve ts (take_turn t s) else s)"

text \<open>
  The start of a turn of the outer loop, after a configuration has been read.  What comes from
  outside: the listeners that the factories give (\<open>None\<close> when one of them raises), the control
  socket if there is to be one, and whether the message handler can be created.
\<close>

record surroundings =
  new_listeners :: "fileobj list option"
  new_control_socket :: "nat option"
  handler_created :: bool

fun register_all :: "fileobj list \<Rightarrow> fileobj list \<Rightarrow> loop_state \<Rightarrow> flow \<times> loop_state" where
  "register_all existing [] s = (Proceed, s)"
| "register_all existing (l # ls) s =
     and_then (if l \<notin> set existing then register l s else (Proceed, s)) (register_all existing ls)"

definition replace_control_socket :: "nat option \<Rightarrow> loop_state \<Rightarrow> flow \<times> loop_state" where
  "replace_control_socket new s =
     and_then (case control_socket s of None \<Rightarrow> (Proceed, s) | Some f \<Rightarrow> unregister f s) (\<lambda>s.
       let s = s\<lparr>control_socket := map_option ControlSocketObj new\<rparr> in
       case control_socket s of None \<Rightarrow> (Proceed, s) | Some f \<Rightarrow> register f s)"

definition still_wanted :: "loop_state \<Rightarrow> fileobj \<Rightarrow> bool" where
  "still_wanted s f \<longleftrightarrow>
     f = SignalPipe \<or> control_socket s = Some f \<or> f \<in> set (listeners s) \<or> is_connection f"

definition set_up :: "surroundings \<Rightarrow> loop_state \<Rightarrow> flow \<times> loop_state" where
  "set_up u s =
     (let s = s\<lparr>stopping := True\<rparr> in
      case new_listeners u of
        None \<Rightarrow> (Raised, s)
      | Some ls \<Rightarrow>
          and_then (replace_control_socket (new_control_socket u) (s\<lparr>listeners := ls\<rparr>)) (\<lambda>s.
            let s = s\<lparr>registered := filter (still_wanted s) (registered s)\<rparr> in
            and_then (register_all (registered s) (listeners s) s) (\<lambda>s.
              if \<not> handler_created u then (Leave, s) else (Proceed, s\<lparr>running := True\<rparr>))))"

text \<open>
  The outer loop, with the exit code of the program: an exception in the set-up ends in \<open>run\<close>,
  which returns 1, and so does a message handler that cannot be created.  \<open>Waiting\<close>: the program is
  still running when the given turns are over.
\<close>

datatype outcome = Exit int loop_state | Waiting loop_state

fun main_loop :: "(surroundings \<times> turn list) list \<Rightarrow> loop_state \<Rightarrow> outcome" where
  "main_loop rounds s =
     (if stopping s then Exit 0 s
      else case rounds of
        [] \<Rightarrow> Waiting s
      | (u, turns) # rounds \<Rightarrow>
          (case set_up u s of
             (Proceed, s) \<Rightarrow>
               (let s = serve turns s in if running s then Waiting s else main_loop rounds s)
           | (_, s) \<Rightarrow> Exit 1 s))"

declare main_loop.simps [simp del]

definition start_state :: "loop_config \<Rightarrow> nat \<Rightarrow> (fileobj \<Rightarrow> nat) \<Rightarrow> loop_state" where
  "start_state c pipe descriptors =
     \<lparr>config = c, running = False, stopping = False, count_exception = False, exception_history = [],
       message_count = 0, listeners = [], control_socket = None, registered = [SignalPipe],
       connections = (\<lambda>_. None), signal_pipe = [], pipe_size = pipe, dispatched = [],
       fileno = descriptors\<rparr>"

end
