(* ===== verification/LoopLaws.thy ===== *)
theory LoopLaws
  imports MainLoop
begin

text \<open>
  Laws of the loop of the main process (MainLoop): what an event leaves alone, that the selector
  and the list of listeners agree, and what the exception history holds.
\<close>

subsection \<open>What an event does to the selector\<close>

text \<open>
  The invariant: what is registered has different file descriptors, the signal pipe is registered always; the
  registered listeners and creators are those of the list; the control socket is registered if there is one; and
  a registered control connection is open.
\<close>

definition registrations_ok :: "loop_state \<Rightarrow> bool" where
  "registrations_ok s \<longleftrightarrow>
     distinct (map (fileno s) (registered s)) \<and> SignalPipe \<in> set (registered s) \<and> distinct (listeners s) \<and>
     {f \<in> set (registered s). is_listener f} = set (listeners s) \<and>
     (\<forall>n. ControlSocketObj n \<in> set (registered s) \<longleftrightarrow> control_socket s = Some (ControlSocketObj n)) \<and>
     (\<forall>f. control_socket s = Some f \<longrightarrow> (\<exists>n. f = ControlSocketObj n)) \<and>
     (\<forall>i. ConnectionObj i \<in> set (registered s) \<longrightarrow>
        (\<exists>c. connections s i = Some c \<and> \<not> conn_closed c))"

text \<open>
  What a step keeps: the exception history, the configuration of a loop that goes on; and, if the objects
  that it is about are registered, the invariant and the registrations but for \<open>gone\<close> and \<open>new\<close>.
\<close>

definition evolves :: "fileobj set \<Rightarrow> fileobj set \<Rightarrow> fileobj set \<Rightarrow> loop_state \<Rightarrow> loop_state \<Rightarrow> bool" where
  "evolves about gone new s s' \<longleftrightarrow>
     exception_history s' = exception_history s \<and>
     (running s' \<longrightarrow> running s \<and> config s' = config s \<and> stopping s' = stopping s) \<and>
     (registrations_ok s \<and> about \<subseteq> set (registered s) \<longrightarrow>
        registrations_ok s' \<and> set (registered s) - gone \<subseteq> set (registered s') \<and>
        set (registered s') \<subseteq> set (registered s) \<union> new)"

lemma evolves_refl [simp, intro]: "evolves about gone new s s"
  by (simp add: evolves_def)

text \<open>Steps one after the other: the second is about nothing that the first has taken away.\<close>

lemma evolves_trans:
  assumes "evolves about lost new s t" and "evolves rest gone new t u"
    and "rest \<subseteq> about" and "rest \<inter> lost = {}" and "lost \<subseteq> gone"
  shows "evolves about gone new s u"
  unfolding evolves_def
proof (intro conjI impI)
  assume "registrations_ok s \<and> about \<subseteq> set (registered s)"
  then have t: "registrations_ok t" "set (registered s) - lost \<subseteq> set (registered t)"
    "set (registered t) \<subseteq> set (registered s) \<union> new" "about \<subseteq> set (registered s)"
    using assms(1) by (simp_all add: evolves_def)
  then have "rest \<subseteq> set (registered t)" using assms(3,4) by blast
  with assms(2) t(1) have "registrations_ok u" "set (registered t) - gone \<subseteq> set (registered u)"
    "set (registered u) \<subseteq> set (registered t) \<union> new"
    by (simp_all add: evolves_def)
  with t assms(5) show "registrations_ok u" "set (registered s) - gone \<subseteq> set (registered u)"
    "set (registered u) \<subseteq> set (registered s) \<union> new"
    by blast+
qed (use assms(1,2) in \<open>simp_all add: evolves_def\<close>)

lemma evolves_mono:
  "evolves about gone new s t \<Longrightarrow> about \<subseteq> about' \<Longrightarrow> gone \<subseteq> gone' \<Longrightarrow> new \<subseteq> new' \<Longrightarrow>
   evolves about' gone' new' s t"
  unfolding evolves_def by auto

lemma evolves_and_then:
  assumes "evolves about lost new s (snd r)"
    and "\<And>t. fst r = Proceed \<Longrightarrow> evolves rest gone new (snd r) (snd (k (snd r)))"
    and "rest \<subseteq> about" and "rest \<inter> lost = {}" and "lost \<subseteq> gone"
  shows "evolves about gone new s (snd (and_then r k))"
proof (cases r)
  case (Pair how t)
  with assms have "evolves about gone new s t" by (auto intro: evolves_mono)
  with Pair assms evolves_trans show ?thesis
    by (cases how) auto
qed

lemma registered_distinct: "registrations_ok s \<Longrightarrow> distinct (registered s)"
  by (simp add: registrations_ok_def distinct_map)

text \<open>Looking up a registered object finds it.\<close>

lemma selector_lookup_registered:
  assumes "distinct (map (fileno s) (registered s))" and "f \<in> set (registered s)"
  shows "selector_lookup f s = Some f"
proof -
  have "find (\<lambda>g. g = f) xs = Some f" if "f \<in> set xs" for xs
    using that by (induction xs) auto
  moreover have "find (\<lambda>g. n g = n f) xs = Some f" if "distinct (map n xs)" "f \<in> set xs"
    for n :: "fileobj \<Rightarrow> nat" and xs
    using that by (induction xs) (auto simp: image_iff)
  ultimately show ?thesis using assms by (simp add: selector_lookup_def)
qed

lemma unregister_registered:
  "distinct (map (fileno s) (registered s)) \<Longrightarrow> f \<in> set (registered s) \<Longrightarrow>
   unregister f s = (Proceed, s\<lparr>registered := remove1 f (registered s)\<rparr>)"
  by (simp add: unregister_def selector_lookup_registered)

lemma unregister_closed:
  assumes "object_closed f s"
  shows "unregister f s = (if f \<in> set (registered s)
     then (Proceed, s\<lparr>registered := remove1 f (registered s)\<rparr>) else (Raised, s))"
proof -
  have "find (\<lambda>g. g = f) xs = (if f \<in> set xs then Some f else None)" for xs
    by (induction xs) auto
  with assms show ?thesis by (simp add: unregister_def selector_lookup_def)
qed

lemma distinct_map_remove1: "distinct (map n xs) \<Longrightarrow> distinct (map n (remove1 f xs))"
  by (metis distinct_map distinct_remove1 inj_on_subset set_remove1_subset)

lemma set_remove1_map: "distinct (map n xs) \<Longrightarrow> set (remove1 f xs) = set xs - {f}"
  by (simp add: distinct_map)

lemma is_listener_simps [simp]:
  "\<not> is_listener SignalPipe" "\<not> is_listener (ControlSocketObj n)" "\<not> is_listener (ConnectionObj n)"
  "is_listener (ListenerObj n)" "is_listener (CreatorObj n)"
  by (simp_all add: is_listener_def)

lemma remove1_between: "set xs - {a} \<subseteq> set (remove1 a xs)" "set (remove1 a xs) \<subseteq> set xs"
  by (induction xs) auto

lemma connection_no_listener: "is_connection f \<Longrightarrow> \<not> is_listener f"
  by (simp add: is_connection_def split: fileobj.splits)

lemma listeners_are_listeners:
  "registrations_ok s \<Longrightarrow> f \<in> set (listeners s) \<Longrightarrow> f \<in> set (registered s) \<and> is_listener f"
  unfolding registrations_ok_def by blast

lemma conn_send_closed: "conn_closed (snd (conn_send x c)) = conn_closed c"
  by (auto simp: conn_send_def sock_send_def split: sum.splits sock_result.splits list.splits prod.splits)

lemma send_all_closed: "conn_closed (snd (send_all xs c)) = conn_closed c"
proof (induction xs arbitrary: c)
  case (Cons x xs)
  obtain ok d where d: "conn_send x c = (ok, d)" by fastforce
  then have "conn_closed d = conn_closed c" using conn_send_closed [of x c] by simp
  with d Cons [of d] show ?case by simp
qed simp

lemma talk_closed:
  "conn_closed (snd (acknowledge x c)) = conn_closed c"
  "conn_closed (snd (reject c)) = conn_closed c"
  by (simp_all add: acknowledge_def reject_def conn_send_closed)

lemma get_commands_closed: "conn_closed (snd (get_commands r now c)) = conn_closed c"
  by (auto simp: get_commands_def Let_def split: recv_outcome.splits prod.splits)

lemma evolves_on_connection:
  assumes "\<And>c. conn_closed (snd (f c)) = conn_closed c"
  shows "evolves {} {} {} s (snd (on_connection i f s))"
proof (cases "connections s i")
  case (Some c)
  with assms [of c] show ?thesis
    by (auto simp: on_connection_def evolves_def registrations_ok_def split: prod.splits)
qed (simp add: on_connection_def)

lemma evolves_close: "evolves {ConnectionObj i} {ConnectionObj i} {} s (snd (close_connection i s))"
proof (cases "connections s i")
  case (Some c)
  define t where "t = s\<lparr>connections := (connections s)(i \<mapsto> conn_close c)\<rparr>"
  have "object_closed (ConnectionObj i) t" by (simp add: object_closed_def t_def conn_close_def)
  moreover have "close_connection i s = unregister (ConnectionObj i) t"
    using Some by (simp add: close_connection_def on_connection_def t_def)
  ultimately have "snd (close_connection i s) = t\<lparr>registered := remove1 (ConnectionObj i) (registered s)\<rparr>"
    by (simp add: unregister_closed t_def remove1_idem)
  moreover have "ConnectionObj i \<notin> set (listeners s)" if "registrations_ok s"
    using listeners_are_listeners [OF that, of "ConnectionObj i"] by auto
  ultimately show ?thesis
    by (auto simp: evolves_def registrations_ok_def t_def distinct_map_remove1 set_remove1_map)
qed (simp add: close_connection_def on_connection_def)

lemma evolves_write_signal: "evolves {} {} {} s (snd (write_signal b s))"
  by (simp add: write_signal_def evolves_def registrations_ok_def)

text \<open>A command that is not the last one leaves the registrations alone.\<close>

lemma on_connection_registered: "registered (snd (on_connection i f s)) = registered s"
  by (simp add: on_connection_def split: option.split prod.split)

lemma evolves_talk:
  assumes "\<And>c. conn_closed (snd (f c)) = conn_closed c" and "\<And>c. conn_closed (snd (g c)) = conn_closed c"
  shows "evolves {} {} {} s (snd (and_then (on_connection i f s) (on_connection i g)))"
  by (rule evolves_and_then [where rest = "{}" and lost = "{}"])
    (simp_all add: evolves_on_connection assms)

lemma evolves_command: "evolves {ConnectionObj i} {ConnectionObj i} {} s (snd (handle_command stats json i command s))"
proof -
  have talk: "evolves {ConnectionObj i} {ConnectionObj i} {} s (snd (and_then (on_connection i f s) (on_connection i g)))"
    if "\<And>c. conn_closed (snd (f c)) = conn_closed c" "\<And>c. conn_closed (snd (g c)) = conn_closed c" for f g
    by (rule evolves_mono [OF evolves_talk]) (use that in auto)
  have one: "evolves {} {} {} s (snd (on_connection i f s))"
    if "\<And>c. conn_closed (snd (f c)) = conn_closed c" for f s
    by (rule evolves_on_connection) (rule that)
  have reload: "evolves {ConnectionObj i} {ConnectionObj i} {} s
      (snd (and_then (write_signal SIGHUP s) (on_connection i (acknowledge x))))" for x
    by (rule evolves_mono [where about = "{}" and gone = "{}" and new = "{}"],
        rule evolves_and_then [where rest = "{}" and lost = "{}"])
      (simp_all add: evolves_write_signal one talk_closed)
  have quit: "evolves {ConnectionObj i} {ConnectionObj i} {} s
      (snd (and_then r (\<lambda>s. and_then (close_connection i s) (\<lambda>s. (Leave, s)))))"
    if "evolves {} {} {} s (snd r)" for r
    by (rule evolves_and_then [where rest = "{ConnectionObj i}" and lost = "{}"],
        rule evolves_mono [OF that], simp_all,
        rule evolves_and_then [where rest = "{}" and lost = "{ConnectionObj i}"], rule evolves_close, simp_all)
  have gone: "evolves {ConnectionObj i} {ConnectionObj i} {} s (snd (and_then (close_connection i s) (Pair Leave)))"
    using quit [of "(Proceed, s)"] by simp
  have shutdown: "evolves {ConnectionObj i} {ConnectionObj i} {} s
      (snd (and_then (on_connection i (acknowledge x) s) (\<lambda>s.
         and_then (close_connection i s) (\<lambda>s. and_then (write_signal SIGTERM s) (\<lambda>s. (Leave, s))))))" for x
    by (rule evolves_and_then [where rest = "{ConnectionObj i}" and lost = "{}"],
        rule evolves_mono [OF one], simp_all add: talk_closed,
        rule evolves_and_then [where rest = "{}" and lost = "{ConnectionObj i}"], rule evolves_close, simp_all,
        rule evolves_and_then [where rest = "{}" and lost = "{}"],
        rule evolves_write_signal, simp_all)
  have rest: "evolves {ConnectionObj i} {ConnectionObj i} {} s (snd (on_connection i reject s))"
    by (rule evolves_mono [OF one]) (auto simp: talk_closed)
  show ?thesis
    unfolding handle_command_def
    by (auto intro!: talk reload quit gone shutdown rest one simp: conn_send_closed send_all_closed talk_closed)
qed

lemma proceeds_and_then:
  "fst (and_then r k) = Proceed \<longleftrightarrow> fst r = Proceed \<and> fst (k (snd r)) = Proceed"
  "fst r = Proceed \<Longrightarrow> and_then r k = k (snd r)"
  by (cases r; cases "fst r"; simp)+

lemma command_proceeds:
  assumes "fst (handle_command stats json i command s) = Proceed"
  shows "registered (snd (handle_command stats json i command s)) = registered s"
proof -
  define keeps where "keeps r \<longleftrightarrow> (fst r = Proceed \<longrightarrow> registered (snd r) = registered s)" for r :: "flow \<times> loop_state"
  have talk: "keeps (on_connection i f s)" "keeps (and_then (on_connection i f s) (on_connection i g))"
    "keeps (and_then (write_signal b s) (on_connection i g))" for f g b
    by (simp_all add: keeps_def proceeds_and_then on_connection_registered write_signal_def)
  have leave: "keeps (and_then r (Pair Leave))" "keeps (and_then r (\<lambda>s. and_then (k s) (\<lambda>s. (Leave, s))))"
    "keeps (and_then r (\<lambda>s. and_then (k s) (\<lambda>s. and_then (l s) (\<lambda>s. (Leave, s)))))" for r k l
    by (simp_all add: keeps_def proceeds_and_then)
  have "keeps (handle_command stats json i command s)"
    unfolding handle_command_def by (auto intro!: talk leave)
  then show ?thesis using assms by (simp add: keeps_def)
qed

lemma evolves_commands:
  "evolves {ConnectionObj i} {ConnectionObj i} {} s (snd (handle_commands stats json i commands s))"
proof (induction commands arbitrary: s)
  case (Cons command commands)
  obtain how t where step: "handle_command stats json i command s = (how, t)" by fastforce
  then have e: "evolves {ConnectionObj i} {ConnectionObj i} {} s t"
    using evolves_command [of i s stats json command] by simp
  show ?case
  proof (cases how)
    case Proceed
    then have "registered t = registered s" using command_proceeds [of stats json i command s] step by simp
    with e have "evolves {ConnectionObj i} {} {} s t" by (auto simp: evolves_def)
    then have "evolves {ConnectionObj i} {ConnectionObj i} {} s (snd (handle_commands stats json i commands t))"
      by (rule evolves_trans [OF _ Cons]) auto
    with step Proceed show ?thesis by simp
  qed (use step e in simp_all)
qed simp

text \<open>The object that an event is about, and those that it makes.\<close>

definition event_object :: "loop_event \<Rightarrow> fileobj" where
  "event_object e =
     (case e of
        ListenerReady i _ \<Rightarrow> ListenerObj i
      | CreatorReady i _ \<Rightarrow> CreatorObj i
      | SignalReady _ \<Rightarrow> SignalPipe
      | ControlSocketReady i _ _ _ _ \<Rightarrow> ControlSocketObj i
      | ConnectionReady i _ _ _ _ \<Rightarrow> ConnectionObj i)"

definition created_objects :: "loop_event \<Rightarrow> fileobj list" where
  "created_objects e =
     (case e of
        CreatorReady _ (NewListener l) \<Rightarrow> [ListenerObj l]
      | ControlSocketReady _ _ _ _ new \<Rightarrow> [ConnectionObj new]
      | _ \<Rightarrow> [])"

lemma evolves_request:
  "evolves {ListenerObj i} {ListenerObj i} {} s (snd (handle_listener (ListenerObj i) r s))"
proof (cases r)
  case PeerClosed
  let ?f = "ListenerObj i"
  have weak: "exception_history (snd (handle_listener ?f r s)) = exception_history s \<and>
      (running (snd (handle_listener ?f r s)) \<longrightarrow> running s \<and>
        config (snd (handle_listener ?f r s)) = config s \<and> stopping (snd (handle_listener ?f r s)) = stopping s)"
    by (auto simp: PeerClosed handle_listener_def unregister_def split: option.split)
  have "registrations_ok (snd (handle_listener ?f r s)) \<and>
      set (registered s) - {?f} \<subseteq> set (registered (snd (handle_listener ?f r s))) \<and>
      set (registered (snd (handle_listener ?f r s))) \<subseteq> set (registered s)"
    if ok: "registrations_ok s" "?f \<in> set (registered s)"
  proof -
    have d: "distinct (map (fileno s) (registered s))" "?f \<in> set (listeners s)"
      using ok unfolding registrations_ok_def by (simp, force)
    then have "snd (handle_listener ?f r s) = s\<lparr>registered := remove1 ?f (registered s),
        listeners := remove1 ?f (listeners s)\<rparr>"
      using ok(2) by (simp add: PeerClosed handle_listener_def unregister_registered)
    then show ?thesis
      using ok(1) d by (auto simp: registrations_ok_def distinct_map_remove1 set_remove1_map)
  qed
  with weak show ?thesis unfolding evolves_def by simp
qed (auto simp: handle_listener_def evolves_def registrations_ok_def)

lemma evolves_creator:
  "evolves {} {} (set (created_objects (CreatorReady i r))) s (snd (handle_creator r s))"
proof (cases r)
  case (NewListener l)
  then show ?thesis
    by (auto simp: handle_creator_def created_objects_def register_def evolves_def registrations_ok_def)
qed (auto simp: handle_creator_def)

lemma evolves_signal: "evolves {} {} {} s (snd (handle_signal load s))"
  by (auto simp: handle_signal_def evolves_def registrations_ok_def Let_def split: list.splits load_outcome.splits)

lemma accepted_open: "accept accepts sends now = Some c \<Longrightarrow> \<not> conn_closed c"
proof -
  assume "accept accepts sends now = Some c"
  then have "ControlConnection sends now = (True, c)"
    by (auto simp: accept_def split: if_splits prod.splits)
  moreover have "\<not> conn_closed (snd (ControlConnection sends now))"
    by (simp add: ControlConnection_def conn_send_closed)
  ultimately show ?thesis by simp
qed

lemma evolves_event:
  "evolves {event_object e} {event_object e} (set (created_objects e)) s (snd (handle_event e s))"
proof (cases e)
  case (ListenerReady i r)
  then show ?thesis
    using evolves_request [of i s r] by (simp add: handle_event_def event_object_def created_objects_def)
next
  case (CreatorReady i r)
  then show ?thesis
    using evolves_mono [OF evolves_creator [of i r s]] by (simp add: handle_event_def)
next
  case (SignalReady load)
  then show ?thesis
    using evolves_mono [OF evolves_signal [of s load]] by (simp add: handle_event_def)
next
  case (ControlSocketReady i accepts sends now new)
  show ?thesis
  proof (cases "accept accepts sends now")
    case (Some c)
    from accepted_open [OF Some] show ?thesis
      by (auto simp: ControlSocketReady Some handle_event_def created_objects_def register_def
          evolves_def registrations_ok_def)
  qed (simp add: ControlSocketReady handle_event_def)
next
  case (ConnectionReady i received now stats json)
  show ?thesis
  proof (cases "connections s i")
    case (Some c)
    define t where "t = s\<lparr>connections := (connections s)(i \<mapsto> snd (get_commands received now c))\<rparr>"
    have t: "evolves {ConnectionObj i} {} {} s t"
      using Some get_commands_closed [of received now c] by (auto simp: t_def evolves_def registrations_ok_def)
    have "handle_event e s =
        (case fst (get_commands received now c) of
           None \<Rightarrow> (Raised, t) | Some commands \<Rightarrow> handle_commands stats json i commands t)"
      by (simp add: ConnectionReady Some handle_event_def t_def split: prod.splits option.splits)
    then show ?thesis
      using evolves_mono [OF t] evolves_trans [OF t evolves_commands]
      by (simp add: ConnectionReady event_object_def created_objects_def split: option.splits)
  qed (simp add: ConnectionReady handle_event_def)
qed

subsection \<open>Turns and set-up\<close>

text \<open>
  What \<open>select\<close> reports: different objects, which are registered; and the objects that come into being
  while they are handled are new.
\<close>

definition batch_ok :: "loop_event list \<Rightarrow> loop_state \<Rightarrow> bool" where
  "batch_ok es s \<longleftrightarrow>
     distinct (map event_object es @ concat (map created_objects es)) \<and>
     set (map event_object es) \<subseteq> set (registered s) \<and>
     set (concat (map created_objects es)) \<inter> set (registered s) = {}"

definition turn_ok :: "turn \<Rightarrow> loop_state \<Rightarrow> bool" where
  "turn_ok t s \<longleftrightarrow> (case fst t of None \<Rightarrow> True | Some es \<Rightarrow> batch_ok es s)"

lemma evolves_events:
  assumes "distinct (map event_object es)"
  shows "evolves (event_object ` set es) (event_object ` set es) UNIV s (snd (handle_events es s))"
  using assms
proof (induction es arbitrary: s)
  case (Cons e es)
  let ?all = "event_object ` set (e # es)"
  have "evolves ?all {event_object e} UNIV s (snd (handle_event e s))"
    by (rule evolves_mono [OF evolves_event]) auto
  moreover have "evolves (event_object ` set es) ?all UNIV t (snd (handle_events es t))" for t
    by (rule evolves_mono [OF Cons.IH]) (use Cons.prems in auto)
  ultimately show ?case
    unfolding handle_events.simps by (rule evolves_and_then) (use Cons.prems in auto)
qed simp

text \<open>The history and the configuration, whatever the events are about.\<close>

lemma events_keep:
  "exception_history (snd (handle_events es s)) = exception_history s"
  "running (snd (handle_events es s)) \<Longrightarrow>
     running s \<and> config (snd (handle_events es s)) = config s \<and> stopping (snd (handle_events es s)) = stopping s"
proof -
  have "exception_history (snd (handle_events es s)) = exception_history s \<and>
    (running (snd (handle_events es s)) \<longrightarrow>
       running s \<and> config (snd (handle_events es s)) = config s \<and> stopping (snd (handle_events es s)) = stopping s)"
  proof (induction es arbitrary: s)
    case (Cons e es)
    obtain how t where step: "handle_event e s = (how, t)" by fastforce
    then have "exception_history t = exception_history s \<and>
        (running t \<longrightarrow> running s \<and> config t = config s \<and> stopping t = stopping s)"
      using evolves_event [of e s] by (simp add: evolves_def)
    with step Cons [of t] show ?case by (cases how) auto
  qed simp
  then show "exception_history (snd (handle_events es s)) = exception_history s"
    "running (snd (handle_events es s)) \<Longrightarrow>
     running s \<and> config (snd (handle_events es s)) = config s \<and> stopping (snd (handle_events es s)) = stopping s"
    by simp_all
qed

lemma note_exception_simps [simp]:
  "registrations_ok (note_exception now s) = registrations_ok s"
  "config (note_exception now s) = config s"
  "registered (note_exception now s) = registered s"
  "listeners (note_exception now s) = listeners s"
  "fileno (note_exception now s) = fileno s"
  by (simp_all add: note_exception_def Let_def registrations_ok_def)

lemma registrations_ok_update [simp]:
  "registrations_ok (s\<lparr>count_exception := b\<rparr>) = registrations_ok s"
  "registrations_ok (s\<lparr>running := b\<rparr>) = registrations_ok s"
  "registrations_ok (s\<lparr>stopping := b\<rparr>) = registrations_ok s"
  by (simp_all add: registrations_ok_def)

text \<open>A turn is its events, and then perhaps the note of an exception.\<close>

definition turn_events :: "turn \<Rightarrow> loop_state \<Rightarrow> flow \<times> loop_state" where
  "turn_events t s =
     (case fst t of None \<Rightarrow> (Raised, s\<lparr>count_exception := False\<rparr>)
      | Some es \<Rightarrow> handle_events es (s\<lparr>count_exception := False\<rparr>))"

definition turn_counts :: "turn \<Rightarrow> loop_state \<Rightarrow> bool" where
  "turn_counts t s \<longleftrightarrow> fst (turn_events t s) = Raised \<or> count_exception (snd (turn_events t s))"

lemma count_exception_same: "count_exception s = b \<Longrightarrow> s\<lparr>count_exception := b\<rparr> = s"
  by (cases s) auto

lemma take_turn_cases:
  "\<exists>b. take_turn t s =
     (let s' = (snd (turn_events t s))\<lparr>count_exception := b\<rparr> in
      if turn_counts t s then note_exception (snd t) s' else s')"
proof (cases "turn_events t s")
  case (Pair how u)
  then have "take_turn t s =
      (let v = (if how = Raised then u\<lparr>count_exception := True\<rparr> else u)
       in if count_exception v then note_exception (snd t) v else v)"
    by (cases "fst t") (simp_all add: take_turn_def turn_events_def)
  then have "take_turn t s =
      (let s' = u\<lparr>count_exception := (how = Raised \<or> count_exception u)\<rparr>
       in if how = Raised \<or> count_exception u then note_exception (snd t) s' else s')"
    by (cases "how = Raised"; cases "count_exception u") (simp_all add: Let_def count_exception_same)
  with Pair show ?thesis by (auto simp: turn_counts_def)
qed

lemma turn_keeps_registrations:
  assumes "registrations_ok s" and "turn_ok t s"
  shows "registrations_ok (take_turn t s)"
proof -
  have "registrations_ok (snd (turn_events t s))"
  proof (cases "fst t")
    case (Some es)
    with assms(2) have es: "distinct (map event_object es)" "event_object ` set es \<subseteq> set (registered s)"
      by (auto simp: turn_ok_def batch_ok_def)
    from evolves_events [OF es(1), of "s\<lparr>count_exception := False\<rparr>"] es(2) assms(1) Some show ?thesis
      by (simp add: evolves_def turn_events_def)
  qed (use assms(1) in \<open>simp add: turn_events_def\<close>)
  then show ?thesis
    using take_turn_cases [of t s] by (auto simp: Let_def split: if_splits)
qed

subsection \<open>The set-up\<close>

text \<open>
  What the factories and the operating system give: different new listeners and creators, none with the
  descriptor of another registered object but that of a listener whose socket it takes over (another
  one of the new ones may have it too); and a control socket with a descriptor that no open object has.
\<close>

definition surroundings_ok :: "loop_state \<Rightarrow> surroundings \<Rightarrow> bool" where
  "surroundings_ok s u \<longleftrightarrow>
     (case new_listeners u of
        None \<Rightarrow> False
      | Some ls \<Rightarrow>
          distinct ls \<and> (\<forall>l \<in> set ls. is_listener l) \<and>
          (\<forall>f \<in> set (registered s). \<not> is_listener f \<longrightarrow> fileno s f \<notin> fileno s ` set ls) \<and>
          (\<forall>n. new_control_socket u = Some n \<longrightarrow>
             fileno s (ControlSocketObj n) \<notin> fileno s ` set ls \<and>
             (\<forall>f \<in> set (registered s). control_socket s \<noteq> Some f \<longrightarrow>
                fileno s f \<noteq> fileno s (ControlSocketObj n))))"

lemma register_all_result:
  assumes "distinct (map (fileno s) (registered s))"
  shows "if distinct (map (fileno s) (registered s @ filter (\<lambda>l. l \<notin> set existing) ls))
    then register_all existing ls s = (Proceed, s\<lparr>registered := registered s @ filter (\<lambda>l. l \<notin> set existing) ls\<rparr>)
    else fst (register_all existing ls s) = Raised"
  using assms
proof (induction ls arbitrary: s)
  case (Cons l ls)
  consider "l \<in> set existing" | "l \<notin> set existing" "fileno s l \<in> fileno s ` set (registered s)"
    | "l \<notin> set existing" "fileno s l \<notin> fileno s ` set (registered s)" by blast
  then show ?case
  proof cases
    case 1
    then show ?thesis using Cons.IH [OF Cons.prems] by simp
  next
    case 2
    then have "fst (register_all existing (l # ls) s) = Raised" by (simp add: register_def)
    moreover have "\<not> distinct (map (fileno s) (registered s @ filter (\<lambda>l. l \<notin> set existing) (l # ls)))"
      using 2 by auto
    ultimately show ?thesis by (simp only: if_False)
  next
    case 3
    define t where "t = s\<lparr>registered := registered s @ [l]\<rparr>"
    have "distinct (map (fileno t) (registered t))" using 3 Cons.prems by (simp add: t_def)
    note IH = Cons.IH [OF this]
    have e: "registered t @ filter (\<lambda>l. l \<notin> set existing) ls = registered s @ filter (\<lambda>l. l \<notin> set existing) (l # ls)"
      "fileno t = fileno s" "t\<lparr>registered := x\<rparr> = s\<lparr>registered := x\<rparr>" for x
      using 3(1) by (simp_all add: t_def)
    note IH [unfolded e]
    moreover have "register_all existing (l # ls) s = register_all existing ls t"
      using 3 by (simp add: register_def t_def)
    ultimately show ?thesis by (simp only:)
  qed
qed simp

lemma replace_control_socket_result:
  assumes "registrations_ok (s\<lparr>listeners := ls\<rparr>)"
    and "\<forall>m. n = Some m \<longrightarrow> (\<forall>f \<in> set (registered s). control_socket s \<noteq> Some f \<longrightarrow>
           fileno s f \<noteq> fileno s (ControlSocketObj m))"
  shows "\<exists>s'. replace_control_socket n s = (Proceed, s') \<and> registrations_ok (s'\<lparr>listeners := ls\<rparr>) \<and>
     listeners s' = listeners s \<and> exception_history s' = exception_history s \<and> fileno s' = fileno s \<and>
     set (registered s') \<subseteq> set (registered s) \<union> ControlSocketObj ` set_option n"
proof -
  define r where "r = (case control_socket s of None \<Rightarrow> registered s | Some g \<Rightarrow> remove1 g (registered s))"
  define s' where "s' = s\<lparr>registered := r @ (case n of None \<Rightarrow> [] | Some m \<Rightarrow> [ControlSocketObj m]),
    control_socket := map_option ControlSocketObj n\<rparr>"
  have d: "distinct (map (fileno s) (registered s))"
    and old: "\<And>f. control_socket s = Some f \<Longrightarrow> f \<in> set (registered s)"
    using assms(1) by (auto simp: registrations_ok_def)
  have r: "set r = set (registered s) - range ControlSocketObj" "distinct (map (fileno s) r)"
    "set r = set (registered s) - set_option (control_socket s)"
    using assms(1) d set_remove1_map [OF d] distinct_map_remove1 [OF d]
    by (auto simp: r_def registrations_ok_def split: option.splits)
  have free: "fileno s (ControlSocketObj m) \<notin> fileno s ` set r" if "n = Some m" for m
    using assms(2) that by (force simp: r(3))
  have "(case control_socket s of None \<Rightarrow> (Proceed, s) | Some f \<Rightarrow> unregister f s) = (Proceed, s\<lparr>registered := r\<rparr>)"
    using unregister_registered [OF d] old by (simp add: r_def split: option.split)
  then have "replace_control_socket n s = (Proceed, s')"
    using free by (simp add: replace_control_socket_def s'_def register_def Let_def split: option.split)
  moreover have "registrations_ok (s'\<lparr>listeners := ls\<rparr>)"
  proof -
    have "distinct (map (fileno s) (r @ (case n of None \<Rightarrow> [] | Some m \<Rightarrow> [ControlSocketObj m])))"
      using r(2) free by (auto split: option.split)
    moreover have "{f \<in> set (r @ (case n of None \<Rightarrow> [] | Some m \<Rightarrow> [ControlSocketObj m])). is_listener f}
        = {f \<in> set (registered s). is_listener f}"
      using r(1) by (auto split: option.splits)
    ultimately show ?thesis
      using assms(1) r(1) by (auto simp: s'_def registrations_ok_def split: option.splits)
  qed
  ultimately show ?thesis using r(1) by (auto simp: s'_def split: option.splits)
qed

text \<open>Listeners that are registered beside those that already are: descriptors clash only among themselves.\<close>

lemma recycled_distinct:
  assumes "distinct (map n rs)" and "distinct ls" and "\<forall>f \<in> set rs. f \<in> set ls \<or> n f \<notin> n ` set ls"
  shows "distinct (map n (rs @ filter (\<lambda>l. l \<notin> set rs) ls)) \<longleftrightarrow> distinct (map n ls)"
proof
  assume "distinct (map n (rs @ filter (\<lambda>l. l \<notin> set rs) ls))"
  then have "inj_on n (set (rs @ filter (\<lambda>l. l \<notin> set rs) ls))" by (simp only: distinct_map)
  then have "inj_on n (set ls)" by (rule inj_on_subset) auto
  with assms(2) show "distinct (map n ls)" by (simp add: distinct_map)
next
  assume d: "distinct (map n ls)"
  have "n l \<notin> n ` set rs" if "l \<in> set ls" "l \<notin> set rs" for l
  proof
    assume "n l \<in> n ` set rs"
    then obtain f where f: "f \<in> set rs" "n l = n f" by blast
    then have "f \<in> set ls" using assms(3) f that(1) by (metis imageI)
    with d f(2) that(1) have "l = f" by (simp add: distinct_map inj_on_def)
    with f(1) that(2) show False by simp
  qed
  with assms(1) distinct_map_filter [OF d] show "distinct (map n (rs @ filter (\<lambda>l. l \<notin> set rs) ls))"
    by auto (metis imageI)
qed

lemma set_up_result:
  assumes "registrations_ok s" and "surroundings_ok s u" and "new_listeners u = Some ls"
  shows "distinct (map (fileno s) ls) \<Longrightarrow>
      \<exists>s'. set_up u s = (if handler_created u then Proceed else Leave, s') \<and> registrations_ok s' \<and>
        exception_history s' = exception_history s"
    and "\<not> distinct (map (fileno s) ls) \<Longrightarrow> fst (set_up u s) = Raised"
proof -
  have ls: "distinct ls" "\<forall>l \<in> set ls. is_listener l"
    using assms(2,3) by (simp_all add: surroundings_ok_def)
  define old where "old = listeners s"
  define t where "t = s\<lparr>stopping := True, listeners := ls\<rparr>"
  have "registrations_ok (t\<lparr>listeners := old\<rparr>)" using assms(1) by (simp add: t_def old_def)
  then obtain t' where t': "replace_control_socket (new_control_socket u) t = (Proceed, t')"
      "registrations_ok (t'\<lparr>listeners := old\<rparr>)" "listeners t' = ls"
      "exception_history t' = exception_history s" "fileno t' = fileno s"
      "set (registered t') \<subseteq> set (registered s) \<union> ControlSocketObj ` set_option (new_control_socket u)"
    using replace_control_socket_result [where s = t and ls = old and n = "new_control_socket u"] assms(2,3)
    by (auto simp: t_def surroundings_ok_def)
  define v where "v = t'\<lparr>registered := filter (still_wanted t') (registered t')\<rparr>"
  define new where "new = filter (\<lambda>l. l \<notin> set (registered v)) ls"
  define w where "w = v\<lparr>registered := registered v @ new\<rparr>"
  have v: "listeners v = ls" "fileno v = fileno s" by (simp_all add: v_def t'(3,5))
  have d: "distinct (map (fileno v) (registered v))"
    using t'(2) by (simp add: v_def registrations_ok_def distinct_map_filter)
  have wanted: "f \<in> set ls" if "f \<in> set (registered v)" "is_listener f" for f
    using that t'(2,3) connection_no_listener
    by (auto simp: v_def still_wanted_def registrations_ok_def)
  have others: "fileno s f \<notin> fileno s ` set ls" if "f \<in> set (registered v)" "\<not> is_listener f" for f
  proof -
    have "f \<in> set (registered s) \<union> ControlSocketObj ` set_option (new_control_socket u)"
      using that(1) t'(6) by (auto simp: v_def)
    with that(2) assms(2,3) show ?thesis by (auto simp: surroundings_ok_def)
  qed
  have same: "distinct (map (fileno v) (registered v @ new)) \<longleftrightarrow> distinct (map (fileno s) ls)"
    unfolding new_def v(2) by (rule recycled_distinct) (use d v(2) ls(1) wanted others in auto)
  have set_up: "set_up u s = and_then (register_all (registered v) ls v)
      (\<lambda>s. if \<not> handler_created u then (Leave, s) else (Proceed, s\<lparr>running := True\<rparr>))"
    using t'(1) v(1) by (simp add: set_up_def assms(3) t_def [symmetric] Let_def v_def t'(3))
  show "fst (set_up u s) = Raised" if "\<not> distinct (map (fileno s) ls)"
  proof -
    have "fst (register_all (registered v) ls v) = Raised"
      using register_all_result [OF d, of "registered v" ls] same that by (simp only: new_def if_False)
    then show ?thesis by (cases "register_all (registered v) ls v") (simp add: set_up)
  qed
  show "\<exists>s'. set_up u s = (if handler_created u then Proceed else Leave, s') \<and> registrations_ok s' \<and>
        exception_history s' = exception_history s" if dls: "distinct (map (fileno s) ls)"
  proof -
    have "register_all (registered v) ls v = (Proceed, w)"
      using register_all_result [OF d, of "registered v" ls] same dls by (simp only: new_def w_def if_True)
    with set_up have result: "set_up u s = (if handler_created u then (Proceed, w\<lparr>running := True\<rparr>) else (Leave, w))"
      by simp
    have "distinct (map (fileno w) (registered w))" using same dls by (simp add: w_def)
    moreover have "{f \<in> set (registered w). is_listener f} = set (listeners w)"
      using wanted ls(2) v(1) by (auto simp: w_def new_def)
    moreover have "SignalPipe \<in> set (registered w)"
      using t'(2) by (simp add: w_def v_def registrations_ok_def still_wanted_def)
    ultimately have "registrations_ok w"
      using t'(2,3) ls
      by (auto simp: w_def v_def new_def registrations_ok_def still_wanted_def is_connection_def)
    moreover have "exception_history w = exception_history s"
      by (simp add: w_def v_def t'(4))
    ultimately show ?thesis using result by auto
  qed
qed

subsection \<open>Reachable states\<close>

text \<open>
  Between two turns: the program has started, or the set-up has been done and the loop is running,
  or a turn has been taken.
\<close>

inductive loop_reach :: "loop_state \<Rightarrow> bool" where
  start: "loop_reach (start_state c room descriptors)"
| set_up: "loop_reach s \<Longrightarrow> \<not> running s \<Longrightarrow> \<not> stopping s \<Longrightarrow> surroundings_ok s u \<Longrightarrow>
    set_up u s = (Proceed, s') \<Longrightarrow> loop_reach s'"
| turn: "loop_reach s \<Longrightarrow> running s \<Longrightarrow> turn_ok t s \<Longrightarrow> loop_reach (take_turn t s)"

lemma loop_reach_registrations: "loop_reach s \<Longrightarrow> registrations_ok s"
proof (induction rule: loop_reach.induct)
  case (start c room descriptors)
  then show ?case by (simp add: start_state_def registrations_ok_def)
next
  case (set_up s u s')
  then obtain ls where ls: "new_listeners u = Some ls" by (auto simp: surroundings_ok_def split: option.splits)
  show ?case
    using set_up_result [OF set_up.IH set_up.hyps(4) ls] set_up.hyps(5)
    by (cases "distinct (map (fileno s) ls)") auto
qed (rule turn_keeps_registrations)

lemma closed_listener_result:
  assumes "registrations_ok s" and "ListenerObj i \<in> set (registered s)"
  shows "handle_event (ListenerReady i PeerClosed) s =
    (Proceed, s\<lparr>registered := remove1 (ListenerObj i) (registered s),
       listeners := remove1 (ListenerObj i) (listeners s)\<rparr>)"
proof -
  have "ListenerObj i \<in> set (listeners s)"
    using assms unfolding registrations_ok_def by (metis (mono_tags, lifting) is_listener_simps(4) mem_Collect_eq)
  moreover have "distinct (map (fileno s) (registered s))" using assms(1) by (simp add: registrations_ok_def)
  ultimately show ?thesis
    using assms(2) by (simp add: handle_event_def handle_listener_def unregister_registered)
qed

subsection \<open>The history of exceptions\<close>

text \<open>The times of the exceptions that the turns count, and those of them inside the window.\<close>

fun exception_times :: "turn list \<Rightarrow> loop_state \<Rightarrow> rat list" where
  "exception_times [] s = []"
| "exception_times (t # ts) s =
     (if running s then (if turn_counts t s then [snd t] else []) @ exception_times ts (take_turn t s)
      else [])"

definition in_window :: "rat \<Rightarrow> rat \<Rightarrow> rat list \<Rightarrow> rat list" where
  "in_window window now moments = filter (\<lambda>t. now - window \<le> t) moments"

lemma dropWhile_sorted: "sorted xs \<Longrightarrow> dropWhile (\<lambda>t. t < c) xs = filter (\<lambda>t. c \<le> t) xs" for c :: rat
proof (induction xs)
  case (Cons x xs)
  show ?case
  proof (cases "x < c")
    case False
    then have "\<forall>t \<in> set xs. c \<le> t" using Cons.prems by force
    with False show ?thesis by simp
  qed (use Cons in simp)
qed simp

text \<open>The history after the exceptions at these times.\<close>

definition history_of :: "rat list \<Rightarrow> loop_state \<Rightarrow> bool" where
  "history_of moments s \<longleftrightarrow>
     exception_history s = in_window (exception_window (config s)) (last moments) moments"

lemma in_window_sorted: "sorted moments \<Longrightarrow> sorted (in_window w now moments)"
  by (simp add: in_window_def sorted_wrt_filter)

lemma window_grows:
  assumes "sorted (moments @ [now])"
  shows "dropWhile (\<lambda>t. t < now - w) (in_window w (last moments) moments @ [now]) =
    in_window w now (moments @ [now])"
proof -
  have now: "\<forall>t \<in> set moments. t \<le> now" and moments: "sorted moments"
    using assms by (simp_all add: sorted_append)
  then have last: "moments \<noteq> [] \<Longrightarrow> last moments \<le> now" by simp
  have "\<forall>t \<in> set (in_window w (last moments) moments). t \<le> now"
    using now by (simp add: in_window_def)
  then have "sorted (in_window w (last moments) moments @ [now])"
    using in_window_sorted [OF moments, of w "last moments"] by (simp add: sorted_append)
  then have "dropWhile (\<lambda>t. t < now - w) (in_window w (last moments) moments @ [now]) =
      in_window w now (in_window w (last moments) moments @ [now])"
    by (simp add: dropWhile_sorted in_window_def)
  also have "\<dots> = in_window w now (moments @ [now])"
    using last by (cases "moments = []") (auto simp: in_window_def intro!: filter_cong)
  finally show ?thesis .
qed

lemma take_turn_parts:
  fixes t :: turn and s :: loop_state
  defines "u \<equiv> snd (turn_events t s)"
  shows "exception_history (take_turn t s) =
      (if turn_counts t s
       then dropWhile (\<lambda>x. x < snd t - exception_window (config u)) (exception_history u @ [snd t])
       else exception_history u)"
    and "config (take_turn t s) = config u"
    and "running (take_turn t s) \<longleftrightarrow> running u \<and>
      (turn_counts t s \<longrightarrow> int (length (exception_history (take_turn t s))) \<le> max_exceptions (config u))"
    and "running u \<Longrightarrow> stopping u \<Longrightarrow> stopping (take_turn t s)"
proof -
  obtain b where eq: "take_turn t s =
      (if turn_counts t s then note_exception (snd t) (u\<lparr>count_exception := b\<rparr>)
       else u\<lparr>count_exception := b\<rparr>)"
    using take_turn_cases [of t s] unfolding u_def Let_def by blast
  show "exception_history (take_turn t s) =
      (if turn_counts t s
       then dropWhile (\<lambda>x. x < snd t - exception_window (config u)) (exception_history u @ [snd t])
       else exception_history u)"
    by (simp add: eq note_exception_def Let_def)
  show "config (take_turn t s) = config u"
    by (simp add: eq)
  show "running (take_turn t s) \<longleftrightarrow> running u \<and>
      (turn_counts t s \<longrightarrow> int (length (exception_history (take_turn t s))) \<le> max_exceptions (config u))"
    by (simp add: eq note_exception_def Let_def)
  show "running u \<Longrightarrow> stopping u \<Longrightarrow> stopping (take_turn t s)"
    by (simp add: eq note_exception_def Let_def)
qed

lemma turn_events_keep:
  "exception_history (snd (turn_events t s)) = exception_history s"
  "running (snd (turn_events t s)) \<Longrightarrow>
     running s \<and> config (snd (turn_events t s)) = config s \<and> stopping (snd (turn_events t s)) = stopping s"
  using events_keep [of _ "s\<lparr>count_exception := False\<rparr>"] by (simp_all add: turn_events_def split: option.splits)

lemma turn_history:
  assumes "history_of moments s" and "sorted (moments @ [snd t])" and "running (snd (turn_events t s))"
  shows "config (take_turn t s) = config s"
    and "history_of (moments @ (if turn_counts t s then [snd t] else [])) (take_turn t s)"
  using assms window_grows [of moments "snd t"]
  by (simp_all add: take_turn_parts turn_events_keep history_of_def)

lemma serve_history:
  assumes "history_of moments s" and "sorted (moments @ map snd ts)" and "running (serve ts s)"
  shows "config (serve ts s) = config s \<and> history_of (moments @ exception_times ts s) (serve ts s)"
  using assms
proof (induction ts arbitrary: moments s)
  case (Cons t ts)
  show ?case
  proof (cases "running s")
    case True
    have "running (take_turn t s)"
      using Cons.prems(3) True by (cases ts) (auto split: if_splits)
    then have "running (snd (turn_events t s))" by (simp add: take_turn_parts)
    moreover have "sorted (moments @ [snd t])" using Cons.prems(2) by (auto simp: sorted_append)
    moreover have "sorted ((moments @ (if turn_counts t s then [snd t] else [])) @ map snd ts)"
      using Cons.prems(2) by (auto simp: sorted_append)
    ultimately show ?thesis
      using Cons.IH [OF turn_history(2) [OF Cons.prems(1)]] Cons.prems True turn_history(1) [OF Cons.prems(1)]
      by simp
  qed (use Cons.prems in simp)
qed simp

lemma exception_times_times: "set (exception_times ts s) \<subseteq> set (map snd ts)"
  by (induction ts arbitrary: s) auto

lemma exception_times_sorted: "sorted (map snd ts) \<Longrightarrow> sorted (exception_times ts s)"
proof (induction ts arbitrary: s)
  case (Cons t ts)
  then show ?case
    using exception_times_times [of ts "take_turn t s"] by (auto simp: subset_iff)
qed simp

subsection \<open>Commands that stop the server\<close>

lemma shutdown_command:
  assumes "connections s i = Some c" and "\<not> conn_closed c" and "conn_sends c = []"
    and "ConnectionObj i \<in> set (registered s)" and "length (signal_pipe s) < pipe_size s"
  shows "handle_command stats json i (Some (lit ''shutdown'')) s =
    (Leave, s\<lparr>connections := (connections s)(i \<mapsto>
         c\<lparr>conn_sent := conn_sent c @ map of_char ''OK: Shutting down'' @ [10], conn_closed := True\<rparr>),
       registered := remove1 (ConnectionObj i) (registered s),
       signal_pipe := signal_pipe s @ [SIGTERM]\<rparr>)"
proof -
  have "utf8_encode (lit ''OK: '' @ lit ''Shutting down'') = Inr (map of_char ''OK: Shutting down'')"
    by code_simp
  moreover have "lit ''Shutting down'' \<noteq> []" by (simp add: lit_def)
  moreover have "lit ''shutdown'' \<noteq> lit ''help''" "lit ''shutdown'' \<noteq> lit ''stats''"
    "lit ''shutdown'' \<noteq> lit ''stats-json''" "lit ''shutdown'' \<noteq> lit ''reload''"
    by code_simp+
  ultimately show ?thesis
    using assms
    by (simp add: handle_command_def on_connection_def acknowledge_def conn_send_def sock_send_def
        close_connection_def conn_close_def unregister_closed object_closed_def write_signal_def)
qed

lemma get_one_command:
  assumes "conn_buffer c = []" and "10 \<notin> set line" and "line_command line = [command]"
  shows "get_commands (RecvData (line @ [10])) now c = (Some [Some command], c\<lparr>conn_last_activity := now\<rparr>)"
  using assms buffer_commands_line [of line "[]"] by (cases c) (simp add: get_commands_def Let_def)

text \<open>Sends that take the whole of what they are given, if that is at most \<open>n\<close> octets.\<close>

definition whole_sends :: "nat \<Rightarrow> sock_result list \<Rightarrow> bool" where
  "whole_sends n sends \<longleftrightarrow> (\<forall>r \<in> set sends. \<exists>m. r = Accepted m \<and> n \<le> m)"

lemma whole_sends_tl [simp]: "whole_sends n sends \<Longrightarrow> whole_sends n (tl sends)"
  by (cases sends) (auto simp: whole_sends_def)

lemma conn_send_whole:
  assumes "whole_sends n (conn_sends c)" and "\<not> conn_closed c" and "utf8_encode output = Inr bs" and "length bs < n"
  shows "conn_send output c = (True, c\<lparr>conn_sends := tl (conn_sends c), conn_sent := conn_sent c @ bs @ [10]\<rparr>)"
proof (cases "conn_sends c")
  case (Cons r rs)
  then obtain m where "r = Accepted m" "n \<le> m" using assms(1) by (auto simp: whole_sends_def)
  with Cons assms(2-4) show ?thesis by (simp add: conn_send_def sock_send_def)
qed (use assms(2,3) in \<open>simp add: conn_send_def sock_send_def\<close>)

text \<open>A send that takes less loses the rest: nobody tries again, and the caller does not notice.\<close>

lemma partial_send_loses_rest:
  assumes "\<not> conn_closed c" and "conn_sends c = Accepted m # rs" and "utf8_encode output = Inr bs" and "m \<le> length bs"
  shows "conn_send output c = (True, c\<lparr>conn_sends := rs, conn_sent := conn_sent c @ take m bs\<rparr>)"
  using assms by (simp add: conn_send_def sock_send_def)

lemma ok_octets: "utf8_encode (lit ''OK'') = Inr (map of_char ''OK'')"
  by code_simp

lemma acknowledge_whole:
  "whole_sends n (conn_sends c) \<Longrightarrow> \<not> conn_closed c \<Longrightarrow> 2 < n \<Longrightarrow>
   acknowledge [] c = (True, c\<lparr>conn_sends := tl (conn_sends c), conn_sent := conn_sent c @ map of_char ''OK'' @ [10]\<rparr>)"
  using conn_send_whole [OF _ _ ok_octets, of n c] by (simp add: acknowledge_def)

lemma stats_command:
  assumes "connections s i = Some c" and "conn_buffer c = []" and "\<not> conn_closed c"
    and "whole_sends n (conn_sends c)" and "length bs < n" and "2 < n"
    and "10 \<notin> set line" and "line_command line = [lit ''stats'']" and "utf8_encode stats = Inr bs"
  shows "handle_event (ConnectionReady i (RecvData (line @ [10])) now stats json) s =
    (Proceed, s\<lparr>connections := (connections s)(i \<mapsto>
       c\<lparr>conn_last_activity := now, conn_sends := tl (tl (conn_sends c)),
         conn_sent := conn_sent c @ bs @ [10] @ map of_char ''OK'' @ [10]\<rparr>)\<rparr>)"
proof -
  let ?c = "c\<lparr>conn_last_activity := now\<rparr>"
  let ?d = "?c\<lparr>conn_sends := tl (conn_sends c), conn_sent := conn_sent c @ bs @ [10]\<rparr>"
  have "lit ''stats'' \<noteq> lit ''help''" by code_simp
  moreover have "conn_send stats ?c = (True, ?d)"
    using conn_send_whole [of n ?c stats bs] assms by simp
  moreover have "acknowledge [] ?d = (True, ?d\<lparr>conn_sends := tl (tl (conn_sends c)),
      conn_sent := conn_sent c @ bs @ [10] @ map of_char ''OK'' @ [10]\<rparr>)"
    using acknowledge_whole [of n ?d] assms by simp
  ultimately show ?thesis
    using assms by (simp add: handle_event_def get_one_command handle_command_def on_connection_def)
qed

lemma quit_command:
  assumes "connections s i = Some c" and "conn_buffer c = []" and "\<not> conn_closed c"
    and "whole_sends n (conn_sends c)" and "2 < n" and "ConnectionObj i \<in> set (registered s)"
    and "10 \<notin> set line" and "line_command line = [lit ''quit'']"
  shows "handle_event (ConnectionReady i (RecvData (line @ [10])) now stats json) s =
    (Proceed, s\<lparr>connections := (connections s)(i \<mapsto>
         c\<lparr>conn_last_activity := now, conn_sends := tl (conn_sends c),
           conn_sent := conn_sent c @ map of_char ''OK'' @ [10], conn_closed := True\<rparr>),
       registered := remove1 (ConnectionObj i) (registered s)\<rparr>)"
proof -
  let ?c = "c\<lparr>conn_last_activity := now\<rparr>"
  have "lit ''quit'' \<noteq> lit ''help''" "lit ''quit'' \<noteq> lit ''stats''"
    "lit ''quit'' \<noteq> lit ''stats-json''" "lit ''quit'' \<noteq> lit ''reload''" "lit ''quit'' \<noteq> lit ''shutdown''"
    by code_simp+
  moreover have "acknowledge [] ?c = (True, ?c\<lparr>conn_sends := tl (conn_sends c),
      conn_sent := conn_sent c @ map of_char ''OK'' @ [10]\<rparr>)"
    using acknowledge_whole [of n ?c] assms by simp
  ultimately show ?thesis
    using assms
    by (simp add: handle_event_def get_one_command handle_command_def on_connection_def
        close_connection_def conn_close_def unregister_closed object_closed_def)
qed

lemma termination_turn:
  assumes "signal_pipe s = b # pipe" and "b = SIGINT \<or> b = SIGTERM"
  shows "take_turn (Some (SignalReady load # es), t) s =
    s\<lparr>count_exception := False, signal_pipe := pipe, running := False, stopping := True\<rparr>"
  using assms by (auto simp: take_turn_def handle_event_def handle_signal_def Let_def)

lemma serve_stopped: "\<not> running s \<Longrightarrow> serve ts s = s"
  by (cases ts) simp_all

end
