(* ===== verification/ControlClient.thy ===== *)
theory ControlClient
  imports MainLoop
begin

text \<open>
  dhcpkit/ipv6/server/dhcpctl.py: the program that sends a command to the control socket of the server and
  prints the answer.  Connecting and the command line are left out; what the socket delivers and how it
  sends are part of the state.
\<close>

text \<open>
  \<open>client_open\<close> is false once the client has closed its socket.  When the outcomes of \<open>recv\<close> are over, the
  next call of it times out, which is an \<open>OSError\<close> as every outcome without data.
\<close>

record control_client =
  client_open :: bool
  client_buffer :: bytes
  client_incoming :: "recv_outcome list"
  client_sends :: "sock_result list"
  client_sent :: bytes

datatype client_error =
    UnknownCommandError | WrongServerError | CommunicationError | NoText | BrokenPipeError | OtherOSError

text \<open>The loop of \<open>receive_line\<close>.\<close>

definition decode_line :: "bytes \<Rightarrow> client_error + pystr option" where
  "decode_line line = (case utf8_decode line of Inl _ \<Rightarrow> Inl NoText | Inr s \<Rightarrow> Inr (Some s))"

fun receive_loop ::
  "bool \<Rightarrow> recv_outcome list \<Rightarrow> control_client \<Rightarrow> (client_error + pystr option) \<times> control_client" where
  "receive_loop optional incoming c =
     (case split_line (client_buffer c) of
        Some (line, rest) \<Rightarrow> (decode_line line, c\<lparr>client_buffer := rest, client_incoming := incoming\<rparr>)
      | None \<Rightarrow>
          (case incoming of
             RecvData data # later \<Rightarrow>
               if data = [] then (Inr None, c\<lparr>client_open := False, client_incoming := later\<rparr>)
               else receive_loop optional later (c\<lparr>client_buffer := client_buffer c @ data\<rparr>)
           | _ \<Rightarrow>
               if optional then (Inr None, c\<lparr>client_open := False, client_incoming := tl incoming\<rparr>)
               else (Inl CommunicationError, c\<lparr>client_incoming := tl incoming\<rparr>)))"

declare receive_loop.simps [simp del]

definition receive_line :: "bool \<Rightarrow> control_client \<Rightarrow> (client_error + pystr option) \<times> control_client" where
  "receive_line optional c =
     (if \<not> client_open c then (if optional then Inr None else Inl CommunicationError, c)
      else receive_loop optional (client_incoming c) c)"

definition send_command :: "pystr \<Rightarrow> bool \<Rightarrow> control_client \<Rightarrow> client_error option \<times> control_client" where
  "send_command command optional c =
     (if \<not> client_open c then (if optional then None else Some CommunicationError, c)
      else case utf8_encode command of
        Inl _ \<Rightarrow> (Some NoText, c)
      | Inr bs \<Rightarrow>
          (case client_sends c of
             [] \<Rightarrow> (None, c\<lparr>client_sent := client_sent c @ bs @ [10]\<rparr>)
           | Accepted n # rs \<Rightarrow>
               (None, c\<lparr>client_sends := rs, client_sent := client_sent c @ take n (bs @ [10])\<rparr>)
           | BrokenPipe # rs \<Rightarrow> (Some BrokenPipeError, c\<lparr>client_sends := rs\<rparr>)
           | SendError # rs \<Rightarrow> (Some OtherOSError, c\<lparr>client_sends := rs\<rparr>)))"

text \<open>What is still to be read; every line that is read takes at least its newline from it.\<close>

fun outcome_size :: "recv_outcome \<Rightarrow> nat" where
  "outcome_size (RecvData data) = Suc (length data)"
| "outcome_size _ = 1"

definition unread :: "control_client \<Rightarrow> nat" where
  "unread c = length (client_buffer c) + sum_list (map outcome_size (client_incoming c))"

lemma receive_loop_less:
  "receive_loop optional incoming c = (Inr (Some line), c') \<Longrightarrow>
   unread c' < length (client_buffer c) + sum_list (map outcome_size incoming)"
proof (induction optional incoming c rule: receive_loop.induct)
  case (1 optional incoming c)
  show ?case
  proof (cases "split_line (client_buffer c)")
    case None
    then show ?thesis
      using 1 by (subst (asm) (2) receive_loop.simps)
        (fastforce split: list.splits recv_outcome.splits if_splits)
  next
    case (Some p)
    then obtain l r where l: "split_line (client_buffer c) = Some (l, r)" by (cases p) auto
    then have "c' = c\<lparr>client_buffer := r, client_incoming := incoming\<rparr>"
      using 1(2) by (subst (asm) receive_loop.simps) simp
    with split_line_shorter [OF l] show ?thesis by (simp add: unread_def)
  qed
qed

lemma receive_line_less:
  "receive_line optional c = (Inr (Some line), c') \<Longrightarrow> unread c' < unread c"
  by (auto simp: receive_line_def unread_def split: if_splits dest!: receive_loop_less)

text \<open>\<open>execute_command\<close>: the lines that it yields, the exception that ends it, if any, and the client after it.\<close>

function read_output ::
  "bool \<Rightarrow> control_client \<Rightarrow> pystr list \<times> client_error option \<times> control_client" where
  "read_output optional c =
     (case receive_line optional c of
        (Inl e, c') \<Rightarrow> ([], Some e, c')
      | (Inr None, c') \<Rightarrow> ([], None, c')
      | (Inr (Some line), c') \<Rightarrow>
          if line = lit ''UNKNOWN'' then ([], Some UnknownCommandError, c')
          else if starts_with (lit ''OK:'') line then ([drop 3 line], None, c')
          else if line = lit ''OK'' then ([], None, c')
          else (case read_output optional c' of (lines, e, c'') \<Rightarrow> (line # lines, e, c'')))"
  by auto
termination
  by (relation "measure (unread \<circ> snd)") (auto dest: receive_line_less [OF sym])

declare read_output.simps [simp del]

definition execute_command ::
  "pystr \<Rightarrow> bool \<Rightarrow> control_client \<Rightarrow> pystr list \<times> client_error option \<times> control_client" where
  "execute_command command optional c =
     (case send_command command optional c of
        (Some e, c) \<Rightarrow> ([], Some e, c)
      | (None, c) \<Rightarrow> read_output optional c)"

text \<open>\<open>main\<close> and \<open>run\<close>: what is printed, the exit code, and what has been sent.\<close>

definition dhcpctl :: "pystr \<Rightarrow> control_client \<Rightarrow> pystr list \<times> int \<times> bytes" where
  "dhcpctl command conn =
     (case receive_line False conn of
        (Inr (Some line), conn) \<Rightarrow>
          if \<not> starts_with (lit ''DHCPKit '') line then ([], 1, client_sent conn)
          else
            (case execute_command command False conn of
               (output, Some e, conn) \<Rightarrow> (output, 1, client_sent conn)
             | (output, None, conn) \<Rightarrow>
                 (case execute_command (lit ''quit'') True conn of
                    (_, Some e, conn) \<Rightarrow> (output, if e = BrokenPipeError then 0 else 1, client_sent conn)
                  | (more_output, None, conn) \<Rightarrow>
                      (output, if more_output \<noteq> [] then 1 else 0, client_sent conn)))
      | (_, conn) \<Rightarrow> ([], 1, client_sent conn))"

subsection \<open>Reading a stream of lines\<close>

text \<open>A client that will receive a stream, in non-empty pieces.\<close>

definition receives :: "bytes \<Rightarrow> control_client \<Rightarrow> bool" where
  "receives octets c \<longleftrightarrow>
     client_open c \<and> (\<exists>pieces. client_incoming c = map RecvData pieces \<and> [] \<notin> set pieces \<and>
       client_buffer c @ concat pieces = octets)"

lemma receive_loop_line:
  assumes "client_buffer c @ concat pieces = l @ 10 # r" and "10 \<notin> set l" and "[] \<notin> set pieces"
    and "client_open c"
  shows "\<exists>c'. receive_loop optional (map RecvData pieces) c = (decode_line l, c') \<and> receives r c' \<and>
    client_sends c' = client_sends c \<and> client_sent c' = client_sent c"
  using assms
proof (induction pieces arbitrary: c)
  case Nil
  then have "split_line (client_buffer c) = Some (l, r)" by (simp add: split_line_newline)
  with Nil.prems show ?case
    by (subst receive_loop.simps) (simp add: receives_def)
next
  case (Cons p pieces)
  show ?case
  proof (cases "split_line (client_buffer c)")
    case None
    moreover have "p \<noteq> []" using Cons.prems(3) by auto
    ultimately have "receive_loop optional (map RecvData (p # pieces)) c =
        receive_loop optional (map RecvData pieces) (c\<lparr>client_buffer := client_buffer c @ p\<rparr>)"
      by (subst receive_loop.simps) simp
    with Cons.IH [of "c\<lparr>client_buffer := client_buffer c @ p\<rparr>"] Cons.prems show ?thesis by simp
  next
    case (Some q)
    then obtain l' r' where s: "split_line (client_buffer c) = Some (l', r')" by (cases q) auto
    from split_line_Some [OF this] have b: "client_buffer c = l' @ 10 # r'" "10 \<notin> set l'" .
    with Cons.prems(1) have "l' @ 10 # (r' @ concat (p # pieces)) = l @ 10 # r" by simp
    then have "split_line (l @ 10 # r) = Some (l', r' @ concat (p # pieces))"
      using split_line_newline [OF b(2)] by metis
    then have "l' = l" "r = r' @ concat (p # pieces)"
      using split_line_newline [OF Cons.prems(2), of r] by auto
    with s Cons.prems(3,4) show ?thesis
      by (subst receive_loop.simps) (auto simp: receives_def intro!: exI [of _ "p # pieces"])
  qed
qed

lemma receive_line_stream:
  assumes "receives (l @ 10 # r) c" and "10 \<notin> set l"
  obtains c' where "receive_line optional c = (decode_line l, c')" and "receives r c'"
    and "client_sends c' = client_sends c" and "client_sent c' = client_sent c"
proof -
  from assms(1) obtain pieces where "client_open c" "client_incoming c = map RecvData pieces" "[] \<notin> set pieces"
    "client_buffer c @ concat pieces = l @ 10 # r"
    by (auto simp: receives_def)
  with receive_loop_line [of c pieces l r optional] assms(2) that show thesis
    by (auto simp: receive_line_def)
qed

lemma read_output_lines:
  assumes "receives (concat (map (\<lambda>l. l @ [10]) ls) @ map of_char ''OK'' @ 10 # r) c"
    and "\<forall>l \<in> set ls. 10 \<notin> set l" and "list_all2 (\<lambda>l s. utf8_decode l = Inr s) ls lines"
    and "\<forall>s \<in> set lines. s \<noteq> lit ''UNKNOWN'' \<and> s \<noteq> lit ''OK'' \<and> \<not> starts_with (lit ''OK:'') s"
  shows "\<exists>c'. read_output optional c = (lines, None, c') \<and> receives r c' \<and>
    client_sends c' = client_sends c \<and> client_sent c' = client_sent c"
  using assms
proof (induction ls arbitrary: lines c)
  case Nil
  have ok: "decode_line (map of_char ''OK'') = Inr (Some (lit ''OK''))" "10 \<notin> set (map of_char ''OK'' :: bytes)"
    "lit ''OK'' \<noteq> lit ''UNKNOWN''" "\<not> starts_with (lit ''OK:'') (lit ''OK'')"
    by code_simp+
  obtain c' where "receive_line optional c = (decode_line (map of_char ''OK''), c')" "receives r c'"
    "client_sends c' = client_sends c" "client_sent c' = client_sent c"
    using receive_line_stream [of "map of_char ''OK''" r c optional] Nil.prems(1) ok(2)
    by (simp only: list.map concat.simps append_Nil) metis
  with ok Nil.prems show ?case by (subst read_output.simps) simp
next
  case (Cons l ls)
  then obtain s rest where lines: "lines = s # rest" "utf8_decode l = Inr s"
    "list_all2 (\<lambda>l s. utf8_decode l = Inr s) ls rest"
    by (cases lines) auto
  obtain c' where c': "receive_line optional c = (decode_line l, c')"
    "receives (concat (map (\<lambda>l. l @ [10]) ls) @ map of_char ''OK'' @ 10 # r) c'"
    "client_sends c' = client_sends c" "client_sent c' = client_sent c"
    using receive_line_stream [of l "concat (map (\<lambda>l. l @ [10]) ls) @ map of_char ''OK'' @ 10 # r" c optional]
      Cons.prems(1,2) by auto
  from Cons.IH [OF c'(2) _ lines(3)] Cons.prems(2,4) lines(1) c'(3,4) obtain d where
    "read_output optional c' = (rest, None, d)" "receives r d"
    "client_sends d = client_sends c" "client_sent d = client_sent c"
    by auto
  with c'(1) lines Cons.prems(4) show ?case
    by (subst read_output.simps) (simp add: decode_line_def)
qed

subsection \<open>The text of an answer\<close>

lemma utf8_char_newline: "utf8_char c = Inr ns \<Longrightarrow> c \<noteq> 10 \<Longrightarrow> 10 \<notin> set ns \<and> (\<forall>n \<in> set ns. n < 256)"
proof -
  have "n mod 64 < 128" for n :: nat using mod_less_divisor [of 64 n] by linarith
  moreover have "code_point c \<Longrightarrow> c div 262144 < 16" by (simp add: code_point_def less_mult_imp_div_less)
  ultimately show "utf8_char c = Inr ns \<Longrightarrow> c \<noteq> 10 \<Longrightarrow> ?thesis" by (auto split: if_splits)
qed

lemma utf8_line_no_newline: "utf8_encode s = Inr bs \<Longrightarrow> 10 \<notin> set s \<Longrightarrow> 10 \<notin> set bs"
proof -
  have "concat_res utf8_char s = Inr ns \<Longrightarrow> 10 \<notin> set s \<Longrightarrow> 10 \<notin> set ns \<and> (\<forall>n \<in> set ns. n < 256)" for ns
    by (induction s arbitrary: ns) (auto simp del: utf8_char.simps elim!: rbind_InrE dest!: utf8_char_newline)
  moreover have "of_nat n = (10 :: byte) \<longleftrightarrow> n = 10" if "n < 256" for n
    using that by (simp add: word_unat_eq_iff unat_of_nat)
  ultimately show "utf8_encode s = Inr bs \<Longrightarrow> 10 \<notin> set s \<Longrightarrow> 10 \<notin> set bs"
    by (fastforce simp: utf8_encode_def elim!: rbind_InrE)
qed

lemma utf8_encode_append:
  "utf8_encode (a @ b) = rbind (utf8_encode a) (\<lambda>x. rbind (utf8_encode b) (\<lambda>y. Inr (x @ y)))"
proof -
  have "concat_res utf8_char (a @ b) =
      rbind (concat_res utf8_char a) (\<lambda>x. rbind (concat_res utf8_char b) (\<lambda>y. Inr (x @ y)))"
  proof (induction a)
    case (Cons c a)
    then show ?case
      by (cases "utf8_char c"; cases "concat_res utf8_char a"; cases "concat_res utf8_char b")
        (simp_all del: utf8_char.simps)
  next
    case Nil
    then show ?case by (cases "concat_res utf8_char b") (simp_all del: utf8_char.simps)
  qed
  then show ?thesis
    by (cases "concat_res utf8_char a"; cases "concat_res utf8_char b")
      (simp_all add: utf8_encode_def del: utf8_char.simps)
qed

lemma utf8_newline: "utf8_encode (10 # s) = rbind (utf8_encode s) (\<lambda>x. Inr (10 # x))"
proof -
  have "utf8_char 10 = Inr [10]" by simp
  then show ?thesis
    by (cases "concat_res utf8_char s") (simp_all add: utf8_encode_def del: utf8_char.simps)
qed

text \<open>The octets of a text with a newline behind it are those of its lines.\<close>

lemma utf8_lines:
  "utf8_encode (join 10 lines) = Inr bs \<Longrightarrow> lines \<noteq> [] \<Longrightarrow> \<forall>l \<in> set lines. 10 \<notin> set l \<Longrightarrow>
   \<exists>ls. bs @ [10] = concat (map (\<lambda>l. l @ [10]) ls) \<and> (\<forall>l \<in> set ls. 10 \<notin> set l) \<and>
     list_all2 (\<lambda>l s. utf8_decode l = Inr s) ls lines"
proof (induction "10 :: nat" lines arbitrary: bs rule: join.induct)
  case (2 x)
  then show ?case
    by (intro exI [of _ "[bs]"]) (simp add: utf8_line_no_newline utf8_decode_encode)
next
  case (3 x y ys)
  then obtain a b where a: "utf8_encode x = Inr a" and b: "utf8_encode (join 10 (y # ys)) = Inr b"
    and bs: "bs = a @ 10 # b"
    by (auto simp: utf8_encode_append utf8_newline elim!: rbind_InrE)
  from 3(1) [OF b] 3(4) obtain ls where
    "b @ [10] = concat (map (\<lambda>l. l @ [10]) ls)" "\<forall>l \<in> set ls. 10 \<notin> set l"
    "list_all2 (\<lambda>l s. utf8_decode l = Inr s) ls (y # ys)"
    by auto
  then show ?case
    using a bs 3(4) by (intro exI [of _ "a # ls"]) (auto simp: utf8_line_no_newline utf8_decode_encode)
qed simp

end
