(* ===== verification/AddressText.thy ===== *)
theory AddressText
  imports Addresses Text DomainNames "HOL-Library.List_Lexorder"
begin

text \<open>
  The text of an IPv6 address or prefix as the ipaddress module writes it (\<open>str\<close>): eight groups of
  hexadecimal digits without leading zeros, the first longest run of at least two zero groups replaced by
  two colons.
\<close>

definition hex_group :: "nat \<Rightarrow> pystr" where
  "hex_group n =
     (if n < 16 then [hex_digit n]
      else if n < 256 then [hex_digit (n div 16), hex_digit (n mod 16)]
      else if n < 4096 then [hex_digit (n div 256), hex_digit (n div 16 mod 16), hex_digit (n mod 16)]
      else [hex_digit (n div 4096 mod 16), hex_digit (n div 256 mod 16), hex_digit (n div 16 mod 16),
        hex_digit (n mod 16)])"

definition groups_of :: "ipv6 \<Rightarrow> pystr list" where
  "groups_of a = map (\<lambda>i. hex_group (unat (take_bit 16 (drop_bit (112 - 16 * i) a)))) [0..<8]"

text \<open>The loop of \<open>_compress_hextets\<close>: where the longest run of zeros starts, and its length.\<close>

fun longest_zeros :: "nat \<Rightarrow> nat \<times> nat \<Rightarrow> nat \<times> nat \<Rightarrow> pystr list \<Rightarrow> nat \<times> nat" where
  "longest_zeros index run best [] = best"
| "longest_zeros index run best (hextet # later) =
     (if hextet = lit ''0'' then
        (let run = (if snd run = 0 then index else fst run, snd run + 1);
             best = (if snd run > snd best then run else best)
         in longest_zeros (index + 1) run best later)
      else longest_zeros (index + 1) (0, 0) best later)"

definition compress_hextets :: "pystr list \<Rightarrow> pystr list" where
  "compress_hextets hextets =
     (case longest_zeros 0 (0, 0) (0, 0) hextets of (best_start, best_len) \<Rightarrow>
        if best_len > 1 then
          (let best_end = best_start + best_len;
               after = (if best_end = length hextets then [[]] else drop best_end hextets);
               hextets = take best_start hextets @ [] # after
           in if best_start = 0 then [] # hextets else hextets)
        else hextets)"

definition address_str :: "ipv6 \<Rightarrow> pystr" where
  "address_str a = join 58 (compress_hextets (groups_of a))"

definition network_str :: "ipv6_network \<Rightarrow> pystr" where
  "network_str n = address_str (network_address n) @ 47 # decimal (int (prefixlen n))"

end
