(* ===== verification/StatisticsText.thy ===== *)
theory StatisticsText
  imports Names Statistics AddressText
begin

text \<open>
  What dhcpkit/ipv6/server/statistics.py shows of the counters: \<open>__str__\<close>, which the command \<open>stats\<close> of
  the control socket prints, and \<open>export\<close>, of which \<open>stats-json\<close> makes its answer.
\<close>

subsection \<open>Text\<close>

definition message_name :: "int \<Rightarrow> pystr res" where
  "message_name t =
     (case message_registry t of
        None \<Rightarrow> Inl KeyError
      | Some c \<Rightarrow> Inr (message_class_name c))"

definition labelled :: "string \<Rightarrow> counter \<Rightarrow> pystr" where
  "labelled label counter = lit label @ decimal (uint counter)"

definition message_line :: "int \<times> counter \<Rightarrow> pystr list res" where
  "message_line entry =
     rbind (message_name (fst entry)) (\<lambda>message_type_name.
     let message_type_name = without_suffix (lit ''Message'') message_type_name in
     Inr [lit ''- '' @ message_type_name @ lit '': '' @ decimal (uint (snd entry))])"

definition Statistics_lines :: "statistics \<Rightarrow> pystr list res" where
  "Statistics_lines s =
     rbind (concat_res message_line (messages_in s)) (\<lambda>incoming.
     rbind (concat_res message_line (messages_out s)) (\<lambda>outgoing.
     Inr ([lit ''Packets'',
           labelled ''- Incoming packets: '' (incoming_packets s),
           labelled ''- Outgoing packets: '' (outgoing_packets s),
           lit ''Errors'',
           labelled ''- Unparsable packets: '' (unparsable_packets s),
           labelled ''- Handling errors: '' (handling_errors s),
           lit ''Special replies'',
           labelled ''- For other server: '' (for_other_server s),
           labelled ''- Do not respond: '' (do_not_respond s),
           labelled ''- Use multicast: '' (use_multicast s),
           labelled ''- Unknown query type: '' (unknown_query_type s),
           labelled ''- Malformed query: '' (malformed_query s),
           labelled ''- Not allowed: '' (not_allowed s),
           labelled ''- Other error: '' (other_error s),
           lit ''Incoming messages'']
          @ incoming @ [lit ''Outgoing messages''] @ outgoing)))"

definition Statistics_str :: "statistics \<Rightarrow> pystr res" where
  "Statistics_str s = rbind (Statistics_lines s) (\<lambda>lines. Inr (join 10 lines))"

text \<open>The lines of one category, indented.\<close>

definition indented_lines :: "statistics \<Rightarrow> pystr list res" where
  "indented_lines s =
     rbind (Statistics_str s) (\<lambda>text.
     Inr (map (\<lambda>line. (if \<not> starts_with (lit ''- '') line then lit ''- '' else lit ''  '') @ line)
       (split_on 10 text)))"

definition get_category_lines ::
  "string \<Rightarrow> ('k :: linorder \<Rightarrow> pystr) \<Rightarrow> ('k \<times> statistics) list \<Rightarrow> pystr list res" where
  "get_category_lines type_name str category_data =
     concat_res (\<lambda>name.
       case map_of category_data name of
         None \<Rightarrow> Inl KeyError
       | Some s \<Rightarrow>
           rbind (indented_lines s) (\<lambda>sub_lines.
           Inr ([[], lit type_name @ 32 # str name] @ sub_lines)))
       (sort (map fst category_data))"

definition ServerStatistics_lines :: "server_statistics \<Rightarrow> pystr list res" where
  "ServerStatistics_lines st =
     rbind (indented_lines (global_stats st)) (\<lambda>global.
     rbind (get_category_lines ''Interface'' id (interface_stats st)) (\<lambda>interfaces.
     rbind (get_category_lines ''Subnet'' network_str (subnet_stats st)) (\<lambda>subnets.
     rbind (get_category_lines ''Relay'' address_str (relay_stats st)) (\<lambda>relays.
     Inr ([lit ''Global''] @ global @ interfaces @ subnets @ relays)))))"

definition ServerStatistics_str :: "server_statistics \<Rightarrow> pystr res" where
  "ServerStatistics_str st = rbind (ServerStatistics_lines st) (\<lambda>lines. Inr (join 10 lines))"

subsection \<open>Export\<close>

text \<open>A nested dictionary: the values of the counters under their names.\<close>

datatype exported = Number_of int | Dict "(pystr \<times> exported) list"

definition dict_set :: "'k \<Rightarrow> 'v \<Rightarrow> ('k \<times> 'v) list \<Rightarrow> ('k \<times> 'v) list" where
  "dict_set k v d =
     (if k \<in> fst ` set d then map (\<lambda>(k', v'). (k', if k' = k then v else v')) d else d @ [(k, v)])"

text \<open>A loop that enters the items of a dictionary one by one.\<close>

definition dict_of ::
  "('a \<Rightarrow> (pystr \<times> exported) res) \<Rightarrow> 'a list \<Rightarrow> exported res" where
  "dict_of item xs =
     rbind (run_steps (\<lambda>x d. rbind (item x) (\<lambda>(k, v). Inr (dict_set k v d))) xs []) (\<lambda>d. Inr (Dict d))"

definition message_item :: "int \<times> counter \<Rightarrow> (pystr \<times> exported) res" where
  "message_item entry =
     rbind (message_name (fst entry)) (\<lambda>message_type_name.
     Inr (without_suffix (lit ''_message'') (camelcase_to_underscore message_type_name),
          Number_of (uint (snd entry))))"

definition Statistics_export :: "statistics \<Rightarrow> exported res" where
  "Statistics_export s =
     rbind (dict_of message_item (messages_in s)) (\<lambda>incoming.
     rbind (dict_of message_item (messages_out s)) (\<lambda>outgoing.
     Inr (Dict
       [(lit ''incoming_packets'', Number_of (uint (incoming_packets s))),
        (lit ''outgoing_packets'', Number_of (uint (outgoing_packets s))),
        (lit ''unparsable_packets'', Number_of (uint (unparsable_packets s))),
        (lit ''handling_errors'', Number_of (uint (handling_errors s))),
        (lit ''for_other_server'', Number_of (uint (for_other_server s))),
        (lit ''do_not_respond'', Number_of (uint (do_not_respond s))),
        (lit ''use_multicast'', Number_of (uint (use_multicast s))),
        (lit ''unknown_query_type'', Number_of (uint (unknown_query_type s))),
        (lit ''malformed_query'', Number_of (uint (malformed_query s))),
        (lit ''not_allowed'', Number_of (uint (not_allowed s))),
        (lit ''other_error'', Number_of (uint (other_error s))),
        (lit ''messages_in'', incoming), (lit ''messages_out'', outgoing)])))"

definition get_category_data ::
  "('k :: linorder \<Rightarrow> pystr) \<Rightarrow> ('k \<times> statistics) list \<Rightarrow> exported res" where
  "get_category_data str category_data =
     dict_of (\<lambda>name.
       case map_of category_data name of
         None \<Rightarrow> Inl KeyError
       | Some s \<Rightarrow> rbind (Statistics_export s) (\<lambda>data. Inr (str name, data)))
       (sort (map fst category_data))"

definition ServerStatistics_export :: "server_statistics \<Rightarrow> exported res" where
  "ServerStatistics_export st =
     rbind (Statistics_export (global_stats st)) (\<lambda>global.
     rbind (get_category_data id (interface_stats st)) (\<lambda>interfaces.
     rbind (get_category_data network_str (subnet_stats st)) (\<lambda>subnets.
     rbind (get_category_data address_str (relay_stats st)) (\<lambda>relays.
     Inr (Dict [(lit ''global'', global), (lit ''interfaces'', interfaces), (lit ''subnets'', subnets),
       (lit ''relays'', relays)])))))"

subsection \<open>What the text consists of\<close>

lemma split_on_single: "c \<notin> set l \<Longrightarrow> split_on c l = [l]"
  by (induction l) auto

lemma split_on_append: "c \<notin> set l \<Longrightarrow> split_on c (l @ c # s) = l # split_on c s"
  by (induction l) auto

lemma split_on_join:
  "ls \<noteq> [] \<Longrightarrow> \<forall>l \<in> set ls. c \<notin> set l \<Longrightarrow> split_on c (join c ls) = ls"
  by (induction c ls rule: join.induct) (auto simp: split_on_single split_on_append)

lemma concat_res_ascii: "\<forall>c \<in> set s. c < 128 \<Longrightarrow> concat_res utf8_char s = Inr s"
  by (induction s) simp_all

lemma utf8_encode_ascii: "list_all (\<lambda>c. c < 128) s \<Longrightarrow> utf8_encode s = Inr (map of_nat s)"
  by (simp add: utf8_encode_def concat_res_ascii list_all_iff)

text \<open>Lines that a program can print, and that the control client does not take for the end of an answer.\<close>

definition harmless :: "pystr \<Rightarrow> bool" where
  "harmless l \<longleftrightarrow> 10 \<notin> set l \<and> (l = [] \<or> hd l \<notin> {79, 85})"

lemma harmless_answer:
  "harmless l \<Longrightarrow> 10 \<notin> set l \<and> l \<noteq> lit ''UNKNOWN'' \<and> l \<noteq> lit ''OK'' \<and> \<not> starts_with (lit ''OK:'') l"
  by (cases l) (auto simp: harmless_def lit_def starts_with_def)

lemma decimal_no_newline [simp]: "10 \<notin> set (decimal i)"
  using decimal_chars [of 10 i] by auto

lemma without_suffix_subset: "set (without_suffix suffix name) \<subseteq> set name"
  by (auto simp: without_suffix_def dest: in_set_takeD)

lemma message_class_name_no_newline: "10 \<notin> set (message_class_name c)"
  by (cases c rule: message_class_name.cases) (simp_all add: lit_def)

lemma message_line_no_newline: "message_line entry = Inr ls \<Longrightarrow> \<forall>l \<in> set ls. 10 \<notin> set l"
  using without_suffix_subset [of "lit ''Message''"] message_class_name_no_newline
  by (fastforce simp: message_line_def message_name_def Let_def lit_def split: option.splits)

lemma concat_res_all:
  assumes "concat_res f xs = Inr ys" and "\<And>x ls. x \<in> set xs \<Longrightarrow> f x = Inr ls \<Longrightarrow> \<forall>l \<in> set ls. P l"
  shows "\<forall>l \<in> set ys. P l"
  using assms
proof (induction xs arbitrary: ys)
  case (Cons x xs)
  then obtain a b where ab: "f x = Inr a" "concat_res f xs = Inr b" "ys = a @ b"
    by (auto elim!: rbind_InrE)
  moreover have "\<forall>l \<in> set a. P l" using Cons.prems(2) [OF _ ab(1)] by simp
  moreover have "\<forall>l \<in> set b. P l" using Cons.IH [OF ab(2)] Cons.prems(2) by (meson list.set_intros(2))
  ultimately show ?case by auto
qed simp

lemma Statistics_lines_no_newline:
  assumes "Statistics_lines s = Inr ls"
  shows "ls \<noteq> [] \<and> (\<forall>l \<in> set ls. 10 \<notin> set l)"
proof -
  obtain incoming outgoing where m: "concat_res message_line (messages_in s) = Inr incoming"
      "concat_res message_line (messages_out s) = Inr outgoing"
    using assms by (auto simp: Statistics_lines_def elim!: rbind_InrE)
  have "\<forall>l \<in> set incoming. 10 \<notin> set l" "\<forall>l \<in> set outgoing. 10 \<notin> set l"
    using concat_res_all [OF m(1), of "\<lambda>l. 10 \<notin> set l"] concat_res_all [OF m(2), of "\<lambda>l. 10 \<notin> set l"]
      message_line_no_newline by blast+
  then show ?thesis
    using assms by (auto simp: Statistics_lines_def m labelled_def lit_def)
qed

lemma indented_lines_harmless:
  assumes "indented_lines s = Inr ls"
  shows "\<forall>l \<in> set ls. harmless l"
proof -
  obtain ts where ts: "Statistics_lines s = Inr ts"
    and ls: "ls = map (\<lambda>line. (if \<not> starts_with (lit ''- '') line then lit ''- '' else lit ''  '') @ line)
       (split_on 10 (join 10 ts))"
    using assms by (auto simp: indented_lines_def Statistics_str_def elim!: rbind_InrE)
  moreover have "split_on 10 (join 10 ts) = ts"
    using Statistics_lines_no_newline [OF ts] by (simp add: split_on_join)
  ultimately show ?thesis
    using Statistics_lines_no_newline [OF ts] by (auto simp: harmless_def lit_def)
qed

lemma category_lines_harmless:
  assumes "get_category_lines type_name str category_data = Inr ls"
    and "\<forall>k \<in> fst ` set category_data. 10 \<notin> set (str k)"
    and "type_name \<noteq> []" and "harmless (lit type_name)"
  shows "\<forall>l \<in> set ls. harmless l"
  using assms(1) unfolding get_category_lines_def
proof (rule concat_res_all)
  fix name ls'
  assume name: "name \<in> set (sort (map fst category_data))"
    and "(case map_of category_data name of None \<Rightarrow> Inl KeyError
        | Some s \<Rightarrow> rbind (indented_lines s) (\<lambda>sub_lines. Inr ([[], lit type_name @ 32 # str name] @ sub_lines)))
        = Inr ls'"
  then obtain s sub where "indented_lines s = Inr sub" "ls' = [[], lit type_name @ 32 # str name] @ sub"
    by (auto split: option.splits elim!: rbind_InrE)
  moreover have "harmless []" "harmless (lit type_name @ 32 # str name)"
    using assms(2-4) name by (auto simp: harmless_def lit_def)
  ultimately show "\<forall>l \<in> set ls'. harmless l"
    using indented_lines_harmless by auto
qed

lemma hex_group_no_newline: "10 \<notin> set (hex_group n)"
  by (auto simp: hex_group_def hex_digit_def)

lemma join_subset: "set (join c xs) \<subseteq> insert c (\<Union> (set ` set xs))"
  by (induction c xs rule: join.induct) auto

lemma address_str_no_newline: "10 \<notin> set (address_str a)"
proof -
  have "set (compress_hextets hs) \<subseteq> insert [] (set hs)" for hs
    by (auto simp: compress_hextets_def Let_def split: prod.splits if_splits dest: in_set_takeD in_set_dropD)
  then have "set (compress_hextets (groups_of a)) \<subseteq> insert [] (set (groups_of a))" .
  moreover have "\<forall>g \<in> set (groups_of a). 10 \<notin> set g"
    using hex_group_no_newline by (auto simp: groups_of_def)
  ultimately show ?thesis
    using join_subset [of 58 "compress_hextets (groups_of a)"] by (fastforce simp: address_str_def)
qed

lemma network_str_no_newline: "10 \<notin> set (network_str n)"
  by (simp add: network_str_def address_str_no_newline)

lemma statistics_text_harmless:
  assumes "ServerStatistics_lines st = Inr lines"
    and "\<forall>name \<in> fst ` set (interface_stats st). 10 \<notin> set name"
  shows "lines \<noteq> [] \<and> (\<forall>l \<in> set lines. harmless l)"
proof -
  obtain global interfaces subnets relays where
    g: "indented_lines (global_stats st) = Inr global"
    and i: "get_category_lines ''Interface'' id (interface_stats st) = Inr interfaces"
    and s: "get_category_lines ''Subnet'' network_str (subnet_stats st) = Inr subnets"
    and r: "get_category_lines ''Relay'' address_str (relay_stats st) = Inr relays"
    and lines: "lines = [lit ''Global''] @ global @ interfaces @ subnets @ relays"
    using assms(1) by (auto simp: ServerStatistics_lines_def elim!: rbind_InrE)
  have "harmless (lit ''Global'')" "harmless (lit ''Interface'')" "harmless (lit ''Subnet'')" "harmless (lit ''Relay'')"
    by (simp_all add: harmless_def lit_def)
  then show ?thesis
    using indented_lines_harmless [OF g] category_lines_harmless [OF i] category_lines_harmless [OF s]
      category_lines_harmless [OF r] assms(2) address_str_no_newline network_str_no_newline
    unfolding lines by auto
qed

end
