(* ===== verification/LoopProperties.thy ===== *)
theory LoopProperties
  imports LoopLaws ControlClient StatisticsText
begin

text \<open>
  Properties of the main process: its control socket, its loop, and when it stops.
\<close>

text \<open>
  However the network cuts the stream of a control connection into pieces, the lines on
  it give their commands in order, each once; what follows the last newline waits in the buffer.
\<close>

lemma commands_survive_any_pieces:
  assumes "conn_buffer c = []" and "[] \<notin> set pieces"
    and "concat pieces = concat (map (\<lambda>line. line @ [10]) lines) @ rest"
    and "\<forall>line \<in> set lines. 10 \<notin> set line" and "10 \<notin> set rest"
  shows "fst (receive_commands pieces now c) = map Some (concat (map line_command lines)) \<and>
    conn_buffer (snd (receive_commands pieces now c)) = rest"
  using receive_commands_stream [of pieces c now] buffer_commands_lines [of lines] assms
  by (simp_all add: buffer_commands_append)

definition example_connection :: control_connection where
  "example_connection =
     \<lparr>conn_buffer = [], conn_last_activity = 0, conn_closed = False, conn_sends = [], conn_sent = []\<rparr>"

text \<open>File descriptors, different for different objects.\<close>

definition example_descriptors :: "fileobj \<Rightarrow> nat" where
  "example_descriptors f =
     (case f of SignalPipe \<Rightarrow> 3 | ControlSocketObj n \<Rightarrow> 100 + n | ListenerObj n \<Rightarrow> 200 + n
      | CreatorObj n \<Rightarrow> 300 + n | ConnectionObj n \<Rightarrow> 400 + n)"

definition example_state :: loop_state where
  "example_state = (start_state \<lparr>exception_window = 1, max_exceptions = 2\<rparr> 65536 example_descriptors)
     \<lparr>running := True, stopping := True, registered := [SignalPipe, ConnectionObj 7],
       connections := [7 \<mapsto> example_connection]\<rparr>"

lemma commands_survive_any_pieces_witness:
  "fst (receive_commands [[72, 101], [108, 80, 10, 10, 255, 10, 113], [117, 105, 116, 10, 120]] 1 example_connection)
     = [Some (lit ''help''), Some (lit ''quit'')] \<and>
   conn_buffer (snd (receive_commands [[72, 101], [108, 80, 10, 10, 255, 10, 113], [117, 105, 116, 10, 120]] 1
     example_connection)) = [120]"
proof -
  have "map Some (concat (map line_command [[72, 101, 108, 80], [], [255], [113, 117, 105, 116]]))
      = [Some (lit ''help''), Some (lit ''quit'')]"
    by code_simp
  then show ?thesis
    using commands_survive_any_pieces [of example_connection
        "[[72, 101], [108, 80, 10, 10, 255, 10, 113], [117, 105, 116, 10, 120]]"
        "[[72, 101, 108, 80], [], [255], [113, 117, 105, 116]]" "[120]" 1]
    by (simp add: example_connection_def)
qed

subsection \<open>The control client and the server\<close>

definition greeting :: bytes where
  "greeting = map of_char ''DHCPKit DHCPv6 Server 1.0.8b1''"

definition ok_line :: bytes where
  "ok_line = map of_char ''OK'' @ [10]"

lemma control_octets:
  "utf8_encode (lit ''DHCPKit DHCPv6 Server '' @ version) = Inr greeting" "10 \<notin> set greeting"
  "starts_with (lit ''DHCPKit '') (lit ''DHCPKit DHCPv6 Server '' @ version)"
  "10 \<notin> set (map of_char ''stats'' :: bytes)" "line_command (map of_char ''stats'') = [lit ''stats'']"
  "10 \<notin> set (map of_char ''quit'' :: bytes)" "line_command (map of_char ''quit'') = [lit ''quit'']"
  "utf8_encode (lit ''stats'') = Inr (map of_char ''stats'')" "utf8_encode (lit ''quit'') = Inr (map of_char ''quit'')"
  unfolding greeting_def by code_simp+

text \<open>What the server does with the two commands of the client.\<close>

lemma server_answers_stats:
  assumes "ControlConnection sends now = (True, c)" and "connections s i = Some c"
    and "ConnectionObj i \<in> set (registered s)" and "utf8_encode stats = Inr bs"
    and "whole_sends (max 30 (length bs + 1)) sends"
  shows "\<exists>c'. conn_closed c' \<and> conn_sent c' = greeting @ 10 # bs @ 10 # ok_line @ ok_line \<and>
    handle_events
      [ConnectionReady i (RecvData (map of_char ''stats'' @ [10])) t1 stats json,
       ConnectionReady i (RecvData (map of_char ''quit'' @ [10])) t2 stats2 json2] s
    = (Proceed, s\<lparr>connections := (connections s)(i \<mapsto> c'),
        registered := remove1 (ConnectionObj i) (registered s)\<rparr>)"
proof -
  let ?n = "max 30 (length bs + 1)"
  have "length greeting < ?n" by (simp add: greeting_def)
  then have "conn_send (lit ''DHCPKit DHCPv6 Server '' @ version)
       \<lparr>conn_buffer = [], conn_last_activity = now, conn_closed = False, conn_sends = sends, conn_sent = []\<rparr>
     = (True, \<lparr>conn_buffer = [], conn_last_activity = now, conn_closed = False, conn_sends = tl sends,
          conn_sent = greeting @ [10]\<rparr>)"
    using conn_send_whole [OF _ _ control_octets(1), of ?n "\<lparr>conn_buffer = [], conn_last_activity = now,
        conn_closed = False, conn_sends = sends, conn_sent = []\<rparr>"] assms(5) by simp
  then have c: "conn_buffer c = [] \<and> \<not> conn_closed c \<and> conn_sent c = greeting @ [10]"
    and whole: "whole_sends ?n (conn_sends c)"
    using assms(1,5) by (auto simp: ControlConnection_def)
  define c1 where "c1 = c\<lparr>conn_last_activity := t1, conn_sends := tl (tl (conn_sends c)),
    conn_sent := conn_sent c @ bs @ [10] @ ok_line\<rparr>"
  define s1 where "s1 = s\<lparr>connections := (connections s)(i \<mapsto> c1)\<rparr>"
  have "handle_event (ConnectionReady i (RecvData (map of_char ''stats'' @ [10])) t1 stats json) s = (Proceed, s1)"
    using stats_command [OF assms(2) _ _ whole, of bs "map of_char ''stats''" stats t1 json] c control_octets assms(4)
    by (simp add: s1_def c1_def ok_line_def)
  moreover have "handle_event (ConnectionReady i (RecvData (map of_char ''quit'' @ [10])) t2 stats2 json2) s1 =
      (Proceed, s\<lparr>connections := (connections s)(i \<mapsto>
           c1\<lparr>conn_last_activity := t2, conn_sends := tl (conn_sends c1),
             conn_sent := conn_sent c1 @ ok_line, conn_closed := True\<rparr>),
         registered := remove1 (ConnectionObj i) (registered s)\<rparr>)"
    using quit_command [of s1 i c1 ?n "map of_char ''quit''" t2 stats2 json2] c whole control_octets assms(3)
    by (simp add: s1_def c1_def ok_line_def)
  ultimately show ?thesis
    using c by (intro exI [of _ "c1\<lparr>conn_last_activity := t2, conn_sends := tl (conn_sends c1),
        conn_sent := conn_sent c1 @ ok_line, conn_closed := True\<rparr>"])
      (simp add: c1_def)
qed

text \<open>What the client makes of the answers.\<close>

lemma client_prints_lines:
  assumes "utf8_encode (join 10 lines) = Inr bs" and "lines \<noteq> []"
    and "\<forall>l \<in> set lines. 10 \<notin> set l \<and> l \<noteq> lit ''UNKNOWN'' \<and> l \<noteq> lit ''OK'' \<and> \<not> starts_with (lit ''OK:'') l"
    and "concat pieces = greeting @ 10 # bs @ 10 # ok_line @ ok_line" and "[] \<notin> set pieces"
  shows "dhcpctl (lit ''stats'')
      \<lparr>client_open = True, client_buffer = [], client_incoming = map RecvData pieces, client_sends = [],
        client_sent = []\<rparr>
    = (lines, 0, map of_char ''stats'' @ [10] @ map of_char ''quit'' @ [10])"
proof -
  obtain ls where ls: "bs @ [10] = concat (map (\<lambda>l. l @ [10]) ls)" "\<forall>l \<in> set ls. 10 \<notin> set l"
    "list_all2 (\<lambda>l s. utf8_decode l = Inr s) ls lines"
    using utf8_lines [OF assms(1,2)] assms(3) by blast
  define answer where "answer = concat (map (\<lambda>l. l @ [10]) ls) @ ok_line @ ok_line"
  have "bs @ 10 # r = concat (map (\<lambda>l. l @ [10]) ls) @ r" for r
    using arg_cong [OF ls(1), of "\<lambda>x. x @ r"] by simp
  then have stream: "concat pieces = greeting @ 10 # answer" by (simp add: assms(4) answer_def)
  define d0 where "d0 = \<lparr>client_open = True, client_buffer = [], client_incoming = map RecvData pieces,
    client_sends = [], client_sent = []\<rparr>"
  have "receives (greeting @ 10 # answer) d0"
    using assms(5) stream by (auto simp: receives_def d0_def)
  then obtain d1 where d1: "receive_line False d0 = (decode_line greeting, d1)" "receives answer d1"
    "client_sends d1 = []" "client_sent d1 = []"
    using receive_line_stream [OF _ control_octets(2), of answer d0 False] by (auto simp: d0_def)
  define d2 where "d2 = d1\<lparr>client_sent := map of_char ''stats'' @ [10]\<rparr>"
  have send1: "send_command (lit ''stats'') False d1 = (None, d2)"
    using d1 control_octets(8) by (simp add: send_command_def d2_def receives_def)
  obtain d3 where d3: "read_output False d2 = (lines, None, d3)" "receives ok_line d3"
    "client_sends d3 = []" "client_sent d3 = map of_char ''stats'' @ [10]"
    using read_output_lines [of ls ok_line d2 lines False] d1 ls(2,3) assms(3)
    by (auto simp: d2_def receives_def answer_def ok_line_def)
  define d4 where "d4 = d3\<lparr>client_sent := map of_char ''stats'' @ [10] @ map of_char ''quit'' @ [10]\<rparr>"
  have send2: "send_command (lit ''quit'') True d3 = (None, d4)"
    using d3 control_octets(9) by (simp add: send_command_def d4_def receives_def)
  obtain d5 where d5: "read_output True d4 = ([], None, d5)" "client_sent d5 = client_sent d4"
    using read_output_lines [of "[]" "[]" d4 "[]" True] d3(2) by (auto simp: d4_def receives_def ok_line_def)
  have "decode_line greeting = Inr (Some (lit ''DHCPKit DHCPv6 Server '' @ version))"
    using utf8_decode_encode [OF control_octets(1)] by (simp add: decode_line_def)
  then show ?thesis
    using d1(1) send1 d3(1) send2 d5 control_octets(3)
    by (simp add: dhcpctl_def execute_command_def d4_def flip: d0_def)
qed

text \<open>
  C16. The control client and the server together: when the server has handled the octets that
  \<open>dhcpctl stats\<close> sends, the client, to which the network brings the answers in any pieces, prints exactly the
  lines of the statistics and ends with exit code 0, and the server has closed the connection; this for
  any counters, and any categories of which the interfaces have no newline in their names, as long as every
  \<open>send\<close> on the connection takes the whole text that it is given (the server never sends a rest again:
  lemma \<open>partial_send_loses_rest\<close>).
\<close>

theorem dhcpctl_prints_statistics:
  assumes "ServerStatistics_lines st = Inr lines" and "ServerStatistics_str st = Inr stats"
    and "\<forall>name \<in> fst ` set (interface_stats st). 10 \<notin> set name" and "utf8_encode stats = Inr bs"
    and "\<forall>r \<in> set sends. \<exists>n. r = Accepted n \<and> length bs < n \<and> 30 \<le> n"
    and "ControlConnection sends now = (True, c)" and "connections s i = Some c"
    and "ConnectionObj i \<in> set (registered s)"
    and "handle_events
      [ConnectionReady i (RecvData (map of_char ''stats'' @ [10])) t1 stats json,
       ConnectionReady i (RecvData (map of_char ''quit'' @ [10])) t2 stats2 json2] s = (how, s')"
  shows "how = Proceed \<and> registered s' = remove1 (ConnectionObj i) (registered s) \<and>
    (\<exists>c'. connections s' i = Some c' \<and> conn_closed c' \<and>
       (\<forall>pieces. concat pieces = conn_sent c' \<longrightarrow> [] \<notin> set pieces \<longrightarrow>
          dhcpctl (lit ''stats'')
            \<lparr>client_open = True, client_buffer = [], client_incoming = map RecvData pieces, client_sends = [],
              client_sent = []\<rparr>
            = (lines, 0, map of_char ''stats'' @ [10] @ map of_char ''quit'' @ [10])))"
proof -
  have whole: "whole_sends (max 30 (length bs + 1)) sends"
    using assms(5) by (fastforce simp: whole_sends_def)
  have "stats = join 10 lines" using assms(1,2) by (simp add: ServerStatistics_str_def)
  moreover note statistics_text_harmless [OF assms(1,3)]
  ultimately show ?thesis
    using server_answers_stats [OF assms(6-8,4) whole, of t1 json t2 stats2 json2] assms(4,9)
      client_prints_lines [of lines bs] harmless_answer by fastforce
qed

definition ex_statistics :: server_statistics where
  "ex_statistics =
     \<lparr>global_stats =
        \<lparr>incoming_packets = 1, outgoing_packets = 0, unparsable_packets = 0, handling_errors = 0,
          for_other_server = 0, do_not_respond = 0, use_multicast = 0, unknown_query_type = 0,
          malformed_query = 0, not_allowed = 0, other_error = 0, messages_in = [(1, 1)], messages_out = []\<rparr>,
       interface_stats = [], subnet_stats = [], relay_stats = []\<rparr>"

lemma ex_statistics_lines: "ServerStatistics_lines ex_statistics = Inr (projr (ServerStatistics_lines ex_statistics))"
  by code_simp

lemma ex_statistics_ascii: "list_all (\<lambda>c. c < 128) (projr (ServerStatistics_str ex_statistics))"
  by code_simp

theorem dhcpctl_prints_statistics_witness:
  "\<exists>lines pieces. ServerStatistics_lines ex_statistics = Inr lines \<and>
    dhcpctl (lit ''stats'')
      \<lparr>client_open = True, client_buffer = [], client_incoming = map RecvData pieces, client_sends = [],
        client_sent = []\<rparr>
    = (lines, 0, map of_char ''stats'' @ [10] @ map of_char ''quit'' @ [10])"
proof -
  obtain bs where bs: "utf8_encode (projr (ServerStatistics_str ex_statistics)) = Inr bs"
    using utf8_encode_ascii [OF ex_statistics_ascii] by blast
  define sends where "sends = [Accepted (length bs + 30), Accepted (length bs + 40)]"
  define c where "c = snd (ControlConnection sends 0)"
  define s where "s = example_state\<lparr>connections := [7 \<mapsto> c]\<rparr>"
  have c: "ControlConnection sends 0 = (True, c)"
    by (simp add: c_def sends_def ControlConnection_def conn_send_def sock_send_def control_octets)
  have s: "connections s 7 = Some c" "ConnectionObj 7 \<in> set (registered s)"
    by (simp_all add: s_def example_state_def)
  obtain lines where lines: "ServerStatistics_lines ex_statistics = Inr lines"
    using ex_statistics_lines by blast
  then have str: "ServerStatistics_str ex_statistics = Inr (join 10 lines)"
    by (simp add: ServerStatistics_str_def)
  with bs have bs: "utf8_encode (join 10 lines) = Inr bs" by simp
  have sends: "\<forall>r \<in> set sends. \<exists>n. r = Accepted n \<and> length bs < n \<and> 30 \<le> n" by (simp add: sends_def)
  obtain how s' where run: "handle_events
      [ConnectionReady 7 (RecvData (map of_char ''stats'' @ [10])) 1 (join 10 lines) [],
       ConnectionReady 7 (RecvData (map of_char ''quit'' @ [10])) 2 [] []] s = (how, s')"
    by fastforce
  have "\<exists>pieces. concat pieces = bs \<and> [] \<notin> set pieces" for bs :: bytes
    by (intro exI [of _ "map (\<lambda>b. [b]) bs"]) (induction bs; auto)
  then show ?thesis
    using dhcpctl_prints_statistics [OF lines str _ bs sends c s run] lines by (fastforce simp: ex_statistics_def)
qed

text \<open>
  C23. The command \<open>shutdown\<close>, in any case of letters, is acknowledged, its connection is closed and
  forgotten; and when the signal that it sends is read, the server stops with exit code 0, whatever else
  has become ready by then.
\<close>

theorem shutdown_command_stops_server:
  assumes "s' = serve
      ((Some [ConnectionReady i (RecvData (line @ [10])) now stats json], t1)
       # (Some (SignalReady load # events), t2) # turns) s"
    and "running s" and "connections s i = Some c" and "conn_buffer c = []" and "\<not> conn_closed c"
    and "conn_sends c = []" and "ConnectionObj i \<in> set (registered s)"
    and "signal_pipe s = []" and "0 < pipe_size s"
    and "10 \<notin> set line" and "line_command line = [lit ''shutdown'']"
  shows "\<not> running s' \<and> main_loop rounds s' = Exit 0 s' \<and> dispatched s' = dispatched s \<and>
    registered s' = remove1 (ConnectionObj i) (registered s) \<and>
    connections s' i = Some (c\<lparr>conn_last_activity := now, conn_closed := True,
      conn_sent := conn_sent c @ map of_char ''OK: Shutting down'' @ [10]\<rparr>)"
proof -
  define d where "d = c\<lparr>conn_last_activity := now\<rparr>"
  define s1 where "s1 = s\<lparr>count_exception := False, connections := (connections s)(i \<mapsto> d)\<rparr>"
  have "get_commands (RecvData (line @ [10])) now c = (Some [Some (lit ''shutdown'')], d)"
    using assms buffer_commands_line [of line "[]"]
    by (cases c) (simp add: get_commands_def Let_def d_def)
  moreover note shutdown_command [of s1 i d stats json]
  ultimately have "take_turn (Some [ConnectionReady i (RecvData (line @ [10])) now stats json], t1) s =
      s1\<lparr>connections := (connections s1)(i \<mapsto>
           d\<lparr>conn_sent := conn_sent d @ map of_char ''OK: Shutting down'' @ [10], conn_closed := True\<rparr>),
         registered := remove1 (ConnectionObj i) (registered s1), signal_pipe := [SIGTERM]\<rparr>"
    using assms by (simp add: take_turn_def handle_event_def s1_def d_def)
  then show ?thesis
    using assms(1,2)
    by (simp add: termination_turn serve_stopped main_loop.simps s1_def d_def)
qed

theorem shutdown_command_stops_server_witness:
  "\<not> running (serve
      [(Some [ConnectionReady 7 (RecvData (map of_char ''ShutDown'' @ [10])) 5 [] []], 5),
       (Some [SignalReady WrongConfig], 6)] example_state)"
proof -
  have "line_command (map of_char ''ShutDown'') = [lit ''shutdown'']" by code_simp
  then show ?thesis
    using shutdown_command_stops_server [OF refl, of example_state 7 example_connection "map of_char ''ShutDown''"
        5 "[]" "[]" 5 WrongConfig "[]" 6 "[]" "[]"]
    by (simp add: example_state_def start_state_def example_connection_def)
qed



text \<open>
  C20. In every state that the loop reaches, over any events on what the selector watches and any number of
  reloads, no file descriptor is registered twice, the registered listeners are exactly those of the list, a
  registered control connection is open, and the signal pipe is watched.  So a listener that closes is forgotten in
  both places without an exception.  A reload fails on the selector exactly if two of the new listeners
  have one descriptor, as when two sections of the configuration take over the same socket; then the
  server ends with exit code 1.
\<close>

theorem selector_matches_listeners:
  assumes "loop_reach s"
  shows "distinct (map (fileno s) (registered s)) \<and> SignalPipe \<in> set (registered s) \<and>
    {f \<in> set (registered s). is_listener f} = set (listeners s) \<and>
    (\<forall>i. ConnectionObj i \<in> set (registered s) \<longrightarrow> (\<exists>c. connections s i = Some c \<and> \<not> conn_closed c)) \<and>
    (\<forall>i. ListenerObj i \<in> set (registered s) \<longrightarrow>
       handle_event (ListenerReady i PeerClosed) s =
         (Proceed, s\<lparr>registered := remove1 (ListenerObj i) (registered s),
            listeners := remove1 (ListenerObj i) (listeners s)\<rparr>)) \<and>
    (\<forall>u ls. surroundings_ok s u \<longrightarrow> new_listeners u = Some ls \<longrightarrow>
       (fst (set_up u s) = Raised \<longleftrightarrow> \<not> distinct (map (fileno s) ls)) \<and>
       (\<not> distinct (map (fileno s) ls) \<longrightarrow> \<not> stopping s \<longrightarrow>
          (\<forall>turns rounds. \<exists>s'. main_loop ((u, turns) # rounds) s = Exit 1 s')))"
proof -
  note ok = loop_reach_registrations [OF assms]
  have raises: "fst (set_up u s) = Raised \<longleftrightarrow> \<not> distinct (map (fileno s) ls)"
    if "surroundings_ok s u" "new_listeners u = Some ls" for u ls
    using set_up_result [OF ok that] by (auto split: if_splits)
  have "\<exists>s'. main_loop ((u, turns) # rounds) s = Exit 1 s'"
    if "surroundings_ok s u" "new_listeners u = Some ls" "\<not> distinct (map (fileno s) ls)" "\<not> stopping s"
    for u ls turns rounds
  proof -
    have "fst (set_up u s) = Raised" using raises that(1-3) by blast
    with that(4) show ?thesis by (cases "set_up u s") (simp add: main_loop.simps)
  qed
  with ok raises closed_listener_result [OF ok] show ?thesis
    unfolding registrations_ok_def by blast
qed

text \<open>A listener and a creator, which have the descriptors 201 and \<open>n\<close>.\<close>

definition example_surroundings :: surroundings where
  "example_surroundings = \<lparr>new_listeners = Some [ListenerObj 1, CreatorObj 2], new_control_socket = Some 5,
     handler_created = True\<rparr>"

definition example_start :: "nat \<Rightarrow> loop_state" where
  "example_start n = start_state \<lparr>exception_window = 1, max_exceptions = 2\<rparr> 65536
     (example_descriptors (CreatorObj 2 := n))"

definition example_running :: loop_state where
  "example_running = snd (set_up example_surroundings (example_start 302))"

lemmas example_loop_defs = example_surroundings_def example_start_def example_running_def start_state_def
  example_descriptors_def

lemma example_surroundings_ok: "n \<notin> {3, 105} \<Longrightarrow> surroundings_ok (example_start n) example_surroundings"
  by (simp add: surroundings_ok_def example_loop_defs)

lemma example_set_up: "set_up example_surroundings (example_start 302) = (Proceed, example_running)"
  by (simp add: set_up_def replace_control_socket_def register_def example_loop_defs
      still_wanted_def is_connection_def)

theorem selector_matches_listeners_witness:
  "distinct (map example_descriptors (registered
     (take_turn (Some [CreatorReady 2 (NewListener 3), ListenerReady 1 PeerClosed], 4) example_running)))
   \<and> (\<exists>s'. main_loop [(example_surroundings, [])] (example_start 201) = Exit 1 s')"
proof
  let ?t = "(Some [CreatorReady 2 (NewListener 3), ListenerReady 1 PeerClosed], 4) :: turn"
  have start: "loop_reach (example_start n)" "\<not> running (example_start n)" "\<not> stopping (example_start n)" for n
    by (simp_all add: example_start_def loop_reach.start) (simp_all add: start_state_def)
  have reach: "loop_reach example_running"
    using loop_reach.set_up [OF start example_surroundings_ok example_set_up] by simp
  have "running example_running \<and> turn_ok ?t example_running"
    using example_set_up by (auto simp: set_up_def replace_control_socket_def register_def example_loop_defs
      still_wanted_def is_connection_def turn_ok_def batch_ok_def event_object_def created_objects_def)
  then have "loop_reach (take_turn ?t example_running)" using loop_reach.turn [OF reach] by blast
  from selector_matches_listeners [OF this]
  have "distinct (map (fileno (take_turn ?t example_running)) (registered (take_turn ?t example_running)))" by blast
  moreover have "fileno (take_turn ?t example_running) = fileno example_running"
    by (simp add: take_turn_def handle_event_def handle_creator_def register_def handle_listener_def
        unregister_def Let_def split: option.split)
  moreover have "fileno example_running = example_descriptors"
    by (rule ext) (simp add: set_up_def replace_control_socket_def register_def example_loop_defs
      still_wanted_def is_connection_def)
  ultimately show "distinct (map example_descriptors (registered (take_turn ?t example_running)))"
    by (simp only:)
  have "new_listeners example_surroundings = Some [ListenerObj 1, CreatorObj 2]"
    "\<not> distinct (map (fileno (example_start 201)) [ListenerObj 1, CreatorObj 2])"
    by (simp_all add: example_loop_defs)
  then show "\<exists>s'. main_loop [(example_surroundings, [])] (example_start 201) = Exit 1 s'"
    using selector_matches_listeners [OF start(1)] example_surroundings_ok [of 201] start(3) by simp
qed

text \<open>
  C31. When an answer cannot be written to a control connection for another reason than a broken pipe
  (say because its peer does not read), the turn counts as one with an exception, and the other events of it
  are left out.
\<close>

theorem unsent_answer_counts_as_exception:
  assumes "connections s i = Some c" and "conn_buffer c = []" and "\<not> conn_closed c"
    and "conn_sends c = SendError # sends" and "utf8_encode stats = Inr text"
    and "10 \<notin> set line" and "line_command line = [lit ''stats'']"
  shows "turn_counts (Some (ConnectionReady i (RecvData (line @ [10])) now stats json # events), t) s \<and>
    snd (turn_events (Some (ConnectionReady i (RecvData (line @ [10])) now stats json # events), t) s)
      = s\<lparr>count_exception := False, connections := (connections s)(i \<mapsto>
            c\<lparr>conn_last_activity := now, conn_sends := sends\<rparr>)\<rparr>"
proof -
  define d where "d = c\<lparr>conn_last_activity := now\<rparr>"
  have "get_commands (RecvData (line @ [10])) now c = (Some [Some (lit ''stats'')], d)"
    using assms buffer_commands_line [of line "[]"]
    by (cases c) (simp add: get_commands_def Let_def d_def)
  moreover have "lit ''stats'' \<noteq> lit ''help''" by code_simp
  ultimately have "turn_events (Some (ConnectionReady i (RecvData (line @ [10])) now stats json # events), t) s
      = (Raised, s\<lparr>count_exception := False, connections := (connections s)(i \<mapsto>
            c\<lparr>conn_last_activity := now, conn_sends := sends\<rparr>)\<rparr>)"
    using assms
    by (simp add: turn_events_def handle_event_def handle_command_def on_connection_def conn_send_def
        sock_send_def d_def)
  then show ?thesis by (simp add: turn_counts_def)
qed

theorem unsent_answer_counts_as_exception_witness:
  "turn_counts (Some [ConnectionReady 7 (RecvData (map of_char ''stats'' @ [10])) 5 [] []], 6)
     (example_state\<lparr>connections := [7 \<mapsto> example_connection\<lparr>conn_sends := [SendError]\<rparr>]\<rparr>)"
proof -
  have "line_command (map of_char ''stats'') = [lit ''stats'']" "utf8_encode [] = Inr []" by code_simp+
  then show ?thesis
    using unsent_answer_counts_as_exception
      [of "example_state\<lparr>connections := [7 \<mapsto> example_connection\<lparr>conn_sends := [SendError]\<rparr>]\<rparr>" 7
        "example_connection\<lparr>conn_sends := [SendError]\<rparr>" "[]" "[]" "[]" "map of_char ''stats''" 5 "[]" "[]" 6]
    by (simp add: example_connection_def)
qed

end
