(* ===== verification/CsvFile.thy ===== *)
theory CsvFile
  imports StaticAssignments Names Complex_Main
begin

text \<open>
  Where static assignments come from: the rows of the CSV file (static_assignments/csv.py) and the
  database that \<open>build_sqlite\<close> makes of them (static_assignments/sqlite.py).  Python's csv module
  splits the file into rows, and its ipaddress module reads addresses and prefixes: the rows and the
  two functions are arguments.
\<close>

subsection \<open>csv.py: one row\<close>

text \<open>
  A column of a row: \<open>csv.DictReader\<close> has no such key when the first line does not name it,
  and gives \<open>None\<close> when the row is too short.
\<close>

datatype csv_field = NoColumn | NoValue | Field pystr

record csv_row =
  id_field :: csv_field
  address_field :: csv_field
  prefix_field :: csv_field

text \<open>\<open>row[...]\<close> and a method of what it gives.\<close>

definition field_text :: "csv_field \<Rightarrow> pystr res" where
  "field_text f =
     (case f of NoColumn \<Rightarrow> Inl KeyError | NoValue \<Rightarrow> Inl AttributeError | Field s \<Rightarrow> Inr s)"

definition optional_value :: "(pystr \<Rightarrow> 'a res) \<Rightarrow> csv_field \<Rightarrow> 'a option res" where
  "optional_value parse f =
     rbind (field_text f) (\<lambda>s.
     let s = strip_space s in
     if s = [] then Inr None else rbind (parse s) (\<lambda>x. Inr (Some x)))"

text \<open>\<open>s.split(':', 1)\<close>, unpacked into two parts.\<close>

definition split_colon :: "pystr \<Rightarrow> (pystr \<times> pystr) res" where
  "split_colon s =
     (case dropWhile (\<lambda>c. c \<noteq> 58) s of
        [] \<Rightarrow> Inl ValueError
      | _ # r \<Rightarrow> Inr (takeWhile (\<lambda>c. c \<noteq> 58) s, r))"

definition hex_value_of :: "pystr \<Rightarrow> bytes res" where
  "hex_value_of s = rbind (normalise_hex (HexText s) False) unhexlify"

text \<open>A number, a colon and octets: what remote ids and link-layer ids consist of.\<close>

definition numbered_id :: "(pystr \<Rightarrow> bytes res) \<Rightarrow> (int \<Rightarrow> bytes \<Rightarrow> pystr) \<Rightarrow> pystr \<Rightarrow> pystr res" where
  "numbered_id octets name_of s =
     rbind (split_colon s) (\<lambda>(number, rest).
     rbind (py_int number) (\<lambda>number.
     rbind (octets rest) (\<lambda>bs. Inr (name_of number bs))))"

text \<open>The identifier of a row, in the form in which it is looked up.\<close>

definition normalise_id :: "pystr \<Rightarrow> pystr res" where
  "normalise_id row_id =
     rbind (split_colon row_id) (\<lambda>(_, value).
     if starts_with (lit ''duid:'') row_id then
       rbind (unhexlify value) (\<lambda>duid_bytes.
       rbind (DUID_parse duid_bytes 0 (Some (length duid_bytes))) (\<lambda>(length, duid). duid_name duid))
     else if starts_with (lit ''interface-id:'') row_id then
       rbind (hex_value_of value) (\<lambda>interface_id. Inr (interface_id_name interface_id))
     else if starts_with (lit ''interface-id-str:'') row_id then
       rbind (ascii_encode value) (\<lambda>interface_id. Inr (interface_id_name interface_id))
     else if starts_with (lit ''remote-id:'') row_id then numbered_id hex_value_of remote_id_name value
     else if starts_with (lit ''remote-id-str:'') row_id then numbered_id ascii_encode remote_id_name value
     else if starts_with (lit ''subscriber-id:'') row_id then
       rbind (hex_value_of value) (\<lambda>subscriber_id. Inr (subscriber_id_name subscriber_id))
     else if starts_with (lit ''subscriber-id-str:'') row_id then
       rbind (ascii_encode value) (\<lambda>subscriber_id. Inr (subscriber_id_name subscriber_id))
     else if starts_with (lit ''linklayer-id:'') row_id then numbered_id hex_value_of linklayer_id_name value
     else if starts_with (lit ''linklayer-id-str:'') row_id then
       numbered_id ascii_encode linklayer_id_name value
     else Inl ValueError)"

text \<open>The functions of the ipaddress module.\<close>

record address_text =
  parse_address :: "pystr \<Rightarrow> ipv6 res"
  parse_network :: "pystr \<Rightarrow> ipv6_network res"

definition parse_row :: "address_text \<Rightarrow> csv_row \<Rightarrow> (pystr \<times> assignment) res" where
  "parse_row lib row =
     rbind (optional_value (parse_address lib) (address_field row)) (\<lambda>address.
     rbind (optional_value (parse_network lib) (prefix_field row)) (\<lambda>prefix.
     rbind (field_text (id_field row)) (\<lambda>row_id.
     rbind (normalise_id row_id) (\<lambda>row_id.
     Inr (row_id, \<lparr>assigned_address = address, assigned_prefix = prefix\<rparr>)))))"

text \<open>
  What becomes of a row: it gives an assignment, or is skipped with a message in the log, or ends
  the generator with an exception (the \<open>ValueError\<close> for a missing column is raised in a handler of
  the same \<open>try\<close>, so it is not caught there).
\<close>

datatype row_result = Gives pystr assignment | Skipped | Ends py_error

definition result_of :: "address_text \<Rightarrow> csv_row \<Rightarrow> row_result" where
  "result_of lib row =
     (case parse_row lib row of
        Inr (k, a) \<Rightarrow> Gives k a
      | Inl e \<Rightarrow>
          if e = KeyError then Ends ValueError else if e = ValueError then Skipped else Ends e)"

fun parse_csv_file :: "address_text \<Rightarrow> csv_row list \<Rightarrow> (pystr \<times> assignment) list res" where
  "parse_csv_file lib [] = Inr []"
| "parse_csv_file lib (row # rows) =
     (case result_of lib row of
        Gives k a \<Rightarrow> rbind (parse_csv_file lib rows) (\<lambda>rest. Inr ((k, a) # rest))
      | Skipped \<Rightarrow> parse_csv_file lib rows
      | Ends e \<Rightarrow> Inl e)"

text \<open>\<open>dict(...)\<close> of the pairs: a later one replaces an earlier one.\<close>

definition read_csv_file :: "address_text \<Rightarrow> csv_row list \<Rightarrow> assignment_table res" where
  "read_csv_file lib rows = rbind (parse_csv_file lib rows) (\<lambda>pairs. Inr (map_of (rev pairs)))"

subsection \<open>sqlite.py: building the database\<close>

text \<open>
  The rows of the table, by their primary key: the assignment (its address and prefix in text) and
  the modification time of the file that it comes from.
\<close>

type_synonym assignment_rows = "(pystr \<times> assignment \<times> int) list"

definition insert_or_replace :: "pystr \<Rightarrow> assignment \<times> int \<Rightarrow> assignment_rows \<Rightarrow> assignment_rows" where
  "insert_or_replace k v rows = filter (\<lambda>r. fst r \<noteq> k) rows @ [(k, v)]"

definition newer_update :: "int \<Rightarrow> assignment_rows \<Rightarrow> bool" where
  "newer_update csv_mtime rows \<longleftrightarrow>
     rows \<noteq> [] \<and> (let m = Max (set (map (snd \<circ> snd) rows)) in m \<noteq> 0 \<and> m > csv_mtime)"

text \<open>
  The loop over the assignments, as no other process writes to the database: a transaction for each
  fifty of them.  \<open>committed\<close> is what stays if the rest is not committed; the result is the exit code
  or exception of a failure, with what stays, or the table after the last commit.
\<close>

datatype build_result =
    Filled assignment_rows
  | BuildExit int assignment_rows
  | BuildRaises py_error assignment_rows

fun fill_table ::
  "address_text \<Rightarrow> int \<Rightarrow> csv_row list \<Rightarrow> nat \<Rightarrow> assignment_rows \<Rightarrow> assignment_rows \<Rightarrow> build_result" where
  "fill_table lib csv_mtime [] executed_in_transaction committed rows = Filled rows"
| "fill_table lib csv_mtime (row # later) executed_in_transaction committed rows =
     (case result_of lib row of
        Skipped \<Rightarrow> fill_table lib csv_mtime later executed_in_transaction committed rows
      | Ends e \<Rightarrow> if e = ValueError then BuildExit 1 committed else BuildRaises e committed
      | Gives key value \<Rightarrow>
          if executed_in_transaction = 0 \<and> newer_update csv_mtime rows then BuildExit 1 committed
          else
            (let rows = insert_or_replace key (value, csv_mtime) rows;
                 executed_in_transaction = executed_in_transaction + 1
             in if executed_in_transaction \<ge> 50 then fill_table lib csv_mtime later 0 rows rows
                else fill_table lib csv_mtime later executed_in_transaction committed rows))"

text \<open>
  \<open>build_sqlite\<close>, its exit code and the table it leaves: old entries are removed unless that would be
  more than 30\% of them and it is not forced.
\<close>

definition build_sqlite ::
  "address_text \<Rightarrow> int \<Rightarrow> bool \<Rightarrow> csv_row list \<Rightarrow> assignment_rows \<Rightarrow> (py_error + int) \<times> assignment_rows" where
  "build_sqlite lib csv_mtime force csv_rows table =
     (case fill_table lib csv_mtime csv_rows 0 table table of
        BuildExit code rows \<Rightarrow> (Inr code, rows)
      | BuildRaises e rows \<Rightarrow> (Inl e, rows)
      | Filled rows \<Rightarrow>
          (let total_count = length rows;
               updated_count = length (filter (\<lambda>r. snd (snd r) = csv_mtime) rows);
               do_delete = (if rat_of_nat updated_count < rat_of_nat total_count * (7 / 10) then force else True)
           in if do_delete then (Inr 0, filter (\<lambda>r. \<not> snd (snd r) < csv_mtime) rows)
              else (Inr 2, rows)))"

text \<open>What the handler finds in the table.\<close>

definition stored_assignments :: "assignment_rows \<Rightarrow> assignment_table" where
  "stored_assignments rows k = map_option fst (map_of rows k)"

end
