(* ===== verification/CsvLaws.thy ===== *)
theory CsvLaws
  imports CsvFile
begin

text \<open>
  Laws of Names and CsvFile: texts of octets and numbers read back, every name under which a client is
  looked up normalises to itself, and the database holds what the CSV file says.
\<close>

subsection \<open>Hexadecimal strings\<close>

lemma hex_digit_cases: "n < 16 \<Longrightarrow> hex_digit n \<in> {48..57} \<union> {97..102}"
  by (auto simp: hex_digit_def)

lemma hex_char_digit [simp]: "n < 16 \<Longrightarrow> hex_char (hex_digit n)"
  by (simp add: hex_char_def)

lemma hex_digit_simps [simp]:
  "n < 16 \<Longrightarrow> hex_digit n \<noteq> 58" "n < 16 \<Longrightarrow> hex_digit n \<noteq> 10"
  "n < 16 \<Longrightarrow> \<not> (65 \<le> hex_digit n \<and> hex_digit n \<le> 90)"
  using hex_digit_cases [of n] by auto

lemma hex_char_range: "hex_char c \<Longrightarrow> c \<in> {48..57} \<union> {65..70} \<union> {97..102}"
  by (auto simp: hex_char_def hex_value_def split: if_splits)

lemma hex_char_no_colon [simp]: "\<not> hex_char 58" "\<not> hex_char 10"
  by (simp_all add: hex_char_def hex_value_def)

lemma byte_nibbles [simp]: "unat (b :: byte) div 16 < 16" "unat b mod 16 < 16"
proof -
  have "unat b < 256" using unsigned_less [of b] by simp
  then show "unat b div 16 < 16" by simp
qed simp

lemma hex_encode_Cons:
  "hex_encode (b # bs) = hex_digit (unat b div 16) # hex_digit (unat b mod 16) # hex_encode bs"
  by (simp add: hex_encode_def)

lemma hex_encode_Nil [simp]: "hex_encode [] = []"
  by (simp add: hex_encode_def)

lemma byte_of_nibbles: "of_nat (16 * (unat b div 16) + unat b mod 16) = (b :: byte)"
  by simp

lemma unhexlify_encode [simp]: "unhexlify (hex_encode bs) = Inr bs"
  by (induction bs) (simp_all add: hex_encode_Cons byte_of_nibbles)

text \<open>The pieces of a well-formed string, without the colons.\<close>

lemma more_hex_pairs_induct [consumes 1, case_names empty newline colon pair]:
  assumes "more_hex_pairs s"
    and "P []" and "P [10]"
    and "\<And>c d s. hex_char c \<Longrightarrow> hex_char d \<Longrightarrow> more_hex_pairs s \<Longrightarrow> P s \<Longrightarrow> P (58 # c # d # s)"
    and "\<And>c d s. hex_char c \<Longrightarrow> hex_char d \<Longrightarrow> more_hex_pairs s \<Longrightarrow> P s \<Longrightarrow> P (c # d # s)"
  shows "P s"
  using assms(1)
proof (induction s rule: more_hex_pairs.induct)
  case (3 c d s)
  show ?case
  proof (cases "c = 58")
    case True
    then obtain e s' where "s = e # s'" "hex_char d" "hex_char e" "more_hex_pairs s'"
      using 3(3) by (auto split: list.splits)
    with True 3(1) assms(4) show ?thesis by auto
  next
    case False
    with 3 assms(5) show ?thesis by auto
  qed
qed (use assms(2,3) in \<open>auto split: if_splits\<close>)

lemma lower_hex [simp]: "hex_char c \<Longrightarrow> hex_value (lower_char c) = hex_value c"
  using hex_char_range [of c] by (auto simp: hex_value_def lower_char_def)

lemma unhexlify_lower:
  "more_hex_pairs s \<Longrightarrow> unhexlify (lower (filter (\<lambda>c. c \<noteq> 58) s)) = unhexlify (filter (\<lambda>c. c \<noteq> 58) s)"
  by (induction rule: more_hex_pairs_induct) (auto simp: lower_def split: option.splits)

lemma hex_pairs_encode [simp]: "more_hex_pairs (hex_encode bs)"
  by (induction bs) (auto simp: hex_encode_Cons)

lemma hex_encode_lower [simp]: "lower (filter (\<lambda>c. c \<noteq> 58) (hex_encode bs)) = hex_encode bs"
  by (induction bs) (auto simp: hex_encode_Cons lower_def lower_char_def)

lemma format_encode [simp]: "hex_data_format (hex_encode bs) \<longleftrightarrow> bs \<noteq> []"
  by (cases bs) (auto simp: hex_data_format_def hex_encode_Cons)

lemma format_pairs: "hex_data_format s \<Longrightarrow> more_hex_pairs s"
  by (auto simp: hex_data_format_def split: list.splits if_splits)

lemma hex_encode_eq_Nil [simp]: "hex_encode bs = [] \<longleftrightarrow> bs = []"
  by (cases bs) (simp_all add: hex_encode_Cons)

lemma normalise_encoded [simp]: "normalise_hex (HexText (hex_encode bs)) False = Inr (hex_encode bs)"
  by (simp add: normalise_hex_def Let_def)

lemma hex_value_of_encode [simp]: "hex_value_of (hex_encode bs) = Inr bs"
  by (simp add: hex_value_of_def)

lemma findall_encode: "findall_pairs (hex_encode bs) = map (\<lambda>b. hex_encode [b]) bs"
  by (induction bs) (auto simp: hex_encode_Cons)

lemma hex_value_of_with_colons: "hex_value_of (join 58 (map (\<lambda>b. hex_encode [b]) bs)) = Inr bs"
proof (cases bs)
  case (Cons b cs)
  have no_colon: "filter (\<lambda>c. c \<noteq> 58) (hex_encode xs) = hex_encode xs" for xs
    by (induction xs) (auto simp: hex_encode_Cons)
  have step: "more_hex_pairs (58 # join 58 (map (\<lambda>b. hex_encode [b]) (b # cs)))
      \<and> filter (\<lambda>c. c \<noteq> 58) (join 58 (map (\<lambda>b. hex_encode [b]) (b # cs))) = hex_encode (b # cs)" for b cs
    by (induction cs arbitrary: b) (auto simp: hex_encode_Cons)
  then have "hex_data_format (join 58 (map (\<lambda>b. hex_encode [b]) (b # cs)))"
    using step [of b cs] by (cases cs) (auto simp: hex_data_format_def hex_encode_Cons)
  then have "normalise_hex (HexText (join 58 (map (\<lambda>b. hex_encode [b]) bs))) False = Inr (hex_encode bs)"
    using step [of b cs] hex_encode_lower [of bs]
    by (auto simp: Cons normalise_hex_def Let_def no_colon)
  then show ?thesis by (simp add: hex_value_of_def)
qed (simp add: hex_value_of_def normalise_hex_def)

subsection \<open>Numbers\<close>

lemma digits_no_space: "list_all digit s \<Longrightarrow> c \<in> set s \<Longrightarrow> \<not> white_space c"
  by (auto simp: list_all_iff digit_def white_space_def)

lemma strip_id:
  assumes "s \<noteq> []" and "\<not> white_space (hd s)" and "\<not> white_space (last s)"
  shows "strip_space s = s"
proof -
  obtain xs x where s: "s = xs @ [x]" using assms(1) by (cases s rule: rev_exhaust) auto
  have "dropWhile white_space s = s" using assms(1,2) by (cases s) auto
  with assms(3) s show ?thesis by (simp add: strip_space_def)
qed

lemma decimal_digits_digits: "list_all digit (decimal_digits n)"
  using decimal_digits_range by (auto simp: list_all_iff digit_def)

lemma decimal_digits_no_space [simp]:
  "\<not> white_space (hd (decimal_digits n))" "\<not> white_space (last (decimal_digits n))"
  using digits_no_space [OF decimal_digits_digits [of n]] by simp_all

lemma strip_decimal [simp]: "strip_space (decimal i) = decimal i"
  by (intro strip_id) (auto simp: decimal_def white_space_def [of 45])

lemma py_int_decimal [simp]: "py_int (decimal i) = Inr i"
proof (cases "i < 0")
  case True
  then show ?thesis
    using decimal_digits_digits [of "nat (- i)"] strip_decimal [of i]
    by (simp add: py_int_def decimal_def)
next
  case False
  obtain d ds where d: "decimal_digits (nat i) = d # ds"
    using decimal_digits_not_Nil list.exhaust by metis
  with decimal_digits_range [of d "nat i"] have "d \<noteq> 45" "d \<noteq> 43" by auto
  then show ?thesis
    using False decimal_digits_digits [of "nat i"] number_of_decimal_digits [of "nat i"] strip_decimal [of i]
    by (simp add: py_int_def decimal_def d)
qed

subsection \<open>Identifiers\<close>

lemma split_colon_simps [simp]:
  "58 \<notin> set a \<Longrightarrow> split_colon (a @ 58 # r) = Inr (a, r)"
proof -
  assume a: "58 \<notin> set a"
  then have "dropWhile (\<lambda>c. c \<noteq> 58) (a @ 58 # r) = 58 # r" by (subst dropWhile_append2) auto
  moreover have "takeWhile (\<lambda>c. c \<noteq> 58) (a @ 58 # r) = a" using a by (subst takeWhile_append2) auto
  ultimately show ?thesis by (simp add: split_colon_def)
qed

lemma decimal_no_colon [simp]: "58 \<notin> set (decimal i)"
  using decimal_chars [of 58 i] by auto

lemma numbered_id_decimal:
  "numbered_id octets name_of (decimal n @ lit '':'' @ r) = rbind (octets r) (\<lambda>bs. Inr (name_of n bs))"
  by (simp add: numbered_id_def lit_def)

lemma normalise_id_prefixes:
  "normalise_id (lit ''duid:'' @ v) =
     rbind (unhexlify v) (\<lambda>bs. rbind (DUID_parse bs 0 (Some (length bs))) (\<lambda>(n, d). duid_name d))"
  "normalise_id (lit ''interface-id:'' @ v) = rbind (hex_value_of v) (\<lambda>i. Inr (interface_id_name i))"
  "normalise_id (lit ''interface-id-str:'' @ v) = rbind (ascii_encode v) (\<lambda>i. Inr (interface_id_name i))"
  "normalise_id (lit ''remote-id:'' @ v) = numbered_id hex_value_of remote_id_name v"
  "normalise_id (lit ''remote-id-str:'' @ v) = numbered_id ascii_encode remote_id_name v"
  "normalise_id (lit ''subscriber-id:'' @ v) = rbind (hex_value_of v) (\<lambda>i. Inr (subscriber_id_name i))"
  "normalise_id (lit ''subscriber-id-str:'' @ v) = rbind (ascii_encode v) (\<lambda>i. Inr (subscriber_id_name i))"
  "normalise_id (lit ''linklayer-id:'' @ v) = numbered_id hex_value_of linklayer_id_name v"
  "normalise_id (lit ''linklayer-id-str:'' @ v) = numbered_id ascii_encode linklayer_id_name v"
  by (simp_all add: normalise_id_def starts_with_def lit_def split_colon_def)

lemma normalise_duid:
  "unhexlify h = Inr bs \<Longrightarrow> DUID_save d = Inr bs \<Longrightarrow> duid_representable d \<Longrightarrow>
   normalise_id (lit ''duid:'' @ h) = duid_name d"
  using DUID_parse_save [of d bs "[]" "[]"] by (simp add: normalise_id_prefixes)

text \<open>Every name that a lookup forms is its own normal form.\<close>

lemma normalise_name:
  "duid_name d = Inr k \<Longrightarrow> duid_representable d \<Longrightarrow> normalise_id k = Inr k"
  "normalise_id (interface_id_name i) = Inr (interface_id_name i)"
  "normalise_id (remote_id_name n r) = Inr (remote_id_name n r)"
  "normalise_id (subscriber_id_name u) = Inr (subscriber_id_name u)"
  "normalise_id (linklayer_id_name t a) = Inr (linklayer_id_name t a)"
proof -
  assume k: "duid_name d = Inr k" and d: "duid_representable d"
  from k obtain bs where "DUID_save d = Inr bs" "k = lit ''duid:'' @ hex_encode bs"
    by (auto simp: duid_name_def elim!: rbind_InrE)
  with normalise_duid [OF _ _ d, of "hex_encode bs" bs] k show "normalise_id k = Inr k" by simp
qed (simp_all add: interface_id_name_def remote_id_name_def subscriber_id_name_def linklayer_id_name_def
    normalise_id_prefixes numbered_id_decimal)

subsection \<open>The table\<close>

lemma parse_csv_append:
  "parse_csv_file lib (xs @ ys) =
     rbind (parse_csv_file lib xs) (\<lambda>a. rbind (parse_csv_file lib ys) (\<lambda>b. Inr (a @ b)))"
proof (induction xs)
  case (Cons x xs)
  then show ?case
    by (cases "parse_csv_file lib xs"; cases "parse_csv_file lib ys")
      (simp_all split: row_result.splits)
next
  case Nil
  then show ?case by (cases "parse_csv_file lib ys") simp_all
qed

lemma parse_csv_keys:
  "parse_csv_file lib rows = Inr pairs \<Longrightarrow> k \<in> fst ` set pairs \<Longrightarrow>
   \<exists>row \<in> set rows. \<exists>a. result_of lib row = Gives k a"
proof (induction rows arbitrary: pairs)
  case (Cons row rows)
  show ?case
  proof (cases "result_of lib row")
    case (Gives k' a)
    with Cons.prems(1) obtain rest where "parse_csv_file lib rows = Inr rest" "pairs = (k', a) # rest"
      by (auto elim!: rbind_InrE)
    with Gives Cons show ?thesis by auto
  qed (use Cons in auto)
qed simp

lemma csv_last_row:
  assumes "read_csv_file lib (before @ row # after) = Inr mapping"
    and "result_of lib row = Gives k a"
    and "\<forall>r \<in> set after. \<forall>a'. result_of lib r \<noteq> Gives k a'"
  shows "mapping k = Some a"
proof -
  from assms(1,2) obtain p q where q: "parse_csv_file lib after = Inr q"
    and m: "mapping = map_of (rev (p @ (k, a) # q))"
    by (auto simp: read_csv_file_def parse_csv_append elim!: rbind_InrE)
  have "k \<notin> fst ` set q" using parse_csv_keys [OF q] assms(3) by blast
  then have "map_of (rev q) k = None" by (simp add: map_of_eq_None_iff)
  with m show ?thesis by (simp add: map_add_def)
qed

lemma ends_not_read: "row \<in> set rows \<Longrightarrow> result_of lib row = Ends e \<Longrightarrow> \<exists>e. read_csv_file lib rows = Inl e"
proof -
  assume "row \<in> set rows" and row: "result_of lib row = Ends e"
  then obtain xs ys where "rows = xs @ row # ys" by (meson split_list)
  then show ?thesis using row
    by (cases "parse_csv_file lib xs") (simp_all add: read_csv_file_def parse_csv_append)
qed

lemma duid_lookup: "duid_key b = Inr k \<Longrightarrow> mapping k = Some a \<Longrightarrow> csv_get_assignment mapping b = Inr a"
  by (simp add: csv_get_assignment_def try_name_def)

subsection \<open>The database\<close>

lemma stored_insert [simp]:
  "map_of (insert_or_replace k v rows) = (map_of rows)(k \<mapsto> v)"
proof -
  have "map_of (filter (\<lambda>r. fst r \<noteq> k) rows) k' = (if k' = k then None else map_of rows k')" for k'
    by (induction rows) auto
  then show ?thesis by (auto simp: insert_or_replace_def map_add_def split: option.splits)
qed

lemma insert_distinct:
  "distinct (map fst rows) \<Longrightarrow> distinct (map fst (insert_or_replace k v rows))"
  by (induction rows) (auto simp: insert_or_replace_def)

lemma fill_table_result:
  assumes "fill_table lib csv_mtime csv_rows n committed rows = Filled rows'" and "distinct (map fst rows)"
  shows "\<exists>pairs. parse_csv_file lib csv_rows = Inr pairs \<and> distinct (map fst rows') \<and>
    map_of rows' = (\<lambda>k. case map_of (rev pairs) k of Some a \<Rightarrow> Some (a, csv_mtime) | None \<Rightarrow> map_of rows k)"
  using assms
proof (induction csv_rows arbitrary: n committed rows)
  case (Cons row csv_rows)
  show ?case
  proof (cases "result_of lib row")
    case (Gives k a)
    define mid where "mid = insert_or_replace k (a, csv_mtime) rows"
    have "\<exists>n committed. fill_table lib csv_mtime csv_rows n committed mid = Filled rows'"
      using Cons.prems(1) Gives by (auto simp: mid_def Let_def split: if_splits)
    moreover have "distinct (map fst mid)" using insert_distinct [OF Cons.prems(2)] by (simp add: mid_def)
    ultimately obtain pairs where pairs: "parse_csv_file lib csv_rows = Inr pairs" "distinct (map fst rows')"
      "map_of rows' = (\<lambda>k. case map_of (rev pairs) k of Some a \<Rightarrow> Some (a, csv_mtime) | None \<Rightarrow> map_of mid k)"
      using Cons.IH by blast
    then show ?thesis
      using Gives by (auto simp: mid_def map_add_def fun_eq_iff split: option.splits)
  qed (use Cons in \<open>auto split: if_splits\<close>)
qed simp

lemma fill_table_exit: "fill_table lib csv_mtime csv_rows n committed rows = BuildExit code rows' \<Longrightarrow> code = 1"
proof (induction csv_rows arbitrary: n committed rows)
  case (Cons row csv_rows)
  then show ?case by (cases "result_of lib row") (auto simp: Let_def split: if_splits)
qed simp

lemma map_of_filter:
  "distinct (map fst rows) \<Longrightarrow>
   map_of (filter P rows) k = (case map_of rows k of None \<Rightarrow> None | Some v \<Rightarrow> if P (k, v) then Some v else None)"
proof (induction rows)
  case (Cons r rows)
  then have "fst r \<notin> dom (map_of rows)" by (simp add: dom_map_of_conv_image_fst)
  with Cons show ?case by (cases r) (auto split: option.splits)
qed simp

lemma built_database:
  assumes "build_sqlite lib csv_mtime force csv_rows rows = (Inr 0, rows')"
    and "distinct (map fst rows)" and "\<forall>r \<in> set rows. snd (snd r) < csv_mtime"
  shows "\<exists>pairs. parse_csv_file lib csv_rows = Inr pairs \<and> stored_assignments rows' = map_of (rev pairs)"
proof -
  obtain full where full: "fill_table lib csv_mtime csv_rows 0 rows rows = Filled full"
    and rows': "rows' = filter (\<lambda>r. \<not> snd (snd r) < csv_mtime) full"
    using assms(1) fill_table_exit [of lib csv_mtime csv_rows 0 rows rows]
    by (auto simp: build_sqlite_def Let_def split: build_result.splits if_splits)
  from fill_table_result [OF full assms(2)] obtain pairs where
    pairs: "parse_csv_file lib csv_rows = Inr pairs" "distinct (map fst full)"
    "map_of full = (\<lambda>k. case map_of (rev pairs) k of Some a \<Rightarrow> Some (a, csv_mtime) | None \<Rightarrow> map_of rows k)"
    by blast
  have old: "map_of rows k = Some v \<Longrightarrow> snd v < csv_mtime" for k v
    using assms(3) by (metis map_of_SomeD snd_conv)
  have "stored_assignments rows' k = map_of (rev pairs) k" for k
    using old [of k] pairs(2,3)
    by (auto simp: rows' stored_assignments_def map_of_filter split: option.splits)
  with pairs(1) show ?thesis by auto
qed

end
