(* ===== verification/RegistryLaws.thy ===== *)
theory RegistryLaws
  imports Names
begin

text \<open>
  Laws of the registries (Names): the first entry point with a key that loads is the one found
  under it; and the tables of the model are what the entry points of setup.py give.
\<close>

subsection \<open>The first that loads\<close>

definition loads :: "'a load_result \<Rightarrow> 'a option" where
  "loads r = (case r of Loads x \<Rightarrow> Some x | _ \<Rightarrow> None)"

fun first_loaded :: "registry_key \<Rightarrow> (pystr \<times> 'a load_result) list \<Rightarrow> 'a option" where
  "first_loaded k [] = None"
| "first_loaded k (e # es) =
     (if entry_key (fst e) = k \<and> loads (snd e) \<noteq> None then loads (snd e) else first_loaded k es)"

lemma add_entry_point_data:
  "add_entry_point get_name e reg = Inr reg' \<Longrightarrow>
   entries reg' k = (if entries reg k = None \<and> entry_key (fst e) = k then loads (snd e) else entries reg k)"
  by (auto simp: add_entry_point_def loads_def Let_def split: load_result.splits if_splits)

lemma registry_steps_data:
  "run_steps (add_entry_point get_name) es reg = Inr reg' \<Longrightarrow>
   entries reg' k = (case entries reg k of Some x \<Rightarrow> Some x | None \<Rightarrow> first_loaded k es)"
proof (induction es arbitrary: reg)
  case (Cons e es)
  then obtain mid where mid: "add_entry_point get_name e reg = Inr mid"
    and rest: "run_steps (add_entry_point get_name) es mid = Inr reg'"
    by (auto elim!: rbind_InrE)
  from Cons.IH [OF rest] add_entry_point_data [OF mid, of k] show ?case
    by (auto split: option.splits)
qed (auto split: option.splits)

lemma registry_data: "Registry get_name es = Inr reg \<Longrightarrow> entries reg k = first_loaded k es"
  by (auto simp: Registry_def dest: registry_steps_data [where k = k])

text \<open>Only what is found under some key is found by name.\<close>

lemma add_entry_point_by_name:
  "add_entry_point get_name e reg = Inr reg' \<Longrightarrow>
   (\<forall>n x. by_name reg n = Some x \<longrightarrow> get_name x = n \<and> (\<exists>k. entries reg k = Some x)) \<Longrightarrow>
   (\<forall>n x. by_name reg' n = Some x \<longrightarrow> get_name x = n \<and> (\<exists>k. entries reg' k = Some x))"
  by (auto simp: add_entry_point_def Let_def split: load_result.splits if_splits) (metis option.distinct(1))+

lemma registry_steps_by_name:
  "run_steps (add_entry_point get_name) es reg = Inr reg' \<Longrightarrow>
   (\<forall>n x. by_name reg n = Some x \<longrightarrow> get_name x = n \<and> (\<exists>k. entries reg k = Some x)) \<Longrightarrow>
   (\<forall>n x. by_name reg' n = Some x \<longrightarrow> get_name x = n \<and> (\<exists>k. entries reg' k = Some x))"
proof (induction es arbitrary: reg)
  case (Cons e es)
  then obtain mid where mid: "add_entry_point get_name e reg = Inr mid"
    and rest: "run_steps (add_entry_point get_name) es mid = Inr reg'"
    by (auto elim!: rbind_InrE)
  show ?case by (rule Cons.IH [OF rest add_entry_point_by_name [OF mid Cons.prems(2)]])
qed simp

lemma registry_by_name:
  "Registry get_name es = Inr reg \<Longrightarrow> by_name reg n = Some x \<Longrightarrow>
   get_name x = n \<and> (\<exists>k. entries reg k = Some x)"
  using registry_steps_by_name [of get_name es "\<lparr>entries = (\<lambda>_. None), by_name = (\<lambda>_. None)\<rparr>" reg]
  by (simp add: Registry_def)

subsection \<open>The entry points of setup.py\<close>

lemmas number_defs = entry_key_def py_int_def strip_space_def lit_def white_space_def digit_def number_of_digits_def

lemma entry_point_numbers [simp]:
  "entry_key (lit ''1'') = Number 1" "entry_key (lit ''2'') = Number 2"
  "entry_key (lit ''3'') = Number 3" "entry_key (lit ''4'') = Number 4"
  "entry_key (lit ''5'') = Number 5" "entry_key (lit ''6'') = Number 6"
  "entry_key (lit ''7'') = Number 7" "entry_key (lit ''8'') = Number 8"
  "entry_key (lit ''9'') = Number 9" "entry_key (lit ''10'') = Number 10"
  "entry_key (lit ''11'') = Number 11" "entry_key (lit ''12'') = Number 12"
  "entry_key (lit ''13'') = Number 13" "entry_key (lit ''14'') = Number 14"
  "entry_key (lit ''15'') = Number 15" "entry_key (lit ''16'') = Number 16"
  "entry_key (lit ''17'') = Number 17"
  by (simp_all add: number_defs)

lemmas name_defs' = camelcase_to_dash_def camelcase_to_underscore_def Let_def upper_letter_def
  lower_letter_def digit_def lower_def lower_char_def

lemma message_names:
  "map (MessageRegistry_get_name \<circ> message_class_name) (map (\<lambda>e. the (loads (snd e))) message_entry_points) =
   [lit ''solicit'', lit ''advertise'', lit ''request'', lit ''confirm'', lit ''renew'', lit ''rebind'',
    lit ''reply'', lit ''release'', lit ''decline'', lit ''reconfigure'', lit ''information-request'',
    lit ''relay-forward'', lit ''relay-reply'', lit ''leasequery'', lit ''leasequery-reply'',
    lit ''leasequery-done'', lit ''leasequery-data'']"
  by (simp add: message_entry_points_def loads_def MessageRegistry_get_name_def Registry_get_name_def
      without_suffix_def lit_def name_defs')

text \<open>Entry points that all load, with different keys.\<close>

lemma registry_loads_all:
  "\<forall>e \<in> set es. \<exists>x. snd e = Loads x \<Longrightarrow> \<exists>reg'. run_steps (add_entry_point get_name) es reg = Inr reg'"
proof (induction es arbitrary: reg)
  case (Cons e es)
  then obtain x where "snd e = Loads x" by auto
  then obtain mid where "add_entry_point get_name e reg = Inr mid"
    by (cases "entries reg (entry_key (fst e)) = None") (auto simp: add_entry_point_def Let_def)
  with Cons show ?case by simp
qed simp

lemma by_name_kept:
  "run_steps (add_entry_point get_name) es reg = Inr reg' \<Longrightarrow>
   \<forall>e \<in> set es. \<forall>x. snd e = Loads x \<longrightarrow> get_name x \<noteq> n \<Longrightarrow> by_name reg' n = by_name reg n"
proof (induction es arbitrary: reg)
  case (Cons e es)
  then obtain mid where mid: "add_entry_point get_name e reg = Inr mid"
    and rest: "run_steps (add_entry_point get_name) es mid = Inr reg'"
    by (auto elim!: rbind_InrE)
  have "by_name mid n = by_name reg n"
    using mid Cons.prems(2) by (auto simp: add_entry_point_def Let_def split: load_result.splits if_splits)
  with Cons.IH [OF rest] Cons.prems(2) show ?case by simp
qed simp

lemma found_by_name:
  assumes "run_steps (add_entry_point get_name) es reg = Inr reg'"
    and "distinct (map (entry_key \<circ> fst) es)" and "\<forall>e \<in> set es. entries reg (entry_key (fst e)) = None"
    and "distinct (map (get_name \<circ> (\<lambda>e. the (loads (snd e)))) es)"
    and "e \<in> set es" and "snd e = Loads x"
  shows "by_name reg' (get_name x) = Some x"
  using assms
proof (induction es arbitrary: reg)
  case (Cons f es)
  then obtain mid where mid: "add_entry_point get_name f reg = Inr mid"
    and rest: "run_steps (add_entry_point get_name) es mid = Inr reg'"
    by (auto elim!: rbind_InrE)
  show ?case
  proof (cases "e = f")
    case True
    then have "by_name mid (get_name x) = Some x"
      using mid Cons.prems(3,6) by (auto simp: add_entry_point_def Let_def)
    moreover have "\<forall>g \<in> set es. \<forall>y. snd g = Loads y \<longrightarrow> get_name y \<noteq> get_name x"
      using Cons.prems(4,6) True by (force simp: loads_def)
    ultimately show ?thesis using by_name_kept [OF rest] by simp
  next
    case False
    have "\<forall>g \<in> set es. entries mid (entry_key (fst g)) = None"
      using Cons.prems(2,3) by (auto simp: add_entry_point_data [OF mid])
    then show ?thesis using Cons.IH [OF rest] Cons.prems False by simp
  qed
qed simp

lemma message_registry_entries: "first_loaded (Number t) message_entry_points = message_registry t"
  by (simp add: message_entry_points_def message_registry_def loads_def)

lemma duid_registry_entries: "first_loaded (Number t) duid_entry_points = duid_registry t"
  by (simp add: duid_entry_points_def duid_registry_def loads_def)

end
