(* ===== verification/MapConfig.thy ===== *)
theory MapConfig
  imports Names
begin

text \<open>
  dhcpkit/ipv6/server/extensions/map/config.py: a mapping rule of the configuration, what it has to
  satisfy, and the option that is made of it; and the numbers of sol_max_rt/config.py and
  rate_limit/config.py.
\<close>

unbundle bit_operations_syntax

definition power_of_two :: "pystr \<Rightarrow> int res" where
  "power_of_two value =
     rbind (py_int value) (\<lambda>value.
     if value \<le> 0 \<or> value AND (value - 1) \<noteq> 0 then Inl ValueError else Inr value)"

text \<open>
  The section of a rule: ZConfig gives each key the type that component.xml states; \<open>forwarding-mapping\<close>
  has none there, so it is the text of the configuration file.
\<close>

record map_rule =
  rule_ipv6_prefix :: ipv6_network
  rule_ipv4_prefix :: ipv4_network
  contiguous_ports :: int
  sharing_ratio :: int
  forwarding_mapping :: pystr

text \<open>\<open>int(math.log(n, 2))\<close> for a power of two; for those up to \<open>2 ^ 199\<close> the quotient of the two logarithms
  is not rounded to less than the exponent.\<close>

function int_log2 :: "int \<Rightarrow> int" where
  "int_log2 n = (if n \<le> 1 then 0 else 1 + int_log2 (n div 2))"
  by auto
termination
  by (relation "measure nat") auto

declare int_log2.simps [simp del]

definition k_bits :: "map_rule \<Rightarrow> int" where
  "k_bits s = int_log2 (sharing_ratio s)"

definition m_bits :: "map_rule \<Rightarrow> int" where
  "m_bits s = int_log2 (contiguous_ports s)"

definition a_bits :: "map_rule \<Rightarrow> int" where
  "a_bits s = 16 - k_bits s - m_bits s"

definition rule_ea_len :: "map_rule \<Rightarrow> int" where
  "rule_ea_len s =
     (let ipv4_bits = 32 - int (prefixlen4 (rule_ipv4_prefix s)) in ipv4_bits + k_bits s)"

definition MapRule_validate :: "map_rule \<Rightarrow> unit res" where
  "MapRule_validate s =
     (if a_bits s < 0 then Inl ValueError
      else if int (prefixlen (rule_ipv6_prefix s)) + rule_ea_len s > 64 then Inl ValueError
      else Inr ())"

text \<open>The flag \<open>fmr\<close> of a rule option: bit 0 of its flags; any text but the empty one is true.\<close>

definition set_fmr :: "bool \<Rightarrow> int \<Rightarrow> int" where
  "set_fmr value flags = (if value then flags OR 1 else flags AND NOT 1)"

definition MapRule_create :: "map_rule \<Rightarrow> dhcp_option" where
  "MapRule_create s =
     S46RuleOption (set_fmr (forwarding_mapping s \<noteq> []) 0) (rule_ea_len s) (rule_ipv4_prefix s)
       (rule_ipv6_prefix s) [Plain (ExtensionOption (S46PortParametersOption (a_bits s) 0 0))]"

subsection \<open>Numbers of other extensions\<close>

definition max_rt :: "pystr \<Rightarrow> int res" where
  "max_rt value =
     rbind (py_int value) (\<lambda>seconds. if \<not> (60 \<le> seconds \<and> seconds \<le> 86400) then Inl ValueError else Inr seconds)"

definition rate :: "pystr \<Rightarrow> int res" where
  "rate configured_rate =
     rbind (py_int configured_rate) (\<lambda>my_rate. if my_rate < 2 then Inl ValueError else Inr my_rate)"

definition duration :: "pystr \<Rightarrow> int res" where
  "duration config_duration =
     rbind (py_int config_duration) (\<lambda>my_duration. if my_duration < 1 then Inl ValueError else Inr my_duration)"

subsection \<open>What an accepted rule is\<close>

lemma int_log2_power [simp]: "int_log2 (2 ^ k) = int k"
proof (induction k)
  case (Suc k)
  have "(2 ^ Suc k :: int) > 1" by (simp add: one_less_power del: power_Suc)
  then show ?case using Suc by (subst int_log2.simps) simp
qed (subst int_log2.simps, simp)

lemma and_even_odd: "2 * a AND (1 + 2 * b) = 2 * (a AND b)" for a b :: int
  by (simp add: and_int_rec [of "2 * a" "1 + 2 * b"])

lemma no_common_bit: "0 < n \<Longrightarrow> n AND (n - 1) = 0 \<longleftrightarrow> (\<exists>k. n = 2 ^ k)" for n :: int
proof (induction "nat n" arbitrary: n rule: less_induct)
  case less
  show ?case
  proof (cases "even n")
    case True
    then obtain m where n: "n = 2 * m" by blast
    then have m: "0 < m" "nat m < nat n" using less.prems by auto
    have "n - 1 = 1 + 2 * (m - 1)" using n by simp
    then have "n AND (n - 1) = 2 * (m AND (m - 1))" using and_even_odd [of m "m - 1"] n by simp
    then have "n AND (n - 1) = 0 \<longleftrightarrow> (\<exists>k. m = 2 ^ k)" using less.hyps [OF m(2) m(1)] by simp
    also have "\<dots> \<longleftrightarrow> (\<exists>k. n = 2 ^ k)"
    proof
      assume "\<exists>k. n = 2 ^ k"
      then obtain k where k: "n = 2 ^ k" by blast
      with n have "k \<noteq> 0" by (metis dvd_triv_left odd_one power_0)
      then obtain j where "k = Suc j" by (cases k) auto
      with k n show "\<exists>k. m = 2 ^ k" by auto
    qed (metis n power_Suc)
    finally show ?thesis .
  next
    case False
    then obtain m where n: "n = 2 * m + 1" by (metis oddE)
    have "n AND (n - 1) = 2 * m"
    proof -
      have "n AND (n - 1) = 2 * (m AND m)" by (simp add: n and_int_rec [of "2 * m + 1" "2 * m"])
      then show ?thesis by simp
    qed
    moreover have "(\<exists>k. n = 2 ^ k) \<longleftrightarrow> m = 0"
    proof
      assume "\<exists>k. n = 2 ^ k"
      then obtain k where k: "n = 2 ^ k" by blast
      with False have "k = 0" by (cases k) auto
      with k n show "m = 0" by simp
    next
      assume "m = 0"
      then show "\<exists>k. n = 2 ^ k" using n by (intro exI [of _ 0]) simp
    qed
    ultimately show ?thesis by simp
  qed
qed

lemma power_of_two_iff: "power_of_two value = Inr n \<longleftrightarrow> py_int value = Inr n \<and> (\<exists>k. n = 2 ^ k)"
proof -
  have "\<not> n \<le> 0 \<and> n AND (n - 1) = 0 \<longleftrightarrow> (\<exists>k. n = 2 ^ k)"
    using no_common_bit [of n] by fastforce
  then show ?thesis by (cases "py_int value") (auto simp: power_of_two_def split: if_splits)
qed

end
