(* ===== verification/ListenerConfig.thy ===== *)
theory ListenerConfig
  imports Listeners
begin

text \<open>
  The factories of the listeners (dhcpkit/ipv6/server/listeners/factories.py and config.py of
  multicast_interface, unicast and unicast_tcp): what a section of the configuration must satisfy, which
  sockets of the previous configuration are used again, and the listener that is made.  The addresses of
  the interfaces are arguments, and a new socket is bound as it is asked to be.
\<close>

subsection \<open>factories.py\<close>

text \<open>An open socket: its identity and what the code asks of it.  A socket of a protocol has its type.\<close>

type_synonym open_socket = "nat \<times> socket"

definition match_socket :: "bool \<Rightarrow> socket \<Rightarrow> ipv6 \<Rightarrow> int \<Rightarrow> bool" where
  "match_socket udp sock address interface \<longleftrightarrow>
     is_inet6 sock \<and> (if udp then is_udp sock else is_tcp sock) \<and>
     sock_address sock = address \<and> sock_port sock = 547 \<and> sock_interface sock = interface"

definition new_socket :: "bool \<Rightarrow> nat \<Rightarrow> ipv6 \<Rightarrow> int \<Rightarrow> open_socket" where
  "new_socket udp ident address interface =
     (ident, \<lparr>is_inet6 = True, is_udp = udp, is_tcp = \<not> udp, sock_address = address, sock_port = 547,
        sock_interface = interface\<rparr>)"

text \<open>The listeners that exist already, with their sockets.\<close>

datatype old_listener = OldUDP open_socket open_socket | OldTCP open_socket | OtherListener

fun recycle_listen_socket :: "ipv6 \<Rightarrow> int \<Rightarrow> old_listener list \<Rightarrow> open_socket option" where
  "recycle_listen_socket address interface [] = None"
| "recycle_listen_socket address interface (OldUDP l r # olds) =
     (if match_socket True (snd l) address interface then Some l
      else recycle_listen_socket address interface olds)"
| "recycle_listen_socket address interface (_ # olds) = recycle_listen_socket address interface olds"

fun recycle_reply_socket :: "ipv6 \<Rightarrow> int \<Rightarrow> old_listener list \<Rightarrow> open_socket option" where
  "recycle_reply_socket address interface [] = None"
| "recycle_reply_socket address interface (OldUDP l r # olds) =
     (if match_socket True (snd l) address interface then Some l
      else if match_socket True (snd r) address interface then Some r
      else recycle_reply_socket address interface olds)"
| "recycle_reply_socket address interface (_ # olds) = recycle_reply_socket address interface olds"

fun recycle_tcp_socket :: "ipv6 \<Rightarrow> old_listener list \<Rightarrow> open_socket option" where
  "recycle_tcp_socket address [] = None"
| "recycle_tcp_socket address (OldTCP l # olds) =
     (if match_socket False (snd l) address 0 then Some l else recycle_tcp_socket address olds)"
| "recycle_tcp_socket address (_ # olds) = recycle_tcp_socket address olds"

definition or_else :: "'a option \<Rightarrow> 'a \<Rightarrow> 'a" where
  "or_else x y = (case x of None \<Rightarrow> y | Some x \<Rightarrow> x)"

subsection \<open>multicast_interface\<close>

text \<open>\<open>validate_config_section\<close>: the addresses to reply from and to identify the link by.\<close>

definition validate_multicast ::
  "bool \<Rightarrow> ipv6 list \<Rightarrow> ipv6 option \<Rightarrow> ipv6 option \<Rightarrow> (ipv6 \<times> ipv6) res" where
  "validate_multicast interface_exists interface_addresses reply_from link =
     (if \<not> interface_exists then Inl ValueError
      else
        rbind
          (case reply_from of
             None \<Rightarrow>
               (case find is_link_local interface_addresses of None \<Rightarrow> Inl ValueError | Some a \<Rightarrow> Inr a)
           | Some a \<Rightarrow>
               if \<not> is_link_local a then Inl ValueError
               else if a \<notin> set interface_addresses then Inl ValueError
               else Inr a)
          (\<lambda>reply_from.
        rbind
          (case link of
             None \<Rightarrow> Inr (or_else (find is_global_unicast interface_addresses) 0)
           | Some a \<Rightarrow> if \<not> is_global_unicast a then Inl ValueError else Inr a)
          (\<lambda>link. Inr (reply_from, link))))"

definition All_DHCP_Relay_Agents_and_Servers :: ipv6 where
  "All_DHCP_Relay_Agents_and_Servers = 0xff020000000000000000000000010002"

text \<open>\<open>create\<close>; the numbers are the identities of sockets that are newly made, if any.\<close>

definition multicast_create ::
  "bytes \<Rightarrow> int \<Rightarrow> old_listener list \<Rightarrow> ipv6 \<Rightarrow> ipv6 \<Rightarrow> pystr list \<Rightarrow> nat \<Rightarrow> nat \<Rightarrow>
   listener_error + udp_listener" where
  "multicast_create interface_id interface_index old_listeners reply_from link ms new_mc new_ll =
     (let mc_address = All_DHCP_Relay_Agents_and_Servers;
          mc_sock = or_else (recycle_listen_socket mc_address interface_index old_listeners)
            (new_socket True new_mc mc_address interface_index);
          ll_sock = or_else (recycle_reply_socket reply_from interface_index old_listeners)
            (new_socket True new_ll reply_from interface_index)
      in UDPListener interface_id (snd mc_sock) (snd ll_sock) (fst mc_sock = fst ll_sock)
           (Some link) ms)"

subsection \<open>unicast\<close>

text \<open>The interface on which the address is found.\<close>

definition find_interface :: "ipv6 \<Rightarrow> (bytes \<times> ipv6 list) list \<Rightarrow> bytes res" where
  "find_interface address interfaces =
     (case find (\<lambda>(name, addresses). address \<in> set addresses) interfaces of
        None \<Rightarrow> Inl ValueError
      | Some (name, _) \<Rightarrow> if name = [] then Inl ValueError else Inr name)"

definition validate_unicast :: "ipv6 \<Rightarrow> (bytes \<times> ipv6 list) list \<Rightarrow> bytes res" where
  "validate_unicast address interfaces =
     (if \<not> is_global_unicast address \<and> address \<noteq> 1 then Inl ValueError
      else find_interface address interfaces)"

definition unicast_create ::
  "bytes \<Rightarrow> ipv6 \<Rightarrow> old_listener list \<Rightarrow> pystr list \<Rightarrow> nat \<Rightarrow> listener_error + udp_listener" where
  "unicast_create found_interface address old_listeners ms new =
     (let sock = or_else (recycle_listen_socket address 0 old_listeners) (new_socket True new address 0)
      in UDPListener found_interface (snd sock) (snd sock) True None ms)"

subsection \<open>unicast_tcp\<close>

text \<open>The keys of the section.\<close>

record tcp_section =
  tcp_section_address :: ipv6
  max_connections :: nat
  allow_from :: "ipv6_network list"

record tcp_listener =
  tcp_listen_socket :: open_socket
  tcp_global_address :: ipv6
  tcp_max_connections :: nat
  tcp_allow_from :: "ipv6_network list"

definition validate_unicast_tcp :: "tcp_section \<Rightarrow> (bytes \<times> ipv6 list) list \<Rightarrow> bytes res" where
  "validate_unicast_tcp section interfaces =
     (if \<not> is_global_unicast (tcp_section_address section) then Inl ValueError
      else find_interface (tcp_section_address section) interfaces)"

text \<open>\<open>TCPConnectionListener\<close>, with its default for \<open>max_connections\<close>, and the factory, which leaves it so.\<close>

definition TCPConnectionListener ::
  "open_socket \<Rightarrow> ipv6 option \<Rightarrow> nat option \<Rightarrow> ipv6_network list \<Rightarrow> listener_error + tcp_listener" where
  "TCPConnectionListener listen_socket global_address connections allowed =
     rbind (TCPConnectionListener_global_address (snd listen_socket) global_address) (\<lambda>global_address.
     Inr \<lparr>tcp_listen_socket = listen_socket, tcp_global_address = global_address,
       tcp_max_connections = or_else connections 10, tcp_allow_from = allowed\<rparr>)"

definition unicast_tcp_create ::
  "tcp_section \<Rightarrow> old_listener list \<Rightarrow> nat \<Rightarrow> listener_error + tcp_listener" where
  "unicast_tcp_create section old_listeners new =
     (let sock = or_else (recycle_tcp_socket (tcp_section_address section) old_listeners)
            (new_socket False new (tcp_section_address section) 0)
      in TCPConnectionListener sock None None (allow_from section))"

subsection \<open>Sockets fit\<close>

lemma recycled_match:
  "recycle_listen_socket a i olds = Some s \<Longrightarrow> match_socket True (snd s) a i"
  "recycle_reply_socket a i olds = Some s \<Longrightarrow> match_socket True (snd s) a i"
  "recycle_tcp_socket a olds = Some t \<Longrightarrow> match_socket False (snd t) a 0"
proof -
  show "recycle_listen_socket a i olds = Some s \<Longrightarrow> match_socket True (snd s) a i"
    by (induction a i olds rule: recycle_listen_socket.induct) (auto split: if_splits)
  show "recycle_reply_socket a i olds = Some s \<Longrightarrow> match_socket True (snd s) a i"
    by (induction a i olds rule: recycle_reply_socket.induct) (auto split: if_splits)
  show "recycle_tcp_socket a olds = Some t \<Longrightarrow> match_socket False (snd t) a 0"
    by (induction a olds rule: recycle_tcp_socket.induct) (auto split: if_splits)
qed

lemma new_socket_matches [simp]: "match_socket udp (snd (new_socket udp n a i)) a i"
  by (simp add: match_socket_def new_socket_def)

lemma chosen_socket:
  "match_socket True (snd (or_else (recycle_listen_socket a i olds) (new_socket True n a i))) a i"
  "match_socket True (snd (or_else (recycle_reply_socket a i olds) (new_socket True n a i))) a i"
  "match_socket False (snd (or_else (recycle_tcp_socket a olds) (new_socket False n a 0))) a 0"
  by (auto simp: or_else_def split: option.splits dest: recycled_match)

lemma global_unicast_simps:
  "is_global_unicast a \<Longrightarrow> \<not> is_link_local a" "is_global_unicast a \<Longrightarrow> \<not> is_multicast a"
  "is_global_unicast a \<Longrightarrow> \<not> is_unspecified a"
  by (simp_all add: is_global_unicast_def is_link_local_def is_multicast_def is_unspecified_def)

lemma all_dhcp_multicast: "is_multicast All_DHCP_Relay_Agents_and_Servers"
  "\<not> is_unspecified All_DHCP_Relay_Agents_and_Servers"
  by (simp_all add: All_DHCP_Relay_Agents_and_Servers_def is_multicast_def is_unspecified_def in_network_def
      broadcast_address_def hostmask_def mask_eq_exp_minus_1)

lemma link_local_specified: "is_link_local a \<Longrightarrow> \<not> is_unspecified a"
  by (auto simp: is_link_local_def is_unspecified_def in_network_def)

lemma multicast_created:
  assumes "validate_multicast e addresses r l = Inr (reply_from, link)"
  shows "multicast_create name i olds reply_from link ms n m =
    Inr \<lparr>udp_interface_id = name, udp_listen_address = All_DHCP_Relay_Agents_and_Servers,
      udp_global_address = link, udp_marks = ms, udp_interface_index = i\<rparr>"
proof -
  have "is_link_local reply_from"
    using assms by (auto simp: validate_multicast_def find_Some_iff split: if_splits option.splits elim!: rbind_InrE)
  then show ?thesis
    using chosen_socket(1) [of All_DHCP_Relay_Agents_and_Servers i olds n] chosen_socket(2) [of reply_from i olds m]
    by (simp add: multicast_create_def UDPListener_def match_socket_def all_dhcp_multicast
        link_local_specified Let_def)
qed

lemma loopback_simps: "\<not> is_link_local 1" "\<not> is_multicast 1" "\<not> is_unspecified 1"
  by (simp_all add: is_link_local_def is_multicast_def is_unspecified_def in_network_def word_le_nat_alt)

lemma unicast_created:
  assumes "validate_unicast address interfaces = Inr name"
  shows "unicast_create name address olds ms n =
    Inr \<lparr>udp_interface_id = name, udp_listen_address = address, udp_global_address = address, udp_marks = ms,
      udp_interface_index = 0\<rparr>"
proof -
  have "\<not> is_link_local address \<and> \<not> is_multicast address \<and> \<not> is_unspecified address"
    using assms global_unicast_simps [of address] loopback_simps
    by (cases "address = 1") (auto simp: validate_unicast_def split: if_splits)
  then show ?thesis
    using chosen_socket(1) [of address 0 olds n]
    by (simp add: unicast_create_def UDPListener_def match_socket_def Let_def)
qed

lemma tcp_created:
  assumes "validate_unicast_tcp section interfaces = Inr name"
  shows "\<exists>sock. unicast_tcp_create section olds n =
    Inr \<lparr>tcp_listen_socket = sock, tcp_global_address = tcp_section_address section, tcp_max_connections = 10,
      tcp_allow_from = allow_from section\<rparr> \<and> match_socket False (snd sock) (tcp_section_address section) 0"
proof -
  have "is_global_unicast (tcp_section_address section)"
    using assms by (auto simp: validate_unicast_tcp_def split: if_splits)
  then show ?thesis
    using chosen_socket(3) [of "tcp_section_address section" olds n]
      global_unicast_simps(3) [of "tcp_section_address section"]
    by (simp add: unicast_tcp_create_def TCPConnectionListener_def TCPConnectionListener_global_address_def
        match_socket_def Let_def or_else_def)
qed

text \<open>
  The factories also look at the listeners that have just been made for the same configuration (\<open>main\<close> passes
  \<open>old_listeners + listeners\<close>).  So of two TCP sections for one address, which ZConfig lets pass when the
  address is spelt in two ways, the second takes the socket of the first, and with it the file descriptor.
\<close>

lemma same_address_same_socket:
  assumes "tcp_section_address later_section = tcp_section_address section"
    and "unicast_tcp_create section olds n = Inr l"
    and "unicast_tcp_create later_section (olds @ [OldTCP (tcp_listen_socket l)]) m = Inr l'"
  shows "tcp_listen_socket l' = tcp_listen_socket l"
proof -
  let ?a = "tcp_section_address section"
  have l: "tcp_listen_socket l = or_else (recycle_tcp_socket ?a olds) (new_socket False n ?a 0)"
    using assms(2) by (auto simp: unicast_tcp_create_def TCPConnectionListener_def Let_def elim!: rbind_InrE)
  have "recycle_tcp_socket a (xs @ [OldTCP sock]) = (case recycle_tcp_socket a xs of
      Some s \<Rightarrow> Some s | None \<Rightarrow> if match_socket False (snd sock) a 0 then Some sock else None)" for a xs sock
    by (induction a xs rule: recycle_tcp_socket.induct) auto
  moreover have "match_socket False (snd (tcp_listen_socket l)) ?a 0"
    using chosen_socket(3) [of ?a olds n] by (simp add: l)
  ultimately have "or_else (recycle_tcp_socket ?a (olds @ [OldTCP (tcp_listen_socket l)])) (new_socket False m ?a 0)
      = tcp_listen_socket l"
    by (simp add: l or_else_def split: option.split)
  then show ?thesis
    using assms(1,3) by (auto simp: unicast_tcp_create_def TCPConnectionListener_def Let_def elim!: rbind_InrE)
qed

end
