(* ===== verification/ConfigProperties.thy ===== *)
theory ConfigProperties
  imports CsvLaws RegistryLaws MapConfig ListenerConfig ExtensionProperties
begin

text \<open>
  Properties of what the configuration loads: static assignments and registries.
\<close>

text \<open>
  C18. A client whose DUID stands in the CSV file, in any spelling of its hexadecimal digits, is given the
  address and prefix of the last row for it.
\<close>

theorem csv_row_reaches_client:
  assumes "read_csv_file lib (earlier @ row # later) = Inr mapping"
    and "request_option C_ClientIdOption b = Some (Plain (ClientIdOption (Some d)))"
    and "DUID_save d = Inr bs" and "duid_representable d"
    and "id_field row = Field (lit ''duid:'' @ digits)" and "unhexlify digits = Inr bs"
    and "optional_value (parse_address lib) (address_field row) = Inr address"
    and "optional_value (parse_network lib) (prefix_field row) = Inr prefix"
    and "\<forall>r \<in> set later. \<forall>a. result_of lib r \<noteq> Gives (lit ''duid:'' @ hex_encode bs) a"
  shows "csv_get_assignment mapping b = Inr \<lparr>assigned_address = address, assigned_prefix = prefix\<rparr>"
proof -
  have key: "duid_key b = Inr (lit ''duid:'' @ hex_encode bs)"
    using assms(2,3) by (simp add: duid_key_def duid_name_def)
  have "result_of lib row = Gives (lit ''duid:'' @ hex_encode bs)
      \<lparr>assigned_address = address, assigned_prefix = prefix\<rparr>"
    using assms(3-8) normalise_duid [OF assms(6,3,4)]
    by (simp add: result_of_def parse_row_def field_text_def duid_name_def)
  then show ?thesis
    using csv_last_row [OF assms(1)] assms(9) duid_lookup [OF key] by blast
qed

definition ex_reader :: address_text where
  "ex_reader =
     \<lparr>parse_address = (\<lambda>s. if s = lit ''2001:db8::1'' then Inr ex_address else Inl ValueError),
      parse_network = (\<lambda>s. if s = lit ''2001:db8::/32'' then Inr (IPv6Network 0x20010db8000000000000000000000000 32)
        else Inl ValueError)\<rparr>"

definition ex_csv_row :: csv_row where
  "ex_csv_row =
     \<lparr>id_field = Field (lit ''duid:'' @ lit ''00030001020000000001''),
      address_field = Field (lit '' 2001:db8::1 ''), prefix_field = Field []\<rparr>"

definition ex_assignment :: assignment where
  "ex_assignment = \<lparr>assigned_address = Some ex_address, assigned_prefix = None\<rparr>"

lemma ex_client_octets: "DUID_save ex_client = Inr [0, 3, 0, 1, 2, 0, 0, 0, 0, 1]" "duid_representable ex_client"
  by (simp_all add: ex_client_def be_bytes_numeral be_bytes_one)

lemma ex_fields:
  "optional_value (parse_address ex_reader) (address_field ex_csv_row) = Inr (Some ex_address)"
  "optional_value (parse_network ex_reader) (prefix_field ex_csv_row) = Inr None"
  by (simp_all add: optional_value_def field_text_def ex_csv_row_def ex_reader_def strip_space_def white_space_def lit_def)

lemma ex_row_digits: "unhexlify (lit ''00030001020000000001'') = Inr [0, 3, 0, 1, 2, 0, 0, 0, 0, 1]"
  by (simp add: lit_def hex_value_def)

lemma ex_row_gives:
  "result_of ex_reader ex_csv_row = Gives (lit ''duid:'' @ hex_encode [0, 3, 0, 1, 2, 0, 0, 0, 0, 1]) ex_assignment"
  using normalise_duid [OF ex_row_digits ex_client_octets]
  by (simp add: result_of_def parse_row_def ex_fields field_text_def duid_name_def ex_client_octets
      ex_assignment_def) (simp add: ex_csv_row_def field_text_def)

lemma ex_read: "read_csv_file ex_reader [ex_csv_row] =
    Inr [lit ''duid:'' @ hex_encode [0, 3, 0, 1, 2, 0, 0, 0, 0, 1] \<mapsto> ex_assignment]"
  by (simp add: read_csv_file_def ex_row_gives)

lemma ex_csv_client_id: "request_option C_ClientIdOption ex_replying = Some (Plain (ClientIdOption (Some ex_client)))"
  by (simp add: request_option_def ex_replying_def request_options_def ex_solicit_def get_option_of_type_def)

theorem csv_row_reaches_client_witness:
  "csv_get_assignment [lit ''duid:'' @ hex_encode [0, 3, 0, 1, 2, 0, 0, 0, 0, 1] \<mapsto> ex_assignment] ex_replying
     = Inr \<lparr>assigned_address = Some ex_address, assigned_prefix = None\<rparr>"
  using csv_row_reaches_client [of ex_reader "[]" ex_csv_row "[]", unfolded append_Nil, OF ex_read ex_csv_client_id
      ex_client_octets _ ex_row_digits ex_fields]
  by (simp add: ex_csv_row_def)

text \<open>
  C19. A database that has been built with exit code 0, from a file that is newer than all its entries, holds
  exactly what reading that file gives; so a client whose DUID stands there gets the same answer from both.
\<close>

theorem database_holds_csv_file:
  assumes "build_sqlite lib csv_mtime force csv_rows rows = (Inr 0, rows')"
    and "distinct (map fst rows)" and "\<forall>r \<in> set rows. snd (snd r) < csv_mtime"
  shows "read_csv_file lib csv_rows = Inr (stored_assignments rows') \<and>
    (\<forall>b k a. incoming_relay_messages b \<noteq> [] \<longrightarrow> duid_key b = Inr k \<longrightarrow> stored_assignments rows' k = Some a \<longrightarrow>
       sqlite_get_assignment (stored_assignments rows') b = Inr a \<and>
       csv_get_assignment (stored_assignments rows') b = Inr a)"
  using built_database [OF assms] sqlite_is_first duid_lookup
  by (auto simp: read_csv_file_def try_name_def)

theorem database_holds_csv_file_witness:
  "read_csv_file ex_reader [ex_csv_row] = Inr (stored_assignments
     [(lit ''duid:'' @ hex_encode [0, 3, 0, 1, 2, 0, 0, 0, 0, 1], ex_assignment, 7)])"
proof -
  have "build_sqlite ex_reader 7 True [ex_csv_row] [(lit ''old'', no_assignment, 5)]
      = (Inr 0, [(lit ''duid:'' @ hex_encode [0, 3, 0, 1, 2, 0, 0, 0, 0, 1], ex_assignment, 7)])"
    by (simp add: build_sqlite_def ex_row_gives newer_update_def insert_or_replace_def lit_def)
  from database_holds_csv_file [OF this] show ?thesis by simp
qed

text \<open>
  A line whose address or prefix is no address or network is skipped, whatever else it lacks.
\<close>

lemma wrong_value_is_skipped:
  assumes "optional_value (parse_address lib) (address_field row) = Inl ValueError \<or>
      (\<exists>a. optional_value (parse_address lib) (address_field row) = Inr a) \<and>
      optional_value (parse_network lib) (prefix_field row) = Inl ValueError"
  shows "parse_csv_file lib (row # rows) = parse_csv_file lib rows"
  using assms by (auto simp: result_of_def parse_row_def)

lemma wrong_value_is_skipped_witness:
  "parse_csv_file ex_reader [ex_csv_row\<lparr>address_field := Field (lit ''x''), prefix_field := NoValue\<rparr>]
     = parse_csv_file ex_reader []"
  by (rule wrong_value_is_skipped)
    (simp add: optional_value_def field_text_def ex_reader_def strip_space_def white_space_def lit_def)

text \<open>
  C32. The columns of a line are read in the order address, prefix, id.  A line that lacks a column when
  those before it could be read (so every line without an address), or has a DUID of less than two octets
  beside a readable address and prefix, keeps the whole file from being loaded.
\<close>

theorem short_line_stops_loading:
  assumes "row \<in> set rows"
    and "address_field row \<in> {NoColumn, NoValue} \<or>
      (\<exists>a. optional_value (parse_address lib) (address_field row) = Inr a) \<and>
      (prefix_field row \<in> {NoColumn, NoValue} \<or>
       (\<exists>p. optional_value (parse_network lib) (prefix_field row) = Inr p) \<and>
       (id_field row \<in> {NoColumn, NoValue} \<or>
        (\<exists>digits bs. id_field row = Field (lit ''duid:'' @ digits) \<and> unhexlify digits = Inr bs \<and> length bs < 2)))"
  shows "\<exists>e. read_csv_file lib rows = Inl e"
proof -
  have "DUID_parse bs 0 (Some (length bs)) = Inl StructError" if "length bs < 2" for bs
    using that by (simp add: DUID_parse_def DUID_determine_class_def unpack1_def)
  then have "\<exists>e. result_of lib row = Ends e"
    using assms(2)
    by (auto simp: result_of_def parse_row_def optional_value_def field_text_def normalise_id_prefixes)
  with ends_not_read [OF assms(1)] show ?thesis by blast
qed

theorem short_line_stops_loading_witness:
  "(\<exists>e. read_csv_file ex_reader [ex_csv_row, ex_csv_row\<lparr>address_field := NoValue\<rparr>] = Inl e)
   \<and> (\<exists>e. read_csv_file ex_reader [ex_csv_row\<lparr>prefix_field := NoValue\<rparr>] = Inl e)
   \<and> (\<exists>e. read_csv_file ex_reader [ex_csv_row\<lparr>id_field := NoValue\<rparr>] = Inl e)
   \<and> (\<exists>e. read_csv_file ex_reader [ex_csv_row\<lparr>id_field := Field (lit ''duid:'' @ lit ''00'')\<rparr>] = Inl e)"
proof -
  have short: "unhexlify (lit ''00'') = Inr [0]" by (simp add: lit_def hex_value_def)
  show ?thesis
    by (intro conjI; rule short_line_stops_loading, rule list.set_intros | rule list.set_intros(2), rule list.set_intros(1))
      (use short in \<open>auto simp: ex_fields\<close>)
qed

text \<open>
  The registry of messages that comes of the entry points of setup.py maps the numbers as the parser
  expects; and every message type is found by the name that the configuration uses for it, in any spelling
  with dashes, underscores or capitals.
\<close>

lemma message_types_by_name:
  "\<exists>reg. Registry (MessageRegistry_get_name \<circ> message_class_name) message_entry_points = Inr reg \<and>
     (\<forall>t. entries reg (Number t) = message_registry t) \<and>
     (\<forall>c. c \<noteq> C_UnknownMessage \<longrightarrow>
        (\<forall>value. camelcase_to_dash value = MessageRegistry_get_name (message_class_name c) \<longrightarrow>
           message_type reg value = Inr c))"
proof -
  let ?get_name = "MessageRegistry_get_name \<circ> message_class_name"
  let ?empty = "\<lparr>entries = (\<lambda>_. None), by_name = (\<lambda>_. None)\<rparr> :: message_class class_registry"
  have "\<forall>e \<in> set message_entry_points. \<exists>x. snd e = Loads x"
    by (simp add: message_entry_points_def)
  then obtain reg where steps: "run_steps (add_entry_point ?get_name) message_entry_points ?empty = Inr reg"
    using registry_loads_all by blast
  then have reg: "Registry ?get_name message_entry_points = Inr reg" by (simp add: Registry_def)
  have keys: "distinct (map (entry_key \<circ> fst) message_entry_points)"
    by (simp add: message_entry_points_def)
  have "distinct (map ?get_name (map (\<lambda>e. the (loads (snd e))) message_entry_points))"
    unfolding message_names by (simp add: lit_def)
  then have names: "distinct (map (?get_name \<circ> (\<lambda>e. the (loads (snd e)))) message_entry_points)"
    by (simp only: map_map)
  have "by_name reg (?get_name c) = Some c" if "c \<noteq> C_UnknownMessage" for c
  proof -
    have "\<exists>n. (n, Loads c) \<in> set message_entry_points"
      using that by (cases c rule: message_class_name.cases) (auto simp: message_entry_points_def)
    then show ?thesis using found_by_name [OF steps keys _ names] by fastforce
  qed
  with reg registry_data [OF reg] show ?thesis
    by (auto simp: message_registry_entries message_type_def)
qed

lemma message_types_by_name_witness:
  "\<exists>reg. Registry (MessageRegistry_get_name \<circ> message_class_name) message_entry_points = Inr reg \<and>
     message_type reg (lit ''InformationRequest'') = Inr (ClientServer InformationRequestMessage)"
proof -
  have "camelcase_to_dash (lit ''InformationRequest'') =
      MessageRegistry_get_name (message_class_name (ClientServer InformationRequestMessage))"
    by (simp add: MessageRegistry_get_name_def Registry_get_name_def without_suffix_def lit_def name_defs')
  then show ?thesis using message_types_by_name by blast
qed

lemma power_eq_1_iff_two: "(2::int) ^ k = 1 \<longleftrightarrow> k = 0"
  by (cases k) (auto simp: pos_zmult_eq_1_iff)

text \<open>
  C29. A mapping rule whose section is accepted splits the sixteen bits of a port number into offset, PSID and
  contiguous ports as its ratios say, and leaves the bits after its prefixes within 64.  The option that is
  made of it is valid except when both ratios are 1, where its offset is 16; and it is marked as
  a forwarding rule for any text, \<open>no\<close> as well.
\<close>

theorem accepted_map_rule:
  assumes "power_of_two ratio = Inr (sharing_ratio s)" and "power_of_two ports = Inr (contiguous_ports s)"
    and "MapRule_validate s = Inr ()" and "ipv4_network_ok (rule_ipv4_prefix s)"
    and "forwarding_mapping s \<noteq> []"
  shows "2 ^ nat (k_bits s) = sharing_ratio s \<and> 2 ^ nat (m_bits s) = contiguous_ports s \<and>
    0 \<le> a_bits s \<and> a_bits s + k_bits s + m_bits s = 16 \<and>
    int (prefixlen (rule_ipv6_prefix s)) + rule_ea_len s \<le> 64 \<and>
    (option_validate core_containment (MapRule_create s) = Inr () \<longleftrightarrow>
       \<not> (sharing_ratio s = 1 \<and> contiguous_ports s = 1)) \<and>
    (\<exists>options. MapRule_create s =
       S46RuleOption 1 (rule_ea_len s) (rule_ipv4_prefix s) (rule_ipv6_prefix s) options)"
proof -
  obtain k m where k: "sharing_ratio s = 2 ^ k" and m: "contiguous_ports s = 2 ^ m"
    using assms(1,2) by (auto simp: power_of_two_iff)
  then have bits: "k_bits s = int k" "m_bits s = int m" "a_bits s = 16 - int k - int m"
    by (simp_all add: k_bits_def m_bits_def a_bits_def)
  have fits: "0 \<le> a_bits s" "int (prefixlen (rule_ipv6_prefix s)) + rule_ea_len s \<le> 64"
    using assms(3) by (auto simp: MapRule_validate_def split: if_splits)
  have ea: "0 \<le> rule_ea_len s" "rule_ea_len s \<le> 48"
    using assms(4) fits(1) bits by (auto simp: rule_ea_len_def Let_def ipv4_network_ok_def)
  have flags: "set_fmr True 0 = 1" by (simp add: set_fmr_def)
  have contains: "validate_contains core_containment (OptionClass C_S46RuleOption)
      [OptionClass C_S46PortParametersOption] = Inr ()"
    "validate_contains core_containment (OptionClass C_S46PortParametersOption) [] = Inr ()"
    unfolding core_by by code_simp+
  have "S46PortParametersOption_validate (a_bits s) 0 0 = Inr () \<longleftrightarrow> a_bits s \<noteq> 16"
    using fits(1) bits by (auto simp: S46PortParametersOption_validate_def guard_def)
  also have "\<dots> \<longleftrightarrow> \<not> (sharing_ratio s = 1 \<and> contiguous_ports s = 1)"
    unfolding k m power_eq_1_iff_two using bits by auto
  finally have "option_validate core_containment (MapRule_create s) = Inr () \<longleftrightarrow>
      \<not> (sharing_ratio s = 1 \<and> contiguous_ports s = 1)"
    using ea assms(5)
    by (cases "S46PortParametersOption_validate (a_bits s) 0 0")
      (auto simp: MapRule_create_def flags S46RuleOption_validate_def contains guard_def)
  then show ?thesis
    using bits k m fits assms(5) by (auto simp: MapRule_create_def flags)
qed

definition ex_rule :: map_rule where
  "ex_rule =
     \<lparr>rule_ipv6_prefix = IPv6Network 0x20010db8000000000000000000000000 40,
      rule_ipv4_prefix = IPv4Network 0xC0000200 24, contiguous_ports = 4, sharing_ratio = 256,
      forwarding_mapping = lit ''no''\<rparr>"

theorem accepted_map_rule_witness:
  "a_bits ex_rule = 6 \<and> option_validate core_containment (MapRule_create ex_rule) = Inr ()"
proof -
  have numbers: "power_of_two (lit ''256'') = Inr 256" "power_of_two (lit ''4'') = Inr 4"
    by (simp_all add: power_of_two_def number_defs)
  have bits: "int_log2 256 = 8" "int_log2 4 = 2"
    using int_log2_power [of 8] int_log2_power [of 2] by simp_all
  have "MapRule_validate ex_rule = Inr ()"
    by (simp add: MapRule_validate_def a_bits_def k_bits_def m_bits_def rule_ea_len_def ex_rule_def bits)
  moreover have "ipv4_network_ok (rule_ipv4_prefix ex_rule)"
    by (simp add: ex_rule_def ipv4_network_ok_def ipv4_hostmask_def mask_eq_exp_minus_1)
  ultimately show ?thesis
    using accepted_map_rule [of "lit ''256''" ex_rule "lit ''4''"] numbers
    by (simp add: ex_rule_def lit_def a_bits_def k_bits_def m_bits_def bits)
qed

text \<open>
  A listener section that is accepted gives a listener: whatever sockets of the previous configuration
  there are, those that are chosen fit together, and the link is identified by the address of the section.
\<close>

lemma accepted_sections_give_listeners:
  shows "(validate_multicast exists addresses reply_from link = Inr (r, l) \<longrightarrow>
      is_link_local r \<and> multicast_create name i olds r l ms n m =
        Inr \<lparr>udp_interface_id = name, udp_listen_address = All_DHCP_Relay_Agents_and_Servers,
          udp_global_address = l, udp_marks = ms, udp_interface_index = i\<rparr>) \<and>
    (validate_unicast address interfaces = Inr interface \<longrightarrow>
      unicast_create interface address olds ms n =
        Inr \<lparr>udp_interface_id = interface, udp_listen_address = address, udp_global_address = address,
          udp_marks = ms, udp_interface_index = 0\<rparr>)"
  using multicast_created unicast_created
  by (auto simp: validate_multicast_def find_Some_iff split: if_splits option.splits elim!: rbind_InrE)

lemma accepted_sections_give_listeners_witness:
  "\<exists>listener. multicast_create [101] 2
     [OldUDP (new_socket True 4 All_DHCP_Relay_Agents_and_Servers 2) (new_socket True 5 0xFE800000000000000000000000000001 2)]
     0xFE800000000000000000000000000001 0 [] 6 7 = Inr listener"
proof -
  have "is_link_local 0xFE800000000000000000000000000001"
    by (simp add: is_link_local_def in_network_def broadcast_address_def hostmask_def mask_eq_exp_minus_1)
  moreover from this have "\<not> is_global_unicast 0xFE800000000000000000000000000001"
    using global_unicast_simps(1) by blast
  ultimately have "validate_multicast True [0xFE800000000000000000000000000001] None None
      = Inr (0xFE800000000000000000000000000001, 0)"
    by (simp add: validate_multicast_def or_else_def)
  then show ?thesis using accepted_sections_give_listeners by blast
qed

text \<open>
  The limit of connections in a TCP section has no effect: the listener that is made accepts clients
  while fewer than ten connections are open, whatever the section says.
\<close>

lemma configured_connection_limit_is_ignored:
  assumes "validate_unicast_tcp section interfaces = Inr interface"
  shows "\<exists>listener. unicast_tcp_create section olds n = Inr listener \<and>
    (\<forall>open client. accepts_connection open (tcp_max_connections listener) (tcp_allow_from listener) client
       \<longleftrightarrow> open < 10 \<and> (allow_from section = [] \<or> list_ex (in_network client) (allow_from section)))"
  using tcp_created [OF assms, of olds n] by (auto simp: accepts_connection_def)

lemma configured_connection_limit_is_ignored_witness:
  "\<exists>listener. unicast_tcp_create
       \<lparr>tcp_section_address = ex_address, max_connections = 1, allow_from = []\<rparr> [] 3 = Inr listener \<and>
     accepts_connection 9 (tcp_max_connections listener) (tcp_allow_from listener) ex_address"
proof -
  have "is_global_unicast ex_address"
    by (simp add: is_global_unicast_def ex_address_def in_network_def broadcast_address_def hostmask_def
        mask_eq_exp_minus_1)
  then have "validate_unicast_tcp \<lparr>tcp_section_address = ex_address, max_connections = 1, allow_from = []\<rparr>
      [([101], [ex_address])] = Inr [101]"
    by (simp add: validate_unicast_tcp_def find_interface_def)
  from configured_connection_limit_is_ignored [OF this, of "[]" 3] show ?thesis by auto
qed

end
