(* ===== verification/LeasequeryClient.thy ===== *)
theory LeasequeryClient
  imports Names Leasequery Listeners Complex_Main
begin

text \<open>
  dhcpkit/ipv6/client/test_leasequery.py: the program that sends a leasequery to a server and shows the
  answers.  Modelled are the queries with their DUIDs, the two kinds of sockets, and the loop that
  waits for answers; the command line is an argument, and so are what the sockets deliver and the clock.
\<close>

subsection \<open>Queries\<close>

text \<open>\<open>str.split(':')\<close> and \<open>int(s, 10)\<close>; a wrong one of them raises \<open>ValueError\<close>, as does a wrong form.\<close>

definition parse_duid :: "pystr \<Rightarrow> duid res" where
  "parse_duid duid_str =
     (let duid_parts = split_on 58 duid_str; duid_type = hd duid_parts in
      if duid_type = lit ''enterprise'' then
        (case duid_parts of
           [_, number, identifier] \<Rightarrow>
             rbind (py_int number) (\<lambda>hardware_type.
             rbind (if take 2 identifier = lit ''0x'' then from_hex (drop 2 identifier)
                    else utf8_encode identifier) (\<lambda>identifier.
             Inr (EnterpriseDUID hardware_type identifier)))
         | _ \<Rightarrow> Inl ValueError)
      else if duid_type = lit ''linklayer'' then
        (case duid_parts of
           [_, number, hex] \<Rightarrow>
             rbind (py_int number) (\<lambda>hardware_type.
             rbind (from_hex hex) (\<lambda>address. Inr (LinkLayerDUID hardware_type address)))
         | _ \<Rightarrow> Inl ValueError)
      else if duid_type = lit ''linklayer-time'' then
        (case duid_parts of
           [_, number, time, hex] \<Rightarrow>
             rbind (py_int number) (\<lambda>hardware_type.
             rbind (py_int time) (\<lambda>timestamp.
             rbind (from_hex hex) (\<lambda>address. Inr (LinkLayerTimeDUID hardware_type timestamp address))))
         | _ \<Rightarrow> Inl ValueError)
      else Inl ValueError)"

text \<open>
  The subcommands.  For a remote id, argparse stores the enterprise number under the name with a dash,
  so reading the attribute \<open>enterprise_nr\<close> fails.
\<close>

datatype query_command =
    Client_address ipv6
  | Client_id pystr
  | Relay_id pystr
  | Link_address
  | Remote_id pystr pystr

definition create_query :: "query_command \<Rightarrow> ipv6 \<Rightarrow> dhcp_option list \<Rightarrow> dhcp_option res" where
  "create_query command link more_options =
     (case command of
        Client_address a \<Rightarrow> Inr (LQQueryOption 1 link (IAAddressOption (Some a) 0 0 [] # more_options))
      | Client_id s \<Rightarrow>
          rbind (parse_duid s) (\<lambda>d. Inr (LQQueryOption 2 link (Plain (ClientIdOption (Some d)) # more_options)))
      | Relay_id s \<Rightarrow>
          rbind (parse_duid s) (\<lambda>d.
          Inr (LQQueryOption 3 link (Plain (ExtensionOption (RelayIdOption (Some d))) # more_options)))
      | Link_address \<Rightarrow> Inr (LQQueryOption 4 link more_options)
      | Remote_id _ _ \<Rightarrow> Inl AttributeError)"

record tester_options =
  query_command :: query_command
  query_server :: ipv6
  query_tcp :: bool
  query_link_address :: ipv6
  query_relay_data :: bool

text \<open>The message: with the option 47 requested if relay data are wanted.\<close>

definition tester_duid :: duid where
  "tester_duid = EnterpriseDUID 40208 (map of_char ''LeaseQueryTester'')"

definition query_message :: "tester_options \<Rightarrow> bytes \<Rightarrow> message res" where
  "query_message opts transaction_id =
     rbind (create_query (query_command opts) (query_link_address opts)
              (if query_relay_data opts then [Plain (OptionRequestOption [47])] else [])) (\<lambda>query.
     Inr (ClientServerMessage LeasequeryMessage transaction_id
       [Plain (ClientIdOption (Some tester_duid)), query]))"

subsection \<open>Sockets\<close>

text \<open>
  A stream socket: what arrives on it in pieces, and then whether the peer closes the connection (every
  further \<open>recv\<close> gives no octets) or nothing more comes in time (\<open>socket.timeout\<close>).
\<close>

record query_stream =
  stream_pieces :: "bytes list"
  stream_closed :: bool

datatype recv_failure = TimedOut | RecvRaises py_error

definition stream_recv :: "nat \<Rightarrow> query_stream \<Rightarrow> (recv_failure + bytes) \<times> query_stream" where
  "stream_recv amount s =
     (if stream_pieces s = [] \<and> \<not> stream_closed s then (Inl TimedOut, s)
      else case socket_recv amount (stream_pieces s) of
        (data, pieces) \<Rightarrow> (Inr data, s\<lparr>stream_pieces := pieces\<rparr>))"

text \<open>
  \<open>while len(packet) < n: packet += self.socket.recv(n - len(packet))\<close>; \<open>None\<close> if the loop never ends, as it
  does when the peer has closed the connection before.
\<close>

partial_function (option) recv_exactly ::
  "nat \<Rightarrow> bytes \<Rightarrow> query_stream \<Rightarrow> ((recv_failure + bytes) \<times> query_stream) option" where
  "recv_exactly n packet s =
     (if length packet < n then
        (case stream_recv (n - length packet) s of
           (Inl e, s) \<Rightarrow> Some (Inl e, s)
         | (Inr data, s) \<Rightarrow> recv_exactly n (packet @ data) s)
      else Some (Inr packet, s))"

declare recv_exactly.simps [code]

text \<open>\<open>TCPClientSocket.send\<close> and \<open>recv\<close>; a packet that has been received whole and does not parse raises.\<close>

definition tcp_client_send :: "message \<Rightarrow> bytes res" where
  "tcp_client_send m = rbind (message_save m) tcp_frame"

definition parsed :: "registry \<Rightarrow> bytes \<Rightarrow> recv_failure + message" where
  "parsed R packet =
     (case Message_parse R packet of Inl e \<Rightarrow> Inl (RecvRaises e) | Inr (message_length, m) \<Rightarrow> Inr m)"

definition tcp_client_recv ::
  "registry \<Rightarrow> query_stream \<Rightarrow> ((recv_failure + message) \<times> query_stream) option" where
  "tcp_client_recv R s =
     (case recv_exactly 2 [] s of
        None \<Rightarrow> None
      | Some (Inl e, s) \<Rightarrow> Some (Inl e, s)
      | Some (Inr h, s) \<Rightarrow>
          (case recv_exactly (be_nat h) [] s of
             None \<Rightarrow> None
           | Some (Inl e, s) \<Rightarrow> Some (Inl e, s)
           | Some (Inr packet, s) \<Rightarrow> Some (parsed R packet, s)))"

text \<open>\<open>UDPClientSocket.recv\<close>: the datagrams that arrive in time.\<close>

definition udp_client_recv ::
  "registry \<Rightarrow> bytes list \<Rightarrow> ((recv_failure + message) \<times> bytes list) option" where
  "udp_client_recv R datagrams =
     (case datagrams of
        [] \<Rightarrow> Some (Inl TimedOut, [])
      | packet # later \<Rightarrow> Some (parsed R (take 65535 packet), later))"

subsection \<open>Waiting for answers\<close>

text \<open>The answers that end a bulk leasequery.\<close>

definition last_answer :: "message \<Rightarrow> bool" where
  "last_answer m \<longleftrightarrow>
     (case m of
        ClientServerMessage c transaction_id options \<Rightarrow>
          c = LeasequeryReplyMessage \<and> get_option_of_type [C_ClientDataOption] options = None
          \<or> c = LeasequeryDoneMessage
      | _ \<Rightarrow> False)"

text \<open>
  The loop of \<open>main\<close>.  The clock is read twice in a turn: for the condition of the loop, and for the timeout
  of the socket, which refuses a negative one.  The messages received, and the exception that ends the loop
  if there is one; \<open>None\<close> when it does not get that far, because a \<open>recv\<close> never returns or because the given readings of the
  clock are over.
\<close>

fun wait_for_answers ::
  "('s \<Rightarrow> ((recv_failure + message) \<times> 's) option) \<Rightarrow> bool \<Rightarrow> bool \<Rightarrow> rat \<Rightarrow> (rat \<times> rat) list \<Rightarrow> 's \<Rightarrow>
   message list \<Rightarrow> (message list \<times> py_error option) option" where
  "wait_for_answers recv tcp wait_for_multiple deadline [] s received = None"
| "wait_for_answers recv tcp wait_for_multiple deadline ((now, later) # clock) s received =
     (if \<not> now < deadline then Some (received, None)
      else if deadline - later < 0 then Some (received, Some ValueError)
      else
        (case recv s of
           None \<Rightarrow> None
         | Some (Inl TimedOut, s) \<Rightarrow> wait_for_answers recv tcp wait_for_multiple deadline clock s received
         | Some (Inl (RecvRaises e), s) \<Rightarrow> Some (received, Some e)
         | Some (Inr message_in, s) \<Rightarrow>
             (let received = received @ [message_in] in
              if tcp \<and> last_answer message_in \<or> \<not> wait_for_multiple then Some (received, None)
              else wait_for_answers recv tcp wait_for_multiple deadline clock s received)))"

text \<open>
  \<open>main\<close> and \<open>run\<close> over TCP, from the query to the exit code: what is sent, the messages that are shown, and
  the code; a multicast address of the server is refused.
\<close>

definition tcp_main ::
  "registry \<Rightarrow> tester_options \<Rightarrow> bytes \<Rightarrow> rat \<Rightarrow> (rat \<times> rat) list \<Rightarrow> query_stream \<Rightarrow>
   (bytes \<times> message list \<times> int) option" where
  "tcp_main R opts transaction_id start clock s =
     (case query_message opts transaction_id of
        Inl _ \<Rightarrow> Some ([], [], 1)
      | Inr message_out \<Rightarrow>
          if is_multicast (query_server opts) then Some ([], [], 1)
          else
            (case tcp_client_send message_out of
               Inl _ \<Rightarrow> Some ([], [], 1)
             | Inr sent \<Rightarrow>
                 map_option (\<lambda>(received, error). (sent, received, if error = None then 0 else 1))
                   (wait_for_answers (tcp_client_recv R) True True (start + 3) clock s [])))"

text \<open>The same over UDP, where several answers are awaited only from a multicast address.\<close>

definition udp_main ::
  "registry \<Rightarrow> tester_options \<Rightarrow> bytes \<Rightarrow> rat \<Rightarrow> (rat \<times> rat) list \<Rightarrow> bytes list \<Rightarrow>
   (bytes \<times> message list \<times> int) option" where
  "udp_main R opts transaction_id start clock datagrams =
     (case rbind (query_message opts transaction_id) message_save of
        Inl _ \<Rightarrow> Some ([], [], 1)
      | Inr sent \<Rightarrow>
          map_option (\<lambda>(received, error). (sent, received, if error = None then 0 else 1))
            (wait_for_answers (udp_client_recv R) False (is_multicast (query_server opts)) (start + 3) clock
               datagrams []))"

subsection \<open>Reading a stream of framed messages\<close>

definition arriving :: "query_stream \<Rightarrow> bytes" where
  "arriving s = concat (stream_pieces s)"

definition pieces_present :: "query_stream \<Rightarrow> bool" where
  "pieces_present s \<longleftrightarrow> [] \<notin> set (stream_pieces s)"

lemma stream_recv_some:
  assumes "pieces_present s" and "arriving s \<noteq> []" and "0 < amount"
  shows "\<exists>data s'. stream_recv amount s = (Inr data, s') \<and> data \<noteq> [] \<and> length data \<le> amount \<and>
    arriving s = data @ arriving s' \<and> pieces_present s' \<and> stream_closed s' = stream_closed s"
proof -
  obtain p ps where p: "stream_pieces s = p # ps" "p \<noteq> []"
    using assms by (cases "stream_pieces s") (auto simp: arriving_def pieces_present_def)
  then show ?thesis
    using assms by (auto simp: stream_recv_def socket_recv_def arriving_def pieces_present_def min_def)
qed

lemma recv_exactly_stream:
  assumes "pieces_present s" and "length packet \<le> n" and "n \<le> length packet + length (arriving s)"
  shows "\<exists>s'. recv_exactly n packet s = Some (Inr (packet @ take (n - length packet) (arriving s)), s') \<and>
    arriving s' = drop (n - length packet) (arriving s) \<and> pieces_present s' \<and>
    stream_closed s' = stream_closed s"
  using assms
proof (induction "n - length packet" arbitrary: packet s rule: less_induct)
  case less
  show ?case
  proof (cases "length packet < n")
    case True
    then obtain data s' where data: "stream_recv (n - length packet) s = (Inr data, s')" "data \<noteq> []"
      "length data \<le> n - length packet" "arriving s = data @ arriving s'" "pieces_present s'"
      "stream_closed s' = stream_closed s"
      using stream_recv_some [OF less.prems(1), of "n - length packet"] less.prems(3) by fastforce
    have "n - length (packet @ data) < n - length packet" using data(2) True by (cases data) auto
    moreover have "length (packet @ data) \<le> n" "n \<le> length (packet @ data) + length (arriving s')"
      using data(3,4) True less.prems(3) by simp_all
    ultimately obtain s'' where
      "recv_exactly n (packet @ data) s' =
         Some (Inr ((packet @ data) @ take (n - length (packet @ data)) (arriving s')), s'')"
      "arriving s'' = drop (n - length (packet @ data)) (arriving s')" "pieces_present s''"
      "stream_closed s'' = stream_closed s'"
      using less.hyps [of "packet @ data" s'] data(5) by blast
    then show ?thesis
      using True data by (subst recv_exactly.simps) (auto simp: diff_diff_left add.commute)
  qed (use less.prems in \<open>auto simp: recv_exactly.simps\<close>)
qed

text \<open>A message that the server framed is received as it was.\<close>

lemma tcp_client_recv_frame:
  assumes "tcp_frame packet = Inr octets" and "arriving s = octets @ rest" and "pieces_present s"
  shows "\<exists>s'. tcp_client_recv R s = Some (parsed R packet, s') \<and> arriving s' = rest \<and> pieces_present s'"
proof -
  have octets: "octets = be_bytes 2 (length packet) @ packet" and len: "length packet < 65536"
    using assms(1) by (auto simp: tcp_frame_def pack_fields_eq_Inr elim!: rbind_InrE)
  obtain s1 where s1: "recv_exactly 2 [] s = Some (Inr (be_bytes 2 (length packet)), s1)"
    "arriving s1 = packet @ rest" "pieces_present s1"
    using recv_exactly_stream [OF assms(3), of "[]" 2] assms(2) octets by auto
  obtain s2 where "recv_exactly (length packet) [] s1 = Some (Inr packet, s2)"
    "arriving s2 = rest" "pieces_present s2"
    using recv_exactly_stream [OF s1(3), of "[]" "length packet"] s1(2) by auto
  then show ?thesis
    using s1 len by (simp add: tcp_client_recv_def be_nat_be_bytes)
qed

text \<open>
  A \<open>recv\<close> of a connection that its peer has closed never returns while octets are missing.
\<close>

lemma recv_exactly_closed:
  assumes "recv_exactly n packet s = Some r"
  shows "stream_closed s \<longrightarrow> pieces_present s \<longrightarrow> n \<le> length packet + length (arriving s)"
proof (rule recv_exactly.raw_induct [where P = "\<lambda>n packet s r. stream_closed s \<longrightarrow> pieces_present s \<longrightarrow>
      n \<le> length packet + length (arriving s)", OF _ assms], intro impI)
  fix f n packet s r
  assume IH: "\<And>n packet s r. f n packet s = Some r \<Longrightarrow>
      stream_closed s \<longrightarrow> pieces_present s \<longrightarrow> n \<le> length packet + length (arriving s)"
    and body: "(if length packet < n then
        (case stream_recv (n - length packet) s of
           (Inl e, s) \<Rightarrow> Some (Inl e, s)
         | (Inr data, s) \<Rightarrow> f n (packet @ data) s)
      else Some (Inr packet, s)) = Some r"
    and s: "stream_closed s" "pieces_present s"
  consider "\<not> length packet < n" | "length packet < n" "arriving s = []" | "length packet < n" "arriving s \<noteq> []"
    by blast
  then show "n \<le> length packet + length (arriving s)"
  proof cases
    case 2
    with s have "stream_recv (n - length packet) s = (Inr [], s)"
      by (cases "stream_pieces s") (auto simp: stream_recv_def socket_recv_def arriving_def pieces_present_def)
    with 2 body have "f n packet s = Some r" by simp
    with IH s show ?thesis by blast
  next
    case 3
    then obtain data s' where data: "stream_recv (n - length packet) s = (Inr data, s')"
      "arriving s = data @ arriving s'" "pieces_present s'" "stream_closed s' = stream_closed s"
      using stream_recv_some [OF s(2), of "n - length packet"] by auto
    with 3 body have "f n (packet @ data) s' = Some r" by simp
    from IH [OF this] s data show ?thesis by simp
  qed simp
qed

lemma recv_never_returns:
  assumes "stream_closed s" and "pieces_present s" and "length (arriving s) < n"
  shows "recv_exactly n [] s = None"
  using recv_exactly_closed [of n "[]" s] assms by (cases "recv_exactly n [] s") auto

end
