(* ===== verification/ClientProperties.thy ===== *)
theory ClientProperties
  imports LeasequeryClient LeaseProperties
begin

text \<open>
  Properties of the program that sends leasequeries, together with the handler that answers them.
\<close>

lemma told_options:
  assumes "generate_client_data_options R sens now st row_ids requested = Inr leases" and "(l, d) \<in> set leases"
  shows "\<exists>os. d = ClientDataOption os"
  using assms unfolding generate_client_data_options_def
  by (fastforce simp: client_data_option_def Let_def elim!: rbind_InrE dest: concat_res_set)

lemma found_leases_are_client_data:
  assumes "sqlite_find_leases R sens now st query = Inr (n, leases)" and "(l, d) \<in> set leases"
  shows "\<exists>os. d = ClientDataOption os"
  using assms told_options
  by (auto simp: sqlite_find_leases_def res_exception_def Let_def elim!: rbind_InrE split: option.splits if_splits sum.splits)

text \<open>The client over a list of messages of which only the last one ends its loop.\<close>

lemma wait_for_framed_answers:
  assumes "concat_res tcp_client_send (ms @ [final]) = Inr octets"
    and "arriving s = octets @ rest" and "pieces_present s"
    and "\<forall>m \<in> set (ms @ [final]). message_validate T m = Inr () \<and> message_representable R m"
    and "\<forall>m \<in> set ms. \<not> last_answer m" and "last_answer final"
    and "length ms < length clock" and "\<forall>(now, later) \<in> set clock. now < deadline \<and> later \<le> deadline"
  shows "wait_for_answers (tcp_client_recv R) True True deadline clock s received
    = Some (received @ ms @ [final], None)"
  using assms
proof (induction ms arbitrary: octets s clock received)
  case Nil
  then obtain bs where bs: "message_save final = Inr bs" "tcp_frame bs = Inr octets"
    by (auto simp: tcp_client_send_def elim!: rbind_InrE)
  obtain now later clock' where clock: "clock = (now, later) # clock'" using Nil.prems(7) by (cases clock) auto
  have "parsed R bs = Inr final"
    using message_roundtrip [OF bs(1), of T R] Nil.prems(4) by (simp add: parsed_def)
  with tcp_client_recv_frame [OF bs(2) Nil.prems(2,3), of R] Nil.prems(6,8) show ?case
    by (auto simp: clock)
next
  case (Cons m ms)
  obtain frame octets' where frame: "tcp_client_send m = Inr frame"
    and octets: "concat_res tcp_client_send (ms @ [final]) = Inr octets'" "octets = frame @ octets'"
    using Cons.prems(1) by (auto elim!: rbind_InrE)
  then obtain bs where bs: "message_save m = Inr bs" "tcp_frame bs = Inr frame"
    by (auto simp: tcp_client_send_def elim!: rbind_InrE)
  obtain now later clock' where clock: "clock = (now, later) # clock'" using Cons.prems(7) by (cases clock) auto
  have "parsed R bs = Inr m"
    using message_roundtrip [OF bs(1), of T R] Cons.prems(4) by (simp add: parsed_def)
  with tcp_client_recv_frame [OF bs(2) _ Cons.prems(3), of "octets' @ rest" R] Cons.prems(2) octets(2)
  obtain s' where s': "tcp_client_recv R s = Some (Inr m, s')" "arriving s' = octets' @ rest" "pieces_present s'"
    by auto
  have "wait_for_answers (tcp_client_recv R) True True deadline clock' s' (received @ [m])
      = Some ((received @ [m]) @ ms @ [final], None)"
    using Cons.prems(4-8) clock by (intro Cons.IH [OF octets(1) s'(2,3)]) auto
  then show ?case using s'(1) Cons.prems(5,8) by (auto simp: clock)
qed

text \<open>The answers of the handler, as the client takes them.\<close>

lemma bulk_answer_ends_last:
  assumes "request b = Some req" and "cs_class req = LeasequeryMessage" and "received_over_tcp b"
    and "response b = Some m" and "cs_class m = LeasequeryReplyMessage"
    and "get_unhandled_options [C_LQQueryOption] b = query # queries"
    and "find_leases query = Inr (int (length leases), leases)" and "leases \<noteq> []"
    and "\<forall>(l, d) \<in> set leases. \<exists>os. d = ClientDataOption os"
    and "LeasequeryHandler_handle find_leases as_set b = Inr b'"
  shows "\<exists>ms final. map cs_message (messages_iter (responses b')) = ms @ [final] \<and>
    length ms = length leases \<and> (\<forall>x \<in> set ms. \<not> last_answer x) \<and> last_answer final"
proof -
  obtain l d rest where leases: "leases = (l, d) # rest" using assms(8) by (cases leases) auto
  then obtain os where d: "d = ClientDataOption os" using assms(9) by auto
  let ?b = "(mark_handled query b)\<lparr>responses := \<lparr>first_message = Some (m\<lparr>cs_options := cs_options m @ [d]\<rparr>),
      subsequent_messages = generate_data_messages (cs_transaction_id m) rest\<rparr>\<rparr>"
  have "LeasequeryHandler_handle find_leases as_set b = Inr ?b"
    using assms(1-4,6,7) unfolding leases
    by (simp add: LeasequeryHandler_handle_def Let_def mark_handled_def response_def)
  then have b': "messages_iter (responses b') =
      m\<lparr>cs_options := cs_options m @ [d]\<rparr> # generate_data_messages (cs_transaction_id m) rest"
    using assms(10) by (auto simp: messages_iter_def)
  let ?first = "cs_message (m\<lparr>cs_options := cs_options m @ [d]\<rparr>)"
  have "get_option_of_type [C_ClientDataOption] (cs_options m @ [d]) \<noteq> None"
    by (auto simp: get_option_of_type_def find_None_iff d)
  then have first: "\<not> last_answer ?first"
    by (simp add: last_answer_def cs_message_def assms(5))
  have data: "\<forall>x \<in> set (map cs_message (map (\<lambda>(query_link, data_option).
      \<lparr>cs_class = LeasequeryDataMessage, cs_transaction_id = t, cs_options = [data_option]\<rparr>) rest)).
      \<not> last_answer x" for t
    by (auto simp: last_answer_def cs_message_def)
  show ?thesis
    using first data [of "cs_transaction_id m"] unfolding b' generate_data_messages_def leases
    by (intro exI [of _ "?first # map cs_message (map (\<lambda>(query_link, data_option).
          \<lparr>cs_class = LeasequeryDataMessage, cs_transaction_id = cs_transaction_id m, cs_options = [data_option]\<rparr>) rest)"]
        exI conjI) (auto simp: last_answer_def cs_message_def)
qed

text \<open>
  C17. A bulk leasequery from end to end: the client that waits for the answers of the handler over TCP, in
  whatever pieces they arrive, takes in exactly the messages that the handler made of the leases in the store, in
  order, and ends after the last one, if its time is not over before.
\<close>

theorem bulk_answer_reaches_client:
  assumes "store_history sens st" and "request b = Some req" and "cs_class req = LeasequeryMessage"
    and "received_over_tcp b" and "response b = Some m" and "cs_class m = LeasequeryReplyMessage"
    and "get_unhandled_options [C_LQQueryOption] b = query # queries"
    and "sqlite_find_leases R sens now st query = Inr (n, leases)" and "0 < n"
    and "LeasequeryHandler_handle (sqlite_find_leases R sens now st) as_set b = Inr b'"
    and "concat_res tcp_client_send (map cs_message (messages_iter (responses b'))) = Inr octets"
    and "\<forall>x \<in> set (messages_iter (responses b')).
      message_validate T (cs_message x) = Inr () \<and> message_representable R' (cs_message x)"
    and "concat pieces = octets @ beyond" and "[] \<notin> set pieces"
    and "length leases < length clock" and "\<forall>(t, t') \<in> set clock. t < deadline \<and> t' \<le> deadline"
  shows "wait_for_answers (tcp_client_recv R') True True deadline clock
      \<lparr>stream_pieces = pieces, stream_closed = hung_up\<rparr> []
    = Some (map cs_message (messages_iter (responses b')), None)"
proof -
  have n: "n = int (length leases)"
    using sqlite_counts_leases [OF store_history_ok [OF assms(1)] assms(8,9)] .
  have "\<forall>(l, d) \<in> set leases. \<exists>os. d = ClientDataOption os"
    using found_leases_are_client_data [OF assms(8)] by blast
  with bulk_answer_ends_last [OF assms(2-7) _ _ _ assms(10), of leases] n assms(8,9)
  obtain ms final where ms: "map cs_message (messages_iter (responses b')) = ms @ [final]"
    "length ms = length leases" "\<forall>x \<in> set ms. \<not> last_answer x" "last_answer final"
    by auto
  have "\<forall>x \<in> set (ms @ [final]). message_validate T x = Inr () \<and> message_representable R' x"
    using assms(12) by (auto simp flip: ms(1))
  then show ?thesis
    using wait_for_framed_answers [of ms final octets _ beyond T R' clock deadline "[]"] assms(11,13-16) ms
    by (simp add: arriving_def pieces_present_def)
qed

definition open_rules :: containment where
  "open_rules =
     map (\<lambda>k. (k, [(Option_class, 0, infinite_occurrence)]))
       [MessageClass (ClientServer LeasequeryReplyMessage), MessageClass (ClientServer LeasequeryDoneMessage),
        OptionClass C_ClientDataOption, OptionClass C_IAAddressOption]"

definition ex_answers :: "client_server list" where
  "ex_answers =
     [\<lparr>cs_class = LeasequeryReplyMessage, cs_transaction_id = [1, 2, 3], cs_options = [ex_told]\<rparr>,
      \<lparr>cs_class = LeasequeryDoneMessage, cs_transaction_id = [1, 2, 3],
        cs_options = [Plain (StatusCodeOption 0 (lit ''That'' @ [39] @ lit ''s all folks''))]\<rparr>]"

lemma ex_answered:
  "\<exists>b'. LeasequeryHandler_handle (sqlite_find_leases core_registry [] 1100 ex_store) id ex_query_bundle = Inr b' \<and>
     messages_iter (responses b') = ex_answers"
  by (simp add: LeasequeryHandler_handle_def ex_query_bundle_def get_unhandled_options_def request_options_def
      ex_query_def ex_leased_def ex_found [unfolded ex_query_def] mark_handled_def response_def messages_iter_def
      generate_data_messages_def ex_answers_def)

lemma ex_answers_contain:
  "validate_contains open_rules (MessageClass (ClientServer LeasequeryReplyMessage)) [OptionClass C_ClientDataOption]
     = Inr ()"
  "validate_contains open_rules (MessageClass (ClientServer LeasequeryDoneMessage)) [OptionClass C_StatusCodeOption]
     = Inr ()"
  "validate_contains open_rules (OptionClass C_ClientDataOption)
     [OptionClass C_ClientIdOption, OptionClass C_CLTTimeOption, OptionClass C_IAAddressOption] = Inr ()"
  "validate_contains open_rules (OptionClass C_IAAddressOption) [] = Inr ()"
  by code_simp+

lemma ex_answers_valid:
  "\<forall>x \<in> set ex_answers. message_validate open_rules (cs_message x) = Inr ()
     \<and> message_representable core_registry (cs_message x)"
  by (simp add: ex_answers_def cs_message_def ex_told_def ex_answers_contain ClientServerMessage_check_def
      plain_validate_defs extension_validate_defs IAAddressOption_validate_def uint32_def ex_routable ex_client_def
      core_registry_def)


lemma ex_goodbye: "utf8_encode (lit ''That'' @ [39] @ lit ''s all folks'') = Inr (map of_char ''That'' @ [39] @ map of_char ''s all folks'')"
  by code_simp

lemma ex_answers_saved: "\<exists>octets. concat_res tcp_client_send (map cs_message ex_answers) = Inr octets"
  by (simp add: ex_answers_def cs_message_def tcp_client_send_def ex_told_def ex_goodbye [simplified] plain_save_defs
      extension_save_defs ClientDataOption_save_def IAAddressOption_save_def append_byte_def pack_string_def
      packed_def tcp_frame_def ex_client_def ex_address_def be_bytes_numeral be_bytes_one)

theorem bulk_answer_reaches_client_witness:
  "\<exists>octets. wait_for_answers (tcp_client_recv core_registry) True True 3 [(0, 1), (1, 2)]
      \<lparr>stream_pieces = map (\<lambda>octet. [octet]) octets, stream_closed = False\<rparr> []
    = Some (map cs_message ex_answers, None)"
proof -
  obtain octets where saved: "concat_res tcp_client_send (map cs_message ex_answers) = Inr octets"
    using ex_answers_saved by blast
  obtain b' where b': "LeasequeryHandler_handle (sqlite_find_leases core_registry [] 1100 ex_store) id
      ex_query_bundle = Inr b'" "messages_iter (responses b') = ex_answers"
    using ex_answered by blast
  have pieces: "concat (map (\<lambda>octet. [octet]) octets) = octets @ []" "[] \<notin> set (map (\<lambda>octet. [octet]) octets)"
    by (induction octets) auto
  show ?thesis
    using bulk_answer_reaches_client [OF ex_history _ _ _ _ _ _ ex_found _ b'(1), of "the (request ex_query_bundle)"
        "the (response ex_query_bundle)" "[]" octets open_rules core_registry "map (\<lambda>octet. [octet]) octets" "[]"
        "[(0, 1), (1, 2)]" 3 False] saved pieces ex_answers_valid
    by (auto simp: b'(2) ex_query_bundle_def ex_leased_def response_def get_unhandled_options_def
        request_options_def ex_query_def)
qed

text \<open>
  C33. When the server closes the connection before a whole message has arrived, the client does not
  end: its loop over \<open>recv\<close> gets no octets for ever and never looks at its deadline again.
\<close>

theorem client_never_returns:
  assumes "stream_closed s" and "pieces_present s" and "\<not> whole_frame (arriving s)"
    and "t < start + 3" and "t' \<le> start + 3"
    and "query_message opts transaction_id = Inr m" and "tcp_client_send m = Inr sent"
    and "\<not> is_multicast (query_server opts)"
  shows "tcp_main R opts transaction_id start ((t, t') # clock) s = None"
proof -
  have "tcp_client_recv R s = None"
  proof (cases "length (arriving s) < 2")
    case True
    then show ?thesis by (simp add: tcp_client_recv_def recv_never_returns assms(1,2))
  next
    case False
    then obtain s1 where s1: "recv_exactly 2 [] s = Some (Inr (take 2 (arriving s)), s1)"
      "arriving s1 = drop 2 (arriving s)" "pieces_present s1" "stream_closed s1"
      using recv_exactly_stream [OF assms(2), of "[]" 2] assms(1) by auto
    have "length (arriving s1) < be_nat (take 2 (arriving s))"
      using assms(3) False s1(2) by (auto simp: whole_frame_def)
    then show ?thesis
      using s1 by (simp add: tcp_client_recv_def recv_never_returns)
  qed
  then show ?thesis
    using assms(4-8) by (simp add: tcp_main_def)
qed

definition ex_query_options :: tester_options where
  "ex_query_options =
     \<lparr>query_command = Client_address ex_address, query_server = ex_address, query_tcp = True,
       query_link_address = 0, query_relay_data = True\<rparr>"

lemma ex_query_sent:
  "\<exists>m sent. query_message ex_query_options [1, 2, 3] = Inr m \<and> tcp_client_send m = Inr sent"
  by (simp add: query_message_def create_query_def ex_query_options_def tester_duid_def tcp_client_send_def
      plain_save_defs LQQueryOption_save_def IAAddressOption_save_def append_byte_def pack_string_def packed_def
      tcp_frame_def ex_address_def be_bytes_numeral be_bytes_one)

theorem client_never_returns_witness:
  "tcp_main core_registry ex_query_options [1, 2, 3] 0 [(1, 1), (2, 2), (5, 5)]
     \<lparr>stream_pieces = [[0], [9, 1]], stream_closed = True\<rparr> = None"
proof -
  have "arriving \<lparr>stream_pieces = [[0], [9, 1]], stream_closed = True\<rparr> = [0, 9, 1]" by (simp add: arriving_def)
  moreover have "\<not> whole_frame [0, 9, 1]" by (simp add: whole_frame_def)
  ultimately show ?thesis
    using client_never_returns [of "\<lparr>stream_pieces = [[0], [9, 1]], stream_closed = True\<rparr>" 1 0 1 ex_query_options
        "[1, 2, 3]"] ex_query_sent ex_routable
    by (auto simp: pieces_present_def ex_query_options_def)
qed

end
