(* ===== verification/ServerConfig.thy ===== *)
theory ServerConfig
  imports Names MessageHandling TimingLimits DomainOptions "HOL-Library.List_Lexorder" Complex_Main
begin

text \<open>
  From the configuration to the server: sections and their factories
  (dhcpkit/common/server/config_elements.py), the filters and handlers of the message handler
  (filters, ipv6/server/config_elements.py), the server's own DUID (utils.py and duids), and the sections
  of timing_limits, ntp and leasequery.  ZConfig, which reads the file and gives each key the type that
  the schema says, is outside: its values are arguments.
\<close>

subsection \<open>Sections and factories\<close>

text \<open>
  \<open>ConfigSection.__init__\<close>: the name is converted, then the section is cleaned and validated.  \<open>clean\<close> and
  \<open>validate\<close> are the methods of the class, \<open>truth\<close> is Python's \<open>bool\<close> of a converted name.
\<close>

definition ConfigSection ::
  "('n \<Rightarrow> bool) \<Rightarrow> (pystr \<Rightarrow> 'n res) option \<Rightarrow> ('n option \<Rightarrow> 's \<Rightarrow> 's res) \<Rightarrow> ('n option \<Rightarrow> 's \<Rightarrow> unit res) \<Rightarrow>
   pystr option \<Rightarrow> 's \<Rightarrow> ('n option \<times> 's) res" where
  "ConfigSection truth name_datatype clean validate section_name section =
     rbind (case section_name of
              None \<Rightarrow> Inr None
            | Some s \<Rightarrow>
                if s = [] then Inr None
                else (case name_datatype of
                        None \<Rightarrow> Inl ValueError
                      | Some convert \<Rightarrow> rbind (convert s) (\<lambda>n. Inr (Some n)))) (\<lambda>name.
     rbind (clean name section) (\<lambda>section.
     rbind (validate name section) (\<lambda>_.
     if name_datatype \<noteq> None \<and> \<not> (\<exists>n \<in> set_option name. truth n) then Inl ValueError else Inr (name, section))))"

text \<open>
  \<open>ConfigElementFactory.__call__\<close>: the element is created by the first call and kept (\<open>element\<close>); the
  result, and what is kept after the call.
\<close>

definition call_factory :: "'e option res \<Rightarrow> 'e option \<Rightarrow> 'e option res \<times> 'e option" where
  "call_factory create element =
     (case element of
        Some e \<Rightarrow> (Inr (Some e), element)
      | None \<Rightarrow> (case create of Inl x \<Rightarrow> (Inl x, None) | Inr e \<Rightarrow> (Inr e, e)))"

text \<open>
  \<open>to_str\<close>: a section with its type and name, and its attributes with their lists of values, of which some are
  sections.
\<close>

datatype shown_section = Shown_section "pystr option" "pystr option" "(pystr \<times> shown_value list) list"
  and shown_value = Shown_text pystr | Shown_subsection shown_section

definition truthy :: "pystr option \<Rightarrow> bool" where
  "truthy s \<longleftrightarrow> s \<noteq> None \<and> s \<noteq> Some []"

definition indentation :: "nat \<Rightarrow> pystr" where
  "indentation n = concat (replicate n (lit ''  ''))"

fun to_str :: "nat \<Rightarrow> shown_section \<Rightarrow> pystr"
  and value_to_str :: "nat \<Rightarrow> pystr \<Rightarrow> shown_value \<Rightarrow> pystr" where
  "to_str indent (Shown_section section_type section_name attributes) =
     (let opening =
            (if \<not> truthy section_type then []
             else if truthy section_name
             then indentation indent @ the section_type @ 32 # the section_name @ lit '':'' @ [10]
             else indentation indent @ the section_type @ lit '':'' @ [10]);
          indent = (if truthy section_type then Suc indent else indent)
      in opening @ concat (map (\<lambda>(key, shown). concat (map (value_to_str indent key) shown)) attributes))"
| "value_to_str indent key (Shown_subsection section) = to_str indent section"
| "value_to_str indent key (Shown_text s) = indentation indent @ key @ lit '' = '' @ s @ [10]"

subsection \<open>Filters and handlers\<close>

text \<open>
  The sections of filters, with the sections and handler factories inside; a handler factory gives its handler
  or raises.
\<close>

datatype filter_condition =
    Marked_with pystr
  | In_subnets "ipv6_network list"
  | Elapsed_time "int option" "int option"

datatype filter_section =
  FilterSection (section_condition: filter_condition) (filter_factories: "filter_section list")
    (handler_factories: "handler res list")

text \<open>The filter class of a section with its \<open>filter_condition\<close>, and \<open>validate_config_section\<close>.\<close>

fun filter_match :: "filter_condition \<Rightarrow> transaction_bundle \<Rightarrow> bool res" where
  "filter_match (Marked_with mark) = MarkedWithFilter_match mark"
| "filter_match (In_subnets prefixes) = SubnetFilter_match prefixes"
| "filter_match (Elapsed_time longer shorter) = ElapsedTimeFilter_match (ElapsedTimeFilterFactory_condition longer shorter)"

fun filter_section_validate :: "filter_condition \<Rightarrow> unit res" where
  "filter_section_validate (Elapsed_time longer shorter) = ElapsedTimeFilterFactory_validate longer shorter"
| "filter_section_validate _ = Inr ()"

text \<open>The loops over factories, and \<open>FilterFactory.create\<close>.\<close>

definition create_all :: "('a \<Rightarrow> 'b res) \<Rightarrow> 'a list \<Rightarrow> 'b list res" where
  "create_all create factories = concat_res (\<lambda>f. rbind (create f) (\<lambda>e. Inr [e])) factories"

lemma create_all_cong [fundef_cong]:
  assumes "xs = ys" and "\<And>x. x \<in> set ys \<Longrightarrow> f x = g x"
  shows "create_all f xs = create_all g ys"
  unfolding create_all_def assms(1) using assms(2) by (intro concat_res_cong) simp_all

fun FilterFactory_create :: "filter_section \<Rightarrow> handler_filter res" where
  "FilterFactory_create (FilterSection condition filters handlers) =
     rbind (create_all FilterFactory_create filters) (\<lambda>sub_filters.
     rbind (create_all id handlers) (\<lambda>sub_handlers.
     Inr (Filter (filter_match condition) sub_filters sub_handlers)))"

text \<open>
  The main section, as far as the message handler is made of it; and \<open>MainConfig.create_message_handler\<close>
  with the defaults of \<open>MessageHandler\<close>.  The handlers that extensions add are an argument.
\<close>

record main_section =
  section_server_id :: duid
  section_filters :: "filter_section list"
  section_handlers :: "handler res list"
  section_allow_rapid_commit :: bool
  section_rapid_commit_rejections :: bool

definition create_message_handler :: "handler list \<Rightarrow> handler list \<Rightarrow> main_section \<Rightarrow> message_handler res" where
  "create_message_handler extension_setup extension_cleanup section =
     rbind (create_all FilterFactory_create (section_filters section)) (\<lambda>sub_filters.
     rbind (create_all id (section_handlers section)) (\<lambda>sub_handlers.
     Inr \<lparr>server_id = section_server_id section, mh_filters = sub_filters, mh_handlers = sub_handlers,
       mh_allow_rapid_commit = section_allow_rapid_commit section, mh_rapid_commit_rejections = False,
       extension_setup_handlers = extension_setup, extension_cleanup_handlers = extension_cleanup\<rparr>))"

subsection \<open>The DUID of the server\<close>

text \<open>The loop of \<open>determine_local_duid\<close> over the link addresses of an interface, as text.\<close>

fun duid_of_addresses :: "pystr list \<Rightarrow> duid option" where
  "duid_of_addresses [] = None"
| "duid_of_addresses (ll # lls) =
     (case rbind (normalise_hex (HexText ll) False) from_hex of
        Inl _ \<Rightarrow> duid_of_addresses lls
      | Inr ll_addr \<Rightarrow>
          if length ll_addr \<noteq> 6 \<or> ll_addr = [0, 0, 0, 0, 0, 0] then duid_of_addresses lls
          else Some (LinkLayerDUID 1 ll_addr))"

fun determine_local_duid :: "pystr list list \<Rightarrow> duid res" where
  "determine_local_duid [] = Inl ValueError"
| "determine_local_duid (lls # interfaces) =
     (case duid_of_addresses (filter (\<lambda>a. a \<noteq> []) lls) of
        None \<Rightarrow> determine_local_duid interfaces
      | Some d \<Rightarrow> Inr d)"

text \<open>
  \<open>MainConfig.clean_config_section\<close>: the group and the DUID if there are none; \<open>primary_group\<close> is the group of
  the user, or none if it does not exist.
\<close>

definition MainConfig_clean ::
  "'g option \<Rightarrow> pystr list list \<Rightarrow> 'g option \<times> duid option \<Rightarrow> ('g \<times> duid) res" where
  "MainConfig_clean primary_group interfaces = (\<lambda>(group, server_id).
     rbind (case group of
              Some g \<Rightarrow> Inr g
            | None \<Rightarrow> (case primary_group of None \<Rightarrow> Inl ValueError | Some g \<Rightarrow> Inr g)) (\<lambda>group.
     rbind (case server_id of Some d \<Rightarrow> Inr d | None \<Rightarrow> determine_local_duid interfaces) (\<lambda>server_id.
     Inr (group, server_id))))"

text \<open>The sections that state a DUID.\<close>

definition validated_duid :: "duid \<Rightarrow> duid res" where
  "validated_duid d = rbind (DUID_validate d) (\<lambda>_. Inr d)"

definition duid_en :: "int \<Rightarrow> bytes \<Rightarrow> duid res" where
  "duid_en enterprise_number identifier = validated_duid (EnterpriseDUID enterprise_number identifier)"

definition duid_ll :: "int \<Rightarrow> bytes \<Rightarrow> duid res" where
  "duid_ll hardware_type link_layer_address = validated_duid (LinkLayerDUID hardware_type link_layer_address)"

definition duid_llt :: "int \<Rightarrow> bytes \<Rightarrow> int \<Rightarrow> duid res" where
  "duid_llt hardware_type link_layer_address timestamp =
     validated_duid (LinkLayerTimeDUID hardware_type timestamp link_layer_address)"

subsection \<open>Sections of extensions\<close>

text \<open>\<open>str.upper\<close>, as \<open>lower\<close> is \<open>str.lower\<close>.\<close>

definition upper :: "pystr \<Rightarrow> pystr" where
  "upper s = map (\<lambda>c. if 97 \<le> c \<and> c \<le> 122 then c - 32 else c) s"

text \<open>
  timing_limits: \<open>time_range_converter\<close> and \<open>factor_range_converter\<close> are of ZConfig, which convert text to a
  number in a range.
\<close>

definition time_value :: "(pystr \<Rightarrow> int res) \<Rightarrow> pystr \<Rightarrow> int res" where
  "time_value time_range_converter value =
     (if upper value = lit ''INFINITY'' then Inr INFINITY else time_range_converter value)"

definition factor_value :: "(pystr \<Rightarrow> rat res) \<Rightarrow> pystr \<Rightarrow> rat option res" where
  "factor_value factor_range_converter value =
     (if upper value = lit ''NONE'' then Inr None
      else rbind (factor_range_converter value) (\<lambda>f. Inr (Some f)))"

text \<open>The same for addresses and prefixes; the record holds the values of the keys.\<close>

definition TimingLimitsHandlerFactory_validate :: "timing_limits \<Rightarrow> unit res" where
  "TimingLimitsHandlerFactory_validate section =
     (if min_t1 section > max_t2 section then Inl ValueError
      else if nonzero (factor_t1 section) \<and> nonzero (factor_t2 section)
              \<and> the (factor_t1 section) > the (factor_t2 section) then Inl ValueError
      else Inr ())"

definition TimingLimitsHandlerFactory_create :: "timing_limits \<Rightarrow> timing_limits res" where
  "TimingLimitsHandlerFactory_create section =
     TimingLimitsHandler_init (min_t1 section) (max_t1 section) (factor_t1 section)
       (min_t2 section) (max_t2 section) (factor_t2 section)"

text \<open>leasequery: an option that is not disclosed, by number or by name; \<open>by_type\<close> is \<open>option_type\<close> of the class.\<close>

definition sensitive_option_name :: "('a \<Rightarrow> int) \<Rightarrow> 'a class_registry \<Rightarrow> pystr \<Rightarrow> int res" where
  "sensitive_option_name by_type reg value =
     (case unsigned_int_16 value of
        Inr n \<Rightarrow> Inr n
      | Inl e \<Rightarrow>
          if e \<noteq> ValueError then Inl e
          else (case by_name reg value of None \<Rightarrow> Inl ValueError | Some c \<Rightarrow> Inr (by_type c)))"

text \<open>
  ntp: the registry of suboptions under the names that the configuration uses, and their \<open>config_datatype\<close>
  with the constructor of the class.
\<close>

datatype ntp_class = NTP_server_address | NTP_multicast_address | NTP_server_fqdn

definition ntp_class_name :: "ntp_class \<Rightarrow> pystr" where
  "ntp_class_name c =
     (case c of
        NTP_server_address \<Rightarrow> lit ''NTPServerAddressSubOption''
      | NTP_multicast_address \<Rightarrow> lit ''NTPMulticastAddressSubOption''
      | NTP_server_fqdn \<Rightarrow> lit ''NTPServerFQDNSubOption'')"

definition ntp_entry_points :: "(pystr \<times> ntp_class load_result) list" where
  "ntp_entry_points =
     [(lit ''1'', Loads NTP_server_address), (lit ''2'', Loads NTP_multicast_address),
      (lit ''3'', Loads NTP_server_fqdn)]"

definition NTPSuboptionRegistry_get_name :: "pystr \<Rightarrow> pystr" where
  "NTPSuboptionRegistry_get_name class_name =
     (let name = Registry_get_name class_name;
          name = (if starts_with (lit ''ntp-'') name then drop 4 name else name)
      in without_suffix (lit ''-sub-option'') name)"

definition ntp_config_datatype ::
  "idna \<Rightarrow> (pystr \<Rightarrow> ipv6 res) \<Rightarrow> ntp_class \<Rightarrow> pystr \<Rightarrow> ntp_suboption res" where
  "ntp_config_datatype lib parse_address c value =
     (case c of
        NTP_server_address \<Rightarrow>
          rbind (unicast_address parse_address value) (\<lambda>a. Inr (NTPServerAddressSubOption (Some a)))
      | NTP_multicast_address \<Rightarrow>
          rbind (parse_address value) (\<lambda>a.
          if \<not> is_multicast a then Inl ValueError else Inr (NTPMulticastAddressSubOption (Some a)))
      | NTP_server_fqdn \<Rightarrow>
          rbind (encode_domain lib value False) (\<lambda>_. Inr (NTPServerFQDNSubOption value)))"

text \<open>
  \<open>clean_config_section\<close> converts the values of every key; only then \<open>validate_config_section\<close> looks whether the keys
  are known.  \<open>create\<close> puts the suboptions in the order of their keys; the values that clean has converted are
  given as the suboptions made of them.
\<close>

definition NTPServersOptionHandlerFactory_clean ::
  "idna \<Rightarrow> (pystr \<Rightarrow> ipv6 res) \<Rightarrow> ntp_class class_registry \<Rightarrow> (pystr \<times> pystr list) list \<Rightarrow>
   (pystr \<times> ntp_suboption list) list res" where
  "NTPServersOptionHandlerFactory_clean lib parse_address reg subs =
     create_all (\<lambda>(suboption_type, suboption_values).
       case by_name reg suboption_type of
         None \<Rightarrow> Inl KeyError
       | Some suboption_class \<Rightarrow>
           rbind (create_all (ntp_config_datatype lib parse_address suboption_class) suboption_values)
             (\<lambda>values. Inr (suboption_type, values))) subs"

definition NTPServersOptionHandlerFactory_validate ::
  "ntp_class class_registry \<Rightarrow> (pystr \<times> ntp_suboption list) list \<Rightarrow> unit res" where
  "NTPServersOptionHandlerFactory_validate reg subs =
     for_all (\<lambda>(key, _). guard (by_name reg (lower key) \<noteq> None) ValueError) subs"

definition NTPServersOptionHandlerFactory_create ::
  "idna \<Rightarrow> (pystr \<times> ntp_suboption list) list \<Rightarrow> domain_option res" where
  "NTPServersOptionHandlerFactory_create lib subs =
     (let options = concat (map snd (sort_key fst subs)) in
      rbind (NTPServersOption_validate lib options) (\<lambda>_. Inr (NTPServersOption options)))"

definition ntp_section ::
  "idna \<Rightarrow> (pystr \<Rightarrow> ipv6 res) \<Rightarrow> ntp_class class_registry \<Rightarrow> (pystr \<times> pystr list) list \<Rightarrow>
   (pystr \<times> ntp_suboption list) list res" where
  "ntp_section lib parse_address reg subs =
     rbind (NTPServersOptionHandlerFactory_clean lib parse_address reg subs) (\<lambda>subs.
     rbind (NTPServersOptionHandlerFactory_validate reg subs) (\<lambda>_. Inr subs))"

subsection \<open>Values of the logging sections\<close>

datatype socket_type = SOCK_DGRAM | SOCK_STREAM

definition udp_or_tcp :: "pystr \<Rightarrow> socket_type res" where
  "udp_or_tcp value =
     (let lower_value = lower value in
      if lower_value \<in> {lit ''udp'', lit ''dgram''} then Inr SOCK_DGRAM
      else if lower_value \<in> {lit ''tcp'', lit ''stream''} then Inr SOCK_STREAM
      else Inl ValueError)"

definition rotation_style :: "pystr \<Rightarrow> pystr res" where
  "rotation_style value =
     (let lower_value = lower value in
      if lower_value \<in> {lit ''hour'', lit ''hourly''} then Inr (lit ''h'')
      else if lower_value \<in> {lit ''day'', lit ''daily''} then Inr (lit ''d'')
      else if lower_value \<in> {lit ''week'', lit ''weekly''} then Inr (lit ''w'')
      else if lower_value = lit ''size'' then Inr (lit ''SIZE'')
      else Inl ValueError)"

definition logging_level :: "pystr \<Rightarrow> int res" where
  "logging_level value =
     (let lookup_value = map (\<lambda>c. if c = 95 then 45 else c) (lower value) in
      case map_of
        [(lit ''critical'', 50), (lit ''error'', 40), (lit ''warn'', 30), (lit ''warning'', 30), (lit ''info'', 20),
         (lit ''debug'', 10), (lit ''debug-packets'', 5), (lit ''debug-handling'', 7), (lit ''notset'', 0)]
        lookup_value of
        None \<Rightarrow> Inl ValueError
      | Some level \<Rightarrow> Inr level)"

end
