(* ===== verification/ServerConfigProperties.thy ===== *)
theory ServerConfigProperties
  imports ServerConfig Dispatch Scenario
begin

text \<open>
  What the sections of the configuration make of the server: the handlers that it applies, its DUID, and
  the option of an ntp section.
\<close>

subsection \<open>Creating all elements\<close>

lemma create_all_simps [simp]:
  "create_all f [] = Inr []"
  "create_all f (x # xs) = rbind (f x) (\<lambda>e. rbind (create_all f xs) (\<lambda>es. Inr (e # es)))"
  by (simp_all add: create_all_def rbind_assoc)

lemma create_all_map: "create_all f xs = Inr ys \<longleftrightarrow> map f xs = map Inr ys"
  by (induction xs arbitrary: ys) (auto elim!: rbind_InrE simp: Cons_eq_map_conv rbind_eq_Inr)

lemma create_all_id: "create_all id xs = Inr ys \<longleftrightarrow> xs = map Inr ys"
  by (simp add: create_all_map)

lemma create_all_fails:
  assumes "\<forall>x \<in> set xs. \<exists>y. f x = Inr y" and "f x = Inl e"
  shows "create_all f (xs @ x # zs) = Inl e"
  using assms by (induction xs) auto

subsection \<open>The handlers in force\<close>

text \<open>
  The handlers of a section for a bundle: those of the sections inside, then its own, if the condition of
  the section holds.
\<close>

fun handlers_in_force :: "transaction_bundle \<Rightarrow> filter_section \<Rightarrow> handler list" where
  "handlers_in_force b (FilterSection condition filters handlers) =
     (if filter_match condition b = Inr True
      then concat (map (handlers_in_force b) filters) @ [h. Inr h \<leftarrow> handlers] else [])"

text \<open>The same as a relation: a handler stands in a section of which every enclosing condition holds.\<close>

inductive in_force :: "transaction_bundle \<Rightarrow> filter_section \<Rightarrow> handler \<Rightarrow> bool" for b where
  own: "filter_match condition b = Inr True \<Longrightarrow> Inr h \<in> set handlers \<Longrightarrow>
    in_force b (FilterSection condition filters handlers) h"
| inner: "filter_match condition b = Inr True \<Longrightarrow> f \<in> set filters \<Longrightarrow> in_force b f h \<Longrightarrow>
    in_force b (FilterSection condition filters handlers) h"

inductive_simps in_force_section: "in_force b (FilterSection condition filters handlers) h"

lemma handlers_in_force_set: "h \<in> set (handlers_in_force b f) \<longleftrightarrow> in_force b f h"
  by (induction b f arbitrary: h rule: handlers_in_force.induct)
    (auto simp: in_force_section split: sum.splits if_splits)

lemma filter_created:
  assumes "FilterFactory_create f = Inr g" and "filter_get_handlers b g = Inr hs"
  shows "hs = handlers_in_force b f"
  using assms
proof (induction f arbitrary: g hs)
  case (FilterSection condition filters handlers)
  obtain sub_filters sub_handlers where created: "map FilterFactory_create filters = map Inr sub_filters"
      "handlers = map Inr sub_handlers" and g: "g = Filter (filter_match condition) sub_filters sub_handlers"
    using FilterSection.prems(1) by (auto simp: create_all_map create_all_id elim!: rbind_InrE)
  have inner: "inner_handlers = concat (map (handlers_in_force b) filters)"
    if "concat_res (filter_get_handlers b) sub_filters = Inr inner_handlers" for inner_handlers
    using that created(1) FilterSection.IH
    by (induction filters arbitrary: sub_filters inner_handlers)
      (auto simp: Cons_eq_map_conv elim!: rbind_InrE)
  have own: "[h. Inr h \<leftarrow> handlers] = sub_handlers"
    unfolding created(2) by (induction sub_handlers) simp_all
  show ?case
    using FilterSection.prems(2) inner own by (auto simp: g elim!: rbind_InrE split: if_splits)
qed

lemma filters_created:
  assumes "map FilterFactory_create fs = map Inr gs" and "concat_res (filter_get_handlers b) gs = Inr hs"
  shows "hs = concat (map (handlers_in_force b) fs)"
  using assms filter_created
  by (induction fs arbitrary: gs hs) (auto simp: Cons_eq_map_conv elim!: rbind_InrE)

text \<open>
  C22. The handlers that a configured server applies to a bundle: rapid commit if the configuration allows it
  (and never with its rejections, whatever the configuration says), the server's own, those of extensions,
  then those of the sections whose enclosing filters all match, inner sections first, then those of the
  main section, each in the order of the file, and at the end those that clean up.
\<close>

theorem configured_handlers_apply:
  assumes "create_message_handler setup cleanup section = Inr mh" and "get_handlers T mh b = Inr applied"
  shows "\<exists>filtered global.
    applied = (if section_allow_rapid_commit section then [RapidCommitHandler False] else [])
      @ [ServerIdHandler T (section_server_id section), ClientIdHandler T, InterfaceIdOptionHandler T]
      @ setup @ filtered @ global @ get_cleanup_handlers mh \<and>
    filtered = concat (map (handlers_in_force b) (section_filters section)) \<and>
    section_handlers section = map Inr global \<and>
    (\<forall>h. h \<in> set filtered \<longleftrightarrow> (\<exists>f \<in> set (section_filters section). in_force b f h))"
proof -
  from assms(1) obtain fs hs where made: "map FilterFactory_create (section_filters section) = map Inr fs"
      "section_handlers section = map Inr hs"
    and mh: "mh_filters mh = fs" "mh_handlers mh = hs" "server_id mh = section_server_id section"
      "mh_allow_rapid_commit mh = section_allow_rapid_commit section" "\<not> mh_rapid_commit_rejections mh"
      "extension_setup_handlers mh = setup"
    by (auto simp: create_message_handler_def create_all_map create_all_id elim!: rbind_InrE)
  from assms(2) obtain filtered where f: "concat_res (filter_get_handlers b) fs = Inr filtered"
    and applied: "applied = get_setup_handlers T mh @ filtered @ hs @ get_cleanup_handlers mh"
    by (auto simp: get_handlers_def mh elim!: rbind_InrE)
  show ?thesis
    by (rule exI [of _ filtered], rule exI [of _ hs])
      (simp add: applied get_setup_handlers_def mh made(2) filters_created [OF made(1) f] handlers_in_force_set)
qed


definition ex_section :: filter_section where
  "ex_section =
     FilterSection (Marked_with (lit ''office''))
       [FilterSection (Marked_with (lit ''printer'')) [] [Inr AddMissingStatusOptionHandler],
        FilterSection (Marked_with (lit ''phone'')) [] [Inr (UnansweredIAOptionHandler False)]]
       [Inr (RapidCommitHandler True)]"

definition ex_main_section :: main_section where
  "ex_main_section =
     \<lparr>section_server_id = LinkLayerDUID 1 [2, 0, 0, 0, 0, 1], section_filters = [ex_section],
      section_handlers = [Inr RejectUnwantedUnicastHandler], section_allow_rapid_commit = True,
      section_rapid_commit_rejections = True\<rparr>"

lemma ex_in_force:
  "handlers_in_force (b\<lparr>marks := {lit ''phone'', lit ''office''}\<rparr>) ex_section
     = [UnansweredIAOptionHandler False, RapidCommitHandler True]"
  by (simp add: ex_section_def MarkedWithFilter_match_def lit_def)

theorem configured_handlers_apply_witness:
  "\<exists>mh applied. create_message_handler [] [] ex_main_section = Inr mh \<and>
     get_handlers core_containment mh (ex_bundle\<lparr>marks := {lit ''phone'', lit ''office''}\<rparr>) = Inr applied \<and>
     applied = [RapidCommitHandler False, ServerIdHandler core_containment (LinkLayerDUID 1 [2, 0, 0, 0, 0, 1]),
       ClientIdHandler core_containment, InterfaceIdOptionHandler core_containment, UnansweredIAOptionHandler False,
       RapidCommitHandler True, RejectUnwantedUnicastHandler] @ get_cleanup_handlers mh"
proof -
  let ?b = "ex_bundle\<lparr>marks := {lit ''phone'', lit ''office''}\<rparr>"
  obtain mh where mh: "create_message_handler [] [] ex_main_section = Inr mh"
    by (simp add: create_message_handler_def ex_main_section_def ex_section_def)
  then obtain applied where applied: "get_handlers core_containment mh ?b = Inr applied"
    by (auto simp: create_message_handler_def ex_main_section_def ex_section_def get_handlers_def
      MarkedWithFilter_match_def lit_def)
  from configured_handlers_apply [OF mh applied] show ?thesis
    using mh applied ex_in_force [of ex_bundle] by (auto simp: ex_main_section_def)
qed

subsection \<open>The DUID of the server\<close>

text \<open>The octets of an address of an interface, if it is the address of an ethernet card.\<close>

definition usable_address :: "pystr \<Rightarrow> bytes \<Rightarrow> bool" where
  "usable_address address octets \<longleftrightarrow>
     address \<noteq> [] \<and> hex_bytes address = Inr octets \<and> length octets = 6 \<and> octets \<noteq> replicate 6 0"

lemma zero_address: "[0, 0, 0, 0, 0, 0] = (replicate 6 0 :: bytes)"
  by (simp add: numeral_eq_Suc)

lemma duid_of_addresses_none:
  "duid_of_addresses (filter (\<lambda>a. a \<noteq> []) lls) = None \<longleftrightarrow> (\<forall>a \<in> set lls. \<nexists>octets. usable_address a octets)"
  by (induction lls) (auto simp: usable_address_def hex_bytes_def zero_address split: sum.splits)

lemma duid_of_addresses_some:
  assumes "duid_of_addresses (filter (\<lambda>a. a \<noteq> []) lls) = Some d"
  shows "\<exists>before a after octets. lls = before @ a # after \<and> usable_address a octets \<and>
    d = LinkLayerDUID 1 octets \<and> (\<forall>x \<in> set before. \<nexists>octets. usable_address x octets)"
  using assms
proof (induction lls)
  case (Cons a lls)
  show ?case
  proof (cases "\<exists>octets. usable_address a octets")
    case True
    then show ?thesis
      using Cons.prems by (force simp: usable_address_def hex_bytes_def zero_address)
  next
    case False
    then have "duid_of_addresses (filter (\<lambda>a. a \<noteq> []) lls) = Some d"
      using Cons.prems by (auto simp: usable_address_def hex_bytes_def zero_address split: sum.splits if_splits)
    from Cons.IH [OF this] obtain before x after octets where
      "lls = before @ x # after \<and> usable_address x octets \<and>
        d = LinkLayerDUID 1 octets \<and> (\<forall>x \<in> set before. \<nexists>octets. usable_address x octets)" by blast
    with False show ?thesis by (intro exI [of _ "a # before"]) auto
  qed
qed simp

text \<open>
  C30. A server without a configured DUID takes that of the first address in the list of interfaces that is one of
  an ethernet card, written as hexadecimal digits with or without colons; the DUID is valid, and without such
  an address the configuration is refused.
\<close>

theorem local_duid_is_first_usable:
  "(case determine_local_duid interfaces of
      Inr d \<Rightarrow> \<exists>before a after octets. concat interfaces = before @ a # after \<and> usable_address a octets \<and>
        d = LinkLayerDUID 1 octets \<and> DUID_validate d = Inr () \<and> (\<forall>x \<in> set before. \<nexists>octets. usable_address x octets)
    | Inl e \<Rightarrow> e = ValueError \<and> (\<forall>a \<in> set (concat interfaces). \<nexists>octets. usable_address a octets))"
proof (induction interfaces)
  case (Cons lls interfaces)
  show ?case
  proof (cases "duid_of_addresses (filter (\<lambda>a. a \<noteq> []) lls)")
    case None
    note unusable = None [unfolded duid_of_addresses_none]
    show ?thesis
    proof (cases "determine_local_duid interfaces")
      case (Inr d)
      with Cons obtain before a after octets where
        "concat interfaces = before @ a # after \<and> usable_address a octets \<and> d = LinkLayerDUID 1 octets \<and>
          DUID_validate d = Inr () \<and> (\<forall>x \<in> set before. \<nexists>octets. usable_address x octets)" by auto
      with Inr None unusable show ?thesis by (auto intro!: exI [of _ "lls @ before"])
    qed (use None unusable Cons in auto)
  next
    case (Some d)
    from duid_of_addresses_some [OF this] obtain before a after octets where
      d: "lls = before @ a # after \<and> usable_address a octets \<and>
        d = LinkLayerDUID 1 octets \<and> (\<forall>x \<in> set before. \<nexists>octets. usable_address x octets)" by blast
    then have "DUID_validate d = Inr ()"
      by (auto simp: usable_address_def LinkLayerDUID_validate_def)
    with d Some show ?thesis by (auto intro!: exI [of _ before])
  qed
qed simp

theorem local_duid_is_first_usable_witness:
  "determine_local_duid [[lit ''00:00:00:00:00:00'', []], [lit ''02:00:00:00:00:01'']] = Inr (LinkLayerDUID 1 [2, 0, 0, 0, 0, 1])
   \<and> DUID_validate (LinkLayerDUID 1 [2, 0, 0, 0, 0, 1]) = Inr ()"
proof -
  have "determine_local_duid [[lit ''00:00:00:00:00:00'', []], [lit ''02:00:00:00:00:01'']]
      = Inr (LinkLayerDUID 1 [2, 0, 0, 0, 0, 1])"
    by code_simp
  with local_duid_is_first_usable [of "[[lit ''00:00:00:00:00:00'', []], [lit ''02:00:00:00:00:01'']]"]
  show ?thesis by auto
qed

subsection \<open>The ntp section\<close>

text \<open>A section that is accepted gives a valid option, if it has a suboption at all.\<close>

lemma configured_suboption_valid:
  "ntp_config_datatype lib parse_address c value = Inr sub \<Longrightarrow> ntp_suboption_validate lib sub = Inr ()"
  by (cases c)
    (auto simp: ntp_config_datatype_def unicast_address_def NTPServerAddressSubOption_validate_def
      NTPMulticastAddressSubOption_validate_def NTPServerFQDNSubOption_validate_def
      elim!: rbind_InrE split: if_splits)

lemma converted_suboptions:
  assumes "map (ntp_config_datatype lib parse_address c) texts = map Inr subs"
  shows "length subs = length texts" and "\<forall>sub \<in> set subs. ntp_suboption_validate lib sub = Inr ()"
proof -
  show "length subs = length texts" using assms by (metis length_map)
  have "\<exists>t \<in> set texts. ntp_config_datatype lib parse_address c t = Inr sub" if "sub \<in> set subs" for sub
    using that arg_cong [OF assms, of set] by (auto simp: set_eq_iff image_iff) metis
  then show "\<forall>sub \<in> set subs. ntp_suboption_validate lib sub = Inr ()"
    using configured_suboption_valid by blast
qed

lemma created_ntp_values:
  assumes "NTPServersOptionHandlerFactory_clean lib parse_address reg subs = Inr converted"
  shows "(\<forall>v \<in> set converted. \<forall>sub \<in> set (snd v). ntp_suboption_validate lib sub = Inr ()) \<and>
    map (\<lambda>v. length (snd v)) converted = map (\<lambda>v. length (snd v)) subs"
  using assms
proof (induction subs arbitrary: converted)
  case (Cons s subs)
  obtain key texts where s: "s = (key, texts)" by (cases s)
  from Cons.prems obtain c os rest where converted: "converted = (key, os) # rest"
    and os: "map (ntp_config_datatype lib parse_address c) texts = map Inr os"
    and rest: "NTPServersOptionHandlerFactory_clean lib parse_address reg subs = Inr rest"
    by (auto simp: NTPServersOptionHandlerFactory_clean_def s create_all_map [of "ntp_config_datatype _ _ _"]
      elim!: rbind_InrE split: option.splits)
  from Cons.IH [OF rest] converted_suboptions [OF os] show ?case by (simp add: converted s)
qed (simp add: NTPServersOptionHandlerFactory_clean_def)

lemma ntp_section_gives_option:
  assumes "ntp_section lib parse_address reg subs = Inr converted" and "\<exists>(key, texts) \<in> set subs. texts \<noteq> []"
  shows "\<exists>option. NTPServersOptionHandlerFactory_create lib converted = Inr option"
proof -
  from assms(1) have c: "NTPServersOptionHandlerFactory_clean lib parse_address reg subs = Inr converted"
    by (auto simp: ntp_section_def elim!: rbind_InrE)
  obtain key texts where "(key, texts) \<in> set subs" "texts \<noteq> []" using assms(2) by blast
  then have "length texts \<in> set (map (\<lambda>v. length (snd v)) converted)"
    using created_ntp_values [OF c] by force
  then have "\<exists>v \<in> set converted. snd v \<noteq> []"
    using \<open>texts \<noteq> []\<close> by (metis (no_types, lifting) imageE length_0_conv list.set_map)
  then have "concat (map snd (sort_key fst converted)) \<noteq> []"
    by simp
  moreover have "for_all (ntp_suboption_validate lib) (concat (map snd (sort_key fst converted))) = Inr ()"
    using created_ntp_values [OF c] by (simp add: for_all_eq_Inr)
  ultimately show ?thesis
    by (simp add: NTPServersOptionHandlerFactory_create_def NTPServersOption_validate_def Suc_le_eq)
qed

text \<open>
  A section that states a name which is none of a suboption ends with a \<open>KeyError\<close> from the conversion of the
  values; the check of the names, which would say what is wrong, comes after it and is never reached.
\<close>

lemma unknown_ntp_name_is_key_error:
  assumes "by_name reg key = None"
    and "\<forall>(k, texts) \<in> set before. \<exists>c. by_name reg k = Some c \<and>
      (\<forall>t \<in> set texts. \<exists>sub. ntp_config_datatype lib parse_address c t = Inr sub)"
  shows "ntp_section lib parse_address reg (before @ (key, texts) # later) = Inl KeyError
    \<and> (by_name reg (lower key) = None \<longrightarrow>
       NTPServersOptionHandlerFactory_validate reg ((key, os) # converted) = Inl ValueError)"
proof -
  have converts: "\<exists>os. create_all (ntp_config_datatype lib parse_address c) ts = Inr os"
    if "\<forall>t \<in> set ts. \<exists>sub. ntp_config_datatype lib parse_address c t = Inr sub" for c ts
    using that by (induction ts) auto
  have "NTPServersOptionHandlerFactory_clean lib parse_address reg (before @ (key, texts) # later) = Inl KeyError"
    unfolding NTPServersOptionHandlerFactory_clean_def
    using assms converts by (intro create_all_fails) (fastforce simp: rbind_eq_Inr)+
  then show ?thesis
    by (simp add: ntp_section_def NTPServersOptionHandlerFactory_validate_def guard_def)
qed

lemma unknown_ntp_name_is_key_error_witness:
  "ntp_section lib parse_address \<lparr>entries = (\<lambda>_. None), by_name = [lit ''server-fqdn'' \<mapsto> NTP_server_fqdn]\<rparr>
     [(lit ''server-adress'', [lit ''2001:db8::1''])] = Inl KeyError"
  using unknown_ntp_name_is_key_error [of
      "\<lparr>entries = (\<lambda>_. None), by_name = [lit ''server-fqdn'' \<mapsto> NTP_server_fqdn]\<rparr>" "lit ''server-adress''" "[]"
      lib parse_address "[lit ''2001:db8::1'']" "[]"]
  by (simp add: lit_def)

text \<open>The names of the registry, as setup.py and the class names make them.\<close>

lemma ntp_names:
  "map (NTPSuboptionRegistry_get_name \<circ> ntp_class_name) [NTP_server_address, NTP_multicast_address, NTP_server_fqdn]
     = [lit ''server-address'', lit ''multicast-address'', lit ''server-fqdn'']"
  by code_simp

end
