(* ===== verification/DomainHandlers.thy ===== *)
theory DomainHandlers
  imports OptionHandlers DomainOptions
begin

text \<open>
  The handlers of dns, sip_servers, ntp and dslite that put an option with domain names into the response:
  their constructors, how they combine several options, and \<open>SimpleOptionHandler.handle\<close> on the options of a
  response of which some have domain names.
\<close>

subsection \<open>Options of a response\<close>

datatype response_option = Nameless dhcp_option | Named domain_option

text \<open>The class of an option by its number, and \<open>get_options_of_type\<close> for it.\<close>

fun domain_option_type :: "domain_option \<Rightarrow> int" where
  "domain_option_type (DomainSearchListOption _) = 24"
| "domain_option_type (SIPServersDomainNameListOption _) = 21"
| "domain_option_type (ClientFQDNOption _ _) = 39"
| "domain_option_type (AFTRNameOption _) = 64"
| "domain_option_type (NTPServersOption _) = 56"

fun named_options_of :: "int \<Rightarrow> response_option list \<Rightarrow> domain_option list" where
  "named_options_of t [] = []"
| "named_options_of t (Nameless _ # options) = named_options_of t options"
| "named_options_of t (Named option # options) =
     (if domain_option_type option = t then [option] else []) @ named_options_of t options"

subsection \<open>Combining\<close>

text \<open>
  \<open>combine\<close> of each handler, with the names it has itself; the default is to leave the options alone.  Those of
  the search list and of the ntp servers read an attribute of their option that it does not have.
\<close>

fun option_names :: "domain_option \<Rightarrow> pystr list" where
  "option_names (DomainSearchListOption ns) = ns"
| "option_names (SIPServersDomainNameListOption ns) = ns"
| "option_names _ = []"

definition SIPServersDomainNameListOptionHandler_combine ::
  "pystr list \<Rightarrow> domain_option list \<Rightarrow> domain_option option res" where
  "SIPServersDomainNameListOptionHandler_combine own existing_options =
     Inr (Some (SIPServersDomainNameListOption
       (append_new (append_new [] (concat (map option_names existing_options))) own)))"

definition DomainSearchListOptionHandler_combine ::
  "pystr list \<Rightarrow> domain_option list \<Rightarrow> domain_option option res" where
  "DomainSearchListOptionHandler_combine own existing_options =
     (let domains = append_new [] (concat (map option_names existing_options)) in Inl AttributeError)"

definition NTPServersOptionHandler_combine ::
  "ntp_suboption list \<Rightarrow> domain_option list \<Rightarrow> domain_option option res" where
  "NTPServersOptionHandler_combine own existing_options = Inl AttributeError"

subsection \<open>Handling\<close>

text \<open>A handler: the option, \<open>combine\<close>, and \<open>always_send\<close>; the constructors validate the option first.\<close>

record named_handler =
  named_option :: domain_option
  named_combine :: "domain_option list \<Rightarrow> domain_option option res"
  named_always_send :: bool

definition named_handler_of ::
  "unit res \<Rightarrow> domain_option \<Rightarrow> (domain_option list \<Rightarrow> domain_option option res) \<Rightarrow> bool \<Rightarrow> named_handler res" where
  "named_handler_of validated option combine always_send =
     rbind validated (\<lambda>_.
     Inr \<lparr>named_option = option, named_combine = combine, named_always_send = always_send\<rparr>)"

definition SIPServersDomainNameListOptionHandler :: "idna \<Rightarrow> pystr list \<Rightarrow> bool \<Rightarrow> named_handler res" where
  "SIPServersDomainNameListOptionHandler lib domain_names =
     named_handler_of (SIPServersDomainNameListOption_validate lib domain_names)
       (SIPServersDomainNameListOption domain_names)
       (SIPServersDomainNameListOptionHandler_combine domain_names)"

definition DomainSearchListOptionHandler :: "idna \<Rightarrow> pystr list \<Rightarrow> bool \<Rightarrow> named_handler res" where
  "DomainSearchListOptionHandler lib search_list =
     named_handler_of (DomainSearchListOption_validate lib search_list)
       (DomainSearchListOption search_list)
       (DomainSearchListOptionHandler_combine search_list)"

definition NTPServersOptionHandler :: "idna \<Rightarrow> ntp_suboption list \<Rightarrow> bool \<Rightarrow> named_handler res" where
  "NTPServersOptionHandler lib sub_options =
     named_handler_of (NTPServersOption_validate lib sub_options) (NTPServersOption sub_options)
       (NTPServersOptionHandler_combine sub_options)"

definition AFTRNameOptionHandler :: "idna \<Rightarrow> pystr \<Rightarrow> bool \<Rightarrow> named_handler res" where
  "AFTRNameOptionHandler lib fqdn =
     named_handler_of (AFTRNameOption_validate lib fqdn) (AFTRNameOption fqdn) (\<lambda>_. Inr None)"

text \<open>
  \<open>SimpleOptionHandler.handle\<close> on the options of the response: whether the response may contain the option, and
  the options that the client requests if it says so.
\<close>

definition named_handler_handle ::
  "bool \<Rightarrow> int list option \<Rightarrow> named_handler \<Rightarrow> response_option list \<Rightarrow> response_option list res" where
  "named_handler_handle allowed requested h options =
     (let option = named_option h; t = domain_option_type option in
      if \<not> allowed then Inr options
      else if \<not> named_always_send h \<and> (case requested of None \<Rightarrow> False | Some ts \<Rightarrow> t \<notin> set ts) then Inr options
      else
        (let found = named_options_of t options in
         if found \<noteq> [] then
           rbind (named_combine h found) (\<lambda>result.
           case result of
             Some combined \<Rightarrow> Inr (fold remove1 (map Named found) options @ [Named combined])
           | None \<Rightarrow> Inr options)
         else Inr (options @ [Named option])))"

subsection \<open>What comes of several handlers\<close>

lemma append_new_keeps:
  "distinct found \<Longrightarrow> distinct (append_new found xs) \<and> set (append_new found xs) = set found \<union> set xs"
  by (induction xs arbitrary: found) auto

lemma append_new_prefix: "\<exists>new. append_new found xs = found @ new"
proof (induction xs arbitrary: found)
  case (Cons x xs)
  from this [of "if x \<in> set found then found else found @ [x]"] show ?case by (auto split: if_splits)
qed simp

lemma fold_remove1_found: "fold remove1 (filter P xs) xs = filter (\<lambda>x. \<not> P x) xs"
proof (induction xs)
  case (Cons x xs)
  have skip: "fold remove1 ys (x # xs) = x # fold remove1 ys xs" if "x \<notin> set ys" for ys and xs
    using that by (induction ys arbitrary: xs) auto
  show ?case using Cons skip by simp
qed simp

lemma named_options_filter:
  "map Named (named_options_of t options)
     = filter (\<lambda>x. case x of Named option \<Rightarrow> domain_option_type option = t | _ \<Rightarrow> False) options"
  by (induction t options rule: named_options_of.induct) auto

lemma named_options_append: "named_options_of t (xs @ ys) = named_options_of t xs @ named_options_of t ys"
  by (induction t xs rule: named_options_of.induct) auto

lemma named_options_removed:
  "named_options_of t (filter (\<lambda>x. \<not> (case x of Named option \<Rightarrow> domain_option_type option = t | _ \<Rightarrow> False)) options) = []"
  by (induction t options rule: named_options_of.induct) auto

text \<open>
  Handlers of sip server names one after the other leave one option, with every name once, those that were there
  first in front, and the other options where they were.
\<close>

lemma sip_names_are_merged:
  assumes "SIPServersDomainNameListOptionHandler lib own always_send = Inr h"
    and "named_handler_handle True None h options = Inr options'"
    and "named_options_of 21 options \<noteq> []"
  shows "\<exists>names. named_options_of 21 options' = [SIPServersDomainNameListOption names] \<and> distinct names \<and>
    set names = set (concat (map option_names (named_options_of 21 options))) \<union> set own \<and>
    (\<exists>new. names = append_new [] (concat (map option_names (named_options_of 21 options))) @ new) \<and>
    options' = filter (\<lambda>x. x \<notin> Named ` set (named_options_of 21 options)) options
      @ [Named (SIPServersDomainNameListOption names)]"
proof -
  define found where "found = named_options_of 21 options"
  define names where "names = append_new (append_new [] (concat (map option_names found))) own"
  let ?kind = "\<lambda>x. case x of Named option \<Rightarrow> domain_option_type option = 21 | _ \<Rightarrow> False"
  have h: "named_option h = SIPServersDomainNameListOption own"
      "named_combine h = SIPServersDomainNameListOptionHandler_combine own"
    using assms(1)
    by (auto simp: SIPServersDomainNameListOptionHandler_def named_handler_of_def elim!: rbind_InrE)
  have options': "options' = filter (\<lambda>x. \<not> ?kind x) options @ [Named (SIPServersDomainNameListOption names)]"
    using assms(2,3) fold_remove1_found [of ?kind options]
    by (simp add: named_handler_handle_def h SIPServersDomainNameListOptionHandler_combine_def Let_def names_def
        found_def named_options_filter)
  have gone: "x \<notin> Named ` set found \<longleftrightarrow> \<not> ?kind x" if "x \<in> set options" for x
  proof -
    have "x \<in> Named ` set found \<longleftrightarrow> x \<in> set (filter ?kind options)"
      unfolding found_def named_options_filter [symmetric] by simp
    with that show ?thesis by simp
  qed
  have "distinct names \<and> set names = set (concat (map option_names found)) \<union> set own"
    using append_new_keeps [of "[]" "concat (map option_names found)"]
      append_new_keeps [of "append_new [] (concat (map option_names found))" own]
    by (simp add: names_def)
  moreover have "named_options_of 21 options' = [SIPServersDomainNameListOption names]"
    by (simp add: options' named_options_append named_options_removed)
  moreover have "filter (\<lambda>x. \<not> ?kind x) options = filter (\<lambda>x. x \<notin> Named ` set found) options"
    using gone by (intro filter_cong) auto
  moreover have "\<exists>new. names = append_new [] (concat (map option_names found)) @ new"
    unfolding names_def by (rule append_new_prefix)
  ultimately show ?thesis using options' by (auto simp: found_def)
qed

text \<open>A second search list, or a second list of ntp servers, makes handling end with an exception.\<close>

lemma second_list_raises:
  assumes "DomainSearchListOptionHandler lib search_list always_send = Inr h \<and> named_options_of 24 options \<noteq> [] \<or>
    NTPServersOptionHandler lib subs always_send = Inr h \<and> named_options_of 56 options \<noteq> []"
  shows "named_handler_handle True None h options = Inl AttributeError"
  using assms
  by (auto simp: DomainSearchListOptionHandler_def NTPServersOptionHandler_def named_handler_of_def
      named_handler_handle_def DomainSearchListOptionHandler_combine_def NTPServersOptionHandler_combine_def
      elim!: rbind_InrE)

end
