(* ===== verification/Spec2Isabelle.thy ===== *)
theory Spec2Isabelle
  imports WireProperties ServerProperties HandlerProperties PacketProperties DomainProperties
    LeaseProperties ExtensionProperties LoopProperties ConfigProperties ClientProperties
    ServerConfigProperties DomainHandlers
begin

text \<open>
  A verification library of dhcpkit, a DHCPv6 library and server written in Python
  (src/dhcpkit).  It models what a packet goes through in a server: the octets are parsed to a
  message (dhcpkit/ipv6/messages.py, options.py, duids.py), the message is validated
  (protocol_element.py), wrapped by the worker in a relay message of its own
  (ipv6/server/worker.py) and taken apart into a request and its relays
  (ipv6/server/transaction_bundle.py); the message handler (message_handler.py) runs the
  handlers (handlers, filters, server/extensions) on it, and the response travels
  back through the relays, while the statistics count what happens (statistics.py).  Around this
  stand the loop of the main process, which takes packets from the listeners, obeys signals and the
  commands of the control socket, and decides when to reload and when to stop (main.py,
  control_socket.py, and the client dhcpctl.py), and the configuration from which listeners,
  handlers and assignments are made.

  How the code is translated.  A method that may raise returns a result of type \<open>'a res\<close>: the
  exception (\<open>Inl\<close>) or the value (\<open>Inr\<close>), sequenced by \<open>rbind\<close>.  Objects that are only read are
  values of datatypes with one constructor for each class; objects with state are records that
  the operations return updated.  Octets are 8-bit words, IPv6 addresses 128-bit words, counters
  64-bit words that wrap around; the other integers of Python are \<open>int\<close>.  A test of the type of
  an attribute holds by typing and is left out; an attribute that may be \<open>None\<close> is an option.
  Definitions have the names of the classes and methods, \<open>Class_method\<close>.

  The theories, and what they model:
    Prelude: results, loops that may raise, chains of steps;
    Bytes, Text, Addresses: \<open>struct\<close>, UTF-8 and \<open>ipaddress\<close> of the standard library as the code
      uses them, and dhcpkit/ipv6/utils.py;
    Duids: duids.py;
    Elements, Containment: protocol_element.py, and the rules the modules set up with it;
    Items: the loop that every list of items is read with, over an interface for item formats
      (locale \<open>item_codec\<close>, interpreted for user classes, vendor options and, in MessageCodec,
      for the options themselves);
    PlainOptions, PlainCodec: the options that contain no options, and that they read back;
    ExtensionOptions, NestedExtensions, ExtensionCodec: the options of ipv6/extensions that need
      no domain names;
    DomainNames, DomainOptions, DomainCodec: the domain names of dhcpkit/utils.py over the
      package \<open>idna\<close>, and the options of ipv6/extensions that hold them;
    Messages, MessageCodec, ParseBounds: the messages and the options that contain options or
      a message, that they read back, and that reading stays in its bounds;
    Bundle: transaction_bundle.py, the relay chain;
    Handlers, Filters: handlers and filters, one definition for each handler phase;
    Statistics, MessageHandling, Worker: statistics.py, message_handler.py, worker.py;
    AddressText, StatisticsText: addresses and prefixes as text (\<open>ipaddress\<close>), and the text and the
      export of the statistics;
    Listeners: ipv6/server/listeners, above all how a TCP connection cuts its stream into messages;
    OptionHandlers: the server extensions that put an option into the response or copy one from a
      relay, and bulk_leasequery.py; DomainHandlers: those whose options have domain names, on the
      options of a response;
    ClientKeys, StaticAssignments, StaticLaws: the names of a client, static_assignments with its
      lookups in a CSV table and in a database;
    RateLimit, TimingLimits: rate_limit (a token bucket for each client, with the contract of a
      limiter as the locale \<open>limiter\<close>) and timing_limits;
    Leasequery, LeaseStore, LeaseStoreLaws: leasequery, the tables of its database as lists of rows,
      and what every history of the database keeps;
    LeasequeryClient: the client for leasequeries, client/test_leasequery.py;
    Names: the hexadecimal strings and names of dhcpkit/utils.py, the data types of configuration
      values, and the registries of registry.py with their entry points; RegistryLaws: what they hold;
    CsvFile, CsvLaws: the rows of a CSV file of assignments, and the database built of them;
    MapConfig: the mapping rules of map/config.py, and numbers of other sections;
    ListenerConfig: the factories of the listeners, with the sockets they use again;
    ServerConfig: sections and their factories, the message handler that nested sections of filters
      make, the DUID of the server, and the sections of timing_limits, ntp and logging;
    ControlSocket, MainLoop, LoopLaws: control_socket.py and the loop of main.py, whose steps carry
      what the operating system answers, with the selector, which goes by file descriptors, and what every
      state that the loop reaches satisfies (\<open>loop_reach\<close>);
    ControlClient: dhcpctl.py;
    HandlerLaws, Dispatch: what every handler keeps (locale \<open>handler_invariant\<close>) and what the
      dispatcher keeps (locale \<open>transaction_invariant\<close>), interpreted for the relay chain
      (\<open>chain_kept\<close>) and for the kind of answer (\<open>answers\<close>);
    EndToEnd, HandlerEffects, BareServer, ReplyValidity: what is sent for a packet; the effects
      of the handlers that answer what nobody else has; the handlers that the extensions add to every
      server, a server without others, its answer and that the answer is valid;
    Scenario: the exchange on which the properties are instantiated;
    WireProperties, ServerProperties, HandlerProperties, PacketProperties, DomainProperties,
      LeaseProperties, ExtensionProperties, LoopProperties, ConfigProperties, ClientProperties,
      ServerConfigProperties and this theory: the properties, each with an instance.

  Bounds and fuel.  Options nest in options and messages in options, so \<open>option_parse\<close> and
  \<open>message_parse\<close> take a fuel, which also bounds the rounds of the loops.  \<open>Option_parse\<close> and
  \<open>Message_parse\<close> start with the number of octets of the buffer plus one.  That is enough because
  every option takes at least four octets and what it contains starts at least four octets
  further on; \<open>parsing_terminates\<close> says that the fuel is never used up, for any octets.  The
  other loops have termination proofs, but for the one of the leasequery client over \<open>recv\<close>, which need
  not end: it is a partial function whose value is then \<open>None\<close>.

  Parameters.  The registry of option classes (\<open>R\<close>) and the table of containment rules (\<open>T\<close>)
  are arguments: the extensions that are installed fill them.  \<open>core_registry\<close> and
  \<open>core_containment\<close> are what the modelled modules enter.  The handlers of server extensions are
  fields of \<open>message_handler\<close>.  The theorems for servers with any handlers of the program are about
  \<open>core_handler\<close>s: all handlers of handlers and server/extensions, those that every server has and those of
  leasequery included, and every other one that does no more than raise or change the options of the response.
  A \<open>bare_server\<close> has no configured handlers, but those of the extensions that setup.py installs
  (\<open>installed_registry\<close>, in any order).  Sending a reply (\<open>Replier.send_reply\<close>) is an argument that says whether the
  message was sent, refused or failed.

  The package \<open>idna\<close> is the record \<open>idna\<close> of its functions; \<open>idna_labels\<close> and \<open>canonical\<close> state
  what the round trips rely on, and \<open>ascii_idna\<close> is an instance for host names in ASCII.  Reading
  an address or a prefix of text (\<open>ipaddress\<close>) is the record \<open>address_text\<close>, and the rows that the
  csv module gives are an argument.  For the loop of the server, what \<open>select\<close>, \<open>recv\<close>, \<open>send\<close> and
  \<open>accept\<close> answer (\<open>turn_ok\<close>, \<open>surroundings_ok\<close>: objects that are watched, and descriptors that are free), the clock, and the outcome of loading the configuration are parts of the events;
  the addresses of the interfaces are arguments of the factories.  What ZConfig makes of the text of a key
  by its own converters is an argument too.

  Simplifications.  Floats (the factors of timing_limits, the tokens and times of rate_limit, the
  clock of the server, the share of old entries in a database) are rational numbers, without
  rounding; the logarithms of a mapping rule are those of powers of two, where they are exact.  The
  statements on the databases are the operations on lists of rows that SQL defines; a \<open>SELECT\<close> without
  an order has the order of the list, and no other process writes while one is built.  Leases that a
  query finds are computed at once, where the code computes them one by one as they are sent.  In
  commands and names, letters beyond ASCII have no lower case, and numbers are written in ASCII
  digits without underscores.

  Not modelled: the calls of the operating system (privileges, processes, most of the creation of sockets),
  logging (queue_logger.py) and the process pool (nonblocking_pool.py), whose behaviour is that of
  the standard library; ZConfig's processing of a schema; the text and JSON forms of messages and
  options, which are shown to people; user and group names and time stamps of the configuration; the
  documentation generator and the syntax highlighter; \<open>decode_remote_id\<close>, which nothing calls; and
  the POSIX time zone option, whose regular expression matches letters by Unicode case folding.
\<close>

subsection \<open>From packet to reply\<close>

text \<open>
  C2. The end-to-end guarantee.  Whatever packet was received and whatever handlers of the program are configured,
  every message the server sends is a chain of relay replies with the
  addressing of the chain of relay forwards around the request, the listener's own being the
  outermost; inside it is a message from a server to a client with the transaction id of the
  request and a class that fits it.  It sends one such message, and only to a leasequery over TCP more: there
  the data and the end of the answer follow.
\<close>

theorem replies_are_mirrored:
  assumes "handle_message R T mh send packet st = Inr (sent, st')" and "sent \<noteq> []"
    and "\<forall>h \<in> configured_handlers mh. core_handler T h"
  shows "\<exists>b req. parse_incoming_request R T packet = Inr b \<and> request b = Some req
    \<and> (length sent = 1 \<or> cs_class req = LeasequeryMessage \<and> packet_over_tcp packet)
    \<and> (\<forall>out \<in> set sent. \<exists>m.
         map addressing (unwrap_replies [] (Some out)) = map addressing (incoming_relay_messages b)
         \<and> inner_message [RelayMessageOption (Some out)] = Some (cs_message m)
         \<and> cs_transaction_id m = cs_transaction_id req \<and> from_server_to_client (cs_class m)
         \<and> (reply_class (cs_class req) (cs_class m)
            \<or> cs_class req = LeasequeryMessage \<and> packet_over_tcp packet
              \<and> cs_class m \<in> {LeasequeryDataMessage, LeasequeryDoneMessage}))"
proof -
  obtain b req where "parse_incoming_request R T packet = Inr b" "request b = Some req"
    and sent: "\<And>out. out \<in> set sent \<Longrightarrow> \<exists>m. mirrored_reply b req out m
      \<and> (reply_class (cs_class req) (cs_class m)
         \<or> bulk_class (cs_class m) \<and> cs_class req = LeasequeryMessage \<and> packet_over_tcp packet)"
    and "length sent \<le> 1 \<or> cs_class req = LeasequeryMessage \<and> packet_over_tcp packet"
    by (rule sent_reply [OF assms(1,2)]) (use assms(3) in blast)+
  moreover from this(4) assms(2) have "length sent = 1 \<or> cs_class req = LeasequeryMessage \<and> packet_over_tcp packet"
    by (cases sent) auto
  moreover have "\<forall>out \<in> set sent. \<exists>m.
         map addressing (unwrap_replies [] (Some out)) = map addressing (incoming_relay_messages b)
         \<and> inner_message [RelayMessageOption (Some out)] = Some (cs_message m)
         \<and> cs_transaction_id m = cs_transaction_id req \<and> from_server_to_client (cs_class m)
         \<and> (reply_class (cs_class req) (cs_class m)
            \<or> cs_class req = LeasequeryMessage \<and> packet_over_tcp packet
              \<and> cs_class m \<in> {LeasequeryDataMessage, LeasequeryDoneMessage})"
    using sent unfolding mirrored_reply_def bulk_class_def by fast
  ultimately show ?thesis by blast
qed

theorem replies_are_mirrored_witness:
  "\<exists>out st'. handle_message core_registry core_containment ex_handler (\<lambda>_. Sent) ex_packet
      new_server_statistics = Inr ([out], st')
    \<and> (\<exists>m. map addressing (unwrap_replies [] (Some out)) = map addressing (incoming_relay_messages ex_bundle)
       \<and> inner_message [RelayMessageOption (Some out)] = Some (cs_message m)
       \<and> cs_transaction_id m = cs_transaction_id ex_solicit \<and> from_server_to_client (cs_class m)
       \<and> reply_class (cs_class ex_solicit) (cs_class m))"
proof -
  from ex_sent obtain out st' where h: "handle_message core_registry core_containment ex_handler
      (\<lambda>_. Sent) ex_packet new_server_statistics = Inr ([out], st')"
    by blast
  have e: "request ex_bundle = Some ex_solicit" "cs_class ex_solicit = SolicitMessage"
    by (simp_all add: ex_bundle_def ex_solicit_def)
  from replies_are_mirrored [OF h] ex_core h e ex_received show ?thesis by auto
qed

text \<open>
  C6. A server without configured handlers, but with those that the extensions of the program always add, does
  answer: where the replier sends what it is given, handling the
  packet of a solicit, request, renew or rebind that did not come over TCP sends exactly one message, back along the
  relays of the packet, with the answer to the request inside.
\<close>

theorem bare_server_sends_answer:
  assumes "bare_server mh" and "parse_incoming_request R core_containment packet = Inr b"
    and "request b = Some req"
    and "cs_class req \<in> {SolicitMessage, RequestMessage, RenewMessage, RebindMessage}"
    and "get_option_of_type [C_ServerIdOption] (cs_options req) \<in>
      {None, Some (Plain (ServerIdOption (Some (server_id mh))))}"
    and "\<not> packet_over_tcp packet" and "packet_over_multicast packet \<or> 2 \<le> length (incoming_relay_messages b)"
    and "get_update_set (Some (get_interface_name_from_options (packet_relay_options packet)))
      (Some b) st = Inr refs"
  shows "\<exists>out st' m. handle_message R core_containment mh (\<lambda>_. Sent) packet st = Inr ([out], st')
    \<and> inner_message [RelayMessageOption (Some out)] = Some (cs_message m)
    \<and> cs_transaction_id m = cs_transaction_id req
    \<and> cs_class m = (if cs_class req = SolicitMessage then AdvertiseMessage else ReplyMessage)
    \<and> map addressing (unwrap_replies [] (Some out)) = map addressing (incoming_relay_messages b)"
  using assms by (rule bare_server_sent)

theorem bare_server_sends_answer_witness:
  "\<exists>out st' m. handle_message core_registry core_containment ex_handler (\<lambda>_. Sent) ex_packet
      new_server_statistics = Inr ([out], st')
    \<and> inner_message [RelayMessageOption (Some out)] = Some (cs_message m)
    \<and> cs_transaction_id m = cs_transaction_id ex_solicit
    \<and> cs_class m = (if cs_class ex_solicit = SolicitMessage then AdvertiseMessage else ReplyMessage)
    \<and> map addressing (unwrap_replies [] (Some out)) = map addressing (incoming_relay_messages ex_bundle)"
  by (rule bare_server_sends_answer [OF ex_bare ex_received _ _ _ _ _ ex_update_set])
    (simp_all add: ex_bundle_def ex_solicit_def ex_packet_def get_option_of_type_def)

end
